(* ===== verification/Media_Prelude.thy ===== *)
theory Media_Prelude
  imports Main "HOL-Library.Monad_Syntax"
begin

text \<open>
  Shared vocabulary of the development: the error numbers of the C library, the reading of
  \<open>option\<close> as "defined behaviour", the collections of rewrite rules the component theories
  fill, and generic list lemmas.

  Conventions. A C function that can dereference a null or dangling pointer, or access an
  array out of its bounds, is modelled with a result in \<open>option\<close>: \<open>None\<close> stands for that
  undefined behaviour and \<open>Some\<close> for a run that is free of it. An \<open>int\<close> return code is an
  \<open>int\<close>, negative for an error, as in the source. A nullable pointer is an \<open>option\<close> too,
  \<open>None\<close> for NULL; the type says which reading applies.
\<close>

section \<open>Error numbers\<close>

text \<open>
  The values of \<open>errno.h\<close>. The proofs use only that they are positive and distinct.
\<close>

abbreviation (input) EPERM :: int where "EPERM \<equiv> 1"
abbreviation (input) ENOENT :: int where "ENOENT \<equiv> 2"
abbreviation (input) ESRCH :: int where "ESRCH \<equiv> 3"
abbreviation (input) EINTR :: int where "EINTR \<equiv> 4"
abbreviation (input) EIO :: int where "EIO \<equiv> 5"
abbreviation (input) EAGAIN :: int where "EAGAIN \<equiv> 11"
abbreviation (input) ENOMEM :: int where "ENOMEM \<equiv> 12"
abbreviation (input) EINVAL :: int where "EINVAL \<equiv> 22"
abbreviation (input) EMFILE :: int where "EMFILE \<equiv> 24"
abbreviation (input) EFBIG :: int where "EFBIG \<equiv> 27"
abbreviation (input) ENOSPC :: int where "ENOSPC \<equiv> 28"
abbreviation (input) EPIPE :: int where "EPIPE \<equiv> 32"
abbreviation (input) EDEADLK :: int where "EDEADLK \<equiv> 35"
abbreviation (input) ENAMETOOLONG :: int where "ENAMETOOLONG \<equiv> 36"
abbreviation (input) ENOSYS :: int where "ENOSYS \<equiv> 38"
abbreviation (input) ENODATA :: int where "ENODATA \<equiv> 61"
abbreviation (input) ECONNRESET :: int where "ECONNRESET \<equiv> 104"
abbreviation (input) ECANCELED :: int where "ECANCELED \<equiv> 125"
abbreviation (input) ENOTSUP :: int where "ENOTSUP \<equiv> 138"

section \<open>Rule collections\<close>

named_theorems stack_simps \<open>symbolic execution of the focus stack\<close>
named_theorems parcel_simps \<open>symbolic execution of the parcel operations\<close>
named_theorems conn_simps \<open>projections of the server's connection updates\<close>

section \<open>Generic lemmas\<close>

lemma map_nth_list_update_notin:
  "i \<notin> set is \<Longrightarrow> map (\<lambda>j. xs[i := v] ! j) is = map (\<lambda>j. xs ! j) is"
  by (induction "is") auto

lemma distinct_remove1_tl [simp]: "distinct (x # xs) \<Longrightarrow> remove1 x (x # xs) = xs"
  by simp

lemma remove1_filter_distinct: "distinct xs \<Longrightarrow> remove1 x xs = filter (\<lambda>y. y \<noteq> x) xs"
  by (induction xs) (auto intro: filter_True[symmetric])

lemma bind_Some_iff: "Option.bind m f = Some y \<longleftrightarrow> (\<exists>x. m = Some x \<and> f x = Some y)"
  by (cases m) auto

lemma bind_None_iff: "Option.bind m f = None \<longleftrightarrow> (\<forall>x. m = Some x \<longrightarrow> f x = None)"
  by (cases m) auto

end
