(* ===== verification/Focus_Stack.thy ===== *)
theory Focus_Stack
  imports Media_Prelude
begin

text \<open>
  The priority stack of \<open>server/focus_stack.c\<close>. The C code keeps an array \<open>node_list\<close> of
  \<open>max_size\<close> nodes, indexed by client id, and threads the nodes in use on an intrusive list,
  top of the stack first. The model keeps the array as a list and the intrusive list as the
  list \<open>order\<close> of the slots it links, so that the aliasing between the two is explicit.

  The listener \<open>focus_change_callback\<close> is a function pointer given to
  \<open>app_focus_stack_init\<close>; every operation returns the list of calls it makes to it, with the
  two focus ids as they are at the time of the call. \<open>None\<close> is undefined behaviour: an access
  outside \<open>node_list\<close>, a step from the list's sentinel, or linking a node that is linked.
\<close>

section \<open>Types\<close>

type_synonym ptr = "nat option"

definition APP_FOCUS_STATE_STACK_TOP :: int where "APP_FOCUS_STATE_STACK_TOP = 1"
definition APP_FOCUS_STATE_STACK_QUIT :: int where "APP_FOCUS_STATE_STACK_QUIT = -1"
definition APP_FOCUS_STATE_STACK_UNDER :: int where "APP_FOCUS_STATE_STACK_UNDER = -2"

lemmas focus_state_defs =
  APP_FOCUS_STATE_STACK_TOP_def APP_FOCUS_STATE_STACK_QUIT_def APP_FOCUS_STATE_STACK_UNDER_def

record app_focus_id =
  client_id :: int
  focus_level :: int
  thread_id :: nat
  focus_state :: int
  focus_callback :: ptr
  callback_argv :: ptr

record app_focus_stack =
  node_list :: "app_focus_id list"
  order :: "nat list"
  max_size :: int
  cur_size :: int

type_synonym focus_change = "app_focus_id \<times> app_focus_id \<times> int"

section \<open>The node array and the intrusive list\<close>

definition empty_focus_id :: app_focus_id where
  "empty_focus_id = \<lparr>client_id = -1, focus_level = 0, thread_id = 0,
     focus_state = APP_FOCUS_STATE_STACK_QUIT, focus_callback = None, callback_argv = None\<rparr>"

definition node :: "app_focus_stack \<Rightarrow> nat \<Rightarrow> app_focus_id" where
  "node s i = node_list s ! i"

definition set_node :: "nat \<Rightarrow> app_focus_id \<Rightarrow> app_focus_stack \<Rightarrow> app_focus_stack" where
  "set_node i v s = s\<lparr>node_list := (node_list s)[i := v]\<rparr>"

definition set_state :: "nat \<Rightarrow> int \<Rightarrow> app_focus_stack \<Rightarrow> app_focus_stack" where
  "set_state i st s = set_node i ((node s i)\<lparr>focus_state := st\<rparr>) s"

definition slot :: "app_focus_stack \<Rightarrow> int \<Rightarrow> nat option" where
  "slot s i = (if 0 \<le> i \<and> nat i < length (node_list s) then Some (nat i) else None)"

definition list_head :: "app_focus_stack \<Rightarrow> nat option" where
  "list_head s = (case order s of [] \<Rightarrow> None | h # _ \<Rightarrow> Some h)"

definition list_next :: "app_focus_stack \<Rightarrow> nat option" where
  \<comment> \<open>the node after the head; \<open>None\<close> when that is the sentinel\<close>
  "list_next s = (case order s of _ # t # _ \<Rightarrow> Some t | _ \<Rightarrow> None)"

definition list_add_head :: "nat \<Rightarrow> app_focus_stack \<Rightarrow> app_focus_stack option" where
  "list_add_head i s = (if i \<in> set (order s) then None else Some (s\<lparr>order := i # order s\<rparr>))"

fun insert_after :: "nat \<Rightarrow> nat \<Rightarrow> nat list \<Rightarrow> nat list" where
  "insert_after p i [] = []"
| "insert_after p i (x # xs) = (if x = p then x # i # xs else x # insert_after p i xs)"

definition list_delete :: "nat \<Rightarrow> app_focus_stack \<Rightarrow> app_focus_stack" where
  "list_delete i s = s\<lparr>order := remove1 i (order s)\<rparr>"

definition dec_size :: "app_focus_stack \<Rightarrow> app_focus_stack" where
  "dec_size s = s\<lparr>cur_size := cur_size s - 1\<rparr>"

section \<open>Private functions\<close>

definition app_focus_stack_is_full :: "app_focus_stack \<Rightarrow> bool" where
  "app_focus_stack_is_full s \<longleftrightarrow> cur_size s = max_size s"

definition app_focus_stack_is_empty :: "app_focus_stack \<Rightarrow> bool" where
  "app_focus_stack_is_empty s \<longleftrightarrow> cur_size s = 0"

definition app_focus_stack_size :: "app_focus_stack \<Rightarrow> int" where
  "app_focus_stack_size s = cur_size s"

definition app_focus_stack_change_callback ::
    "app_focus_id \<Rightarrow> app_focus_id \<Rightarrow> int \<Rightarrow> focus_change list" where
  "app_focus_stack_change_callback cur req flag = [(cur, req, flag)]"

definition app_focus_node_list_remove ::
    "app_focus_stack \<Rightarrow> int \<Rightarrow> (int \<times> app_focus_stack) option" where
  "app_focus_node_list_remove s input_client_id = do {
     i \<leftarrow> slot s input_client_id;
     if client_id (node s i) \<noteq> -1
     then Some (0, set_node i ((node s i)\<lparr>client_id := -1, focus_level := 0, thread_id := 0,
            focus_state := APP_FOCUS_STATE_STACK_QUIT,
            focus_callback := None, callback_argv := None\<rparr>) s)
     else Some (-ENOENT, s)
   }"

definition app_focus_stack_thread_is_alive :: "(nat \<Rightarrow> bool) \<Rightarrow> app_focus_id \<Rightarrow> int" where
  \<comment> \<open>\<open>live t\<close> is the answer of \<open>pthread_kill(t, 0)\<close>: zero for a live thread\<close>
  "app_focus_stack_thread_is_alive live value = (if live (thread_id value) then 0 else -ESRCH)"

section \<open>Public functions\<close>

definition app_focus_stack_top :: "app_focus_stack \<Rightarrow> app_focus_id \<Rightarrow> (int \<times> app_focus_id) option" where
  "app_focus_stack_top s value =
     (if app_focus_stack_is_empty s then Some (-ENOENT, value)
      else do { h \<leftarrow> list_head s; Some (0, node s h) })"

definition app_focus_stack_pop :: "app_focus_stack \<Rightarrow> app_focus_id \<Rightarrow> int
    \<Rightarrow> (int \<times> app_focus_id \<times> focus_change list \<times> app_focus_stack) option" where
  "app_focus_stack_pop s value callback_flag =
     (if app_focus_stack_is_empty s then Some (-ENOENT, value, [], s)
      else do {
        h \<leftarrow> list_head s;
        let s1 = set_state h APP_FOCUS_STATE_STACK_QUIT s;
        let v = node s1 h;
        (log, s2) \<leftarrow>
          (if cur_size s1 = 1 then Some ([], list_delete h s1)
           else do {
             t \<leftarrow> list_next s1;
             let s' = set_state t APP_FOCUS_STATE_STACK_TOP s1;
             let log = app_focus_stack_change_callback v (node s' t) callback_flag;
             Some (log, list_delete h s')
           });
        let s3 = dec_size s2;
        (_, s4) \<leftarrow> app_focus_node_list_remove s3 (client_id (node s3 h));
        Some (0, v, log, s4)
      })"

definition app_focus_stack_push :: "app_focus_stack \<Rightarrow> app_focus_id \<Rightarrow> int
    \<Rightarrow> (int \<times> focus_change list \<times> app_focus_stack) option" where
  "app_focus_stack_push s value callback_flag =
     (if app_focus_stack_is_full s then Some (-ENOSPC, [], s)
      else if client_id value = -1 then Some (-EINVAL, [], s)
      else do {
        i \<leftarrow> slot s (client_id value);
        let s1 = set_node i value s;
        (log, s2) \<leftarrow>
          (if \<not> app_focus_stack_is_empty s1 then do {
             h \<leftarrow> list_head s1;
             let s' = set_state h APP_FOCUS_STATE_STACK_UNDER s1;
             Some (app_focus_stack_change_callback value (node s' h) callback_flag, s')
           }
           else Some ([], s1));
        s3 \<leftarrow> list_add_head i s2;
        let s4 = s3\<lparr>cur_size := cur_size s3 + 1\<rparr>;
        Some (0, log, set_state i APP_FOCUS_STATE_STACK_TOP s4)
      })"

text \<open>
  The loop of \<open>app_focus_stack_insert\<close>: \<open>count\<close> runs along the list until it is one less
  than the index asked for; the new node \<open>i\<close> is then linked after the current one.
\<close>

fun insert_position :: "nat list \<Rightarrow> int \<Rightarrow> int \<Rightarrow> nat option" where
  "insert_position [] count index = None"
| "insert_position (p # ps) count index =
     (if count = index - 1 then Some p else insert_position ps (count + 1) index)"

definition app_focus_stack_insert :: "app_focus_stack \<Rightarrow> app_focus_id \<Rightarrow> int
    \<Rightarrow> (int \<times> focus_change list \<times> app_focus_stack) option" where
  "app_focus_stack_insert s value index =
     (if app_focus_stack_is_full s then Some (-ENOSPC, [], s)
      else if app_focus_stack_is_empty s then app_focus_stack_push s value index
      else if client_id value = -1 then Some (-EINVAL, [], s)
      else do {
        i \<leftarrow> slot s (client_id value);
        let s1 = set_node i value s;
        (if i \<in> set (order s1) then None
         else case insert_position (order s1) 0 index of
           Some p \<Rightarrow>
             let s2 = set_state i APP_FOCUS_STATE_STACK_UNDER s1
             in Some (0, [], s2\<lparr>order := insert_after p i (order s2), cur_size := cur_size s2 + 1\<rparr>)
         | None \<Rightarrow> do {
             (_, s2) \<leftarrow> app_focus_node_list_remove s1 (client_id value);
             Some (-ENOENT, [], s2)
           })
      })"

fun delete_under_loop :: "nat list \<Rightarrow> app_focus_stack \<Rightarrow> app_focus_id
    \<Rightarrow> (int \<times> app_focus_id \<times> focus_change list \<times> app_focus_stack) option" where
  "delete_under_loop [] s value = Some (-ENOENT, value, [], s)"
| "delete_under_loop (p # ps) s value =
     (if client_id (node s p) = client_id value then do {
        let s1 = set_state p APP_FOCUS_STATE_STACK_QUIT s;
        let v = value\<lparr>focus_callback := focus_callback (node s1 p),
                      callback_argv := callback_argv (node s1 p)\<rparr>;
        let s2 = list_delete p s1;
        (_, s3) \<leftarrow> app_focus_node_list_remove s2 (client_id (node s2 p));
        Some (0, v, [], dec_size s3)
      }
      else delete_under_loop ps s value)"

definition app_focus_stack_delete :: "app_focus_stack \<Rightarrow> app_focus_id \<Rightarrow> int
    \<Rightarrow> (int \<times> app_focus_id \<times> focus_change list \<times> app_focus_stack) option" where
  "app_focus_stack_delete s value callback_flag =
     (if app_focus_stack_is_empty s then Some (-ENOENT, value, [], s)
      else do {
        h \<leftarrow> list_head s;
        (if client_id (node s h) = client_id value then
           app_focus_stack_pop s
             (value\<lparr>focus_callback := focus_callback (node s h),
                    callback_argv := callback_argv (node s h)\<rparr>) callback_flag
         else delete_under_loop (order s) s value)
      })"

text \<open>
  \<open>app_focus_stack_useless_clear\<close> walks the list with \<open>list_for_every_entry_safe\<close>: the
  successor is read before the body runs and the body unlinks the current node only, so the
  walk visits the nodes linked at its start, each with the successor it had then.
\<close>

fun useless_clear_loop :: "(nat \<Rightarrow> bool) \<Rightarrow> int \<Rightarrow> nat list \<Rightarrow> app_focus_stack
    \<Rightarrow> (focus_change list \<times> app_focus_stack) option" where
  "useless_clear_loop live callback_flag [] s = Some ([], s)"
| "useless_clear_loop live callback_flag (p # rest) s =
     (if app_focus_stack_thread_is_alive live (node s p) \<noteq> 0 then do {
        let s1 = list_delete p s;
        (log, s2) \<leftarrow>
          (if focus_state (node s1 p) = APP_FOCUS_STATE_STACK_TOP then
             if app_focus_stack_size s1 = 1 then Some ([], s1\<lparr>order := []\<rparr>)
             else case rest of
                [] \<Rightarrow> None
              | q # _ \<Rightarrow>
                  let s' = set_state q APP_FOCUS_STATE_STACK_TOP s1
                  in Some (if app_focus_stack_thread_is_alive live (node s' q) = 0
                           then app_focus_stack_change_callback (node s' p) (node s' q) callback_flag
                           else [], s')
           else Some ([], s1));
        let s3 = set_state p APP_FOCUS_STATE_STACK_QUIT s2;
        (_, s4) \<leftarrow> app_focus_node_list_remove s3 (client_id (node s3 p));
        (log', s5) \<leftarrow> useless_clear_loop live callback_flag rest (dec_size s4);
        Some (log @ log', s5)
      }
      else useless_clear_loop live callback_flag rest s)"

definition app_focus_stack_useless_clear :: "(nat \<Rightarrow> bool) \<Rightarrow> app_focus_stack \<Rightarrow> int
    \<Rightarrow> (focus_change list \<times> app_focus_stack) option" where
  "app_focus_stack_useless_clear live s callback_flag =
     (if \<not> app_focus_stack_is_empty s
      then useless_clear_loop live callback_flag (order s) s else Some ([], s))"

definition app_focus_stack_top_change_broadcast :: "app_focus_stack \<Rightarrow> int
    \<Rightarrow> (int \<times> focus_change list) option" where
  "app_focus_stack_top_change_broadcast s callback_flag =
     (if app_focus_stack_size s < 2 then Some (-EPERM, [])
      else do {
        h \<leftarrow> list_head s;
        Some (0, concat (map (\<lambda>p. if focus_state (node s p) = APP_FOCUS_STATE_STACK_TOP then []
                   else app_focus_stack_change_callback (node s h) (node s p) callback_flag) (order s)))
      })"

fun clean_loop :: "app_focus_id \<Rightarrow> int \<Rightarrow> nat list \<Rightarrow> app_focus_stack
    \<Rightarrow> (focus_change list \<times> app_focus_stack) option" where
  "clean_loop value callback_flag [] s = Some ([], s)"
| "clean_loop value callback_flag (p # rest) s = do {
     let s1 = list_delete p (set_state p APP_FOCUS_STATE_STACK_QUIT s);
     let log = app_focus_stack_change_callback value (node s1 p) callback_flag;
     (_, s2) \<leftarrow> app_focus_node_list_remove s1 (client_id (node s1 p));
     (log', s3) \<leftarrow> clean_loop value callback_flag rest (dec_size s2);
     Some (log @ log', s3)
   }"

definition app_focus_stack_clean :: "app_focus_stack \<Rightarrow> app_focus_id \<Rightarrow> int
    \<Rightarrow> (focus_change list \<times> app_focus_stack) option" where
  "app_focus_stack_clean s value callback_flag = clean_loop value callback_flag (order s) s"

fun search_loop :: "(app_focus_id \<Rightarrow> bool) \<Rightarrow> app_focus_stack \<Rightarrow> nat list \<Rightarrow> int \<Rightarrow> int" where
  "search_loop P s [] count = -ENOENT"
| "search_loop P s (p # ps) count = (if P (node s p) then count else search_loop P s ps (count + 1))"

definition app_focus_stack_search_client_id :: "app_focus_stack \<Rightarrow> app_focus_id \<Rightarrow> int" where
  "app_focus_stack_search_client_id s value =
     (if app_focus_stack_is_empty s then -ENOENT
      else search_loop (\<lambda>e. client_id e = client_id value) s (order s) 0)"

definition app_focus_stack_search_focus_level :: "app_focus_stack \<Rightarrow> app_focus_id \<Rightarrow> int" where
  "app_focus_stack_search_focus_level s value =
     (if app_focus_stack_is_empty s then -ENOENT
      else search_loop (\<lambda>e. focus_level e = focus_level value) s (order s) 0)"

fun get_index_loop :: "app_focus_stack \<Rightarrow> nat list \<Rightarrow> int \<Rightarrow> int \<Rightarrow> app_focus_id option" where
  "get_index_loop s [] count index = None"
| "get_index_loop s (p # ps) count index =
     (if count = index then Some (node s p) else get_index_loop s ps (count + 1) index)"

definition app_focus_stack_get_index :: "app_focus_stack \<Rightarrow> app_focus_id \<Rightarrow> int
    \<Rightarrow> int \<times> app_focus_id" where
  "app_focus_stack_get_index s value index =
     (case get_index_loop s (order s) 0 index of Some v \<Rightarrow> (0, v) | None \<Rightarrow> (-ENOENT, value))"

definition app_focus_stack_init :: "bool \<Rightarrow> bool \<Rightarrow> nat \<Rightarrow> app_focus_stack option" where
  \<comment> \<open>the two flags say whether \<open>malloc\<close> and \<open>calloc\<close> succeed; \<open>None\<close> is the NULL returned\<close>
  "app_focus_stack_init malloc_ok calloc_ok focus_stack_size =
     (if \<not> malloc_ok then None
      else if \<not> calloc_ok then None
      else Some \<lparr>node_list = replicate focus_stack_size empty_focus_id, order = [],
                 max_size = int focus_stack_size, cur_size = 0\<rparr>)"

fun free_id_loop :: "app_focus_id list \<Rightarrow> int \<Rightarrow> int" where
  "free_id_loop [] i = -ENODATA"
| "free_id_loop (n # ns) i = (if client_id n = -1 then i else free_id_loop ns (i + 1))"

definition app_focus_free_client_id :: "app_focus_stack \<Rightarrow> int" where
  "app_focus_free_client_id s =
     (if app_focus_stack_is_full s then -ENODATA else free_id_loop (node_list s) 0)"

fun return_loop :: "app_focus_stack \<Rightarrow> nat list \<Rightarrow> int \<Rightarrow> int \<Rightarrow> app_focus_id list \<Rightarrow> app_focus_id list \<times> int" where
  "return_loop s [] size_count num out = (out, size_count)"
| "return_loop s (p # ps) size_count num out =
     return_loop s ps (size_count + 1) num
       (if size_count < cur_size s \<and> size_count < num then out @ [node s p] else out)"

definition app_focus_stack_return :: "app_focus_stack \<Rightarrow> int \<Rightarrow> app_focus_id list \<times> int" where
  \<comment> \<open>the entries written to \<open>focus_id_list\<close>, from its start, and the result\<close>
  "app_focus_stack_return s num =
     (let (out, size_count) = return_loop s (order s) 0 num [] in (out, num - size_count))"

section \<open>Well-formed stacks\<close>

text \<open>
  The invariant ties the array to the list: the list links distinct slots, a linked slot holds
  its own index as client id, every other slot holds the cleared value, with client id \<open>-1\<close>, the sizes agree, and
  exactly the head of the list is in state TOP.
\<close>

definition linked_ok :: "app_focus_stack \<Rightarrow> bool" where
  "linked_ok s \<longleftrightarrow> distinct (order s) \<and> set (order s) \<subseteq> {..<length (node_list s)}"

definition ids_ok :: "app_focus_stack \<Rightarrow> bool" where
  "ids_ok s \<longleftrightarrow> (\<forall>i<length (node_list s).
     if i \<in> set (order s) then client_id (node s i) = int i else node s i = empty_focus_id)"

definition states_ok :: "app_focus_stack \<Rightarrow> bool" where
  "states_ok s \<longleftrightarrow> (\<forall>i\<in>set (order s). focus_state (node s i) =
     (if i = hd (order s) then APP_FOCUS_STATE_STACK_TOP else APP_FOCUS_STATE_STACK_UNDER))"

definition sizes_ok :: "app_focus_stack \<Rightarrow> bool" where
  "sizes_ok s \<longleftrightarrow> max_size s = int (length (node_list s)) \<and> cur_size s = int (length (order s))"

definition stack_wf :: "app_focus_stack \<Rightarrow> bool" where
  "stack_wf s \<longleftrightarrow> linked_ok s \<and> ids_ok s \<and> states_ok s \<and> sizes_ok s"

lemmas wf_defs = stack_wf_def linked_ok_def ids_ok_def states_ok_def sizes_ok_def

text \<open>The entries of the stack, top first: what the array and the list represent together.\<close>

definition entries :: "app_focus_stack \<Rightarrow> app_focus_id list" where
  "entries s = map (node s) (order s)"

subsection \<open>Symbolic execution\<close>

lemma node_set_node [stack_simps]:
  "node (set_node i v s) j = (if i = j \<and> i < length (node_list s) then v else node s j)"
  by (cases "i < length (node_list s)")
    (auto simp: node_def set_node_def nth_list_update list_update_beyond)

lemma node_set_state [stack_simps]:
  "node (set_state i st s) j =
     (if i = j \<and> i < length (node_list s) then (node s i)\<lparr>focus_state := st\<rparr> else node s j)"
  by (simp add: set_state_def node_set_node)

lemma set_node_fields [stack_simps]:
  "order (set_node i v s) = order s" "max_size (set_node i v s) = max_size s"
  "cur_size (set_node i v s) = cur_size s"
  "length (node_list (set_node i v s)) = length (node_list s)"
  by (simp_all add: set_node_def)

lemma set_state_fields [stack_simps]:
  "order (set_state i st s) = order s" "max_size (set_state i st s) = max_size s"
  "cur_size (set_state i st s) = cur_size s"
  "length (node_list (set_state i st s)) = length (node_list s)"
  by (simp_all add: set_state_def stack_simps)

lemma list_delete_fields [stack_simps]:
  "order (list_delete i s) = remove1 i (order s)" "max_size (list_delete i s) = max_size s"
  "cur_size (list_delete i s) = cur_size s" "node_list (list_delete i s) = node_list s"
  "node (list_delete i s) j = node s j"
  by (simp_all add: list_delete_def node_def)

lemma dec_size_fields [stack_simps]:
  "order (dec_size s) = order s" "max_size (dec_size s) = max_size s"
  "cur_size (dec_size s) = cur_size s - 1" "node_list (dec_size s) = node_list s"
  "node (dec_size s) j = node s j"
  by (simp_all add: dec_size_def node_def)

lemma record_update_nodes [stack_simps]:
  "node (s\<lparr>order := o'\<rparr>) j = node s j" "node (s\<lparr>cur_size := n\<rparr>) j = node s j"
  by (simp_all add: node_def)

lemma slot_int [stack_simps]: "i < length (node_list s) \<Longrightarrow> slot s (int i) = Some i"
  by (simp add: slot_def)

lemma slot_Some: "slot s c = Some i \<longleftrightarrow> c = int i \<and> i < length (node_list s)"
  by (auto simp: slot_def)

text \<open>Clearing a slot always leaves the value a fresh stack is initialised with.\<close>

lemma cleared_focus_id [stack_simps]:
  "v\<lparr>client_id := -1, focus_level := 0, thread_id := 0, focus_state := APP_FOCUS_STATE_STACK_QUIT,
     focus_callback := None, callback_argv := None\<rparr> = empty_focus_id"
  by (cases v) (simp add: empty_focus_id_def)

lemma set_node_set_node: "set_node i v (set_node i w s) = set_node i v s"
  by (simp add: set_node_def)

lemma set_node_set_state: "set_node i v (set_state i st s) = set_node i v s"
  by (simp add: set_state_def set_node_set_node)

lemma set_state_eq_self:
  "i < length (node_list s) \<Longrightarrow> focus_state (node s i) = st \<Longrightarrow> set_state i st s = s"
  by (cases s) (auto simp: set_state_def set_node_def node_def list_update_same_conv)

lemma set_node_commute_fields:
  "set_node i v (list_delete j s) = list_delete j (set_node i v s)"
  "set_node i v (dec_size s) = dec_size (set_node i v s)"
  "list_delete j (dec_size s) = dec_size (list_delete j s)"
  by (simp_all add: set_node_def list_delete_def dec_size_def)

subsection \<open>Closed forms of the state changes\<close>

definition unlink :: "nat \<Rightarrow> app_focus_stack \<Rightarrow> app_focus_stack" where
  "unlink p s = dec_size (list_delete p (set_node p empty_focus_id s))"

definition link_top :: "nat \<Rightarrow> app_focus_id \<Rightarrow> app_focus_stack \<Rightarrow> app_focus_stack" where
  "link_top i v s = (set_node i (v\<lparr>focus_state := APP_FOCUS_STATE_STACK_TOP\<rparr>)
      (case order s of [] \<Rightarrow> s | h # _ \<Rightarrow> set_state h APP_FOCUS_STATE_STACK_UNDER s))
     \<lparr>order := i # order s, cur_size := cur_size s + 1\<rparr>"

definition link_under :: "nat \<Rightarrow> nat \<Rightarrow> app_focus_id \<Rightarrow> app_focus_stack \<Rightarrow> app_focus_stack" where
  "link_under p i v s = (set_node i (v\<lparr>focus_state := APP_FOCUS_STATE_STACK_UNDER\<rparr>) s)
     \<lparr>order := insert_after p i (order s), cur_size := cur_size s + 1\<rparr>"

lemma unlink_fields [stack_simps]:
  "order (unlink p s) = remove1 p (order s)" "max_size (unlink p s) = max_size s"
  "cur_size (unlink p s) = cur_size s - 1"
  "length (node_list (unlink p s)) = length (node_list s)"
  "node (unlink p s) j = (if p = j \<and> p < length (node_list s) then empty_focus_id else node s j)"
  by (auto simp: unlink_def stack_simps)

lemma set_node_commute: "i \<noteq> j \<Longrightarrow> set_node i v (set_node j w s) = set_node j w (set_node i v s)"
  by (simp add: set_node_def list_update_swap)

lemma set_state_set_node_commute:
  "i \<noteq> j \<Longrightarrow> set_state j st (set_node i v s) = set_node i v (set_state j st s)"
  by (simp add: set_state_def node_set_node set_node_commute)

lemma set_state_set_node_same:
  "i < length (node_list s) \<Longrightarrow>
     set_state i st (set_node i v s) = set_node i (v\<lparr>focus_state := st\<rparr>) s"
  by (simp add: set_state_def node_set_node set_node_set_node)

lemma set_state_commute_fields:
  "set_state i st (list_delete j s) = list_delete j (set_state i st s)"
  "set_state i st (dec_size s) = dec_size (set_state i st s)"
  "set_state i st (s\<lparr>order := o'\<rparr>) = (set_state i st s)\<lparr>order := o'\<rparr>"
  "set_state i st (s\<lparr>cur_size := n\<rparr>) = (set_state i st s)\<lparr>cur_size := n\<rparr>"
  by (simp_all add: set_state_def list_delete_def dec_size_def set_node_def node_def)

lemma set_node_record_fields:
  "set_node i v (s\<lparr>order := o'\<rparr>) = (set_node i v s)\<lparr>order := o'\<rparr>"
  "set_node i v (s\<lparr>cur_size := n\<rparr>) = (set_node i v s)\<lparr>cur_size := n\<rparr>"
  by (simp_all add: set_node_def)

lemma node_list_remove_linked [stack_simps]:
  assumes "p < length (node_list s)" "client_id (node s p) = int p"
  shows "app_focus_node_list_remove s (int p) = Some (0, set_node p empty_focus_id s)"
  using assms by (simp add: app_focus_node_list_remove_def slot_int cleared_focus_id)

subsection \<open>Consequences of well-formedness\<close>

lemma wfD:
  assumes "stack_wf s"
  shows wf_distinct: "distinct (order s)"
    and wf_bound: "i \<in> set (order s) \<Longrightarrow> i < length (node_list s)"
    and wf_id: "i \<in> set (order s) \<Longrightarrow> client_id (node s i) = int i"
    and wf_free: "i < length (node_list s) \<Longrightarrow> i \<notin> set (order s) \<Longrightarrow> node s i = empty_focus_id"
    and wf_top: "order s = h # r \<Longrightarrow> focus_state (node s h) = APP_FOCUS_STATE_STACK_TOP"
    and wf_under: "order s = h # r \<Longrightarrow> i \<in> set r \<Longrightarrow>
          focus_state (node s i) = APP_FOCUS_STATE_STACK_UNDER"
    and wf_cur: "cur_size s = int (length (order s))"
    and wf_max: "max_size s = int (length (node_list s))"
  using assms by (auto simp: wf_defs)

lemma wf_empty_iff [simp]: "stack_wf s \<Longrightarrow> app_focus_stack_is_empty s \<longleftrightarrow> order s = []"
  by (simp add: app_focus_stack_is_empty_def wf_cur)

lemma wf_full_iff: "stack_wf s \<Longrightarrow>
    app_focus_stack_is_full s \<longleftrightarrow> length (order s) = length (node_list s)"
  by (simp add: app_focus_stack_is_full_def wf_cur wf_max)

lemma entries_empty_iff: "entries s = [] \<longleftrightarrow> order s = []"
  by (simp add: entries_def)

lemma entries_ids: "stack_wf s \<Longrightarrow> map client_id (entries s) = map int (order s)"
  by (simp add: entries_def wf_id)

lemma wf_not_full_free:
  assumes "stack_wf s" "\<not> app_focus_stack_is_full s"
  shows "\<exists>i<length (node_list s). i \<notin> set (order s)"
proof (rule ccontr)
  assume "\<not> ?thesis"
  then have "{..<length (node_list s)} \<subseteq> set (order s)" by auto
  with assms(1) have "set (order s) = {..<length (node_list s)}"
    by (auto simp: wf_bound)
  with wf_distinct[OF assms(1)] have "length (order s) = length (node_list s)"
    by (metis card_lessThan distinct_card)
  with assms show False by (simp add: wf_full_iff)
qed

subsection \<open>The closed forms keep the stack well formed\<close>

lemma empty_focus_id_fields [simp]:
  "client_id empty_focus_id = -1" "focus_state empty_focus_id = APP_FOCUS_STATE_STACK_QUIT"
  by (simp_all add: empty_focus_id_def)

text \<open>
  The four parts of the invariant, for a state given by its list and its slots.
\<close>

lemma stack_wfI:
  assumes "distinct os" "order s = os" "\<And>i. i \<in> set os \<Longrightarrow> i < length (node_list s)"
    and "\<And>i. i \<in> set os \<Longrightarrow> client_id (node s i) = int i"
    and "\<And>i. i < length (node_list s) \<Longrightarrow> i \<notin> set os \<Longrightarrow> node s i = empty_focus_id"
    and "\<And>h r. os = h # r \<Longrightarrow> focus_state (node s h) = APP_FOCUS_STATE_STACK_TOP"
    and "\<And>h r i. os = h # r \<Longrightarrow> i \<in> set r \<Longrightarrow> focus_state (node s i) = APP_FOCUS_STATE_STACK_UNDER"
    and "max_size s = int (length (node_list s))" "cur_size s = int (length os)"
  shows "stack_wf s"
  using assms by (cases os) (auto simp: wf_defs)

lemma wf_unlink_under:
  assumes wf: "stack_wf s" and o': "order s = h # r" and p: "p \<in> set r"
  shows "stack_wf (unlink p s)"
proof (rule stack_wfI)
  have ne: "p \<noteq> h" and d: "distinct r" "h \<notin> set r"
    using wf_distinct[OF wf] p o' by auto
  have mem: "i \<in> set (remove1 p r) \<longleftrightarrow> i \<in> set r \<and> i \<noteq> p" for i
    using d by simp
  show "distinct (h # remove1 p r)" using d mem by simp
  show "order (unlink p s) = h # remove1 p r" using ne by (simp add: stack_simps o')
  fix i
  show "i \<in> set (h # remove1 p r) \<Longrightarrow> i < length (node_list (unlink p s))"
    using wf_bound[OF wf, of i] mem o' by (auto simp: unlink_fields)
  show "i \<in> set (h # remove1 p r) \<Longrightarrow> client_id (node (unlink p s) i) = int i"
    using wf_id[OF wf, of i] mem o' ne by (auto simp: unlink_fields)
  show "i < length (node_list (unlink p s)) \<Longrightarrow> i \<notin> set (h # remove1 p r) \<Longrightarrow>
      node (unlink p s) i = empty_focus_id"
    using wf_free[OF wf, of i] mem o' by (auto simp: unlink_fields)
next
  have ne: "p \<noteq> h" and d: "distinct r"
    using wf_distinct[OF wf] p o' by auto
  fix h' r' i
  assume eq: "h # remove1 p r = h' # r'"
  show "focus_state (node (unlink p s) h') = APP_FOCUS_STATE_STACK_TOP"
    using eq ne wf_top[OF wf o'] by (auto simp: unlink_fields)
  show "i \<in> set r' \<Longrightarrow> focus_state (node (unlink p s) i) = APP_FOCUS_STATE_STACK_UNDER"
    using eq d wf_under[OF wf o', of i] by (auto simp: unlink_fields)
qed (use wf p o' length_pos_if_in_set[OF p] in
     \<open>auto simp: unlink_fields wf_max wf_cur length_remove1 of_nat_diff Suc_leI\<close>)

lemma wf_unlink_only:
  assumes wf: "stack_wf s" and o': "order s = [h]"
  shows "stack_wf (unlink h s)"
proof (rule stack_wfI[where os = "[]"])
  fix i
  show "i < length (node_list (unlink h s)) \<Longrightarrow> i \<notin> set [] \<Longrightarrow>
      node (unlink h s) i = empty_focus_id"
    using wf_free[OF wf, of i] o' by (auto simp: unlink_fields)
qed (use wf o' in \<open>auto simp: unlink_fields wf_max wf_cur\<close>)

lemma wf_unlink_top:
  assumes wf: "stack_wf s" and o': "order s = h # t # r"
  shows "stack_wf (unlink h (set_state t APP_FOCUS_STATE_STACK_TOP s))" (is "stack_wf ?s")
proof (rule stack_wfI[where os = "t # r"])
  have d: "h \<noteq> t" "h \<notin> set r" "t \<notin> set r" "distinct r" using wf_distinct[OF wf] o' by auto
  have t: "t < length (node_list s)" using wf_bound[OF wf] o' by simp
  note ex = unlink_fields node_set_state set_state_fields
  show "distinct (t # r)" using d by simp
  show "order ?s = t # r" by (simp add: ex o')
  fix i
  show "i \<in> set (t # r) \<Longrightarrow> i < length (node_list ?s)"
    using wf_bound[OF wf, of i] o' by (auto simp: ex)
  show "i \<in> set (t # r) \<Longrightarrow> client_id (node ?s i) = int i"
    using wf_id[OF wf, of i] o' d by (auto simp: ex)
  show "i < length (node_list ?s) \<Longrightarrow> i \<notin> set (t # r) \<Longrightarrow> node ?s i = empty_focus_id"
    using wf_free[OF wf, of i] o' by (auto simp: ex)
  fix h' r'
  assume eq: "t # r = h' # r'"
  show "focus_state (node ?s h') = APP_FOCUS_STATE_STACK_TOP"
    using eq d t by (auto simp: ex)
  show "i \<in> set r' \<Longrightarrow> focus_state (node ?s i) = APP_FOCUS_STATE_STACK_UNDER"
    using eq d wf_under[OF wf o', of i] by (auto simp: ex)
qed (use wf o' in \<open>auto simp: unlink_fields set_state_fields wf_max wf_cur\<close>)

lemma set_insert_after: "p \<in> set xs \<Longrightarrow> set (insert_after p i xs) = insert i (set xs)"
  by (induction xs) auto

lemma distinct_insert_after:
  "distinct xs \<Longrightarrow> i \<notin> set xs \<Longrightarrow> p \<in> set xs \<Longrightarrow> distinct (insert_after p i xs)"
  by (induction xs) (auto simp: set_insert_after)

lemma length_insert_after: "p \<in> set xs \<Longrightarrow> length (insert_after p i xs) = Suc (length xs)"
  by (induction xs) auto

lemma insert_after_Cons:
  "p \<in> set (h # r) \<Longrightarrow> \<exists>r'. insert_after p i (h # r) = h # r' \<and> set r' \<subseteq> insert i (set r)"
  by (auto simp: set_insert_after)

lemma wf_link_top:
  assumes wf: "stack_wf s" and i: "i < length (node_list s)" "i \<notin> set (order s)"
    and v: "client_id v = int i"
  shows "stack_wf (link_top i v s)"
proof (cases "order s")
  case Nil
  show ?thesis
  proof (rule stack_wfI[where os = "[i]"])
    fix j
    show "j < length (node_list (link_top i v s)) \<Longrightarrow> j \<notin> set [i] \<Longrightarrow>
        node (link_top i v s) j = empty_focus_id"
      using wf_free[OF wf, of j] Nil by (auto simp: link_top_def stack_simps)
  qed (use wf i v Nil in \<open>auto simp: link_top_def stack_simps wf_max wf_cur\<close>)
next
  case (Cons h r)
  note ex = link_top_def Cons stack_simps
  have d: "h \<noteq> i" "i \<notin> set r" "distinct (h # r)" using wf_distinct[OF wf] i Cons by auto
  have h: "h < length (node_list s)" using wf_bound[OF wf] Cons by simp
  show ?thesis
  proof (rule stack_wfI[where os = "i # h # r"])
    show "distinct (i # h # r)" using d by auto
    show "order (link_top i v s) = i # h # r" by (simp add: ex)
    fix j
    show "j \<in> set (i # h # r) \<Longrightarrow> j < length (node_list (link_top i v s))"
      using wf_bound[OF wf, of j] i Cons by (auto simp: ex)
    show "j \<in> set (i # h # r) \<Longrightarrow> client_id (node (link_top i v s) j) = int j"
      using wf_id[OF wf, of j] Cons i v by (auto simp: ex)
    show "j < length (node_list (link_top i v s)) \<Longrightarrow> j \<notin> set (i # h # r) \<Longrightarrow>
        node (link_top i v s) j = empty_focus_id"
      using wf_free[OF wf, of j] Cons by (auto simp: ex)
    fix h' r'
    assume eq: "i # h # r = h' # r'"
    show "focus_state (node (link_top i v s) h') = APP_FOCUS_STATE_STACK_TOP"
      using eq i by (auto simp: ex)
    show "j \<in> set r' \<Longrightarrow> focus_state (node (link_top i v s) j) = APP_FOCUS_STATE_STACK_UNDER"
      using eq d h wf_under[OF wf Cons, of j] by (auto simp: ex)
  qed (use wf i v Cons in \<open>auto simp: ex wf_max wf_cur\<close>)
qed

lemma wf_link_under:
  assumes wf: "stack_wf s" and i: "i < length (node_list s)" "i \<notin> set (order s)"
    and p: "p \<in> set (order s)" and v: "client_id v = int i"
  shows "stack_wf (link_under p i v s)" (is "stack_wf ?s")
proof -
  obtain h r where o': "order s = h # r" using p by (cases "order s") auto
  obtain r' where r': "insert_after p i (h # r) = h # r'" "set r' \<subseteq> insert i (set r)"
    using insert_after_Cons p o' by metis
  have ord: "order ?s = h # r'" using r' o' by (simp add: link_under_def)
  have sr: "set (h # r') = insert i (set (order s))"
    using set_insert_after[OF p, of i] r' o' by metis
  have ne: "h \<noteq> i" using i o' by auto
  note ex = link_under_def stack_simps
  show ?thesis
  proof (rule stack_wfI[where os = "h # r'"])
    show "distinct (h # r')"
      using distinct_insert_after[OF wf_distinct[OF wf] i(2) p] r' o' by simp
    show "order ?s = h # r'" by (rule ord)
    fix j
    show "j \<in> set (h # r') \<Longrightarrow> j < length (node_list ?s)"
      unfolding sr using wf_bound[OF wf, of j] i by (auto simp: ex)
    show "j \<in> set (h # r') \<Longrightarrow> client_id (node ?s j) = int j"
      unfolding sr using wf_id[OF wf, of j] i v by (auto simp: ex)
    show "j < length (node_list ?s) \<Longrightarrow> j \<notin> set (h # r') \<Longrightarrow> node ?s j = empty_focus_id"
      unfolding sr using wf_free[OF wf, of j] by (auto simp: ex)
    fix h' q
    assume eq: "h # r' = h' # q"
    show "focus_state (node ?s h') = APP_FOCUS_STATE_STACK_TOP"
      using eq ne wf_top[OF wf o'] by (auto simp: ex)
    show "j \<in> set q \<Longrightarrow> focus_state (node ?s j) = APP_FOCUS_STATE_STACK_UNDER"
      using eq r' i wf_under[OF wf o', of j] by (auto simp: ex)
  next
    have "length (h # r') = Suc (length (order s))"
      using length_insert_after[OF p, of i] r' o' by simp
    then show "cur_size ?s = int (length (h # r'))" using wf by (simp add: ex wf_cur)
  qed (use wf in \<open>auto simp: ex wf_max\<close>)
qed

subsection \<open>The operations compute the closed forms\<close>

lemma cleared_is_unlink:
  "set_node p empty_focus_id (dec_size (list_delete p (set_state p st s))) = unlink p s"
  "dec_size (set_node p empty_focus_id (list_delete p (set_state p st s))) = unlink p s"
  by (simp_all add: unlink_def set_node_commute_fields set_node_set_state)

lemma pop_only:
  assumes wf: "stack_wf s" and o': "order s = [h]"
  shows "app_focus_stack_pop s value flag =
    Some (0, (node s h)\<lparr>focus_state := APP_FOCUS_STATE_STACK_QUIT\<rparr>, [], unlink h s)"
  using wf o' wf_bound[OF wf, of h] wf_id[OF wf, of h] wf_cur[OF wf]
  by (simp add: app_focus_stack_pop_def list_head_def stack_simps cleared_is_unlink)

lemma pop_many:
  assumes wf: "stack_wf s" and o': "order s = h # t # r"
  shows "app_focus_stack_pop s value flag =
    Some (0, (node s h)\<lparr>focus_state := APP_FOCUS_STATE_STACK_QUIT\<rparr>,
      [((node s h)\<lparr>focus_state := APP_FOCUS_STATE_STACK_QUIT\<rparr>,
        (node s t)\<lparr>focus_state := APP_FOCUS_STATE_STACK_TOP\<rparr>, flag)],
      unlink h (set_state t APP_FOCUS_STATE_STACK_TOP s))"
proof -
  have d: "h \<noteq> t" using wf_distinct[OF wf] o' by auto
  have swap: "set_state t APP_FOCUS_STATE_STACK_TOP (set_state h st s) =
      set_state h st (set_state t APP_FOCUS_STATE_STACK_TOP s)" for st
    using d by (simp add: set_state_def stack_simps set_node_commute)
  show ?thesis
    using wf o' d wf_bound[OF wf, of h] wf_bound[OF wf, of t] wf_id[OF wf, of h] wf_cur[OF wf]
    by (simp add: app_focus_stack_pop_def list_head_def list_next_def stack_simps
          app_focus_stack_change_callback_def swap cleared_is_unlink Let_def)
qed

lemma push_full:
  "app_focus_stack_is_full s \<Longrightarrow> app_focus_stack_push s v flag = Some (-ENOSPC, [], s)"
  by (simp add: app_focus_stack_push_def)

lemma push_link:
  assumes wf: "stack_wf s" and nf: "\<not> app_focus_stack_is_full s"
    and i: "i < length (node_list s)" "i \<notin> set (order s)" and v: "client_id v = int i"
  shows "app_focus_stack_push s v flag =
    Some (0, (case order s of [] \<Rightarrow> []
              | h # _ \<Rightarrow> [(v, (node s h)\<lparr>focus_state := APP_FOCUS_STATE_STACK_UNDER\<rparr>, flag)]),
      link_top i v s)"
proof (cases "order s")
  case Nil
  then show ?thesis
    using wf nf i v wf_cur[OF wf]
    by (simp add: app_focus_stack_push_def stack_simps app_focus_stack_is_empty_def
          list_add_head_def link_top_def set_state_commute_fields set_state_set_node_same
          set_node_record_fields)
next
  case (Cons h r)
  have "h \<noteq> i" using i Cons by auto
  then show ?thesis
    using wf nf i v Cons wf_cur[OF wf] wf_bound[OF wf, of h]
    by (simp add: app_focus_stack_push_def stack_simps app_focus_stack_is_empty_def list_head_def
          app_focus_stack_change_callback_def list_add_head_def link_top_def
          set_state_commute_fields set_state_set_node_commute set_state_set_node_same
          set_node_record_fields)
qed

subsection \<open>The abstract stack: a list of focus ids, top first\<close>

definition with_state :: "int \<Rightarrow> app_focus_id \<Rightarrow> app_focus_id" where
  "with_state st v = v\<lparr>focus_state := st\<rparr>"

definition spec_promote :: "app_focus_id list \<Rightarrow> app_focus_id list" where
  "spec_promote es = (case es of [] \<Rightarrow> [] | h # t \<Rightarrow> with_state APP_FOCUS_STATE_STACK_TOP h # t)"

definition spec_demote :: "app_focus_id list \<Rightarrow> app_focus_id list" where
  "spec_demote es = (case es of [] \<Rightarrow> [] | h # t \<Rightarrow> with_state APP_FOCUS_STATE_STACK_UNDER h # t)"

definition spec_push :: "app_focus_id \<Rightarrow> app_focus_id list \<Rightarrow> app_focus_id list" where
  "spec_push v es = with_state APP_FOCUS_STATE_STACK_TOP v # spec_demote es"

definition spec_insert :: "app_focus_id \<Rightarrow> nat \<Rightarrow> app_focus_id list \<Rightarrow> app_focus_id list" where
  "spec_insert v k es = take k es @ with_state APP_FOCUS_STATE_STACK_UNDER v # drop k es"

definition spec_delete :: "int \<Rightarrow> app_focus_id list \<Rightarrow> app_focus_id list" where
  "spec_delete c es = spec_promote (filter (\<lambda>e. client_id e \<noteq> c) es)"

definition spec_clear :: "(nat \<Rightarrow> bool) \<Rightarrow> app_focus_id list \<Rightarrow> app_focus_id list" where
  "spec_clear live es = spec_promote (filter (\<lambda>e. live (thread_id e)) es)"

lemma with_state_simps [simp]:
  "client_id (with_state st v) = client_id v" "focus_level (with_state st v) = focus_level v"
  "thread_id (with_state st v) = thread_id v" "focus_state (with_state st v) = st"
  "focus_callback (with_state st v) = focus_callback v"
  "callback_argv (with_state st v) = callback_argv v"
  "with_state st (with_state st' v) = with_state st v"
  by (simp_all add: with_state_def)

lemma with_state_same [simp]: "focus_state v = st \<Longrightarrow> with_state st v = v"
  by (simp add: with_state_def)

lemma entries_cong:
  "order s' = order s \<Longrightarrow> (\<And>i. i \<in> set (order s) \<Longrightarrow> node s' i = node s i) \<Longrightarrow>
   entries s' = entries s"
  by (simp add: entries_def)

lemma wf_promote_entries: "stack_wf s \<Longrightarrow> spec_promote (entries s) = entries s"
  by (cases "order s") (auto simp: spec_promote_def entries_def wf_top)

lemma entries_link_top:
  assumes wf: "stack_wf s" and i: "i < length (node_list s)" "i \<notin> set (order s)"
  shows "entries (link_top i v s) = spec_push v (entries s)"
proof (cases "order s")
  case Nil
  then show ?thesis
    using i by (simp add: entries_def link_top_def stack_simps spec_push_def spec_demote_def with_state_def)
next
  case (Cons h r)
  have "h \<notin> set r" "i \<noteq> h" "i \<notin> set r" "h < length (node_list s)"
    using wf_distinct[OF wf] i Cons wf_bound[OF wf, of h] by auto
  then show ?thesis
    using i Cons
    by (auto simp: entries_def link_top_def stack_simps spec_push_def spec_demote_def with_state_def)
qed

lemma entries_unlink_under:
  assumes wf: "stack_wf s" and o': "order s = h # r" and p: "p \<in> set r"
  shows "entries (unlink p s) = spec_delete (int p) (entries s)"
proof -
  have d: "distinct r" "h \<notin> set r" "p \<noteq> h" using wf_distinct[OF wf] o' p by auto
  have "filter (\<lambda>e. client_id e \<noteq> int p) (map (node s) r) = map (node s) (remove1 p r)"
    using d wf_id[OF wf] o' by (simp add: remove1_filter_distinct filter_map o_def cong: filter_cong)
  moreover have "map (node (unlink p s)) (remove1 p r) = map (node s) (remove1 p r)"
    using d by (auto simp: stack_simps)
  ultimately show ?thesis
    using d wf_id[OF wf, of h] wf_top[OF wf o'] o'
    by (simp add: entries_def stack_simps spec_delete_def spec_promote_def)
qed

lemma filter_other_ids:
  "stack_wf s \<Longrightarrow> order s = h # r \<Longrightarrow>
   filter (\<lambda>e. client_id e \<noteq> int h) (map (node s) r) = map (node s) r"
  by (rule filter_True) (use wf_distinct wf_id in fastforce)

lemma entries_unlink_top:
  assumes wf: "stack_wf s" and o': "order s = h # t # r"
  shows "entries (unlink h (set_state t APP_FOCUS_STATE_STACK_TOP s)) = spec_delete (int h) (entries s)"
proof -
  have d: "h \<noteq> t" "h \<notin> set r" "t \<notin> set r" "t < length (node_list s)"
    using wf_distinct[OF wf] o' wf_bound[OF wf, of t] by auto
  then show ?thesis
    using wf_id[OF wf, of h] o' filter_other_ids[OF wf o']
    by (auto simp: entries_def stack_simps spec_delete_def spec_promote_def with_state_def)
qed

lemma entries_unlink_only:
  "stack_wf s \<Longrightarrow> order s = [h] \<Longrightarrow> entries (unlink h s) = spec_delete (int h) (entries s)"
  by (simp add: entries_def stack_simps spec_delete_def spec_promote_def wf_id)

lemma insert_after_nth:
  "distinct xs \<Longrightarrow> k < length xs \<Longrightarrow>
   insert_after (xs ! k) i xs = take (Suc k) xs @ i # drop (Suc k) xs"
proof (induction xs arbitrary: k)
  case (Cons x xs)
  then show ?case by (cases k) (auto simp: nth_mem)
qed simp

lemma entries_link_under:
  assumes wf: "stack_wf s" and i: "i < length (node_list s)" "i \<notin> set (order s)"
    and k: "k < length (order s)"
  shows "entries (link_under (order s ! k) i v s) = spec_insert v (Suc k) (entries s)"
proof -
  have "map (node (link_under p i v s)) xs = map (node s) xs" if "set xs \<subseteq> set (order s)" for xs p
    using that i by (auto simp: link_under_def stack_simps)
  from this[of "take (Suc k) (order s)"] this[of "drop (Suc k) (order s)"]
  show ?thesis
    using i insert_after_nth[OF wf_distinct[OF wf] k, of i]
    by (simp add: entries_def spec_insert_def take_map drop_map set_take_subset set_drop_subset)
       (simp add: link_under_def stack_simps with_state_def take_map drop_map)
qed

subsection \<open>Lookup\<close>

lemma top_spec:
  assumes "stack_wf s"
  shows "app_focus_stack_top s value =
    Some (case entries s of [] \<Rightarrow> (-ENOENT, value) | h # _ \<Rightarrow> (0, h))"
  using assms by (cases "order s") (auto simp: app_focus_stack_top_def entries_def list_head_def)

lemma get_index_loop_nth:
  "c \<le> idx \<Longrightarrow> get_index_loop s ps c idx =
    (if nat (idx - c) < length ps then Some (node s (ps ! nat (idx - c))) else None)"
proof (induction ps arbitrary: c)
  case (Cons p ps)
  show ?case
  proof (cases "c = idx")
    case False
    then have "nat (idx - c) = Suc (nat (idx - (c + 1)))" using Cons.prems by simp
    then show ?thesis using Cons False by simp
  qed simp
qed simp

lemma get_index_loop_neg: "idx < c \<Longrightarrow> get_index_loop s ps c idx = None"
  by (induction ps arbitrary: c) auto

lemma get_index_spec:
  "app_focus_stack_get_index s value idx =
    (if 0 \<le> idx \<and> nat idx < length (entries s) then (0, entries s ! nat idx) else (-ENOENT, value))"
  by (cases "0 \<le> idx")
    (simp_all add: app_focus_stack_get_index_def get_index_loop_nth get_index_loop_neg entries_def)

lemma search_loop_spec:
  assumes "0 \<le> c"
  shows "search_loop P s ps c = (if \<exists>p\<in>set ps. P (node s p)
     then c + int (length (takeWhile (\<lambda>p. \<not> P (node s p)) ps)) else -ENOENT)"
  using assms by (induction ps arbitrary: c) auto

lemma free_id_loop_spec:
  assumes "\<exists>n\<in>set ns. client_id n = -1"
  shows "\<exists>j<length ns. free_id_loop ns i = i + int j \<and> client_id (ns ! j) = -1"
  using assms
proof (induction ns arbitrary: i)
  case (Cons n ns)
  show ?case
  proof (cases "client_id n = -1")
    case False
    with Cons obtain j where "j < length ns" "free_id_loop ns (i + 1) = (i + 1) + int j"
        "client_id (ns ! j) = -1" by fastforce
    with False show ?thesis by (intro exI[of _ "Suc j"]) auto
  qed (intro exI[of _ 0], simp)
qed simp

lemma free_client_id_spec:
  assumes wf: "stack_wf s" and nf: "\<not> app_focus_stack_is_full s"
  obtains i where "app_focus_free_client_id s = int i" "i < length (node_list s)"
    "i \<notin> set (order s)"
proof -
  obtain k where k: "k < length (node_list s)" "k \<notin> set (order s)"
    using wf_not_full_free[OF assms] by blast
  have "\<exists>n\<in>set (node_list s). client_id n = -1"
    using wf_free[OF wf k] nth_mem[OF k(1)]
    by (intro bexI[of _ "node_list s ! k"]) (simp_all add: node_def)
  from free_id_loop_spec[OF this, of 0] obtain j where
    j: "j < length (node_list s)" "free_id_loop (node_list s) 0 = int j" "client_id (node s j) = -1"
    by (auto simp: node_def)
  have "j \<notin> set (order s)" using wf_id[OF wf, of j] j by auto
  then show thesis using that j nf by (simp add: app_focus_free_client_id_def)
qed

lemma free_client_id_full:
  "app_focus_stack_is_full s \<Longrightarrow> app_focus_free_client_id s = -ENODATA"
  by (simp add: app_focus_free_client_id_def)

subsection \<open>Deletion\<close>

lemma delete_under_loop_found:
  assumes wf: "stack_wf s" and "i \<in> set ps" "set ps \<subseteq> set (order s)" "client_id value = int i"
  shows "\<exists>v'. delete_under_loop ps s value = Some (0, v', [], unlink i s)"
  using assms(2,3)
proof (induction ps)
  case (Cons p ps)
  show ?case
  proof (cases "p = i")
    case True
    then have "i < length (node_list s)" "client_id (node s i) = int i"
      using Cons.prems wf_bound[OF wf] wf_id[OF wf] by auto
    with True assms(4) show ?thesis
      by (simp add: stack_simps cleared_is_unlink Let_def)
  next
    case False
    then have "client_id (node s p) \<noteq> client_id value"
      using Cons.prems wf_id[OF wf, of p] assms(4) by auto
    with False Cons show ?thesis by auto
  qed
qed simp

lemma delete_under_loop_none:
  assumes "\<And>p. p \<in> set ps \<Longrightarrow> client_id (node s p) \<noteq> client_id value"
  shows "delete_under_loop ps s value = Some (-ENOENT, value, [], s)"
  using assms by (induction ps) auto

definition stack_ids :: "app_focus_stack \<Rightarrow> int set" where
  "stack_ids s = client_id ` set (entries s)"

lemma stack_ids_order: "stack_wf s \<Longrightarrow> stack_ids s = int ` set (order s)"
  by (force simp: stack_ids_def entries_def wf_id)

lemma spec_delete_absent:
  assumes "stack_wf s" "c \<notin> stack_ids s"
  shows "spec_delete c (entries s) = entries s"
proof -
  have "filter (\<lambda>e. client_id e \<noteq> c) (entries s) = entries s"
    using assms(2) by (intro filter_True) (auto simp: stack_ids_def)
  then show ?thesis using wf_promote_entries[OF assms(1)] by (simp add: spec_delete_def)
qed

text \<open>
  The listener is told of a deletion exactly when it uncovers an entry: the deleted one was
  on top and another is below it.
\<close>

definition delete_log :: "int \<Rightarrow> int \<Rightarrow> app_focus_id list \<Rightarrow> focus_change list" where
  "delete_log c flag es = (case es of
     h # t # _ \<Rightarrow> if client_id h = c
       then [(with_state APP_FOCUS_STATE_STACK_QUIT h, with_state APP_FOCUS_STATE_STACK_TOP t, flag)]
       else []
   | _ \<Rightarrow> [])"

lemma delete_spec:
  assumes wf: "stack_wf s"
  shows "\<exists>v' s'. app_focus_stack_delete s value flag =
      Some (if client_id value \<in> stack_ids s then 0 else -ENOENT, v',
            delete_log (client_id value) flag (entries s), s')
    \<and> stack_wf s' \<and> entries s' = spec_delete (client_id value) (entries s)"
proof (cases "order s")
  case Nil
  then have "entries s = []" by (simp add: entries_empty_iff)
  with wf Nil show ?thesis
    by (simp add: app_focus_stack_delete_def stack_ids_def delete_log_def spec_delete_def
          spec_promote_def)
next
  case (Cons h r)
  have idh: "client_id (node s h) = int h" using wf_id[OF wf, of h] Cons by simp
  have es: "entries s = node s h # map (node s) r" using Cons by (simp add: entries_def)
  consider (top) "client_id value = int h" | (under) i where "client_id value = int i" "i \<in> set r"
    | (none) "client_id value \<notin> stack_ids s"
    using stack_ids_order[OF wf] Cons by auto
  then show ?thesis
  proof cases
    case top
    have mem: "client_id value \<in> stack_ids s" using top stack_ids_order[OF wf] Cons by simp
    show ?thesis
    proof (cases r)
      case Nil
      with Cons have o': "order s = [h]" by simp
      show ?thesis
        using wf mem top idh pop_only[OF wf o'] wf_unlink_only[OF wf o'] entries_unlink_only[OF wf o']
        by (simp add: app_focus_stack_delete_def list_head_def o' delete_log_def es Nil)
    next
      case (Cons t r')
      with \<open>order s = h # r\<close> have o': "order s = h # t # r'" by simp
      show ?thesis
        using wf mem top idh pop_many[OF wf o'] wf_unlink_top[OF wf o'] entries_unlink_top[OF wf o']
        by (simp add: app_focus_stack_delete_def list_head_def o' delete_log_def es Cons with_state_def)
    qed
  next
    case (under i)
    have mem: "client_id value \<in> stack_ids s" using under stack_ids_order[OF wf] Cons by simp
    have ne: "int h \<noteq> client_id value" using under wf_distinct[OF wf] Cons by auto
    obtain v' where "delete_under_loop (order s) s value = Some (0, v', [], unlink i s)"
      using delete_under_loop_found[OF wf, of i "order s" "value"] under Cons by auto
    then show ?thesis
      using wf mem ne idh under wf_unlink_under[OF wf Cons] entries_unlink_under[OF wf Cons] Cons
      by (auto simp: app_focus_stack_delete_def list_head_def delete_log_def es split: list.splits)
  next
    case none
    then have no: "p \<in> set (order s) \<Longrightarrow> client_id (node s p) \<noteq> client_id value" for p
      by (metis entries_def image_eqI list.set_map stack_ids_def)
    then have "delete_log (client_id value) flag (entries s) = []"
      using es no[of h] Cons by (auto simp: delete_log_def split: list.splits)
    moreover have "app_focus_stack_delete s value flag = Some (-ENOENT, value, [], s)"
      using wf Cons no no[of h] delete_under_loop_none[of "order s" s "value"]
      by (simp add: app_focus_stack_delete_def list_head_def)
    ultimately show ?thesis
      using wf none spec_delete_absent[OF wf none] by simp
  qed
qed

subsection \<open>Insertion below the top\<close>

lemma insert_position_spec:
  "insert_position ps c idx =
    (if c \<le> idx - 1 \<and> nat (idx - 1 - c) < length ps then Some (ps ! nat (idx - 1 - c)) else None)"
proof (induction ps arbitrary: c)
  case (Cons p ps)
  show ?case
  proof (cases "c = idx - 1")
    case False
    have "nat (idx - 1 - c) = Suc (nat (idx - 1 - (c + 1)))" if "c + 1 \<le> idx - 1"
      using that by simp
    with Cons False show ?thesis by auto
  qed simp
qed simp

lemma insert_spec:
  assumes wf: "stack_wf s" and nf: "\<not> app_focus_stack_is_full s" and ne: "entries s \<noteq> []"
    and i: "i < length (node_list s)" "i \<notin> set (order s)" and v: "client_id v = int i"
    and k: "1 \<le> k" "k \<le> length (entries s)"
  shows "\<exists>s'. app_focus_stack_insert s v (int k) = Some (0, [], s') \<and> stack_wf s'
    \<and> entries s' = spec_insert v k (entries s)"
proof -
  have len: "length (entries s) = length (order s)" by (simp add: entries_def)
  have pos: "insert_position (order s) 0 (int k) = Some (order s ! (k - 1))"
    using k len by (simp add: insert_position_spec nat_diff_distrib)
  have mem: "order s ! (k - 1) \<in> set (order s)" "k - 1 < length (order s)" using k len by auto
  have "app_focus_stack_insert s v (int k) = Some (0, [], link_under (order s ! (k - 1)) i v s)"
    using wf nf ne i v pos
    by (simp add: app_focus_stack_insert_def entries_empty_iff stack_simps link_under_def
          set_state_set_node_same Let_def)
  moreover have "entries (link_under (order s ! (k - 1)) i v s) = spec_insert v k (entries s)"
    using entries_link_under[OF wf i mem(2), of v] k by simp
  ultimately show ?thesis using wf_link_under[OF wf i mem(1) v] by auto
qed

lemma insert_bad_index:
  assumes wf: "stack_wf s" and nf: "\<not> app_focus_stack_is_full s" and ne: "entries s \<noteq> []"
    and i: "i < length (node_list s)" "i \<notin> set (order s)" and v: "client_id v = int i"
    and k: "k < 1 \<or> int (length (entries s)) < k"
  shows "app_focus_stack_insert s v k = Some (-ENOENT, [], s)"
proof -
  have "insert_position (order s) 0 k = None"
    using k by (auto simp: insert_position_spec entries_def)
  moreover have "set_node i empty_focus_id s = s"
    using wf_free[OF wf i] i by (simp add: set_node_def node_def list_update_same_conv)
  ultimately show ?thesis
    using wf nf ne i v node_list_remove_linked[of i "set_node i v s"]
    by (simp add: app_focus_stack_insert_def entries_empty_iff stack_simps set_node_set_node)
qed

lemma insert_full:
  "app_focus_stack_is_full s \<Longrightarrow> app_focus_stack_insert s v k = Some (-ENOSPC, [], s)"
  by (simp add: app_focus_stack_insert_def)

subsection \<open>Clearing the entries of dead threads\<close>

text \<open>
  The walk removes entries one at a time. Its invariant: the stack is well formed, what has
  been visited and kept is a live prefix of the list, and the rest is still to be visited.
\<close>

definition clear_log :: "(nat \<Rightarrow> bool) \<Rightarrow> int \<Rightarrow> app_focus_id list \<Rightarrow> focus_change list" where
  "clear_log live flag es =
     (let dead = takeWhile (\<lambda>e. \<not> live (thread_id e)) es;
          rest = dropWhile (\<lambda>e. \<not> live (thread_id e)) es
      in if dead = [] \<or> rest = [] then []
         else [(with_state APP_FOCUS_STATE_STACK_TOP (last dead),
                with_state APP_FOCUS_STATE_STACK_TOP (hd rest), flag)])"

lemma useless_clear_live_prefix:
  assumes "stack_wf s" "order s = kept @ todo" "kept \<noteq> []"
    "\<forall>p\<in>set kept. live (thread_id (node s p))"
  shows "\<exists>s'. useless_clear_loop live flag todo s = Some ([], s') \<and> stack_wf s'
    \<and> entries s' = filter (\<lambda>e. live (thread_id e)) (entries s)"
  using assms
proof (induction todo arbitrary: s kept)
  case Nil
  then have "filter (\<lambda>e. live (thread_id e)) (entries s) = entries s"
    by (intro filter_True) (auto simp: entries_def)
  with Nil show ?case by simp
next
  case (Cons p todo)
  obtain h r where o': "order s = h # r" "p \<in> set r"
    using Cons.prems(2,3) by (cases kept) auto
  have "distinct (kept @ p # todo)" using wf_distinct[OF Cons.prems(1)] Cons.prems(2) by simp
  moreover have "h \<in> set kept" using o'(1) Cons.prems(2,3) by (cases kept) auto
  ultimately have d: "p \<noteq> h" "p \<notin> set kept" "p \<notin> set todo" by auto
  have p: "p < length (node_list s)" "client_id (node s p) = int p"
    using wf_bound[OF Cons.prems(1)] wf_id[OF Cons.prems(1)] o' by auto
  show ?case
  proof (cases "live (thread_id (node s p))")
    case True
    then have "\<forall>q\<in>set (kept @ [p]). live (thread_id (node s q))" using Cons.prems(4) by simp
    from Cons.IH[OF Cons.prems(1) _ _ this] Cons.prems(2) True show ?thesis
      by (simp add: app_focus_stack_thread_is_alive_def)
  next
    case False
    let ?u = "unlink p s"
    have wf': "stack_wf ?u" using wf_unlink_under[OF Cons.prems(1) o'] .
    have ord: "order ?u = kept @ todo" using d Cons.prems(2) by (simp add: stack_simps remove1_append)
    have live': "\<forall>q\<in>set kept. live (thread_id (node ?u q))"
      using Cons.prems(4) d by (auto simp: stack_simps)
    have nu: "focus_state (node s p) \<noteq> APP_FOCUS_STATE_STACK_TOP"
      using wf_under[OF Cons.prems(1) o'] by (simp add: focus_state_defs)
    have step: "useless_clear_loop live flag (p # todo) s = useless_clear_loop live flag todo ?u"
      using False nu p
      by (simp add: app_focus_stack_thread_is_alive_def stack_simps Let_def cleared_is_unlink
            set_state_commute_fields split: option.split)
    have same: "map (node ?u) xs = map (node s) xs" if "p \<notin> set xs" for xs
      using that by (auto simp: stack_simps)
    have fe: "filter (\<lambda>e. live (thread_id e)) (entries ?u) = filter (\<lambda>e. live (thread_id e)) (entries s)"
      by (simp add: entries_def ord False same[OF d(2)] same[OF d(3)] Cons.prems(2))
    from Cons.IH[OF wf' ord Cons.prems(3) live'] show ?thesis using step fe by simp
  qed
qed

lemma clear_log_dead_dead:
  "\<not> live (thread_id h) \<Longrightarrow> \<not> live (thread_id q) \<Longrightarrow>
   clear_log live flag (h # q # es) = clear_log live flag (with_state APP_FOCUS_STATE_STACK_TOP q # es)"
  by (simp add: clear_log_def Let_def)

lemma clear_log_live: "live (thread_id h) \<Longrightarrow> clear_log live flag (h # es) = []"
  by (simp add: clear_log_def)

lemma clear_log_dead_live:
  "\<not> live (thread_id h) \<Longrightarrow> live (thread_id q) \<Longrightarrow>
   clear_log live flag (h # q # es) = [(with_state APP_FOCUS_STATE_STACK_TOP h,
     with_state APP_FOCUS_STATE_STACK_TOP q, flag)]"
  by (simp add: clear_log_def)

lemma useless_clear_step_last:
  assumes wf: "stack_wf s" and o': "order s = [h]" and dead: "\<not> live (thread_id (node s h))"
  shows "useless_clear_loop live flag [h] s = Some ([], unlink h s)"
proof -
  have eq: "(list_delete h s)\<lparr>order := []\<rparr> = list_delete h s" by (simp add: list_delete_def o')
  show ?thesis
    using dead wf_bound[OF wf, of h] wf_id[OF wf, of h] wf_top[OF wf, of h "[]"] wf_cur[OF wf] o'
    by (simp add: app_focus_stack_thread_is_alive_def app_focus_stack_size_def stack_simps Let_def eq
          set_state_commute_fields set_node_commute_fields set_node_set_state unlink_def)
qed

lemma useless_clear_step_top:
  assumes wf: "stack_wf s" and o': "order s = h # q # r" and dead: "\<not> live (thread_id (node s h))"
  shows "useless_clear_loop live flag (h # q # r) s =
    map_option (\<lambda>(log, s'). (if live (thread_id (node s q))
        then (with_state APP_FOCUS_STATE_STACK_TOP (node s h),
              with_state APP_FOCUS_STATE_STACK_TOP (node s q), flag) # log else log, s'))
      (useless_clear_loop live flag (q # r) (unlink h (set_state q APP_FOCUS_STATE_STACK_TOP s)))"
proof -
  have d: "h \<noteq> q" using wf_distinct[OF wf] o' by auto
  have bs: "h < length (node_list s)" "q < length (node_list s)" using wf_bound[OF wf] o' by auto
  have c: "cur_size s \<noteq> 1" using wf_cur[OF wf] o' by simp
  have swap: "set_node h v (list_delete h (set_state q st s)) = list_delete h (set_node h v (set_state q st s))" for v st
    by (simp add: set_node_def list_delete_def)
  have u: "dec_size (set_node h empty_focus_id (set_state h APP_FOCUS_STATE_STACK_QUIT
      (set_state q APP_FOCUS_STATE_STACK_TOP (list_delete h s))))
    = unlink h (set_state q APP_FOCUS_STATE_STACK_TOP s)"
    by (simp add: set_node_set_state unlink_def set_state_commute_fields set_node_commute_fields)
  show ?thesis
    using dead d bs c wf_id[OF wf, of h] wf_top[OF wf o'] o'
    by (simp add: app_focus_stack_thread_is_alive_def app_focus_stack_size_def stack_simps Let_def u
          app_focus_stack_change_callback_def with_state_def map_option_case
          del: useless_clear_loop.simps(2)
          add: useless_clear_loop.simps(2)[of live flag h]
          split: option.split)
qed

lemma useless_clear_loop_spec:
  assumes "stack_wf s" "order s = todo"
  shows "\<exists>s'. useless_clear_loop live flag todo s = Some (clear_log live flag (entries s), s')
    \<and> stack_wf s' \<and> entries s' = spec_clear live (entries s)"
  using assms
proof (induction todo arbitrary: s)
  case Nil
  then show ?case by (simp add: entries_def clear_log_def spec_clear_def spec_promote_def)
next
  case (Cons h r)
  have es: "entries s = node s h # map (node s) r" using Cons.prems(2) by (simp add: entries_def)
  have top: "with_state APP_FOCUS_STATE_STACK_TOP (node s h) = node s h"
    using wf_top[OF Cons.prems] by simp
  show ?case
  proof (cases "live (thread_id (node s h))")
    case True
    then have "useless_clear_loop live flag (h # r) s = useless_clear_loop live flag r s"
      by (simp add: app_focus_stack_thread_is_alive_def)
    moreover have "spec_clear live (entries s) = filter (\<lambda>e. live (thread_id e)) (entries s)"
      using True top by (simp add: spec_clear_def spec_promote_def es)
    ultimately show ?thesis
      using useless_clear_live_prefix[OF Cons.prems(1), of "[h]" r live flag] Cons.prems(2) True
        clear_log_live[of live "node s h"] by (simp add: es)
  next
    case False
    show ?thesis
    proof (cases r)
      case Nil
      then show ?thesis
        using useless_clear_step_last[OF Cons.prems(1), of h live flag] wf_unlink_only[OF Cons.prems(1), of h]
          entries_unlink_only[OF Cons.prems(1), of h] False Cons.prems(2)
        by (simp add: es clear_log_def spec_clear_def spec_promote_def spec_delete_def wf_id[OF Cons.prems(1)])
    next
      case (Cons q r')
      let ?s1 = "unlink h (set_state q APP_FOCUS_STATE_STACK_TOP s)"
      have o': "order s = h # q # r'" using Cons.prems(2) Cons by simp
      have wf1: "stack_wf ?s1" by (rule wf_unlink_top[OF Cons.prems(1) o'])
      have d: "h \<noteq> q" "h \<notin> set r'" using wf_distinct[OF Cons.prems(1)] o' by auto
      have es1: "entries ?s1 = with_state APP_FOCUS_STATE_STACK_TOP (node s q) # map (node s) r'"
        using entries_unlink_top[OF Cons.prems(1) o'] filter_other_ids[OF Cons.prems(1) o'] d
          wf_id[OF Cons.prems(1)] o'
        by (simp add: es Cons spec_delete_def spec_promote_def)
      have "order ?s1 = r" using o' Cons d by (simp add: stack_simps)
      from Cons.IH[OF wf1 this] obtain s' where s':
        "useless_clear_loop live flag r ?s1 = Some (clear_log live flag (entries ?s1), s')"
        "stack_wf s'" "entries s' = spec_clear live (entries ?s1)" by blast
      have "spec_clear live (entries ?s1) = spec_clear live (entries s)"
        using False by (simp add: es1 es Cons spec_clear_def spec_promote_def)
      moreover have "useless_clear_loop live flag (h # r) s = Some (clear_log live flag (entries s), s')"
        using useless_clear_step_top[OF Cons.prems(1) o', of live flag] False s'(1)
          clear_log_dead_dead[of live "node s h" "node s q" flag]
          clear_log_dead_live[of live "node s h" "node s q" flag]
          clear_log_live[of live "with_state APP_FOCUS_STATE_STACK_TOP (node s q)"]
        by (simp add: Cons es es1)
      ultimately show ?thesis using s' by auto
    qed
  qed
qed

lemma useless_clear_spec:
  assumes "stack_wf s"
  shows "\<exists>s'. app_focus_stack_useless_clear live s flag = Some (clear_log live flag (entries s), s')
    \<and> stack_wf s' \<and> entries s' = spec_clear live (entries s)"
proof (cases "order s")
  case Nil
  with assms show ?thesis
    by (simp add: app_focus_stack_useless_clear_def entries_def clear_log_def spec_clear_def spec_promote_def)
next
  case Cons
  with assms useless_clear_loop_spec[OF assms refl] show ?thesis
    by (simp add: app_focus_stack_useless_clear_def)
qed

subsection \<open>Emptying, broadcasting, reporting\<close>

lemma clean_loop_spec:
  assumes "order s = todo" "distinct todo" "cur_size s = int (length todo)"
    and "\<And>i. i \<in> set todo \<Longrightarrow> i < length (node_list s) \<and> client_id (node s i) = int i"
    and "\<And>i. i < length (node_list s) \<Longrightarrow> i \<notin> set todo \<Longrightarrow> node s i = empty_focus_id"
  shows "clean_loop v flag todo s =
    Some (map (\<lambda>p. (v, with_state APP_FOCUS_STATE_STACK_QUIT (node s p), flag)) todo,
      s\<lparr>node_list := replicate (length (node_list s)) empty_focus_id, order := [], cur_size := 0\<rparr>)"
  using assms
proof (induction todo arbitrary: s)
  case Nil
  have "node_list s = replicate (length (node_list s)) empty_focus_id"
    by (rule nth_equalityI) (use Nil.prems(5) in \<open>auto simp: node_def\<close>)
  with Nil.prems show ?case by (cases s) simp
next
  case (Cons p todo)
  let ?u = "unlink p s"
  have p: "p < length (node_list s)" "client_id (node s p) = int p" "p \<notin> set todo"
    using Cons.prems(2,4) by auto
  have same: "map (\<lambda>q. (v, with_state APP_FOCUS_STATE_STACK_QUIT (node ?u q), flag)) todo
      = map (\<lambda>q. (v, with_state APP_FOCUS_STATE_STACK_QUIT (node s q), flag)) todo"
    using p(3) by (auto simp: stack_simps)
  have ih: "clean_loop v flag todo ?u =
    Some (map (\<lambda>q. (v, with_state APP_FOCUS_STATE_STACK_QUIT (node ?u q), flag)) todo,
      ?u\<lparr>node_list := replicate (length (node_list ?u)) empty_focus_id, order := [], cur_size := 0\<rparr>)"
  proof (rule Cons.IH)
    fix i
    show "i \<in> set todo \<Longrightarrow> i < length (node_list ?u) \<and> client_id (node ?u i) = int i"
      using Cons.prems(4)[of i] p by (auto simp: stack_simps)
    show "i < length (node_list ?u) \<Longrightarrow> i \<notin> set todo \<Longrightarrow> node ?u i = empty_focus_id"
      using Cons.prems(5)[of i] by (auto simp: stack_simps)
  qed (use Cons.prems in \<open>auto simp: stack_simps\<close>)
  have "?u\<lparr>node_list := ns, order := [], cur_size := 0\<rparr> = s\<lparr>node_list := ns, order := [], cur_size := 0\<rparr>" for ns
    by (simp add: unlink_def set_node_def list_delete_def dec_size_def)
  with ih same show ?case
    using p by (simp add: stack_simps cleared_is_unlink app_focus_stack_change_callback_def Let_def with_state_def)
qed

lemma clean_spec:
  assumes wf: "stack_wf s"
  shows "app_focus_stack_clean s v flag =
    Some (map (\<lambda>e. (v, with_state APP_FOCUS_STATE_STACK_QUIT e, flag)) (entries s),
      s\<lparr>node_list := replicate (length (node_list s)) empty_focus_id, order := [], cur_size := 0\<rparr>)"
  using clean_loop_spec[OF refl wf_distinct[OF wf] wf_cur[OF wf], of v flag] wf_bound[OF wf]
    wf_id[OF wf] wf_free[OF wf]
  by (simp add: app_focus_stack_clean_def entries_def o_def)

lemma init_wf:
  "app_focus_stack_init True True n = Some s \<Longrightarrow> stack_wf s \<and> entries s = [] \<and> max_size s = int n"
  by (auto simp: app_focus_stack_init_def wf_defs entries_def node_def)

lemma broadcast_spec:
  assumes wf: "stack_wf s"
  shows "app_focus_stack_top_change_broadcast s flag = Some (case entries s of
      h # t # r \<Rightarrow> (0, map (\<lambda>e. (h, e, flag)) (t # r)) | _ \<Rightarrow> (-EPERM, []))"
proof (cases "order s")
  case Nil
  then show ?thesis
    using wf by (simp add: app_focus_stack_top_change_broadcast_def app_focus_stack_size_def
          wf_cur entries_def)
next
  case (Cons h r)
  have "concat (map (\<lambda>p. if focus_state (node s p) = APP_FOCUS_STATE_STACK_TOP then []
      else app_focus_stack_change_callback (node s h) (node s p) flag) r)
    = map (\<lambda>p. (node s h, node s p, flag)) r"
  proof -
    have "\<forall>p\<in>set r. focus_state (node s p) \<noteq> APP_FOCUS_STATE_STACK_TOP"
      using wf_under[OF wf Cons] by (simp add: focus_state_defs)
    then show ?thesis by (induction r) (auto simp: app_focus_stack_change_callback_def)
  qed
  then show ?thesis
    using wf_top[OF wf Cons] wf_cur[OF wf] Cons
    by (cases r) (auto simp: app_focus_stack_top_change_broadcast_def app_focus_stack_size_def
        list_head_def entries_def)
qed

lemma return_loop_spec:
  "0 \<le> c \<Longrightarrow> return_loop s ps c num out =
    (out @ map (node s) (take (nat (min (cur_size s) num - c)) ps), c + int (length ps))"
proof (induction ps arbitrary: c out)
  case (Cons p ps)
  show ?case
  proof (cases "c < cur_size s \<and> c < num")
    case True
    then have "nat (min (cur_size s) num - c) = Suc (nat (min (cur_size s) num - (c + 1)))" by linarith
    with Cons True show ?thesis by simp
  next
    case False
    then have "nat (min (cur_size s) num - c) = 0" "nat (min (cur_size s) num - (c + 1)) = 0" by auto
    with Cons False show ?thesis by simp
  qed
qed simp

lemma return_spec:
  assumes "stack_wf s"
  shows "app_focus_stack_return s num = (take (nat num) (entries s), num - int (length (entries s)))"
proof -
  have "take (nat (min (int (length (order s))) num)) (order s) = take (nat num) (order s)"
    by (cases "num \<le> int (length (order s))") (auto simp: min_def nat_le_iff)
  then show ?thesis
    using assms by (simp add: app_focus_stack_return_def return_loop_spec entries_def wf_cur take_map)
qed

lemma search_client_id_spec:
  assumes "stack_wf s"
  shows "app_focus_stack_search_client_id s v =
    (if client_id v \<in> stack_ids s
     then int (length (takeWhile (\<lambda>e. client_id e \<noteq> client_id v) (entries s))) else -ENOENT)"
proof -
  have "(\<exists>p\<in>set (order s). client_id (node s p) = client_id v) \<longleftrightarrow> client_id v \<in> stack_ids s"
    unfolding stack_ids_def entries_def set_map image_image by (metis imageE image_eqI)
  moreover have "order s = [] \<Longrightarrow> client_id v \<notin> stack_ids s" by (simp add: stack_ids_def entries_def)
  ultimately show ?thesis
    using assms by (auto simp: app_focus_stack_search_client_id_def search_loop_spec
        entries_def takeWhile_map o_def)
qed

lemma search_focus_level_spec:
  assumes "stack_wf s"
  shows "app_focus_stack_search_focus_level s v =
    (if \<exists>e\<in>set (entries s). focus_level e = focus_level v
     then int (length (takeWhile (\<lambda>e. focus_level e \<noteq> focus_level v) (entries s))) else -ENOENT)"
  using assms by (auto simp: app_focus_stack_search_focus_level_def search_loop_spec
      entries_def takeWhile_map o_def)

subsection \<open>The capacity never changes\<close>

lemma node_list_remove_max: "app_focus_node_list_remove s c = Some (r, s') \<Longrightarrow> max_size s' = max_size s"
  by (auto simp: app_focus_node_list_remove_def bind_Some_iff stack_simps split: if_splits)

lemma list_add_head_max: "list_add_head i s = Some s' \<Longrightarrow> max_size s' = max_size s"
  by (auto simp: list_add_head_def split: if_splits)

lemmas max_simps = bind_Some_iff Let_def stack_simps

lemma pop_max: "app_focus_stack_pop s v f = Some (r, v', l, s') \<Longrightarrow> max_size s' = max_size s"
  by (auto simp: app_focus_stack_pop_def max_simps split: if_splits dest!: node_list_remove_max)

lemma push_max: "app_focus_stack_push s v f = Some (r, l, s') \<Longrightarrow> max_size s' = max_size s"
  by (auto simp: app_focus_stack_push_def max_simps split: if_splits dest!: list_add_head_max)

lemma insert_max: "app_focus_stack_insert s v k = Some (r, l, s') \<Longrightarrow> max_size s' = max_size s"
  by (auto simp: app_focus_stack_insert_def max_simps push_max
      split: if_splits option.splits dest!: node_list_remove_max)

lemma delete_loop_max: "delete_under_loop ps s v = Some (r, v', l, s') \<Longrightarrow> max_size s' = max_size s"
  by (induction ps) (auto simp: max_simps split: if_splits dest!: node_list_remove_max)

lemma delete_max: "app_focus_stack_delete s v f = Some (r, v', l, s') \<Longrightarrow> max_size s' = max_size s"
  by (auto simp: app_focus_stack_delete_def bind_Some_iff split: if_splits
      dest: pop_max delete_loop_max)

lemma clear_loop_max: "useless_clear_loop live f ps s = Some (l, s') \<Longrightarrow> max_size s' = max_size s"
proof (induction ps arbitrary: s l)
  case (Cons p ps)
  show ?case
  proof (cases "live (thread_id (node s p))")
    case True
    with Cons show ?thesis by (simp add: app_focus_stack_thread_is_alive_def)
  next
    case False
    let ?s1 = "list_delete p s"
    from Cons.prems False obtain log s2 q s4 log' where
      "(if focus_state (node ?s1 p) = APP_FOCUS_STATE_STACK_TOP then
          if app_focus_stack_size ?s1 = 1 then Some ([], ?s1\<lparr>order := []\<rparr>)
          else case ps of [] \<Rightarrow> None
            | q # _ \<Rightarrow> let s' = set_state q APP_FOCUS_STATE_STACK_TOP ?s1
                in Some (if app_focus_stack_thread_is_alive live (node s' q) = 0
                         then app_focus_stack_change_callback (node s' p) (node s' q) f
                         else [], s')
        else Some ([], ?s1)) = Some (log, s2)" (is "?step = _")
      and rm: "app_focus_node_list_remove (set_state p APP_FOCUS_STATE_STACK_QUIT s2)
        (client_id (node (set_state p APP_FOCUS_STATE_STACK_QUIT s2) p)) = Some (q, s4)"
      and lp: "useless_clear_loop live f ps (dec_size s4) = Some (log', s')"
      by (simp only: useless_clear_loop.simps app_focus_stack_thread_is_alive_def Let_def if_True)
        (auto simp: bind_Some_iff)
    moreover have "?step = Some (log, s2) \<Longrightarrow> max_size s2 = max_size s"
      by (auto simp: Let_def stack_simps split: if_splits list.splits)
    ultimately have "max_size s2 = max_size s" by blast
    then show ?thesis
      using Cons.IH[OF lp] node_list_remove_max[OF rm] by (simp add: stack_simps)
  qed
qed simp

lemma clear_max: "app_focus_stack_useless_clear live s f = Some (l, s') \<Longrightarrow> max_size s' = max_size s"
  by (auto simp: app_focus_stack_useless_clear_def split: if_splits dest: clear_loop_max)

section \<open>The interface of the stack\<close>

text \<open>
  What \<open>server/media_focus.c\<close> relies on: a bounded stack of focus ids, top first, that hands out
  free client ids and tells the listener of changes of the top entry.
\<close>

definition push_log :: "app_focus_id \<Rightarrow> int \<Rightarrow> app_focus_id list \<Rightarrow> focus_change list" where
  "push_log v flag es = (case es of [] \<Rightarrow> []
     | h # _ \<Rightarrow> [(v, with_state APP_FOCUS_STATE_STACK_UNDER h, flag)])"

locale priority_stack =
  fixes inv :: "'s \<Rightarrow> bool"
    and items :: "'s \<Rightarrow> app_focus_id list"
    and cap :: "'s \<Rightarrow> nat"
    and free_id :: "'s \<Rightarrow> int"
    and push :: "'s \<Rightarrow> app_focus_id \<Rightarrow> int \<Rightarrow> (int \<times> focus_change list \<times> 's) option"
    and insert_at :: "'s \<Rightarrow> app_focus_id \<Rightarrow> int \<Rightarrow> (int \<times> focus_change list \<times> 's) option"
    and remove :: "'s \<Rightarrow> app_focus_id \<Rightarrow> int
          \<Rightarrow> (int \<times> app_focus_id \<times> focus_change list \<times> 's) option"
    and clear :: "(nat \<Rightarrow> bool) \<Rightarrow> 's \<Rightarrow> int \<Rightarrow> (focus_change list \<times> 's) option"
  assumes ids_distinct: "inv s \<Longrightarrow> distinct (map client_id (items s))"
    and ids_bounded: "inv s \<Longrightarrow> e \<in> set (items s) \<Longrightarrow> 0 \<le> client_id e \<and> client_id e < int (cap s)"
    and top_state: "inv s \<Longrightarrow> items s = h # r \<Longrightarrow> focus_state h = APP_FOCUS_STATE_STACK_TOP"
    and under_state: "inv s \<Longrightarrow> items s = h # r \<Longrightarrow> e \<in> set r \<Longrightarrow>
          focus_state e = APP_FOCUS_STATE_STACK_UNDER"
    and within_cap: "inv s \<Longrightarrow> length (items s) \<le> cap s"
    and free_full: "inv s \<Longrightarrow> length (items s) = cap s \<Longrightarrow> free_id s = -ENODATA"
    and free_ok: "inv s \<Longrightarrow> length (items s) < cap s \<Longrightarrow> 0 \<le> free_id s \<and> free_id s < int (cap s)
          \<and> free_id s \<notin> client_id ` set (items s)"
    and push_law: "inv s \<Longrightarrow> length (items s) < cap s \<Longrightarrow> client_id v = free_id s \<Longrightarrow>
          \<exists>s'. push s v flag = Some (0, push_log v flag (items s), s') \<and> inv s'
             \<and> items s' = spec_push v (items s) \<and> cap s' = cap s"
    and insert_law: "inv s \<Longrightarrow> length (items s) < cap s \<Longrightarrow> client_id v = free_id s \<Longrightarrow>
          1 \<le> k \<Longrightarrow> k \<le> length (items s) \<Longrightarrow>
          \<exists>s'. insert_at s v (int k) = Some (0, [], s') \<and> inv s'
             \<and> items s' = spec_insert v k (items s) \<and> cap s' = cap s"
    and insert_zero: "inv s \<Longrightarrow> length (items s) < cap s \<Longrightarrow> client_id v = free_id s \<Longrightarrow>
          items s \<noteq> [] \<Longrightarrow> insert_at s v 0 = Some (-ENOENT, [], s)"
    and remove_law: "inv s \<Longrightarrow>
          \<exists>v' s'. remove s v flag = Some (if client_id v \<in> client_id ` set (items s) then 0 else -ENOENT,
                v', delete_log (client_id v) flag (items s), s')
             \<and> inv s' \<and> items s' = spec_delete (client_id v) (items s) \<and> cap s' = cap s"
    and clear_law: "inv s \<Longrightarrow>
          \<exists>s'. clear live s flag = Some (clear_log live flag (items s), s')
             \<and> inv s' \<and> items s' = spec_clear live (items s) \<and> cap s' = cap s"
begin

lemma free_cases:
  assumes "inv s"
  shows "(free_id s < 0 \<and> length (items s) = cap s) \<or>
    (0 \<le> free_id s \<and> length (items s) < cap s)"
  using assms within_cap[OF assms] free_full[OF assms] free_ok[OF assms]
  by (cases "length (items s) = cap s") auto

lemma free_nonneg_fits: "inv s \<Longrightarrow> 0 \<le> free_id s \<Longrightarrow> length (items s) < cap s"
  using free_cases[of s] by auto

text \<open>An entry pushed or inserted and then removed leaves the others, in their order.\<close>

lemma length_promote [simp]: "length (spec_promote es) = length es"
  by (auto simp: spec_promote_def split: list.splits)

lemma clear_makes_room:
  assumes "inv s" and "\<exists>e\<in>set (items s). \<not> live (thread_id e)"
    and c: "clear live s flag = Some (log, s')"
  shows "length (items s') < cap s' \<and> 0 \<le> free_id s'"
proof -
  have s': "inv s'" "items s' = spec_clear live (items s)" "cap s' = cap s"
    using clear_law[OF assms(1), of live flag] c by auto
  have "length (filter (\<lambda>e. live (thread_id e)) (items s)) < length (items s)"
    using assms(2) by (metis length_filter_less)
  then have "length (items s') < cap s'"
    using within_cap[OF assms(1)] s' by (simp add: spec_clear_def)
  with free_ok[OF s'(1)] show ?thesis by simp
qed

lemma push_then_remove:
  assumes inv: "inv s" "length (items s) < cap s" and v: "client_id v = free_id s"
    and p: "push s v flag = Some (r, log, s1)"
  shows "\<exists>v' log' s2. remove s1 v flag' = Some (0, v', log', s2) \<and> items s2 = items s \<and> inv s2"
proof -
  have s1: "inv s1" "items s1 = spec_push v (items s)"
    using push_law[OF inv v, of flag] p by auto
  have fresh: "client_id v \<notin> client_id ` set (items s)" using free_ok[OF inv] v by simp
  have ids: "client_id ` set (spec_demote (items s)) = client_id ` set (items s)"
    by (cases "items s") (simp_all add: spec_demote_def)
  have "spec_delete (client_id v) (items s1) = spec_promote (spec_demote (items s))"
  proof -
    have "filter (\<lambda>e. client_id e \<noteq> client_id v) (spec_demote (items s)) = spec_demote (items s)"
      using fresh ids by (intro filter_True) (metis imageI)
    then show ?thesis by (simp add: s1(2) spec_push_def spec_delete_def)
  qed
  also have "\<dots> = items s"
    using top_state[OF inv(1)]
    by (auto simp: spec_promote_def spec_demote_def split: list.splits)
  finally have "spec_delete (client_id v) (items s1) = items s" .
  moreover have "client_id v \<in> client_id ` set (items s1)" by (simp add: s1(2) spec_push_def)
  ultimately show ?thesis using remove_law[OF s1(1), of v flag'] by auto
qed

end

lemma length_entries [simp]: "length (entries s) = length (order s)"
  by (simp add: entries_def)

lemma wf_length_le: "stack_wf s \<Longrightarrow> length (order s) \<le> length (node_list s)"
  using distinct_card[OF wf_distinct, of s] card_mono[of "{..<length (node_list s)}" "set (order s)"]
    wf_bound[of s] by (metis card_lessThan finite_lessThan lessThan_iff subsetI)

lemma free_slot:
  assumes "stack_wf s" "length (entries s) < nat (max_size s)"
  shows "\<not> app_focus_stack_is_full s"
    and "\<exists>i. app_focus_free_client_id s = int i \<and> i < length (node_list s) \<and> i \<notin> set (order s)"
proof -
  show nf: "\<not> app_focus_stack_is_full s"
    using assms by (simp add: wf_full_iff wf_max)
  show "\<exists>i. app_focus_free_client_id s = int i \<and> i < length (node_list s) \<and> i \<notin> set (order s)"
    using free_client_id_spec[OF assms(1) nf] by metis
qed

interpretation fs: priority_stack stack_wf entries "\<lambda>s. nat (max_size s)" app_focus_free_client_id
    app_focus_stack_push app_focus_stack_insert app_focus_stack_delete app_focus_stack_useless_clear
proof unfold_locales
  fix s :: app_focus_stack and v :: app_focus_id and flag :: int
  assume wf: "stack_wf s"
  show "distinct (map client_id (entries s))"
    using wf_distinct[OF wf] by (simp add: entries_ids[OF wf] distinct_map)
  show "e \<in> set (entries s) \<Longrightarrow> 0 \<le> client_id e \<and> client_id e < int (nat (max_size s))" for e
    using wf_bound[OF wf] wf_id[OF wf] by (auto simp: entries_def wf_max[OF wf])
  show "entries s = h # r \<Longrightarrow> focus_state h = APP_FOCUS_STATE_STACK_TOP" for h r
    using wf_top[OF wf] by (auto simp: entries_def)
  show "entries s = h # r \<Longrightarrow> e \<in> set r \<Longrightarrow> focus_state e = APP_FOCUS_STATE_STACK_UNDER" for h r e
    using wf_under[OF wf] by (auto simp: entries_def)
  show "length (entries s) \<le> nat (max_size s)"
    using wf_length_le[OF wf] by (simp add: wf_max[OF wf])
  show "length (entries s) = nat (max_size s) \<Longrightarrow> app_focus_free_client_id s = - ENODATA"
    by (rule free_client_id_full) (simp add: wf_full_iff[OF wf] wf_max[OF wf])
  show "\<exists>v' s'. app_focus_stack_delete s v flag =
      Some (if client_id v \<in> client_id ` set (entries s) then 0 else - ENOENT, v',
        delete_log (client_id v) flag (entries s), s')
    \<and> stack_wf s' \<and> entries s' = spec_delete (client_id v) (entries s)
    \<and> nat (max_size s') = nat (max_size s)"
    using delete_spec[OF wf, of v flag] delete_max by (fastforce simp: stack_ids_def)
  show "\<exists>s'. app_focus_stack_useless_clear live s flag = Some (clear_log live flag (entries s), s')
    \<and> stack_wf s' \<and> entries s' = spec_clear live (entries s) \<and> nat (max_size s') = nat (max_size s)" for live
    using useless_clear_spec[OF wf, of live flag] clear_max by fastforce
  assume fit: "length (entries s) < nat (max_size s)"
  obtain i where i: "app_focus_free_client_id s = int i" "i < length (node_list s)" "i \<notin> set (order s)"
    using free_slot(2)[OF wf fit] by blast
  note nf = free_slot(1)[OF wf fit]
  show "0 \<le> app_focus_free_client_id s \<and> app_focus_free_client_id s < int (nat (max_size s))
      \<and> app_focus_free_client_id s \<notin> client_id ` set (entries s)"
    using i stack_ids_order[OF wf] by (auto simp: wf_max[OF wf] stack_ids_def)
  assume v: "client_id v = app_focus_free_client_id s"
  then have vi: "client_id v = int i" using i by simp
  have lg: "push_log v flag (entries s) = (case order s of [] \<Rightarrow> []
      | h # _ \<Rightarrow> [(v, (node s h)\<lparr>focus_state := APP_FOCUS_STATE_STACK_UNDER\<rparr>, flag)])"
    by (auto simp: push_log_def entries_def with_state_def split: list.splits)
  have "max_size (link_top i v s) = max_size s"
    by (auto simp: link_top_def stack_simps split: list.splits)
  then show "\<exists>s'. app_focus_stack_push s v flag = Some (0, push_log v flag (entries s), s')
      \<and> stack_wf s' \<and> entries s' = spec_push v (entries s) \<and> nat (max_size s') = nat (max_size s)"
    using push_link[OF wf nf i(2,3) vi, of flag] wf_link_top[OF wf i(2,3) vi]
      entries_link_top[OF wf i(2,3), of v] lg by simp
  show "entries s \<noteq> [] \<Longrightarrow> app_focus_stack_insert s v 0 = Some (- ENOENT, [], s)"
    using insert_bad_index[OF wf nf _ i(2,3) vi] by simp
  show "1 \<le> k \<Longrightarrow> k \<le> length (entries s) \<Longrightarrow>
      \<exists>s'. app_focus_stack_insert s v (int k) = Some (0, [], s') \<and> stack_wf s'
        \<and> entries s' = spec_insert v k (entries s) \<and> nat (max_size s') = nat (max_size s)" for k
    using insert_spec[OF wf nf _ i(2,3) vi, of k] insert_max by (cases "entries s") fastforce+
qed

section \<open>Runs of the stack\<close>

text \<open>
  The states a stack of capacity \<open>n\<close> goes through: from \<open>app_focus_stack_init\<close>, by any
  operation. A push or an insert is given the client id the stack hands out, as
  \<open>media_focus_request_\<close> does.
\<close>

inductive stack_reachable :: "nat \<Rightarrow> app_focus_stack \<Rightarrow> bool" for n where
  init: "app_focus_stack_init True True n = Some s \<Longrightarrow> stack_reachable n s"
| push: "stack_reachable n s \<Longrightarrow> app_focus_free_client_id s = client_id v \<Longrightarrow> 0 \<le> client_id v \<Longrightarrow>
    app_focus_stack_push s v flag = Some (r, log, s') \<Longrightarrow> stack_reachable n s'"
| insert: "stack_reachable n s \<Longrightarrow> app_focus_free_client_id s = client_id v \<Longrightarrow> 0 \<le> client_id v \<Longrightarrow>
    app_focus_stack_insert s v k = Some (r, log, s') \<Longrightarrow> stack_reachable n s'"
| pop: "stack_reachable n s \<Longrightarrow> app_focus_stack_pop s v flag = Some (r, v', log, s') \<Longrightarrow>
    stack_reachable n s'"
| delete: "stack_reachable n s \<Longrightarrow> app_focus_stack_delete s v flag = Some (r, v', log, s') \<Longrightarrow>
    stack_reachable n s'"
| clear: "stack_reachable n s \<Longrightarrow> app_focus_stack_useless_clear live s flag = Some (log, s') \<Longrightarrow>
    stack_reachable n s'"
| clean: "stack_reachable n s \<Longrightarrow> app_focus_stack_clean s v flag = Some (log, s') \<Longrightarrow>
    stack_reachable n s'"

lemma pop_wf:
  assumes wf: "stack_wf s"
  shows "\<exists>r v' log s'. app_focus_stack_pop s v flag = Some (r, v', log, s') \<and> stack_wf s'
    \<and> entries s' = spec_promote (tl (entries s))"
proof (cases "order s")
  case Nil
  with wf show ?thesis by (simp add: app_focus_stack_pop_def entries_def spec_promote_def)
next
  case (Cons h r)
  have tl: "spec_delete (int h) (entries s) = spec_promote (tl (entries s))"
    using filter_other_ids[OF wf Cons] wf_id[OF wf, of h] Cons
    by (simp add: spec_delete_def entries_def)
  show ?thesis
  proof (cases r)
    case Nil
    with Cons have o': "order s = [h]" by simp
    from pop_only[OF wf o', of v flag] wf_unlink_only[OF wf o'] entries_unlink_only[OF wf o']
    show ?thesis by (simp add: tl)
  next
    case (Cons t r')
    with \<open>order s = h # r\<close> have o': "order s = h # t # r'" by simp
    from pop_many[OF wf o', of v flag] wf_unlink_top[OF wf o'] entries_unlink_top[OF wf o']
    show ?thesis by (simp add: tl)
  qed
qed

lemma clean_wf:
  "stack_wf s \<Longrightarrow> app_focus_stack_clean s v flag = Some (log, s') \<Longrightarrow>
   stack_wf s' \<and> entries s' = [] \<and> max_size s' = max_size s"
  by (auto simp: clean_spec wf_defs node_def entries_def)

lemma insert_any_index:
  assumes wf: "stack_wf s" and fit: "length (entries s) < nat (max_size s)"
    and v: "client_id v = app_focus_free_client_id s"
  shows "\<exists>r log s'. app_focus_stack_insert s v k = Some (r, log, s') \<and> stack_wf s'
    \<and> max_size s' = max_size s"
proof (cases "entries s = [] \<or> (1 \<le> k \<and> k \<le> int (length (entries s)))")
  case True
  show ?thesis
  proof (cases "entries s = []")
    case True
    then have "app_focus_stack_insert s v k = app_focus_stack_push s v k"
      using free_slot(1)[OF wf fit] wf by (simp add: app_focus_stack_insert_def entries_empty_iff)
    moreover obtain s' where "app_focus_stack_push s v k = Some (0, push_log v k (entries s), s')" "stack_wf s'"
      using fs.push_law[OF wf fit v, of k] by auto
    ultimately show ?thesis using push_max by auto
  next
    case False
    with True have k: "1 \<le> nat k" "nat k \<le> length (entries s)" "int (nat k) = k" by auto
    obtain s' where "app_focus_stack_insert s v k = Some (0, [], s')" "stack_wf s'"
      using fs.insert_law[OF wf fit v k(1,2)] k(3) by auto
    with insert_max show ?thesis by auto
  qed
next
  case False
  obtain i where i: "app_focus_free_client_id s = int i" "i < length (node_list s)" "i \<notin> set (order s)"
    using free_slot(2)[OF wf fit] by blast
  have "app_focus_stack_insert s v k = Some (-ENOENT, [], s)"
    by (rule insert_bad_index[OF wf free_slot(1)[OF wf fit] _ i(2,3)]) (use False v i in auto)
  with wf show ?thesis by simp
qed

lemma reachable_wf: "stack_reachable n s \<Longrightarrow> stack_wf s \<and> max_size s = int n"
proof (induction rule: stack_reachable.induct)
  case (init s)
  then show ?case using init_wf by blast
next
  case (push s v flag r log s')
  then have "length (entries s) < nat (max_size s)" using fs.free_nonneg_fits[of s] by linarith
  with push fs.push_law[of s v flag] push_max show ?case by fastforce
next
  case (insert s v k r log s')
  then have "length (entries s) < nat (max_size s)" using fs.free_nonneg_fits[of s] by linarith
  with insert insert_any_index[of s v k] show ?case by fastforce
next
  case (pop s v flag r v' log s')
  then show ?case using pop_wf[of s v flag] pop_max by fastforce
next
  case (delete s v flag r v' log s')
  then show ?case using fs.remove_law[of s v flag] delete_max by fastforce
next
  case (clear s live flag log s')
  then show ?case using fs.clear_law[of s live flag] clear_max by fastforce
next
  case (clean s v flag log s')
  then show ?case using clean_wf by metis
qed

section \<open>Properties\<close>


definition example_id :: "int \<Rightarrow> nat \<Rightarrow> int \<Rightarrow> app_focus_id" where
  "example_id c t st = \<lparr>client_id = c, focus_level = 0, thread_id = t, focus_state = st,
     focus_callback = Some 0, callback_argv = None\<rparr>"

definition example_stack :: app_focus_stack where
  "example_stack = \<lparr>node_list = [example_id 0 10 APP_FOCUS_STATE_STACK_UNDER,
      example_id 1 11 APP_FOCUS_STATE_STACK_TOP, empty_focus_id],
     order = [1, 0], max_size = 3, cur_size = 2\<rparr>"

lemma example_entries: "entries example_stack =
    [example_id 1 11 APP_FOCUS_STATE_STACK_TOP, example_id 0 10 APP_FOCUS_STATE_STACK_UNDER]"
  by (simp add: entries_def example_stack_def node_def)

lemma example_id_simps [simp]:
  "client_id (example_id c t st) = c" "thread_id (example_id c t st) = t"
  "with_state st' (example_id c t st) = example_id c t st'"
  by (simp_all add: example_id_def with_state_def)

lemma example_wf: "stack_wf example_stack"
  by (simp add: wf_defs example_stack_def example_id_def node_def All_less_Suc numeral_3_eq_3)


text \<open>C11: On a well-formed stack \<open>app_focus_stack_delete\<close> removes exactly the entry with the client
  id asked for, keeps the others in order, promotes the new head when the top was removed, tells
  the listener of that promotion and of nothing else, and answers \<open>-ENOENT\<close> with the stack's
  contents unchanged when there is no such entry.\<close>

theorem stack_delete_refines:
  assumes "stack_wf s"
  shows "\<exists>v' s'. app_focus_stack_delete s v flag =
      Some (if client_id v \<in> client_id ` set (entries s) then 0 else -ENOENT, v',
        delete_log (client_id v) flag (entries s), s')
    \<and> stack_wf s'
    \<and> entries s' = spec_promote (filter (\<lambda>e. client_id e \<noteq> client_id v) (entries s))
    \<and> (client_id v \<notin> client_id ` set (entries s) \<longrightarrow> entries s' = entries s)"
  using fs.remove_law[OF assms, of v flag] spec_delete_absent[OF assms, of "client_id v"]
  by (auto simp: stack_ids_def spec_delete_def)

lemma stack_delete_refines_witness:
  "\<exists>v' s'. app_focus_stack_delete example_stack (example_id 1 0 0) (-1) =
      Some (0, v', [(example_id 1 11 APP_FOCUS_STATE_STACK_QUIT,
                     example_id 0 10 APP_FOCUS_STATE_STACK_TOP, -1)], s')
    \<and> entries s' = [example_id 0 10 APP_FOCUS_STATE_STACK_TOP]"
  using stack_delete_refines[OF example_wf, of "example_id 1 0 0" "-1"]
  by (auto simp: example_entries delete_log_def spec_promote_def)

text \<open>On a well-formed stack \<open>app_focus_stack_useless_clear\<close> removes exactly the entries whose
  thread is dead, keeps the live ones in order with the first of them in state TOP, and makes one
  callback, from the last dead entry above it to the first live one, exactly when a dead top was
  in the way of a live entry.\<close>

theorem stack_clear_refines:
  assumes "stack_wf s"
  shows "\<exists>s'. app_focus_stack_useless_clear live s flag = Some (clear_log live flag (entries s), s')
    \<and> stack_wf s'
    \<and> entries s' = spec_promote (filter (\<lambda>e. live (thread_id e)) (entries s))
    \<and> (\<forall>e\<in>set (entries s'). live (thread_id e))"
proof -
  have "thread_id ` set (spec_promote es) = thread_id ` set es" for es
    by (cases es) (simp_all add: spec_promote_def)
  then have "thread_id ` set (spec_clear live (entries s)) \<subseteq> Collect live"
    by (auto simp: spec_clear_def)
  then have "\<forall>e\<in>set (spec_clear live (entries s)). live (thread_id e)" by blast
  moreover obtain s' where s': "app_focus_stack_useless_clear live s flag = Some (clear_log live flag (entries s), s')"
      "stack_wf s'" "entries s' = spec_clear live (entries s)"
    using fs.clear_law[OF assms, of live flag] by (elim exE conjE) (rule that)
  ultimately show ?thesis using s'(1,2) s'(3)[unfolded spec_clear_def] by (intro exI[of _ s']) simp
qed

lemma stack_clear_refines_witness:
  "\<exists>s'. app_focus_stack_useless_clear (\<lambda>t. t = 10) example_stack (-1) =
      Some ([(example_id 1 11 APP_FOCUS_STATE_STACK_TOP, example_id 0 10 APP_FOCUS_STATE_STACK_TOP, -1)], s')
    \<and> entries s' = [example_id 0 10 APP_FOCUS_STATE_STACK_TOP]"
  using stack_clear_refines[OF example_wf, of "\<lambda>t. t = 10" "-1"]
  by (auto simp: example_entries clear_log_def spec_promote_def)

text \<open>Pushing an entry with the id the stack hands out and deleting it again restores the
  stack's contents, states included, whatever the flags.\<close>

theorem stack_push_delete_roundtrip:
  assumes "stack_wf s" "0 \<le> app_focus_free_client_id s" "client_id v = app_focus_free_client_id s"
  shows "\<exists>log s1 v' log' s2. app_focus_stack_push s v flag = Some (0, log, s1)
    \<and> hd (entries s1) = v\<lparr>focus_state := APP_FOCUS_STATE_STACK_TOP\<rparr>
    \<and> app_focus_stack_delete s1 v flag' = Some (0, v', log', s2)
    \<and> stack_wf s2 \<and> entries s2 = entries s"
proof -
  have fit: "length (entries s) < nat (max_size s)" using fs.free_nonneg_fits[OF assms(1,2)] .
  obtain s1 where s1: "app_focus_stack_push s v flag = Some (0, push_log v flag (entries s), s1)"
      "entries s1 = spec_push v (entries s)"
    using fs.push_law[OF assms(1) fit assms(3), of flag] by auto
  from fs.push_then_remove[OF assms(1) fit assms(3) s1(1), of flag'] s1
  show ?thesis by (auto simp: spec_push_def with_state_def)
qed

lemma stack_push_delete_roundtrip_witness:
  "\<exists>log s1 v' log' s2. app_focus_stack_push example_stack (example_id 2 12 0) 0 = Some (0, log, s1)
    \<and> app_focus_stack_delete s1 (example_id 2 12 0) 0 = Some (0, v', log', s2)
    \<and> entries s2 = entries example_stack"
proof -
  have "app_focus_free_client_id example_stack = 2"
    by (simp add: app_focus_free_client_id_def app_focus_stack_is_full_def example_stack_def example_id_def)
  then show ?thesis
    using stack_push_delete_roundtrip[OF example_wf, of "example_id 2 12 0" 0 0]
    by (fastforce simp: example_id_def)
qed

end
