(* ===== verification/Media_Parcel.thy ===== *)
theory Media_Parcel
  imports Media_Prelude "HOL-Library.Word"
begin

text \<open>
  The message buffer of \<open>utils/media_parcel.c\<close>: a chunk with an eight byte header (code and
  length, 32 bits each) and a data area, first the array embedded in the parcel, after the first
  growth a block of the heap. The chunk is modelled by its bytes, header included, because
  \<open>media_parcel_recv\<close> writes received bytes over the header and then reads the length from it.

  The target is ILP32 and little endian (NuttX on 32-bit Arm): \<open>size_t\<close> and \<open>uint32_t\<close> are 32
  bits wide, and their arithmetic is written on \<open>nat\<close> with the wrap-around explicit in \<open>u32\<close>.
  \<open>None\<close> stands for undefined behaviour: an access outside a chunk, or an argument list that does
  not match the format. Memory is a parameter: \<open>alloc n\<close> is \<open>None\<close> when \<open>malloc(n)\<close> or
  \<open>realloc\<close> to \<open>n\<close> bytes fails, otherwise the bytes the new block happens to hold.
\<close>

type_synonym byte = "8 word"
type_synonym bytes = "8 word list"
type_synonym allocator = "nat \<Rightarrow> bytes option"

section \<open>Bytes\<close>

definition u32 :: "nat \<Rightarrow> nat" where
  "u32 n = n mod 4294967296"

fun le_bytes :: "nat \<Rightarrow> nat \<Rightarrow> bytes" where
  "le_bytes 0 v = []"
| "le_bytes (Suc n) v = word_of_nat v # le_bytes n (v div 256)"

fun le_val :: "bytes \<Rightarrow> nat" where
  "le_val [] = 0"
| "le_val (b # bs) = unat b + 256 * le_val bs"

definition write_at :: "nat \<Rightarrow> bytes \<Rightarrow> bytes \<Rightarrow> bytes option" where
  \<comment> \<open>\<open>memcpy\<close> of \<open>bs\<close> to offset \<open>off\<close> of the block \<open>mem\<close>\<close>
  "write_at off bs mem =
     (if off + length bs \<le> length mem
      then Some (take off mem @ bs @ drop (off + length bs) mem) else None)"

definition read_at :: "nat \<Rightarrow> nat \<Rightarrow> bytes \<Rightarrow> bytes option" where
  "read_at off n mem = (if off + n \<le> length mem then Some (take n (drop off mem)) else None)"

section \<open>The parcel\<close>

definition MEDIA_PARCEL_HEADER_LEN :: nat where "MEDIA_PARCEL_HEADER_LEN = 8"
definition MEDIA_PARCEL_DATA_LEN :: nat where "MEDIA_PARCEL_DATA_LEN = 256"

lemmas parcel_consts = MEDIA_PARCEL_HEADER_LEN_def MEDIA_PARCEL_DATA_LEN_def

text \<open>The field \<open>chunk\<close> of the struct points at \<open>prealloc\<close> when \<open>heap\<close> is \<open>None\<close>.\<close>

record media_parcel =
  prealloc :: bytes
  heap :: "bytes option"
  next_pos :: nat
  cap :: nat

definition chunk :: "media_parcel \<Rightarrow> bytes" where
  "chunk p = (case heap p of None \<Rightarrow> prealloc p | Some h \<Rightarrow> h)"

definition set_chunk :: "bytes \<Rightarrow> media_parcel \<Rightarrow> media_parcel" where
  "set_chunk bs p = (case heap p of None \<Rightarrow> p\<lparr>prealloc := bs\<rparr> | Some _ \<Rightarrow> p\<lparr>heap := Some bs\<rparr>)"

definition chunk_code :: "media_parcel \<Rightarrow> nat" where
  "chunk_code p = le_val (take 4 (chunk p))"

definition chunk_len :: "media_parcel \<Rightarrow> nat" where
  "chunk_len p = le_val (take 4 (drop 4 (chunk p)))"

definition set_code :: "nat \<Rightarrow> media_parcel \<Rightarrow> media_parcel option" where
  "set_code v p = do { c \<leftarrow> write_at 0 (le_bytes 4 v) (chunk p); Some (set_chunk c p) }"

definition set_len :: "nat \<Rightarrow> media_parcel \<Rightarrow> media_parcel option" where
  "set_len v p = do { c \<leftarrow> write_at 4 (le_bytes 4 v) (chunk p); Some (set_chunk c p) }"

section \<open>Growing, initialising, copying\<close>

definition media_parcel_grow :: "allocator \<Rightarrow> media_parcel \<Rightarrow> nat \<Rightarrow> nat \<Rightarrow> (int \<times> media_parcel) option" where
  "media_parcel_grow alloc p cursz newsz0 =
     (let newsz1 = u32 (newsz0 + chunk_len p) in
      if newsz1 \<le> cap p then Some (0, p)
      else let newsz = (if newsz1 \<le> u32 (2 * cap p) then u32 (2 * cap p) else newsz1);
               size = u32 (MEDIA_PARCEL_HEADER_LEN + newsz)
           in case alloc size of
                None \<Rightarrow> Some (-ENOMEM, p)
              | Some fresh \<Rightarrow> do {
                  new \<leftarrow> (case heap p of
                      None \<Rightarrow> do {
                        old \<leftarrow> read_at 0 (u32 (MEDIA_PARCEL_HEADER_LEN + cursz)) (prealloc p);
                        write_at 0 old fresh
                      }
                    | Some h \<Rightarrow> Some (take size h @ drop (length h) fresh));
                  Some (0, p\<lparr>heap := Some new, cap := newsz\<rparr>)
                })"

definition media_parcel_init :: "media_parcel \<Rightarrow> media_parcel option" where
  "media_parcel_init p = do {
     let p1 = p\<lparr>heap := None, next_pos := 0, cap := MEDIA_PARCEL_DATA_LEN\<rparr>;
     p2 \<leftarrow> set_code 0 p1;
     set_len 0 p2
   }"

definition media_parcel_deinit :: "media_parcel \<Rightarrow> media_parcel" where
  \<comment> \<open>the block is freed; the dangling \<open>chunk\<close> is not read before the next init\<close>
  "media_parcel_deinit p = p"

definition media_parcel_reinit :: "media_parcel \<Rightarrow> media_parcel option" where
  "media_parcel_reinit p = media_parcel_init (media_parcel_deinit p)"

definition media_parcel_clone :: "allocator \<Rightarrow> media_parcel \<Rightarrow> (int \<times> media_parcel) option" where
  "media_parcel_clone alloc src =
     (let dst = src in
      case heap src of
        None \<Rightarrow> Some (0, dst)
      | Some h \<Rightarrow>
          let len = u32 (MEDIA_PARCEL_HEADER_LEN + cap src) in
          (case alloc len of
             None \<Rightarrow> do { d \<leftarrow> media_parcel_init (dst\<lparr>heap := None\<rparr>); Some (-ENOMEM, d) }
           | Some fresh \<Rightarrow> do {
               old \<leftarrow> read_at 0 len h;
               new \<leftarrow> write_at 0 old fresh;
               Some (0, dst\<lparr>heap := Some new\<rparr>)
             }))"

section \<open>Appending\<close>

definition media_parcel_append :: "allocator \<Rightarrow> media_parcel \<Rightarrow> bytes \<Rightarrow> (int \<times> media_parcel) option" where
  "media_parcel_append alloc p data =
     (if data = [] then Some (0, p)
      else do {
        (rv, p1) \<leftarrow> media_parcel_grow alloc p (chunk_len p) (length data);
        (if rv < 0 then Some (rv, p1)
         else do {
           c \<leftarrow> write_at (MEDIA_PARCEL_HEADER_LEN + chunk_len p1) data (chunk p1);
           let p2 = set_chunk c p1;
           p3 \<leftarrow> set_len (u32 (chunk_len p2 + length data)) p2;
           Some (0, p3)
         })
      })"

definition media_parcel_append_uint8 :: "allocator \<Rightarrow> media_parcel \<Rightarrow> 8 word \<Rightarrow> (int \<times> media_parcel) option" where
  "media_parcel_append_uint8 alloc p v = media_parcel_append alloc p (le_bytes 1 (unat v))"

definition media_parcel_append_uint16 :: "allocator \<Rightarrow> media_parcel \<Rightarrow> 16 word \<Rightarrow> (int \<times> media_parcel) option" where
  "media_parcel_append_uint16 alloc p v = media_parcel_append alloc p (le_bytes 2 (unat v))"

definition media_parcel_append_uint32 :: "allocator \<Rightarrow> media_parcel \<Rightarrow> 32 word \<Rightarrow> (int \<times> media_parcel) option" where
  "media_parcel_append_uint32 alloc p v = media_parcel_append alloc p (le_bytes 4 (unat v))"

definition media_parcel_append_uint64 :: "allocator \<Rightarrow> media_parcel \<Rightarrow> 64 word \<Rightarrow> (int \<times> media_parcel) option" where
  "media_parcel_append_uint64 alloc p v = media_parcel_append alloc p (le_bytes 8 (unat v))"

definition media_parcel_append_int8 :: "allocator \<Rightarrow> media_parcel \<Rightarrow> 8 word \<Rightarrow> (int \<times> media_parcel) option" where
  "media_parcel_append_int8 alloc p v = media_parcel_append alloc p (le_bytes 1 (unat v))"

definition media_parcel_append_int16 :: "allocator \<Rightarrow> media_parcel \<Rightarrow> 16 word \<Rightarrow> (int \<times> media_parcel) option" where
  "media_parcel_append_int16 alloc p v = media_parcel_append alloc p (le_bytes 2 (unat v))"

definition media_parcel_append_int32 :: "allocator \<Rightarrow> media_parcel \<Rightarrow> 32 word \<Rightarrow> (int \<times> media_parcel) option" where
  "media_parcel_append_int32 alloc p v = media_parcel_append alloc p (le_bytes 4 (unat v))"

definition media_parcel_append_int64 :: "allocator \<Rightarrow> media_parcel \<Rightarrow> 64 word \<Rightarrow> (int \<times> media_parcel) option" where
  "media_parcel_append_int64 alloc p v = media_parcel_append alloc p (le_bytes 8 (unat v))"

text \<open>Floating point values are their bit patterns.\<close>

definition media_parcel_append_float :: "allocator \<Rightarrow> media_parcel \<Rightarrow> 32 word \<Rightarrow> (int \<times> media_parcel) option" where
  "media_parcel_append_float alloc p v = media_parcel_append alloc p (le_bytes 4 (unat v))"

definition media_parcel_append_double :: "allocator \<Rightarrow> media_parcel \<Rightarrow> 64 word \<Rightarrow> (int \<times> media_parcel) option" where
  "media_parcel_append_double alloc p v = media_parcel_append alloc p (le_bytes 8 (unat v))"

definition media_parcel_append_string :: "allocator \<Rightarrow> media_parcel \<Rightarrow> bytes option \<Rightarrow> (int \<times> media_parcel) option" where
  \<comment> \<open>a C string is its bytes before the terminating zero, which is appended too\<close>
  "media_parcel_append_string alloc p str =
     (let s = (case str of None \<Rightarrow> [] | Some s \<Rightarrow> s) in media_parcel_append alloc p (s @ [0]))"

text \<open>The variable arguments of the printing functions, after the default promotions.\<close>

datatype varg = VInt64 "64 word" | VInt32 "32 word" | VDouble "64 word" | VString "bytes option"

definition append_conv :: "allocator \<Rightarrow> (64 word \<Rightarrow> 32 word) \<Rightarrow> char \<Rightarrow> media_parcel \<Rightarrow> varg list \<Rightarrow> int
    \<Rightarrow> (int \<times> media_parcel \<times> varg list) option" where
  \<comment> \<open>the switch of \<open>media_parcel_append_vprintf\<close>; \<open>narrow\<close> converts a double to a float\<close>
  "append_conv alloc narrow c p ap ret =
    (if c = CHR ''l'' then (case ap of VInt64 v # r \<Rightarrow> do { (e, q) \<leftarrow> media_parcel_append_int64 alloc p v; Some (e, q, r) } | _ \<Rightarrow> None)
     else if c = CHR ''i'' then (case ap of VInt32 v # r \<Rightarrow> do { (e, q) \<leftarrow> media_parcel_append_int32 alloc p v; Some (e, q, r) } | _ \<Rightarrow> None)
     else if c = CHR ''h'' then (case ap of VInt32 v # r \<Rightarrow> do { (e, q) \<leftarrow> media_parcel_append_int16 alloc p (ucast v); Some (e, q, r) } | _ \<Rightarrow> None)
     else if c = CHR ''c'' then (case ap of VInt32 v # r \<Rightarrow> do { (e, q) \<leftarrow> media_parcel_append_int8 alloc p (ucast v); Some (e, q, r) } | _ \<Rightarrow> None)
     else if c = CHR ''d'' then (case ap of VDouble v # r \<Rightarrow> do { (e, q) \<leftarrow> media_parcel_append_double alloc p v; Some (e, q, r) } | _ \<Rightarrow> None)
     else if c = CHR ''f'' then (case ap of VDouble v # r \<Rightarrow> do { (e, q) \<leftarrow> media_parcel_append_float alloc p (narrow v); Some (e, q, r) } | _ \<Rightarrow> None)
     else if c = CHR ''s'' then (case ap of VString v # r \<Rightarrow> do { (e, q) \<leftarrow> media_parcel_append_string alloc p v; Some (e, q, r) } | _ \<Rightarrow> None)
     else Some (ret, p, ap))"

fun vprintf_loop :: "allocator \<Rightarrow> (64 word \<Rightarrow> 32 word) \<Rightarrow> string \<Rightarrow> media_parcel \<Rightarrow> varg list \<Rightarrow> int
    \<Rightarrow> (int \<times> media_parcel) option" where
  "vprintf_loop alloc narrow [] p ap ret = Some (ret, p)"
| "vprintf_loop alloc narrow (c # fmt) p ap ret =
     (if c = CHR ''%'' then vprintf_loop alloc narrow fmt p ap ret
      else do {
        (ret', p', ap') \<leftarrow> append_conv alloc narrow c p ap ret;
        (if ret' < 0 then Some (ret', p') else vprintf_loop alloc narrow fmt p' ap' ret')
      })"

definition media_parcel_append_vprintf :: "allocator \<Rightarrow> (64 word \<Rightarrow> 32 word) \<Rightarrow> media_parcel \<Rightarrow> string \<Rightarrow> varg list
    \<Rightarrow> (int \<times> media_parcel) option" where
  "media_parcel_append_vprintf alloc narrow p fmt ap = vprintf_loop alloc narrow fmt p ap 0"

definition media_parcel_append_printf :: "allocator \<Rightarrow> (64 word \<Rightarrow> 32 word) \<Rightarrow> media_parcel \<Rightarrow> string \<Rightarrow> varg list
    \<Rightarrow> (int \<times> media_parcel) option" where
  "media_parcel_append_printf alloc narrow p fmt ap = media_parcel_append_vprintf alloc narrow p fmt ap"

section \<open>Sending and receiving\<close>

text \<open>
  The socket is a parameter given by what its calls return, in order. An accepted part of a
  \<open>send\<close> is at most what was offered. A call that never returns is the empty list of events.
\<close>

datatype send_event = Sent nat | Send_error int

fun send_loop :: "bytes \<Rightarrow> send_event list \<Rightarrow> bytes \<Rightarrow> (int \<times> bytes \<times> send_event list) option" where
  "send_loop [] evs out = Some (0, out, evs)"
| "send_loop (b # bs) [] out = None"
| "send_loop (b # bs) (Send_error e # evs) out = Some (-e, out, evs)"
| "send_loop (b # bs) (Sent n # evs) out = send_loop (drop n (b # bs)) evs (out @ take n (b # bs))"

definition media_parcel_send :: "media_parcel \<Rightarrow> nat \<Rightarrow> send_event list
    \<Rightarrow> (int \<times> media_parcel \<times> bytes \<times> send_event list) option" where
  \<comment> \<open>the result, the parcel with its code set, the bytes put on the wire, the events left\<close>
  "media_parcel_send p code evs = do {
     let len = u32 (MEDIA_PARCEL_HEADER_LEN + chunk_len p);
     p1 \<leftarrow> set_code code p;
     buf \<leftarrow> read_at 0 len (chunk p1);
     (r, out, evs') \<leftarrow> send_loop buf evs [];
     Some (r, p1, out, evs')
   }"

datatype recv_event = Received bytes | Recv_error int | Closed

fun sock_recv :: "recv_event list \<Rightarrow> nat \<Rightarrow> (int + bytes) \<times> recv_event list" where
  \<comment> \<open>\<open>Inl\<close> is the errno; \<open>Inr []\<close> the end of the stream; no event left means \<open>EAGAIN\<close>\<close>
  "sock_recv [] n = (Inl EAGAIN, [])"
| "sock_recv (Recv_error e # evs) n = (Inl e, evs)"
| "sock_recv (Closed # evs) n = (Inr [], Closed # evs)"
| "sock_recv (Received bs # evs) n =
     (if bs = [] then sock_recv evs n
      else (Inr (take n bs), if drop n bs = [] then evs else Received (drop n bs) # evs))"

fun event_size :: "recv_event \<Rightarrow> nat" where
  "event_size (Received bs) = Suc (length bs)"
| "event_size (Recv_error e) = 1"
| "event_size Closed = 1"

lemma sock_recv_consumes:
  "sock_recv evs n = (Inr bs, evs') \<Longrightarrow> bs \<noteq> [] \<Longrightarrow>
   sum_list (map event_size evs') < sum_list (map event_size evs)"
  by (induction evs n rule: sock_recv.induct) (auto split: if_splits)

function recv_loop :: "allocator \<Rightarrow> media_parcel \<Rightarrow> nat \<Rightarrow> nat \<Rightarrow> recv_event list
    \<Rightarrow> (int \<times> media_parcel \<times> nat \<times> recv_event list) option" where
  "recv_loop alloc p offset len evs =
     (if offset = len then Some (0, p, offset, evs)
      else let want = (if offset < MEDIA_PARCEL_HEADER_LEN then MEDIA_PARCEL_HEADER_LEN - offset
                       else u32 (4294967296 + len - offset))
           in case sock_recv evs want of
                (Inl e, evs') \<Rightarrow> Some (-e, p, offset, evs')
              | (Inr bs, evs') \<Rightarrow>
                  if bs = [] then Some (-EPIPE, p, offset, evs')
                  else case write_at offset bs (chunk p) of
                         None \<Rightarrow> None
                       | Some c \<Rightarrow>
                           let p1 = set_chunk c p; offset1 = u32 (offset + length bs) in
                           if offset1 = MEDIA_PARCEL_HEADER_LEN
                           then (case media_parcel_grow alloc p1 0 (chunk_len p1) of
                                   None \<Rightarrow> None
                                 | Some (ret, p2) \<Rightarrow>
                                     let len1 = u32 (MEDIA_PARCEL_HEADER_LEN + chunk_len p2) in
                                     if ret < 0 then Some (ret, p2, offset1, evs')
                                     else recv_loop alloc p2 offset1 len1 evs')
                           else recv_loop alloc p1 offset1 len evs')"
  by pat_completeness auto

termination
  by (relation "measure (\<lambda>(alloc, p, offset, len, evs). sum_list (map event_size evs))")
    (auto dest!: sym[of _ "sock_recv _ _"] intro: sock_recv_consumes)

declare recv_loop.simps [simp del]

definition media_parcel_recv :: "allocator \<Rightarrow> media_parcel \<Rightarrow> nat option \<Rightarrow> recv_event list
    \<Rightarrow> (int \<times> media_parcel \<times> nat \<times> recv_event list) option" where
  \<comment> \<open>\<open>None\<close> as offset is the NULL pointer: a local counter from zero\<close>
  "media_parcel_recv alloc p offset evs =
     (let off = (case offset of None \<Rightarrow> 0 | Some n \<Rightarrow> n) in
      recv_loop alloc p off (u32 (MEDIA_PARCEL_HEADER_LEN + chunk_len p)) evs)"

definition media_parcel_recvfrom :: "allocator \<Rightarrow> media_parcel \<Rightarrow> nat \<Rightarrow> bytes
    \<Rightarrow> (int \<times> media_parcel \<times> nat) option" where
  "media_parcel_recvfrom alloc p offset buf =
     (let len = length buf;
          expected = (if offset < MEDIA_PARCEL_HEADER_LEN then MEDIA_PARCEL_HEADER_LEN - offset
                      else u32 (4294967296 + chunk_len p + MEDIA_PARCEL_HEADER_LEN - offset))
      in if expected \<le> len then do {
           c \<leftarrow> write_at offset (take expected buf) (chunk p);
           let p1 = set_chunk c p;
           let offset1 = u32 (offset + expected);
           (ret, p2) \<leftarrow> (if offset1 = MEDIA_PARCEL_HEADER_LEN
              then media_parcel_grow alloc p1 0 (chunk_len p1) else Some (0, p1));
           Some (if ret < 0 then ret else int expected, p2, offset1)
         }
         else do {
           c \<leftarrow> write_at offset buf (chunk p);
           Some (int len, set_chunk c p, u32 (offset + len))
         })"

definition media_parcel_get_code :: "media_parcel \<Rightarrow> nat" where
  "media_parcel_get_code p = chunk_code p"

section \<open>Reading\<close>

definition media_parcel_copy :: "media_parcel \<Rightarrow> nat \<Rightarrow> (int \<times> bytes \<times> media_parcel) option" where
  \<comment> \<open>the bytes copied out; a NULL destination skips them\<close>
  "media_parcel_copy p sz =
     (if u32 (next_pos p + sz) > chunk_len p then Some (-ENOSPC, [], p)
      else do {
        val \<leftarrow> read_at (MEDIA_PARCEL_HEADER_LEN + next_pos p) sz (chunk p);
        Some (0, val, p\<lparr>next_pos := u32 (next_pos p + sz)\<rparr>)
      })"

definition media_parcel_read :: "media_parcel \<Rightarrow> nat \<Rightarrow> bytes option \<times> media_parcel" where
  \<comment> \<open>a pointer into the data area is the bytes from there on; \<open>None\<close> is the NULL returned\<close>
  "media_parcel_read p sz =
     (if u32 (next_pos p + sz) \<le> chunk_len p
      then (Some (drop (MEDIA_PARCEL_HEADER_LEN + next_pos p) (chunk p)),
            p\<lparr>next_pos := u32 (next_pos p + sz)\<rparr>)
      else (None, p))"

definition media_parcel_read_string :: "media_parcel \<Rightarrow> (bytes option \<times> media_parcel) option" where
  "media_parcel_read_string p = do {
     beg \<leftarrow> read_at (MEDIA_PARCEL_HEADER_LEN + next_pos p) (u32 (4294967296 + chunk_len p - next_pos p)) (chunk p);
     (if 0 \<notin> set beg then Some (None, p)
      else let sz = length (takeWhile (\<lambda>b. b \<noteq> 0) beg) + 1;
               (ret, p1) = media_parcel_read p sz
           in case ret of
                None \<Rightarrow> Some (None, p1)
              | Some q \<Rightarrow> if hd q = 0 then Some (None, p1)
                          else Some (Some (takeWhile (\<lambda>b. b \<noteq> 0) q), p1))
   }"

text \<open>The values a scan writes through its pointers.\<close>

datatype sval = S64 "64 word" | S32 "32 word" | S16 "16 word" | S8 "8 word"
  | SDouble "64 word" | SFloat "32 word" | SString "bytes option"

definition read_number :: "(nat \<Rightarrow> sval) \<Rightarrow> nat \<Rightarrow> media_parcel \<Rightarrow> bool
    \<Rightarrow> (int \<times> sval list \<times> media_parcel) option" where
  \<comment> \<open>\<open>media_parcel_read_int64\<close> and its siblings; the flag says that the pointer is not NULL\<close>
  "read_number mk sz p ptr = do {
     (ret, val, p1) \<leftarrow> media_parcel_copy p sz;
     Some (ret, if ret = 0 \<and> ptr then [mk (le_val val)] else [], p1)
   }"

definition media_parcel_read_int64 :: "media_parcel \<Rightarrow> bool \<Rightarrow> (int \<times> sval list \<times> media_parcel) option" where
  "media_parcel_read_int64 p ptr = read_number (\<lambda>n. S64 (word_of_nat n)) 8 p ptr"

definition media_parcel_read_int32 :: "media_parcel \<Rightarrow> bool \<Rightarrow> (int \<times> sval list \<times> media_parcel) option" where
  "media_parcel_read_int32 p ptr = read_number (\<lambda>n. S32 (word_of_nat n)) 4 p ptr"

definition media_parcel_read_int16 :: "media_parcel \<Rightarrow> bool \<Rightarrow> (int \<times> sval list \<times> media_parcel) option" where
  "media_parcel_read_int16 p ptr = read_number (\<lambda>n. S16 (word_of_nat n)) 2 p ptr"

definition media_parcel_read_int8 :: "media_parcel \<Rightarrow> bool \<Rightarrow> (int \<times> sval list \<times> media_parcel) option" where
  "media_parcel_read_int8 p ptr = read_number (\<lambda>n. S8 (word_of_nat n)) 1 p ptr"

definition media_parcel_read_uint64 :: "media_parcel \<Rightarrow> bool \<Rightarrow> (int \<times> sval list \<times> media_parcel) option" where
  "media_parcel_read_uint64 p ptr = read_number (\<lambda>n. S64 (word_of_nat n)) 8 p ptr"

definition media_parcel_read_uint32 :: "media_parcel \<Rightarrow> bool \<Rightarrow> (int \<times> sval list \<times> media_parcel) option" where
  "media_parcel_read_uint32 p ptr = read_number (\<lambda>n. S32 (word_of_nat n)) 4 p ptr"

definition media_parcel_read_uint16 :: "media_parcel \<Rightarrow> bool \<Rightarrow> (int \<times> sval list \<times> media_parcel) option" where
  "media_parcel_read_uint16 p ptr = read_number (\<lambda>n. S16 (word_of_nat n)) 2 p ptr"

definition media_parcel_read_uint8 :: "media_parcel \<Rightarrow> bool \<Rightarrow> (int \<times> sval list \<times> media_parcel) option" where
  "media_parcel_read_uint8 p ptr = read_number (\<lambda>n. S8 (word_of_nat n)) 1 p ptr"

definition media_parcel_read_double :: "media_parcel \<Rightarrow> bool \<Rightarrow> (int \<times> sval list \<times> media_parcel) option" where
  "media_parcel_read_double p ptr = read_number (\<lambda>n. SDouble (word_of_nat n)) 8 p ptr"

definition media_parcel_read_float :: "media_parcel \<Rightarrow> bool \<Rightarrow> (int \<times> sval list \<times> media_parcel) option" where
  "media_parcel_read_float p ptr = read_number (\<lambda>n. SFloat (word_of_nat n)) 4 p ptr"

definition scan_conv :: "char \<Rightarrow> media_parcel \<Rightarrow> bool list \<Rightarrow> int
    \<Rightarrow> (int \<times> sval list \<times> media_parcel \<times> bool list) option" where
  \<comment> \<open>the switch of \<open>media_parcel_read_vscanf\<close>; each flag says whether the pointer is not NULL\<close>
  "scan_conv c p ap ret =
    (let num = (\<lambda>rd. case ap of q # r \<Rightarrow> do { (e, out, p') \<leftarrow> rd p q; Some (e, out, p', r) } | [] \<Rightarrow> None) in
     if c = CHR ''l'' then num media_parcel_read_int64
     else if c = CHR ''i'' then num media_parcel_read_int32
     else if c = CHR ''h'' then num media_parcel_read_int16
     else if c = CHR ''c'' then num media_parcel_read_int8
     else if c = CHR ''d'' then num media_parcel_read_double
     else if c = CHR ''f'' then num media_parcel_read_float
     else if c = CHR ''s'' then (case ap of
        q # r \<Rightarrow> do { (s, p') \<leftarrow> media_parcel_read_string p;
                      Some (ret, if q then [SString s] else [], p', r) }
      | [] \<Rightarrow> None)
     else Some (ret, [], p, ap))"

fun vscanf_loop :: "string \<Rightarrow> media_parcel \<Rightarrow> bool list \<Rightarrow> int \<Rightarrow> (int \<times> sval list \<times> media_parcel) option" where
  "vscanf_loop [] p ap ret = Some (ret, [], p)"
| "vscanf_loop (c # fmt) p ap ret =
     (if c = CHR ''%'' then vscanf_loop fmt p ap ret
      else do {
        (ret', out, p', ap') \<leftarrow> scan_conv c p ap ret;
        (if ret' < 0 then Some (ret', out, p')
         else do {
           (ret'', out', p'') \<leftarrow> vscanf_loop fmt p' ap' ret';
           Some (ret'', out @ out', p'')
         })
      })"

definition media_parcel_read_vscanf :: "media_parcel \<Rightarrow> string \<Rightarrow> bool list \<Rightarrow> (int \<times> sval list \<times> media_parcel) option" where
  "media_parcel_read_vscanf p fmt ap = vscanf_loop fmt p ap 0"

definition media_parcel_read_scanf :: "media_parcel \<Rightarrow> string \<Rightarrow> bool list \<Rightarrow> (int \<times> sval list \<times> media_parcel) option" where
  "media_parcel_read_scanf p fmt ap = media_parcel_read_vscanf p fmt ap"

section \<open>Well-formed parcels\<close>

lemma length_le_bytes [simp]: "length (le_bytes n v) = n"
  by (induction n arbitrary: v) auto

lemma le_val_le_bytes: "le_val (le_bytes n v) = v mod 256 ^ n"
proof (induction n arbitrary: v)
  case (Suc n)
  have "unat (word_of_nat v :: 8 word) = v mod 256" by (simp add: unat_of_nat)
  with Suc show ?case by (simp add: mod_mult2_eq)
qed simp

lemma le_val_bound: "le_val bs < 256 ^ length bs"
proof (induction bs)
  case (Cons b bs)
  have "unat b < 2 ^ LENGTH(8)" by (rule unsigned_less)
  with Cons show ?case by simp
qed simp

lemma le_bytes_le_val: "le_bytes (length bs) (le_val bs) = bs"
proof (induction bs)
  case (Cons b bs)
  have "unat b < 2 ^ LENGTH(8)" by (rule unsigned_less)
  then have "(unat b + 256 * le_val bs) div 256 = le_val bs" by simp
  moreover have "(word_of_nat (256 * le_val bs) :: 8 word) = 0"
    unfolding word_of_nat_eq_0_iff by simp
  ultimately show ?case using Cons by simp
qed simp

lemma le_val_4: "v < 4294967296 \<Longrightarrow> le_val (le_bytes 4 v) = v"
  by (simp add: le_val_le_bytes)

lemma u32_id [simp]: "n < 4294967296 \<Longrightarrow> u32 n = n"
  by (simp add: u32_def)

lemma chunk_len_bound: "chunk_len p < 4294967296"
proof -
  have "le_val (take 4 (drop 4 (chunk p))) < 256 ^ length (take 4 (drop 4 (chunk p)))"
    by (rule le_val_bound)
  also have "\<dots> \<le> 256 ^ 4" by (rule power_increasing) auto
  finally show ?thesis by (simp add: chunk_len_def)
qed

lemma chunk_set_chunk [simp]: "chunk (set_chunk c p) = c"
  by (auto simp: chunk_def set_chunk_def split: option.splits)

lemma set_chunk_fields [simp]:
  "next_pos (set_chunk c p) = next_pos p" "cap (set_chunk c p) = cap p"
  "(heap (set_chunk c p) = None) = (heap p = None)"
  by (auto simp: set_chunk_def split: option.splits)

text \<open>
  The shape of a parcel: its block holds the header and \<open>cap\<close> data bytes, and capacities stay
  below two gigabytes. A well-formed parcel also has its data and read position inside.
\<close>

definition parcel_shape :: "media_parcel \<Rightarrow> bool" where
  "parcel_shape p \<longleftrightarrow> length (prealloc p) = 264 \<and> length (chunk p) = 8 + cap p \<and> 256 \<le> cap p
     \<and> cap p + 8 < 2147483648 \<and> (heap p = None \<longrightarrow> cap p = 256)"

definition parcel_wf :: "media_parcel \<Rightarrow> bool" where
  "parcel_wf p \<longleftrightarrow> parcel_shape p \<and> chunk_len p \<le> cap p \<and> next_pos p \<le> chunk_len p"

definition parcel_data :: "media_parcel \<Rightarrow> bytes" where
  "parcel_data p = take (chunk_len p) (drop 8 (chunk p))"

definition alloc_ok :: "allocator \<Rightarrow> bool" where
  \<comment> \<open>the contract of \<open>malloc\<close> and \<open>realloc\<close>: a block has the size asked for\<close>
  "alloc_ok alloc \<longleftrightarrow> (\<forall>n bs. alloc n = Some bs \<longrightarrow> length bs = n)"

definition max_payload :: nat where "max_payload = 1073741816"

lemma shape_set_chunk:
  "parcel_shape p \<Longrightarrow> length c = length (chunk p) \<Longrightarrow> parcel_shape (set_chunk c p)"
  by (auto simp: parcel_shape_def set_chunk_def chunk_def split: option.splits)

lemma write_at_Some:
  "off + length bs \<le> length mem \<Longrightarrow>
   write_at off bs mem = Some (take off mem @ bs @ drop (off + length bs) mem)"
  by (simp add: write_at_def)

lemma length_write_at: "write_at off bs mem = Some c \<Longrightarrow> length c = length mem"
  by (auto simp: write_at_def split: if_splits)

lemma chunk_len_take: "take 8 (chunk q) = take 8 (chunk p) \<Longrightarrow> chunk_len q = chunk_len p"
  by (metis (no_types, lifting) add_diff_cancel_left' chunk_len_def drop_take numeral_Bit0)

lemma chunk_code_take: "take 8 (chunk q) = take 8 (chunk p) \<Longrightarrow> chunk_code q = chunk_code p"
  by (metis (no_types, lifting) add_leD1 chunk_code_def min.absorb1 numeral_Bit0 order_refl take_take)

lemma parcel_init_wf:
  assumes "length (prealloc p) = 264"
  shows "\<exists>q. media_parcel_init p = Some q \<and> parcel_wf q \<and> parcel_data q = [] \<and> next_pos q = 0
    \<and> chunk_code q = 0 \<and> chunk_len q = 0 \<and> cap q = 256 \<and> heap q = None"
  using assms
  by (simp add: media_parcel_init_def set_code_def set_len_def parcel_consts write_at_Some chunk_def
      set_chunk_def parcel_wf_def parcel_shape_def parcel_data_def chunk_len_def chunk_code_def
      le_val_le_bytes)

subsection \<open>Growth\<close>

lemma grow_cases:
  assumes sh: "parcel_shape p" and al: "alloc_ok alloc" and cur: "cursz \<le> cap p"
    and new: "newsz + chunk_len p \<le> max_payload"
  shows "media_parcel_grow alloc p cursz newsz = Some (-ENOMEM, p)
    \<or> (\<exists>p'. media_parcel_grow alloc p cursz newsz = Some (0, p') \<and> parcel_shape p'
        \<and> newsz + chunk_len p \<le> cap p' \<and> next_pos p' = next_pos p
        \<and> take (8 + cursz) (chunk p') = take (8 + cursz) (chunk p))"
proof -
  let ?n = "newsz + chunk_len p"
  define N where "N = (if ?n \<le> 2 * cap p then 2 * cap p else ?n)"
  have u: "u32 ?n = ?n" "u32 (2 * cap p) = 2 * cap p" "u32 (8 + cursz) = 8 + cursz"
    using new cur sh by (simp_all add: max_payload_def parcel_shape_def)
  show ?thesis
  proof (cases "?n \<le> cap p")
    case True
    then show ?thesis using sh by (simp add: media_parcel_grow_def u Let_def)
  next
    case False
    have sz: "u32 (8 + N) = 8 + N" "cap p < N" "N + 8 < 2147483648" "?n \<le> N"
      using False new by (auto simp: max_payload_def N_def)
    have g: "media_parcel_grow alloc p cursz newsz = (case alloc (8 + N) of
        None \<Rightarrow> Some (-ENOMEM, p)
      | Some fresh \<Rightarrow> do {
          new \<leftarrow> (case heap p of
              None \<Rightarrow> do { old \<leftarrow> read_at 0 (8 + cursz) (prealloc p); write_at 0 old fresh }
            | Some h \<Rightarrow> Some (take (8 + N) h @ drop (length h) fresh));
          Some (0, p\<lparr>heap := Some new, cap := N\<rparr>)
        })"
      unfolding media_parcel_grow_def Let_def u parcel_consts N_def[symmetric] sz(1) using False by simp
    show ?thesis
    proof (cases "alloc (8 + N)")
      case None
      then show ?thesis by (simp add: g)
    next
      case (Some fresh)
      then have lf: "length fresh = 8 + N" using al by (auto simp: alloc_ok_def)
      have fin: "media_parcel_grow alloc p cursz newsz = Some (0, p\<lparr>heap := Some mem, cap := N\<rparr>) \<Longrightarrow>
          length mem = 8 + N \<Longrightarrow> take (8 + cursz) mem = take (8 + cursz) (chunk p) \<Longrightarrow> ?thesis" for mem
        using sh sz by (auto simp: parcel_shape_def chunk_def)
      show ?thesis
      proof (cases "heap p")
        case None
        have c: "chunk p = prealloc p" "length (prealloc p) = 264" "cap p = 256"
          using sh None by (auto simp: parcel_shape_def chunk_def)
        show ?thesis
          by (rule fin[of "take (8 + cursz) (prealloc p) @ drop (8 + cursz) fresh"])
            (use Some None lf c cur sz(2) in \<open>simp_all add: g read_at_def write_at_Some\<close>)
      next
        case (Some h)
        have c: "chunk p = h" "length h = 8 + cap p" using sh Some by (auto simp: parcel_shape_def chunk_def)
        show ?thesis
          by (rule fin[of "take (8 + N) h @ drop (length h) fresh"])
            (use \<open>alloc (8 + N) = Some fresh\<close> Some lf c cur sz(2) in \<open>simp_all add: g\<close>)
      qed
    qed
  qed
qed

subsection \<open>Appending\<close>

lemma set_len_chunk:
  assumes "8 \<le> length (chunk p)" "v < 4294967296"
  shows "\<exists>q. set_len v p = Some q \<and> chunk_len q = v \<and> drop 8 (chunk q) = drop 8 (chunk p)
    \<and> chunk_code q = chunk_code p \<and> cap q = cap p \<and> next_pos q = next_pos p
    \<and> (parcel_shape p \<longrightarrow> parcel_shape q)"
  using assms
  by (auto simp: set_len_def write_at_Some chunk_len_def chunk_code_def le_val_4 min_def
      intro!: shape_set_chunk)

lemma append_cases:
  assumes wf: "parcel_wf p" and al: "alloc_ok alloc" and fit: "length d + chunk_len p \<le> max_payload"
  shows "media_parcel_append alloc p d = Some (-ENOMEM, p)
    \<or> (\<exists>p'. media_parcel_append alloc p d = Some (0, p') \<and> parcel_wf p'
        \<and> parcel_data p' = parcel_data p @ d \<and> next_pos p' = next_pos p
        \<and> chunk_len p' = chunk_len p + length d)"
proof (cases "d = []")
  case True
  then show ?thesis using wf by (simp add: media_parcel_append_def)
next
  case False
  have sh: "parcel_shape p" and le: "chunk_len p \<le> cap p" "next_pos p \<le> chunk_len p"
    using wf by (auto simp: parcel_wf_def)
  from grow_cases[OF sh al le(1) fit] show ?thesis
  proof
    assume "\<exists>p'. media_parcel_grow alloc p (chunk_len p) (length d) = Some (0, p') \<and> parcel_shape p'
      \<and> length d + chunk_len p \<le> cap p' \<and> next_pos p' = next_pos p
      \<and> take (8 + chunk_len p) (chunk p') = take (8 + chunk_len p) (chunk p)"
    then obtain p1 where g: "media_parcel_grow alloc p (chunk_len p) (length d) = Some (0, p1)"
      and sh1: "parcel_shape p1" and room: "length d + chunk_len p \<le> cap p1"
      and nx: "next_pos p1 = next_pos p"
      and keep: "take (8 + chunk_len p) (chunk p1) = take (8 + chunk_len p) (chunk p)" by blast
    have "take 8 (chunk p1) = take 8 (chunk p)"
      using arg_cong[OF keep, of "take 8"] by (simp add: min_def)
    then have cl: "chunk_len p1 = chunk_len p" by (rule chunk_len_take)
    have len1: "length (chunk p1) = 8 + cap p1" using sh1 by (simp add: parcel_shape_def)
    define c where "c = take (8 + chunk_len p) (chunk p1) @ d @ drop (8 + chunk_len p + length d) (chunk p1)"
    have w: "write_at (8 + chunk_len p) d (chunk p1) = Some c"
      using room len1 by (simp add: write_at_Some c_def)
    have lc: "length c = length (chunk p1)" using length_write_at[OF w] .
    have sh2: "parcel_shape (set_chunk c p1)" by (rule shape_set_chunk[OF sh1 lc])
    have "take 8 c = take 8 (chunk p1)" using len1 by (simp add: c_def)
    then have cl2: "chunk_len (set_chunk c p1) = chunk_len p"
      using cl chunk_len_take[of "set_chunk c p1" p1] by simp
    have ub: "chunk_len p + length d < 4294967296" using fit by (simp add: max_payload_def)
    obtain q where q: "set_len (chunk_len p + length d) (set_chunk c p1) = Some q"
      "chunk_len q = chunk_len p + length d" "drop 8 (chunk q) = drop 8 c" "cap q = cap p1"
      "next_pos q = next_pos p1" "parcel_shape q"
      using set_len_chunk[OF _ ub, of "set_chunk c p1"] lc len1 sh2 by auto
    have "parcel_data q = parcel_data p @ d"
    proof -
      have "take (chunk_len p) (drop 8 (chunk p1)) = parcel_data p"
        using keep by (simp add: parcel_data_def take_drop add.commute)
      then have "drop 8 c = parcel_data p @ d @ drop (8 + chunk_len p + length d) (chunk p1)"
        using len1 room by (simp add: c_def drop_take)
      moreover have "length (parcel_data p) = chunk_len p"
        using le sh by (simp add: parcel_data_def parcel_shape_def)
      ultimately show ?thesis using q by (simp add: parcel_data_def)
    qed
    moreover have "media_parcel_append alloc p d = Some (0, q)"
      using False g w q(1) cl cl2 ub by (simp add: media_parcel_append_def parcel_consts Let_def)
    ultimately show ?thesis using q nx room le by (auto simp: parcel_wf_def)
  qed (simp add: media_parcel_append_def False)
qed

subsection \<open>Receiving\<close>

text \<open>
  A message on the wire is a header and as many bytes as its length field says. The invariant
  of a reception in progress: the first \<open>offset\<close> bytes of the chunk are those of the message.
\<close>

definition wire_len :: "bytes \<Rightarrow> nat" where
  "wire_len m = le_val (take 4 (drop 4 m))"

definition wire_message :: "bytes \<Rightarrow> bool" where
  "wire_message m \<longleftrightarrow> length m = 8 + wire_len m \<and> 2 * wire_len m \<le> max_payload"

definition recv_inv :: "bytes \<Rightarrow> media_parcel \<Rightarrow> nat \<Rightarrow> bool" where
  "recv_inv m p off \<longleftrightarrow> parcel_shape p \<and> off \<le> length m \<and> take off (chunk p) = take off m
     \<and> (off < 8 \<longrightarrow> chunk p ! 7 = 0) \<and> (8 \<le> off \<longrightarrow> wire_len m \<le> cap p) \<and> next_pos p = 0"

fun stream :: "recv_event list \<Rightarrow> bytes" where
  "stream [] = []"
| "stream (Received bs # evs) = bs @ stream evs"
| "stream (_ # evs) = stream evs"

lemma sock_recv_error:
  "sock_recv evs n = (Inl e, evs') \<Longrightarrow>
   stream evs' = stream evs \<and> (e = EAGAIN \<and> evs' = [] \<or> Recv_error e \<in> set evs)"
  by (induction evs n rule: sock_recv.induct) (auto split: if_splits)

lemma sock_recv_closed:
  "sock_recv evs n = (Inr [], evs') \<Longrightarrow> 0 < n \<Longrightarrow> stream evs' = stream evs \<and> Closed \<in> set evs"
  by (induction evs n rule: sock_recv.induct) (auto split: if_splits)

lemma sock_recv_data:
  "sock_recv evs n = (Inr bs, evs') \<Longrightarrow> bs \<noteq> [] \<Longrightarrow>
   stream evs = bs @ stream evs' \<and> length bs \<le> n \<and> set evs' \<inter> {Closed} \<subseteq> set evs
   \<and> (\<forall>e. Recv_error e \<in> set evs' \<longrightarrow> Recv_error e \<in> set evs)"
  by (induction evs n rule: sock_recv.induct) (auto split: if_splits)

lemma chunk_len_small:
  assumes "8 \<le> length (chunk p)" "chunk p ! 7 = 0"
  shows "chunk_len p < 16777216"
proof -
  have "take 4 (drop 4 (chunk p)) = take 3 (drop 4 (chunk p)) @ [chunk p ! 7]"
    using assms(1) take_Suc_conv_app_nth[of 3 "drop 4 (chunk p)"] by simp
  moreover have "le_val (bs @ [0]) = le_val bs" for bs by (induction bs) auto
  ultimately have "chunk_len p = le_val (take 3 (drop 4 (chunk p)))"
    using assms(2) by (simp add: chunk_len_def)
  also have "\<dots> < 256 ^ length (take 3 (drop 4 (chunk p)))" by (rule le_val_bound)
  also have "\<dots> \<le> 256 ^ 3" by (rule power_increasing) auto
  finally show ?thesis by simp
qed

lemma recv_write:
  assumes inv: "recv_inv m p off" and wm: "wire_message m"
    and bs: "bs \<noteq> []" "off < 8 \<longrightarrow> off + length bs \<le> 8" "off + length bs \<le> length m"
    and pre: "bs = take (length bs) (drop off m)"
  shows "\<exists>c. write_at off bs (chunk p) = Some c \<and> parcel_shape (set_chunk c p)
    \<and> take (off + length bs) c = take (off + length bs) m
    \<and> (off + length bs < 8 \<longrightarrow> c ! 7 = 0) \<and> length c = length (chunk p)"
proof -
  have sh: "parcel_shape p" and tk: "take off (chunk p) = take off m" and ol: "off \<le> length m"
    using inv by (auto simp: recv_inv_def)
  have "off + length bs \<le> length (chunk p)"
    using inv wm bs by (cases "off < 8") (auto simp: recv_inv_def wire_message_def parcel_shape_def)
  then have w: "write_at off bs (chunk p)
      = Some (take off (chunk p) @ bs @ drop (off + length bs) (chunk p))" (is "_ = Some ?c")
    by (rule write_at_Some)
  have lc: "length ?c = length (chunk p)" using length_write_at[OF w] .
  have "take (off + length bs) ?c = take off m @ bs" using tk ol by (simp add: min_def)
  also have "\<dots> = take (off + length bs) m" using pre by (metis take_add)
  finally have "take (off + length bs) ?c = take (off + length bs) m" .
  moreover have "?c ! 7 = 0" if "off + length bs < 8"
  proof -
    have "\<not> 7 - off < length bs" "off \<le> 7" "off \<le> length (chunk p)"
      using that sh by (auto simp: parcel_shape_def)
    then have "?c ! 7 = chunk p ! 7"
      using that sh by (simp add: nth_append parcel_shape_def min_def)
    with that inv show ?thesis by (simp add: recv_inv_def)
  qed
  ultimately show ?thesis using w lc shape_set_chunk[OF sh lc] by auto
qed

lemma take_prefix_eq:
  "bs @ xs = ys @ zs \<Longrightarrow> length bs \<le> length ys \<Longrightarrow> bs = take (length bs) ys \<and> xs = drop (length bs) ys @ zs"
  by (auto simp: append_eq_append_conv_if)

lemma recv_loop_inv:
  assumes "wire_message m" "alloc_ok alloc" "recv_inv m p off" "stream evs @ future = drop off m @ rest"
    "off < 8 \<longrightarrow> 8 \<le> len" "8 \<le> off \<longrightarrow> len = length m"
  shows "\<exists>r p' off' evs'. recv_loop alloc p off len evs = Some (r, p', off', evs')
    \<and> (r = -ENOMEM \<or> recv_inv m p' off' \<and> off \<le> off' \<and> stream evs' @ future = drop off' m @ rest
        \<and> (off' = length m \<and> r = 0
           \<or> off' < length m \<and> (r = -EPIPE \<and> Closed \<in> set evs
             \<or> (\<exists>e. r = -e \<and> Recv_error e \<in> set evs) \<or> r = -EAGAIN \<and> evs' = [])))"
  using assms
proof (induction "sum_list (map event_size evs)" arbitrary: p off len evs rule: less_induct)
  case less
  note wm = less.prems(1) and al = less.prems(2) and inv = less.prems(3) and str = less.prems(4)
  have lm: "length m = 8 + wire_len m" "length m < 4294967296" "2 * wire_len m \<le> max_payload"
    using wm by (auto simp: wire_message_def max_payload_def)
  have ol: "off \<le> length m" and nx: "next_pos p = 0" using inv by (auto simp: recv_inv_def)
  show ?case
  proof (cases "off = len")
    case True
    then have "off = length m" using less.prems(5,6) by (cases "off < 8") auto
    then show ?thesis using True inv str
      by (intro exI[of _ "0::int"] exI[of _ p] exI[of _ off] exI[of _ evs])
        (simp add: recv_loop.simps[of alloc p "length m" "length m" evs])
  next
    case False
    define want where "want = (if off < 8 then 8 - off else length m - off)"
    have want: "(if off < MEDIA_PARCEL_HEADER_LEN then MEDIA_PARCEL_HEADER_LEN - off
        else u32 (4294967296 + len - off)) = want"
    proof (cases "off < 8")
      case False
      then have "4294967296 + len - off = 4294967296 + (length m - off)"
        using less.prems(6) ol by simp
      moreover have "u32 (4294967296 + (length m - off)) = length m - off"
        using lm by (simp add: u32_def)
      ultimately show ?thesis using False by (simp add: want_def parcel_consts)
    qed (simp add: want_def parcel_consts)
    have lt: "off < length m" using False less.prems(6) ol lm by (cases "off < 8") auto
    have wpos: "0 < want" using False less.prems(6) ol by (auto simp: want_def)
    obtain res evs1 where sr: "sock_recv evs want = (res, evs1)" by (cases "sock_recv evs want")
    show ?thesis
    proof (cases res)
      case (Inl e)
      then have "recv_loop alloc p off len evs = Some (-e, p, off, evs1)"
        using False want sr by (simp add: recv_loop.simps[of alloc p off])
      then show ?thesis using inv str lt sock_recv_error[of evs want e evs1] sr Inl by auto
    next
      case (Inr bs)
      show ?thesis
      proof (cases "bs = []")
        case True
        then have "recv_loop alloc p off len evs = Some (-EPIPE, p, off, evs1)"
          using False want sr Inr by (simp add: recv_loop.simps[of alloc p off])
        then show ?thesis using inv str lt sock_recv_closed[of evs want evs1] sr Inr True wpos by auto
      next
        case ne: False
        let ?off = "off + length bs"
        have d: "stream evs = bs @ stream evs1" "length bs \<le> want"
          "\<And>e. Recv_error e \<in> set evs1 \<Longrightarrow> Recv_error e \<in> set evs" "Closed \<in> set evs1 \<Longrightarrow> Closed \<in> set evs"
          using sock_recv_data[of evs want bs evs1] sr Inr ne by auto
        have smaller: "sum_list (map event_size evs1) < sum_list (map event_size evs)"
          using sock_recv_consumes[of evs want bs evs1] sr Inr ne by auto
        have bound: "off < 8 \<longrightarrow> ?off \<le> 8" "?off \<le> length m"
          using d(2) lm ol by (auto simp: want_def split: if_splits)
        have "bs @ (stream evs1 @ future) = drop off m @ rest" using str d(1) by simp
        from take_prefix_eq[OF this] bound ol
        have pre: "bs = take (length bs) (drop off m)"
          and str1: "stream evs1 @ future = drop ?off m @ rest" by (auto simp: add.commute)
        obtain c where c: "write_at off bs (chunk p) = Some c" "parcel_shape (set_chunk c p)"
          "take ?off c = take ?off m" "?off < 8 \<longrightarrow> c ! 7 = 0" "length c = length (chunk p)"
          using recv_write[OF inv wm ne bound pre] by auto
        have uo: "u32 ?off = ?off" using bound lm by simp
        note step = recv_loop.simps[of alloc p off]
        show ?thesis
        proof (cases "?off = 8")
          case False
          have inv1: "recv_inv m (set_chunk c p) ?off"
            using c bound nx inv False ne by (auto simp: recv_inv_def)
          have "recv_loop alloc p off len evs = recv_loop alloc (set_chunk c p) ?off len evs1"
            using \<open>off \<noteq> len\<close> want sr Inr ne c(1) uo False by (simp add: step Let_def parcel_consts)
          moreover have "?off < 8 \<longrightarrow> 8 \<le> len" "8 \<le> ?off \<longrightarrow> len = length m"
            using less.prems(5,6) False bound by auto
          ultimately show ?thesis
            using less.hyps[OF smaller wm al inv1 str1] d(3,4) by fastforce
        next
          case True
          have "take 8 c = take 8 m" using c(3) True by simp
          then have cl: "chunk_len (set_chunk c p) = wire_len m"
            by (simp add: chunk_len_def wire_len_def take_drop)
          have "wire_len m + chunk_len (set_chunk c p) \<le> max_payload" using cl lm(3) by simp
          from grow_cases[OF c(2) al le0 this] show ?thesis
          proof
            assume "media_parcel_grow alloc (set_chunk c p) 0 (wire_len m) = Some (-ENOMEM, set_chunk c p)"
            then show ?thesis
              using \<open>off \<noteq> len\<close> want sr Inr ne c(1) uo True cl by (simp add: step Let_def parcel_consts)
          next
            assume "\<exists>p'. media_parcel_grow alloc (set_chunk c p) 0 (wire_len m) = Some (0, p')
              \<and> parcel_shape p' \<and> wire_len m + chunk_len (set_chunk c p) \<le> cap p'
              \<and> next_pos p' = next_pos (set_chunk c p)
              \<and> take (8 + 0) (chunk p') = take (8 + 0) (chunk (set_chunk c p))"
            then obtain q where q: "media_parcel_grow alloc (set_chunk c p) 0 (wire_len m) = Some (0, q)"
              "parcel_shape q" "wire_len m \<le> cap q" "next_pos q = 0" "take 8 (chunk q) = take 8 c"
              using nx by auto
            have clq: "chunk_len q = wire_len m"
              using chunk_len_take[of q "set_chunk c p"] q(5) cl by simp
            have invq: "recv_inv m q ?off"
              using q True bound \<open>take 8 c = take 8 m\<close> by (simp add: recv_inv_def)
            have ul: "u32 (8 + wire_len m) = length m" using lm by simp
            have "recv_loop alloc p off len evs = recv_loop alloc q ?off (length m) evs1"
              using \<open>off \<noteq> len\<close> want sr Inr ne c(1) uo True cl clq q(1) ul
              by (simp add: step Let_def parcel_consts)
            then show ?thesis
              using less.hyps[OF smaller wm al invq str1, of "length m"] True d(3,4) by fastforce
          qed
        qed
      qed
    qed
  qed
qed

lemma received_parcel:
  assumes wm: "wire_message m" and inv: "recv_inv m p (length m)"
  shows "parcel_wf p \<and> chunk_code p = le_val (take 4 m) \<and> parcel_data p = drop 8 m \<and> next_pos p = 0"
proof -
  have lm: "length m = 8 + wire_len m" using wm by (simp add: wire_message_def)
  have tk: "take (length m) (chunk p) = m" using inv by (simp add: recv_inv_def)
  have c4: "take 4 (chunk p) = take 4 m" "take 4 (drop 4 (chunk p)) = take 4 (drop 4 m)"
    using arg_cong[OF tk, of "take 4"] arg_cong[OF tk, of "\<lambda>x. take 4 (drop 4 x)"] lm
    by (simp_all add: drop_take min_def)
  then have cl: "chunk_len p = wire_len m" by (simp add: chunk_len_def wire_len_def)
  have "parcel_data p = drop 8 m"
    using arg_cong[OF tk, of "drop 8"] lm cl by (simp add: parcel_data_def drop_take)
  then show ?thesis
    using inv lm cl c4 by (simp add: parcel_wf_def recv_inv_def chunk_code_def)
qed

subsection \<open>Reading back\<close>

definition parcel_rest :: "media_parcel \<Rightarrow> bytes" where
  "parcel_rest p = drop (next_pos p) (parcel_data p)"

lemma wf_length_data: "parcel_wf p \<Longrightarrow> length (parcel_data p) = chunk_len p"
  by (simp add: parcel_wf_def parcel_shape_def parcel_data_def)

lemma wf_length_rest: "parcel_wf p \<Longrightarrow> length (parcel_rest p) = chunk_len p - next_pos p"
  by (simp add: parcel_rest_def wf_length_data)

lemma update_next [simp]:
  "chunk (p\<lparr>next_pos := n\<rparr>) = chunk p" "chunk_len (p\<lparr>next_pos := n\<rparr>) = chunk_len p"
  "parcel_shape (p\<lparr>next_pos := n\<rparr>) = parcel_shape p" "parcel_data (p\<lparr>next_pos := n\<rparr>) = parcel_data p"
proof -
  show c: "chunk (p\<lparr>next_pos := n\<rparr>) = chunk p" by (simp add: chunk_def split: option.split)
  then show l: "chunk_len (p\<lparr>next_pos := n\<rparr>) = chunk_len p" by (simp add: chunk_len_def)
  show "parcel_shape (p\<lparr>next_pos := n\<rparr>) = parcel_shape p" using c by (simp add: parcel_shape_def)
  show "parcel_data (p\<lparr>next_pos := n\<rparr>) = parcel_data p" using c l by (simp add: parcel_data_def)
qed

lemma read_at_rest:
  assumes wf: "parcel_wf p" and n: "n \<le> length (parcel_rest p)"
  shows "read_at (8 + next_pos p) n (chunk p) = Some (take n (parcel_rest p))"
proof -
  have "8 + next_pos p + n \<le> length (chunk p)"
  proof -
    have "n \<le> chunk_len p - next_pos p" using n by (simp add: wf_length_rest[OF wf])
    moreover have "next_pos p \<le> chunk_len p" "chunk_len p \<le> cap p" "length (chunk p) = 8 + cap p"
      using wf by (auto simp: parcel_wf_def parcel_shape_def)
    ultimately show ?thesis by linarith
  qed
  moreover have "take n (drop (8 + next_pos p) (chunk p)) = take n (parcel_rest p)"
    using wf n by (simp add: parcel_rest_def parcel_data_def drop_take wf_length_rest add.commute)
  ultimately show ?thesis by (simp add: read_at_def)
qed

lemma next_bounds:
  assumes "parcel_wf p" "n \<le> length (parcel_rest p)"
  shows "u32 (next_pos p + n) = next_pos p + n" "next_pos p + n \<le> chunk_len p"
  using assms chunk_len_bound[of p] by (auto simp: wf_length_rest parcel_wf_def)

lemma advance:
  assumes "parcel_wf p" "n \<le> length (parcel_rest p)"
  shows "parcel_wf (p\<lparr>next_pos := next_pos p + n\<rparr>)"
    and "parcel_rest (p\<lparr>next_pos := next_pos p + n\<rparr>) = drop n (parcel_rest p)"
  using assms next_bounds(2)[OF assms] by (auto simp: parcel_wf_def parcel_rest_def add.commute)

lemma copy_ok:
  assumes wf: "parcel_wf p" and n: "n \<le> length (parcel_rest p)"
  shows "media_parcel_copy p n = Some (0, take n (parcel_rest p), p\<lparr>next_pos := next_pos p + n\<rparr>)"
  using next_bounds[OF assms] read_at_rest[OF assms] by (simp add: media_parcel_copy_def parcel_consts)

lemma copy_short:
  assumes wf: "parcel_wf p" and n: "length (parcel_rest p) < n" "n \<le> 8"
  shows "media_parcel_copy p n = Some (-ENOSPC, [], p)"
proof -
  have "next_pos p + n < 4294967296" "chunk_len p < next_pos p + n"
    using wf n by (auto simp: wf_length_rest) (auto simp: parcel_wf_def parcel_shape_def)
  then show ?thesis by (simp add: media_parcel_copy_def)
qed

lemma read_number_ok:
  assumes "parcel_wf p" "parcel_rest p = le_bytes n v @ tail"
  shows "\<exists>q. read_number mk n p True = Some (0, [mk (v mod 256 ^ n)], q) \<and> parcel_wf q \<and> parcel_rest q = tail"
proof -
  have n: "n \<le> length (parcel_rest p)" using assms(2) by simp
  from copy_ok[OF assms(1) n] advance[OF assms(1) n] assms(2)
  show ?thesis by (simp add: read_number_def le_val_le_bytes)
qed

lemma read_string_ok:
  assumes wf: "parcel_wf p" and r: "parcel_rest p = s @ 0 # tail" and s: "0 \<notin> set s"
  shows "\<exists>q. media_parcel_read_string p = Some (if s = [] then None else Some s, q)
    \<and> parcel_wf q \<and> parcel_rest q = tail"
proof -
  have u: "u32 (4294967296 + chunk_len p - next_pos p) = length (parcel_rest p)"
  proof -
    have "4294967296 + chunk_len p - next_pos p = 4294967296 + length (parcel_rest p)"
      using wf by (simp add: wf_length_rest parcel_wf_def)
    moreover have "length (parcel_rest p) < 4294967296"
      using wf chunk_len_bound[of p] by (simp add: wf_length_rest)
    ultimately show ?thesis by (simp add: u32_def)
  qed
  have b: "read_at (8 + next_pos p) (length (parcel_rest p)) (chunk p) = Some (parcel_rest p)"
    using read_at_rest[OF wf order_refl] by simp
  have tw: "takeWhile (\<lambda>b. b \<noteq> 0) (s @ 0 # xs) = s" for xs
    using s by (induction s) auto
  let ?n = "length s + 1"
  have n: "?n \<le> length (parcel_rest p)" using r by simp
  have ptr: "\<exists>xs. drop (8 + next_pos p) (chunk p) = s @ 0 # xs"
  proof -
    define D where "D = drop 8 (chunk p)"
    have "next_pos p \<le> chunk_len p" using wf by (simp add: parcel_wf_def)
    then have "drop (next_pos p) D = parcel_rest p @ drop (chunk_len p) D"
      using wf by (metis D_def append_take_drop_id diff_is_0_eq drop_0 drop_append parcel_data_def
          parcel_rest_def wf_length_data)
    then have "drop (8 + next_pos p) (chunk p) = parcel_rest p @ drop (chunk_len p) D"
      by (simp add: D_def add.commute)
    then show ?thesis using r by simp
  qed
  then obtain xs where xs: "drop (8 + next_pos p) (chunk p) = s @ 0 # xs" by blast
  have "media_parcel_read p ?n = (Some (s @ 0 # xs), p\<lparr>next_pos := next_pos p + ?n\<rparr>)"
    using next_bounds[OF wf n] xs by (simp add: media_parcel_read_def parcel_consts)
  then have "media_parcel_read_string p = Some (if s = [] then None else Some s, p\<lparr>next_pos := next_pos p + ?n\<rparr>)"
    using u b r tw s by (cases s) (simp_all add: media_parcel_read_string_def parcel_consts Let_def)
  with advance[OF wf n] r show ?thesis by simp
qed

section \<open>Formats\<close>

text \<open>
  What a format means, as a reference: the bytes it prints, the values it scans, and which
  argument lists fit it. A character that is no conversion is skipped, as in the code.
\<close>

definition conversions :: string where "conversions = ''lihcdfs''"

fun conv_match :: "char \<Rightarrow> varg \<Rightarrow> bool" where
  "conv_match c (VInt64 v) = (c = CHR ''l'')"
| "conv_match c (VInt32 v) = (c \<in> {CHR ''i'', CHR ''h'', CHR ''c''})"
| "conv_match c (VDouble v) = (c \<in> {CHR ''d'', CHR ''f''})"
| "conv_match c (VString s) = (c = CHR ''s'' \<and> (\<forall>b. s = Some b \<longrightarrow> 0 \<notin> set b))"

fun conv_bytes :: "(64 word \<Rightarrow> 32 word) \<Rightarrow> char \<Rightarrow> varg \<Rightarrow> bytes" where
  "conv_bytes narrow c (VInt64 v) = le_bytes 8 (unat v)"
| "conv_bytes narrow c (VInt32 v) = (if c = CHR ''i'' then le_bytes 4 (unat v)
     else if c = CHR ''h'' then le_bytes 2 (unat (ucast v :: 16 word)) else le_bytes 1 (unat (ucast v :: 8 word)))"
| "conv_bytes narrow c (VDouble v) = (if c = CHR ''d'' then le_bytes 8 (unat v) else le_bytes 4 (unat (narrow v)))"
| "conv_bytes narrow c (VString s) = (case s of None \<Rightarrow> [] | Some b \<Rightarrow> b) @ [0]"

fun conv_val :: "(64 word \<Rightarrow> 32 word) \<Rightarrow> char \<Rightarrow> varg \<Rightarrow> sval" where
  "conv_val narrow c (VInt64 v) = S64 v"
| "conv_val narrow c (VInt32 v) = (if c = CHR ''i'' then S32 v
     else if c = CHR ''h'' then S16 (ucast v) else S8 (ucast v))"
| "conv_val narrow c (VDouble v) = (if c = CHR ''d'' then SDouble v else SFloat (narrow v))"
| "conv_val narrow c (VString s) = SString (if s = Some [] then None else s)"

fun fmt_match :: "string \<Rightarrow> varg list \<Rightarrow> bool" where
  "fmt_match [] args = (args = [])"
| "fmt_match (c # fmt) args = (if c \<in> set conversions
     then (case args of [] \<Rightarrow> False | a # r \<Rightarrow> conv_match c a \<and> fmt_match fmt r)
     else fmt_match fmt args)"

fun fmt_bytes :: "(64 word \<Rightarrow> 32 word) \<Rightarrow> string \<Rightarrow> varg list \<Rightarrow> bytes" where
  "fmt_bytes narrow [] args = []"
| "fmt_bytes narrow (c # fmt) args = (if c \<in> set conversions
     then (case args of [] \<Rightarrow> [] | a # r \<Rightarrow> conv_bytes narrow c a @ fmt_bytes narrow fmt r)
     else fmt_bytes narrow fmt args)"

fun fmt_vals :: "(64 word \<Rightarrow> 32 word) \<Rightarrow> string \<Rightarrow> varg list \<Rightarrow> sval list" where
  "fmt_vals narrow [] args = []"
| "fmt_vals narrow (c # fmt) args = (if c \<in> set conversions
     then (case args of [] \<Rightarrow> [] | a # r \<Rightarrow> conv_val narrow c a # fmt_vals narrow fmt r)
     else fmt_vals narrow fmt args)"

lemma conversions_cases:
  "c \<in> set conversions \<Longrightarrow> c = CHR ''l'' \<or> c = CHR ''i'' \<or> c = CHR ''h'' \<or> c = CHR ''c''
     \<or> c = CHR ''d'' \<or> c = CHR ''f'' \<or> c = CHR ''s''"
  by (auto simp: conversions_def)

lemma percent_no_conversion: "CHR ''%'' \<notin> set conversions"
  by (simp add: conversions_def)

lemmas append_number_defs =
  media_parcel_append_int64_def media_parcel_append_int32_def media_parcel_append_int16_def
  media_parcel_append_int8_def media_parcel_append_double_def media_parcel_append_float_def

lemmas read_number_defs =
  media_parcel_read_int64_def media_parcel_read_int32_def media_parcel_read_int16_def
  media_parcel_read_int8_def media_parcel_read_double_def media_parcel_read_float_def

text \<open>Each conversion appends the reference bytes, and scans them back to the reference value.\<close>

lemma append_conv_bytes:
  assumes "c \<in> set conversions" "conv_match c a"
  shows "append_conv alloc narrow c p (a # r) ret =
    map_option (\<lambda>(e, q). (e, q, r)) (media_parcel_append alloc p (conv_bytes narrow c a))"
proof -
  have m: "do { (e, q) \<leftarrow> x; Some (e, q, r) } = map_option (\<lambda>(e, q). (e, q, r)) x"
    for x :: "(int \<times> media_parcel) option" by (cases x) auto
  show ?thesis
    using assms conversions_cases[OF assms(1)]
    by (cases a) (auto simp: append_conv_def append_number_defs media_parcel_append_string_def m Let_def)
qed

lemma append_conv_other:
  "c \<notin> set conversions \<Longrightarrow> append_conv alloc narrow c p ap ret = Some (ret, p, ap)"
  by (simp add: append_conv_def conversions_def)

lemma word_of_nat_ucast:
  "word_of_nat (unat (w :: 'a::len word)) = w"
  by simp

lemma scan_conv_val:
  assumes c: "c \<in> set conversions" "conv_match c a" and wf: "parcel_wf p"
    and r: "parcel_rest p = conv_bytes narrow c a @ tail" and ret: "0 \<le> ret"
  shows "\<exists>q e. scan_conv c p (True # fl) ret = Some (e, [conv_val narrow c a], q, fl) \<and> 0 \<le> e
    \<and> (ret = 0 \<longrightarrow> e = 0) \<and> parcel_wf q \<and> parcel_rest q = tail"
proof (cases a)
  case (VString s)
  then have cs: "c = CHR ''s''" using c by simp
  define b where "b = (case s of None \<Rightarrow> [] | Some b \<Rightarrow> b)"
  have "0 \<notin> set b" "parcel_rest p = b @ 0 # tail"
    using c(2) r VString by (auto simp: b_def split: option.splits)
  from read_string_ok[OF wf this(2,1)] show ?thesis
    using VString ret by (auto simp: scan_conv_def cs b_def split: option.splits if_splits)
next
  case (VInt64 v)
  with c r read_number_ok[OF wf, of 8 "unat v" tail "\<lambda>n. S64 (word_of_nat n)"]
  show ?thesis using unsigned_less[of v, where ?'a = nat]
    by (auto simp: scan_conv_def read_number_defs)
next
  case (VInt32 v)
  have b: "unat v < 2 ^ LENGTH(32)" "unat (ucast v :: 16 word) < 2 ^ LENGTH(16)"
    "unat (ucast v :: 8 word) < 2 ^ LENGTH(8)" by (rule unsigned_less)+
  consider "c = CHR ''i''" | "c = CHR ''h''" | "c = CHR ''c''" using c(2) VInt32 by auto
  then show ?thesis
    using VInt32 r b
      read_number_ok[OF wf, of 4 "unat v" tail "\<lambda>n. S32 (word_of_nat n)"]
      read_number_ok[OF wf, of 2 "unat (ucast v :: 16 word)" tail "\<lambda>n. S16 (word_of_nat n)"]
      read_number_ok[OF wf, of 1 "unat (ucast v :: 8 word)" tail "\<lambda>n. S8 (word_of_nat n)"]
    by cases (auto simp: scan_conv_def read_number_defs)
next
  case (VDouble v)
  have b: "unat v < 2 ^ LENGTH(64)" "unat (narrow v) < 2 ^ LENGTH(32)" by (rule unsigned_less)+
  consider "c = CHR ''d''" | "c = CHR ''f''" using c(2) VDouble by auto
  then show ?thesis
    using VDouble r b
      read_number_ok[OF wf, of 8 "unat v" tail "\<lambda>n. SDouble (word_of_nat n)"]
      read_number_ok[OF wf, of 4 "unat (narrow v)" tail "\<lambda>n. SFloat (word_of_nat n)"]
    by cases (auto simp: scan_conv_def read_number_defs)
qed

lemma scan_conv_other:
  "c \<notin> set conversions \<Longrightarrow> scan_conv c p ap ret = Some (ret, [], p, ap)"
  by (simp add: scan_conv_def conversions_def Let_def)

lemma vprintf_loop_spec:
  assumes "parcel_wf p" "alloc_ok alloc" "fmt_match fmt args"
    "length (fmt_bytes narrow fmt args) + chunk_len p \<le> max_payload" "0 \<le> ret"
  shows "\<exists>r p'. vprintf_loop alloc narrow fmt p args ret = Some (r, p') \<and> parcel_wf p'
    \<and> next_pos p' = next_pos p \<and> (r = -ENOMEM \<or> 0 \<le> r \<and> (ret = 0 \<longrightarrow> r = 0)
      \<and> parcel_data p' = parcel_data p @ fmt_bytes narrow fmt args)"
  using assms
proof (induction fmt arbitrary: p args ret)
  case (Cons c fmt)
  show ?case
  proof (cases "c \<in> set conversions")
    case False
    then show ?thesis
      using Cons.IH[OF Cons.prems(1,2), of args ret] Cons.prems append_conv_other[OF False]
      by (cases "c = CHR ''%''") simp_all
  next
    case True
    then obtain a r where a: "args = a # r" "conv_match c a" "fmt_match fmt r"
      using Cons.prems(3) by (auto split: list.splits)
    have np: "c \<noteq> CHR ''%''" using True percent_no_conversion by blast
    let ?b = "conv_bytes narrow c a"
    have fit: "length ?b + chunk_len p \<le> max_payload" using Cons.prems(4) True a by simp
    note ap = append_conv_bytes[OF True a(2), of alloc narrow p r ret]
    from append_cases[OF Cons.prems(1,2) fit] show ?thesis
    proof
      assume "media_parcel_append alloc p ?b = Some (-ENOMEM, p)"
      then show ?thesis using ap np a Cons.prems(1) by simp
    next
      assume "\<exists>p'. media_parcel_append alloc p ?b = Some (0, p') \<and> parcel_wf p'
        \<and> parcel_data p' = parcel_data p @ ?b \<and> next_pos p' = next_pos p
        \<and> chunk_len p' = chunk_len p + length ?b"
      then obtain q where q: "media_parcel_append alloc p ?b = Some (0, q)" "parcel_wf q"
        "parcel_data q = parcel_data p @ ?b" "next_pos q = next_pos p"
        "chunk_len q = chunk_len p + length ?b" by blast
      have "length (fmt_bytes narrow fmt r) + chunk_len q \<le> max_payload"
        using Cons.prems(4) True a q(5) by simp
      from Cons.IH[OF q(2) Cons.prems(2) a(3) this, of 0] show ?thesis
        using ap np a q True by auto
    qed
  qed
qed simp

lemma vscanf_loop_spec:
  assumes "parcel_wf p" "fmt_match fmt args" "parcel_rest p = fmt_bytes narrow fmt args @ tail"
  shows "\<exists>p'. vscanf_loop fmt p (replicate (length args) True) 0 = Some (0, fmt_vals narrow fmt args, p')
    \<and> parcel_wf p' \<and> parcel_rest p' = tail"
  using assms
proof (induction fmt arbitrary: p args)
  case (Cons c fmt)
  show ?case
  proof (cases "c \<in> set conversions")
    case False
    then obtain p' where p': "vscanf_loop fmt p (replicate (length args) True) 0 =
        Some (0, fmt_vals narrow fmt args, p')" "parcel_wf p'" "parcel_rest p' = tail"
      using Cons.IH[OF Cons.prems(1), of args] Cons.prems by auto
    then show ?thesis
      using False scan_conv_other[OF False] by (cases "c = CHR ''%''") simp_all
  next
    case True
    then obtain a r where a: "args = a # r" "conv_match c a" "fmt_match fmt r"
      using Cons.prems(2) by (auto split: list.splits)
    have np: "c \<noteq> CHR ''%''" using True percent_no_conversion by blast
    have "parcel_rest p = conv_bytes narrow c a @ (fmt_bytes narrow fmt r @ tail)"
      using Cons.prems(3) True a by simp
    from scan_conv_val[OF True a(2) Cons.prems(1) this, of 0 "replicate (length r) True"]
    obtain q where q: "scan_conv c p (True # replicate (length r) True) 0 =
        Some (0, [conv_val narrow c a], q, replicate (length r) True)" "parcel_wf q"
        "parcel_rest q = fmt_bytes narrow fmt r @ tail" by auto
    from Cons.IH[OF q(2) a(3) q(3)] show ?thesis using np a q(1) True by auto
  qed
qed auto

subsection \<open>Short messages need no memory\<close>

lemma append_fits:
  assumes wf: "parcel_wf p" and fit: "length d + chunk_len p \<le> cap p"
  shows "\<exists>p'. media_parcel_append alloc p d = Some (0, p') \<and> cap p' = cap p"
proof (cases "d = []")
  case False
  have sh: "length (chunk p) = 8 + cap p" "cap p + 8 < 2147483648"
    using wf by (auto simp: parcel_wf_def parcel_shape_def)
  have g: "media_parcel_grow alloc p (chunk_len p) (length d) = Some (0, p)"
    using fit sh by (simp add: media_parcel_grow_def)
  define c where "c = take (8 + chunk_len p) (chunk p) @ d @ drop (8 + chunk_len p + length d) (chunk p)"
  have w: "write_at (8 + chunk_len p) d (chunk p) = Some c"
    using fit sh by (simp add: write_at_Some c_def)
  have "8 \<le> length (chunk (set_chunk c p))" using length_write_at[OF w] sh by simp
  from set_len_chunk[OF this, of "u32 (chunk_len (set_chunk c p) + length d)"]
  obtain q where "set_len (u32 (chunk_len (set_chunk c p) + length d)) (set_chunk c p) = Some q" "cap q = cap p"
    by (auto simp: u32_def)
  then show ?thesis using False g w by (simp add: media_parcel_append_def parcel_consts Let_def)
qed (simp add: media_parcel_append_def)

lemma vprintf_loop_fits:
  assumes "parcel_wf p" "alloc_ok alloc" "fmt_match fmt args" "0 \<le> ret"
    "length (fmt_bytes narrow fmt args) + chunk_len p \<le> cap p" "cap p \<le> max_payload"
  shows "\<exists>r p'. vprintf_loop alloc narrow fmt p args ret = Some (r, p') \<and> 0 \<le> r"
  using assms
proof (induction fmt arbitrary: p args ret)
  case (Cons c fmt)
  show ?case
  proof (cases "c \<in> set conversions")
    case False
    then show ?thesis
      using Cons.IH[OF Cons.prems(1,2), of args ret] Cons.prems append_conv_other[OF False]
      by (cases "c = CHR ''%''") simp_all
  next
    case True
    then obtain a r where a: "args = a # r" "conv_match c a" "fmt_match fmt r"
      using Cons.prems(3) by (auto split: list.splits)
    have np: "c \<noteq> CHR ''%''" using True percent_no_conversion by blast
    let ?b = "conv_bytes narrow c a"
    have fit: "length ?b + chunk_len p \<le> cap p" using Cons.prems(5) True a by simp
    obtain q where q: "media_parcel_append alloc p ?b = Some (0, q)" "cap q = cap p"
      using append_fits[OF Cons.prems(1) fit] by blast
    have "length ?b + chunk_len p \<le> max_payload" using fit Cons.prems(6) by simp
    from append_cases[OF Cons.prems(1,2) this] q(1)
    have "parcel_wf q" "chunk_len q = chunk_len p + length ?b" by auto
    then have "\<exists>r' p'. vprintf_loop alloc narrow fmt q r 0 = Some (r', p') \<and> 0 \<le> r'"
      using Cons.IH[of q r 0] Cons.prems a True q(2) by simp
    then show ?thesis
      using append_conv_bytes[OF True a(2), of alloc narrow p r ret] np a(1) q(1) by auto
  qed
qed simp

lemma printf_fits:
  assumes "parcel_wf p" "chunk_len p = 0" "cap p \<le> max_payload"
    and "alloc_ok alloc" "fmt_match fmt args" "length (fmt_bytes narrow fmt args) \<le> cap p"
  shows "\<exists>p'. media_parcel_append_printf alloc narrow p fmt args = Some (0, p') \<and> parcel_wf p'
    \<and> parcel_data p' = fmt_bytes narrow fmt args"
proof -
  have fit: "length (fmt_bytes narrow fmt args) + chunk_len p \<le> max_payload"
    "length (fmt_bytes narrow fmt args) + chunk_len p \<le> cap p" using assms by auto
  from vprintf_loop_fits[OF assms(1,4,5) order_refl fit(2) assms(3)]
    vprintf_loop_spec[OF assms(1,4,5) fit(1) order_refl] assms(2)
  show ?thesis
    by (auto simp: media_parcel_append_printf_def media_parcel_append_vprintf_def parcel_data_def)
qed

subsection \<open>Sending\<close>

lemma send_loop_spec:
  "send_loop buf evs out = Some (r, out', evs') \<Longrightarrow>
   \<exists>n\<le>length buf. out' = out @ take n buf \<and> (r = 0 \<longrightarrow> n = length buf \<or> (\<exists>e. Send_error e \<in> set evs \<and> e = 0))"
proof (induction buf evs out rule: send_loop.induct)
  case (4 b bs n evs out)
  then obtain k where k: "k \<le> length (drop n (b # bs))"
    "out' = (out @ take n (b # bs)) @ take k (drop n (b # bs))"
    "r = 0 \<longrightarrow> k = length (drop n (b # bs)) \<or> (\<exists>e. Send_error e \<in> set evs \<and> e = 0)" by auto
  let ?k = "min n (length (b # bs)) + k"
  have "take n (b # bs) @ take k (drop n (b # bs)) = take ?k (b # bs)"
    by (cases "n \<le> length (b # bs)") (simp_all only: take_add min_absorb1 min_absorb2 take_all
        drop_all nat_le_linear linorder_not_le append_Nil2 take_Nil order_less_imp_le)
  with k show ?case by (intro exI[of _ ?k]) auto
qed auto

lemma send_loop_progress:
  assumes "\<forall>e\<in>set evs. \<exists>n>0. e = Sent n" "length buf \<le> length evs"
  shows "\<exists>evs'. send_loop buf evs out = Some (0, out @ buf, evs')"
  using assms
proof (induction buf evs out rule: send_loop.induct)
  case (4 b bs n evs out)
  then have "0 < n" by auto
  moreover have "\<exists>evs'. send_loop (drop n (b # bs)) evs (out @ take n (b # bs))
      = Some (0, (out @ take n (b # bs)) @ drop n (b # bs), evs')"
    using 4 \<open>0 < n\<close> by (intro "4.IH") auto
  ultimately show ?case by simp
qed auto

lemma set_code_chunk:
  assumes "8 \<le> length (chunk p)" "v < 4294967296"
  shows "\<exists>q. set_code v p = Some q \<and> chunk q = le_bytes 4 v @ drop 4 (chunk p)
    \<and> chunk_len q = chunk_len p \<and> chunk_code q = v \<and> cap q = cap p \<and> next_pos q = next_pos p
    \<and> (parcel_shape p \<longrightarrow> parcel_shape q)"
  using assms
  by (auto simp: set_code_def write_at_Some chunk_len_def chunk_code_def le_val_4
      intro!: shape_set_chunk)

definition parcel_wire :: "nat \<Rightarrow> bytes \<Rightarrow> bytes" where
  \<comment> \<open>the message on the wire: code, length, payload\<close>
  "parcel_wire code payload = le_bytes 4 code @ le_bytes 4 (length payload) @ payload"

lemma wire_of_send:
  assumes wf: "parcel_wf p" and code: "code < 4294967296"
  shows "\<exists>q. set_code code p = Some q \<and> parcel_wf q \<and> parcel_data q = parcel_data p \<and> next_pos q = next_pos p
    \<and> read_at 0 (u32 (8 + chunk_len p)) (chunk q) = Some (parcel_wire code (parcel_data p))"
proof -
  have sh: "parcel_shape p" and le: "chunk_len p \<le> cap p" "next_pos p \<le> chunk_len p"
    using wf by (auto simp: parcel_wf_def)
  have l: "length (chunk p) = 8 + cap p" "cap p + 8 < 2147483648" using sh by (auto simp: parcel_shape_def)
  obtain q where q: "set_code code p = Some q" "chunk q = le_bytes 4 code @ drop 4 (chunk p)"
    "chunk_len q = chunk_len p" "cap q = cap p" "next_pos q = next_pos p" "parcel_shape q"
    using set_code_chunk[OF _ code, of p] l sh by auto
  have d: "drop 8 (chunk q) = drop 8 (chunk p)" by (simp add: q(2))
  have pd: "parcel_data q = parcel_data p" by (simp add: parcel_data_def q(3) d)
  have len4: "le_bytes 4 (chunk_len p) = take 4 (drop 4 (chunk p))"
    using le_bytes_le_val[of "take 4 (drop 4 (chunk p))"] l by (simp add: chunk_len_def)
  have "take (8 + chunk_len p) (chunk q) = le_bytes 4 code @ take (4 + chunk_len p) (drop 4 (chunk p))"
    by (simp add: q(2))
  also have "take (4 + chunk_len p) (drop 4 (chunk p)) = take 4 (drop 4 (chunk p)) @ parcel_data p"
    by (simp add: take_add parcel_data_def)
  also have "le_bytes 4 code @ take 4 (drop 4 (chunk p)) @ parcel_data p = parcel_wire code (parcel_data p)"
    by (simp add: parcel_wire_def wf_length_data[OF wf] len4)
  finally have "read_at 0 (u32 (8 + chunk_len p)) (chunk q) = Some (parcel_wire code (parcel_data p))"
    using l le q(2) by (simp add: read_at_def)
  then show ?thesis using q pd le by (auto simp: parcel_wf_def)
qed

lemma wire_message_parcel:
  assumes "2 * length payload \<le> max_payload"
  shows "wire_message (parcel_wire code payload)" "wire_len (parcel_wire code payload) = length payload"
    "drop 8 (parcel_wire code payload) = payload"
    "code < 4294967296 \<Longrightarrow> le_val (take 4 (parcel_wire code payload)) = code"
    "length (parcel_wire code payload) = 8 + length payload"
proof -
  have "length payload < 4294967296" using assms by (simp add: max_payload_def)
  then show w: "wire_len (parcel_wire code payload) = length payload"
    by (simp add: wire_len_def parcel_wire_def le_val_4)
  show "length (parcel_wire code payload) = 8 + length payload" by (simp add: parcel_wire_def)
  then show "wire_message (parcel_wire code payload)" using assms w by (simp add: wire_message_def)
  show "drop 8 (parcel_wire code payload) = payload" by (simp add: parcel_wire_def)
  show "code < 4294967296 \<Longrightarrow> le_val (take 4 (parcel_wire code payload)) = code"
    by (simp add: parcel_wire_def le_val_4)
qed

subsection \<open>Reading untrusted data\<close>

lemma read_number_safe:
  assumes wf: "parcel_wf p" and n: "n \<le> 8"
  shows "\<exists>r out q. read_number mk n p ptr = Some (r, out, q) \<and> parcel_wf q"
proof (cases "n \<le> length (parcel_rest p)")
  case True
  from copy_ok[OF wf True] advance(1)[OF wf True] show ?thesis by (simp add: read_number_def)
next
  case False
  with copy_short[OF wf _ n] wf show ?thesis by (simp add: read_number_def)
qed

lemma read_string_safe:
  assumes wf: "parcel_wf p"
  shows "\<exists>s q. media_parcel_read_string p = Some (s, q) \<and> parcel_wf q"
proof (cases "0 \<in> set (parcel_rest p)")
  case True
  from split_list_first[OF True] obtain s tail where
    "parcel_rest p = s @ 0 # tail" "0 \<notin> set s" by blast
  from read_string_ok[OF wf this] show ?thesis by blast
next
  case False
  have "u32 (4294967296 + chunk_len p - next_pos p) = length (parcel_rest p)"
  proof -
    have "4294967296 + chunk_len p - next_pos p = 4294967296 + length (parcel_rest p)"
      using wf by (simp add: wf_length_rest parcel_wf_def)
    moreover have "length (parcel_rest p) < 4294967296"
      using wf chunk_len_bound[of p] by (simp add: wf_length_rest)
    ultimately show ?thesis by (simp add: u32_def)
  qed
  then have "media_parcel_read_string p = Some (None, p)"
    using read_at_rest[OF wf order_refl] False by (simp add: media_parcel_read_string_def parcel_consts)
  with wf show ?thesis by simp
qed

definition conversion_count :: "string \<Rightarrow> nat" where
  "conversion_count fmt = length (filter (\<lambda>c. c \<in> set conversions) fmt)"

lemma scan_conv_safe:
  assumes wf: "parcel_wf p" and c: "c \<in> set conversions"
  shows "\<exists>r out q. scan_conv c p (f # fl) ret = Some (r, out, q, fl) \<and> parcel_wf q"
proof -
  have n: "\<exists>r out q. read_number mk n p f = Some (r, out, q) \<and> parcel_wf q" if "n \<in> {1, 2, 4, 8}" for mk n
    by (rule read_number_safe[OF wf]) (use that in auto)
  obtain s q where "media_parcel_read_string p = Some (s, q)" "parcel_wf q"
    using read_string_safe[OF wf] by blast
  moreover have "\<exists>r out q. do { (e, out, p') \<leftarrow> read_number mk n p f; Some (e, out, p', fl) }
      = Some (r, out, q, fl) \<and> parcel_wf q" if "n \<in> {1, 2, 4, 8}" for mk n
    using n[OF that, of mk] by auto
  ultimately show ?thesis
    using conversions_cases[OF c] by (elim disjE) (simp_all add: scan_conv_def read_number_defs)
qed

lemma vscanf_loop_safe:
  "parcel_wf p \<Longrightarrow> conversion_count fmt \<le> length flags \<Longrightarrow>
   \<exists>r out q. vscanf_loop fmt p flags ret = Some (r, out, q) \<and> parcel_wf q"
proof (induction fmt arbitrary: p flags ret)
  case (Cons c fmt)
  show ?case
  proof (cases "c \<in> set conversions")
    case False
    then have "conversion_count fmt \<le> length flags"
      using Cons.prems(2) by (simp add: conversion_count_def)
    from Cons.IH[OF Cons.prems(1) this, of ret] Cons.prems(1) show ?thesis
      using scan_conv_other[OF False] by (cases "c = CHR ''%''") auto
  next
    case True
    then obtain f fl where f: "flags = f # fl" "conversion_count fmt \<le> length fl"
      using Cons.prems(2) by (cases flags) (auto simp: conversion_count_def)
    obtain r out q where q: "scan_conv c p (f # fl) ret = Some (r, out, q, fl)" "parcel_wf q"
      using scan_conv_safe[OF Cons.prems(1) True] by blast
    have np: "c \<noteq> CHR ''%''" using True percent_no_conversion by blast
    from Cons.IH[OF q(2) f(2), of r] show ?thesis using q f(1) np by (cases "r < 0") auto
  qed
qed simp

subsection \<open>Receiving from a buffer\<close>

lemma recvfrom_inv:
  assumes wm: "wire_message m" and al: "alloc_ok alloc" and inv: "recv_inv m p off"
    and str: "buf @ future = drop off m @ rest"
  shows "\<exists>r p' off'. media_parcel_recvfrom alloc p off buf = Some (r, p', off')
    \<and> (r = -ENOMEM \<or> 0 \<le> r \<and> off' = off + nat r \<and> recv_inv m p' off'
        \<and> drop (nat r) buf @ future = drop off' m @ rest
        \<and> (off' = length m \<or> off' = 8 \<or> nat r = length buf))"
proof -
  have lm: "length m = 8 + wire_len m" "length m < 4294967296" "2 * wire_len m \<le> max_payload"
    using wm by (auto simp: wire_message_def max_payload_def)
  have ol: "off \<le> length m" and nx: "next_pos p = 0" and sh: "parcel_shape p"
    using inv by (auto simp: recv_inv_def)
  define want where "want = (if off < 8 then 8 - off else length m - off)"
  have want: "(if off < MEDIA_PARCEL_HEADER_LEN then MEDIA_PARCEL_HEADER_LEN - off
      else u32 (4294967296 + chunk_len p + MEDIA_PARCEL_HEADER_LEN - off)) = want"
  proof (cases "off < 8")
    case False
    have "take off (chunk p) = take off m" using inv by (simp add: recv_inv_def)
    then have "take 8 (take off (chunk p)) = take 8 (take off m)" by simp
    then have "take 8 (chunk p) = take 8 m" using False by (simp add: min_def)
    then have "chunk_len p = wire_len m" by (simp add: chunk_len_def wire_len_def take_drop)
    then have "4294967296 + chunk_len p + 8 - off = 4294967296 + (length m - off)" using lm ol by simp
    moreover have "u32 (4294967296 + (length m - off)) = length m - off" using lm by (simp add: u32_def)
    ultimately show ?thesis using False by (simp add: want_def parcel_consts)
  qed (simp add: want_def parcel_consts)
  define bs where "bs = (if want \<le> length buf then take want buf else buf)"
  have lb: "length bs \<le> want" by (simp add: bs_def)
  have split: "buf = bs @ drop (length bs) buf" by (auto simp: bs_def min_def)
  have bound: "off < 8 \<longrightarrow> off + length bs \<le> 8" "off + length bs \<le> length m"
    using lb lm ol by (auto simp: want_def split: if_splits)
  have "bs @ (drop (length bs) buf @ future) = drop off m @ rest" using str split by (metis append.assoc)
  from take_prefix_eq[OF this] bound ol
  have pre: "bs = take (length bs) (drop off m)"
    and str1: "drop (length bs) buf @ future = drop (off + length bs) m @ rest" by (auto simp: add.commute)
  obtain c where c: "write_at off bs (chunk p) = Some c" "parcel_shape (set_chunk c p)"
    "take (off + length bs) c = take (off + length bs) m" "off + length bs < 8 \<longrightarrow> c ! 7 = 0"
  proof (cases "bs = []")
    case True
    have "off \<le> length (chunk p)"
      using inv lm by (cases "off < 8") (auto simp: recv_inv_def parcel_shape_def)
    then have "write_at off bs (chunk p) = Some (chunk p)" using True by (simp add: write_at_Some)
    moreover have "set_chunk (chunk p) p = p" by (cases p) (auto simp: set_chunk_def chunk_def split: option.split)
    ultimately show ?thesis using that inv True by (simp add: recv_inv_def)
  next
    case False
    from recv_write[OF inv wm False bound pre] that show ?thesis by blast
  qed
  have uo: "u32 (off + length bs) = off + length bs" using bound lm by simp
  let ?p1 = "set_chunk c p"
  show ?thesis
  proof (cases "want \<le> length buf")
    case False
    then have bs: "bs = buf" by (simp add: bs_def)
    have "media_parcel_recvfrom alloc p off buf = Some (int (length buf), ?p1, off + length buf)"
      using False c(1) uo bs by (simp only: media_parcel_recvfrom_def want Let_def) simp
    moreover have "recv_inv m ?p1 (off + length buf)"
      using c bound nx inv bs False by (auto simp: recv_inv_def want_def split: if_splits)
    ultimately show ?thesis using str1 bs by auto
  next
    case True
    then have bs: "bs = take want buf" "length bs = want" by (auto simp: bs_def)
    show ?thesis
    proof (cases "off + want = 8")
      case False
      have "media_parcel_recvfrom alloc p off buf = Some (int want, ?p1, off + want)"
        using True False c(1) uo bs by (simp only: media_parcel_recvfrom_def want Let_def) (simp add: parcel_consts)
      moreover have "off + want = length m" "8 \<le> off"
        using False ol by (auto simp: want_def split: if_splits)
      moreover have "recv_inv m ?p1 (off + want)"
        using c bound nx inv bs calculation by (auto simp: recv_inv_def)
      ultimately show ?thesis using str1 bs by auto
    next
      case eq: True
      have "take 8 c = take 8 m" using c(3) eq bs by simp
      then have cl: "chunk_len ?p1 = wire_len m" by (simp add: chunk_len_def wire_len_def take_drop)
      have "wire_len m + chunk_len ?p1 \<le> max_payload" using cl lm(3) by simp
      from grow_cases[OF c(2) al le0 this]
      consider (nomem) "media_parcel_grow alloc ?p1 0 (wire_len m) = Some (-ENOMEM, ?p1)"
        | (grown) q where "media_parcel_grow alloc ?p1 0 (wire_len m) = Some (0, q)"
          "parcel_shape q" "wire_len m \<le> cap q" "next_pos q = 0" "take 8 (chunk q) = take 8 c"
        using nx by fastforce
      then show ?thesis
      proof cases
        case nomem
        then have "media_parcel_recvfrom alloc p off buf = Some (-ENOMEM, ?p1, off + want)"
          using True eq c(1) uo bs cl by (simp only: media_parcel_recvfrom_def want Let_def) (simp add: parcel_consts)
        then show ?thesis by simp
      next
        case (grown q)
        have "media_parcel_recvfrom alloc p off buf = Some (int want, q, off + want)"
          using True eq c(1) uo bs cl grown(1) by (simp only: media_parcel_recvfrom_def want Let_def) (simp add: parcel_consts)
        moreover have "recv_inv m q (off + want)"
          using grown eq bound bs \<open>take 8 c = take 8 m\<close> by (simp add: recv_inv_def)
        ultimately show ?thesis using str1 bs eq by auto
      qed
    qed
  qed
qed

section \<open>The interface of the message buffer\<close>

text \<open>
  What the stubs and proxies rely on: printing appends the bytes of the format, scanning with the
  same format takes the values off the unread part.
\<close>

locale message_buffer =
  fixes wf :: "'p \<Rightarrow> bool"
    and content :: "'p \<Rightarrow> bytes"
    and unread :: "'p \<Rightarrow> bytes"
    and print :: "allocator \<Rightarrow> 'p \<Rightarrow> string \<Rightarrow> varg list \<Rightarrow> (int \<times> 'p) option"
    and scan :: "'p \<Rightarrow> string \<Rightarrow> bool list \<Rightarrow> (int \<times> sval list \<times> 'p) option"
    and narrow :: "64 word \<Rightarrow> 32 word"
  assumes print_law: "wf p \<Longrightarrow> alloc_ok alloc \<Longrightarrow> fmt_match fmt args \<Longrightarrow>
      length (content p) + length (fmt_bytes narrow fmt args) \<le> max_payload \<Longrightarrow>
      \<exists>r p'. print alloc p fmt args = Some (r, p') \<and> wf p'
        \<and> (r = -ENOMEM \<or> r = 0 \<and> content p' = content p @ fmt_bytes narrow fmt args)"
    and scan_law: "wf p \<Longrightarrow> fmt_match fmt args \<Longrightarrow> unread p = fmt_bytes narrow fmt args @ tail \<Longrightarrow>
      \<exists>p'. scan p fmt (replicate (length args) True) = Some (0, fmt_vals narrow fmt args, p')
        \<and> wf p' \<and> unread p' = tail"
    and scan_safe: "wf p \<Longrightarrow> conversion_count fmt \<le> length flags \<Longrightarrow>
      \<exists>r out p'. scan p fmt flags = Some (r, out, p') \<and> wf p'"
begin

text \<open>What one parcel prints, any parcel with those bytes unread scans.\<close>

lemma print_scan:
  assumes p: "wf p" "content p = []" "print alloc p fmt args = Some (0, p1)"
    and al: "alloc_ok alloc" and m: "fmt_match fmt args" "length (fmt_bytes narrow fmt args) \<le> max_payload"
    and q: "wf q" "unread q = content p1 @ tail"
  shows "\<exists>q'. scan q fmt (replicate (length args) True) = Some (0, fmt_vals narrow fmt args, q')
    \<and> wf q' \<and> unread q' = tail"
proof -
  have "content p1 = fmt_bytes narrow fmt args"
    using print_law[OF p(1) al m(1)] p(2,3) m(2) by auto
  with scan_law[OF q(1) m(1)] q(2) show ?thesis by simp
qed

text \<open>Two prints in a row and two scans in a row, as the stub does for a reply.\<close>

lemma print_print_scan_scan:
  assumes p: "wf p" "content p = []" "print alloc p fmt args = Some (0, p1)"
      "print alloc p1 fmt' args' = Some (0, p2)"
    and al: "alloc_ok alloc" and m: "fmt_match fmt args" "fmt_match fmt' args'"
    and sz: "length (fmt_bytes narrow fmt args) + length (fmt_bytes narrow fmt' args') \<le> max_payload"
    and q: "wf q" "unread q = content p2"
  shows "\<exists>q1 q2. scan q fmt (replicate (length args) True) = Some (0, fmt_vals narrow fmt args, q1)
    \<and> scan q1 fmt' (replicate (length args') True) = Some (0, fmt_vals narrow fmt' args', q2)
    \<and> unread q2 = []"
proof -
  have c1: "wf p1" "content p1 = fmt_bytes narrow fmt args"
    using print_law[OF p(1) al m(1)] p(2,3) sz by auto
  have "content p2 = fmt_bytes narrow fmt args @ fmt_bytes narrow fmt' args'"
    using print_law[OF c1(1) al m(2)] c1(2) p(4) sz by auto
  with scan_law[OF q(1) m(1)] q(2) obtain q1 where
    q1: "scan q fmt (replicate (length args) True) = Some (0, fmt_vals narrow fmt args, q1)"
      "wf q1" "unread q1 = fmt_bytes narrow fmt' args' @ []" by auto
  from scan_law[OF q1(2) m(2) q1(3)] q1(1) show ?thesis by auto
qed

end

interpretation pb: message_buffer parcel_wf parcel_data parcel_rest
    "\<lambda>alloc. media_parcel_append_printf alloc narrow" media_parcel_read_scanf narrow
  for narrow :: "64 word \<Rightarrow> 32 word"
proof unfold_locales
  fix p :: media_parcel and alloc fmt args
  assume wf: "parcel_wf p"
  show "alloc_ok alloc \<Longrightarrow> fmt_match fmt args \<Longrightarrow>
      length (parcel_data p) + length (fmt_bytes narrow fmt args) \<le> max_payload \<Longrightarrow>
      \<exists>r p'. media_parcel_append_printf alloc narrow p fmt args = Some (r, p') \<and> parcel_wf p'
        \<and> (r = -ENOMEM \<or> r = 0 \<and> parcel_data p' = parcel_data p @ fmt_bytes narrow fmt args)"
    using vprintf_loop_spec[OF wf, of alloc fmt args narrow 0]
    by (auto simp: media_parcel_append_printf_def media_parcel_append_vprintf_def wf_length_data[OF wf])
  show "fmt_match fmt args \<Longrightarrow> parcel_rest p = fmt_bytes narrow fmt args @ tail \<Longrightarrow>
      \<exists>p'. media_parcel_read_scanf p fmt (replicate (length args) True) = Some (0, fmt_vals narrow fmt args, p')
        \<and> parcel_wf p' \<and> parcel_rest p' = tail" for tail
    using vscanf_loop_spec[OF wf] by (simp add: media_parcel_read_scanf_def media_parcel_read_vscanf_def)
  show "conversion_count fmt \<le> length flags \<Longrightarrow>
      \<exists>r out p'. media_parcel_read_scanf p fmt flags = Some (r, out, p') \<and> parcel_wf p'" for flags
    using vscanf_loop_safe[OF wf] by (simp add: media_parcel_read_scanf_def media_parcel_read_vscanf_def)
qed

section \<open>Properties\<close>

definition zero_parcel :: media_parcel where
  "zero_parcel = \<lparr>prealloc = replicate 264 0, heap = None, next_pos = 0, cap = 256\<rparr>"

definition fresh_parcel :: "media_parcel \<Rightarrow> bool" where
  \<comment> \<open>what \<open>media_parcel_init\<close> leaves, whatever the data area holds\<close>
  "fresh_parcel p \<longleftrightarrow> length (prealloc p) = 264 \<and> media_parcel_init p = Some p"

lemma init_fresh: "length (prealloc p) = 264 \<Longrightarrow> media_parcel_init p = Some q \<Longrightarrow> fresh_parcel q"
  by (auto simp: fresh_parcel_def media_parcel_init_def set_code_def set_len_def parcel_consts
      write_at_Some chunk_def set_chunk_def)

lemma fresh_facts:
  assumes "fresh_parcel p"
  shows "parcel_wf p" "parcel_data p = []" "next_pos p = 0" "chunk_len p = 0" "cap p = 256" "heap p = None"
    "parcel_rest p = []"
  using parcel_init_wf[of p] assms by (auto simp: fresh_parcel_def parcel_rest_def)

lemma le_bytes_zero: "le_bytes n 0 = replicate n 0"
  by (induction n) auto

lemma fresh_zero_byte:
  assumes "fresh_parcel p"
  shows "chunk p ! 7 = 0"
proof -
  have "take 4 (drop 4 (chunk p)) = le_bytes (length (take 4 (drop 4 (chunk p)))) 0"
    using le_bytes_le_val[of "take 4 (drop 4 (chunk p))"] fresh_facts(4)[OF assms]
    by (simp add: chunk_len_def)
  also have "length (take 4 (drop 4 (chunk p))) = 4"
    using fresh_facts(1)[OF assms] by (simp add: parcel_wf_def parcel_shape_def)
  finally have "take 4 (drop 4 (chunk p)) ! 3 = 0" by (simp add: le_bytes_zero)
  then show ?thesis
    using fresh_facts(1)[OF assms] by (simp add: parcel_wf_def parcel_shape_def)
qed

lemma fresh_recv_inv: "fresh_parcel p \<Longrightarrow> recv_inv m p 0"
  using fresh_facts[of p] fresh_zero_byte[of p] by (simp add: recv_inv_def parcel_wf_def)

lemma zero_parcel_fresh: "fresh_parcel zero_parcel"
  by (simp add: fresh_parcel_def zero_parcel_def media_parcel_init_def set_code_def set_len_def
      parcel_consts write_at_Some chunk_def set_chunk_def le_bytes_zero flip: replicate_add)

text \<open>C3: Whatever values a format prints into a fresh parcel come out again at the other end: if
  printing and sending succeed, and the bytes put on the wire (followed by anything) arrive in any
  segmentation without an error or an end of stream among them, then the receiver either runs out
  of memory or gets the code and exactly the values printed (integers narrowed to their width, an
  empty string as NULL), and leaves the bytes of the following messages on the socket.\<close>

theorem parcel_wire_roundtrip:
  assumes al: "alloc_ok alloc" "alloc_ok alloc'" and p: "fresh_parcel p" and q: "fresh_parcel q"
    and fmt: "fmt_match fmt args" "2 * length (fmt_bytes narrow fmt args) \<le> max_payload"
    and pr: "media_parcel_append_printf alloc narrow p fmt args = Some (0, p1)"
    and sd: "media_parcel_send p1 code sevs = Some (0, p2, out, sevs')" "code < 4294967296"
      "\<forall>e. Send_error e \<in> set sevs \<longrightarrow> e \<noteq> 0"
    and rc: "stream evs = out @ rest" "\<forall>ev\<in>set evs. \<exists>bs. ev = Received bs"
  shows "\<exists>r q' n evs'. media_parcel_recv alloc' q (Some 0) evs = Some (r, q', n, evs')
    \<and> (r = -ENOMEM \<or> r = 0 \<and> media_parcel_get_code q' = code \<and> stream evs' = rest
        \<and> (\<exists>q''. media_parcel_read_scanf q' fmt (replicate (length args) True)
             = Some (0, fmt_vals narrow fmt args, q'')))"
proof -
  let ?d = "fmt_bytes narrow fmt args"
  have p1: "parcel_wf p1" "parcel_data p1 = ?d"
    using pb.print_law[OF fresh_facts(1)[OF p] al(1) fmt(1), of narrow] fresh_facts[OF p] fmt(2) pr by auto
  let ?m = "parcel_wire code ?d"
  note wire = wire_message_parcel[OF fmt(2), of code]
  have out: "out = ?m"
  proof -
    have "\<exists>n\<le>length ?m. out = take n ?m \<and> n = length ?m"
      using wire_of_send[OF p1(1) sd(2)] sd(1,3) p1(2)
      by (auto simp: media_parcel_send_def parcel_consts bind_Some_iff Let_def dest!: send_loop_spec)
    then show ?thesis by auto
  qed
  have "stream evs @ [] = drop 0 ?m @ rest" using rc(1) out by simp
  from recv_loop_inv[OF wire(1) al(2) fresh_recv_inv[OF q] this, of 8] obtain r q' n evs' where
    r: "recv_loop alloc' q 0 8 evs = Some (r, q', n, evs')"
      "r = -ENOMEM \<or> recv_inv ?m q' n \<and> stream evs' = drop n ?m @ rest
        \<and> (n = length ?m \<and> r = 0 \<or> n < length ?m \<and> r = -EAGAIN \<and> evs' = [])"
    using rc(2) by auto
  have rv: "media_parcel_recv alloc' q (Some 0) evs = Some (r, q', n, evs')"
    using r(1) fresh_facts(4)[OF q] by (simp add: media_parcel_recv_def parcel_consts)
  show ?thesis
  proof (cases "r = -ENOMEM")
    case False
    then have "n = length ?m" "r = 0" using r(2) by auto
    then have "recv_inv ?m q' (length ?m)" "stream evs' = rest" using r(2) False by auto
    from received_parcel[OF wire(1) this(1)] this(2) show ?thesis
      using rv \<open>r = 0\<close> wire sd(2) pb.scan_law[of q' fmt args narrow "[]"] fmt(1)
      by (auto simp: media_parcel_get_code_def parcel_rest_def)
  qed (use rv in simp)
qed

text \<open>An allocator that always succeeds, for the concrete runs.\<close>

definition zero_alloc :: allocator where
  "zero_alloc n = Some (replicate n 0)"

lemma zero_alloc_ok: "alloc_ok zero_alloc"
  by (simp add: alloc_ok_def zero_alloc_def)

lemma le_bytes_4: "le_bytes 4 v = [word_of_nat v, word_of_nat (v div 256),
    word_of_nat (v div 65536), word_of_nat (v div 16777216)]"
proof -
  have "(4::nat) = Suc (Suc (Suc (Suc 0)))" by simp
  then have "le_bytes 4 v = [word_of_nat v, word_of_nat (v div 256),
    word_of_nat (v div 256 div 256), word_of_nat (v div 256 div 256 div 256)]"
    by (simp only: le_bytes.simps)
  moreover have "v div 256 div 256 = v div 65536" "v div 65536 div 256 = v div 16777216"
    using div_mult2_eq[of v 256 256] div_mult2_eq[of v 65536 256] by simp_all
  ultimately show ?thesis by simp
qed

lemma parcel_wire_roundtrip_witness:
  "\<exists>p1 p2 r q' n evs'.
     media_parcel_append_printf zero_alloc (\<lambda>_. 0) zero_parcel ''%i%s'' [VInt32 7, VString (Some [97])]
       = Some (0, p1)
   \<and> media_parcel_send p1 3 [Sent 5, Sent 100]
       = Some (0, p2, [3, 0, 0, 0, 6, 0, 0, 0, 7, 0, 0, 0, 97, 0], [])
   \<and> media_parcel_recv zero_alloc zero_parcel (Some 0)
       [Received [3, 0, 0, 0, 6, 0], Received [0, 0, 7, 0, 0, 0, 97, 0, 9]] = Some (r, q', n, evs')
   \<and> (r = -ENOMEM \<or> r = 0 \<and> media_parcel_get_code q' = 3 \<and> stream evs' = [9]
      \<and> (\<exists>q''. media_parcel_read_scanf q' ''%i%s'' [True, True] = Some (0, [S32 7, SString (Some [97])], q'')))"
proof -
  have m: "fmt_match ''%i%s'' [VInt32 7, VString (Some [97])]" by (simp add: conversions_def)
  have b: "fmt_bytes (\<lambda>_. 0) ''%i%s'' [VInt32 7, VString (Some [97])] = [7, 0, 0, 0, 97, 0]"
    by (simp add: conversions_def le_bytes_4)
  have v: "fmt_vals (\<lambda>_. 0) ''%i%s'' [VInt32 7, VString (Some [97])] = [S32 7, SString (Some [97])]"
    by (simp add: conversions_def)
  note f = fresh_facts[OF zero_parcel_fresh]
  have al: "alloc_ok zero_alloc" by (rule zero_alloc_ok)
  obtain p1 where p1: "media_parcel_append_printf zero_alloc (\<lambda>_. 0) zero_parcel ''%i%s''
      [VInt32 7, VString (Some [97])] = Some (0, p1)" "parcel_wf p1" "parcel_data p1 = [7, 0, 0, 0, 97, 0]"
    using printf_fits[OF f(1,4) _ al m, of "\<lambda>_. 0"] f(5) b by (auto simp: max_payload_def)
  have w: "parcel_wire 3 [7, 0, 0, 0, 97, 0] = [3, 0, 0, 0, 6, 0, 0, 0, 7, 0, 0, 0, 97, 0]"
    by (simp add: parcel_wire_def le_bytes_4)
  obtain p2 where p2: "media_parcel_send p1 3 [Sent 5, Sent 100] =
      Some (0, p2, [3, 0, 0, 0, 6, 0, 0, 0, 7, 0, 0, 0, 97, 0], [])"
    using wire_of_send[OF p1(2), of 3] p1(3) w
    by (auto simp: media_parcel_send_def parcel_consts Let_def)
  have st: "stream [Received [3, 0, 0, 0, 6, 0], Received [0, 0, 7, 0, 0, 0, 97, 0, 9]]
      = [3, 0, 0, 0, 6, 0, 0, 0, 7, 0, 0, 0, 97, 0] @ [9]" by simp
  have len: "2 * length (fmt_bytes (\<lambda>_. 0) ''%i%s'' [VInt32 7, VString (Some [97])]) \<le> max_payload"
    unfolding b by (simp add: max_payload_def)
  have flags: "replicate (length [VInt32 7, VString (Some [97])]) True = [True, True]" by simp
  have "\<forall>e. Send_error e \<in> set [Sent 5, Sent 100] \<longrightarrow> e \<noteq> 0"
    "\<forall>ev\<in>set [Received [3, 0, 0, 0, 6, 0], Received [0, 0, 7, 0, 0, 0, 97, 0, 9]]. \<exists>bs. ev = Received bs"
    "(3::nat) < 4294967296" by simp_all
  from parcel_wire_roundtrip[OF al al zero_parcel_fresh zero_parcel_fresh m len p1(1) p2 this(3,1) st this(2)]
  show ?thesis using p1(1) p2 unfolding v flags by (elim exE conjE) (intro exI conjI, assumption+)
qed

text \<open>C21: Receiving may be cut into any number of calls: whenever the first \<open>offset\<close> bytes of a message
  have been received and what is on the socket (with what is still to come) continues it, a call of
  \<open>media_parcel_recv\<close> that does not run out of memory again leaves a prefix of the message received,
  no shorter than before, consumes exactly the bytes it added, and answers 0 exactly when the
  message is complete; otherwise it reports the socket's error, the end of the stream or EAGAIN.\<close>

theorem parcel_recv_resumable:
  assumes "wire_message m" "alloc_ok alloc" "recv_inv m p off" "stream evs @ future = drop off m @ rest"
  shows "\<exists>r p' off' evs'. media_parcel_recv alloc p (Some off) evs = Some (r, p', off', evs')
    \<and> (r = -ENOMEM \<or> recv_inv m p' off' \<and> off \<le> off' \<and> stream evs' @ future = drop off' m @ rest
        \<and> (off' = length m \<and> r = 0
           \<or> off' < length m \<and> (r = -EPIPE \<and> Closed \<in> set evs
             \<or> (\<exists>e. r = -e \<and> Recv_error e \<in> set evs) \<or> r = -EAGAIN \<and> evs' = [])))"
proof -
  have lm: "length m = 8 + wire_len m" "length m < 4294967296"
    using assms(1) by (auto simp: wire_message_def max_payload_def)
  have sh: "8 \<le> length (chunk p)" using assms(3) by (simp add: recv_inv_def parcel_shape_def)
  have "off < 8 \<longrightarrow> 8 \<le> u32 (8 + chunk_len p)"
    using chunk_len_small[OF sh] assms(3) by (auto simp: recv_inv_def)
  moreover have "u32 (8 + chunk_len p) = length m" if "8 \<le> off"
  proof -
    have "take off (chunk p) = take off m" using assms(3) by (simp add: recv_inv_def)
    then have "take 8 (take off (chunk p)) = take 8 (take off m)" by simp
    then have "take 8 (chunk p) = take 8 m" using that by (simp add: min_def)
    then have "chunk_len p = wire_len m" by (simp add: chunk_len_def wire_len_def take_drop)
    with lm show ?thesis by simp
  qed
  ultimately show ?thesis
    using recv_loop_inv[OF assms, of "u32 (8 + chunk_len p)"]
    by (simp add: media_parcel_recv_def parcel_consts)
qed

lemma parcel_recv_resumable_witness:
  "\<exists>r p' off' evs'. media_parcel_recv zero_alloc zero_parcel (Some 0)
      [Received [3, 0, 0], Recv_error EAGAIN, Received [0, 0, 0, 0, 0]] = Some (r, p', off', evs')
    \<and> (r = -ENOMEM \<or> recv_inv (parcel_wire 3 []) p' off')"
proof -
  have w: "wire_message (parcel_wire 3 [])" by (rule wire_message_parcel) (simp add: max_payload_def)
  have "stream [Received [3, 0, 0], Recv_error EAGAIN, Received [0, 0, 0, 0, 0]] @ []
      = drop 0 (parcel_wire 3 []) @ []"
    by (simp add: parcel_wire_def le_bytes_4)
  from parcel_recv_resumable[OF w zero_alloc_ok fresh_recv_inv[OF zero_parcel_fresh] this]
  show ?thesis by blast
qed

text \<open>C22: Whatever bytes a peer sent, reading a well-formed parcel with any format, given one pointer
  per conversion (NULL or not), stays inside the chunk, returns, and leaves the parcel well formed.\<close>

theorem parcel_scan_safe:
  assumes "parcel_wf p" "conversion_count fmt \<le> length flags"
  shows "\<exists>r out p'. media_parcel_read_scanf p fmt flags = Some (r, out, p') \<and> parcel_wf p'"
  using pb.scan_safe[OF assms] .

lemma parcel_scan_safe_witness:
  "\<exists>r out p'. media_parcel_read_scanf zero_parcel ''%s%l'' [True, False] = Some (r, out, p') \<and> parcel_wf p'"
  by (rule parcel_scan_safe[OF fresh_facts(1)[OF zero_parcel_fresh]])
    (simp add: conversion_count_def conversions_def)

text \<open>Appending to a well-formed parcel either fails for lack of memory and changes nothing, or adds
  exactly the bytes given after the data already there, keeping the read position and the
  well-formedness; it cannot fail when the bytes fit the current capacity.\<close>

theorem parcel_append_refines:
  assumes "parcel_wf p" "alloc_ok alloc" "length d + chunk_len p \<le> max_payload"
  shows "media_parcel_append alloc p d = Some (-ENOMEM, p) \<and> cap p < length d + chunk_len p
    \<or> (\<exists>p'. media_parcel_append alloc p d = Some (0, p') \<and> parcel_wf p'
        \<and> parcel_data p' = parcel_data p @ d \<and> next_pos p' = next_pos p)"
  using append_cases[OF assms] append_fits[OF assms(1), of d alloc]
  by (cases "length d + chunk_len p \<le> cap p") auto

lemma parcel_append_refines_witness:
  "\<exists>p'. media_parcel_append zero_alloc zero_parcel [1, 2, 3] = Some (0, p') \<and> parcel_data p' = [1, 2, 3]"
proof -
  note f = fresh_facts[OF zero_parcel_fresh]
  have "length [1, 2, 3 :: byte] + chunk_len zero_parcel \<le> max_payload" by (simp add: f max_payload_def)
  from parcel_append_refines[OF f(1) zero_alloc_ok this] show ?thesis by (auto simp: f)
qed

text \<open>A length field of 2 GiB defeats the growth on a target with a 32-bit \<open>size_t\<close>: the sum of the
  length with itself wraps to 0, \<open>media_parcel_grow\<close> reports success with the 256 byte block still
  in place, and the payload bytes that follow are written beyond its end.\<close>

theorem parcel_recv_overflow:
  assumes "fresh_parcel p" "256 < length bs" "length bs \<le> 2147483648"
  shows "media_parcel_recv alloc p (Some 0)
    [Received (le_bytes 4 code @ le_bytes 4 2147483648), Received bs] = None"
proof -
  let ?h = "le_bytes 4 code @ le_bytes 4 2147483648"
  note f = fresh_facts[OF assms(1)]
  have l: "length (chunk p) = 264" using f(1,5) by (simp add: parcel_wf_def parcel_shape_def)
  obtain c where c: "write_at 0 ?h (chunk p) = Some c" "length c = 264" "take 8 c = ?h"
    using l by (simp add: write_at_Some)
  let ?p = "set_chunk c p"
  have "take 4 (drop 4 c) = le_bytes 4 2147483648"
    using c(3) by (metis (no_types, lifting) append_eq_conv_conj drop_take length_le_bytes
        add_diff_cancel_left' numeral_Bit0)
  then have cl: "chunk_len ?p = 2147483648" by (simp add: chunk_len_def le_val_4)
  then have g: "media_parcel_grow alloc ?p 0 (chunk_len ?p) = Some (0, ?p)"
    by (simp add: media_parcel_grow_def u32_def f)
  have u: "u32 2147483656 = 2147483656" "u32 (4294967296 + 2147483656 - 8) = 2147483648"
    by (simp_all add: u32_def)
  have w: "write_at 8 bs c = None" using assms(2) c(2) by (simp add: write_at_def)
  have "recv_loop alloc ?p 8 2147483656 [Received bs] = None"
  proof -
    have "bs \<noteq> []" using assms(2) by auto
    then show ?thesis using assms(3) u w by (simp add: recv_loop.simps[of alloc ?p 8] parcel_consts)
  qed
  moreover have "recv_loop alloc p 0 8 [Received ?h, Received bs] =
      recv_loop alloc ?p 8 2147483656 [Received bs]"
  proof -
    have ne: "?h \<noteq> []" using length_le_bytes[of 4 code] by fastforce
    then have "sock_recv [Received ?h, Received bs] 8 = (Inr ?h, [Received bs])" by simp
    moreover have "length ?h = 8" by simp
    ultimately show ?thesis
      using c(1) cl g ne by (simp add: recv_loop.simps[of alloc p 0] parcel_consts u32_def
          del: append_is_Nil_conv sock_recv.simps length_append)
  qed
  ultimately show ?thesis by (simp add: media_parcel_recv_def parcel_consts f(4))
qed

lemma parcel_recv_overflow_witness:
  "media_parcel_recv zero_alloc zero_parcel (Some 0)
    [Received (le_bytes 4 1 @ le_bytes 4 2147483648), Received (replicate 300 7)] = None"
  by (rule parcel_recv_overflow[OF zero_parcel_fresh]) simp_all

end
