(* ===== verification/C_Lib.thy ===== *)
theory C_Lib
  imports Media_Prelude
begin

text \<open>
  The string functions of the C library that the server and the tools use, on C strings given
  as the list of their characters before the terminating zero, and on character memory given
  with its zeros.
\<close>

section \<open>Characters\<close>

definition NUL :: char where "NUL = CHR 0x00"
definition newline :: char where "newline = CHR 0x0A"

definition isdigit :: "char \<Rightarrow> bool" where
  "isdigit c \<longleftrightarrow> 48 \<le> (of_char c :: nat) \<and> (of_char c :: nat) \<le> 57"

definition isupper :: "char \<Rightarrow> bool" where
  "isupper c \<longleftrightarrow> 65 \<le> (of_char c :: nat) \<and> (of_char c :: nat) \<le> 90"

definition islower :: "char \<Rightarrow> bool" where
  "islower c \<longleftrightarrow> 97 \<le> (of_char c :: nat) \<and> (of_char c :: nat) \<le> 122"

definition isalnum :: "char \<Rightarrow> bool" where
  "isalnum c \<longleftrightarrow> isdigit c \<or> isupper c \<or> islower c"

definition isspace :: "char \<Rightarrow> bool" where
  "isspace c \<longleftrightarrow> c = CHR '' '' \<or> (9 \<le> (of_char c :: nat) \<and> (of_char c :: nat) \<le> 13)"

lemma isalnum_not_separator:
  "isalnum c \<Longrightarrow> c \<noteq> CHR '','' \<and> c \<noteq> CHR '':'' \<and> c \<noteq> CHR '' '' \<and> c \<noteq> newline \<and> c \<noteq> NUL \<and> c \<noteq> CHR ''#''"
  by (auto simp: isalnum_def isdigit_def isupper_def islower_def newline_def NUL_def)

lemma isdigit_isalnum: "isdigit c \<Longrightarrow> isalnum c"
  by (simp add: isalnum_def)

section \<open>Strings in memory\<close>

definition c_string_at :: "string \<Rightarrow> nat \<Rightarrow> string option" where
  \<comment> \<open>the C string at an offset of a block; \<open>None\<close> when the block has no zero from there on\<close>
  "c_string_at mem off =
     (if NUL \<in> set (drop off mem) then Some (takeWhile (\<lambda>c. c \<noteq> NUL) (drop off mem)) else None)"

definition mem_put :: "nat \<Rightarrow> string \<Rightarrow> string \<Rightarrow> string option" where
  \<comment> \<open>\<open>memcpy\<close> into a block\<close>
  "mem_put off s mem = (if off + length s \<le> length mem
     then Some (take off mem @ s @ drop (off + length s) mem) else None)"

section \<open>Searching and splitting\<close>

fun strchr_index :: "char \<Rightarrow> string \<Rightarrow> nat option" where
  "strchr_index c [] = None"
| "strchr_index c (x # xs) = (if x = c then Some 0 else map_option Suc (strchr_index c xs))"

definition strncmp_eq :: "string \<Rightarrow> string \<Rightarrow> nat \<Rightarrow> bool" where
  \<comment> \<open>whether \<open>strncmp\<close> answers 0\<close>
  "strncmp_eq a b n \<longleftrightarrow> take n a = take n b"

fun split_at :: "char \<Rightarrow> string \<Rightarrow> string list" where
  "split_at sep [] = [[]]"
| "split_at sep (c # cs) =
     (if c = sep then [] # split_at sep cs
      else (case split_at sep cs of t # ts \<Rightarrow> (c # t) # ts | [] \<Rightarrow> [[c]]))"

definition strtok_tokens :: "char \<Rightarrow> string \<Rightarrow> string list" where
  \<comment> \<open>what the calls of \<open>strtok\<close> with one separator give until NULL: the nonempty fields\<close>
  "strtok_tokens sep s = filter (\<lambda>t. t \<noteq> []) (split_at sep s)"

fun intercalate :: "char \<Rightarrow> string list \<Rightarrow> string" where
  "intercalate sep [] = []"
| "intercalate sep [t] = t"
| "intercalate sep (t # u # ts) = t @ sep # intercalate sep (u # ts)"

lemma split_at_nonempty: "split_at sep s \<noteq> []"
  by (cases s) (auto split: list.splits)

lemma split_at_no_sep: "sep \<notin> set t \<Longrightarrow> split_at sep t = [t]"
  by (induction t) auto

lemma split_at_append:
  "sep \<notin> set t \<Longrightarrow> split_at sep (t @ sep # s) = t # split_at sep s"
  by (induction t) auto

lemma split_at_intercalate:
  "ts \<noteq> [] \<Longrightarrow> \<forall>t\<in>set ts. sep \<notin> set t \<Longrightarrow> split_at sep (intercalate sep ts) = ts"
  by (induction sep ts rule: intercalate.induct) (auto simp: split_at_no_sep split_at_append)

lemma tokens_intercalate:
  assumes "ts \<noteq> []" "\<forall>t\<in>set ts. t \<noteq> [] \<and> sep \<notin> set t"
  shows "strtok_tokens sep (intercalate sep ts) = ts"
proof -
  have "split_at sep (intercalate sep ts) = ts" using assms by (intro split_at_intercalate) auto
  moreover have "filter (\<lambda>t. t \<noteq> []) ts = ts" using assms(2) by (intro filter_True) auto
  ultimately show ?thesis by (simp add: strtok_tokens_def)
qed

lemma strchr_index_append: "c \<notin> set s \<Longrightarrow> strchr_index c (s @ c # r) = Some (length s)"
  by (induction s) auto

lemma strchr_index_None: "strchr_index c s = None \<longleftrightarrow> c \<notin> set s"
  by (induction s) auto

lemma strchr_index_Some: "strchr_index c s = Some i \<Longrightarrow> i < length s \<and> s ! i = c \<and> c \<notin> set (take i s)"
proof (induction s arbitrary: i)
  case (Cons x xs)
  then show ?case by (cases i) (auto split: if_splits)
qed simp

lemma set_intercalate: "set (intercalate sep ts) \<subseteq> insert sep (\<Union>t\<in>set ts. set t)"
  by (induction sep ts rule: intercalate.induct) auto

section \<open>Decimal numbers\<close>

definition LONG_MAX :: int where "LONG_MAX = 2147483647"

fun digits_val :: "nat \<Rightarrow> string \<Rightarrow> nat" where
  "digits_val acc [] = acc"
| "digits_val acc (c # cs) = digits_val (10 * acc + (of_char c - 48)) cs"

definition strtol_digits :: "string \<Rightarrow> int" where
  \<comment> \<open>\<open>strtol\<close> in base 10 on a string of digits; it saturates\<close>
  "strtol_digits s = min LONG_MAX (int (digits_val 0 s))"

text \<open>Printing with \<open>%d\<close>.\<close>

fun nat_digits :: "nat \<Rightarrow> string" where
  "nat_digits n = (if n < 10 then [char_of (48 + n)] else nat_digits (n div 10) @ [char_of (48 + n mod 10)])"

declare nat_digits.simps [simp del]

definition int_digits :: "int \<Rightarrow> string" where
  "int_digits i = (if i < 0 then CHR ''-'' # nat_digits (nat (- i)) else nat_digits (nat i))"

lemma of_char_48: "n < 10 \<Longrightarrow> (of_char (char_of (48 + n) :: char) :: nat) = 48 + n"
  by simp

lemma nat_digits_digits: "\<forall>c\<in>set (nat_digits n). isdigit c"
proof (induction n rule: nat_digits.induct)
  case (1 n)
  then show ?case by (subst nat_digits.simps) (auto simp: isdigit_def)
qed

lemma nat_digits_nonempty: "nat_digits n \<noteq> []"
  by (subst nat_digits.simps) simp

lemma digits_val_append: "digits_val a (s @ t) = digits_val (digits_val a s) t"
  by (induction s arbitrary: a) auto

lemma digits_val_nat_digits: "digits_val 0 (nat_digits n) = n"
proof (induction n rule: nat_digits.induct)
  case (1 n)
  show ?case
  proof (cases "n < 10")
    case False
    then have "nat_digits n = nat_digits (n div 10) @ [char_of (48 + n mod 10)]"
      by (subst nat_digits.simps) simp
    with 1 False show ?thesis by (simp add: digits_val_append)
  qed (simp add: nat_digits.simps)
qed

section \<open>Files\<close>

text \<open>The lines \<open>fgets\<close> returns with a buffer of \<open>n + 1\<close> characters: at most \<open>n\<close> each.\<close>

fun line_length :: "nat \<Rightarrow> string \<Rightarrow> nat" where
  "line_length 0 s = 0"
| "line_length (Suc n) [] = 0"
| "line_length (Suc n) (c # s) = (if c = newline then 1 else Suc (line_length n s))"

lemma line_length_pos: "0 < n \<Longrightarrow> s \<noteq> [] \<Longrightarrow> 0 < line_length n s"
  by (cases n; cases s) auto

function fgets_lines :: "nat \<Rightarrow> string \<Rightarrow> string list" where
  "fgets_lines n s = (if s = [] \<or> n = 0 then []
     else take (line_length n s) s # fgets_lines n (drop (line_length n s) s))"
  by pat_completeness auto

termination
  by (relation "measure (\<lambda>(n, s). length s)") (auto simp: line_length_pos)

declare fgets_lines.simps [simp del]

lemma line_length_line:
  "newline \<notin> set l \<Longrightarrow> length l < n \<Longrightarrow> line_length n (l @ newline # s) = Suc (length l)"
proof (induction l arbitrary: n)
  case Nil
  then show ?case by (cases n) auto
next
  case (Cons c l)
  then show ?case by (cases n) auto
qed

lemma fgets_lines_concat:
  assumes "\<forall>l\<in>set ls. newline \<notin> set l \<and> length l < n"
  shows "fgets_lines n (concat (map (\<lambda>l. l @ [newline]) ls)) = map (\<lambda>l. l @ [newline]) ls"
  using assms
proof (induction ls)
  case Nil
  then show ?case by (simp add: fgets_lines.simps)
next
  case (Cons l ls)
  then have "line_length n (l @ newline # concat (map (\<lambda>l. l @ [newline]) ls)) = Suc (length l)" "n \<noteq> 0"
    using line_length_line by auto
  then show ?case using Cons by (subst fgets_lines.simps) simp
qed

end
