(* ===== verification/Media_Focus.thy ===== *)
theory Media_Focus
  imports Focus_Stack C_Lib
begin

text \<open>
  Audio focus arbitration, \<open>server/media_focus.c\<close>: the configuration file that names the stream
  types and gives for each pair of them what the newcomer and the current owner shall do, and the
  requests and releases of focus that are decided by that matrix on the focus stack.

  Callbacks to the owners are returned as a list of (argument, suggestion) pairs in the order
  they are made. \<open>None\<close> is undefined behaviour: a null stack, streams or matrix, an access
  outside the matrix or to a cell that was never written, a null callback.
\<close>

section \<open>Constants and types\<close>

definition MEDIA_FOCUS_PLAY :: int where "MEDIA_FOCUS_PLAY = 0"
definition MEDIA_FOCUS_STOP :: int where "MEDIA_FOCUS_STOP = 1"
definition MEDIA_FOCUS_PAUSE :: int where "MEDIA_FOCUS_PAUSE = 2"
definition MEDIA_FOCUS_PLAY_BUT_SILENT :: int where "MEDIA_FOCUS_PLAY_BUT_SILENT = 3"
definition MEDIA_FOCUS_PLAY_WITH_DUCK :: int where "MEDIA_FOCUS_PLAY_WITH_DUCK = 4"
definition MEDIA_FOCUS_PLAY_WITH_KEEP :: int where "MEDIA_FOCUS_PLAY_WITH_KEEP = 5"

lemmas suggestion_defs = MEDIA_FOCUS_PLAY_def MEDIA_FOCUS_STOP_def MEDIA_FOCUS_PAUSE_def
  MEDIA_FOCUS_PLAY_BUT_SILENT_def MEDIA_FOCUS_PLAY_WITH_DUCK_def MEDIA_FOCUS_PLAY_WITH_KEEP_def

definition CONFIG_MEDIA_FOCUS_STACK_DEPTH :: nat where "CONFIG_MEDIA_FOCUS_STACK_DEPTH = 8"
definition BLOCK_CALLBACK_FLAG :: int where "BLOCK_CALLBACK_FLAG = 0"
definition NONBLOCK_CALLBACK_FLAG :: int where "NONBLOCK_CALLBACK_FLAG = -1"
definition MAX_LEN :: nat where "MAX_LEN = 512"
definition STREAM_TYPE_LEN :: nat where "STREAM_TYPE_LEN = 32"
definition ID_SHIFT :: nat where "ID_SHIFT = 16"
definition MEDIA_FOCUS_FILE_READ_JUMP :: int where "MEDIA_FOCUS_FILE_READ_JUMP = 0"
definition MEDIA_FOCUS_FILE_READ_STREAM_TYPE :: int where "MEDIA_FOCUS_FILE_READ_STREAM_TYPE = 1"
definition MEDIA_FOCUS_FILE_READ_STREAM_NUM :: int where "MEDIA_FOCUS_FILE_READ_STREAM_NUM = 2"

lemmas focus_flag_defs = BLOCK_CALLBACK_FLAG_def NONBLOCK_CALLBACK_FLAG_def
lemmas focus_file_defs = MEDIA_FOCUS_FILE_READ_JUMP_def MEDIA_FOCUS_FILE_READ_STREAM_TYPE_def
  MEDIA_FOCUS_FILE_READ_STREAM_NUM_def

definition ID_TO_HANDLE :: "int \<Rightarrow> int" where
  "ID_TO_HANDLE x = or (push_bit ID_SHIFT x) 15"

definition HANDLE_TO_ID :: "int \<Rightarrow> int" where
  "HANDLE_TO_ID x = drop_bit ID_SHIFT x"

record media_focus_cell =
  pro_inter :: int
  pas_inter :: int

text \<open>
  The stream names are one block of \<open>num\<close> rows of 32 characters; a cell of the matrix block is
  \<open>None\<close> until it is written, since \<open>malloc\<close> leaves it indeterminate.
\<close>

record media_focus =
  num :: nat
  stack :: "app_focus_stack option"
  streams :: "string option"
  matrix :: "media_focus_cell option list option"

section \<open>Reading the configuration\<close>

definition media_focus_reformat :: "string \<Rightarrow> string" where
  "media_focus_reformat str = filter (\<lambda>c. c \<noteq> CHR '' '' \<and> c \<noteq> newline) str"

fun valid_line_loop :: "char \<Rightarrow> string \<Rightarrow> bool" where
  "valid_line_loop pre [] = True"
| "valid_line_loop pre (cur # rest) =
     (if \<not> isalnum cur \<and> cur \<noteq> CHR '','' \<and> cur \<noteq> CHR '':'' then False
      else if cur = CHR '','' \<and> pre = CHR '','' then False
      else if cur = CHR '':'' \<and> pre = CHR '':'' then False
      else if rest = [] \<and> (cur = CHR '','' \<or> cur = CHR '':'') then False
      else valid_line_loop cur rest)"

definition media_focus_valid_line_check :: "string \<Rightarrow> int" where
  "media_focus_valid_line_check line = (if valid_line_loop NUL line then 0 else -EINVAL)"

definition media_focus_str_to_num :: "string \<Rightarrow> int" where
  "media_focus_str_to_num str =
     (if str \<noteq> [] \<and> list_all isdigit str then strtol_digits str else -EINVAL)"

definition media_focus_interate_through_comma :: "string \<Rightarrow> nat option" where
  "media_focus_interate_through_comma sl = strchr_index (CHR '','') sl"

fun type_counts_loop :: "string \<Rightarrow> nat \<Rightarrow> nat" where
  "type_counts_loop [] count = count + 1"
| "type_counts_loop (c # cs) count = type_counts_loop cs (if c = CHR '','' then count + 1 else count)"

definition media_focus_stream_type_counts :: "string option \<Rightarrow> nat" where
  "media_focus_stream_type_counts sl = (case sl of None \<Rightarrow> 0 | Some s \<Rightarrow> type_counts_loop s 0)"

text \<open>
  The results of the constructors: \<open>None\<close> is undefined behaviour, \<open>Some None\<close> the NULL returned.
  \<open>mem\<close> says whether \<open>zalloc\<close> or \<open>malloc\<close> succeeds.
\<close>

fun streams_fill :: "string list \<Rightarrow> nat \<Rightarrow> nat \<Rightarrow> nat \<Rightarrow> string \<Rightarrow> string option option" where
  "streams_fill [] s_count n col mem = Some (if s_count \<noteq> n then None else Some mem)"
| "streams_fill (ptr # ptrs) s_count n col mem =
     (if s_count < n \<and> length ptr < col then do {
        mem' \<leftarrow> mem_put (s_count * col) ptr mem;
        streams_fill ptrs (s_count + 1) n col mem'
      }
      else Some None)"

definition media_focus_streams_init :: "bool \<Rightarrow> media_focus \<Rightarrow> nat \<Rightarrow> string
    \<Rightarrow> (media_focus \<times> string option) option" where
  "media_focus_streams_init mem focus col line =
     (if media_focus_stream_type_counts (Some line) = 0 then Some (focus, None)
      else let focus' = focus\<lparr>num := media_focus_stream_type_counts (Some line)\<rparr> in
        if \<not> mem then Some (focus', None)
        else do {
          r \<leftarrow> streams_fill (strtok_tokens (CHR '','') line) 0 (num focus') col
                 (replicate (num focus' * col) NUL);
          Some (focus', r)
        })"

definition media_focus_divided_by_colon :: "string \<Rightarrow> int \<times> int \<times> int" where
  "media_focus_divided_by_colon ptr_line =
     (case strchr_index (CHR '':'') ptr_line of
        None \<Rightarrow> (-EINVAL, 0, 0)
      | Some i \<Rightarrow>
          let pro = media_focus_str_to_num (take i ptr_line) in
          if pro < 0 then (-EINVAL, pro, 0)
          else let pas = media_focus_str_to_num (drop (i + 1) ptr_line) in
            if pas < 0 then (-EINVAL, pro, pas) else (0, pro, pas))"

fun matrix_fill :: "string list \<Rightarrow> int \<Rightarrow> nat \<Rightarrow> media_focus_cell option list
    \<Rightarrow> (nat \<times> media_focus_cell option list option) option" where
  "matrix_fill [] count index m = Some (index, Some m)"
| "matrix_fill (ptr # ptrs) count index m =
     (if count \<ge> 0 then
        (case media_focus_divided_by_colon ptr of (r, pro_num, pas_num) \<Rightarrow>
           if r < 0 then Some (index, None)
           else if index < length m
           then matrix_fill ptrs (count - 1) (index + 1)
                  (m[index := Some \<lparr>pro_inter = pro_num, pas_inter = pas_num\<rparr>])
           else None)
      else Some (index, if count \<noteq> 0 then None else Some m))"

definition media_focus_matrix_init :: "bool \<Rightarrow> nat \<Rightarrow> string \<Rightarrow> nat \<Rightarrow> media_focus_cell option list option
    \<Rightarrow> (nat \<times> media_focus_cell option list option) option" where
  "media_focus_matrix_init mem len line index m =
     (if len = 0 then Some (index, None)
      else case (case m of None \<Rightarrow> if mem then Some (replicate (len * len) None) else None
                         | Some m' \<Rightarrow> Some m') of
             None \<Rightarrow> Some (index, None)
           | Some m' \<Rightarrow> matrix_fill (strtok_tokens (CHR '','') line) (int len) index m')"

definition media_focus_line_identity :: "string \<Rightarrow> nat \<Rightarrow> int \<times> nat" where
  "media_focus_line_identity line shift_index =
     (if line \<noteq> [] \<and> hd line = CHR ''#'' then (MEDIA_FOCUS_FILE_READ_JUMP, 0)
      else if line \<noteq> [] then
        if media_focus_valid_line_check line < 0 then (-EINVAL, shift_index)
        else case media_focus_interate_through_comma line of
               None \<Rightarrow> (-EINVAL, shift_index)
             | Some comma \<Rightarrow>
                 (if strncmp_eq line ''Stream'' comma then MEDIA_FOCUS_FILE_READ_STREAM_TYPE
                  else MEDIA_FOCUS_FILE_READ_STREAM_NUM, comma + 1)
      else (-EINVAL, shift_index))"

text \<open>The allocations of \<open>media_focus_create\<close>, which may fail independently.\<close>

datatype focus_site = Buf_mem | Focus_mem | Streams_mem | Stack_mem | Node_list_mem | Matrix_mem

fun create_loop :: "(focus_site \<Rightarrow> bool) \<Rightarrow> string list \<Rightarrow> nat \<Rightarrow> nat \<Rightarrow> media_focus
    \<Rightarrow> media_focus option option" where
  "create_loop mem [] index shift_index focus = Some (Some focus)"
| "create_loop mem (buf # bufs) index shift_index focus =
     (let line0 = media_focus_reformat buf;
          (ret, shift) = media_focus_line_identity line0 shift_index;
          line = drop shift line0
      in if ret = MEDIA_FOCUS_FILE_READ_STREAM_TYPE then do {
           (focus1, s) \<leftarrow> media_focus_streams_init (mem Streams_mem) focus STREAM_TYPE_LEN line;
           (case s of
              None \<Rightarrow> Some None
            | Some mem_s \<Rightarrow>
                case app_focus_stack_init (mem Stack_mem) (mem Node_list_mem) CONFIG_MEDIA_FOCUS_STACK_DEPTH of
                  None \<Rightarrow> Some None
                | Some st \<Rightarrow> create_loop mem bufs index shift
                    (focus1\<lparr>streams := Some mem_s, stack := Some st\<rparr>))
         }
         else if ret = MEDIA_FOCUS_FILE_READ_STREAM_NUM then do {
           (index', m) \<leftarrow> media_focus_matrix_init (mem Matrix_mem) (num focus) line index (matrix focus);
           (case m of
              None \<Rightarrow> Some None
            | Some m' \<Rightarrow> create_loop mem bufs index' shift (focus\<lparr>matrix := Some m'\<rparr>))
         }
         else if ret = MEDIA_FOCUS_FILE_READ_JUMP then create_loop mem bufs index shift focus
         else Some None)"

definition media_focus_create :: "(focus_site \<Rightarrow> bool) \<Rightarrow> string option \<Rightarrow> media_focus option option" where
  \<comment> \<open>the file's contents, \<open>None\<close> when it cannot be opened\<close>
  "media_focus_create mem file = (case file of
     None \<Rightarrow> Some None
   | Some content \<Rightarrow>
       if \<not> mem Buf_mem \<or> \<not> mem Focus_mem then Some None
       else create_loop mem (fgets_lines (MAX_LEN - 2) content) 0 0
              \<lparr>num = 0, stack = None, streams = None, matrix = None\<rparr>)"

section \<open>Arbitration\<close>

type_synonym focus_event = "ptr \<times> int"

definition matrix_cell :: "media_focus \<Rightarrow> int \<Rightarrow> media_focus_cell option" where
  \<comment> \<open>\<open>focus->matrix + loc\<close>, read\<close>
  "matrix_cell focus loc = do {
     m \<leftarrow> matrix focus;
     (if 0 \<le> loc \<and> nat loc < length m then m ! nat loc else None)
   }"

definition media_focus_play_arbitrate :: "media_focus option \<Rightarrow> app_focus_id \<Rightarrow> app_focus_id \<Rightarrow> int option" where
  "media_focus_play_arbitrate ctx top_id cur_id = (case ctx of
     None \<Rightarrow> Some MEDIA_FOCUS_STOP
   | Some focus \<Rightarrow>
       if focus_state cur_id = APP_FOCUS_STATE_STACK_TOP then Some MEDIA_FOCUS_PLAY
       else if focus_state cur_id = APP_FOCUS_STATE_STACK_QUIT then Some MEDIA_FOCUS_STOP
       else if focus_state cur_id = APP_FOCUS_STATE_STACK_UNDER then
         let inter_location = focus_level top_id * int (num focus) + focus_level cur_id in
         if inter_location < int (num focus * num focus)
         then map_option pas_inter (matrix_cell focus inter_location)
         else Some MEDIA_FOCUS_STOP
       else Some MEDIA_FOCUS_STOP)"

definition media_focus_stack_callback :: "media_focus option \<Rightarrow> app_focus_id \<Rightarrow> app_focus_id \<Rightarrow> int
    \<Rightarrow> focus_event list option" where
  "media_focus_stack_callback ctx cur_id req_id callback_flag =
     (if callback_flag \<ge> 0 then Some []
      else do {
        r \<leftarrow> media_focus_play_arbitrate ctx cur_id req_id;
        (case focus_callback req_id of
           None \<Rightarrow> None
         | Some _ \<Rightarrow> Some [(callback_argv req_id, r)])
      })"

text \<open>
  The stack calls \<open>media_focus_stack_callback\<close> while it changes; the callback reads the matrix
  only, so the calls can be made after the operation, in their order.
\<close>

fun run_callbacks :: "media_focus option \<Rightarrow> focus_change list \<Rightarrow> focus_event list option" where
  "run_callbacks ctx [] = Some []"
| "run_callbacks ctx ((cur, req, flag) # log) = do {
     e \<leftarrow> media_focus_stack_callback ctx cur req flag;
     es \<leftarrow> run_callbacks ctx log;
     Some (e @ es)
   }"

text \<open>The search for the index: the first entry whose level is not below the new one's.\<close>

lemma get_index_found: "app_focus_stack_get_index s v i = (0, w) \<Longrightarrow> 0 \<le> i \<and> nat i < length (order s)"
  by (auto simp: get_index_spec split: if_splits)

function insert_index :: "app_focus_stack \<Rightarrow> app_focus_id \<Rightarrow> int \<Rightarrow> int" where
  "insert_index s new_focus_id index_value =
     (case app_focus_stack_get_index s new_focus_id index_value of (r, focus_id) \<Rightarrow>
        if r \<noteq> 0 then index_value
        else if focus_level new_focus_id \<le> focus_level focus_id then index_value
        else insert_index s new_focus_id (index_value + 1))"
  by pat_completeness auto

termination
proof (relation "measure (\<lambda>(s, v, i). nat (int (length (order s)) - i))")
  fix s v i r w
  assume "(r, w) = app_focus_stack_get_index s v i" "\<not> r \<noteq> 0"
  then have "app_focus_stack_get_index s v i = (0, w)" by simp
  from get_index_found[OF this]
  show "((s, v, i + 1), s, v, i) \<in> measure (\<lambda>(s, v, i). nat (int (length (order s)) - i))" by auto
qed simp

declare insert_index.simps [simp del]

definition media_focus_focus_id_insert :: "app_focus_stack \<Rightarrow> app_focus_id
    \<Rightarrow> (int \<times> focus_change list \<times> app_focus_stack) option" where
  "media_focus_focus_id_insert x new_focus_id =
     (let index_value = insert_index x new_focus_id 0 in
      if index_value < 0 then Some (-ENODATA, [], x)
      else do {
        (r, log, x') \<leftarrow> app_focus_stack_insert x new_focus_id index_value;
        Some (if r < 0 then -EINVAL else 0, log, x')
      })"

fun stream_search :: "nat \<Rightarrow> nat \<Rightarrow> string \<Rightarrow> string \<Rightarrow> int option" where
  \<comment> \<open>the loop of step 2, \<open>left\<close> rows from row \<open>i\<close> on; \<open>-EINVAL\<close> when no name matches\<close>
  "stream_search 0 i mem stream_type = Some (-EINVAL)"
| "stream_search (Suc left) i mem stream_type = do {
     name \<leftarrow> c_string_at mem (i * STREAM_TYPE_LEN);
     (if name = stream_type then Some (int i) else stream_search left (i + 1) mem stream_type)
   }"

definition media_focus_request_body :: "media_focus option \<Rightarrow> (nat \<Rightarrow> bool) \<Rightarrow> nat \<Rightarrow> media_focus \<Rightarrow> string option
    \<Rightarrow> ptr \<Rightarrow> ptr \<Rightarrow> (int option \<times> int option \<times> focus_event list \<times> media_focus) option" where
  \<comment> \<open>the handle (\<open>None\<close> for NULL), the suggestion if one was stored, the callbacks made;
    \<open>tid\<close> is the server's own thread id, \<open>ctx\<close> what \<open>media_get_focus\<close> returns\<close>
  "media_focus_request_body ctx live tid focus stream_type callback_method callback_arg =
     (case callback_method of None \<Rightarrow> Some (None, None, [], focus) | Some _ \<Rightarrow>
      case stream_type of None \<Rightarrow> Some (None, None, [], focus) | Some name \<Rightarrow> do {
        new_stream_type \<leftarrow> (if num focus = 0 then Some (-EINVAL) else do {
          mem \<leftarrow> streams focus; stream_search (num focus) 0 mem name });
        (if new_stream_type < 0 then Some (None, None, [], focus)
         else do {
           s0 \<leftarrow> stack focus;
           (log1, s1) \<leftarrow> app_focus_stack_useless_clear live s0 NONBLOCK_CALLBACK_FLAG;
           ev1 \<leftarrow> run_callbacks ctx log1;
           let valid_id = app_focus_free_client_id s1;
           (if valid_id < 0 then Some (None, None, ev1, focus\<lparr>stack := Some s1\<rparr>)
            else do {
              let new_id = \<lparr>client_id = valid_id, focus_level = new_stream_type, thread_id = tid,
                focus_state = APP_FOCUS_STATE_STACK_QUIT, focus_callback = callback_method,
                callback_argv = callback_arg\<rparr>;
              (r, tmp_id) \<leftarrow> app_focus_stack_top s1 new_id;
              (ret, return_type, ev2, s2) \<leftarrow>
                (if r = 0 then
                   let inter_location = focus_level new_id * int (num focus) + focus_level tmp_id in
                   if inter_location < int (num focus * num focus) then do {
                     cell \<leftarrow> matrix_cell focus inter_location;
                     let ret = pro_inter cell;
                     (if ret = MEDIA_FOCUS_PLAY then do {
                        (_, log2, s2) \<leftarrow> app_focus_stack_push s1 new_id BLOCK_CALLBACK_FLAG;
                        (_, log3) \<leftarrow> app_focus_stack_top_change_broadcast s2 NONBLOCK_CALLBACK_FLAG;
                        ev2 \<leftarrow> run_callbacks ctx (log2 @ log3);
                        Some (ret, ret, ev2, s2)
                      }
                      else if ret = MEDIA_FOCUS_PLAY_BUT_SILENT \<or> ret = MEDIA_FOCUS_PLAY_WITH_DUCK then do {
                        (e, log2, s2) \<leftarrow> media_focus_focus_id_insert s1 new_id;
                        ev2 \<leftarrow> run_callbacks ctx log2;
                        Some (if e < 0 then -EINVAL else ret, ret, ev2, s2)
                      }
                      else Some (ret, MEDIA_FOCUS_STOP, [], s1))
                   }
                   else Some (-EINVAL, MEDIA_FOCUS_STOP, [], s1)
                 else do {
                   (_, log2, s2) \<leftarrow> app_focus_stack_push s1 new_id BLOCK_CALLBACK_FLAG;
                   ev2 \<leftarrow> run_callbacks ctx log2;
                   Some (MEDIA_FOCUS_PLAY, MEDIA_FOCUS_PLAY, ev2, s2)
                 });
              let out_id = (if return_type = MEDIA_FOCUS_STOP
                            then valid_id + int CONFIG_MEDIA_FOCUS_STACK_DEPTH else valid_id);
              Some (if ret < 0 then None else Some (ID_TO_HANDLE out_id), Some return_type,
                    ev1 @ ev2, focus\<lparr>stack := Some s2\<rparr>)
            })
         })
      })"

definition media_focus_abandon_body :: "media_focus option \<Rightarrow> (nat \<Rightarrow> bool) \<Rightarrow> media_focus \<Rightarrow> int
    \<Rightarrow> (int \<times> focus_event list \<times> media_focus) option" where
  "media_focus_abandon_body ctx live focus handle =
     (if handle < int ID_SHIFT - 1 then Some (-EINVAL, [], focus)
      else do {
        let app_client_id = HANDLE_TO_ID handle;
        s0 \<leftarrow> stack focus;
        (log1, s1) \<leftarrow> app_focus_stack_useless_clear live s0 NONBLOCK_CALLBACK_FLAG;
        (r, tmp_id) \<leftarrow> app_focus_stack_top s1 empty_focus_id;
        (if r < 0 then do {
           ev \<leftarrow> run_callbacks ctx log1;
           Some (-ENOENT, ev, focus\<lparr>stack := Some s1\<rparr>)
         }
         else if client_id tmp_id = app_client_id then do {
           (_, _, log2, s2) \<leftarrow> app_focus_stack_delete s1 tmp_id NONBLOCK_CALLBACK_FLAG;
           (_, log3) \<leftarrow> app_focus_stack_top_change_broadcast s2 NONBLOCK_CALLBACK_FLAG;
           ev \<leftarrow> run_callbacks ctx (log1 @ log2 @ log3);
           Some (0, ev, focus\<lparr>stack := Some s2\<rparr>)
         }
         else do {
           (_, _, log2, s2) \<leftarrow> app_focus_stack_delete s1 (tmp_id\<lparr>client_id := app_client_id\<rparr>) NONBLOCK_CALLBACK_FLAG;
           ev \<leftarrow> run_callbacks ctx (log1 @ log2);
           Some (0, ev, focus\<lparr>stack := Some s2\<rparr>)
         })
      })"

section \<open>The command handler\<close>

text \<open>
  \<open>cookie\<close> is the connection the command came from. What the handler does to it is returned:
  a handle stored (\<open>media_server_set_data\<close>) or the notification channel closed
  (\<open>media_stub_notify_finalize\<close>); \<open>data\<close> is the value \<open>media_server_get_data\<close> finds.
\<close>

datatype focus_effect = Focus_set_data int | Focus_notify_finalize | Focus_suggest ptr int

definition media_focus_notify_cb :: "focus_event \<Rightarrow> focus_effect" where
  "media_focus_notify_cb ev = Focus_suggest (fst ev) (snd ev)"

definition media_focus_debug_stack_return :: "media_focus option \<Rightarrow> int \<Rightarrow> (app_focus_id list \<times> int) option" where
  "media_focus_debug_stack_return ctx n = (case ctx of
     None \<Rightarrow> Some ([], -EINVAL)
   | Some focus \<Rightarrow> map_option (\<lambda>s. app_focus_stack_return s n) (stack focus))"

definition media_focus_handler :: "media_focus option \<Rightarrow> (nat \<Rightarrow> bool) \<Rightarrow> nat \<Rightarrow> ptr \<Rightarrow> media_focus \<Rightarrow> ptr \<Rightarrow> int
    \<Rightarrow> string option \<Rightarrow> string option \<Rightarrow> nat
    \<Rightarrow> (int \<times> string \<times> focus_effect list \<times> media_focus) option" where
  \<comment> \<open>\<open>cb\<close> is the address of \<open>media_focus_notify_cb\<close>; the result is the return value, what was
    written to \<open>res\<close>, the effects and the state; a NULL command is undefined behaviour\<close>
  "media_focus_handler ctx live tid cb focus cookie data name cmd res_len = do {
     c \<leftarrow> cmd;
     (if c = ''ping'' then Some (0, [], [], focus)
      else if c = ''request'' then do {
        (h, sugg, ev, focus') \<leftarrow> media_focus_request_body ctx live tid focus name cb cookie;
        (case h of
           None \<Rightarrow> Some (-EPERM, [], map media_focus_notify_cb ev, focus')
         | Some handle \<Rightarrow> do {
             initial_suggestion \<leftarrow> sugg;
             Some (initial_suggestion, [], map media_focus_notify_cb ev @ [Focus_set_data handle], focus')
           })
      }
      else if c = ''abandon'' then do {
        (r, ev, focus') \<leftarrow> media_focus_abandon_body ctx live focus data;
        Some (r, [], Focus_notify_finalize # map media_focus_notify_cb ev, focus')
      }
      else if c = ''dump'' then Some (0, [], [], focus)
      else if c = ''peek'' then do {
        s \<leftarrow> stack focus;
        (r, top) \<leftarrow> app_focus_stack_top s empty_focus_id;
        (if r < 0 then Some (r, [], [], focus)
         else do {
           mem \<leftarrow> streams focus;
           str \<leftarrow> (if focus_level top < 0 then None
                   else c_string_at mem (nat (focus_level top) * STREAM_TYPE_LEN));
           Some (int (length str), take (res_len - 1) str, [], focus)
         })
      }
      else Some (-ENOSYS, [], [], focus))
   }"

section \<open>Well-formed focus states\<close>

definition matrix_ok :: "media_focus \<Rightarrow> bool" where
  "matrix_ok f \<longleftrightarrow> (\<exists>m. matrix f = Some m \<and> length m = num f * num f \<and> (\<forall>c\<in>set m. c \<noteq> None \<and> 0 \<le> pro_inter (the c)))"

definition streams_ok :: "media_focus \<Rightarrow> bool" where
  "streams_ok f \<longleftrightarrow> (\<exists>mem. streams f = Some mem \<and> (\<forall>i<num f. c_string_at mem (i * STREAM_TYPE_LEN) \<noteq> None))"

definition id_ok :: "media_focus \<Rightarrow> app_focus_id \<Rightarrow> bool" where
  "id_ok f e \<longleftrightarrow> 0 \<le> focus_level e \<and> focus_level e < int (num f) \<and> focus_callback e \<noteq> None"

definition focus_entries :: "media_focus \<Rightarrow> app_focus_id list" where
  "focus_entries f = (case stack f of None \<Rightarrow> [] | Some s \<Rightarrow> entries s)"

definition focus_wf :: "media_focus \<Rightarrow> bool" where
  "focus_wf f \<longleftrightarrow> matrix_ok f \<and> streams_ok f
     \<and> (\<exists>s. stack f = Some s \<and> stack_wf s \<and> max_size s = int CONFIG_MEDIA_FOCUS_STACK_DEPTH)
     \<and> (\<forall>e\<in>set (focus_entries f). id_ok f e)"

definition cell :: "media_focus \<Rightarrow> int \<Rightarrow> int \<Rightarrow> media_focus_cell" where
  \<comment> \<open>row and column of the interaction matrix\<close>
  "cell f i j = the (the (matrix f) ! nat (i * int (num f) + j))"

definition stream_names :: "media_focus \<Rightarrow> string list" where
  "stream_names f = map (\<lambda>i. the (c_string_at (the (streams f)) (i * STREAM_TYPE_LEN))) [0..<num f]"

lemma focus_wf_stack:
  assumes "focus_wf f"
  obtains s where "stack f = Some s" "stack_wf s" "nat (max_size s) = CONFIG_MEDIA_FOCUS_STACK_DEPTH"
    "focus_entries f = entries s"
  using assms by (auto simp: focus_wf_def focus_entries_def)

lemma update_stack [simp]:
  "num (f\<lparr>stack := s\<rparr>) = num f" "matrix (f\<lparr>stack := s\<rparr>) = matrix f" "streams (f\<lparr>stack := s\<rparr>) = streams f"
  "matrix_ok (f\<lparr>stack := s\<rparr>) = matrix_ok f" "streams_ok (f\<lparr>stack := s\<rparr>) = streams_ok f"
  "id_ok (f\<lparr>stack := s\<rparr>) = id_ok f" "focus_entries (f\<lparr>stack := Some t\<rparr>) = entries t"
  by (auto simp: matrix_ok_def streams_ok_def id_ok_def focus_entries_def fun_eq_iff)

lemma id_ok_with_state [simp]: "id_ok f (with_state st e) = id_ok f e"
  by (simp add: id_ok_def)

lemma update_stack_wf:
  "focus_wf f \<Longrightarrow> stack_wf s \<Longrightarrow> nat (max_size s) = CONFIG_MEDIA_FOCUS_STACK_DEPTH \<Longrightarrow>
   \<forall>e\<in>set (entries s). id_ok f e \<Longrightarrow> focus_wf (f\<lparr>stack := Some s\<rparr>)"
  by (auto simp: focus_wf_def CONFIG_MEDIA_FOCUS_STACK_DEPTH_def)

lemma cell_index_bound:
  assumes "0 \<le> i" "i < int n" "0 \<le> j" "j < int n"
  shows "0 \<le> i * int n + j" "i * int n + j < int (n * n)"
proof -
  have "i * int n + j < (i + 1) * int n" using assms(4) by (simp add: distrib_right)
  also have "\<dots> \<le> int n * int n" using assms by (intro mult_right_mono) auto
  finally show "i * int n + j < int (n * n)" by simp
qed (use assms in simp)

lemma matrix_cell_ok:
  assumes "matrix_ok f" "0 \<le> i" "i < int (num f)" "0 \<le> j" "j < int (num f)"
  shows "matrix_cell f (i * int (num f) + j) = Some (cell f i j)"
    and "0 \<le> pro_inter (cell f i j)"
proof -
  obtain m where m: "matrix f = Some m" "length m = num f * num f"
    "\<forall>c\<in>set m. c \<noteq> None \<and> 0 \<le> pro_inter (the c)"
    using assms(1) by (auto simp: matrix_ok_def)
  note b = cell_index_bound[OF assms(2-5)]
  then have k: "nat (i * int (num f) + j) < length m" using m(2) by (simp add: nat_less_iff)
  then have c: "m ! nat (i * int (num f) + j) \<noteq> None" "0 \<le> pro_inter (the (m ! nat (i * int (num f) + j)))"
    using m(3) nth_mem by blast+
  then show "matrix_cell f (i * int (num f) + j) = Some (cell f i j)"
    using k b(1) m(1) by (auto simp: matrix_cell_def cell_def)
  show "0 \<le> pro_inter (cell f i j)" using c m(1) by (simp add: cell_def)
qed

subsection \<open>Callbacks\<close>

definition suggestion :: "media_focus \<Rightarrow> app_focus_id \<Rightarrow> app_focus_id \<Rightarrow> int" where
  "suggestion f owner e = (if focus_state e = APP_FOCUS_STATE_STACK_TOP then MEDIA_FOCUS_PLAY
     else pas_inter (cell f (focus_level owner) (focus_level e)))"

lemma arbitrate_ok:
  assumes "matrix_ok f" "id_ok f top_id" "id_ok f e"
    "focus_state e = APP_FOCUS_STATE_STACK_TOP \<or> focus_state e = APP_FOCUS_STATE_STACK_UNDER"
  shows "media_focus_play_arbitrate (Some f) top_id e = Some (suggestion f top_id e)"
proof (cases "focus_state e = APP_FOCUS_STATE_STACK_TOP")
  case True
  then show ?thesis by (simp add: media_focus_play_arbitrate_def suggestion_def)
next
  case False
  then have u: "focus_state e = APP_FOCUS_STATE_STACK_UNDER" using assms(4) by simp
  from matrix_cell_ok(1)[OF assms(1), of "focus_level top_id" "focus_level e"]
    cell_index_bound(2)[of "focus_level top_id" "num f" "focus_level e"] assms(2,3) u
  show ?thesis
    by (simp add: media_focus_play_arbitrate_def suggestion_def id_ok_def Let_def focus_state_defs)
qed

definition callback_events :: "media_focus \<Rightarrow> focus_change list \<Rightarrow> focus_event list" where
  "callback_events f log = map (\<lambda>(cur, req, flag). (callback_argv req, suggestion f cur req))
     (filter (\<lambda>(cur, req, flag). flag < 0) log)"

definition log_ok :: "media_focus \<Rightarrow> focus_change list \<Rightarrow> bool" where
  "log_ok f log \<longleftrightarrow> (\<forall>(cur, req, flag)\<in>set log. id_ok f cur \<and> id_ok f req
     \<and> (focus_state req = APP_FOCUS_STATE_STACK_TOP \<or> focus_state req = APP_FOCUS_STATE_STACK_UNDER))"

lemma run_callbacks_ok:
  "matrix_ok f \<Longrightarrow> log_ok f log \<Longrightarrow> run_callbacks (Some f) log = Some (callback_events f log)"
proof (induction log)
  case (Cons x log)
  obtain cur req flag where x: "x = (cur, req, flag)" by (cases x)
  have "log_ok f log" using Cons.prems(2) by (simp add: log_ok_def)
  with Cons show ?case
    using arbitrate_ok[of f cur req]
    by (auto simp: x log_ok_def media_focus_stack_callback_def callback_events_def id_ok_def)
qed (simp add: callback_events_def)

lemma log_ok_append [simp]: "log_ok f (l @ l') \<longleftrightarrow> log_ok f l \<and> log_ok f l'"
  unfolding log_ok_def set_append by (rule ball_Un)

lemma log_ok_Nil [simp]: "log_ok f []"
  by (simp add: log_ok_def)

lemma callback_events_append [simp]:
  "callback_events f (l @ l') = callback_events f l @ callback_events f l'"
  by (simp add: callback_events_def)

lemma log_ok_clear:
  assumes "\<forall>e\<in>set es. id_ok f e"
  shows "log_ok f (clear_log live flag es)"
proof -
  let ?d = "takeWhile (\<lambda>e. \<not> live (thread_id e)) es"
  let ?r = "dropWhile (\<lambda>e. \<not> live (thread_id e)) es"
  have "?d \<noteq> [] \<Longrightarrow> id_ok f (last ?d)" using assms last_in_set[of ?d] by (meson set_takeWhileD)
  moreover have "?r \<noteq> [] \<Longrightarrow> id_ok f (hd ?r)" using assms hd_in_set[of ?r] by (meson set_dropWhileD)
  ultimately show ?thesis by (simp add: clear_log_def Let_def log_ok_def)
qed

lemma id_ok_promote: "\<forall>e\<in>set es. id_ok f e \<Longrightarrow> \<forall>e\<in>set (spec_promote es). id_ok f e"
  by (cases es) (auto simp: spec_promote_def)

lemma id_ok_clear: "\<forall>e\<in>set es. id_ok f e \<Longrightarrow> \<forall>e\<in>set (spec_clear live es). id_ok f e"
  unfolding spec_clear_def by (rule id_ok_promote) auto

lemma id_ok_delete: "\<forall>e\<in>set es. id_ok f e \<Longrightarrow> \<forall>e\<in>set (spec_delete c es). id_ok f e"
  unfolding spec_delete_def by (rule id_ok_promote) auto

lemma id_ok_push: "\<forall>e\<in>set es. id_ok f e \<Longrightarrow> id_ok f v \<Longrightarrow> \<forall>e\<in>set (spec_push v es). id_ok f e"
  by (cases es) (auto simp: spec_push_def spec_demote_def)

lemma id_ok_insert: "\<forall>e\<in>set es. id_ok f e \<Longrightarrow> id_ok f v \<Longrightarrow> \<forall>e\<in>set (spec_insert v k es). id_ok f e"
  by (auto simp: spec_insert_def dest: in_set_takeD in_set_dropD)

definition broadcast_events :: "media_focus \<Rightarrow> app_focus_id list \<Rightarrow> focus_event list" where
  "broadcast_events f es = (case es of [] \<Rightarrow> []
     | h # t \<Rightarrow> map (\<lambda>e. (callback_argv e, pas_inter (cell f (focus_level h) (focus_level e)))) t)"

lemma broadcast_ok:
  assumes wf: "stack_wf s" and f: "matrix_ok f" "\<forall>e\<in>set (entries s). id_ok f e"
  shows "\<exists>r log. app_focus_stack_top_change_broadcast s NONBLOCK_CALLBACK_FLAG = Some (r, log)
    \<and> log_ok f log \<and> callback_events f log = broadcast_events f (entries s)"
proof (cases "entries s")
  case Nil
  then show ?thesis using broadcast_spec[OF wf] by (simp add: callback_events_def broadcast_events_def)
next
  case (Cons h t)
  have u: "\<forall>e\<in>set t. focus_state e = APP_FOCUS_STATE_STACK_UNDER"
    using fs.under_state[OF wf Cons] by blast
  let ?log = "map (\<lambda>e. (h, e, NONBLOCK_CALLBACK_FLAG)) t"
  have "\<exists>r. app_focus_stack_top_change_broadcast s NONBLOCK_CALLBACK_FLAG = Some (r, ?log)"
    using broadcast_spec[OF wf] Cons by (cases t) auto
  moreover have "log_ok f ?log" using u f(2) Cons by (auto simp: log_ok_def)
  moreover have "callback_events f ?log = broadcast_events f (entries s)"
    using u Cons
    by (auto simp: callback_events_def broadcast_events_def suggestion_def focus_flag_defs focus_state_defs)
  ultimately show ?thesis by blast
qed

subsection \<open>Searching the stream names and the insertion index\<close>

lemma stream_search_names:
  assumes "\<forall>j<n. c_string_at mem ((i + j) * STREAM_TYPE_LEN) \<noteq> None"
  shows "stream_search n i mem name =
    Some (let names = map (\<lambda>j. the (c_string_at mem ((i + j) * STREAM_TYPE_LEN))) [0..<n]
          in if name \<in> set names then int (i + length (takeWhile (\<lambda>x. x \<noteq> name) names)) else -EINVAL)"
  using assms
proof (induction n arbitrary: i)
  case (Suc n)
  obtain s where s: "c_string_at mem (i * STREAM_TYPE_LEN) = Some s" using Suc.prems by fastforce
  have sh: "map (\<lambda>j. the (c_string_at mem ((i + j) * STREAM_TYPE_LEN))) [0..<Suc n]
      = s # map (\<lambda>j. the (c_string_at mem ((Suc i + j) * STREAM_TYPE_LEN))) [0..<n]"
    using s by (simp add: upt_conv_Cons map_Suc_upt[symmetric] o_def del: upt_Suc)
  have "\<forall>j<n. c_string_at mem ((Suc i + j) * STREAM_TYPE_LEN) \<noteq> None"
    using Suc.prems by (metis Suc_less_eq add_Suc_shift)
  from Suc.IH[OF this] show ?case
    unfolding sh using s by (auto simp: Let_def)
qed simp

definition stream_level :: "media_focus \<Rightarrow> string \<Rightarrow> int option" where
  "stream_level f name = (if name \<in> set (stream_names f)
     then Some (int (length (takeWhile (\<lambda>x. x \<noteq> name) (stream_names f)))) else None)"

lemma stream_level_bounds: "stream_level f name = Some i \<Longrightarrow> 0 \<le> i \<and> i < int (num f)"
proof -
  assume "stream_level f name = Some i"
  then have "name \<in> set (stream_names f)" "i = int (length (takeWhile (\<lambda>x. x \<noteq> name) (stream_names f)))"
    by (auto simp: stream_level_def split: if_splits)
  moreover have "length (takeWhile (\<lambda>x. x \<noteq> name) (stream_names f)) < length (stream_names f)"
    using calculation(1) nth_length_takeWhile[of "\<lambda>x. x \<noteq> name" "stream_names f"]
    by (metis (mono_tags, lifting) length_takeWhile_le order_le_imp_less_or_eq takeWhile_eq_all_conv
        takeWhile_eq_take take_all_iff order_refl)
  ultimately show ?thesis by (simp add: stream_names_def)
qed

lemma stream_search_ok:
  assumes "streams_ok f"
  shows "(if num f = 0 then Some (-EINVAL) else do { mem \<leftarrow> streams f; stream_search (num f) 0 mem name })
    = Some (case stream_level f name of None \<Rightarrow> -EINVAL | Some i \<Rightarrow> i)"
proof -
  obtain mem where mem: "streams f = Some mem" "\<forall>i<num f. c_string_at mem (i * STREAM_TYPE_LEN) \<noteq> None"
    using assms by (auto simp: streams_ok_def)
  then show ?thesis
    using stream_search_names[of "num f" mem 0 name]
    by (auto simp: stream_level_def stream_names_def Let_def)
qed

lemma insert_index_spec:
  assumes "0 \<le> i" "nat i \<le> length (entries s)"
  shows "insert_index s v i = i + int (length (takeWhile (\<lambda>e. focus_level e < focus_level v) (drop (nat i) (entries s))))"
  using assms
proof (induction "length (entries s) - nat i" arbitrary: i)
  case 0
  then show ?case by (subst insert_index.simps) (simp add: get_index_spec)
next
  case (Suc n)
  then have i: "nat i < length (entries s)" by simp
  have d: "drop (nat i) (entries s) = entries s ! nat i # drop (nat (i + 1)) (entries s)"
    using Cons_nth_drop_Suc[OF i] Suc.prems by (simp add: nat_add_distrib)
  show ?case
  proof (cases "focus_level v \<le> focus_level (entries s ! nat i)")
    case True
    then show ?thesis using i d Suc.prems by (subst insert_index.simps) (simp add: get_index_spec)
  next
    case False
    have "insert_index s v (i + 1) = i + 1 + int (length (takeWhile (\<lambda>e. focus_level e < focus_level v)
        (drop (nat (i + 1)) (entries s))))"
      using Suc i by (intro Suc.hyps(1)) (auto simp: nat_add_distrib)
    then show ?thesis using False i d Suc.prems by (subst insert_index.simps) (simp add: get_index_spec)
  qed
qed

definition insert_place :: "app_focus_id list \<Rightarrow> int \<Rightarrow> nat" where
  "insert_place es level = length (takeWhile (\<lambda>e. focus_level e < level) es)"

lemma focus_id_insert_spec:
  assumes wf: "stack_wf s" and fit: "length (entries s) < nat (max_size s)" and ne: "entries s \<noteq> []"
    and v: "client_id v = app_focus_free_client_id s"
  defines "k \<equiv> insert_place (entries s) (focus_level v)"
  shows "if k = 0 then media_focus_focus_id_insert s v = Some (-EINVAL, [], s)
    else \<exists>s'. media_focus_focus_id_insert s v = Some (0, [], s') \<and> stack_wf s'
      \<and> entries s' = spec_insert v k (entries s) \<and> nat (max_size s') = nat (max_size s)"
proof -
  have idx: "insert_index s v 0 = int k" using insert_index_spec[of 0 s v] by (simp add: k_def insert_place_def)
  have "k \<le> length (entries s)" 
    using length_takeWhile_le[of _ "entries s"] by (simp add: k_def insert_place_def del: length_entries)
  then show ?thesis
    using fs.insert_law[OF wf fit v, of k] fs.insert_zero[OF wf fit v ne] idx
    by (auto simp: media_focus_focus_id_insert_def Let_def)
qed

subsection \<open>Requests\<close>

text \<open>
  What a request does to the list of entries, once the entries of dead threads are gone: the
  matrix decides by the new stream's row and the owner's column.
\<close>

definition request_outcome :: "media_focus \<Rightarrow> app_focus_id \<Rightarrow> app_focus_id list
    \<Rightarrow> int \<times> int \<times> focus_event list \<times> app_focus_id list" where
  "request_outcome f new es = (case es of
     [] \<Rightarrow> (MEDIA_FOCUS_PLAY, MEDIA_FOCUS_PLAY, [], spec_push new es)
   | h # t \<Rightarrow>
       let ret = pro_inter (cell f (focus_level new) (focus_level h)) in
       if ret = MEDIA_FOCUS_PLAY
       then (ret, ret, broadcast_events f (spec_push new es), spec_push new es)
       else if ret = MEDIA_FOCUS_PLAY_BUT_SILENT \<or> ret = MEDIA_FOCUS_PLAY_WITH_DUCK
       then (if insert_place es (focus_level new) = 0 then (-EINVAL, ret, [], es)
             else (ret, ret, [], spec_insert new (insert_place es (focus_level new)) es))
       else (ret, MEDIA_FOCUS_STOP, [], es))"

definition request_id :: "int \<Rightarrow> int \<Rightarrow> nat \<Rightarrow> ptr \<Rightarrow> ptr \<Rightarrow> app_focus_id" where
  "request_id fid level tid cb arg = \<lparr>client_id = fid, focus_level = level, thread_id = tid,
     focus_state = APP_FOCUS_STATE_STACK_QUIT, focus_callback = cb, callback_argv = arg\<rparr>"

lemma request_id_fields [simp]:
  "client_id (request_id fid level tid cb arg) = fid" "focus_level (request_id fid level tid cb arg) = level"
  "thread_id (request_id fid level tid cb arg) = tid"
  "focus_callback (request_id fid level tid cb arg) = cb"
  "callback_argv (request_id fid level tid cb arg) = arg"
  by (simp_all add: request_id_def)

definition clear_events :: "media_focus \<Rightarrow> (nat \<Rightarrow> bool) \<Rightarrow> focus_event list" where
  "clear_events f live = callback_events f (clear_log live NONBLOCK_CALLBACK_FLAG (focus_entries f))"

definition live_entries :: "media_focus \<Rightarrow> (nat \<Rightarrow> bool) \<Rightarrow> app_focus_id list" where
  "live_entries f live = spec_clear live (focus_entries f)"

lemma cleared_stack:
  assumes wf: "focus_wf f"
  obtains s0 s1 where "stack f = Some s0" "app_focus_stack_useless_clear live s0 NONBLOCK_CALLBACK_FLAG
      = Some (clear_log live NONBLOCK_CALLBACK_FLAG (focus_entries f), s1)"
    "run_callbacks (Some f) (clear_log live NONBLOCK_CALLBACK_FLAG (focus_entries f)) = Some (clear_events f live)"
    "stack_wf s1" "nat (max_size s1) = CONFIG_MEDIA_FOCUS_STACK_DEPTH" "entries s1 = live_entries f live"
    "\<forall>e\<in>set (entries s1). id_ok f e" "log_ok f (clear_log live NONBLOCK_CALLBACK_FLAG (focus_entries f))"
proof -
  obtain s0 where s0: "stack f = Some s0" "stack_wf s0" "nat (max_size s0) = CONFIG_MEDIA_FOCUS_STACK_DEPTH"
    "focus_entries f = entries s0" using wf by (rule focus_wf_stack)
  have ok: "matrix_ok f" "\<forall>e\<in>set (focus_entries f). id_ok f e" using wf by (auto simp: focus_wf_def)
  obtain s1 where s1: "app_focus_stack_useless_clear live s0 NONBLOCK_CALLBACK_FLAG
      = Some (clear_log live NONBLOCK_CALLBACK_FLAG (entries s0), s1)" "stack_wf s1"
      "entries s1 = spec_clear live (entries s0)" "nat (max_size s1) = nat (max_size s0)"
    using fs.clear_law[OF s0(2), of live NONBLOCK_CALLBACK_FLAG] by blast
  show thesis
    by (rule that[of s0 s1])
      (use s0 s1 ok run_callbacks_ok[OF ok(1) log_ok_clear[OF ok(2)]] id_ok_clear[OF ok(2)]
        log_ok_clear[OF ok(2)] in \<open>simp_all add: clear_events_def live_entries_def\<close>)
qed

lemma push_callbacks_blocked:
  "run_callbacks ctx (push_log v BLOCK_CALLBACK_FLAG es @ log) = run_callbacks ctx log"
  by (cases es) (simp_all add: push_log_def media_focus_stack_callback_def focus_flag_defs Option.bind_assoc)

lemma request_unknown:
  assumes "focus_wf f" "stream_level f name = None"
  shows "media_focus_request_body ctx live tid f (Some name) (Some c) arg = Some (None, None, [], f)"
  using stream_search_ok[of f name] assms
  by (simp add: media_focus_request_body_def focus_wf_def)

lemma request_full:
  assumes wf: "focus_wf f" and lv: "stream_level f name = Some i"
    and full: "length (live_entries f live) = CONFIG_MEDIA_FOCUS_STACK_DEPTH"
  shows "\<exists>f'. media_focus_request_body (Some f) live tid f (Some name) (Some c) arg
      = Some (None, None, clear_events f live, f') \<and> focus_wf f' \<and> focus_entries f' = live_entries f live"
proof -
  obtain s0 s1 where s: "stack f = Some s0" "app_focus_stack_useless_clear live s0 NONBLOCK_CALLBACK_FLAG
      = Some (clear_log live NONBLOCK_CALLBACK_FLAG (focus_entries f), s1)"
    "run_callbacks (Some f) (clear_log live NONBLOCK_CALLBACK_FLAG (focus_entries f)) = Some (clear_events f live)"
    "stack_wf s1" "nat (max_size s1) = CONFIG_MEDIA_FOCUS_STACK_DEPTH" "entries s1 = live_entries f live"
    "\<forall>e\<in>set (entries s1). id_ok f e"
    using cleared_stack[OF wf] by blast
  have "streams_ok f" using wf by (simp add: focus_wf_def)
  note search = stream_search_ok[OF this, of name]
  have "app_focus_free_client_id s1 < 0"
    using fs.free_full[OF s(4)] full s(5,6) by simp
  then show ?thesis
    using s search lv stream_level_bounds[OF lv] update_stack_wf[OF wf s(4,5,7)]
    by (intro exI[of _ "f\<lparr>stack := Some s1\<rparr>"]) (simp add: media_focus_request_body_def)
qed

lemma request_ok:
  assumes wf: "focus_wf f" and lv: "stream_level f name = Some i"
    and room: "length (live_entries f live) < CONFIG_MEDIA_FOCUS_STACK_DEPTH"
  shows "\<exists>fid f' ret rt ev. 0 \<le> fid \<and> fid < int CONFIG_MEDIA_FOCUS_STACK_DEPTH
    \<and> fid \<notin> client_id ` set (live_entries f live)
    \<and> request_outcome f (request_id fid i tid (Some c) arg) (live_entries f live) = (ret, rt, ev, focus_entries f')
    \<and> media_focus_request_body (Some f) live tid f (Some name) (Some c) arg
        = Some (if ret < 0 then None else Some (ID_TO_HANDLE (if rt = MEDIA_FOCUS_STOP
              then fid + int CONFIG_MEDIA_FOCUS_STACK_DEPTH else fid)), Some rt, clear_events f live @ ev, f')
    \<and> focus_wf f' \<and> f' = f\<lparr>stack := stack f'\<rparr>"
proof -
  obtain s0 s1 where s: "stack f = Some s0" "app_focus_stack_useless_clear live s0 NONBLOCK_CALLBACK_FLAG
      = Some (clear_log live NONBLOCK_CALLBACK_FLAG (focus_entries f), s1)"
    "run_callbacks (Some f) (clear_log live NONBLOCK_CALLBACK_FLAG (focus_entries f)) = Some (clear_events f live)"
    "stack_wf s1" "nat (max_size s1) = CONFIG_MEDIA_FOCUS_STACK_DEPTH" "entries s1 = live_entries f live"
    "\<forall>e\<in>set (entries s1). id_ok f e"
    using cleared_stack[OF wf] by blast
  have mo: "matrix_ok f" and so: "streams_ok f" using wf by (auto simp: focus_wf_def)
  note search = stream_search_ok[OF so, of name] and ib = stream_level_bounds[OF lv]
  define fid where "fid = app_focus_free_client_id s1"
  have fit: "length (entries s1) < nat (max_size s1)" using room s(5,6) by simp
  have fid: "0 \<le> fid" "fid < int CONFIG_MEDIA_FOCUS_STACK_DEPTH" "fid \<notin> client_id ` set (live_entries f live)"
    using fs.free_ok[OF s(4) fit] s(5,6) by (simp_all add: fid_def)
  define new where "new = request_id fid i tid (Some c) arg"
  have newid: "client_id new = app_focus_free_client_id s1" by (simp add: new_def fid_def)
  have newok: "id_ok f new" using ib by (simp add: id_ok_def new_def)
  note start = media_focus_request_body_def search lv s(1,2,3)
  let ?goal = "\<lambda>ret rt ev s2. media_focus_request_body (Some f) live tid f (Some name) (Some c) arg
        = Some (if ret < 0 then None else Some (ID_TO_HANDLE (if rt = MEDIA_FOCUS_STOP
              then fid + int CONFIG_MEDIA_FOCUS_STACK_DEPTH else fid)), Some rt, clear_events f live @ ev,
              f\<lparr>stack := Some s2\<rparr>)"
  have fin: ?thesis if "request_outcome f new (live_entries f live) = (ret, rt, ev, entries s2)"
    "?goal ret rt ev s2" "stack_wf s2" "nat (max_size s2) = CONFIG_MEDIA_FOCUS_STACK_DEPTH"
    "\<forall>e\<in>set (entries s2). id_ok f e" for ret rt ev s2
    using that fid update_stack_wf[OF wf that(3-5)] unfolding new_def
    by (intro exI[of _ fid] exI[of _ "f\<lparr>stack := Some s2\<rparr>"] exI[of _ ret] exI[of _ rt] exI[of _ ev]) simp
  obtain s2 where push: "app_focus_stack_push s1 new BLOCK_CALLBACK_FLAG
      = Some (0, push_log new BLOCK_CALLBACK_FLAG (entries s1), s2)" "stack_wf s2"
      "entries s2 = spec_push new (entries s1)" "nat (max_size s2) = nat (max_size s1)"
    using fs.push_law[OF s(4) fit newid, of BLOCK_CALLBACK_FLAG] by blast
  have pushok: "\<forall>e\<in>set (entries s2). id_ok f e" using id_ok_push[OF s(7) newok] push(3) by simp
  have nid: "\<lparr>client_id = app_focus_free_client_id s1, focus_level = i, thread_id = tid,
      focus_state = APP_FOCUS_STATE_STACK_QUIT, focus_callback = Some c, callback_argv = arg\<rparr> = new"
    by (simp add: new_def request_id_def fid_def)
  have fnn: "\<not> app_focus_free_client_id s1 < 0" "\<not> i < 0" using fid(1) ib by (simp_all add: fid_def)
  have lvl: "focus_level new = i" by (simp add: new_def)
  show ?thesis
  proof (cases "entries s1")
    case Nil
    have out: "request_outcome f new (live_entries f live) = (MEDIA_FOCUS_PLAY, MEDIA_FOCUS_PLAY, [], entries s2)"
      using Nil s(6) push(3) by (simp add: request_outcome_def)
    have "?goal MEDIA_FOCUS_PLAY MEDIA_FOCUS_PLAY [] s2"
      using fnn Nil top_spec[OF s(4), of new] push(1) push_callbacks_blocked[of "Some f" new "[]" "[]"]
      by (simp add: start nid push_log_def fid_def suggestion_defs)
    from fin[OF out this push(2) _ pushok] push(4) s(5) show ?thesis by simp
  next
    case (Cons h t)
    define ret where "ret = pro_inter (cell f i (focus_level h))"
    have hok: "id_ok f h" using s(7) Cons by simp
    then have hb: "0 \<le> focus_level h" "focus_level h < int (num f)" by (auto simp: id_ok_def)
    have mc: "matrix_cell f (i * int (num f) + focus_level h) = Some (cell f i (focus_level h))"
      and r0: "0 \<le> ret"
      using matrix_cell_ok[OF mo _ _ hb, of i] ib by (auto simp: ret_def)
    have ilt: "i * int (num f) + focus_level h < int (num f * num f)"
      using cell_index_bound(2)[of i "num f" "focus_level h"] ib hb by simp
    have topc: "app_focus_stack_top s1 new = Some (0, h)" using top_spec[OF s(4)] Cons by simp
    have es: "live_entries f live = h # t" using s(6) Cons by simp
    consider (play) "ret = MEDIA_FOCUS_PLAY"
      | (under) "ret = MEDIA_FOCUS_PLAY_BUT_SILENT \<or> ret = MEDIA_FOCUS_PLAY_WITH_DUCK" "ret \<noteq> MEDIA_FOCUS_PLAY"
      | (stop) "ret \<noteq> MEDIA_FOCUS_PLAY" "ret \<noteq> MEDIA_FOCUS_PLAY_BUT_SILENT" "ret \<noteq> MEDIA_FOCUS_PLAY_WITH_DUCK"
      by blast
    then show ?thesis
    proof cases
      case play
      obtain r log where bc: "app_focus_stack_top_change_broadcast s2 NONBLOCK_CALLBACK_FLAG = Some (r, log)"
        "log_ok f log" "callback_events f log = broadcast_events f (entries s2)"
        using broadcast_ok[OF push(2) mo pushok] by blast
      have out: "request_outcome f new (live_entries f live) = (ret, ret, broadcast_events f (entries s2), entries s2)"
        using play push(3) s(6) by (simp add: request_outcome_def es Cons ret_def Let_def lvl)
      have "?goal ret ret (broadcast_events f (entries s2)) s2"
        using fnn topc mc ilt play push(1) bc run_callbacks_ok[OF mo bc(2)] r0
        by (simp add: start nid lvl fid_def ret_def[symmetric] push_callbacks_blocked Let_def)
      from fin[OF out this push(2) _ pushok] push(4) s(5) show ?thesis by simp
    next
      case under
      define k where "k = insert_place (entries s1) i"
      note ins = focus_id_insert_spec[OF s(4) fit _ newid, unfolded lvl, folded k_def]
      show ?thesis
      proof (cases "k = 0")
        case True
        have out: "request_outcome f new (live_entries f live) = (-EINVAL, ret, [], entries s1)"
          using under True s(6) k_def by (simp add: request_outcome_def es Cons ret_def Let_def lvl)
        have "?goal (-EINVAL) ret [] s1"
          using fnn topc mc ilt under True ins Cons r0
          by (simp add: start nid lvl fid_def ret_def[symmetric] Let_def)
        from fin[OF out this s(4,5,7)] show ?thesis .
      next
        case False
        then obtain s3 where s3: "media_focus_focus_id_insert s1 new = Some (0, [], s3)" "stack_wf s3"
          "entries s3 = spec_insert new k (entries s1)" "nat (max_size s3) = nat (max_size s1)"
          using ins Cons by auto
        have out: "request_outcome f new (live_entries f live) = (ret, ret, [], entries s3)"
          using under False s(6) k_def s3(3) by (simp add: request_outcome_def es Cons ret_def Let_def lvl)
        have "?goal ret ret [] s3"
          using fnn topc mc ilt under s3(1) r0
          by (simp add: start nid lvl fid_def ret_def[symmetric] Let_def)
        moreover have "\<forall>e\<in>set (entries s3). id_ok f e"
          using id_ok_insert[OF s(7) newok] s3(3) by simp
        ultimately show ?thesis using fin[OF out _ s3(2)] s3(4) s(5) by simp
      qed
    next
      case stop
      have out: "request_outcome f new (live_entries f live) = (ret, MEDIA_FOCUS_STOP, [], entries s1)"
        using stop s(6) by (simp add: request_outcome_def es Cons ret_def Let_def lvl)
      have "?goal ret MEDIA_FOCUS_STOP [] s1"
        using fnn topc mc ilt stop r0
        by (simp add: start nid lvl fid_def ret_def[symmetric] Let_def)
      from fin[OF out this s(4,5,7)] show ?thesis .
    qed
  qed
qed

subsection \<open>Releases\<close>

lemma handle_decode: "HANDLE_TO_ID (ID_TO_HANDLE x) = x"
  by (simp add: HANDLE_TO_ID_def ID_TO_HANDLE_def ID_SHIFT_def drop_bit_or)
    (simp add: drop_bit_eq_div push_bit_eq_mult)

lemma handle_bound: "0 \<le> x \<Longrightarrow> int ID_SHIFT - 1 \<le> ID_TO_HANDLE x"
  using or_greater_eq[of "push_bit 16 x" 15]
  by (simp add: ID_TO_HANDLE_def ID_SHIFT_def or.commute push_bit_nonnegative_int_iff)

definition abandon_events :: "media_focus \<Rightarrow> int \<Rightarrow> app_focus_id list \<Rightarrow> focus_event list" where
  "abandon_events f c es = (case es of [] \<Rightarrow> []
     | h # t \<Rightarrow> if client_id h = c
         then (case t of [] \<Rightarrow> [] | u # _ \<Rightarrow> [(callback_argv u, MEDIA_FOCUS_PLAY)])
              @ broadcast_events f (spec_delete c es)
         else [])"

lemma log_ok_delete:
  assumes "\<forall>e\<in>set es. id_ok f e"
  shows "log_ok f (delete_log c flag es)"
  using assms by (auto simp: delete_log_def log_ok_def split: list.splits)

lemma callback_events_delete:
  "callback_events f (delete_log c NONBLOCK_CALLBACK_FLAG es) = (case es of
     h # u # _ \<Rightarrow> if client_id h = c then [(callback_argv u, MEDIA_FOCUS_PLAY)] else [] | _ \<Rightarrow> [])"
  by (auto simp: delete_log_def callback_events_def suggestion_def focus_flag_defs split: list.splits)

lemma abandon_ok:
  fixes live :: "nat \<Rightarrow> bool"
  assumes wf: "focus_wf f" and h: "int ID_SHIFT - 1 \<le> handle"
  defines "es \<equiv> live_entries f live" and "c \<equiv> HANDLE_TO_ID handle"
  shows "\<exists>f'. media_focus_abandon_body (Some f) live f handle = Some (if es = [] then -ENOENT else 0,
      clear_events f live @ abandon_events f c es, f')
    \<and> focus_wf f' \<and> focus_entries f' = spec_delete c es \<and> f' = f\<lparr>stack := stack f'\<rparr>"
proof -
  obtain s0 s1 where s: "stack f = Some s0" "app_focus_stack_useless_clear live s0 NONBLOCK_CALLBACK_FLAG
      = Some (clear_log live NONBLOCK_CALLBACK_FLAG (focus_entries f), s1)"
    "run_callbacks (Some f) (clear_log live NONBLOCK_CALLBACK_FLAG (focus_entries f)) = Some (clear_events f live)"
    "stack_wf s1" "nat (max_size s1) = CONFIG_MEDIA_FOCUS_STACK_DEPTH" "entries s1 = es"
    "\<forall>e\<in>set (entries s1). id_ok f e" "log_ok f (clear_log live NONBLOCK_CALLBACK_FLAG (focus_entries f))"
    unfolding es_def using cleared_stack[OF wf] by metis
  have mo: "matrix_ok f" using wf by (simp add: focus_wf_def)
  have h': "\<not> handle < int ID_SHIFT - 1" using h by simp
  note start = media_focus_abandon_body_def s(1,2) h' Let_def c_def[symmetric]
  have ce: "callback_events f (clear_log live NONBLOCK_CALLBACK_FLAG (focus_entries f)) = clear_events f live"
    by (simp add: clear_events_def)
  show ?thesis
  proof (cases es)
    case Nil
    then show ?thesis
      using s(3) top_spec[OF s(4), of empty_focus_id] s(6) update_stack_wf[OF wf s(4,5,7)]
      by (intro exI[of _ "f\<lparr>stack := Some s1\<rparr>"])
        (simp add: start abandon_events_def spec_delete_def spec_promote_def)
  next
    case (Cons hd tl)
    have topc: "app_focus_stack_top s1 empty_focus_id = Some (0, hd)" using top_spec[OF s(4)] Cons s(6) by simp
    obtain v' s2 r where del: "app_focus_stack_delete s1 (hd\<lparr>client_id := c\<rparr>) NONBLOCK_CALLBACK_FLAG
        = Some (r, v', delete_log c NONBLOCK_CALLBACK_FLAG es, s2)" "stack_wf s2"
        "entries s2 = spec_delete c es" "nat (max_size s2) = nat (max_size s1)"
      using fs.remove_law[OF s(4), of "hd\<lparr>client_id := c\<rparr>" NONBLOCK_CALLBACK_FLAG] s(6) by auto
    have ok2: "\<forall>e\<in>set (entries s2). id_ok f e" using id_ok_delete s(6,7) del(3) by metis
    have lo: "log_ok f (delete_log c NONBLOCK_CALLBACK_FLAG es)" using log_ok_delete s(6,7) by metis
    note wf2 = update_stack_wf[OF wf del(2) _ ok2]
    show ?thesis
    proof (cases "client_id hd = c")
      case True
      then have same: "hd\<lparr>client_id := c\<rparr> = hd" by simp
      obtain r3 log where bc: "app_focus_stack_top_change_broadcast s2 NONBLOCK_CALLBACK_FLAG = Some (r3, log)"
        "log_ok f log" "callback_events f log = broadcast_events f (entries s2)"
        using broadcast_ok[OF del(2) mo ok2] by blast
      have "log_ok f (clear_log live NONBLOCK_CALLBACK_FLAG (focus_entries f)
          @ delete_log c NONBLOCK_CALLBACK_FLAG es @ log)" using s(8) lo bc(2) by simp
      from run_callbacks_ok[OF mo this]
      show ?thesis
        using topc True del bc wf2 s(5) same Cons
        by (intro exI[of _ "f\<lparr>stack := Some s2\<rparr>"])
          (simp add: start ce callback_events_delete abandon_events_def split: list.split)
    next
      case False
      have "log_ok f (clear_log live NONBLOCK_CALLBACK_FLAG (focus_entries f)
          @ delete_log c NONBLOCK_CALLBACK_FLAG es)" using s(8) lo by simp
      from run_callbacks_ok[OF mo this]
      show ?thesis
        using topc False del wf2 s(5) Cons
        by (intro exI[of _ "f\<lparr>stack := Some s2\<rparr>"])
          (simp add: start ce callback_events_delete abandon_events_def split: list.split)
    qed
  qed
qed

lemma abandon_bad_handle:
  "handle < int ID_SHIFT - 1 \<Longrightarrow> media_focus_abandon_body ctx live f handle = Some (-EINVAL, [], f)"
  by (simp add: media_focus_abandon_body_def)

section \<open>Configuration files\<close>

text \<open>
  A configuration file in its normal form: one line of stream names, then for each stream one
  line of cells, each a pair of decimal numbers.
\<close>

type_synonym config_row = "string \<times> (string \<times> string) list"

definition cell_text :: "string \<times> string \<Rightarrow> string" where
  "cell_text c = fst c @ CHR '':'' # snd c"

definition stream_line :: "string list \<Rightarrow> string" where
  "stream_line names = ''Stream,'' @ intercalate (CHR '','') names"

definition row_line :: "config_row \<Rightarrow> string" where
  "row_line row = fst row @ CHR '','' # intercalate (CHR '','') (map cell_text (snd row))"

definition config_text :: "string list \<Rightarrow> config_row list \<Rightarrow> string" where
  "config_text names rows = concat (map (\<lambda>l. l @ [newline]) (stream_line names # map row_line rows))"

definition word_ok :: "string \<Rightarrow> bool" where
  "word_ok w \<longleftrightarrow> w \<noteq> [] \<and> list_all isalnum w"

definition number_ok :: "string \<Rightarrow> bool" where
  "number_ok w \<longleftrightarrow> w \<noteq> [] \<and> list_all isdigit w"

definition row_ok :: "config_row \<Rightarrow> bool" where
  "row_ok row \<longleftrightarrow> word_ok (fst row) \<and> take (length (fst row)) ''Stream'' \<noteq> fst row \<and> snd row \<noteq> []
     \<and> (\<forall>c\<in>set (snd row). number_ok (fst c) \<and> number_ok (snd c)) \<and> length (row_line row) < 510"

definition names_ok :: "string list \<Rightarrow> bool" where
  "names_ok names \<longleftrightarrow> names \<noteq> [] \<and> (\<forall>w\<in>set names. word_ok w \<and> length w < 32) \<and> length (stream_line names) < 510"

definition cell_value :: "string \<times> string \<Rightarrow> media_focus_cell" where
  "cell_value c = \<lparr>pro_inter = strtol_digits (fst c), pas_inter = strtol_digits (snd c)\<rparr>"

lemma number_word: "number_ok w \<Longrightarrow> word_ok w"
  by (auto simp: number_ok_def word_ok_def list_all_iff isdigit_isalnum)

lemma word_chars:
  "word_ok w \<Longrightarrow> CHR '','' \<notin> set w \<and> CHR '':'' \<notin> set w \<and> CHR '' '' \<notin> set w \<and> newline \<notin> set w \<and> NUL \<notin> set w"
  using isalnum_not_separator by (auto simp: word_ok_def list_all_iff)

lemma valid_word:
  "word_ok w \<Longrightarrow> valid_line_loop pre (w @ rest) = (rest = [] \<or> valid_line_loop (last w) rest)"
proof (induction w arbitrary: pre)
  case (Cons c w)
  then have "isalnum c" by (simp add: word_ok_def)
  note sep = isalnum_not_separator[OF this]
  show ?case
  proof (cases w)
    case Nil
    then show ?thesis using \<open>isalnum c\<close> sep by auto
  next
    case (Cons d w')
    then have "word_ok w" using Cons.prems by (simp add: word_ok_def)
    with Cons.IH[OF this, of c] \<open>isalnum c\<close> sep show ?thesis by (simp add: Cons)
  qed
qed (simp add: word_ok_def)

lemma last_word: "word_ok w \<Longrightarrow> isalnum (last w)"
  by (simp add: word_ok_def list_all_iff)

lemma valid_sep:
  "isalnum p \<Longrightarrow> c = CHR '','' \<or> c = CHR '':'' \<Longrightarrow> rest \<noteq> [] \<Longrightarrow>
   valid_line_loop p (c # rest) = valid_line_loop c rest"
  using isalnum_not_separator[of p] by auto

definition field :: "string \<Rightarrow> bool" where
  "field t \<longleftrightarrow> (\<forall>pre. valid_line_loop pre t)
     \<and> (\<forall>pre rest. rest \<noteq> [] \<longrightarrow> valid_line_loop pre (t @ CHR '','' # rest) = valid_line_loop (CHR '','') rest)"

lemma field_word: "word_ok w \<Longrightarrow> field w"
  using valid_word[of w _ "[]"]
  by (simp add: field_def valid_word valid_sep last_word del: valid_line_loop.simps(2))

lemma field_cell:
  assumes "number_ok (fst c)" "number_ok (snd c)"
  shows "field (cell_text c)"
proof -
  note w = number_word[OF assms(1)] number_word[OF assms(2)]
  have ne: "snd c \<noteq> []" using assms(2) by (simp add: number_ok_def)
  show ?thesis
    using w ne valid_word[OF w(2), of _ "[]"]
    by (simp add: field_def cell_text_def valid_word valid_sep last_word del: valid_line_loop.simps(2))
qed

lemma intercalate_nonempty: "ts \<noteq> [] \<Longrightarrow> \<forall>t\<in>set ts. t \<noteq> [] \<Longrightarrow> intercalate sep ts \<noteq> []"
  by (induction sep ts rule: intercalate.induct) auto

lemma valid_fields:
  "ts \<noteq> [] \<Longrightarrow> \<forall>t\<in>set ts. field t \<and> t \<noteq> [] \<Longrightarrow> valid_line_loop pre (intercalate (CHR '','') ts)"
proof (induction "CHR '',''" ts arbitrary: pre rule: intercalate.induct)
  case (3 t u ts)
  have "intercalate (CHR '','') (u # ts) \<noteq> []" using 3 by (intro intercalate_nonempty) auto
  with 3 show ?case by (simp add: field_def)
qed (auto simp: field_def)

lemma line_identity_line:
  assumes w: "word_ok w" and ts: "ts \<noteq> []" "\<forall>t\<in>set ts. field t \<and> t \<noteq> []"
  shows "media_focus_line_identity (w @ CHR '','' # intercalate (CHR '','') ts) sh =
    (if take (length w) ''Stream'' = w then MEDIA_FOCUS_FILE_READ_STREAM_TYPE
     else MEDIA_FOCUS_FILE_READ_STREAM_NUM, Suc (length w))"
proof -
  have ne: "intercalate (CHR '','') ts \<noteq> []" using ts by (intro intercalate_nonempty) auto
  have "valid_line_loop NUL (w @ CHR '','' # intercalate (CHR '','') ts)"
    using valid_word[OF w] valid_sep[OF last_word[OF w], of "CHR '',''"] ne valid_fields[OF ts] by simp
  moreover have "hd (w @ x) \<noteq> CHR ''#''" for x
    using w isalnum_not_separator by (cases w) (auto simp: word_ok_def)
  moreover have "w \<noteq> []" using w by (simp add: word_ok_def)
  moreover have "strchr_index (CHR '','') (w @ CHR '','' # intercalate (CHR '','') ts) = Some (length w)"
    using word_chars[OF w] by (intro strchr_index_append) simp
  ultimately show ?thesis
    by (auto simp: media_focus_line_identity_def media_focus_valid_line_check_def
        media_focus_interate_through_comma_def strncmp_eq_def)
qed

lemma reformat_line:
  "CHR '' '' \<notin> set l \<Longrightarrow> newline \<notin> set l \<Longrightarrow> media_focus_reformat (l @ [newline]) = l"
  by (auto simp: media_focus_reformat_def intro!: filter_True)

lemma cell_text_chars:
  assumes "number_ok (fst c)" "number_ok (snd c)"
  shows "cell_text c \<noteq> []" "CHR '','' \<notin> set (cell_text c)" "CHR '' '' \<notin> set (cell_text c)" "newline \<notin> set (cell_text c)"
  using word_chars[OF number_word[OF assms(1)]] word_chars[OF number_word[OF assms(2)]]
  by (auto simp: cell_text_def newline_def)

subsection \<open>The line of stream names\<close>

lemma counts_spec: "type_counts_loop s k = k + length (filter (\<lambda>c. c = CHR '','') s) + 1"
  by (induction s arbitrary: k) auto

lemma count_separators:
  "ts \<noteq> [] \<Longrightarrow> \<forall>t\<in>set ts. sep \<notin> set t \<Longrightarrow>
   Suc (length (filter (\<lambda>c. c = sep) (intercalate sep ts))) = length ts"
proof (induction sep ts rule: intercalate.induct)
  case (2 sep t)
  then show ?case by (auto simp: filter_empty_conv)
next
  case (3 sep t u ts)
  have "filter (\<lambda>c. c = sep) t = []" using 3 by (auto simp: filter_empty_conv)
  with 3 show ?case by simp
qed simp

definition pad :: "nat \<Rightarrow> string \<Rightarrow> string" where
  "pad n s = s @ replicate (n - length s) NUL"

lemma length_pad [simp]: "length s \<le> n \<Longrightarrow> length (pad n s) = n"
  by (simp add: pad_def)

lemma length_concat_pad:
  "\<forall>s\<in>set ss. length s \<le> n \<Longrightarrow> length (concat (map (pad n) ss)) = length ss * n"
  by (induction ss) auto

lemma streams_fill_names:
  assumes "\<forall>s\<in>set (acc @ ptrs). length s < n"
  shows "streams_fill ptrs (length acc) (length acc + length ptrs) n
      (concat (map (pad n) acc) @ replicate (length ptrs * n) NUL)
    = Some (Some (concat (map (pad n) (acc @ ptrs))))"
  using assms
proof (induction ptrs arbitrary: acc)
  case (Cons s ptrs)
  have s: "length s < n" using Cons.prems by simp
  have lc: "length (concat (map (pad n) acc)) = length acc * n"
    using Cons.prems by (intro length_concat_pad ballI less_imp_le) auto
  let ?mem = "concat (map (pad n) acc) @ replicate (length (s # ptrs) * n) NUL"
  have "mem_put (length acc * n) s ?mem =
      Some (concat (map (pad n) acc) @ s @ replicate (length (s # ptrs) * n - length s) NUL)"
    using s lc by (simp add: mem_put_def)
  also have "replicate (length (s # ptrs) * n - length s) NUL
      = replicate (n - length s) NUL @ replicate (length ptrs * n) NUL"
    using s by (simp add: replicate_add[symmetric])
  also have "concat (map (pad n) acc) @ s @ replicate (n - length s) NUL @ replicate (length ptrs * n) NUL
      = concat (map (pad n) (acc @ [s])) @ replicate (length ptrs * n) NUL"
    by (simp add: pad_def)
  finally have put: "mem_put (length acc * n) s ?mem =
      Some (concat (map (pad n) (acc @ [s])) @ replicate (length ptrs * n) NUL)"
    .
  from Cons.IH[of "acc @ [s]"] Cons.prems s put show ?case by (simp del: replicate.simps)
qed simp

lemma c_string_pad:
  assumes "\<forall>s\<in>set ss. length s < n \<and> NUL \<notin> set s" "i < length ss"
  shows "c_string_at (concat (map (pad n) ss)) (i * n) = Some (ss ! i)"
  using assms
proof (induction ss arbitrary: i)
  case (Cons s ss)
  show ?case
  proof (cases i)
    case 0
    obtain m where m: "n - length s = Suc m" using Cons.prems(1) by (metis Suc_diff_Suc list.set_intros(1))
    have "takeWhile (\<lambda>c. c \<noteq> NUL) (s @ NUL # x) = s" for x
      using Cons.prems(1) by (subst takeWhile_append2) auto
    then show ?thesis using 0 by (simp add: c_string_at_def pad_def m)
  next
    case (Suc j)
    have "drop (i * n) (concat (map (pad n) (s # ss))) = drop (j * n) (concat (map (pad n) ss))"
      using Cons.prems(1) Suc by simp
    then have "c_string_at (concat (map (pad n) (s # ss))) (i * n) = c_string_at (concat (map (pad n) ss)) (j * n)"
      by (simp only: c_string_at_def)
    with Cons.IH[of j] Cons.prems Suc show ?thesis by simp
  qed
qed simp

lemma streams_init_names:
  assumes "names_ok names"
  shows "media_focus_streams_init True f STREAM_TYPE_LEN (intercalate (CHR '','') names)
    = Some (f\<lparr>num := length names\<rparr>, Some (concat (map (pad 32) names)))"
proof -
  have w: "\<forall>t\<in>set names. t \<noteq> [] \<and> CHR '','' \<notin> set t \<and> length t < 32" "names \<noteq> []"
    using assms word_chars by (auto simp: names_ok_def word_ok_def)
  have n: "media_focus_stream_type_counts (Some (intercalate (CHR '','') names)) = length names"
    using count_separators[of names "CHR '',''"] w by (simp add: media_focus_stream_type_counts_def counts_spec)
  have "strtok_tokens (CHR '','') (intercalate (CHR '','') names) = names"
    using w by (intro tokens_intercalate) auto
  with n w streams_fill_names[of "[]" names 32] show ?thesis
    by (simp add: media_focus_streams_init_def STREAM_TYPE_LEN_def Let_def)
qed

subsection \<open>The rows of the matrix\<close>

lemma divided_cell:
  assumes "number_ok (fst c)" "number_ok (snd c)"
  shows "media_focus_divided_by_colon (cell_text c) = (0, strtol_digits (fst c), strtol_digits (snd c))"
proof -
  have "strchr_index (CHR '':'') (cell_text c) = Some (length (fst c))"
    using word_chars[OF number_word[OF assms(1)]] by (simp add: cell_text_def strchr_index_append)
  moreover have "media_focus_str_to_num w = strtol_digits w" "0 \<le> strtol_digits w" if "number_ok w" for w
    using that by (auto simp: number_ok_def media_focus_str_to_num_def strtol_digits_def LONG_MAX_def)
  ultimately show ?thesis
    using assms by (simp add: media_focus_divided_by_colon_def cell_text_def Let_def not_less)
qed

text \<open>
  A row may be too long by one cell before the count stops it: \<open>count\<close> is compared with
  \<open>\<ge> 0\<close>, so \<open>count + 1\<close> cells are written when the block has room for them.
\<close>

lemma matrix_fill_cells:
  assumes "\<forall>c\<in>set cells. number_ok (fst c) \<and> number_ok (snd c)" "int (length cells) \<le> count + 1"
    "length cells \<le> room"
  shows "matrix_fill (map cell_text cells) count (length acc) (map Some acc @ replicate room None)
    = Some (length acc + length cells,
        Some (map Some (acc @ map cell_value cells) @ replicate (room - length cells) None))"
  using assms
proof (induction cells arbitrary: acc count room)
  case (Cons c cells)
  obtain room' where r: "room = Suc room'" using Cons.prems(3) by (cases room) auto
  have up: "(map Some acc @ replicate room None)[length acc := Some (cell_value c)]
      = map Some (acc @ [cell_value c]) @ replicate room' None"
    by (simp add: r list_update_append)
  from Cons.IH[of "count - 1" room' "acc @ [cell_value c]"] Cons.prems r up
  show ?case by (simp add: divided_cell cell_value_def[symmetric])
qed simp

lemma matrix_fill_overflow:
  assumes "\<forall>c\<in>set cells. number_ok (fst c) \<and> number_ok (snd c)" "int (length cells) \<le> count + 1"
    "room < length cells"
  shows "matrix_fill (map cell_text cells) count (length acc) (map Some acc @ replicate room None) = None"
  using assms
proof (induction cells arbitrary: acc count room)
  case (Cons c cells)
  show ?case
  proof (cases room)
    case 0
    then show ?thesis using Cons.prems by (simp add: divided_cell)
  next
    case (Suc room')
    have up: "(map Some acc @ replicate room None)[length acc := Some (cell_value c)]
        = map Some (acc @ [cell_value c]) @ replicate room' None"
      by (simp add: Suc list_update_append)
    from Cons.IH[of "count - 1" room' "acc @ [cell_value c]"] Cons.prems Suc up
    show ?thesis by (simp add: divided_cell cell_value_def[symmetric])
  qed
qed simp

lemma row_tokens:
  assumes "row_ok row"
  shows "strtok_tokens (CHR '','') (intercalate (CHR '','') (map cell_text (snd row))) = map cell_text (snd row)"
  using assms cell_text_chars by (intro tokens_intercalate) (auto simp: row_ok_def)

lemma row_identity:
  assumes "row_ok row"
  shows "media_focus_line_identity (media_focus_reformat (row_line row @ [newline])) sh
      = (MEDIA_FOCUS_FILE_READ_STREAM_NUM, Suc (length (fst row)))"
    and "drop (Suc (length (fst row))) (media_focus_reformat (row_line row @ [newline]))
      = intercalate (CHR '','') (map cell_text (snd row))"
proof -
  have c: "\<forall>c\<in>set (snd row). number_ok (fst c) \<and> number_ok (snd c)" "snd row \<noteq> []" "word_ok (fst row)"
    "take (length (fst row)) ''Stream'' \<noteq> fst row"
    using assms by (auto simp: row_ok_def)
  have "CHR '' '' \<notin> set (row_line row)" "newline \<notin> set (row_line row)"
    using c(1) word_chars[OF c(3)] set_intercalate[of "CHR '',''" "map cell_text (snd row)"] cell_text_chars(3,4)
    by (fastforce simp: row_line_def newline_def)+
  then have re: "media_focus_reformat (row_line row @ [newline]) = row_line row" by (rule reformat_line)
  show "drop (Suc (length (fst row))) (media_focus_reformat (row_line row @ [newline]))
      = intercalate (CHR '','') (map cell_text (snd row))"
    unfolding re by (simp add: row_line_def)
  show "media_focus_line_identity (media_focus_reformat (row_line row @ [newline])) sh
      = (MEDIA_FOCUS_FILE_READ_STREAM_NUM, Suc (length (fst row)))"
    using c line_identity_line[of "fst row" "map cell_text (snd row)" sh] field_cell cell_text_chars(1)
    unfolding re by (auto simp: row_line_def)
qed

definition cell_values :: "config_row list \<Rightarrow> media_focus_cell list" where
  "cell_values rows = concat (map (\<lambda>row. map cell_value (snd row)) rows)"

lemma matrix_init_row:
  assumes "row_ok row" "length (snd row) = n" "length d + n \<le> n * n"
    and m: "m = None \<and> d = [] \<or> m = Some (map Some d @ replicate (n * n - length d) None)"
  shows "media_focus_matrix_init True n (intercalate (CHR '','') (map cell_text (snd row))) (length d) m
    = Some (length d + n, Some (map Some (d @ map cell_value (snd row)) @ replicate (n * n - (length d + n)) None))"
proof -
  have n: "n \<noteq> 0" using assms(1,2) by (auto simp: row_ok_def)
  have "matrix_fill (map cell_text (snd row)) (int n) (length d) (map Some d @ replicate (n * n - length d) None)
    = Some (length d + n, Some (map Some (d @ map cell_value (snd row)) @ replicate (n * n - length d - n) None))"
    using matrix_fill_cells[of "snd row" "int n" "n * n - length d" d] assms by (auto simp: row_ok_def)
  then show ?thesis
    using n m by (auto simp: media_focus_matrix_init_def row_tokens[OF assms(1)])
qed

definition rows_ok :: "nat \<Rightarrow> config_row list \<Rightarrow> bool" where
  "rows_ok n rows \<longleftrightarrow> (\<forall>row\<in>set rows. row_ok row \<and> length (snd row) = n)"

lemma create_loop_rows:
  assumes "rows_ok n rows" "num f = n" "length d + length rows * n \<le> n * n"
    and "matrix f = None \<and> d = [] \<or> matrix f = Some (map Some d @ replicate (n * n - length d) None)"
    and "rows \<noteq> [] \<or> matrix f \<noteq> None"
  shows "\<exists>sh'. create_loop (\<lambda>_. True) (map (\<lambda>r. row_line r @ [newline]) rows @ more_lines) (length d) sh f
    = create_loop (\<lambda>_. True) more_lines (length d + length rows * n) sh'
        (f\<lparr>matrix := Some (map Some (d @ cell_values rows) @ replicate (n * n - (length d + length rows * n)) None)\<rparr>)"
  using assms
proof (induction rows arbitrary: f d sh)
  case Nil
  then have "f\<lparr>matrix := matrix f\<rparr> = f" "matrix f = Some (map Some d @ replicate (n * n - length d) None)" by auto
  then have "f\<lparr>matrix := Some (map Some d @ replicate (n * n - length d) None)\<rparr> = f" by metis
  then show ?case by (intro exI[of _ sh]) (simp add: cell_values_def)
next
  case (Cons row rows)
  have r: "row_ok row" "length (snd row) = n" "rows_ok n rows" using Cons.prems(1) by (auto simp: rows_ok_def)
  let ?d = "d @ map cell_value (snd row)"
  let ?f = "f\<lparr>matrix := Some (map Some ?d @ replicate (n * n - (length d + n)) None)\<rparr>"
  have ld: "length ?d = length d + n" using r(2) by simp
  have "length d + n \<le> n * n" using Cons.prems(3) by simp
  from matrix_init_row[OF r(1,2) this Cons.prems(4)]
  have step: "create_loop (\<lambda>_. True) (map (\<lambda>r. row_line r @ [newline]) (row # rows) @ more_lines) (length d) sh f
      = create_loop (\<lambda>_. True) (map (\<lambda>r. row_line r @ [newline]) rows @ more_lines) (length ?d) (Suc (length (fst row))) ?f"
    using row_identity[OF r(1)] Cons.prems(2) ld by (simp add: focus_file_defs)
  have "\<exists>sh'. create_loop (\<lambda>_. True) (map (\<lambda>r. row_line r @ [newline]) rows @ more_lines) (length ?d) (Suc (length (fst row))) ?f
    = create_loop (\<lambda>_. True) more_lines (length ?d + length rows * n) sh'
        (?f\<lparr>matrix := Some (map Some (?d @ cell_values rows) @ replicate (n * n - (length ?d + length rows * n)) None)\<rparr>)"
    using Cons.prems ld r(3) by (intro Cons.IH) auto
  with step ld show ?case by (auto simp: cell_values_def add.assoc)
qed

subsection \<open>The whole file\<close>

lemma stream_line_chars:
  assumes "names_ok names"
  shows "CHR '' '' \<notin> set (stream_line names)" "newline \<notin> set (stream_line names)"
  using assms word_chars set_intercalate[of "CHR '',''" names]
  by (fastforce simp: names_ok_def stream_line_def newline_def)+

lemma stream_identity:
  assumes "names_ok names"
  shows "media_focus_line_identity (media_focus_reformat (stream_line names @ [newline])) sh
      = (MEDIA_FOCUS_FILE_READ_STREAM_TYPE, 7)"
    and "drop 7 (media_focus_reformat (stream_line names @ [newline])) = intercalate (CHR '','') names"
proof -
  have re: "media_focus_reformat (stream_line names @ [newline]) = stream_line names"
    using stream_line_chars[OF assms] by (rule reformat_line)
  have w: "word_ok ''Stream''" by (simp add: word_ok_def isalnum_def isupper_def islower_def isdigit_def)
  have "names \<noteq> []" "\<forall>t\<in>set names. field t \<and> t \<noteq> []"
    using assms field_word by (auto simp: names_ok_def word_ok_def)
  from line_identity_line[OF w this, of sh]
  show "media_focus_line_identity (media_focus_reformat (stream_line names @ [newline])) sh
      = (MEDIA_FOCUS_FILE_READ_STREAM_TYPE, 7)"
    unfolding re by (simp add: stream_line_def eval_nat_numeral)
  show "drop 7 (media_focus_reformat (stream_line names @ [newline])) = intercalate (CHR '','') names"
    unfolding re by (simp add: stream_line_def)
qed

definition empty_focus :: media_focus where
  "empty_focus = \<lparr>num = 0, stack = None, streams = None, matrix = None\<rparr>"

definition empty_stack :: app_focus_stack where
  "empty_stack = \<lparr>node_list = replicate 8 empty_focus_id, order = [], max_size = 8, cur_size = 0\<rparr>"

definition named_focus :: "string list \<Rightarrow> media_focus" where
  "named_focus names = \<lparr>num = length names, stack = Some empty_stack,
     streams = Some (concat (map (pad 32) names)), matrix = None\<rparr>"

lemma create_start:
  assumes names: "names_ok names" and rows: "\<forall>row\<in>set rows. row_ok row"
  shows "media_focus_create (\<lambda>_. True) (Some (config_text names rows))
    = create_loop (\<lambda>_. True) (map (\<lambda>r. row_line r @ [newline]) rows) 0 7 (named_focus names)"
proof -
  let ?ls = "stream_line names # map row_line rows"
  have "newline \<notin> set (row_line r) \<and> length (row_line r) < 510" if "row_ok r" for r
    using that word_chars[of "fst r"] cell_text_chars(4) set_intercalate[of "CHR '',''" "map cell_text (snd r)"]
    by (fastforce simp: row_ok_def row_line_def newline_def)
  then have "\<forall>l\<in>set ?ls. newline \<notin> set l \<and> length l < 510"
    using rows stream_line_chars[OF names] names by (auto simp: names_ok_def)
  from fgets_lines_concat[OF this]
  have "fgets_lines 510 (config_text names rows) = map (\<lambda>l. l @ [newline]) ?ls" by (simp add: config_text_def)
  then have "media_focus_create (\<lambda>_. True) (Some (config_text names rows))
      = create_loop (\<lambda>_. True) ((stream_line names @ [newline]) # map (\<lambda>r. row_line r @ [newline]) rows) 0 0 empty_focus"
    by (simp add: media_focus_create_def MAX_LEN_def empty_focus_def o_def)
  also have "\<dots> = create_loop (\<lambda>_. True) (map (\<lambda>r. row_line r @ [newline]) rows) 0 7 (named_focus names)"
    using stream_identity[OF names] streams_init_names[OF names]
    by (simp add: focus_file_defs app_focus_stack_init_def CONFIG_MEDIA_FOCUS_STACK_DEPTH_def empty_focus_def
        named_focus_def empty_stack_def)
  finally show ?thesis .
qed

lemma nth_concat_uniform:
  "\<forall>r\<in>set rs. length r = n \<Longrightarrow> i < length rs \<Longrightarrow> j < n \<Longrightarrow> concat rs ! (i * n + j) = rs ! i ! j"
proof (induction rs arbitrary: i)
  case (Cons r rs)
  then show ?case by (cases i) (auto simp: nth_append)
qed simp

lemma length_concat_uniform: "\<forall>r\<in>set rs. length r = n \<Longrightarrow> length (concat rs) = length rs * n"
  by (induction rs) auto

lemma empty_stack_wf: "stack_wf empty_stack" "entries empty_stack = []" "max_size empty_stack = 8"
proof -
  have "app_focus_stack_init True True 8 = Some empty_stack"
    by (simp add: app_focus_stack_init_def empty_stack_def)
  from init_wf[OF this] show "stack_wf empty_stack" "entries empty_stack = []" "max_size empty_stack = 8" by auto
qed

lemma named_focus_wf:
  assumes names: "names_ok names" and m: "length cs = length names * length names"
    "\<forall>c\<in>set cs. 0 \<le> pro_inter c"
  defines "f \<equiv> (named_focus names)\<lparr>matrix := Some (map Some cs)\<rparr>"
  shows "focus_wf f" "stream_names f = names" "focus_entries f = []"
proof -
  have s: "\<forall>s\<in>set names. length s < 32 \<and> NUL \<notin> set s"
    using names word_chars by (auto simp: names_ok_def)
  then have "c_string_at (concat (map (pad 32) names)) (i * 32) = Some (names ! i)" if "i < length names" for i
    using c_string_pad[OF s that] by simp
  then show "stream_names f = names" "focus_entries f = []" "focus_wf f"
    using m empty_stack_wf
    by (auto simp: f_def named_focus_def stream_names_def STREAM_TYPE_LEN_def focus_entries_def focus_wf_def
        matrix_ok_def streams_ok_def CONFIG_MEDIA_FOCUS_STACK_DEPTH_def intro!: nth_equalityI)
qed

lemma cell_values_props:
  assumes "rows_ok n rows"
  shows "length (cell_values rows) = length rows * n" "\<forall>c\<in>set (cell_values rows). 0 \<le> pro_inter c"
    "i < length rows \<Longrightarrow> j < n \<Longrightarrow> cell_values rows ! (i * n + j) = cell_value (snd (rows ! i) ! j)"
proof -
  let ?rs = "map (\<lambda>row. map cell_value (snd row)) rows"
  have l: "\<forall>r\<in>set ?rs. length r = n" using assms by (auto simp: rows_ok_def)
  show "length (cell_values rows) = length rows * n"
    using length_concat_uniform[OF l] by (simp add: cell_values_def)
  show "\<forall>c\<in>set (cell_values rows). 0 \<le> pro_inter c"
    by (auto simp: cell_values_def cell_value_def strtol_digits_def LONG_MAX_def)
  assume ij: "i < length rows" "j < n"
  then have "length (snd (rows ! i)) = n" using assms by (auto simp: rows_ok_def)
  with nth_concat_uniform[OF l, of i j] ij
  show "cell_values rows ! (i * n + j) = cell_value (snd (rows ! i) ! j)" by (simp add: cell_values_def)
qed

section \<open>Releasing what was granted\<close>

lemma promote_states:
  assumes "stack_wf s"
  shows "spec_promote (spec_demote (entries s)) = entries s" "spec_promote (entries s) = entries s"
  using fs.top_state[OF assms] by (cases "entries s"; simp add: spec_promote_def spec_demote_def)+

lemma filter_fresh:
  "c \<notin> client_id ` set es \<Longrightarrow> filter (\<lambda>e. client_id e \<noteq> c) es = es"
  by (rule filter_True) auto

lemma delete_pushed:
  assumes "stack_wf s" "client_id v = c" "c \<notin> client_id ` set (entries s)"
  shows "spec_delete c (spec_push v (entries s)) = entries s"
proof -
  have "client_id ` set (spec_demote (entries s)) = client_id ` set (entries s)"
    by (cases "entries s") (simp_all add: spec_demote_def)
  then have "filter (\<lambda>e. client_id e \<noteq> c) (spec_demote (entries s)) = spec_demote (entries s)"
    using assms(3) by (intro filter_fresh) simp
  then show ?thesis
    using assms(2) promote_states(1)[OF assms(1)] by (simp add: spec_delete_def spec_push_def)
qed

lemma delete_inserted:
  assumes "stack_wf s" "client_id v = c" "c \<notin> client_id ` set (entries s)"
  shows "spec_delete c (spec_insert v k (entries s)) = entries s"
proof -
  have "filter (\<lambda>e. client_id e \<noteq> c) (spec_insert v k (entries s))
      = filter (\<lambda>e. client_id e \<noteq> c) (take k (entries s) @ drop k (entries s))"
    using assms(2) by (simp add: spec_insert_def del: append_take_drop_id)
  also have "\<dots> = entries s" using assms(3) by (simp add: filter_fresh)
  finally show ?thesis using promote_states(2)[OF assms(1)] by (simp add: spec_delete_def)
qed

lemma all_live_entries:
  assumes "focus_wf f" "\<forall>t. live t"
  shows "live_entries f live = focus_entries f" "clear_events f live = []"
proof -
  obtain s where s: "stack_wf s" "focus_entries f = entries s" using assms(1) by (rule focus_wf_stack)
  have "filter (\<lambda>e. live (thread_id e)) (entries s) = entries s"
    using assms(2) by (intro filter_True) simp
  then show "live_entries f live = focus_entries f"
    using promote_states(2)[OF s(1)] by (simp add: live_entries_def spec_clear_def s(2))
  have "takeWhile (\<lambda>e. \<not> live (thread_id e)) (focus_entries f) = []"
    using assms(2) by (cases "focus_entries f") auto
  then show "clear_events f live = []" by (simp add: clear_events_def clear_log_def callback_events_def Let_def)
qed

lemma outcome_deleted:
  assumes wf: "focus_wf f" and new: "client_id new = fid" "fid \<notin> client_id ` set (focus_entries f)"
    and out: "request_outcome f new (focus_entries f) = (ret, rt, ev, es')"
    and c: "c = (if rt = MEDIA_FOCUS_STOP then fid + int CONFIG_MEDIA_FOCUS_STACK_DEPTH else fid)"
    and fid: "0 \<le> fid" and ret: "0 \<le> ret"
  shows "spec_delete c es' = focus_entries f"
proof -
  obtain s where s: "stack_wf s" "nat (max_size s) = CONFIG_MEDIA_FOCUS_STACK_DEPTH" "focus_entries f = entries s"
    using wf by (rule focus_wf_stack)
  have big: "fid + int CONFIG_MEDIA_FOCUS_STACK_DEPTH \<notin> client_id ` set (entries s)"
    using fs.ids_bounded[OF s(1)] fid s(2) by fastforce
  note d = delete_pushed[OF s(1) new(1)] delete_inserted[OF s(1) new(1)]
  have same: "spec_delete x (entries s) = entries s" if "x \<notin> client_id ` set (entries s)" for x
    using that promote_states(2)[OF s(1)] by (simp add: spec_delete_def filter_fresh)
  show ?thesis
  proof (cases "entries s")
    case Nil
    then show ?thesis
      using out c d(1) new(2) s(3) by (auto simp: request_outcome_def suggestion_defs)
  next
    case (Cons h t)
    then show ?thesis
      using out c d new(2) s(3) same[OF big] ret
      by (auto simp: request_outcome_def suggestion_defs Let_def split: if_splits)
  qed
qed

section \<open>Properties\<close>

text \<open>C17: A configuration in normal form is read back exactly: the focus created has the streams named
  in the file, in order, each cell of its matrix holds the two numbers of the file's cell, and it is
  a well-formed focus with an empty stack.\<close>

theorem focus_config_roundtrip:
  assumes names: "names_ok names" and rows: "rows_ok (length names) rows" "length rows = length names"
  shows "\<exists>f. media_focus_create (\<lambda>_. True) (Some (config_text names rows)) = Some (Some f)
    \<and> focus_wf f \<and> focus_entries f = [] \<and> stream_names f = names
    \<and> (\<forall>i<length names. \<forall>j<length names. cell f (int i) (int j) = cell_value (snd (rows ! i) ! j))"
proof -
  let ?n = "length names"
  define f where "f = (named_focus names)\<lparr>matrix := Some (map Some (cell_values rows))\<rparr>"
  have ne: "rows \<noteq> []" using names rows(2) by (auto simp: names_ok_def)
  have "\<exists>sh'. create_loop (\<lambda>_. True) (map (\<lambda>r. row_line r @ [newline]) rows @ []) (length ([] :: media_focus_cell list)) 7 (named_focus names)
    = create_loop (\<lambda>_. True) [] (length ([] :: media_focus_cell list) + length rows * ?n) sh'
        ((named_focus names)\<lparr>matrix := Some (map Some ([] @ cell_values rows)
           @ replicate (?n * ?n - (length ([] :: media_focus_cell list) + length rows * ?n)) None)\<rparr>)"
    by (rule create_loop_rows[OF rows(1)]) (use rows(2) ne in \<open>auto simp: named_focus_def\<close>)
  then have "media_focus_create (\<lambda>_. True) (Some (config_text names rows)) = Some (Some f)"
    using create_start[OF names] rows by (auto simp: rows_ok_def f_def)
  moreover have "cell f (int i) (int j) = cell_value (snd (rows ! i) ! j)" if "i < ?n" "j < ?n" for i j
  proof -
    have "i * ?n + j < length (cell_values rows)"
      using cell_index_bound(2)[of "int i" ?n "int j"] that cell_values_props(1)[OF rows(1)] rows(2)
      by (simp flip: of_nat_mult of_nat_add)
    moreover have "nat (int i * int ?n + int j) = i * ?n + j" by (simp flip: of_nat_mult of_nat_add)
    ultimately show ?thesis
      using cell_values_props(3)[OF rows(1), of i j] that rows(2) by (simp add: cell_def f_def named_focus_def)
  qed
  ultimately show ?thesis
    using named_focus_wf[OF names, of "cell_values rows"] cell_values_props(1,2)[OF rows(1)] rows(2) f_def by auto
qed

definition example_names :: "string list" where
  "example_names = [''Music'', ''Ring'']"

definition example_rows :: "config_row list" where
  "example_rows = [(''Music'', [(''1'', ''0''), (''4'', ''3'')]), (''Ring'', [(''0'', ''2''), (''0'', ''1'')])]"

lemma example_config_ok:
  "names_ok example_names" "rows_ok 2 example_rows" "length example_rows = 2" "length example_names = 2"
  by (simp_all add: names_ok_def example_names_def word_ok_def isalnum_def isupper_def islower_def isdigit_def
      stream_line_def rows_ok_def example_rows_def row_ok_def number_ok_def row_line_def cell_text_def)

lemma focus_config_roundtrip_witness:
  "\<exists>f. media_focus_create (\<lambda>_. True) (Some (config_text example_names example_rows)) = Some (Some f)
     \<and> stream_names f = [''Music'', ''Ring''] \<and> cell f 0 1 = \<lparr>pro_inter = 4, pas_inter = 3\<rparr>"
proof -
  have "rows_ok (length example_names) example_rows" "length example_rows = length example_names"
    using example_config_ok by simp_all
  from focus_config_roundtrip[OF example_config_ok(1) this]
  obtain f where f: "media_focus_create (\<lambda>_. True) (Some (config_text example_names example_rows)) = Some (Some f)"
    "stream_names f = example_names"
    "\<forall>i<length example_names. \<forall>j<length example_names. cell f (int i) (int j) = cell_value (snd (example_rows ! i) ! j)"
    by blast
  from f(3)[rule_format, of 0 1] have "cell f 0 1 = cell_value (snd (example_rows ! 0) ! 1)"
    using example_config_ok(4) by simp
  with f(1,2) show ?thesis
    by (auto simp: example_names_def example_rows_def cell_value_def strtol_digits_def LONG_MAX_def)
qed

text \<open>A last row with one cell too many is not refused: since the count of cells left is compared with
  \<open>>= 0\<close>, the surplus cell is written, one past the end of the matrix allocated for the file.\<close>

theorem focus_config_overflow:
  assumes names: "names_ok names" and rows: "rows_ok (length names) rows" "length rows + 1 = length names"
    and last: "row_ok row" "length (snd row) = length names + 1"
  shows "media_focus_create (\<lambda>_. True) (Some (config_text names (rows @ [row]))) = None"
proof -
  let ?n = "length names"
  have n: "?n \<noteq> 0" using names by (simp add: names_ok_def)
  let ?d = "cell_values rows"
  have ld: "length ?d = length rows * ?n" by (rule cell_values_props(1)[OF rows(1)])
  have room: "?n * ?n - length ?d = ?n"
  proof -
    have "?n * ?n = (length rows + 1) * ?n" using rows(2) by simp
    then show ?thesis using ld by (simp add: distrib_right)
  qed
  let ?m = "map Some ?d @ replicate (?n * ?n - length ?d) (None :: media_focus_cell option)"
  have fill: "matrix_fill (map cell_text (snd row)) (int ?n) (length ?d) ?m = None"
    using last room matrix_fill_overflow[of "snd row" "int ?n" "?n * ?n - length ?d" ?d]
    by (auto simp: row_ok_def)
  have mi: "media_focus_matrix_init True ?n (intercalate (CHR '','') (map cell_text (snd row))) (length ?d) m = None"
    if "m = Some ?m \<or> m = None \<and> ?d = []" for m
    using that fill n by (auto simp: media_focus_matrix_init_def row_tokens[OF last(1)])
  note bad = row_identity[OF last(1)]
  show ?thesis
  proof (cases "rows = []")
    case True
    then have "?d = []" by (simp add: cell_values_def)
    then show ?thesis
      using True create_start[OF names, of "[row]"] last(1) bad mi[of None]
      by (simp add: focus_file_defs named_focus_def)
  next
    case False
    have "\<exists>sh'. create_loop (\<lambda>_. True) (map (\<lambda>r. row_line r @ [newline]) rows @ [row_line row @ [newline]])
        (length ([] :: media_focus_cell list)) 7 (named_focus names)
      = create_loop (\<lambda>_. True) [row_line row @ [newline]] (length ([] :: media_focus_cell list) + length rows * ?n) sh'
        ((named_focus names)\<lparr>matrix := Some (map Some ([] @ cell_values rows)
           @ replicate (?n * ?n - (length ([] :: media_focus_cell list) + length rows * ?n)) None)\<rparr>)"
      by (rule create_loop_rows[OF rows(1)]) (use rows(2)[symmetric] False in \<open>auto simp: named_focus_def\<close>)
    then obtain sh' where "create_loop (\<lambda>_. True) (map (\<lambda>r. row_line r @ [newline]) (rows @ [row])) 0 7 (named_focus names)
      = create_loop (\<lambda>_. True) [row_line row @ [newline]] (length ?d) sh' ((named_focus names)\<lparr>matrix := Some ?m\<rparr>)"
      using ld by auto
    moreover have "\<forall>r\<in>set (rows @ [row]). row_ok r" using rows(1) last(1) by (auto simp: rows_ok_def)
    ultimately show ?thesis
      using create_start[OF names, of "rows @ [row]"] bad mi[of "Some ?m"]
      by (simp add: focus_file_defs named_focus_def)
  qed
qed

lemma focus_config_overflow_witness:
  "media_focus_create (\<lambda>_. True) (Some (config_text [''Music''] [(''Music'', [(''1'', ''0''), (''1'', ''0'')])])) = None"
  using focus_config_overflow[of "[''Music'']" "[]" "(''Music'', [(''1'', ''0''), (''1'', ''0'')])"]
  by (simp add: names_ok_def word_ok_def isalnum_def isupper_def islower_def isdigit_def
      stream_line_def rows_ok_def row_ok_def number_ok_def row_line_def cell_text_def)

lemma example_focus:
  obtains f where "focus_wf f" "focus_entries f = []" "stream_names f = example_names"
    "num f = 2" "stream_level f ''Ring'' = Some 1"
proof -
  define f where "f = (named_focus example_names)\<lparr>matrix := Some (map Some (cell_values example_rows))\<rparr>"
  have "length (cell_values example_rows) = length example_names * length example_names"
    "\<forall>c\<in>set (cell_values example_rows). 0 \<le> pro_inter c"
    using cell_values_props(1,2)[OF example_config_ok(2)] example_config_ok by simp_all
  note w = named_focus_wf[OF example_config_ok(1) this, folded f_def]
  have "num f = 2" by (simp add: f_def named_focus_def example_names_def)
  then show thesis using that[of f] w by (simp add: stream_level_def example_names_def)
qed

text \<open>C9: A request for a stream type of the configuration first drops the entries of dead threads, then
  does what the matrix says for the newcomer's row and the owner's column: it takes the top of the
  stack (and everyone below is told what the matrix says for him), or it is inserted below the
  entries of lower level, or it is refused; the handle carries the new entry's id, which no live
  entry has, moved out of the stack's range when the answer is STOP. With a full stack the answer is NULL.\<close>

theorem focus_request_refines:
  assumes wf: "focus_wf f" and lv: "stream_level f name = Some i"
  shows "if length (live_entries f live) = CONFIG_MEDIA_FOCUS_STACK_DEPTH
    then \<exists>f'. media_focus_request_body (Some f) live tid f (Some name) (Some c) arg
      = Some (None, None, clear_events f live, f') \<and> focus_wf f' \<and> focus_entries f' = live_entries f live
    else \<exists>fid f' ret rt ev. 0 \<le> fid \<and> fid < int CONFIG_MEDIA_FOCUS_STACK_DEPTH
      \<and> fid \<notin> client_id ` set (live_entries f live)
      \<and> request_outcome f (request_id fid i tid (Some c) arg) (live_entries f live) = (ret, rt, ev, focus_entries f')
      \<and> media_focus_request_body (Some f) live tid f (Some name) (Some c) arg
          = Some (if ret < 0 then None else Some (ID_TO_HANDLE (if rt = MEDIA_FOCUS_STOP
                then fid + int CONFIG_MEDIA_FOCUS_STACK_DEPTH else fid)), Some rt, clear_events f live @ ev, f')
      \<and> focus_wf f'"
proof (cases "length (live_entries f live) = CONFIG_MEDIA_FOCUS_STACK_DEPTH")
  case True
  then show ?thesis using request_full[OF wf lv True] by simp
next
  case False
  obtain s where s: "stack f = Some s" "stack_wf s" "nat (max_size s) = CONFIG_MEDIA_FOCUS_STACK_DEPTH"
    "focus_entries f = entries s" using wf by (rule focus_wf_stack)
  have "length (live_entries f live) \<le> length (entries s)"
    by (simp add: live_entries_def s(4) spec_clear_def fs.length_promote del: length_entries)
  then have "length (live_entries f live) < CONFIG_MEDIA_FOCUS_STACK_DEPTH"
    using False fs.within_cap[OF s(2)] s(3) by simp
  from request_ok[OF wf lv this, of tid c arg] show ?thesis unfolding if_not_P[OF False] by blast
qed

lemma focus_request_refines_witness:
  "\<exists>f r f'. focus_wf f \<and> media_focus_request_body (Some f) (\<lambda>_. True) 5 f (Some ''Ring'') (Some 1) None = Some (r, Some MEDIA_FOCUS_PLAY, [], f')
     \<and> focus_wf f'"
proof -
  obtain f where f: "focus_wf f" "focus_entries f = []" "stream_level f ''Ring'' = Some 1"
    by (rule example_focus) blast
  have "live_entries f (\<lambda>_. True) = []" "clear_events f (\<lambda>_. True) = []"
    using all_live_entries[OF f(1), of "\<lambda>_. True"] f(2) by auto
  with focus_request_refines[OF f(1,3), of "\<lambda>_. True" 5 1 None] f(1)
  show ?thesis by (auto simp: request_outcome_def CONFIG_MEDIA_FOCUS_STACK_DEPTH_def)
qed

text \<open>C24: As long as no client's thread dies, releasing the handle of any granted request (whatever the
  suggestion was, STOP included) brings the stack back to the entries it had before the request.\<close>

theorem focus_request_abandon_roundtrip:
  assumes wf: "focus_wf f" and lv: "stream_level f name = Some i" and live: "\<forall>t. live t"
    and req: "media_focus_request_body (Some f) live tid f (Some name) (Some c) arg = Some (Some h, rt, ev, f1)"
  shows "\<exists>r ev' f2. media_focus_abandon_body (Some f1) live f1 h = Some (r, ev', f2)
    \<and> focus_wf f2 \<and> focus_entries f2 = focus_entries f"
proof -
  note le = all_live_entries[OF wf live]
  have room: "length (live_entries f live) < CONFIG_MEDIA_FOCUS_STACK_DEPTH"
  proof (rule ccontr)
    assume "\<not> ?thesis"
    moreover obtain s where "stack_wf s" "nat (max_size s) = CONFIG_MEDIA_FOCUS_STACK_DEPTH" "focus_entries f = entries s"
      using wf by (rule focus_wf_stack)
    ultimately have "length (live_entries f live) = CONFIG_MEDIA_FOCUS_STACK_DEPTH"
      using le fs.within_cap by (metis linorder_neqE_nat not_le)
    from request_full[OF wf lv this, of tid c arg] req show False by auto
  qed
  from request_ok[OF wf lv room, of tid c arg] req obtain fid ret rt' ev1 where
    o: "0 \<le> fid" "fid \<notin> client_id ` set (focus_entries f)"
      "request_outcome f (request_id fid i tid (Some c) arg) (focus_entries f) = (ret, rt', ev1, focus_entries f1)"
      "\<not> ret < 0" "h = ID_TO_HANDLE (if rt' = MEDIA_FOCUS_STOP then fid + int CONFIG_MEDIA_FOCUS_STACK_DEPTH else fid)"
      "focus_wf f1"
    by (auto simp: le split: if_splits)
  let ?c = "if rt' = MEDIA_FOCUS_STOP then fid + int CONFIG_MEDIA_FOCUS_STACK_DEPTH else fid"
  have hb: "int ID_SHIFT - 1 \<le> h" "HANDLE_TO_ID h = ?c"
    using handle_bound[of ?c] handle_decode[of ?c] o(1,5) by auto
  have "spec_delete ?c (focus_entries f1) = focus_entries f"
    using outcome_deleted[OF wf _ o(2) o(3) refl o(1)] o(4) by simp
  with abandon_ok[OF o(6) hb(1), of live] all_live_entries[OF o(6) live] hb(2) show ?thesis by auto
qed

lemma focus_request_abandon_roundtrip_witness:
  "\<exists>f h ev f1 r ev' f2. media_focus_request_body (Some f) (\<lambda>_. True) 5 f (Some ''Ring'') (Some 1) None = Some (Some h, Some MEDIA_FOCUS_PLAY, ev, f1)
     \<and> media_focus_abandon_body (Some f1) (\<lambda>_. True) f1 h = Some (r, ev', f2) \<and> focus_entries f2 = []"
proof -
  obtain f where f: "focus_wf f" "focus_entries f = []" "stream_level f ''Ring'' = Some 1"
    by (rule example_focus) blast
  have "live_entries f (\<lambda>_. True) = []" using all_live_entries[OF f(1), of "\<lambda>_. True"] f(2) by auto
  with request_ok[OF f(1,3), of "\<lambda>_. True" 5 1 None] obtain h ev f1 where
    r: "media_focus_request_body (Some f) (\<lambda>_. True) 5 f (Some ''Ring'') (Some 1) None = Some (Some h, Some MEDIA_FOCUS_PLAY, ev, f1)"
    by (auto simp: request_outcome_def CONFIG_MEDIA_FOCUS_STACK_DEPTH_def suggestion_defs)
  from focus_request_abandon_roundtrip[OF f(1,3) _ r] r f(2) show ?thesis by fastforce
qed

lemma handler_request:
  assumes wf: "focus_wf f"
  shows "\<exists>h sg ev f'. media_focus_request_body (Some f) live tid f name (Some c) cookie = Some (h, sg, ev, f')
      \<and> focus_wf f' \<and> (h \<noteq> None \<longrightarrow> sg \<noteq> None)"
proof (cases name)
  case None
  then show ?thesis using wf by (simp add: media_focus_request_body_def)
next
  case (Some n)
  show ?thesis
  proof (cases "stream_level f n")
    case None
    then show ?thesis using request_unknown[OF wf None] wf Some by simp
  next
    case lv: (Some i)
    show ?thesis
    proof (cases "length (live_entries f live) = CONFIG_MEDIA_FOCUS_STACK_DEPTH")
      case True
      then show ?thesis using request_full[OF wf lv True] Some by fastforce
    next
      case False
      obtain s where s: "stack_wf s" "nat (max_size s) = CONFIG_MEDIA_FOCUS_STACK_DEPTH" "focus_entries f = entries s"
        using wf by (rule focus_wf_stack)
      have "length (live_entries f live) \<le> length (entries s)"
        by (simp add: live_entries_def s(3) spec_clear_def fs.length_promote del: length_entries)
      then have "length (live_entries f live) < CONFIG_MEDIA_FOCUS_STACK_DEPTH"
        using False fs.within_cap[OF s(1)] s(2) by simp
      from request_ok[OF wf lv this] Some show ?thesis by (metis option.distinct(1))
    qed
  qed
qed

lemma handler_peek:
  assumes wf: "focus_wf f"
  shows "\<exists>r res. (do { s \<leftarrow> stack f; (r, t) \<leftarrow> app_focus_stack_top s empty_focus_id;
      (if r < 0 then Some (r, [], [], f) else do { mem \<leftarrow> streams f;
         str \<leftarrow> (if focus_level t < 0 then None else c_string_at mem (nat (focus_level t) * STREAM_TYPE_LEN));
         Some (int (length str), take (len - 1) str, ([] :: focus_effect list), f) }) }) = Some (r, res, [], f)"
proof -
  obtain s where s: "stack f = Some s" "stack_wf s" "focus_entries f = entries s"
    using wf by (rule focus_wf_stack)
  obtain mem where mem: "streams f = Some mem" "\<forall>i<num f. c_string_at mem (i * STREAM_TYPE_LEN) \<noteq> None"
    using wf by (auto simp: focus_wf_def streams_ok_def)
  show ?thesis
  proof (cases "entries s")
    case Nil
    then show ?thesis using s top_spec[OF s(2)] by simp
  next
    case (Cons h t)
    then have "id_ok f h" using wf s(3) by (simp add: focus_wf_def)
    then have "0 \<le> focus_level h" "c_string_at mem (nat (focus_level h) * STREAM_TYPE_LEN) \<noteq> None"
      using mem(2) by (auto simp: id_ok_def)
    then show ?thesis using s top_spec[OF s(2)] Cons mem(1) by auto
  qed
qed

lemma focus_handler_total:
  assumes wf: "focus_wf f"
  shows "\<exists>r res eff f'. media_focus_handler (Some f) live tid (Some c) f cookie data name (Some cmd) len
      = Some (r, res, eff, f') \<and> focus_wf f'"
proof -
  have ab: "\<exists>r ev f'. media_focus_abandon_body (Some f) live f data = Some (r, ev, f') \<and> focus_wf f'"
    using abandon_ok[OF wf, of data live] abandon_bad_handle[of data "Some f" live f] wf
    by (cases "data < int ID_SHIFT - 1") fastforce+
  consider "cmd = ''ping''" | "cmd = ''request''" | "cmd = ''abandon''" | "cmd = ''dump''" | "cmd = ''peek''"
    | "cmd \<noteq> ''ping''" "cmd \<noteq> ''request''" "cmd \<noteq> ''abandon''" "cmd \<noteq> ''dump''" "cmd \<noteq> ''peek''" by blast
  then show ?thesis
  proof cases
    case 2
    with handler_request[OF wf, of live tid name c cookie] show ?thesis
      by (auto simp: media_focus_handler_def split: option.split)
  next
    case 3
    with ab show ?thesis by (auto simp: media_focus_handler_def)
  next
    case 5
    with handler_peek[OF wf, of len] wf show ?thesis by (auto simp: media_focus_handler_def)
  qed (use wf in \<open>simp_all add: media_focus_handler_def\<close>)
qed



end
