(* ===== verification/Media_Server.thy ===== *)
theory Media_Server
  imports Media_Parcel C_Lib
begin

text \<open>
  The server's connections, \<open>server/media_server.c\<close>: sixteen slots, each with the client's
  transport socket and the notification socket the client asks for, the partly received request
  and a pointer the command handlers keep on it.

  A connection pointer (the \<open>cookie\<close>) is the index of its slot. The mutex only serialises the
  uses of the notification socket, so the model has none. Sockets are parameters: \<open>net_open\<close> is
  what \<open>socket\<close> and \<open>connect\<close> to an address give, the events of a receive come with the call, and
  the field \<open>sends\<close> holds what the coming calls of \<open>media_parcel_send\<close> meet (everything is
  accepted when it is empty); \<open>wire\<close> records what was put on which socket. \<open>None\<close> is undefined
  behaviour, or for the receive loop that it does not return.
\<close>

section \<open>Connections\<close>

definition MEDIA_PARCEL_SEND :: nat where "MEDIA_PARCEL_SEND = 1"
definition MEDIA_PARCEL_SEND_ACK :: nat where "MEDIA_PARCEL_SEND_ACK = 2"
definition MEDIA_PARCEL_REPLY :: nat where "MEDIA_PARCEL_REPLY = 3"
definition MEDIA_PARCEL_CREATE_NOTIFY :: nat where "MEDIA_PARCEL_CREATE_NOTIFY = 4"
definition MEDIA_PARCEL_NOTIFY :: nat where "MEDIA_PARCEL_NOTIFY = 5"
definition MEDIA_SERVER_MAXCONN :: nat where "MEDIA_SERVER_MAXCONN = 16"

lemmas code_defs = MEDIA_PARCEL_SEND_def MEDIA_PARCEL_SEND_ACK_def MEDIA_PARCEL_REPLY_def
  MEDIA_PARCEL_CREATE_NOTIFY_def MEDIA_PARCEL_NOTIFY_def

record media_server_conn =
  tran_fd :: int
  notify_fd :: int
  parcel :: media_parcel
  offset :: nat
  data :: int

text \<open>\<open>inet_fd\<close> is \<open>None\<close> when the server is built without a port.\<close>

record media_server_priv =
  local_fd :: int
  rpmsg_fd :: int
  inet_fd :: "int option"
  conns :: "media_server_conn list"
  sends :: "send_event list list"
  wire :: "(int \<times> bytes) list"

definition conn :: "media_server_priv \<Rightarrow> nat \<Rightarrow> media_server_conn" where
  "conn s j = conns s ! j"

definition set_conn :: "nat \<Rightarrow> media_server_conn \<Rightarrow> media_server_priv \<Rightarrow> media_server_priv" where
  "set_conn j c s = s\<lparr>conns := (conns s)[j := c]\<rparr>"

definition net_send :: "int \<Rightarrow> nat \<Rightarrow> media_parcel \<Rightarrow> media_server_priv \<Rightarrow> (int \<times> media_server_priv) option" where
  \<comment> \<open>\<open>media_parcel_send(&p, fd, code, flags)\<close>\<close>
  "net_send fd code p s =
     (let (evs, rest) = (case sends s of [] \<Rightarrow> ([Sent 4294967296], []) | e # r \<Rightarrow> (e, r)) in
      do {
        (r, _, out, _) \<leftarrow> media_parcel_send p code evs;
        Some (r, s\<lparr>sends := rest, wire := wire s @ [(fd, out)]\<rparr>)
      })"

datatype sock_addr = Addr_local bytes | Addr_rpmsg bytes bytes

definition media_server_create_notify :: "(sock_addr \<Rightarrow> int) \<Rightarrow> bytes \<Rightarrow> media_parcel
    \<Rightarrow> (int \<times> media_parcel) option" where
  \<comment> \<open>\<open>local_cpu\<close> is \<open>CONFIG_RPMSG_LOCAL_CPUNAME\<close>; \<open>net_open\<close> cuts the names to the sizes of the
    address fields, as \<open>strlcpy\<close> does\<close>
  "media_server_create_notify net_open local_cpu p = do {
     (key, p1) \<leftarrow> media_parcel_read_string p;
     (cpu, p2) \<leftarrow> media_parcel_read_string p1;
     (case key of
        None \<Rightarrow> Some (-EINVAL, p2)
      | Some k \<Rightarrow> do {
          c \<leftarrow> cpu;
          Some (net_open (if c \<noteq> local_cpu then Addr_rpmsg k c else Addr_local k), p2)
        })
   }"

definition media_server_conn_close :: "nat \<Rightarrow> media_server_priv \<Rightarrow> media_server_priv" where
  "media_server_conn_close j s = set_conn j ((conn s j)\<lparr>tran_fd := -EPERM, offset := 0,
     parcel := media_parcel_deinit (parcel (conn s j))\<rparr>) s"

section \<open>Receiving requests\<close>

text \<open>
  The callback \<open>onreceive\<close> (the stub) gets the connection, the request and whether a reply is
  wanted; it changes the server and its own state \<open>'w\<close> and gives the reply it filled in.
\<close>

type_synonym 'w onreceive = "nat \<Rightarrow> media_parcel \<Rightarrow> media_parcel option \<Rightarrow> media_server_priv \<Rightarrow> 'w
  \<Rightarrow> (media_parcel option \<times> media_server_priv \<times> 'w) option"

definition stack_parcel :: media_parcel where
  \<comment> \<open>a parcel on the stack before its init; the bytes it happens to hold are never read\<close>
  "stack_parcel = \<lparr>prealloc = replicate 264 0, heap = None, next_pos = 0, cap = 0\<rparr>"

definition server_dispatch :: "(sock_addr \<Rightarrow> int) \<Rightarrow> bytes \<Rightarrow> 'w onreceive \<Rightarrow> nat \<Rightarrow> media_server_priv \<Rightarrow> 'w
    \<Rightarrow> (media_server_priv \<times> 'w) option" where
  \<comment> \<open>the switch of \<open>media_server_receive\<close> on the code of the parcel received\<close>
  "server_dispatch net_open local_cpu onreceive j s w =
     (let p = parcel (conn s j); code = media_parcel_get_code p in
      if code = MEDIA_PARCEL_SEND then do {
        (_, s1, w1) \<leftarrow> onreceive j p None s w;
        Some (s1, w1)
      }
      else if code = MEDIA_PARCEL_SEND_ACK then do {
        ack \<leftarrow> media_parcel_init stack_parcel;
        (out, s1, w1) \<leftarrow> onreceive j p (Some ack) s w;
        ack1 \<leftarrow> out;
        (_, s2) \<leftarrow> net_send (tran_fd (conn s j)) MEDIA_PARCEL_REPLY ack1 s1;
        Some (s2, w1)
      }
      else if code = MEDIA_PARCEL_CREATE_NOTIFY then do {
        (fd, p1) \<leftarrow> media_server_create_notify net_open local_cpu p;
        Some (set_conn j ((conn s j)\<lparr>notify_fd := fd, parcel := p1\<rparr>) s, w)
      }
      else Some (s, w))"

partial_function (option) receive_loop :: "allocator \<Rightarrow> (sock_addr \<Rightarrow> int) \<Rightarrow> bytes \<Rightarrow> 'w onreceive \<Rightarrow> nat
    \<Rightarrow> media_server_priv \<Rightarrow> 'w \<Rightarrow> recv_event list \<Rightarrow> (int \<times> media_server_priv \<times> 'w \<times> recv_event list) option" where
  "receive_loop alloc net_open local_cpu onreceive j s w evs =
     (case media_parcel_recv alloc (parcel (conn s j)) (Some (offset (conn s j))) evs of
        None \<Rightarrow> None
      | Some (ret, p, off, evs1) \<Rightarrow>
          let s1 = set_conn j ((conn s j)\<lparr>parcel := p, offset := off\<rparr>) s in
          if ret < 0 then Some (ret, s1, w, evs1)
          else (case server_dispatch net_open local_cpu onreceive j s1 w of
                  None \<Rightarrow> None
                | Some (s2, w2) \<Rightarrow>
                    (case media_parcel_reinit (parcel (conn s2 j)) of
                       None \<Rightarrow> None
                     | Some p3 \<Rightarrow>
                         receive_loop alloc net_open local_cpu onreceive j
                           (set_conn j ((conn s2 j)\<lparr>parcel := p3, offset := 0\<rparr>) s2) w2 evs1)))"

record revents =
  pollin :: bool
  pollerr :: bool
  pollhup :: bool

definition media_server_receive :: "allocator \<Rightarrow> (sock_addr \<Rightarrow> int) \<Rightarrow> bytes \<Rightarrow> 'w onreceive
    \<Rightarrow> int \<Rightarrow> revents \<Rightarrow> nat \<Rightarrow> media_server_priv \<Rightarrow> 'w \<Rightarrow> recv_event list
    \<Rightarrow> (int \<times> media_server_priv \<times> 'w) option" where
  "media_server_receive alloc net_open local_cpu onreceive fd revs j s w evs =
     (if fd \<le> 0 then Some (-EINVAL, s, w)
      else if pollerr revs then Some (0, media_server_conn_close j s, w)
      else do {
        (ret, s1, w1, _) \<leftarrow> receive_loop alloc net_open local_cpu onreceive j s w evs;
        Some (if pollin revs \<and> ret = -EPIPE \<or> pollhup revs
              then (0, media_server_conn_close j s1, w1) else (ret, s1, w1))
      })"

section \<open>Accepting connections\<close>

definition media_server_conn_init :: "media_server_conn \<Rightarrow> int \<Rightarrow> (bool \<times> media_server_conn) option" where
  "media_server_conn_init c fd =
     (if tran_fd c > 0 then Some (False, c)
      else let available = (if tran_fd c = 0 then True else notify_fd c \<le> 0) in
        if available then do {
          p \<leftarrow> media_parcel_init (parcel c);
          Some (True, c\<lparr>parcel := p, tran_fd := fd, data := 0, offset := 0\<rparr>)
        }
        else Some (False, c))"

fun accept_loop :: "media_server_conn list \<Rightarrow> int \<Rightarrow> (bool \<times> media_server_conn list) option" where
  "accept_loop [] fd = Some (False, [])"
| "accept_loop (c # cs) fd = do {
     (ok, c1) \<leftarrow> media_server_conn_init c fd;
     (if ok then Some (True, c1 # cs)
      else do { (ok', cs') \<leftarrow> accept_loop cs fd; Some (ok', c1 # cs') })
   }"

definition media_server_accept :: "int \<Rightarrow> bool \<Rightarrow> int \<Rightarrow> media_server_priv \<Rightarrow> (int \<times> media_server_priv) option" where
  \<comment> \<open>\<open>new_fd\<close> is what \<open>accept4\<close> returns, a negative errno for an error\<close>
  "media_server_accept fd any_revents new_fd s =
     (if fd \<le> 0 \<or> \<not> any_revents then Some (-EINVAL, s)
      else if new_fd < 0 then Some (new_fd, s)
      else do {
        (ok, cs) \<leftarrow> accept_loop (conns s) new_fd;
        Some (if ok then 0 else -EMFILE, s\<lparr>conns := cs\<rparr>)
      })"

section \<open>Creation, polling, notifications\<close>

datatype sock_family = Fam_local | Fam_rpmsg | Fam_inet

definition media_server_listen :: "(sock_family \<Rightarrow> int) \<Rightarrow> (sock_family \<Rightarrow> int) \<Rightarrow> (sock_family \<Rightarrow> int)
    \<Rightarrow> media_server_priv \<Rightarrow> sock_family \<Rightarrow> int \<times> media_server_priv" where
  \<comment> \<open>the results of \<open>socket\<close>, \<open>bind\<close> and \<open>listen\<close>, a negative errno for an error\<close>
  "media_server_listen sock bnd lst s family =
     (let fd = sock family in
      if fd < 0 then (fd, s)
      else let s1 = (case family of
          Fam_local \<Rightarrow> s\<lparr>local_fd := fd\<rparr>
        | Fam_inet \<Rightarrow> s\<lparr>inet_fd := Some fd\<rparr>
        | Fam_rpmsg \<Rightarrow> s\<lparr>rpmsg_fd := fd\<rparr>)
      in if bnd family < 0 then (bnd family, s1)
         else if lst family < 0 then (lst family, s1)
         else (0, s1))"

definition zero_conn :: media_server_conn where
  "zero_conn = \<lparr>tran_fd = 0, notify_fd = 0, parcel = stack_parcel, offset = 0, data = 0\<rparr>"

definition media_server_create :: "bool \<Rightarrow> bool \<Rightarrow> (sock_family \<Rightarrow> int) \<Rightarrow> (sock_family \<Rightarrow> int) \<Rightarrow> (sock_family \<Rightarrow> int)
    \<Rightarrow> media_server_priv option" where
  \<comment> \<open>whether the callback is given and memory available, whether a port is configured; NULL is \<open>None\<close>\<close>
  "media_server_create cb_and_mem with_port sock bnd lst =
     (if \<not> cb_and_mem then None
      else let s0 = \<lparr>local_fd = 0, rpmsg_fd = 0, inet_fd = (if with_port then Some 0 else None),
                     conns = replicate MEDIA_SERVER_MAXCONN zero_conn, sends = [], wire = []\<rparr>;
               (ret1, s1) = media_server_listen sock bnd lst s0 Fam_local;
               (ret2, s2) = media_server_listen sock bnd lst s1 Fam_rpmsg;
               (ret3, s3) = (if with_port then media_server_listen sock bnd lst s2 Fam_inet else (-1, s2))
           in if ret1 < 0 \<and> ret2 < 0 \<and> ret3 < 0 then None else Some s3)"

definition SAFE_CLOSE :: "int \<Rightarrow> int list \<times> int" where
  "SAFE_CLOSE fd = (if fd > 0 then ([fd], 0) else ([], fd))"

definition media_server_destroy :: "media_server_priv \<Rightarrow> int list" where
  \<comment> \<open>the descriptors closed, in order\<close>
  "media_server_destroy s =
     fst (SAFE_CLOSE (local_fd s)) @ fst (SAFE_CLOSE (rpmsg_fd s))
     @ (case inet_fd s of None \<Rightarrow> [] | Some fd \<Rightarrow> fst (SAFE_CLOSE fd))
     @ concat (map (\<lambda>c. (if tran_fd c > 0 then [tran_fd c] else [])
                      @ (if notify_fd c > 0 then [notify_fd c] else [])) (conns s))"

text \<open>
  The caller's two arrays have \<open>count\<close> elements; an entry is a descriptor and its connection,
  if it is one. Writing to index \<open>count\<close> or beyond is undefined behaviour.
\<close>

definition put_pollfd :: "int \<Rightarrow> int \<times> nat option \<Rightarrow> (int \<times> nat option) list \<Rightarrow> (int \<times> nat option) list option" where
  "put_pollfd count e acc = (if int (length acc) < count then Some (acc @ [e]) else None)"

definition listen_pollfd :: "int \<Rightarrow> int \<Rightarrow> (int \<times> nat option) list \<Rightarrow> (int \<times> nat option) list option" where
  "listen_pollfd count fd acc = (if fd > 0 then put_pollfd count (fd, None) acc else Some acc)"

fun conn_pollfds :: "int \<Rightarrow> nat \<Rightarrow> media_server_conn list \<Rightarrow> (int \<times> nat option) list
    \<Rightarrow> (int \<times> (int \<times> nat option) list) option" where
  "conn_pollfds count j [] acc = Some (int (length acc), acc)"
| "conn_pollfds count j (c # cs) acc =
     (if tran_fd c > 0 then do {
        acc1 \<leftarrow> put_pollfd count (tran_fd c, Some j) acc;
        (if int (length acc1) > count then Some (-EINVAL, acc1) else conn_pollfds count (j + 1) cs acc1)
      }
      else conn_pollfds count (j + 1) cs acc)"

definition media_server_get_pollfds :: "media_server_priv option \<Rightarrow> int
    \<Rightarrow> (int \<times> (int \<times> nat option) list) option" where
  "media_server_get_pollfds handle count = (case handle of
     None \<Rightarrow> Some (-EINVAL, [])
   | Some s \<Rightarrow>
       if count \<le> 2 then Some (-EINVAL, [])
       else do {
         a1 \<leftarrow> listen_pollfd count (local_fd s) [];
         a2 \<leftarrow> listen_pollfd count (rpmsg_fd s) a1;
         a3 \<leftarrow> (case inet_fd s of None \<Rightarrow> Some a2 | Some fd \<Rightarrow> listen_pollfd count fd a2);
         conn_pollfds count 0 (conns s) a3
       })"

definition media_server_poll_available :: "allocator \<Rightarrow> (sock_addr \<Rightarrow> int) \<Rightarrow> bytes \<Rightarrow> 'w onreceive
    \<Rightarrow> int \<Rightarrow> revents \<Rightarrow> int \<Rightarrow> nat option \<Rightarrow> media_server_priv \<Rightarrow> 'w \<Rightarrow> recv_event list
    \<Rightarrow> (int \<times> media_server_priv \<times> 'w) option" where
  "media_server_poll_available alloc net_open local_cpu onreceive fd revs new_fd cookie s w evs = (case cookie of
     Some j \<Rightarrow> media_server_receive alloc net_open local_cpu onreceive fd revs j s w evs
   | None \<Rightarrow> do {
       (r, s1) \<leftarrow> media_server_accept fd (pollin revs \<or> pollerr revs \<or> pollhup revs) new_fd s;
       Some (r, s1, w)
     })"

definition media_server_notify :: "media_server_priv \<Rightarrow> nat option \<Rightarrow> media_parcel \<Rightarrow> (int \<times> media_server_priv) option" where
  "media_server_notify s cookie p = (case cookie of
     None \<Rightarrow> Some (-EINVAL, s)
   | Some j \<Rightarrow>
       if notify_fd (conn s j) > 0 then net_send (notify_fd (conn s j)) MEDIA_PARCEL_NOTIFY p s
       else Some (-EINVAL, s))"

definition media_server_finalize :: "media_server_priv \<Rightarrow> nat option \<Rightarrow> media_server_priv" where
  "media_server_finalize s cookie = (case cookie of
     None \<Rightarrow> s
   | Some j \<Rightarrow>
       if notify_fd (conn s j) > 0
       then set_conn j ((conn s j)\<lparr>notify_fd := 0, data := 0, offset := 0\<rparr>) s else s)"

definition media_server_set_data :: "nat option \<Rightarrow> int \<Rightarrow> media_server_priv \<Rightarrow> media_server_priv" where
  "media_server_set_data cookie d s = (case cookie of
     None \<Rightarrow> s | Some j \<Rightarrow> set_conn j ((conn s j)\<lparr>data := d\<rparr>) s)"

definition media_server_get_data :: "media_server_priv \<Rightarrow> nat option \<Rightarrow> int" where
  "media_server_get_data s cookie = (case cookie of None \<Rightarrow> 0 | Some j \<Rightarrow> data (conn s j))"

section \<open>Projections\<close>

lemma conn_set_conn [conn_simps]:
  "conn (set_conn j c s) i = (if i = j \<and> j < length (conns s) then c else conn s i)"
  by (cases "j < length (conns s)") (auto simp: conn_def set_conn_def list_update_beyond)

lemma set_conn_fields [conn_simps]:
  "length (conns (set_conn j c s)) = length (conns s)" "sends (set_conn j c s) = sends s"
  "local_fd (set_conn j c s) = local_fd s" "rpmsg_fd (set_conn j c s) = rpmsg_fd s"
  "inet_fd (set_conn j c s) = inet_fd s" "wire (set_conn j c s) = wire s"
  by (simp_all add: set_conn_def)

lemma set_conn_set_conn [conn_simps]: "set_conn j c (set_conn j d s) = set_conn j c s"
  by (simp add: set_conn_def)

lemma update_wire [conn_simps]:
  "conn (s\<lparr>sends := e, wire := v\<rparr>) i = conn s i"
  by (simp add: conn_def)

section \<open>Slots\<close>

definition open_fds :: "media_server_conn \<Rightarrow> int list" where
  "open_fds c = (if tran_fd c > 0 then [tran_fd c] else []) @ (if notify_fd c > 0 then [notify_fd c] else [])"

definition all_fds :: "media_server_priv \<Rightarrow> int list" where
  "all_fds s = concat (map open_fds (conns s))"

text \<open>A slot that was never used has no notification socket; the parcels of all slots are usable.\<close>

definition slot_ok :: "media_server_conn \<Rightarrow> bool" where
  "slot_ok c \<longleftrightarrow> (tran_fd c = 0 \<longrightarrow> notify_fd c = 0) \<and> length (prealloc (parcel c)) = 264"

definition server_ok :: "media_server_priv \<Rightarrow> bool" where
  "server_ok s \<longleftrightarrow> (\<forall>c\<in>set (conns s). slot_ok c) \<and> distinct (all_fds s)"

lemma conn_init_cases:
  assumes "slot_ok c" "fd > 0"
  shows "(\<exists>c'. media_server_conn_init c fd = Some (True, c') \<and> open_fds c = [] \<and> open_fds c' = [fd]
        \<and> slot_ok c' \<and> data c' = 0 \<and> offset c' = 0 \<and> fresh_parcel (parcel c') \<and> tran_fd c' = fd)
    \<or> media_server_conn_init c fd = Some (False, c) \<and> open_fds c \<noteq> []"
proof -
  obtain q where q: "media_parcel_init (parcel c) = Some q" "fresh_parcel q"
    using assms(1) parcel_init_wf[of "parcel c"] init_fresh by (auto simp: slot_ok_def)
  then show ?thesis
    using assms by (auto simp: media_server_conn_init_def slot_ok_def open_fds_def Let_def fresh_parcel_def)
qed

lemma accept_loop_spec:
  assumes "\<forall>c\<in>set cs. slot_ok c" "fd > 0"
  shows "(\<exists>pre c post c'. cs = pre @ c # post \<and> accept_loop cs fd = Some (True, pre @ c' # post)
        \<and> (\<forall>d\<in>set pre. open_fds d \<noteq> []) \<and> open_fds c = [] \<and> open_fds c' = [fd] \<and> slot_ok c'
        \<and> data c' = 0 \<and> offset c' = 0 \<and> fresh_parcel (parcel c') \<and> tran_fd c' = fd)
    \<or> accept_loop cs fd = Some (False, cs) \<and> (\<forall>d\<in>set cs. open_fds d \<noteq> [])"
  using assms
proof (induction cs)
  case (Cons c cs)
  have sc: "slot_ok c" "\<forall>c\<in>set cs. slot_ok c" using Cons.prems by auto
  from conn_init_cases[OF sc(1) Cons.prems(2)] show ?case
  proof (elim disjE)
    assume "\<exists>c'. media_server_conn_init c fd = Some (True, c') \<and> open_fds c = [] \<and> open_fds c' = [fd]
        \<and> slot_ok c' \<and> data c' = 0 \<and> offset c' = 0 \<and> fresh_parcel (parcel c') \<and> tran_fd c' = fd"
    then obtain c' where c': "media_server_conn_init c fd = Some (True, c')" "open_fds c = []" "open_fds c' = [fd]"
      "slot_ok c'" "data c' = 0" "offset c' = 0" "fresh_parcel (parcel c')" "tran_fd c' = fd" by blast
    then show ?thesis by (intro disjI1 exI[of _ "[]"] exI[of _ c] exI[of _ cs] exI[of _ c']) simp
  next
    assume skip: "media_server_conn_init c fd = Some (False, c) \<and> open_fds c \<noteq> []"
    from Cons.IH[OF sc(2) Cons.prems(2)] show ?thesis
    proof (elim disjE)
      assume "\<exists>pre d post d'. cs = pre @ d # post \<and> accept_loop cs fd = Some (True, pre @ d' # post)
        \<and> (\<forall>d\<in>set pre. open_fds d \<noteq> []) \<and> open_fds d = [] \<and> open_fds d' = [fd] \<and> slot_ok d'
        \<and> data d' = 0 \<and> offset d' = 0 \<and> fresh_parcel (parcel d') \<and> tran_fd d' = fd"
      then obtain pre d post d' where "cs = pre @ d # post" "accept_loop cs fd = Some (True, pre @ d' # post)"
        "\<forall>d\<in>set pre. open_fds d \<noteq> []" "open_fds d = []" "open_fds d' = [fd]" "slot_ok d'"
        "data d' = 0" "offset d' = 0" "fresh_parcel (parcel d')" "tran_fd d' = fd" by blast
      then show ?thesis using skip
        by (intro disjI1 exI[of _ "c # pre"] exI[of _ d] exI[of _ post] exI[of _ d']) simp
    qed (use skip in simp_all)
  qed
qed simp

text \<open>Every change of one slot to fewer or fresh descriptors keeps the server's invariant.\<close>

lemma conns_split:
  "j < length (conns s) \<Longrightarrow> conns s = take j (conns s) @ conn s j # drop (Suc j) (conns s)"
  by (simp add: conn_def id_take_nth_drop)

lemma set_conn_split:
  "j < length (conns s) \<Longrightarrow> conns (set_conn j c s) = take j (conns s) @ c # drop (Suc j) (conns s)"
  by (simp add: set_conn_def upd_conv_take_nth_drop)

lemma distinct_replace:
  "distinct (a @ x @ b) \<Longrightarrow> distinct y \<Longrightarrow> set y \<subseteq> set x \<union> N \<Longrightarrow>
   N \<inter> (set a \<union> set x \<union> set b) = {} \<Longrightarrow> distinct (a @ y @ b)"
  by auto

lemma server_ok_set_conn:
  assumes ok: "server_ok s" and j: "j < length (conns s)" and c: "slot_ok c" "distinct (open_fds c)"
    and sub: "set (open_fds c) \<subseteq> set (open_fds (conn s j)) \<union> new" "new \<inter> set (all_fds s) = {}"
  shows "server_ok (set_conn j c s)"
proof -
  let ?a = "take j (conns s)" and ?b = "drop (Suc j) (conns s)"
  have d: "distinct (concat (map open_fds ?a) @ open_fds (conn s j) @ concat (map open_fds ?b))"
  proof -
    have "all_fds s = concat (map open_fds ?a) @ open_fds (conn s j) @ concat (map open_fds ?b)"
      unfolding all_fds_def by (subst conns_split[OF j]) simp
    with ok show ?thesis by (simp add: server_ok_def)
  qed
  have f: "set (all_fds s) = set (concat (map open_fds ?a)) \<union> set (open_fds (conn s j)) \<union> set (concat (map open_fds ?b))"
    unfolding all_fds_def by (subst conns_split[OF j]) auto
  have "all_fds (set_conn j c s) = concat (map open_fds ?a) @ open_fds c @ concat (map open_fds ?b)"
    by (simp add: all_fds_def set_conn_split[OF j])
  moreover have "distinct (concat (map open_fds ?a) @ open_fds c @ concat (map open_fds ?b))"
    by (rule distinct_replace[OF d c(2) sub(1)]) (use sub(2) f in simp)
  moreover have "\<forall>d\<in>set (conns (set_conn j c s)). slot_ok d"
    using ok c(1) by (auto simp: set_conn_split[OF j] server_ok_def dest: in_set_takeD in_set_dropD)
  ultimately show ?thesis by (simp add: server_ok_def)
qed

lemma prealloc_init: "media_parcel_init p = Some q \<Longrightarrow> length (prealloc q) = length (prealloc p)"
  by (auto simp: media_parcel_init_def set_code_def set_len_def set_chunk_def chunk_def bind_Some_iff
      dest!: length_write_at split: option.splits)

lemma prealloc_read_string: "media_parcel_read_string p = Some (r, q) \<Longrightarrow> prealloc q = prealloc p"
  by (auto simp: media_parcel_read_string_def media_parcel_read_def bind_Some_iff Let_def
      split: if_splits option.splits)

lemma prealloc_create_notify:
  "media_server_create_notify net_open local_cpu p = Some (fd, q) \<Longrightarrow> prealloc q = prealloc p"
  by (auto simp: media_server_create_notify_def bind_Some_iff dest!: prealloc_read_string split: option.splits)

text \<open>
  The life of the slots: connections are accepted on descriptors nothing else uses, closed, given
  a notification socket and finalized.
\<close>

inductive slot_step :: "media_server_priv \<Rightarrow> media_server_priv \<Rightarrow> bool" where
  accept: "0 < fd \<Longrightarrow> 0 < new_fd \<Longrightarrow> new_fd \<notin> set (all_fds s) \<Longrightarrow>
    media_server_accept fd True new_fd s = Some (r, s') \<Longrightarrow> slot_step s s'"
| close: "j < length (conns s) \<Longrightarrow> slot_step s (media_server_conn_close j s)"
| notify: "j < length (conns s) \<Longrightarrow> 0 < tran_fd (conn s j) \<Longrightarrow>
    media_server_create_notify net_open local_cpu (parcel (conn s j)) = Some (fd, p1) \<Longrightarrow>
    fd \<notin> set (all_fds s) \<Longrightarrow>
    slot_step s (set_conn j ((conn s j)\<lparr>notify_fd := fd, parcel := p1\<rparr>) s)"
| finalize: "j < length (conns s) \<Longrightarrow> slot_step s (media_server_finalize s (Some j))"
| set_data: "slot_step s (media_server_set_data (Some j) d s)"

inductive_cases slot_stepE: "slot_step s s'"

lemma open_fds_cases: "slot_ok c \<Longrightarrow> distinct (open_fds c) \<longleftrightarrow> tran_fd c \<le> 0 \<or> tran_fd c \<noteq> notify_fd c"
  by (auto simp: open_fds_def)

lemma server_ok_slot:
  assumes "server_ok s" "j < length (conns s)"
  shows "slot_ok (conn s j)" "distinct (open_fds (conn s j))"
proof -
  have m: "conn s j \<in> set (conns s)" using assms(2) by (simp add: conn_def)
  then show "slot_ok (conn s j)" using assms(1) by (simp add: server_ok_def)
  obtain a b where "conns s = a @ conn s j # b" using split_list[OF m] by blast
  then have "all_fds s = concat (map open_fds a) @ open_fds (conn s j) @ concat (map open_fds b)"
    by (simp add: all_fds_def)
  then show "distinct (open_fds (conn s j))" using assms(1) by (simp add: server_ok_def)
qed

lemma accept_ok:
  assumes ok: "server_ok s" and fd: "0 < fd" "0 < new_fd" "new_fd \<notin> set (all_fds s)"
  shows "(\<exists>j c'. j < length (conns s) \<and> open_fds (conn s j) = [] \<and> (\<forall>i<j. open_fds (conn s i) \<noteq> [])
      \<and> media_server_accept fd True new_fd s = Some (0, set_conn j c' s) \<and> open_fds c' = [new_fd]
      \<and> slot_ok c' \<and> data c' = 0 \<and> offset c' = 0 \<and> fresh_parcel (parcel c') \<and> tran_fd c' = new_fd)
    \<or> media_server_accept fd True new_fd s = Some (-EMFILE, s) \<and> (\<forall>c\<in>set (conns s). open_fds c \<noteq> [])"
proof -
  have "\<forall>c\<in>set (conns s). slot_ok c" using ok by (simp add: server_ok_def)
  from accept_loop_spec[OF this fd(2)] show ?thesis
  proof (elim disjE)
    assume "\<exists>pre c post c'. conns s = pre @ c # post \<and> accept_loop (conns s) new_fd = Some (True, pre @ c' # post)
        \<and> (\<forall>d\<in>set pre. open_fds d \<noteq> []) \<and> open_fds c = [] \<and> open_fds c' = [new_fd] \<and> slot_ok c'
        \<and> data c' = 0 \<and> offset c' = 0 \<and> fresh_parcel (parcel c') \<and> tran_fd c' = new_fd"
    then obtain pre c post c' where h: "conns s = pre @ c # post" "accept_loop (conns s) new_fd = Some (True, pre @ c' # post)"
      "\<forall>d\<in>set pre. open_fds d \<noteq> []" "open_fds c = []" "open_fds c' = [new_fd]" "slot_ok c'"
      "data c' = 0" "offset c' = 0" "fresh_parcel (parcel c')" "tran_fd c' = new_fd" by blast
    have "conn s i \<in> set pre" if "i < length pre" for i using that h(1) by (simp add: conn_def nth_append)
    moreover have "s\<lparr>conns := pre @ c' # post\<rparr> = set_conn (length pre) c' s" by (simp add: set_conn_def h(1))
    ultimately show ?thesis using h fd
      by (intro disjI1 exI[of _ "length pre"] exI[of _ c']) (simp add: media_server_accept_def conn_def)
  next
    assume "accept_loop (conns s) new_fd = Some (False, conns s) \<and> (\<forall>d\<in>set (conns s). open_fds d \<noteq> [])"
    then show ?thesis using fd by (simp add: media_server_accept_def)
  qed
qed

lemma slot_step_ok: "slot_step s s' \<Longrightarrow> server_ok s \<Longrightarrow> server_ok s'"
proof (erule slot_stepE)
  fix fd new_fd r
  assume ok: "server_ok s" and a: "0 < fd" "0 < new_fd" "new_fd \<notin> set (all_fds s)"
    "media_server_accept fd True new_fd s = Some (r, s')"
  from accept_ok[OF ok a(1-3)] show "server_ok s'"
  proof (elim disjE exE conjE)
    fix j c'
    assume c: "j < length (conns s)" "open_fds (conn s j) = []" "open_fds c' = [new_fd]" "slot_ok c'"
      "media_server_accept fd True new_fd s = Some (0, set_conn j c' s)"
    have "server_ok (set_conn j c' s)"
      by (rule server_ok_set_conn[OF ok c(1,4), where new = "{new_fd}"]) (use c(2,3) a(3) in auto)
    then show ?thesis using c(5) a(4) by simp
  qed (use a(4) ok in simp)
next
  fix j
  assume ok: "server_ok s" and j: "j < length (conns s)" and s': "s' = media_server_conn_close j s"
  show "server_ok s'"
    unfolding s' media_server_conn_close_def
    by (rule server_ok_set_conn[OF ok j, where new = "{}"])
      (use server_ok_slot[OF ok j] in \<open>auto simp: slot_ok_def open_fds_def media_parcel_deinit_def\<close>)
next
  fix j net_open local_cpu fd p1
  assume ok: "server_ok s" and j: "j < length (conns s)" and tr: "0 < tran_fd (conn s j)"
    and nt: "media_server_create_notify net_open local_cpu (parcel (conn s j)) = Some (fd, p1)"
    and fd: "fd \<notin> set (all_fds s)"
    and s': "s' = set_conn j ((conn s j)\<lparr>notify_fd := fd, parcel := p1\<rparr>) s"
  have "set (open_fds (conn s j)) \<subseteq> set (all_fds s)"
    unfolding all_fds_def using nth_mem[OF j] by (auto simp: conn_def)
  then have "tran_fd (conn s j) \<noteq> fd" using fd tr by (auto simp: open_fds_def)
  then show "server_ok s'"
    unfolding s' by (intro server_ok_set_conn[OF ok j, where new = "{fd}"])
      (use server_ok_slot[OF ok j] prealloc_create_notify[OF nt] tr fd in \<open>auto simp: slot_ok_def open_fds_def\<close>)
next
  fix j
  assume ok: "server_ok s" and j: "j < length (conns s)" and s': "s' = media_server_finalize s (Some j)"
  show "server_ok s'"
  proof (cases "notify_fd (conn s j) > 0")
    case True
    then show ?thesis
      unfolding s' media_server_finalize_def using server_ok_slot[OF ok j]
      by (auto intro!: server_ok_set_conn[OF ok j, where new = "{}"] simp: slot_ok_def open_fds_def)
  qed (use ok s' in \<open>simp add: media_server_finalize_def\<close>)
next
  fix j d
  assume ok: "server_ok s" and s': "s' = media_server_set_data (Some j) d s"
  show "server_ok s'"
  proof (cases "j < length (conns s)")
    case True
    then show ?thesis
      unfolding s' media_server_set_data_def using server_ok_slot[OF ok True]
      by (auto intro!: server_ok_set_conn[OF ok True, where new = "{}"] simp: slot_ok_def open_fds_def)
  next
    case False
    then have "set_conn j ((conn s j)\<lparr>data := d\<rparr>) s = s" by (simp add: set_conn_def list_update_beyond)
    with ok s' show ?thesis by (simp add: media_server_set_data_def)
  qed
qed

section \<open>Polling\<close>

definition listen_fds :: "media_server_priv \<Rightarrow> (int \<times> nat option) list" where
  "listen_fds s = map (\<lambda>fd. (fd, None)) (filter (\<lambda>fd. fd > 0)
     ([local_fd s, rpmsg_fd s] @ (case inet_fd s of None \<Rightarrow> [] | Some fd \<Rightarrow> [fd])))"

definition conn_fds :: "nat \<Rightarrow> media_server_conn list \<Rightarrow> (int \<times> nat option) list" where
  "conn_fds j cs = map (\<lambda>(i, c). (tran_fd c, Some i)) (filter (\<lambda>(i, c). tran_fd c > 0) (zip [j..<j + length cs] cs))"

lemma conn_fds_Cons: "conn_fds j (c # cs) = (if tran_fd c > 0 then [(tran_fd c, Some j)] else []) @ conn_fds (Suc j) cs"
  by (simp add: conn_fds_def upt_conv_Cons del: upt_Suc)

lemma conn_pollfds_spec:
  "int (length acc) \<le> count \<Longrightarrow> conn_pollfds count j cs acc =
     (if int (length acc + length (conn_fds j cs)) \<le> count
      then Some (int (length acc + length (conn_fds j cs)), acc @ conn_fds j cs) else None)"
proof (induction cs arbitrary: j acc)
  case Nil
  then show ?case by (simp add: conn_fds_def)
next
  case (Cons c cs)
  show ?case
  proof (cases "tran_fd c > 0 \<and> int (length acc) < count")
    case True
    then have "int (length (acc @ [(tran_fd c, Some j)])) \<le> count" by simp
    from Cons.IH[OF this, of "Suc j"] True show ?thesis by (simp add: put_pollfd_def conn_fds_Cons)
  next
    case False
    then show ?thesis using Cons by (auto simp: put_pollfd_def conn_fds_Cons)
  qed
qed

lemma pollfds_spec:
  assumes "2 < count"
  shows "media_server_get_pollfds (Some s) count =
    (let fds = listen_fds s @ conn_fds 0 (conns s) in
     if int (length fds) \<le> count then Some (int (length fds), fds) else None)"
proof -
  have l: "length (listen_fds s) \<le> 3" by (auto simp: listen_fds_def split: option.split)
  have "do {
         a1 \<leftarrow> listen_pollfd count (local_fd s) [];
         a2 \<leftarrow> listen_pollfd count (rpmsg_fd s) a1;
         (case inet_fd s of None \<Rightarrow> Some a2 | Some fd \<Rightarrow> listen_pollfd count fd a2) } = Some (listen_fds s)"
    using assms by (auto simp: listen_pollfd_def put_pollfd_def listen_fds_def split: option.split)
  then have "media_server_get_pollfds (Some s) count = conn_pollfds count 0 (conns s) (listen_fds s)"
    using assms by (auto simp: media_server_get_pollfds_def bind_Some_iff split: option.splits)
  moreover have "int (length (listen_fds s)) \<le> count" using l assms by linarith
  ultimately show ?thesis by (simp add: conn_pollfds_spec Let_def)
qed

section \<open>The interface of the request handler\<close>

text \<open>
  What the server relies on when it hands a request to the stub: the handler \<open>h\<close> returns, fills
  the reply in, keeps its own invariant, and leaves alone the requests being received.
\<close>

definition same_requests :: "media_server_priv \<Rightarrow> media_server_priv \<Rightarrow> bool" where
  "same_requests s s' \<longleftrightarrow> length (conns s') = length (conns s)
     \<and> (\<forall>i<length (conns s). parcel (conn s' i) = parcel (conn s i) \<and> tran_fd (conn s' i) = tran_fd (conn s i))
     \<and> (sends s = [] \<longrightarrow> sends s' = [])"

lemma same_requests_refl [simp]: "same_requests s s"
  by (simp add: same_requests_def)

lemma same_requests_trans: "same_requests s t \<Longrightarrow> same_requests t u \<Longrightarrow> same_requests s u"
  by (simp add: same_requests_def)

lemma net_send_unbounded:
  assumes "sends s = []" "parcel_wf p" "code < 4294967296"
  shows "net_send fd code p s = Some (0, s\<lparr>wire := wire s @ [(fd, parcel_wire code (parcel_data p))]\<rparr>)"
proof -
  obtain q where q: "set_code code p = Some q"
    "read_at 0 (u32 (8 + chunk_len p)) (chunk q) = Some (parcel_wire code (parcel_data p))"
    using wire_of_send[OF assms(2,3)] by blast
  let ?b = "parcel_wire code (parcel_data p)"
  have "length ?b = 8 + chunk_len p" using wf_length_data[OF assms(2)] by (simp add: parcel_wire_def)
  also have "\<dots> \<le> 4294967296" using assms(2) by (simp add: parcel_wf_def parcel_shape_def)
  finally have l: "length ?b \<le> 4294967296" .
  moreover have "?b \<noteq> []" by (simp add: parcel_wire_def le_bytes_4)
  ultimately have "send_loop ?b [Sent 4294967296] [] = Some (0, ?b, [])" by (cases ?b) auto
  then show ?thesis
    using assms(1) q by (simp add: net_send_def media_parcel_send_def parcel_consts Let_def)
qed

lemma same_requests_send:
  "same_requests s (s\<lparr>wire := v\<rparr>)" "same_requests s (s\<lparr>sends := [], wire := v\<rparr>)"
  by (simp_all add: same_requests_def conn_def)

locale request_handler =
  fixes serve :: "'h \<Rightarrow> 'w onreceive"
    and adm :: "'h \<Rightarrow> bool"
    and okreq :: "'h \<Rightarrow> bytes \<Rightarrow> bool"
    and winv :: "'w \<Rightarrow> bool"
  assumes serve_law: "adm h \<Longrightarrow> okreq h (parcel_data p) \<Longrightarrow> winv w \<Longrightarrow> j < length (conns s) \<Longrightarrow> sends s = [] \<Longrightarrow>
      parcel_wf p \<Longrightarrow> next_pos p = 0 \<Longrightarrow> (\<And>a. ack = Some a \<Longrightarrow> fresh_parcel a) \<Longrightarrow>
      \<exists>out s' w'. serve h j p ack s w = Some (out, s', w') \<and> same_requests s s' \<and> winv w'
        \<and> (ack \<noteq> None \<longrightarrow> (\<exists>q. out = Some q \<and> parcel_wf q))"
begin

lemma dispatch_ok:
  assumes h: "adm h" "okreq h (parcel_data (parcel (conn s j)))" "winv w" and j: "j < length (conns s)"
    and s: "sends s = []" and p: "parcel_wf (parcel (conn s j))" "next_pos (parcel (conn s j)) = 0"
    and code: "chunk_code (parcel (conn s j)) \<noteq> MEDIA_PARCEL_CREATE_NOTIFY"
  shows "\<exists>s' w'. server_dispatch net_open local_cpu (serve h) j s w = Some (s', w')
    \<and> same_requests s s' \<and> winv w'"
proof -
  obtain ack where ack: "media_parcel_init stack_parcel = Some ack" "fresh_parcel ack"
    using parcel_init_wf[of stack_parcel] init_fresh[of stack_parcel] by (auto simp: stack_parcel_def)
  consider "chunk_code (parcel (conn s j)) = MEDIA_PARCEL_SEND"
    | "chunk_code (parcel (conn s j)) = MEDIA_PARCEL_SEND_ACK"
    | "chunk_code (parcel (conn s j)) \<noteq> MEDIA_PARCEL_SEND"
      "chunk_code (parcel (conn s j)) \<noteq> MEDIA_PARCEL_SEND_ACK" by blast
  then show ?thesis
  proof cases
    case 1
    with serve_law[OF h j s p, of None] show ?thesis
      by (auto simp: server_dispatch_def media_parcel_get_code_def)
  next
    case 2
    obtain q s' w' where r: "serve h j (parcel (conn s j)) (Some ack) s w = Some (Some q, s', w')"
      "same_requests s s'" "winv w'" "parcel_wf q"
      using serve_law[OF h j s p, of "Some ack"] ack(2) by auto
    have s': "sends s' = []" using r(2) s by (simp add: same_requests_def)
    have "net_send (tran_fd (conn s j)) MEDIA_PARCEL_REPLY q s' =
        Some (0, s'\<lparr>wire := wire s' @ [(tran_fd (conn s j), parcel_wire MEDIA_PARCEL_REPLY (parcel_data q))]\<rparr>)"
      by (rule net_send_unbounded[OF s' r(4)]) (simp add: code_defs)
    with 2 r ack show ?thesis
      using same_requests_trans[OF r(2) same_requests_send(1)]
      by (auto simp: server_dispatch_def media_parcel_get_code_def code_defs Let_def)
  next
    case 3
    with code h show ?thesis by (auto simp: server_dispatch_def media_parcel_get_code_def Let_def)
  qed
qed

end

text \<open>
  The requests of a stream handled one after the other: each is dispatched as a whole, with its
  code and payload, on the state the previous one left.
\<close>

inductive served :: "(sock_addr \<Rightarrow> int) \<Rightarrow> bytes \<Rightarrow> 'w onreceive \<Rightarrow> nat \<Rightarrow> (nat \<times> bytes) list
    \<Rightarrow> media_server_priv \<Rightarrow> 'w \<Rightarrow> media_server_priv \<Rightarrow> 'w \<Rightarrow> bool" for net_open local_cpu onreceive j where
  none: "served net_open local_cpu onreceive j [] s w s w"
| one: "parcel_wf p \<Longrightarrow> chunk_code p = code \<Longrightarrow> parcel_data p = payload \<Longrightarrow> next_pos p = 0 \<Longrightarrow>
    server_dispatch net_open local_cpu onreceive j
      (set_conn j ((conn s j)\<lparr>parcel := p, offset := 8 + length payload\<rparr>) s) w = Some (s1, w1) \<Longrightarrow>
    fresh_parcel q \<Longrightarrow>
    served net_open local_cpu onreceive j ms (set_conn j ((conn s1 j)\<lparr>parcel := q, offset := 0\<rparr>) s1) w1 s' w' \<Longrightarrow>
    served net_open local_cpu onreceive j ((code, payload) # ms) s w s' w'"

inductive_simps served_Nil: "served net_open local_cpu onreceive j [] s w s' w'"

definition alloc_total :: "allocator \<Rightarrow> bool" where
  "alloc_total alloc \<longleftrightarrow> alloc_ok alloc \<and> (\<forall>n. alloc n \<noteq> None)"

lemma grow_total:
  "alloc_total alloc \<Longrightarrow> media_parcel_grow alloc p c n = Some (r, q) \<Longrightarrow> r = 0"
  unfolding media_parcel_grow_def Let_def alloc_total_def
  by (auto simp: bind_Some_iff split: if_splits option.splits) (metis option.distinct(1))+

lemma recv_total:
  assumes "alloc_total alloc" "recv_loop alloc p off len evs = Some (r, p', off', evs')"
    "\<forall>ev\<in>set evs. \<exists>bs. ev = Received bs"
  shows "r \<noteq> -ENOMEM"
  using assms(2,3)
proof (induction "sum_list (map event_size evs)" arbitrary: p off len evs rule: less_induct)
  case less
  define want where "want = (if off < MEDIA_PARCEL_HEADER_LEN then MEDIA_PARCEL_HEADER_LEN - off
        else u32 (4294967296 + len - off))"
  obtain res evs1 where sr: "sock_recv evs want = (res, evs1)" by (cases "sock_recv evs want")
  note unf = less.prems(1)[unfolded recv_loop.simps[of alloc p off] Let_def, folded want_def, unfolded sr]
  have sub: "set evs1 \<subseteq> {ev. \<exists>bs. ev = Received bs}"
    using sr less.prems(2)
  proof (induction evs want rule: sock_recv.induct)
    case (4 bs evs n)
    then show ?case by (auto split: if_splits)
  qed auto
  show ?case
  proof (cases res)
    case (Inl e)
    then have "e = EAGAIN \<or> Recv_error e \<in> set evs" using sock_recv_error[of evs want e evs1] sr by auto
    then have "e = EAGAIN" using less.prems(2) by auto
    with unf Inl show ?thesis by (auto split: if_splits)
  next
    case (Inr bs)
    show ?thesis
    proof (cases "bs = []")
      case False
      then have sm: "sum_list (map event_size evs1) < sum_list (map event_size evs)"
        using sock_recv_consumes[of evs want bs evs1] sr Inr by simp
      have sub': "\<forall>ev\<in>set evs1. \<exists>bs. ev = Received bs" using sub by auto
      show ?thesis
        using unf Inr False less.hyps[OF sm _ sub']
          grow_total[OF assms(1), of _ _ _ "-ENOMEM"]
        by (auto simp: Let_def split: if_splits option.splits)
    qed (use unf Inr in \<open>auto split: if_splits\<close>)
  qed
qed

lemma sock_recv_events:
  "sock_recv evs n = (res, evs1) \<Longrightarrow> \<forall>ev\<in>set evs. \<exists>bs. ev = Received bs \<Longrightarrow>
   \<forall>ev\<in>set evs1. \<exists>bs. ev = Received bs"
  by (induction evs n rule: sock_recv.induct) (auto split: if_splits)

lemma recv_events:
  assumes "recv_loop alloc p off len evs = Some (r, p', off', evs')" "\<forall>ev\<in>set evs. \<exists>bs. ev = Received bs"
  shows "\<forall>ev\<in>set evs'. \<exists>bs. ev = Received bs"
  using assms
proof (induction "sum_list (map event_size evs)" arbitrary: p off len evs rule: less_induct)
  case less
  define want where "want = (if off < MEDIA_PARCEL_HEADER_LEN then MEDIA_PARCEL_HEADER_LEN - off
        else u32 (4294967296 + len - off))"
  obtain res evs1 where sr: "sock_recv evs want = (res, evs1)" by (cases "sock_recv evs want")
  note unf = less.prems(1)[unfolded recv_loop.simps[of alloc p off] Let_def, folded want_def, unfolded sr]
  note sub = sock_recv_events[OF sr less.prems(2)]
  show ?case
  proof (cases "\<exists>bs. res = Inr bs \<and> bs \<noteq> []")
    case True
    then obtain bs where bs: "res = Inr bs" "bs \<noteq> []" by blast
    then have sm: "sum_list (map event_size evs1) < sum_list (map event_size evs)"
      using sock_recv_consumes[of evs want bs evs1] sr by simp
    show ?thesis
      using unf bs less.hyps[OF sm _ sub] less.prems(2) sub
      by (auto simp: Let_def split: if_splits option.splits)
  next
    case False
    then show ?thesis using unf less.prems(2) sub by (cases res) (auto split: if_splits)
  qed
qed

section \<open>The receive loop serves whole requests in order\<close>

context request_handler
begin

lemma receive_one:
  assumes al: "alloc_total alloc" and m: "wire_message m" and inv: "recv_inv m (parcel (conn s j)) (offset (conn s j))"
    and str: "stream evs @ future = drop (offset (conn s j)) m @ rest" and ev: "\<forall>ev\<in>set evs. \<exists>bs. ev = Received bs"
  shows "\<exists>r p off evs1. media_parcel_recv alloc (parcel (conn s j)) (Some (offset (conn s j))) evs = Some (r, p, off, evs1)
    \<and> recv_inv m p off \<and> stream evs1 @ future = drop off m @ rest \<and> (\<forall>ev\<in>set evs1. \<exists>bs. ev = Received bs)
    \<and> (off = length m \<and> r = 0 \<or> off < length m \<and> r = -EAGAIN \<and> evs1 = [])"
proof -
  have al': "alloc_ok alloc" using al by (simp add: alloc_total_def)
  let ?p = "parcel (conn s j)" and ?off = "offset (conn s j)"
  have lm: "length m = 8 + wire_len m" "length m < 4294967296"
    using m by (auto simp: wire_message_def max_payload_def)
  have sh: "8 \<le> length (chunk ?p)" using inv by (simp add: recv_inv_def parcel_shape_def)
  have c1: "?off < 8 \<longrightarrow> 8 \<le> u32 (8 + chunk_len ?p)"
    using chunk_len_small[OF sh] inv by (auto simp: recv_inv_def)
  have c2: "8 \<le> ?off \<longrightarrow> u32 (8 + chunk_len ?p) = length m"
  proof
    assume o: "8 \<le> ?off"
    have "take ?off (chunk ?p) = take ?off m" using inv by (simp add: recv_inv_def)
    then have "take 8 (take ?off (chunk ?p)) = take 8 (take ?off m)" by simp
    then have "take 8 (chunk ?p) = take 8 m" using o by (simp add: min_def)
    then have "chunk_len ?p = wire_len m" by (simp add: chunk_len_def wire_len_def take_drop)
    with lm show "u32 (8 + chunk_len ?p) = length m" by simp
  qed
  obtain r p off evs1 where r: "recv_loop alloc ?p ?off (u32 (8 + chunk_len ?p)) evs = Some (r, p, off, evs1)"
    "r = -ENOMEM \<or> recv_inv m p off \<and> stream evs1 @ future = drop off m @ rest
      \<and> (off = length m \<and> r = 0 \<or> off < length m \<and> (r = -EPIPE \<and> Closed \<in> set evs
         \<or> (\<exists>e. r = -e \<and> Recv_error e \<in> set evs) \<or> r = -EAGAIN \<and> evs1 = []))"
    using recv_loop_inv[OF m al' inv str c1 c2] by blast
  have "r \<noteq> -ENOMEM" by (rule recv_total[OF al r(1) ev])
  moreover have "\<forall>ev\<in>set evs1. \<exists>bs. ev = Received bs" using recv_events[OF r(1) ev] .
  moreover have "Closed \<notin> set evs" "\<And>e. Recv_error e \<notin> set evs" using ev by auto
  ultimately show ?thesis
    using r by (auto simp: media_parcel_recv_def parcel_consts)
qed

text \<open>A request the server can be handed: short enough, not a request for a notification socket.\<close>

definition request_ok :: "'h \<Rightarrow> nat \<times> bytes \<Rightarrow> bool" where
  "request_ok h m \<longleftrightarrow> 2 * length (snd m) \<le> max_payload \<and> fst m < 4294967296
     \<and> fst m \<noteq> MEDIA_PARCEL_CREATE_NOTIFY \<and> okreq h (snd m)"

lemma receive_serves:
  assumes "alloc_total alloc" "adm h" "winv w" "j < length (conns s)" "sends s = []"
    "\<forall>m\<in>set ms. request_ok h m" "wire_message m'" "k < length m'"
    "recv_inv (hd (map (\<lambda>(c, d). parcel_wire c d) ms @ [m'])) (parcel (conn s j)) (offset (conn s j))"
    "stream evs @ drop k m' = drop (offset (conn s j)) (concat (map (\<lambda>(c, d). parcel_wire c d) ms @ [m']))"
    "\<forall>ev\<in>set evs. \<exists>bs. ev = Received bs"
  shows "\<exists>s1 p w'. receive_loop alloc net_open local_cpu (serve h) j s w evs
      = Some (-EAGAIN, set_conn j ((conn s1 j)\<lparr>parcel := p, offset := k\<rparr>) s1, w', [])
    \<and> served net_open local_cpu (serve h) j ms s w s1 w' \<and> recv_inv m' p k \<and> winv w'
    \<and> length (conns s1) = length (conns s)"
  using assms
proof (induction ms arbitrary: s w evs)
  case Nil
  have "stream evs @ drop k m' = drop (offset (conn s j)) m' @ []" using Nil.prems(10) by simp
  from receive_one[OF Nil.prems(1,7) _ this Nil.prems(11)] Nil.prems(9) obtain r p off evs1 where
    r: "media_parcel_recv alloc (parcel (conn s j)) (Some (offset (conn s j))) evs = Some (r, p, off, evs1)"
      "recv_inv m' p off" "stream evs1 @ drop k m' = drop off m'"
      "off = length m' \<and> r = 0 \<or> off < length m' \<and> r = -EAGAIN \<and> evs1 = []" by auto
  have "off \<noteq> length m'" using r(3) Nil.prems(8) by auto
  then have o: "off < length m'" "r = -EAGAIN" "evs1 = []" using r(4) by auto
  then have "length m' - k = length m' - off" using arg_cong[OF r(3), of length] by simp
  then have "off = k" using o(1) Nil.prems(8) by simp
  with r o show ?case
    by (intro exI[of _ s] exI[of _ p] exI[of _ w])
      (simp add: receive_loop.simps[of alloc net_open local_cpu "serve h" j s w evs] served_Nil Nil.prems(3))
next
  case (Cons m ms)
  obtain c d where m: "m = (c, d)" by (cases m)
  let ?m = "parcel_wire c d" and ?rest = "concat (map (\<lambda>(c, d). parcel_wire c d) ms @ [m'])"
  have rq: "request_ok h (c, d)" using Cons.prems(6) m by simp
  then have len: "2 * length d \<le> max_payload" and code: "c < 4294967296" "c \<noteq> MEDIA_PARCEL_CREATE_NOTIFY"
    and okd: "okreq h d" by (auto simp: request_ok_def)
  note wire = wire_message_parcel[OF len, of c]
  have inv: "recv_inv ?m (parcel (conn s j)) (offset (conn s j))" using Cons.prems(9) m by simp
  have ol: "offset (conn s j) \<le> length ?m" using inv by (simp add: recv_inv_def)
  have str: "stream evs @ drop k m' = drop (offset (conn s j)) ?m @ ?rest"
    using Cons.prems(10) m ol by simp
  from receive_one[OF Cons.prems(1) wire(1) inv str Cons.prems(11)] obtain r p off evs1 where
    r: "media_parcel_recv alloc (parcel (conn s j)) (Some (offset (conn s j))) evs = Some (r, p, off, evs1)"
      "recv_inv ?m p off" "stream evs1 @ drop k m' = drop off ?m @ ?rest"
      "\<forall>ev\<in>set evs1. \<exists>bs. ev = Received bs"
      "off = length ?m \<and> r = 0 \<or> off < length ?m \<and> r = -EAGAIN \<and> evs1 = []" by blast
  have "\<not> (off < length ?m \<and> evs1 = [])"
  proof
    assume a: "off < length ?m \<and> evs1 = []"
    then have "length m' - k = length ?m - off + length ?rest"
      using arg_cong[OF r(3), of length] by simp
    moreover have "length m' \<le> length ?rest" by simp
    ultimately show False using a by linarith
  qed
  then have o: "off = length ?m" "r = 0" using r(5) by auto
  have rp: "parcel_wf p" "chunk_code p = c" "parcel_data p = d" "next_pos p = 0"
    using received_parcel[OF wire(1), of p] r(2) o wire(3) wire(4)[OF code(1)] by auto
  let ?s1 = "set_conn j ((conn s j)\<lparr>parcel := p, offset := off\<rparr>) s"
  have j: "j < length (conns s)" by (rule Cons.prems(4))
  have pc: "parcel (conn ?s1 j) = p" using j by (simp add: conn_simps)
  obtain s2 w2 where d2: "server_dispatch net_open local_cpu (serve h) j ?s1 w = Some (s2, w2)"
    "same_requests ?s1 s2" "winv w2"
    using dispatch_ok[of h ?s1 j w net_open local_cpu] Cons.prems(2,3,5) j pc rp okd code(2)
    by (auto simp: conn_simps)
  have s2: "length (conns s2) = length (conns s)" "sends s2 = []" "parcel (conn s2 j) = p"
    using d2(2) j pc Cons.prems(5) by (auto simp: same_requests_def conn_simps)
  have "length (prealloc p) = 264" using rp(1) by (simp add: parcel_wf_def parcel_shape_def)
  then obtain q where q: "media_parcel_init p = Some q" "fresh_parcel q"
    using parcel_init_wf[of p] init_fresh[of p] by auto
  let ?s3 = "set_conn j ((conn s2 j)\<lparr>parcel := q, offset := 0\<rparr>) s2"
  have step: "receive_loop alloc net_open local_cpu (serve h) j s w evs
      = receive_loop alloc net_open local_cpu (serve h) j ?s3 w2 evs1"
    using r(1) o d2(1) s2(3) q(1)
    by (simp add: receive_loop.simps[of alloc net_open local_cpu "serve h" j s w evs]
        media_parcel_reinit_def media_parcel_deinit_def)
  have c3: "parcel (conn ?s3 j) = q" "offset (conn ?s3 j) = 0" "length (conns ?s3) = length (conns s)" "sends ?s3 = []"
    using s2 j by (simp_all add: conn_simps)
  have "\<exists>s1 p w'. receive_loop alloc net_open local_cpu (serve h) j ?s3 w2 evs1
      = Some (-EAGAIN, set_conn j ((conn s1 j)\<lparr>parcel := p, offset := k\<rparr>) s1, w', [])
    \<and> served net_open local_cpu (serve h) j ms ?s3 w2 s1 w' \<and> recv_inv m' p k \<and> winv w'
    \<and> length (conns s1) = length (conns ?s3)"
    using Cons.prems d2(3) r(3,4) o c3 fresh_recv_inv[OF q(2)] by (intro Cons.IH) simp_all
  then obtain s4 p4 w4 where ih: "receive_loop alloc net_open local_cpu (serve h) j ?s3 w2 evs1
      = Some (-EAGAIN, set_conn j ((conn s4 j)\<lparr>parcel := p4, offset := k\<rparr>) s4, w4, [])"
    "served net_open local_cpu (serve h) j ms ?s3 w2 s4 w4" "recv_inv m' p4 k" "winv w4"
    "length (conns s4) = length (conns s)" using c3(3) by auto
  have "served net_open local_cpu (serve h) j ((c, d) # ms) s w s4 w4"
    using d2(1) o(1) wire(5) by (intro served.one[OF rp(1,2,3,4) _ q(2) ih(2)]) simp
  with ih step m show ?case by auto
qed

end

section \<open>Properties\<close>

lemma zero_conn_ok: "slot_ok zero_conn" "open_fds zero_conn = []"
  by (simp_all add: slot_ok_def zero_conn_def stack_parcel_def open_fds_def)

lemma listen_conns: "conns (snd (media_server_listen sock bnd lst s f)) = conns s"
  by (auto simp: media_server_listen_def Let_def split: sock_family.splits)

lemma create_ok:
  assumes "media_server_create b p sock bnd lst = Some s"
  shows "server_ok s" "conns s = replicate MEDIA_SERVER_MAXCONN zero_conn"
proof -
  show c: "conns s = replicate MEDIA_SERVER_MAXCONN zero_conn"
  proof -
    have l: "conns t = conns t0" if "media_server_listen sock bnd lst t0 f = (r, t)" for f r t t0
      using listen_conns[of sock bnd lst t0 f] that by simp
    show ?thesis
      using assms unfolding media_server_create_def Let_def
      by (simp split: if_splits prod.splits) (auto dest!: l)
  qed
  show "server_ok s" using zero_conn_ok by (simp add: server_ok_def all_fds_def c)
qed

lemma slot_reachable_ok: "slot_step\<^sup>*\<^sup>* s s' \<Longrightarrow> server_ok s \<Longrightarrow> server_ok s'"
  by (induction rule: rtranclp_induct) (auto dest: slot_step_ok)

text \<open>C25: In every state a server reaches from its creation by accepting connections, dropping them,
  opening notification sockets and finalizing them, no descriptor is held twice; and the next
  connection gets the first slot that holds neither a transport nor a notification socket, with
  its data and offset reset and an empty parcel, while every other slot is left alone; only when
  all sixteen are occupied is it turned away, with \<open>-EMFILE\<close> and no change.\<close>

theorem server_accept_first_free:
  assumes "media_server_create b p sock bnd lst = Some s0" "slot_step\<^sup>*\<^sup>* s0 s"
    and "0 < fd" "0 < new_fd" "new_fd \<notin> set (all_fds s)"
  shows "distinct (all_fds s)
    \<and> ((\<exists>j c. j < length (conns s) \<and> open_fds (conn s j) = [] \<and> (\<forall>i<j. open_fds (conn s i) \<noteq> [])
          \<and> media_server_accept fd True new_fd s = Some (0, set_conn j c s)
          \<and> tran_fd c = new_fd \<and> open_fds c = [new_fd] \<and> data c = 0 \<and> offset c = 0 \<and> fresh_parcel (parcel c))
      \<or> media_server_accept fd True new_fd s = Some (-EMFILE, s) \<and> (\<forall>c\<in>set (conns s). open_fds c \<noteq> []))"
proof -
  have ok: "server_ok s" by (rule slot_reachable_ok[OF assms(2) create_ok(1)[OF assms(1)]])
  from accept_ok[OF ok assms(3-5)] have
    "(\<exists>j c. j < length (conns s) \<and> open_fds (conn s j) = [] \<and> (\<forall>i<j. open_fds (conn s i) \<noteq> [])
          \<and> media_server_accept fd True new_fd s = Some (0, set_conn j c s)
          \<and> tran_fd c = new_fd \<and> open_fds c = [new_fd] \<and> data c = 0 \<and> offset c = 0 \<and> fresh_parcel (parcel c))
      \<or> media_server_accept fd True new_fd s = Some (-EMFILE, s) \<and> (\<forall>c\<in>set (conns s). open_fds c \<noteq> [])"
    by blast
  with ok show ?thesis by (simp add: server_ok_def)
qed

text \<open>A server listening on the local socket, and the same with one closing slot.\<close>

definition local_server :: media_server_priv where
  "local_server = \<lparr>local_fd = 3, rpmsg_fd = 0, inet_fd = None,
     conns = replicate MEDIA_SERVER_MAXCONN zero_conn, sends = [], wire = []\<rparr>"

lemma local_server_created:
  "media_server_create True False (\<lambda>f. if f = Fam_local then 3 else -EPERM) (\<lambda>_. 0) (\<lambda>_. 0) = Some local_server"
  by (simp add: media_server_create_def media_server_listen_def local_server_def Let_def)

lemma server_accept_first_free_witness:
  "\<exists>c. media_server_accept 3 True 5 local_server = Some (0, set_conn 0 c local_server) \<and> tran_fd c = 5"
proof -
  have fds: "all_fds local_server = []" "open_fds (conn local_server i) = []" if "i < 16" for i
    using that zero_conn_ok(2) by (simp_all add: all_fds_def local_server_def conn_def MEDIA_SERVER_MAXCONN_def)
  have "5 \<notin> set (all_fds local_server)" using fds(1)[of 0] by simp
  from server_accept_first_free[OF local_server_created rtranclp.rtrancl_refl _ _ this, of 3]
  have d: "(\<exists>j c. j < length (conns local_server) \<and> (\<forall>i<j. open_fds (conn local_server i) \<noteq> [])
          \<and> media_server_accept 3 True 5 local_server = Some (0, set_conn j c local_server) \<and> tran_fd c = 5)
      \<or> (\<forall>c\<in>set (conns local_server). open_fds c \<noteq> [])" by auto
  moreover have "\<not> (\<forall>c\<in>set (conns local_server). open_fds c \<noteq> [])"
    using zero_conn_ok(2) by (simp add: local_server_def MEDIA_SERVER_MAXCONN_def)
  ultimately obtain j c where j: "\<forall>i<j. open_fds (conn local_server i) \<noteq> []"
    "media_server_accept 3 True 5 local_server = Some (0, set_conn j c local_server)" "tran_fd c = 5" by blast
  have "j = 0" using j(1) fds(2)[of 0] by auto
  with j show ?thesis by blast
qed

text \<open>With room for the descriptors the poll call gets exactly the open listening sockets and the
  transport sockets of the connected slots, each with its connection; with arrays shorter than
  that (but longer than two) the bound is tested only after the write, so the code writes past
  their end.\<close>

theorem server_pollfds_exact:
  assumes "2 < count"
  shows "media_server_get_pollfds (Some s) count =
    (if int (length (listen_fds s) + length (conn_fds 0 (conns s))) \<le> count
     then Some (int (length (listen_fds s) + length (conn_fds 0 (conns s))), listen_fds s @ conn_fds 0 (conns s))
     else None)"
  using pollfds_spec[OF assms, of s] by (simp add: Let_def)

lemma server_pollfds_exact_witness:
  "media_server_get_pollfds (Some (local_server\<lparr>conns := [zero_conn\<lparr>tran_fd := 5\<rparr>, zero_conn,
     zero_conn\<lparr>tran_fd := 6\<rparr>]\<rparr>)) 3 = Some (3, [(3, None), (5, Some 0), (6, Some 2)])
   \<and> media_server_get_pollfds (Some (local_server\<lparr>conns := map (\<lambda>fd. zero_conn\<lparr>tran_fd := fd\<rparr>) [5, 6, 7]\<rparr>)) 3 = None"
  by (simp add: server_pollfds_exact listen_fds_def conn_fds_def local_server_def zero_conn_def upt_rec)

end
