(* ===== verification/Media_Stub.thy ===== *)
theory Media_Stub
  imports Media_Server
begin

text \<open>
  The unmarshalling of requests and the marshalling of replies and events,
  \<open>server/media_stub.c\<close>.

  The handlers of the five modules are a record of functions, \<open>None\<close> for a module the build
  leaves out; \<open>'w\<close> is the state the modules keep. A response buffer is its bytes, zeroed by
  \<open>zalloc\<close>; it is printed up to its first zero, and having none there is undefined behaviour.
  The strings handed to a handler point into the request, which no handler changes.
\<close>

section \<open>Modules\<close>

definition MEDIA_ID_GRAPH :: "32 word" where "MEDIA_ID_GRAPH = 1"
definition MEDIA_ID_POLICY :: "32 word" where "MEDIA_ID_POLICY = 2"
definition MEDIA_ID_PLAYER :: "32 word" where "MEDIA_ID_PLAYER = 3"
definition MEDIA_ID_RECORDER :: "32 word" where "MEDIA_ID_RECORDER = 4"
definition MEDIA_ID_SESSION :: "32 word" where "MEDIA_ID_SESSION = 5"
definition MEDIA_ID_FOCUS :: "32 word" where "MEDIA_ID_FOCUS = 6"

lemmas media_ids = MEDIA_ID_GRAPH_def MEDIA_ID_POLICY_def MEDIA_ID_PLAYER_def MEDIA_ID_RECORDER_def
  MEDIA_ID_SESSION_def MEDIA_ID_FOCUS_def

text \<open>What a handler gives: its result, the response buffer, the server and the module state.\<close>

type_synonym 'w served_call = "media_server_priv \<Rightarrow> 'w \<Rightarrow> (int \<times> bytes option \<times> media_server_priv \<times> 'w) option"

record 'w modules =
  policy_handler :: "(nat option \<Rightarrow> bytes option \<Rightarrow> bytes option \<Rightarrow> bytes option \<Rightarrow> 32 word
      \<Rightarrow> bytes option \<Rightarrow> 32 word \<Rightarrow> 'w served_call) option"
  focus_handler :: "(nat option \<Rightarrow> bytes option \<Rightarrow> bytes option \<Rightarrow> bytes option \<Rightarrow> 32 word \<Rightarrow> 'w served_call) option"
  graph_handler :: "(bytes option \<Rightarrow> bytes option \<Rightarrow> bytes option \<Rightarrow> bytes option \<Rightarrow> 32 word \<Rightarrow> 'w served_call) option"
  player_handler :: "(nat option \<Rightarrow> bytes option \<Rightarrow> bytes option \<Rightarrow> bytes option \<Rightarrow> bytes option \<Rightarrow> 32 word
      \<Rightarrow> 'w served_call) option"
  recorder_handler :: "(nat option \<Rightarrow> bytes option \<Rightarrow> bytes option \<Rightarrow> bytes option \<Rightarrow> bytes option \<Rightarrow> 32 word
      \<Rightarrow> 'w served_call) option"
  session_handler :: "(nat option \<Rightarrow> bytes option \<Rightarrow> bytes option \<Rightarrow> bytes option \<Rightarrow> bytes option \<Rightarrow> 32 word
      \<Rightarrow> 'w served_call) option"

section \<open>Variables filled by a scan\<close>

text \<open>A variable keeps its initial value, NULL or 0, when the scan stops before it.\<close>

fun scanned_string :: "sval list \<Rightarrow> nat \<Rightarrow> bytes option" where
  "scanned_string vs i = (if i < length vs then (case vs ! i of SString s \<Rightarrow> s | _ \<Rightarrow> None) else None)"

fun scanned_int :: "sval list \<Rightarrow> nat \<Rightarrow> 32 word" where
  "scanned_int vs i = (if i < length vs then (case vs ! i of S32 v \<Rightarrow> v | _ \<Rightarrow> 0) else 0)"

declare scanned_string.simps [simp del] scanned_int.simps [simp del]

definition c_str :: "bytes option \<Rightarrow> bytes option option" where
  \<comment> \<open>reading a buffer as a C string; the outer \<open>None\<close> is reading past its end\<close>
  "c_str buf = (case buf of
     None \<Rightarrow> Some None
   | Some b \<Rightarrow> if 0 \<in> set b then Some (Some (takeWhile (\<lambda>c. c \<noteq> 0) b)) else None)"

definition response_buffer :: "allocator \<Rightarrow> 32 word \<Rightarrow> bytes option" where
  \<comment> \<open>\<open>if (len > 0) response = zalloc(len)\<close>; the allocator says whether there is memory\<close>
  "response_buffer alloc len = (if 0 < sint len
     then map_option (\<lambda>_. replicate (nat (sint len)) 0) (alloc (nat (sint len))) else None)"

section \<open>Requests\<close>

definition stub_switch :: "allocator \<Rightarrow> 'w modules \<Rightarrow> nat \<Rightarrow> 32 word \<Rightarrow> media_parcel \<Rightarrow> 'w served_call" where
  \<comment> \<open>the switch of \<open>media_stub_onreceive\<close> on the module the request names\<close>
  "stub_switch alloc h j ident p s w =
    (let cookie = Some j; default = Some (-ENOSYS, None, s, w) in
     if ident = MEDIA_ID_POLICY then (case policy_handler h of None \<Rightarrow> default | Some f \<Rightarrow> do {
         (_, v, _) \<leftarrow> media_parcel_read_scanf p ''%s%s%s%i%i'' [True, True, True, True, True];
         let len = scanned_int v 4;
         f cookie (scanned_string v 0) (scanned_string v 1) (scanned_string v 2) (scanned_int v 3)
           (response_buffer alloc len) len s w
       })
     else if ident = MEDIA_ID_FOCUS then (case focus_handler h of None \<Rightarrow> default | Some f \<Rightarrow> do {
         (_, v, _) \<leftarrow> media_parcel_read_scanf p ''%s%s%i'' [True, True, True];
         let len = scanned_int v 2;
         f cookie (scanned_string v 0) (scanned_string v 1) (response_buffer alloc len) len s w
       })
     else if ident = MEDIA_ID_GRAPH then (case graph_handler h of None \<Rightarrow> default | Some f \<Rightarrow> do {
         (_, v, _) \<leftarrow> media_parcel_read_scanf p ''%s%s%s%i'' [True, True, True, True];
         let len = scanned_int v 3;
         f (scanned_string v 0) (scanned_string v 1) (scanned_string v 2) (response_buffer alloc len) len s w
       })
     else if ident = MEDIA_ID_PLAYER then (case player_handler h of None \<Rightarrow> default | Some f \<Rightarrow> do {
         (_, v, _) \<leftarrow> media_parcel_read_scanf p ''%s%s%s%i'' [True, True, True, True];
         let len = scanned_int v 3;
         f cookie (scanned_string v 0) (scanned_string v 1) (scanned_string v 2) (response_buffer alloc len) len s w
       })
     else if ident = MEDIA_ID_RECORDER then (case recorder_handler h of None \<Rightarrow> default | Some f \<Rightarrow> do {
         (_, v, _) \<leftarrow> media_parcel_read_scanf p ''%s%s%s%i'' [True, True, True, True];
         let len = scanned_int v 3;
         f cookie (scanned_string v 0) (scanned_string v 1) (scanned_string v 2) (response_buffer alloc len) len s w
       })
     else if ident = MEDIA_ID_SESSION then (case session_handler h of None \<Rightarrow> default | Some f \<Rightarrow> do {
         (_, v, _) \<leftarrow> media_parcel_read_scanf p ''%s%s%s%i'' [True, True, True, True];
         let len = scanned_int v 3;
         f cookie (scanned_string v 0) (scanned_string v 1) (scanned_string v 2) (response_buffer alloc len) len s w
       })
     else default)"

definition media_stub_onreceive :: "allocator \<Rightarrow> (64 word \<Rightarrow> 32 word) \<Rightarrow> 'w modules \<Rightarrow> 'w onreceive" where
  "media_stub_onreceive alloc narrow h j inp out s w = do {
     (_, v, p) \<leftarrow> media_parcel_read_int32 inp True;
     (ret, response, s1, w1) \<leftarrow> stub_switch alloc h j (scanned_int v 0) p s w;
     (case out of
        None \<Rightarrow> Some (None, s1, w1)
      | Some a \<Rightarrow> do {
          r \<leftarrow> c_str response;
          (_, a1) \<leftarrow> media_parcel_append_printf alloc narrow a ''%i%s'' [VInt32 (word_of_int ret), VString r];
          Some (Some a1, s1, w1)
        })
   }"

section \<open>Events and calls between modules\<close>

definition media_stub_notify_finalize :: "media_server_priv \<Rightarrow> nat option option \<Rightarrow> media_server_priv \<times> nat option option" where
  \<comment> \<open>the argument points to a cookie, which is cleared\<close>
  "media_stub_notify_finalize s cookie = (case cookie of
     None \<Rightarrow> (s, None)
   | Some c \<Rightarrow> (media_server_finalize s c, Some None))"

definition media_stub_notify_event :: "allocator \<Rightarrow> (64 word \<Rightarrow> 32 word) \<Rightarrow> media_server_priv \<Rightarrow> nat option
    \<Rightarrow> 32 word \<Rightarrow> 32 word \<Rightarrow> bytes option \<Rightarrow> media_server_priv option" where
  "media_stub_notify_event alloc narrow s cookie event result extra = do {
     notify \<leftarrow> media_parcel_init stack_parcel;
     (_, notify1) \<leftarrow> media_parcel_append_printf alloc narrow notify ''%i%i%s'' [VInt32 event, VInt32 result, VString extra];
     (_, s1) \<leftarrow> media_server_notify s cookie notify1;
     Some s1
   }"

definition at_sign :: byte where "at_sign = 64"

definition c_bytes :: "string \<Rightarrow> bytes" where
  "c_bytes s = map of_char s"

definition media_stub_set_stream_status :: "'w modules \<Rightarrow> bytes \<Rightarrow> bool \<Rightarrow> 'w served_call" where
  \<comment> \<open>a name without \<open>@\<close> makes the code compute an address from NULL\<close>
  "media_stub_set_stream_status h name active s w = (case policy_handler h of
     None \<Rightarrow> Some (-ENOSYS, None, s, w)
   | Some f \<Rightarrow>
       let cmd = c_bytes (if active then ''include'' else ''exclude'') in
       if at_sign \<notin> set name then None
       else f None (Some (c_bytes ''ActiveStreams'')) (Some cmd)
              (Some (tl (dropWhile (\<lambda>c. c \<noteq> at_sign) name))) 1 None 0 s w)"

definition media_stub_get_stream_name :: "'w modules \<Rightarrow> bytes option \<Rightarrow> bytes option \<Rightarrow> 32 word \<Rightarrow> 'w served_call" where
  "media_stub_get_stream_name h stream_name buf len s w = (case policy_handler h of
     None \<Rightarrow> Some (-ENOSYS, buf, s, w)
   | Some f \<Rightarrow> f None stream_name (Some (c_bytes ''get_string'')) None 0 buf len s w)"

definition media_stub_process_command :: "'w modules \<Rightarrow> bytes option \<Rightarrow> bytes option \<Rightarrow> bytes option \<Rightarrow> 'w served_call" where
  "media_stub_process_command h target cmd arg s w = (case graph_handler h of
     None \<Rightarrow> Some (-ENOSYS, None, s, w)
   | Some f \<Rightarrow> f target cmd arg None 0 s w)"

section \<open>What a request means\<close>

text \<open>
  The reference: a request names its module, and a target, a command, an argument, a flag and the
  size of the response wanted; each module's requests carry a part of them. \<open>served_as\<close> is the
  call of the handler the stub makes for it, with empty strings read as NULL.
\<close>

record request =
  req_module :: "32 word"
  req_target :: "bytes option"
  req_cmd :: "bytes option"
  req_arg :: "bytes option"
  req_apply :: "32 word"
  req_len :: "32 word"

definition request_fmt :: "32 word \<Rightarrow> string" where
  "request_fmt ident = (if ident = MEDIA_ID_POLICY then ''%s%s%s%i%i''
     else if ident = MEDIA_ID_FOCUS then ''%s%s%i'' else ''%s%s%s%i'')"

definition request_args :: "request \<Rightarrow> varg list" where
  "request_args r = (if req_module r = MEDIA_ID_POLICY
       then [VString (req_target r), VString (req_cmd r), VString (req_arg r), VInt32 (req_apply r), VInt32 (req_len r)]
     else if req_module r = MEDIA_ID_FOCUS
       then [VString (req_target r), VString (req_cmd r), VInt32 (req_len r)]
     else [VString (req_target r), VString (req_cmd r), VString (req_arg r), VInt32 (req_len r)])"

definition request_bytes :: "(64 word \<Rightarrow> 32 word) \<Rightarrow> request \<Rightarrow> bytes" where
  "request_bytes narrow r = fmt_bytes narrow (''%i'' @ request_fmt (req_module r)) (VInt32 (req_module r) # request_args r)"

definition c_arg :: "bytes option \<Rightarrow> bool" where
  "c_arg s \<longleftrightarrow> (\<forall>b. s = Some b \<longrightarrow> 0 \<notin> set b)"

definition request_wf :: "request \<Rightarrow> bool" where
  "request_wf r \<longleftrightarrow> c_arg (req_target r) \<and> c_arg (req_cmd r) \<and> c_arg (req_arg r)"

definition norm :: "bytes option \<Rightarrow> bytes option" where
  "norm s = (if s = Some [] then None else s)"

definition call_module :: "'f option \<Rightarrow> ('f \<Rightarrow> 'w served_call) \<Rightarrow> 'w served_call" where
  "call_module m k s w = (case m of None \<Rightarrow> Some (-ENOSYS, None, s, w) | Some f \<Rightarrow> k f s w)"

definition served_as :: "allocator \<Rightarrow> 'w modules \<Rightarrow> nat \<Rightarrow> request \<Rightarrow> 'w served_call" where
  "served_as alloc h j r =
    (let t = norm (req_target r); c = norm (req_cmd r); a = norm (req_arg r); n = req_len r;
         b = response_buffer alloc n in
     if req_module r = MEDIA_ID_POLICY then call_module (policy_handler h) (\<lambda>f. f (Some j) t c a (req_apply r) b n)
     else if req_module r = MEDIA_ID_FOCUS then call_module (focus_handler h) (\<lambda>f. f (Some j) t c b n)
     else if req_module r = MEDIA_ID_GRAPH then call_module (graph_handler h) (\<lambda>f. f t c a b n)
     else if req_module r = MEDIA_ID_PLAYER then call_module (player_handler h) (\<lambda>f. f (Some j) t c a b n)
     else if req_module r = MEDIA_ID_RECORDER then call_module (recorder_handler h) (\<lambda>f. f (Some j) t c a b n)
     else if req_module r = MEDIA_ID_SESSION then call_module (session_handler h) (\<lambda>f. f (Some j) t c a b n)
     else (\<lambda>s w. Some (-ENOSYS, None, s, w)))"

lemma request_match:
  "request_wf r \<Longrightarrow> fmt_match (request_fmt (req_module r)) (request_args r)"
  "request_wf r \<Longrightarrow> fmt_match (''%i'' @ request_fmt (req_module r)) (VInt32 (req_module r) # request_args r)"
  by (auto simp: request_wf_def request_fmt_def request_args_def conversions_def c_arg_def)

lemma request_bytes_split:
  "request_bytes narrow r = le_bytes 4 (unat (req_module r)) @ fmt_bytes narrow (request_fmt (req_module r)) (request_args r)"
  by (simp add: request_bytes_def conversions_def)

lemma request_vals:
  "fmt_vals narrow (request_fmt (req_module r)) (request_args r) =
    (if req_module r = MEDIA_ID_POLICY then [SString (norm (req_target r)), SString (norm (req_cmd r)),
        SString (norm (req_arg r)), S32 (req_apply r), S32 (req_len r)]
     else if req_module r = MEDIA_ID_FOCUS then [SString (norm (req_target r)), SString (norm (req_cmd r)), S32 (req_len r)]
     else [SString (norm (req_target r)), SString (norm (req_cmd r)), SString (norm (req_arg r)), S32 (req_len r)])"
  by (simp add: request_fmt_def request_args_def conversions_def norm_def)

lemma read_module:
  assumes "parcel_wf p" "parcel_rest p = le_bytes 4 (unat m) @ tail"
  shows "\<exists>q. media_parcel_read_int32 p True = Some (0, [S32 m], q) \<and> parcel_wf q \<and> parcel_rest q = tail"
  using scan_conv_val[OF _ _ assms(1), of "CHR ''i''" "VInt32 m" "\<lambda>_. 0" tail 0 "[]"] assms(2)
  by (auto simp: conversions_def scan_conv_def bind_Some_iff)

lemma switch_served:
  assumes "parcel_wf p" "request_wf r" "parcel_rest p = fmt_bytes narrow (request_fmt (req_module r)) (request_args r)"
  shows "stub_switch alloc h j (req_module r) p s w = served_as alloc h j r s w"
proof -
  have "parcel_rest p = fmt_bytes narrow (request_fmt (req_module r)) (request_args r) @ []" using assms(3) by simp
  from pb.scan_law[OF assms(1) request_match(1)[OF assms(2)] this] obtain q where
    q: "media_parcel_read_scanf p (request_fmt (req_module r)) (replicate (length (request_args r)) True)
      = Some (0, fmt_vals narrow (request_fmt (req_module r)) (request_args r), q)" by blast
  note v = q[unfolded request_vals]
  show ?thesis
    by (rule case_split[of "req_module r = MEDIA_ID_POLICY"]; (rule case_split[of "req_module r = MEDIA_ID_FOCUS"])?)
      (use v in \<open>auto simp: stub_switch_def served_as_def request_fmt_def request_args_def scanned_string.simps
        scanned_int.simps Let_def media_ids call_module_def numeral_2_eq_2 split: option.split\<close>)
qed

section \<open>Printing never fails with memory\<close>

lemma append_total:
  "alloc_total alloc \<Longrightarrow> media_parcel_append alloc p d = Some (r, q) \<Longrightarrow> r = 0"
  by (auto simp: media_parcel_append_def bind_Some_iff Let_def dest!: grow_total split: if_splits)

lemma append_conv_total:
  assumes "alloc_total alloc" "append_conv alloc narrow c p ap ret = Some (r, q, ap')"
  shows "r = 0 \<or> r = ret"
  using assms(2)
  by (auto simp: append_conv_def append_number_defs media_parcel_append_string_def bind_Some_iff Let_def
      dest!: append_total[OF assms(1)] split: if_splits list.splits varg.splits)

lemma vprintf_total:
  "alloc_total alloc \<Longrightarrow> vprintf_loop alloc narrow fmt p ap ret = Some (r, q) \<Longrightarrow> 0 \<le> ret \<Longrightarrow> 0 \<le> r"
proof (induction fmt arbitrary: p ap ret)
  case (Cons c fmt)
  show ?case
  proof (cases "c = CHR ''%''")
    case False
    with Cons.prems(2) obtain r1 p1 a1 where s: "append_conv alloc narrow c p ap ret = Some (r1, p1, a1)"
      "(if r1 < 0 then Some (r1, p1) else vprintf_loop alloc narrow fmt p1 a1 r1) = Some (r, q)"
      by (auto simp: bind_Some_iff)
    have "0 \<le> r1" using append_conv_total[OF Cons.prems(1) s(1)] Cons.prems(3) by auto
    with s(2) Cons.IH[OF Cons.prems(1)] show ?thesis by simp
  qed (use Cons in simp)
qed simp

lemma print_total:
  assumes "alloc_total alloc" "fresh_parcel p" "fmt_match fmt args" "length (fmt_bytes narrow fmt args) \<le> max_payload"
  shows "\<exists>q. media_parcel_append_printf alloc narrow p fmt args = Some (0, q) \<and> parcel_wf q
    \<and> parcel_data q = fmt_bytes narrow fmt args"
proof -
  have al: "alloc_ok alloc" using assms(1) by (simp add: alloc_total_def)
  from pb.print_law[OF fresh_facts(1)[OF assms(2)] al assms(3), of narrow] fresh_facts(2)[OF assms(2)] assms(4)
  obtain r q where q: "media_parcel_append_printf alloc narrow p fmt args = Some (r, q)" "parcel_wf q"
    "r = -ENOMEM \<or> r = 0 \<and> parcel_data q = fmt_bytes narrow fmt args" by auto
  have "0 \<le> r"
    using vprintf_total[OF assms(1), of narrow fmt p args 0 r q] q(1)
    by (simp add: media_parcel_append_printf_def media_parcel_append_vprintf_def)
  with q show ?thesis by auto
qed

section \<open>The stub as the server's request handler\<close>

text \<open>
  What the stub relies on: a handler asked for a command returns, keeps the modules' invariant
  \<open>winv\<close>, leaves the requests being received alone, and leaves a terminated string in its buffer.
\<close>

definition response_ok :: "bytes option \<Rightarrow> bytes option \<Rightarrow> bool" where
  "response_ok buf resp \<longleftrightarrow> (case resp of None \<Rightarrow> True
     | Some b' \<Rightarrow> (\<exists>b. buf = Some b \<and> length b' = length b \<and> 0 \<in> set b'))"

definition call_ok :: "('w \<Rightarrow> bool) \<Rightarrow> nat \<Rightarrow> bytes option \<Rightarrow> 'w served_call \<Rightarrow> bool" where
  "call_ok winv j buf f \<longleftrightarrow> (\<forall>s w. winv w \<longrightarrow> sends s = [] \<longrightarrow> j < length (conns s) \<longrightarrow>
     (\<exists>ret resp s' w'. f s w = Some (ret, resp, s', w') \<and> same_requests s s' \<and> winv w' \<and> response_ok buf resp))"

definition modules_ok :: "('w \<Rightarrow> bool) \<Rightarrow> allocator \<Rightarrow> 'w modules \<Rightarrow> bool" where
  "modules_ok winv alloc h \<longleftrightarrow> (\<forall>j r. request_wf r \<longrightarrow> norm (req_cmd r) \<noteq> None \<longrightarrow>
     call_ok winv j (response_buffer alloc (req_len r)) (served_as alloc h j r))"

text \<open>The same for the requests a server gets when its clients keep to \<open>okr\<close>.\<close>

definition served_ok :: "('w \<Rightarrow> bool) \<Rightarrow> (request \<Rightarrow> bool) \<Rightarrow> allocator \<Rightarrow> 'w modules \<Rightarrow> bool" where
  "served_ok winv okr alloc h \<longleftrightarrow> (\<forall>j r. okr r \<longrightarrow> request_wf r \<longrightarrow> norm (req_cmd r) \<noteq> None \<longrightarrow>
     call_ok winv j (response_buffer alloc (req_len r)) (served_as alloc h j r))"

definition any_request :: "request \<Rightarrow> bool" where
  "any_request r \<longleftrightarrow> True"

lemma any_request [intro]: "any_request r"
  by (simp add: any_request_def)

lemma served_modules: "served_ok winv any_request alloc h \<longleftrightarrow> modules_ok winv alloc h"
  by (simp add: served_ok_def modules_ok_def any_request_def)

text \<open>The requests a client can marshal, with a command and a response of at most 512 MB.\<close>

definition max_response :: int where "max_response = 536870900"

definition request_safe :: "request \<Rightarrow> bool" where
  "request_safe r \<longleftrightarrow> request_wf r \<and> norm (req_cmd r) \<noteq> None \<and> sint (req_len r) \<le> max_response"

definition reply_bytes :: "int \<Rightarrow> bytes option \<Rightarrow> bytes" where
  "reply_bytes ret resp = le_bytes 4 (unat (word_of_int ret :: 32 word))
     @ (case resp of None \<Rightarrow> [] | Some b \<Rightarrow> takeWhile (\<lambda>c. c \<noteq> 0) b) @ [0]"

lemma response_length: "response_buffer alloc n = Some b \<Longrightarrow> length b = nat (sint n)"
  by (auto simp: response_buffer_def split: if_splits)

lemma reply_text:
  assumes "response_ok (response_buffer alloc n) resp" "sint n \<le> max_response"
  shows "\<exists>t. c_str resp = Some t \<and> fmt_match ''%i%s'' [VInt32 v, VString t]
    \<and> fmt_bytes narrow ''%i%s'' [VInt32 (word_of_int ret), VString t] = reply_bytes ret resp
    \<and> 2 * length (reply_bytes ret resp) \<le> max_payload"
proof (cases resp)
  case None
  then show ?thesis
    by (simp add: c_str_def conversions_def reply_bytes_def max_payload_def)
next
  case (Some b)
  with assms(1) have z: "0 \<in> set b" "length b = nat (sint n)"
    by (auto simp: response_ok_def dest: response_length split: option.splits)
  have "length (takeWhile (\<lambda>c. c \<noteq> 0) b) \<le> length b" by (rule length_takeWhile_le)
  then have "length (takeWhile (\<lambda>c. c \<noteq> 0) b) \<le> 536870900" using z(2) assms(2) by (simp add: max_response_def)
  moreover have "0 \<notin> set (takeWhile (\<lambda>c. c \<noteq> 0) b)" by (auto dest: set_takeWhileD)
  ultimately show ?thesis
    using Some z(1) by (simp add: c_str_def conversions_def reply_bytes_def max_payload_def)
qed

lemma onreceive_served:
  assumes al: "alloc_total alloc" and h: "served_ok winv okr alloc h" and r: "request_safe r" "okr r"
    and w: "winv w" and j: "j < length (conns s)" and sd: "sends s = []"
    and p: "parcel_wf p" "next_pos p = 0" "parcel_data p = request_bytes narrow r"
  shows "\<exists>ret resp s' w'. served_as alloc h j r s w = Some (ret, resp, s', w')
    \<and> same_requests s s' \<and> winv w' \<and> response_ok (response_buffer alloc (req_len r)) resp
    \<and> media_stub_onreceive alloc narrow h j p None s w = Some (None, s', w')
    \<and> (\<forall>a. fresh_parcel a \<longrightarrow> (\<exists>q. media_stub_onreceive alloc narrow h j p (Some a) s w = Some (Some q, s', w')
          \<and> parcel_wf q \<and> parcel_data q = reply_bytes ret resp))"
proof -
  have rw: "request_wf r" "norm (req_cmd r) \<noteq> None" "sint (req_len r) \<le> max_response"
    using r(1) by (auto simp: request_safe_def)
  have "parcel_rest p = le_bytes 4 (unat (req_module r))
      @ fmt_bytes narrow (request_fmt (req_module r)) (request_args r)"
    using p(2,3) by (simp add: parcel_rest_def request_bytes_split)
  from read_module[OF p(1) this] obtain p1 where
    p1: "media_parcel_read_int32 p True = Some (0, [S32 (req_module r)], p1)" "parcel_wf p1"
      "parcel_rest p1 = fmt_bytes narrow (request_fmt (req_module r)) (request_args r)" by blast
  obtain ret resp s' w' where c: "served_as alloc h j r s w = Some (ret, resp, s', w')" "same_requests s s'"
    "winv w'" "response_ok (response_buffer alloc (req_len r)) resp"
    using h r(2) rw(1,2) w j sd unfolding served_ok_def call_ok_def by blast
  note sw = switch_served[OF p1(2) rw(1) p1(3), of alloc h j s w]
  obtain t where t: "c_str resp = Some t" "fmt_match ''%i%s'' [VInt32 (word_of_int ret), VString t]"
    "fmt_bytes narrow ''%i%s'' [VInt32 (word_of_int ret), VString t] = reply_bytes ret resp"
    "2 * length (reply_bytes ret resp) \<le> max_payload"
    using reply_text[OF c(4) rw(3), of "word_of_int ret" narrow ret] by auto
  have "\<exists>q. media_stub_onreceive alloc narrow h j p (Some a) s w = Some (Some q, s', w')
      \<and> parcel_wf q \<and> parcel_data q = reply_bytes ret resp" if "fresh_parcel a" for a
  proof -
    have "length (fmt_bytes narrow ''%i%s'' [VInt32 (word_of_int ret), VString t]) \<le> max_payload"
      unfolding t(3) using t(4) by linarith
    from print_total[OF al that t(2) this, unfolded t(3)] obtain q where
      "media_parcel_append_printf alloc narrow a ''%i%s'' [VInt32 (word_of_int ret), VString t] = Some (0, q)"
      "parcel_wf q" "parcel_data q = reply_bytes ret resp" by blast
    then show ?thesis
      using t(1) p1(1) sw c(1) by (simp add: media_stub_onreceive_def scanned_int.simps)
  qed
  moreover have "media_stub_onreceive alloc narrow h j p None s w = Some (None, s', w')"
    using p1(1) sw c(1) by (simp add: media_stub_onreceive_def scanned_int.simps)
  ultimately show ?thesis using c by blast
qed

interpretation stub: request_handler
  "\<lambda>(alloc, h). media_stub_onreceive alloc narrow h"
  "\<lambda>(alloc, h). alloc_total alloc \<and> served_ok winv okr alloc h"
  "\<lambda>_ payload. \<exists>r. request_safe r \<and> okr r \<and> payload = request_bytes narrow r"
  winv
  for narrow :: "64 word \<Rightarrow> 32 word" and winv :: "'w \<Rightarrow> bool" and okr :: "request \<Rightarrow> bool"
proof unfold_locales
  fix h p w j ack and s :: media_server_priv
  assume a: "case h of (alloc, h) \<Rightarrow> alloc_total alloc \<and> served_ok winv okr alloc h"
    "\<exists>r. request_safe r \<and> okr r \<and> parcel_data p = request_bytes narrow r" "winv w" "j < length (conns s)"
    "sends s = []" "parcel_wf p" "next_pos p = 0" and ak: "\<And>a. ack = Some a \<Longrightarrow> fresh_parcel a"
  obtain alloc m where h: "h = (alloc, m)" by (cases h)
  obtain r where r: "request_safe r" "okr r" "parcel_data p = request_bytes narrow r" using a(2) by blast
  have al: "alloc_total alloc" "served_ok winv okr alloc m" using a(1) h by auto
  note o = onreceive_served[OF al(1) al(2) r(1,2) a(3-7) r(3)]
  show "\<exists>out s' w'. (case h of (alloc, h) \<Rightarrow> media_stub_onreceive alloc narrow h) j p ack s w = Some (out, s', w')
    \<and> same_requests s s' \<and> winv w' \<and> (ack \<noteq> None \<longrightarrow> (\<exists>q. out = Some q \<and> parcel_wf q))"
  proof (cases ack)
    case None
    with o h show ?thesis by auto
  next
    case (Some b)
    with o h ak[OF Some] show ?thesis by auto
  qed
qed

section \<open>Events on the wire\<close>

lemma stack_init: "\<exists>q. media_parcel_init stack_parcel = Some q \<and> fresh_parcel q"
  using parcel_init_wf[of stack_parcel] init_fresh[of stack_parcel] by (auto simp: stack_parcel_def)

definition event_args :: "32 word \<times> 32 word \<times> bytes option \<Rightarrow> varg list" where
  "event_args = (\<lambda>(e, r, x). [VInt32 e, VInt32 r, VString x])"

definition event_bytes :: "32 word \<times> 32 word \<times> bytes option \<Rightarrow> bytes" where
  "event_bytes x = fmt_bytes (\<lambda>_. 0) ''%i%i%s'' (event_args x)"

definition event_ok :: "32 word \<times> 32 word \<times> bytes option \<Rightarrow> bool" where
  "event_ok x \<longleftrightarrow> c_arg (snd (snd x)) \<and> 2 * length (event_bytes x) \<le> max_payload"

definition event_vals :: "32 word \<times> 32 word \<times> bytes option \<Rightarrow> sval list" where
  "event_vals = (\<lambda>(e, r, x). [S32 e, S32 r, SString (norm x)])"

lemma event_format:
  assumes "event_ok (e, r, x)"
  shows "fmt_match ''%i%i%s'' [VInt32 e, VInt32 r, VString x]"
    "fmt_bytes narrow ''%i%i%s'' [VInt32 e, VInt32 r, VString x] = event_bytes (e, r, x)"
    "fmt_vals narrow ''%i%i%s'' [VInt32 e, VInt32 r, VString x] = event_vals (e, r, x)"
  using assms by (auto simp: event_ok_def c_arg_def conversions_def event_bytes_def event_args_def event_vals_def norm_def)

text \<open>What raising an event puts on the wire, whatever the cookie.\<close>

definition posted :: "media_server_priv \<Rightarrow> nat option \<Rightarrow> 32 word \<times> 32 word \<times> bytes option \<Rightarrow> (int \<times> bytes) list" where
  "posted s cookie e = (case cookie of None \<Rightarrow> []
     | Some j \<Rightarrow> if 0 < notify_fd (conn s j)
         then [(notify_fd (conn s j), parcel_wire MEDIA_PARCEL_NOTIFY (event_bytes e))] else [])"

lemma notify_event_posts:
  assumes "alloc_total alloc" "event_ok (e, r, x)" "sends s = []"
  shows "media_stub_notify_event alloc narrow s cookie e r x = Some (s\<lparr>wire := wire s @ posted s cookie (e, r, x)\<rparr>)"
proof -
  obtain q where q: "media_parcel_init stack_parcel = Some q" "fresh_parcel q" using stack_init by blast
  note f = event_format(1)[OF assms(2)] event_format(2)[OF assms(2), of narrow]
  have "length (fmt_bytes narrow ''%i%i%s'' [VInt32 e, VInt32 r, VString x]) \<le> max_payload"
    unfolding f(2) using assms(2) by (simp add: event_ok_def)
  from print_total[OF assms(1) q(2) f(1) this, unfolded f(2)] obtain p where
    p: "media_parcel_append_printf alloc narrow q ''%i%i%s'' [VInt32 e, VInt32 r, VString x] = Some (0, p)"
      "parcel_wf p" "parcel_data p = event_bytes (e, r, x)" by blast
  show ?thesis
  proof (cases cookie)
    case (Some j)
    with net_send_unbounded[OF assms(3) p(2), of MEDIA_PARCEL_NOTIFY "notify_fd (conn s j)"] q(1) p show ?thesis
      by (simp add: media_stub_notify_event_def media_server_notify_def code_defs posted_def)
  qed (use q p in \<open>simp add: media_stub_notify_event_def media_server_notify_def posted_def\<close>)
qed

lemma notify_event_sends:
  assumes "alloc_total alloc" "event_ok (e, r, x)" "0 < notify_fd (conn s j)" "sends s = []"
  shows "media_stub_notify_event alloc narrow s (Some j) e r x = Some (s\<lparr>wire := wire s
    @ [(notify_fd (conn s j), parcel_wire MEDIA_PARCEL_NOTIFY (event_bytes (e, r, x)))]\<rparr>)"
  using notify_event_posts[OF assms(1,2,4)] assms(3) by (simp add: posted_def)

section \<open>Properties\<close>

definition reply_parcel :: "allocator \<Rightarrow> (64 word \<Rightarrow> 32 word) \<Rightarrow> media_parcel option \<Rightarrow> int \<Rightarrow> bytes option
    \<Rightarrow> media_parcel option option" where
  \<comment> \<open>the reply printed into the parcel given, if one is wanted\<close>
  "reply_parcel alloc narrow out ret resp = (case out of None \<Rightarrow> Some None | Some a \<Rightarrow> do {
     t \<leftarrow> c_str resp;
     (_, q) \<leftarrow> media_parcel_append_printf alloc narrow a ''%i%s'' [VInt32 (word_of_int ret), VString t];
     Some (Some q)
   })"

text \<open>C13: For every request a client can marshal, the stub calls exactly the handler of the module
  it names, with the target, command, argument, flag and response size the client gave (an empty
  string as NULL), on a zeroed buffer of that size, answers a module it does not have with
  \<open>-ENOSYS\<close>, and prints the result and the response into the reply when one is wanted.\<close>

theorem stub_request_served:
  assumes "request_wf r" "parcel_wf p" "next_pos p = 0" "parcel_data p = request_bytes narrow r"
  shows "media_stub_onreceive alloc narrow h j p out s w = do {
    (ret, resp, s', w') \<leftarrow> served_as alloc h j r s w;
    reply \<leftarrow> reply_parcel alloc narrow out ret resp;
    Some (reply, s', w')
  }"
proof -
  have "parcel_rest p = le_bytes 4 (unat (req_module r))
      @ fmt_bytes narrow (request_fmt (req_module r)) (request_args r)"
    using assms(3,4) by (simp add: parcel_rest_def request_bytes_split)
  from read_module[OF assms(2) this] obtain p1 where
    p1: "media_parcel_read_int32 p True = Some (0, [S32 (req_module r)], p1)" "parcel_wf p1"
      "parcel_rest p1 = fmt_bytes narrow (request_fmt (req_module r)) (request_args r)" by blast
  note sw = switch_served[OF p1(2) assms(1) p1(3), of alloc h j s w]
  show ?thesis
    using p1(1) sw
    by (cases "served_as alloc h j r s w"; cases out)
      (auto simp: media_stub_onreceive_def scanned_int.simps reply_parcel_def intro!: Option.bind_cong split: prod.splits)
qed

text \<open>A graph module that counts its calls, for the concrete runs.\<close>

definition counting_modules :: "nat modules" where
  "counting_modules = \<lparr>policy_handler = None, focus_handler = None,
     graph_handler = Some (\<lambda>t c a b n s w. Some (7, b, s, Suc w)),
     player_handler = None, recorder_handler = None, session_handler = None\<rparr>"

definition ping_request :: request where
  "ping_request = \<lparr>req_module = MEDIA_ID_GRAPH, req_target = None, req_cmd = Some [112],
     req_arg = Some [], req_apply = 0, req_len = 4\<rparr>"

lemma ping_bytes: "request_bytes narrow ping_request = [1, 0, 0, 0, 0, 112, 0, 0, 4, 0, 0, 0]"
  by (simp add: request_bytes_split ping_request_def request_fmt_def request_args_def media_ids
      conversions_def le_bytes_4)

lemma ping_safe: "request_safe ping_request"
  by (simp add: request_safe_def request_wf_def ping_request_def c_arg_def norm_def max_response_def)

definition ping_parcel :: media_parcel where
  "ping_parcel = \<lparr>prealloc = [2, 0, 0, 0, 12, 0, 0, 0, 1, 0, 0, 0, 0, 112, 0, 0, 4, 0, 0, 0] @ replicate 244 0,
     heap = None, next_pos = 0, cap = 256\<rparr>"

lemma ping_parcel_wf:
  "parcel_wf ping_parcel" "parcel_data ping_parcel = request_bytes narrow ping_request"
proof -
  have c: "chunk_len ping_parcel = 12" by (simp add: chunk_len_def chunk_def ping_parcel_def)
  show "parcel_wf ping_parcel" by (simp add: parcel_wf_def parcel_shape_def c) (simp add: ping_parcel_def chunk_def)
  show "parcel_data ping_parcel = request_bytes narrow ping_request"
    by (simp add: parcel_data_def c ping_bytes) (simp add: ping_parcel_def chunk_def)
qed

lemma stub_request_served_witness:
  "media_stub_onreceive zero_alloc (\<lambda>_. 0) counting_modules 0 ping_parcel None local_server 3
    = Some (None, local_server, 4)"
proof -
  have "served_as zero_alloc counting_modules 0 ping_request local_server 3
      = Some (7, response_buffer zero_alloc 4, local_server, 4)"
    by (simp add: served_as_def ping_request_def media_ids counting_modules_def call_module_def)
  then show ?thesis
    using stub_request_served[of ping_request ping_parcel "\<lambda>_. 0" zero_alloc counting_modules 0 None local_server 3]
      ping_safe ping_parcel_wf
    by (simp add: request_safe_def reply_parcel_def) (simp add: ping_parcel_def)
qed

lemma stream_served:
  assumes "alloc_total alloc" "served_ok winv okr alloc h" "winv w" "j < length (conns s)" "sends s = []"
    and conn: "fresh_parcel (parcel (conn s j))" "offset (conn s j) = 0" "0 < fd"
    and ms: "\<forall>(code, r)\<in>set ms. code \<in> {MEDIA_PARCEL_SEND, MEDIA_PARCEL_SEND_ACK} \<and> request_safe r \<and> okr r
      \<and> 2 * length (request_bytes narrow r) \<le> max_payload"
    and m': "wire_message m'" "k < length m'"
    and evs: "stream evs = concat (map (\<lambda>(code, r). parcel_wire code (request_bytes narrow r)) ms) @ take k m'"
      "\<forall>ev\<in>set evs. \<exists>bs. ev = Received bs"
  shows "\<exists>s1 p w'. media_server_receive alloc net_open local_cpu (media_stub_onreceive alloc narrow h) fd
        \<lparr>pollin = True, pollerr = False, pollhup = False\<rparr> j s w evs
      = Some (-EAGAIN, set_conn j ((conn s1 j)\<lparr>parcel := p, offset := k\<rparr>) s1, w')
    \<and> served net_open local_cpu (media_stub_onreceive alloc narrow h) j
        (map (\<lambda>(code, r). (code, request_bytes narrow r)) ms) s w s1 w'
    \<and> recv_inv m' p k \<and> winv w'"
proof -
  let ?ms = "map (\<lambda>(code, r). (code, request_bytes narrow r)) ms"
  have mm: "map (\<lambda>(c, d). parcel_wire c d) ?ms = map (\<lambda>(code, r). parcel_wire code (request_bytes narrow r)) ms"
    by (simp add: case_prod_beta comp_def)
  have rq: "\<forall>m\<in>set ?ms. stub.request_ok okr narrow (alloc, h) m"
    using ms by (force simp: stub.request_ok_def code_defs)
  have str: "stream evs @ drop k m' = drop (offset (conn s j)) (concat (map (\<lambda>(c, d). parcel_wire c d) ?ms @ [m']))"
    unfolding mm using evs(1) conn(2) by simp
  have adm: "case (alloc, h) of (alloc, h) \<Rightarrow> alloc_total alloc \<and> served_ok winv okr alloc h" using assms(1,2) by simp
  have inv: "recv_inv (hd (map (\<lambda>(c, d). parcel_wire c d) ?ms @ [m'])) (parcel (conn s j)) (offset (conn s j))"
    using fresh_recv_inv[OF conn(1)] conn(2) by simp
  from stub.receive_serves[OF assms(1) adm assms(3-5) rq m' inv str evs(2), of net_open local_cpu] obtain s1 p w' where
    "receive_loop alloc net_open local_cpu (media_stub_onreceive alloc narrow h) j s w evs
      = Some (-EAGAIN, set_conn j ((conn s1 j)\<lparr>parcel := p, offset := k\<rparr>) s1, w', [])"
    "served net_open local_cpu (media_stub_onreceive alloc narrow h) j ?ms s w s1 w'" "recv_inv m' p k" "winv w'"
    unfolding prod.case by blast
  then show ?thesis using conn(3)
    by (intro exI[of _ s1] exI[of _ p] exI[of _ w']) (simp add: media_server_receive_def)
qed


lemma counting_ok: "modules_ok (\<lambda>_. True) zero_alloc counting_modules"
proof -
  have b: "response_ok (response_buffer zero_alloc n) (response_buffer zero_alloc n)" for n
    by (auto simp: response_ok_def response_buffer_def zero_alloc_def)
  have n: "response_ok c None" for c by (simp add: response_ok_def)
  show ?thesis
    using b n by (auto simp: modules_ok_def call_ok_def served_as_def counting_modules_def call_module_def Let_def)
qed

lemma zero_alloc_total: "alloc_total zero_alloc"
  using zero_alloc_ok by (simp add: alloc_total_def zero_alloc_def)


end
