(* ===== verification/Media_Proxy.thy ===== *)
theory Media_Proxy
  imports Media_Stub
begin

text \<open>
  The client side of the wire, \<open>client/media_proxy.c\<close>: connecting, transacting a command,
  listening for events, and the reference count that decides when a connection is freed.

  Sockets and threads are parameters: what \<open>socket\<close>, \<open>bind\<close>, \<open>listen\<close>, \<open>connect\<close>,
  \<open>pthread_create\<close> and \<open>pthread_join\<close> return, and the events a send or receive meets. Descriptors
  closed and blocks freed are a list of effects, in order. A client pointer that is freed is
  \<open>None\<close> in the result. A receive that runs out of events is a client still waiting, and has the
  result \<open>-EAGAIN\<close>, which a blocking socket never gives.
\<close>

section \<open>State\<close>

record media_client_priv =
  client_fd :: int
  client_listenfd :: int
  client_thread :: nat
  client_event_cb :: "int option"
  client_event_cookie :: int
  client_release_cb :: "int option"
  client_release_cookie :: int
  client_refs :: int

datatype client_effect = Close_fd int | Release int int | Free_client | Detach nat

definition media_proxy_ref :: "media_client_priv \<Rightarrow> media_client_priv" where
  "media_proxy_ref c = c\<lparr>client_refs := client_refs c + 1\<rparr>"

definition media_proxy_unref :: "media_client_priv \<Rightarrow> media_client_priv option \<times> client_effect list" where
  "media_proxy_unref c =
     (let old = client_refs c; c1 = c\<lparr>client_refs := old - 1\<rparr> in
      if old = 1
      then (None, (case client_release_cb c of None \<Rightarrow> [] | Some f \<Rightarrow> [Release f (client_release_cookie c)]) @ [Free_client])
      else (Some c1, []))"

section \<open>Addresses, connecting\<close>

text \<open>The sizes of the address fields, and a copy cut to a field with its terminating zero.\<close>

record addr_sizes =
  unix_path_max :: nat
  rpmsg_name_size :: nat
  rpmsg_cpu_size :: nat

definition strlcpy_bytes :: "nat \<Rightarrow> bytes \<Rightarrow> bytes" where
  "strlcpy_bytes n src = take (n - 1) src"

definition media_proxy_get_sockaddr :: "addr_sizes \<Rightarrow> bytes \<Rightarrow> bytes \<Rightarrow> bytes \<Rightarrow> sock_addr" where
  "media_proxy_get_sockaddr z local_cpu cpu key =
     (if cpu = local_cpu then Addr_local (strlcpy_bytes (unix_path_max z) key)
      else Addr_rpmsg (strlcpy_bytes (rpmsg_name_size z) key) (strlcpy_bytes (rpmsg_cpu_size z) cpu))"

definition media_proxy_create_listenfd :: "allocator \<Rightarrow> addr_sizes \<Rightarrow> bytes \<Rightarrow> (sock_addr \<Rightarrow> int) \<Rightarrow> (sock_addr \<Rightarrow> int)
    \<Rightarrow> (sock_addr \<Rightarrow> int) \<Rightarrow> bytes \<Rightarrow> media_client_priv \<Rightarrow> bytes \<Rightarrow> send_event list
    \<Rightarrow> (int \<times> media_client_priv \<times> bytes \<times> client_effect list) option" where
  \<comment> \<open>\<open>key\<close> is the pointer printed by \<open>md_%p\<close>; also what is sent on the transport socket\<close>
  "media_proxy_create_listenfd alloc z local_cpu sock bnd lst key c cpu sevs =
     (let addr = media_proxy_get_sockaddr z local_cpu cpu (strlcpy_bytes 32 key);
          lfd = sock addr; c1 = c\<lparr>client_listenfd := lfd\<rparr> in
      if lfd < 0 then Some (lfd, c1, [], [])
      else do {
        p \<leftarrow> media_parcel_init stack_parcel;
        (if bnd addr < 0 then Some (bnd addr, c1, [], [Close_fd lfd])
         else if lst addr < 0 then Some (lst addr, c1, [], [Close_fd lfd])
         else do {
           (_, p1) \<leftarrow> media_parcel_append_string alloc p (Some (strlcpy_bytes 32 key));
           (_, p2) \<leftarrow> media_parcel_append_string alloc p1 (Some local_cpu);
           (ret, _, out, _) \<leftarrow> media_parcel_send p2 MEDIA_PARCEL_CREATE_NOTIFY sevs;
           Some (ret, c1, out, if ret < 0 then [Close_fd lfd] else [])
         })
      })"

definition media_proxy_connect :: "addr_sizes \<Rightarrow> bytes \<Rightarrow> bool \<Rightarrow> (sock_addr \<Rightarrow> int) \<Rightarrow> (sock_addr \<Rightarrow> int) \<Rightarrow> bytes
    \<Rightarrow> media_client_priv option \<times> client_effect list" where
  \<comment> \<open>\<open>mem\<close> says whether \<open>calloc\<close> succeeds\<close>
  "media_proxy_connect z local_cpu mem sock conct cpu =
     (if \<not> mem then (None, [])
      else let addr = media_proxy_get_sockaddr z local_cpu cpu (strlcpy_bytes 32 (c_bytes ''md:'' @ cpu)); fd = sock addr in
        if fd \<le> 0 then (None, [Free_client])
        else if conct addr < 0 then (None, [Close_fd fd, Free_client])
        else (Some \<lparr>client_fd = fd, client_listenfd = 0, client_thread = 0, client_event_cb = None,
                client_event_cookie = 0, client_release_cb = None, client_release_cookie = 0, client_refs = 1\<rparr>, []))"

definition media_proxy_disconnect :: "int \<Rightarrow> media_client_priv option
    \<Rightarrow> int \<times> media_client_priv option \<times> client_effect list" where
  \<comment> \<open>\<open>join\<close> is the result of \<open>pthread_join\<close>\<close>
  "media_proxy_disconnect join handle = (case handle of
     None \<Rightarrow> (-EINVAL, None, [])
   | Some c \<Rightarrow>
       let e1 = (if join = EDEADLK then [Detach (client_thread c)] else []) in
       if client_fd c > 0
       then let (c1, e2) = media_proxy_unref (c\<lparr>client_fd := 0\<rparr>) in (0, c1, e1 @ [Close_fd (client_fd c)] @ e2)
       else (0, Some c, e1))"

section \<open>Transactions\<close>

definition media_proxy_send :: "media_client_priv option \<Rightarrow> media_parcel option \<Rightarrow> send_event list
    \<Rightarrow> (int \<times> bytes) option" where
  "media_proxy_send handle inp sevs = (case (handle, inp) of
     (Some c, Some p) \<Rightarrow> do {
       (ret, _, out, _) \<leftarrow> media_parcel_send p MEDIA_PARCEL_SEND sevs;
       Some (ret, out)
     }
   | _ \<Rightarrow> Some (-EINVAL, []))"

definition media_proxy_send_with_ack :: "allocator \<Rightarrow> media_client_priv option \<Rightarrow> media_parcel option
    \<Rightarrow> media_parcel option \<Rightarrow> send_event list \<Rightarrow> recv_event list
    \<Rightarrow> (int \<times> media_parcel option \<times> bytes \<times> recv_event list) option" where
  \<comment> \<open>the result, the parcel received into, the bytes sent, the events left\<close>
  "media_proxy_send_with_ack alloc handle inp out sevs revs = (case (handle, inp, out) of
     (Some c, Some p, Some q) \<Rightarrow> do {
       (ret, _, sent, _) \<leftarrow> media_parcel_send p MEDIA_PARCEL_SEND_ACK sevs;
       (if ret < 0 then Some (ret, out, sent, revs)
        else do {
          (ret1, q1, _, revs1) \<leftarrow> media_parcel_recv alloc q None revs;
          (if ret1 < 0 then Some (ret1, Some q1, sent, revs1)
           else if media_parcel_get_code q1 \<noteq> MEDIA_PARCEL_REPLY then Some (-EIO, Some q1, sent, revs1)
           else Some (ret1, Some q1, sent, revs1))
        })
     }
   | _ \<Rightarrow> Some (-EINVAL, out, [], revs))"

definition media_proxy_send_recieve :: "allocator \<Rightarrow> (64 word \<Rightarrow> 32 word) \<Rightarrow> media_client_priv option
    \<Rightarrow> string \<Rightarrow> string \<Rightarrow> varg list \<Rightarrow> bool list \<Rightarrow> send_event list \<Rightarrow> recv_event list
    \<Rightarrow> (int \<times> sval list \<times> bytes \<times> recv_event list) option" where
  \<comment> \<open>the variable arguments: what is printed, then the pointers scanned into\<close>
  "media_proxy_send_recieve alloc narrow handle in_fmt out_fmt args ptrs sevs revs = do {
     inp \<leftarrow> media_parcel_init stack_parcel;
     out \<leftarrow> media_parcel_init stack_parcel;
     (ret, inp1) \<leftarrow> media_parcel_append_vprintf alloc narrow inp in_fmt args;
     (if ret < 0 then Some (ret, [], [], revs)
      else do {
        (ret1, out1, sent, revs1) \<leftarrow> media_proxy_send_with_ack alloc handle (Some inp1) (Some out) sevs revs;
        (if ret1 < 0 then Some (ret1, [], sent, revs1)
         else do {
           q \<leftarrow> out1;
           (ret2, vals, _) \<leftarrow> media_parcel_read_vscanf q out_fmt ptrs;
           Some (ret2, vals, sent, revs1)
         })
      })
   }"

record media_proxy_priv =
  proxy_type :: "32 word"
  proxy :: "media_client_priv option"
  proxy_cpu :: "bytes option"

definition strlcpy_res :: "bytes option \<Rightarrow> bytes option \<Rightarrow> 32 word \<Rightarrow> bytes option option" where
  \<comment> \<open>\<open>strlcpy(res, response, res_len)\<close> for a positive length; the buffer after it\<close>
  "strlcpy_res res response n = do {
     buf \<leftarrow> res;
     str \<leftarrow> response;
     let cut = strlcpy_bytes (nat (sint n)) str @ [0];
     (if length cut \<le> length buf then Some (Some (cut @ drop (length cut) buf)) else None)
   }"

definition once_fmt :: "32 word \<Rightarrow> bytes option \<Rightarrow> bytes option \<Rightarrow> bytes option \<Rightarrow> 32 word \<Rightarrow> 32 word
    \<Rightarrow> (string \<times> varg list) option" where
  \<comment> \<open>the switch of \<open>media_proxy_once\<close>\<close>
  "once_fmt ident target cmd arg apply res_len =
     (if ident = MEDIA_ID_FOCUS then Some (''%i%s%s%i'', [VInt32 ident, VString target, VString cmd, VInt32 res_len])
      else if ident = MEDIA_ID_GRAPH then Some (''%i%s%s%s%i'',
        [VInt32 ident, VString target, VString cmd, VString arg, VInt32 res_len])
      else if ident = MEDIA_ID_POLICY then Some (''%i%s%s%s%i%i'',
        [VInt32 ident, VString target, VString cmd, VString arg, VInt32 apply, VInt32 res_len])
      else if ident = MEDIA_ID_PLAYER then Some (''%i%s%s%s%i'',
        [VInt32 ident, VString target, VString cmd, VString arg, VInt32 res_len])
      else if ident = MEDIA_ID_RECORDER then Some (''%i%s%s%s%i'',
        [VInt32 ident, VString target, VString cmd, VString arg, VInt32 res_len])
      else if ident = MEDIA_ID_SESSION then Some (''%i%s%s%s%i'',
        [VInt32 ident, VString target, VString cmd, VString arg, VInt32 res_len])
      else None)"

definition media_proxy_once :: "allocator \<Rightarrow> (64 word \<Rightarrow> 32 word) \<Rightarrow> media_proxy_priv option
    \<Rightarrow> bytes option \<Rightarrow> bytes option \<Rightarrow> bytes option \<Rightarrow> 32 word \<Rightarrow> bytes option \<Rightarrow> 32 word
    \<Rightarrow> send_event list \<Rightarrow> recv_event list \<Rightarrow> (int \<times> bytes option \<times> bytes \<times> recv_event list) option" where
  \<comment> \<open>the result, the response buffer, the bytes sent, the events left\<close>
  "media_proxy_once alloc narrow handle target cmd arg apply res res_len sevs revs = (case handle of
     None \<Rightarrow> Some (-EINVAL, res, [], revs)
   | Some priv \<Rightarrow> (case proxy priv of
       None \<Rightarrow> Some (-EINVAL, res, [], revs)
     | Some _ \<Rightarrow> do {
         inp \<leftarrow> media_parcel_init stack_parcel;
         out \<leftarrow> media_parcel_init stack_parcel;
         (case once_fmt (proxy_type priv) target cmd arg apply res_len of
            None \<Rightarrow> Some (-EINVAL, res, [], revs)
          | Some (fmt, args) \<Rightarrow> do {
              (ret, inp1) \<leftarrow> media_parcel_append_printf alloc narrow inp fmt args;
              (if ret < 0 then Some (ret, res, [], revs)
               else do {
                 (ret1, out1, sent, revs1) \<leftarrow> media_proxy_send_with_ack alloc (proxy priv) (Some inp1) (Some out) sevs revs;
                 (if ret1 < 0 then Some (ret1, res, sent, revs1)
                  else do {
                    q \<leftarrow> out1;
                    (ret2, vals, _) \<leftarrow> media_parcel_read_scanf q ''%i%s'' [True, True];
                    let resp = sint (scanned_int vals 0);
                    let response = scanned_string vals 1;
                    (if ret2 < 0 then Some (ret2, res, sent, revs1)
                     else if resp < 0 then Some (resp, res, sent, revs1)
                     else if 0 < sint res_len
                       then do { res1 \<leftarrow> strlcpy_res res response res_len; Some (resp, res1, sent, revs1) }
                     else Some (resp, res, sent, revs1))
                  })
               })
            })
       }))"

text \<open>The tokens \<open>strtok_r\<close> takes from a list of names.\<close>

fun strtok_r_tokens :: "bytes \<Rightarrow> bytes \<Rightarrow> bytes \<Rightarrow> bytes list" where
  "strtok_r_tokens delims [] tok = (if tok = [] then [] else [tok])"
| "strtok_r_tokens delims (c # s) tok =
     (if c \<in> set delims then (if tok = [] then [] else [tok]) @ strtok_r_tokens delims s []
      else strtok_r_tokens delims s (tok @ [c]))"

text \<open>What a transaction to a cpu meets: memory and sockets, then the events of the connection.\<close>

record cpu_env =
  env_mem :: bool
  env_sock :: int
  env_connect :: int
  env_sevs :: "send_event list"
  env_revs :: "recv_event list"

fun proxy_loop :: "allocator \<Rightarrow> (64 word \<Rightarrow> 32 word) \<Rightarrow> addr_sizes \<Rightarrow> bytes \<Rightarrow> (bytes \<Rightarrow> cpu_env) \<Rightarrow> bool
    \<Rightarrow> media_proxy_priv \<Rightarrow> bytes option \<Rightarrow> bytes option \<Rightarrow> bytes option \<Rightarrow> 32 word \<Rightarrow> bytes option \<Rightarrow> 32 word
    \<Rightarrow> bytes list \<Rightarrow> int \<Rightarrow> (bytes \<times> bytes) list
    \<Rightarrow> (int \<times> bytes option \<times> media_proxy_priv \<times> (bytes \<times> bytes) list) option" where
  \<comment> \<open>the loop of \<open>media_proxy\<close> over the names of the processors; \<open>log\<close> is what was sent to each\<close>
  "proxy_loop alloc narrow z local_cpu env keep priv target cmd arg apply res res_len [] ret log =
     Some (ret, res, priv\<lparr>proxy := None, proxy_cpu := None\<rparr>, log)"
| "proxy_loop alloc narrow z local_cpu env keep priv target cmd arg apply res res_len (cpu # cpus) ret log =
     (case media_proxy_connect z local_cpu (env_mem (env cpu)) (\<lambda>_. env_sock (env cpu)) (\<lambda>_. env_connect (env cpu)) cpu of
        (None, _) \<Rightarrow> proxy_loop alloc narrow z local_cpu env keep (priv\<lparr>proxy := None\<rparr>)
            target cmd arg apply res res_len cpus ret log
      | (Some c, _) \<Rightarrow> do {
          let priv1 = priv\<lparr>proxy := Some c, proxy_cpu := Some cpu\<rparr>;
          (ret1, res1, sent, _) \<leftarrow> media_proxy_once alloc narrow (Some priv1) target cmd arg apply res res_len
             (env_sevs (env cpu)) (env_revs (env cpu));
          (if keep \<and> ret1 \<ge> 0 then Some (ret1, res1, priv1, log @ [(cpu, sent)])
           else proxy_loop alloc narrow z local_cpu env keep priv1 target cmd arg apply res1 res_len cpus ret1
             (log @ [(cpu, sent)]))
        })"

definition media_proxy :: "allocator \<Rightarrow> (64 word \<Rightarrow> 32 word) \<Rightarrow> addr_sizes \<Rightarrow> bytes \<Rightarrow> bytes \<Rightarrow> (bytes \<Rightarrow> cpu_env)
    \<Rightarrow> 32 word \<Rightarrow> media_proxy_priv option \<Rightarrow> bytes option \<Rightarrow> bytes option \<Rightarrow> bytes option \<Rightarrow> 32 word
    \<Rightarrow> bytes option \<Rightarrow> 32 word \<Rightarrow> send_event list \<Rightarrow> recv_event list
    \<Rightarrow> (int \<times> bytes option \<times> media_proxy_priv \<times> (bytes \<times> bytes) list) option" where
  \<comment> \<open>\<open>cpuname\<close> is what \<open>media_get_cpuname\<close> returns; the events are those of a connection already made\<close>
  "media_proxy alloc narrow z local_cpu cpuname env ident handle target cmd arg apply res res_len sevs revs =
     (let priv = (case handle of Some h \<Rightarrow> h | None \<Rightarrow> \<lparr>proxy_type = 0, proxy = None, proxy_cpu = None\<rparr>)\<lparr>proxy_type := ident\<rparr> in
      if proxy priv \<noteq> None then do {
        (ret, res1, sent, _) \<leftarrow> media_proxy_once alloc narrow (Some priv) target cmd arg apply res res_len sevs revs;
        Some (ret, res1, priv, [(case proxy_cpu priv of None \<Rightarrow> [] | Some c \<Rightarrow> c, sent)])
      }
      else proxy_loop alloc narrow z local_cpu env (handle \<noteq> None) priv target cmd arg apply res res_len
        (strtok_r_tokens (c_bytes '' ,;|'') (strlcpy_bytes 128 cpuname) []) (-ENOSYS) [])"

section \<open>Events\<close>

partial_function (option) listen_loop :: "allocator \<Rightarrow> recv_event list \<Rightarrow> media_parcel list
    \<Rightarrow> (media_parcel list \<times> recv_event list) option" where
  \<comment> \<open>the parcels handed to the event callback; a parcel starts anew after an interrupted receive\<close>
  "listen_loop alloc evs acc =
     (case media_parcel_init stack_parcel of
        None \<Rightarrow> None
      | Some p \<Rightarrow> (case media_parcel_recv alloc p None evs of
          None \<Rightarrow> None
        | Some (ret, q, _, evs1) \<Rightarrow>
            if ret = -EINTR then listen_loop alloc evs1 acc
            else if ret < 0 then Some (acc, evs1)
            else if media_parcel_get_code q \<noteq> MEDIA_PARCEL_NOTIFY then Some (acc, evs1)
            else listen_loop alloc evs1 (acc @ [q])))"

definition media_proxy_listen_thread :: "allocator \<Rightarrow> int \<Rightarrow> media_client_priv \<Rightarrow> recv_event list
    \<Rightarrow> (media_parcel list \<times> media_client_priv option \<times> client_effect list) option" where
  \<comment> \<open>\<open>acceptfd\<close> is what \<open>accept4\<close> returns; the reference count is the one at the thread's end\<close>
  "media_proxy_listen_thread alloc acceptfd c evs =
     (if acceptfd \<le> 0
      then let (c1, e) = media_proxy_unref c in Some ([], c1, Close_fd (client_listenfd c) # e)
      else do {
        (ps, _) \<leftarrow> listen_loop alloc evs [];
        let (c1, e) = media_proxy_unref c;
        Some (ps, c1, [Close_fd acceptfd, Close_fd (client_listenfd c)] @ e)
      })"

definition media_proxy_set_event_cb :: "allocator \<Rightarrow> addr_sizes \<Rightarrow> bytes \<Rightarrow> (sock_addr \<Rightarrow> int) \<Rightarrow> (sock_addr \<Rightarrow> int)
    \<Rightarrow> (sock_addr \<Rightarrow> int) \<Rightarrow> bytes \<Rightarrow> int \<Rightarrow> nat \<Rightarrow> media_client_priv option \<Rightarrow> bytes \<Rightarrow> int option \<Rightarrow> int
    \<Rightarrow> send_event list \<Rightarrow> (int \<times> media_client_priv option \<times> bytes \<times> client_effect list) option" where
  \<comment> \<open>\<open>created\<close> is the result of \<open>pthread_create\<close>, \<open>tid\<close> what it stores as the thread\<close>
  "media_proxy_set_event_cb alloc z local_cpu sock bnd lst key created tid handle cpu event_cb cookie sevs =
     (case (handle, event_cb) of
        (Some c, Some f) \<Rightarrow>
          let c1 = c\<lparr>client_event_cb := Some f, client_event_cookie := cookie\<rparr> in
          if client_thread c > 0 then Some (0, Some c1, [], [])
          else do {
            (ret, c2, out, e) \<leftarrow> media_proxy_create_listenfd alloc z local_cpu sock bnd lst key c1 cpu sevs;
            (if ret < 0 then Some (ret, Some c2, out, e)
             else let c3 = (media_proxy_ref c2)\<lparr>client_thread := tid\<rparr> in
               if created < 0
               then let (c4, e2) = media_proxy_unref c3 in
                 Some (created, c4, out, e @ [Close_fd (client_listenfd c3)] @ e2)
               else Some (created, Some c3, out, e))
          }
      | _ \<Rightarrow> Some (-EINVAL, handle, [], []))"

definition media_proxy_set_release_cb :: "media_client_priv option \<Rightarrow> int option \<Rightarrow> int
    \<Rightarrow> int \<times> media_client_priv option" where
  "media_proxy_set_release_cb handle release_cb cookie = (case (handle, release_cb) of
     (Some c, Some f) \<Rightarrow> (0, Some (c\<lparr>client_release_cb := Some f, client_release_cookie := cookie\<rparr>))
   | _ \<Rightarrow> (-EINVAL, handle))"

section \<open>One transaction\<close>

text \<open>Receiving a whole message into a fresh parcel, however it is segmented.\<close>

lemma recv_message:
  assumes al: "alloc_total alloc" and q: "fresh_parcel q" and m: "wire_message m"
    and str: "stream evs = m @ rest" and ev: "\<forall>ev\<in>set evs. \<exists>bs. ev = Received bs"
  shows "\<exists>q' evs'. media_parcel_recv alloc q None evs = Some (0, q', length m, evs') \<and> recv_inv m q' (length m)
    \<and> stream evs' = rest \<and> (\<forall>ev\<in>set evs'. \<exists>bs. ev = Received bs)"
proof -
  have al': "alloc_ok alloc" using al by (simp add: alloc_total_def)
  have "stream evs @ [] = drop 0 m @ rest" using str by simp
  from recv_loop_inv[OF m al' fresh_recv_inv[OF q] this, of 8] obtain r q' n evs' where
    r: "recv_loop alloc q 0 8 evs = Some (r, q', n, evs')"
      "r = -ENOMEM \<or> recv_inv m q' n \<and> stream evs' = drop n m @ rest
        \<and> (n = length m \<and> r = 0 \<or> n < length m \<and> r = -EAGAIN \<and> evs' = [])"
    using ev by auto
  have "r \<noteq> -ENOMEM" by (rule recv_total[OF al r(1) ev])
  moreover have "\<not> (n < length m \<and> evs' = [])" if "stream evs' = drop n m @ rest"
    using that by auto
  ultimately have o: "recv_inv m q' n" "stream evs' = drop n m @ rest" "n = length m" "r = 0" using r(2) by auto
  have "media_parcel_recv alloc q None evs = Some (r, q', n, evs')"
    using r(1) fresh_facts(4)[OF q] by (simp add: media_parcel_recv_def parcel_consts)
  with o recv_events[OF r(1) ev] show ?thesis by simp
qed

lemma send_message:
  assumes "parcel_wf p" "code < 4294967296" "\<forall>e\<in>set sevs. \<exists>n>0. e = Sent n"
    "8 + length (parcel_data p) \<le> length sevs"
  shows "\<exists>q sevs'. media_parcel_send p code sevs = Some (0, q, parcel_wire code (parcel_data p), sevs')"
proof -
  obtain q where q: "set_code code p = Some q"
    "read_at 0 (u32 (8 + chunk_len p)) (chunk q) = Some (parcel_wire code (parcel_data p))"
    using wire_of_send[OF assms(1,2)] by blast
  have "length (parcel_wire code (parcel_data p)) \<le> length sevs"
    using assms(4) by (simp add: parcel_wire_def)
  from send_loop_progress[OF assms(3) this, of "[]"] q show ?thesis
    by (auto simp: media_parcel_send_def parcel_consts Let_def)
qed

lemma once_fmt_request:
  assumes "req_module r \<in> {1, 2, 3, 4, 5, 6}"
  shows "once_fmt (req_module r) (req_target r) (req_cmd r) (req_arg r) (req_apply r) (req_len r)
    = Some (''%i'' @ request_fmt (req_module r), VInt32 (req_module r) # request_args r)"
  using assms by (auto simp: once_fmt_def request_fmt_def request_args_def media_ids)

definition reply_text :: "bytes option \<Rightarrow> bytes" where
  "reply_text resp = (case resp of None \<Rightarrow> [] | Some b \<Rightarrow> takeWhile (\<lambda>c. c \<noteq> 0) b)"

lemma reply_bytes_text: "reply_bytes ret resp = le_bytes 4 (unat (word_of_int ret :: 32 word)) @ reply_text resp @ [0]"
  by (simp add: reply_bytes_def reply_text_def split: option.split)

text \<open>The outcome of a transaction whose reply is \<open>ret\<close> and \<open>text\<close>; an empty text arrives as NULL.\<close>

definition once_outcome :: "int \<Rightarrow> bytes \<Rightarrow> bytes option \<Rightarrow> 32 word \<Rightarrow> (int \<times> bytes option) option" where
  "once_outcome ret str res n =
     (let v = sint (word_of_int ret :: 32 word) in
      if v < 0 \<or> sint n \<le> 0 then Some (v, res)
      else map_option (\<lambda>b. (v, b)) (strlcpy_res res (norm (Some str)) n))"

lemma once_received:
  assumes al: "alloc_total alloc" and rw: "request_wf r" "req_module r \<in> {1, 2, 3, 4, 5, 6}"
      "2 * length (request_bytes narrow r) \<le> max_payload"
    and pr: "proxy priv = Some c" "proxy_type priv = req_module r"
    and sevs: "\<forall>e\<in>set sevs. \<exists>n>0. e = Sent n" "8 + length (request_bytes narrow r) \<le> length sevs"
    and rp: "2 * length (reply_bytes ret resp) \<le> max_payload"
    and revs: "stream revs = parcel_wire MEDIA_PARCEL_REPLY (reply_bytes ret resp) @ rest"
      "\<forall>ev\<in>set revs. \<exists>bs. ev = Received bs"
  shows "\<exists>revs'. stream revs' = rest \<and>
    media_proxy_once alloc narrow (Some priv) (req_target r) (req_cmd r) (req_arg r) (req_apply r) res (req_len r) sevs revs
     = map_option (\<lambda>(v, b). (v, b, parcel_wire MEDIA_PARCEL_SEND_ACK (request_bytes narrow r), revs'))
         (once_outcome ret (reply_text resp) res (req_len r))"
proof -
  obtain q where q: "media_parcel_init stack_parcel = Some q" "fresh_parcel q" using stack_init by blast
  let ?fmt = "''%i'' @ request_fmt (req_module r)" and ?args = "VInt32 (req_module r) # request_args r"
  have "length (fmt_bytes narrow ?fmt ?args) \<le> max_payload" using rw(3) unfolding request_bytes_def by linarith
  from print_total[OF al q(2) request_match(2)[OF rw(1)] this] obtain p1 where
    p1: "media_parcel_append_printf alloc narrow q ?fmt ?args = Some (0, p1)" "parcel_wf p1"
      "parcel_data p1 = request_bytes narrow r" unfolding request_bytes_def by blast
  obtain p2 sevs' where sd: "media_parcel_send p1 MEDIA_PARCEL_SEND_ACK sevs
      = Some (0, p2, parcel_wire MEDIA_PARCEL_SEND_ACK (request_bytes narrow r), sevs')"
    using send_message[OF p1(2) _ sevs(1), of MEDIA_PARCEL_SEND_ACK] sevs(2) p1(3) by (auto simp: code_defs)
  let ?m = "parcel_wire MEDIA_PARCEL_REPLY (reply_bytes ret resp)"
  note wire = wire_message_parcel[OF rp, of MEDIA_PARCEL_REPLY]
  obtain q' revs' where rc: "media_parcel_recv alloc q None revs = Some (0, q', length ?m, revs')"
    "recv_inv ?m q' (length ?m)" "stream revs' = rest"
    using recv_message[OF al q(2) wire(1) revs] by blast
  have q': "parcel_wf q'" "chunk_code q' = MEDIA_PARCEL_REPLY" "parcel_rest q' = reply_bytes ret resp"
    using received_parcel[OF wire(1) rc(2)] wire(3,4) by (auto simp: code_defs parcel_rest_def)
  let ?a = "[VInt32 (word_of_int ret), VString (Some (reply_text resp))]"
  have m: "fmt_match ''%i%s'' ?a"
    by (auto simp: conversions_def reply_text_def split: option.splits dest: set_takeWhileD)
  have "parcel_rest q' = fmt_bytes narrow ''%i%s'' ?a @ []"
    by (simp add: q'(3) reply_bytes_text conversions_def)
  from pb.scan_law[OF q'(1) m this] obtain q'' where
    sc: "media_parcel_read_scanf q' ''%i%s'' [True, True]
      = Some (0, [S32 (word_of_int ret), SString (norm (Some (reply_text resp)))], q'')"
    by (auto simp: conversions_def norm_def numeral_2_eq_2)
  have ack: "media_proxy_send_with_ack alloc (Some c) (Some p1) (Some q) sevs revs
      = Some (0, Some q', parcel_wire MEDIA_PARCEL_SEND_ACK (request_bytes narrow r), revs')"
    using sd rc(1) q'(2) by (simp add: media_proxy_send_with_ack_def media_parcel_get_code_def)
  have "media_proxy_once alloc narrow (Some priv) (req_target r) (req_cmd r) (req_arg r) (req_apply r) res (req_len r) sevs revs
     = map_option (\<lambda>(v, b). (v, b, parcel_wire MEDIA_PARCEL_SEND_ACK (request_bytes narrow r), revs'))
         (once_outcome ret (reply_text resp) res (req_len r))"
    using q(1) p1(1) ack sc pr once_fmt_request[OF rw(2)]
    by (cases "strlcpy_res res (norm (Some (reply_text resp))) (req_len r)")
      (auto simp: media_proxy_once_def once_outcome_def scanned_int.simps scanned_string.simps Let_def)
  with rc(3) show ?thesis by blast
qed

section \<open>The server's half\<close>

inductive_simps served_Cons: "served net_open local_cpu onreceive j (m # ms) s w s' w'"

lemma server_transaction:
  assumes al: "alloc_total alloc" and h: "modules_ok winv alloc h" and w: "winv w"
    and j: "j < length (conns s)" "sends s = []" "fresh_parcel (parcel (conn s j))" "offset (conn s j) = 0" "0 < fd"
    and r: "request_safe r" "2 * length (request_bytes narrow r) \<le> max_payload"
    and evs: "stream evs = parcel_wire MEDIA_PARCEL_SEND_ACK (request_bytes narrow r)"
      "\<forall>ev\<in>set evs. \<exists>bs. ev = Received bs"
  shows "\<exists>p s0 ret resp s1 s2 w'. s0 = set_conn j ((conn s j)\<lparr>parcel := p, offset := length (stream evs)\<rparr>) s
    \<and> parcel_data p = request_bytes narrow r
    \<and> served_as alloc h j r s0 w = Some (ret, resp, s1, w')
    \<and> 2 * length (reply_bytes ret resp) \<le> max_payload
    \<and> media_server_receive alloc net_open local_cpu (media_stub_onreceive alloc narrow h) fd
        \<lparr>pollin = True, pollerr = False, pollhup = False\<rparr> j s w evs = Some (-EAGAIN, s2, w')
    \<and> wire s2 = wire s1 @ [(tran_fd (conn s j), parcel_wire MEDIA_PARCEL_REPLY (reply_bytes ret resp))] \<and> winv w'"
proof -
  let ?d = "request_bytes narrow r" and ?on = "media_stub_onreceive alloc narrow h"
  let ?ms = "[(MEDIA_PARCEL_SEND_ACK, ?d)]" and ?m' = "parcel_wire 1 []"
  have adm: "case (alloc, h) of (alloc, h) \<Rightarrow> alloc_total alloc \<and> served_ok winv any_request alloc h"
    using al h by (simp add: served_modules)
  have rq: "\<forall>m\<in>set ?ms. stub.request_ok any_request narrow (alloc, h) m"
    unfolding stub.request_ok_def using r any_request by (auto simp: code_defs)
  have m': "wire_message ?m'" "0 < length ?m'"
    using wire_message_parcel[of "[]" 1] by (simp_all add: max_payload_def)
  have inv: "recv_inv (hd (map (\<lambda>(c, d). parcel_wire c d) ?ms @ [?m'])) (parcel (conn s j)) (offset (conn s j))"
    using fresh_recv_inv[OF j(3)] j(4) by simp
  have str: "stream evs @ drop 0 ?m' = drop (offset (conn s j)) (concat (map (\<lambda>(c, d). parcel_wire c d) ?ms @ [?m']))"
    using evs(1) j(4) by simp
  from stub.receive_serves[OF al adm w j(1,2) rq m' inv str evs(2), of net_open local_cpu] obtain s3 p3 w' where
    rl: "receive_loop alloc net_open local_cpu ?on j s w evs
      = Some (-EAGAIN, set_conn j ((conn s3 j)\<lparr>parcel := p3, offset := 0\<rparr>) s3, w', [])"
    and sv: "served net_open local_cpu ?on j ?ms s w s3 w'" "winv w'"
    unfolding prod.case by blast
  from sv(1) obtain p s1' q where p: "parcel_wf p" "chunk_code p = MEDIA_PARCEL_SEND_ACK" "parcel_data p = ?d" "next_pos p = 0"
    and dp: "server_dispatch net_open local_cpu ?on j (set_conn j ((conn s j)\<lparr>parcel := p, offset := 8 + length ?d\<rparr>) s) w
      = Some (s1', w')" and s3: "s3 = set_conn j ((conn s1' j)\<lparr>parcel := q, offset := 0\<rparr>) s1'"
    by (auto simp: served_Cons served_Nil)
  let ?s0 = "set_conn j ((conn s j)\<lparr>parcel := p, offset := 8 + length ?d\<rparr>) s"
  have s0: "j < length (conns ?s0)" "sends ?s0 = []" "parcel (conn ?s0 j) = p" "tran_fd (conn ?s0 j) = tran_fd (conn s j)"
    using j by (simp_all add: conn_simps)
  from onreceive_served[OF al h[folded served_modules] r(1) _ w s0(1,2) p(1,4,3)] obtain ret resp s1 w1 where
    sa: "served_as alloc h j r ?s0 w = Some (ret, resp, s1, w1)" "same_requests ?s0 s1"
      "response_ok (response_buffer alloc (req_len r)) resp"
      "\<And>a. fresh_parcel a \<Longrightarrow> \<exists>q. ?on j p (Some a) ?s0 w = Some (Some q, s1, w1) \<and> parcel_wf q
        \<and> parcel_data q = reply_bytes ret resp" by blast
  obtain ack where ack: "media_parcel_init stack_parcel = Some ack" "fresh_parcel ack" using stack_init by blast
  from sa(4)[OF ack(2)] obtain a1 where a1: "?on j p (Some ack) ?s0 w = Some (Some a1, s1, w1)" "parcel_wf a1"
    "parcel_data a1 = reply_bytes ret resp" by blast
  have "sends s1 = []" using sa(2) s0(2) by (simp add: same_requests_def)
  from net_send_unbounded[OF this a1(2), of MEDIA_PARCEL_REPLY "tran_fd (conn s j)"] a1(3)
  have "net_send (tran_fd (conn s j)) MEDIA_PARCEL_REPLY a1 s1
    = Some (0, s1\<lparr>wire := wire s1 @ [(tran_fd (conn s j), parcel_wire MEDIA_PARCEL_REPLY (reply_bytes ret resp))]\<rparr>)"
    by (simp add: code_defs)
  with dp a1 ack s0(3,4) p(2) have d: "w' = w1"
    "s1' = s1\<lparr>wire := wire s1 @ [(tran_fd (conn s j), parcel_wire MEDIA_PARCEL_REPLY (reply_bytes ret resp))]\<rparr>"
    by (simp_all add: server_dispatch_def media_parcel_get_code_def code_defs)
  have len: "length (stream evs) = 8 + length ?d" using evs(1) by (simp add: parcel_wire_def)
  have rb: "2 * length (reply_bytes ret resp) \<le> max_payload"
    using Media_Stub.reply_text[OF sa(3), of undefined undefined ret] r(1) by (auto simp: request_safe_def)
  show ?thesis
    by (rule exI[of _ p], rule exI[of _ ?s0], rule exI[of _ ret], rule exI[of _ resp], rule exI[of _ s1],
        rule exI[of _ "set_conn j ((conn s3 j)\<lparr>parcel := p3, offset := 0\<rparr>) s3"], rule exI[of _ w'])
      (use rl sa(1) d len p(3) rb j(5) sv(2) in \<open>simp add: media_server_receive_def s3 conn_simps\<close>)
qed

section \<open>Events on the wire\<close>

text \<open>The events a component raises on a connection, in order.\<close>

fun notify_all :: "allocator \<Rightarrow> (64 word \<Rightarrow> 32 word) \<Rightarrow> nat \<Rightarrow> (32 word \<times> 32 word \<times> bytes option) list
    \<Rightarrow> media_server_priv \<Rightarrow> media_server_priv option" where
  "notify_all alloc narrow j [] s = Some s"
| "notify_all alloc narrow j ((e, r, x) # es) s =
     do { s1 \<leftarrow> media_stub_notify_event alloc narrow s (Some j) e r x; notify_all alloc narrow j es s1 }"

lemma notify_all_sends:
  "alloc_total alloc \<Longrightarrow> \<forall>e\<in>set es. event_ok e \<Longrightarrow> 0 < notify_fd (conn s j) \<Longrightarrow> sends s = [] \<Longrightarrow>
   notify_all alloc narrow j es s = Some (s\<lparr>wire := wire s
     @ map (\<lambda>e. (notify_fd (conn s j), parcel_wire MEDIA_PARCEL_NOTIFY (event_bytes e))) es\<rparr>)"
proof (induction es arbitrary: s)
  case (Cons e es)
  obtain a b x where e: "e = (a, b, x)" by (cases e)
  let ?s = "s\<lparr>wire := wire s @ [(notify_fd (conn s j), parcel_wire MEDIA_PARCEL_NOTIFY (event_bytes e))]\<rparr>"
  have c: "conn ?s j = conn s j" "sends ?s = []" using Cons.prems(4) by (simp_all add: conn_def)
  from notify_event_sends[OF Cons.prems(1) _ Cons.prems(3,4), of a b x narrow] Cons.prems(2) e
  have "media_stub_notify_event alloc narrow s (Some j) a b x = Some ?s" by simp
  with Cons.IH[of ?s] Cons.prems c e show ?case by simp
qed simp

text \<open>The listening thread, on a stream of notifications in any segmentation.\<close>

lemma listen_stops:
  assumes al: "alloc_total alloc" and m: "wire_message m" "k < length m"
    and str: "stream evs = take k m" and ev: "\<forall>ev\<in>set evs. \<exists>bs. ev = Received bs"
  shows "listen_loop alloc evs acc = Some (acc, [])"
proof -
  have al': "alloc_ok alloc" using al by (simp add: alloc_total_def)
  obtain q where q: "media_parcel_init stack_parcel = Some q" "fresh_parcel q" using stack_init by blast
  have "stream evs @ drop k m = drop 0 m @ []" using str by simp
  from recv_loop_inv[OF m(1) al' fresh_recv_inv[OF q(2)] this, of 8] obtain r q' n evs' where
    r: "recv_loop alloc q 0 8 evs = Some (r, q', n, evs')"
      "r = -ENOMEM \<or> stream evs' @ drop k m = drop n m
        \<and> (n = length m \<and> r = 0 \<or> n < length m \<and> r = -EAGAIN \<and> evs' = [])"
    using ev by auto
  have "r \<noteq> -ENOMEM" by (rule recv_total[OF al r(1) ev])
  moreover have "n \<noteq> length m" if "stream evs' @ drop k m = drop n m"
    using arg_cong[OF that, of length] m(2) by auto
  ultimately have "r = -EAGAIN" "evs' = []" using r(2) by auto
  with r(1) q fresh_facts(4)[OF q(2)] show ?thesis
    by (simp add: listen_loop.simps[of alloc evs] media_parcel_recv_def parcel_consts)
qed

lemma listen_waits: "alloc_total alloc \<Longrightarrow> listen_loop alloc [] acc = Some (acc, [])"
  by (rule listen_stops[where m = "parcel_wire 1 []" and k = 0])
    (use wire_message_parcel[of "[]" 1] in \<open>simp_all add: max_payload_def\<close>)

lemma listen_delivers:
  assumes "alloc_total alloc" "\<forall>d\<in>set ds. 2 * length d \<le> max_payload" "wire_message m" "k < length m"
    "stream evs = concat (map (parcel_wire MEDIA_PARCEL_NOTIFY) ds) @ take k m"
    "\<forall>ev\<in>set evs. \<exists>bs. ev = Received bs"
  shows "\<exists>qs. listen_loop alloc evs acc = Some (acc @ qs, [])
    \<and> list_all2 (\<lambda>q d. parcel_wf q \<and> chunk_code q = MEDIA_PARCEL_NOTIFY \<and> parcel_rest q = d) qs ds"
  using assms
proof (induction ds arbitrary: evs acc)
  case Nil
  then show ?case using listen_stops[of alloc m k evs acc] by simp
next
  case (Cons d ds)
  obtain q where q: "media_parcel_init stack_parcel = Some q" "fresh_parcel q" using stack_init by blast
  let ?m = "parcel_wire MEDIA_PARCEL_NOTIFY d"
  have d: "2 * length d \<le> max_payload" using Cons.prems(2) by simp
  note wire = wire_message_parcel[OF d, of MEDIA_PARCEL_NOTIFY]
  have "stream evs = ?m @ concat (map (parcel_wire MEDIA_PARCEL_NOTIFY) ds) @ take k m" using Cons.prems(5) by simp
  from recv_message[OF Cons.prems(1) q(2) wire(1) this Cons.prems(6)] obtain p evs' where
    p: "media_parcel_recv alloc q None evs = Some (0, p, length ?m, evs')" "recv_inv ?m p (length ?m)"
      "stream evs' = concat (map (parcel_wire MEDIA_PARCEL_NOTIFY) ds) @ take k m"
      "\<forall>ev\<in>set evs'. \<exists>bs. ev = Received bs" by blast
  have pw: "parcel_wf p" "chunk_code p = MEDIA_PARCEL_NOTIFY" "parcel_rest p = d"
    using received_parcel[OF wire(1) p(2)] wire(3,4) by (auto simp: code_defs parcel_rest_def)
  from Cons.IH[OF Cons.prems(1) _ Cons.prems(3,4) p(3,4), of "acc @ [p]"] Cons.prems(2) obtain qs where
    qs: "listen_loop alloc evs' (acc @ [p]) = Some ((acc @ [p]) @ qs, [])"
      "list_all2 (\<lambda>q d. parcel_wf q \<and> chunk_code q = MEDIA_PARCEL_NOTIFY \<and> parcel_rest q = d) qs ds" by auto
  have "listen_loop alloc evs acc = listen_loop alloc evs' (acc @ [p])"
    using p(1) q(1) pw(2) by (simp add: listen_loop.simps[of alloc evs acc] media_parcel_get_code_def)
  with qs pw show ?case by (intro exI[of _ "p # qs"]) simp
qed

section \<open>Asking for a notification socket\<close>

lemma append_string_total:
  assumes "alloc_total alloc" "parcel_wf p" "length s + 1 + chunk_len p \<le> max_payload"
  shows "\<exists>q. media_parcel_append_string alloc p (Some s) = Some (0, q) \<and> parcel_wf q \<and> parcel_data q = parcel_data p @ s @ [0]
    \<and> chunk_len q = chunk_len p + length s + 1"
proof -
  have "length (s @ [0]) + chunk_len p \<le> max_payload" using assms(3) by simp
  moreover have "alloc_ok alloc" using assms(1) by (simp add: alloc_total_def)
  ultimately have "media_parcel_append alloc p (s @ [0]) = Some (-ENOMEM, p)
    \<or> (\<exists>p'. media_parcel_append alloc p (s @ [0]) = Some (0, p') \<and> parcel_wf p'
        \<and> parcel_data p' = parcel_data p @ (s @ [0]) \<and> next_pos p' = next_pos p
        \<and> chunk_len p' = chunk_len p + length (s @ [0]))"
    using append_cases[OF assms(2)] by blast
  with append_total[OF assms(1), of p "s @ [0]"] show ?thesis by (auto simp: media_parcel_append_string_def)
qed

lemma create_listenfd_sends:
  assumes al: "alloc_total alloc" and len: "length local_cpu \<le> 1000"
    and ok: "0 \<le> sock addr" "0 \<le> bnd addr" "0 \<le> lst addr"
    and addr: "addr = media_proxy_get_sockaddr z local_cpu cpu (strlcpy_bytes 32 key)"
    and sevs: "\<forall>e\<in>set sevs. \<exists>n>0. e = Sent n" "2000 \<le> length sevs"
  shows "media_proxy_create_listenfd alloc z local_cpu sock bnd lst key c cpu sevs
    = Some (0, c\<lparr>client_listenfd := sock addr\<rparr>,
        parcel_wire MEDIA_PARCEL_CREATE_NOTIFY (strlcpy_bytes 32 key @ [0] @ local_cpu @ [0]), [])"
proof -
  obtain q where q: "media_parcel_init stack_parcel = Some q" "fresh_parcel q" using stack_init by blast
  note f = fresh_facts[OF q(2)]
  have k: "length (strlcpy_bytes 32 key) \<le> 31" by (simp add: strlcpy_bytes_def)
  have "length (strlcpy_bytes 32 key) + 1 + chunk_len q \<le> max_payload" using k f(4) by (simp add: max_payload_def)
  from append_string_total[OF al f(1) this] f(2) f(4) obtain p1 where
    p1: "media_parcel_append_string alloc q (Some (strlcpy_bytes 32 key)) = Some (0, p1)" "parcel_wf p1"
      "parcel_data p1 = strlcpy_bytes 32 key @ [0]" "chunk_len p1 = length (strlcpy_bytes 32 key) + 1" by auto
  have "length local_cpu + 1 + chunk_len p1 \<le> max_payload" using k len p1(4) by (simp add: max_payload_def)
  from append_string_total[OF al p1(2) this] p1(3,4) obtain p2 where
    p2: "media_parcel_append_string alloc p1 (Some local_cpu) = Some (0, p2)" "parcel_wf p2"
      "parcel_data p2 = strlcpy_bytes 32 key @ [0] @ local_cpu @ [0]" by auto
  have l: "8 + length (parcel_data p2) \<le> length sevs" using k len sevs(2) p2(3) by simp
  obtain p3 s3 where sd: "media_parcel_send p2 MEDIA_PARCEL_CREATE_NOTIFY sevs
      = Some (0, p3, parcel_wire MEDIA_PARCEL_CREATE_NOTIFY (parcel_data p2), s3)"
    using send_message[OF p2(2) _ sevs(1) l, of MEDIA_PARCEL_CREATE_NOTIFY] by (auto simp: code_defs)
  show ?thesis
    using q(1) p1(1) p2(1,3) sd ok addr by (simp add: media_proxy_create_listenfd_def Let_def)
qed

section \<open>Properties\<close>


text \<open>A graph module that answers every command with the text \<open>h\<close>, and a client connected to it.\<close>

definition greeting_modules :: "nat modules" where
  "greeting_modules = counting_modules\<lparr>graph_handler :=
     Some (\<lambda>t c a b n s w. Some (7, map_option (\<lambda>x. if length x < 2 then x else 104 # tl x) b, s, Suc w))\<rparr>"

lemma greeting_ok: "modules_ok (\<lambda>_. True) zero_alloc greeting_modules"
proof -
  have b: "response_ok (response_buffer zero_alloc n)
      (map_option (\<lambda>x. if length x < 2 then x else 104 # tl x) (response_buffer zero_alloc n))" for n
  proof (cases "0 < sint n")
    case True
    then obtain m where m: "nat (sint n) = Suc m" using gr0_implies_Suc[of "nat (sint n)"] by auto
    then show ?thesis using True
      by (cases m) (auto simp: response_ok_def response_buffer_def zero_alloc_def)
  qed (simp add: response_ok_def response_buffer_def)
  have n: "response_ok c None" for c by (simp add: response_ok_def)
  show ?thesis
    using b n by (auto simp: modules_ok_def call_ok_def served_as_def greeting_modules_def counting_modules_def
        call_module_def Let_def)
qed

definition idle_server :: media_server_priv where
  "idle_server = local_server\<lparr>conns := [zero_conn\<lparr>tran_fd := 5, notify_fd := 6, parcel := zero_parcel\<rparr>]\<rparr>"

lemma idle_facts:
  "conn idle_server 0 = zero_conn\<lparr>tran_fd := 5, notify_fd := 6, parcel := zero_parcel\<rparr>" "sends idle_server = []"
  "length (conns idle_server) = 1" "wire idle_server = []"
  by (simp_all add: conn_def idle_server_def local_server_def)

definition connected_client :: media_client_priv where
  "connected_client = \<lparr>client_fd = 9, client_listenfd = 0, client_thread = 0, client_event_cb = None,
     client_event_cookie = 0, client_release_cb = None, client_release_cookie = 0, client_refs = 1\<rparr>"

lemma ping_outcome: "once_outcome 7 [104] (Some [1, 1, 1, 1]) 4 = Some (7, Some [104, 0, 1, 1])"
  by (simp add: once_outcome_def strlcpy_res_def strlcpy_bytes_def norm_def)

lemma greeting_serves:
  "served_as zero_alloc greeting_modules 0 ping_request s w = Some (7, Some [104, 0, 0, 0], s, Suc w)"
proof -
  have "response_buffer zero_alloc 4 = Some [0, 0, 0, 0]"
    by (simp add: response_buffer_def zero_alloc_def eval_nat_numeral)
  then show ?thesis
    by (simp add: served_as_def ping_request_def media_ids greeting_modules_def call_module_def)
qed




text \<open>A transaction that fails leaves the response buffer alone.\<close>

lemma once_failed_res:
  "media_proxy_once alloc narrow h t c a ap res n sevs revs = Some (ret, res', out, revs') \<Longrightarrow> ret < 0 \<Longrightarrow> res' = res"
  unfolding media_proxy_once_def
  by (auto simp: bind_Some_iff Let_def not_less split: option.splits if_splits prod.splits)

text \<open>What one processor of the list does: it cannot be reached, or it answers.\<close>

definition cpu_answer :: "allocator \<Rightarrow> (64 word \<Rightarrow> 32 word) \<Rightarrow> addr_sizes \<Rightarrow> bytes \<Rightarrow> (bytes \<Rightarrow> cpu_env) \<Rightarrow> 32 word
    \<Rightarrow> bytes option \<Rightarrow> bytes option \<Rightarrow> bytes option \<Rightarrow> 32 word \<Rightarrow> bytes option \<Rightarrow> 32 word \<Rightarrow> bytes
    \<Rightarrow> (media_client_priv \<times> int \<times> bytes option \<times> bytes) option option" where
  "cpu_answer alloc narrow z local_cpu env ident target cmd arg apply res n cpu =
     (case media_proxy_connect z local_cpu (env_mem (env cpu)) (\<lambda>_. env_sock (env cpu)) (\<lambda>_. env_connect (env cpu)) cpu of
        (None, _) \<Rightarrow> Some None
      | (Some c, _) \<Rightarrow> map_option (\<lambda>(ret, res', out, _). Some (c, ret, res', out))
          (media_proxy_once alloc narrow (Some \<lparr>proxy_type = ident, proxy = Some c, proxy_cpu = Some cpu\<rparr>)
            target cmd arg apply res n (env_sevs (env cpu)) (env_revs (env cpu))))"

lemma proxy_loop_step:
  "proxy_loop alloc narrow z local_cpu env keep priv target cmd arg apply res n (cpu # cpus) ret log =
    (case cpu_answer alloc narrow z local_cpu env (proxy_type priv) target cmd arg apply res n cpu of
       None \<Rightarrow> None
     | Some None \<Rightarrow> proxy_loop alloc narrow z local_cpu env keep (priv\<lparr>proxy := None\<rparr>)
         target cmd arg apply res n cpus ret log
     | Some (Some (c, ret1, res1, out)) \<Rightarrow>
         let priv1 = \<lparr>proxy_type = proxy_type priv, proxy = Some c, proxy_cpu = Some cpu\<rparr> in
         if keep \<and> ret1 \<ge> 0 then Some (ret1, res1, priv1, log @ [(cpu, out)])
         else proxy_loop alloc narrow z local_cpu env keep priv1 target cmd arg apply res1 n cpus ret1 (log @ [(cpu, out)]))"
proof -
  have e: "priv\<lparr>proxy := Some c, proxy_cpu := Some cpu\<rparr>
      = \<lparr>proxy_type = proxy_type priv, proxy = Some c, proxy_cpu = Some cpu\<rparr>" for c by (cases priv) simp
  show ?thesis
  proof (cases "media_proxy_connect z local_cpu (env_mem (env cpu)) (\<lambda>_. env_sock (env cpu)) (\<lambda>_. env_connect (env cpu)) cpu")
    case (Pair a b)
    show ?thesis
    proof (cases a)
      case (Some c)
      then show ?thesis using Pair
        by (cases "media_proxy_once alloc narrow (Some \<lparr>proxy_type = proxy_type priv, proxy = Some c, proxy_cpu = Some cpu\<rparr>)
            target cmd arg apply res n (env_sevs (env cpu)) (env_revs (env cpu))") (auto simp: cpu_answer_def e Let_def)
    qed (simp add: Pair cpu_answer_def)
  qed
qed

declare proxy_loop.simps(2) [simp del]

text \<open>The processors contacted among those that failed, with what each was sent.\<close>

definition contacted :: "(bytes \<Rightarrow> (media_client_priv \<times> int \<times> bytes option \<times> bytes) option option) \<Rightarrow> bytes list
    \<Rightarrow> (bytes \<times> bytes) list" where
  "contacted answer cpus = concat (map (\<lambda>cpu. case answer cpu of Some (Some (c, ret, res, out)) \<Rightarrow> [(cpu, out)] | _ \<Rightarrow> []) cpus)"

definition cpu_fails :: "bytes option \<Rightarrow> (media_client_priv \<times> int \<times> bytes option \<times> bytes) option option \<Rightarrow> bool" where
  "cpu_fails res a \<longleftrightarrow> a = Some None \<or> (\<exists>c ret out. a = Some (Some (c, ret, res, out)) \<and> ret < 0)"

lemma answer_fails:
  assumes "cpu_answer alloc narrow z local_cpu env ident target cmd arg apply res n cpu = Some (Some (c, ret, res', out))" "ret < 0"
  shows "res' = res"
  using assms once_failed_res[of alloc narrow _ target cmd arg "apply" res n]
  by (auto simp: cpu_answer_def split: option.splits prod.splits)

lemma proxy_loop_skips:
  assumes ans_def: "ans = cpu_answer alloc narrow z local_cpu env (proxy_type priv) target cmd arg apply res n"
    and "\<forall>cpu\<in>set pre. cpu_fails res (ans cpu)"
  shows "\<exists>priv' ret'. proxy_type priv' = proxy_type priv \<and> (ret < 0 \<longrightarrow> ret' < 0) \<and>
    proxy_loop alloc narrow z local_cpu env True priv target cmd arg apply res n (pre @ post) ret log
    = proxy_loop alloc narrow z local_cpu env True priv' target cmd arg apply res n post ret' (log @ contacted ans pre)"
  using assms(2) unfolding ans_def
proof (induction pre arbitrary: priv ret log)
  case Nil
  then show ?case by (intro exI[of _ priv] exI[of _ ret]) (simp add: contacted_def)
next
  case (Cons cpu pre)
  let ?ans = "cpu_answer alloc narrow z local_cpu env (proxy_type priv) target cmd arg apply res n"
  have pre: "\<forall>cpu\<in>set pre. cpu_fails res (?ans cpu)" and c: "cpu_fails res (?ans cpu)" using Cons.prems by auto
  from c consider "?ans cpu = Some None" | c0 r out where "?ans cpu = Some (Some (c0, r, res, out))" "r < 0"
    by (auto simp: cpu_fails_def)
  then show ?case
  proof cases
    case 1
    from Cons.IH[of "priv\<lparr>proxy := None\<rparr>" ret log] pre 1 show ?thesis
      by (auto simp: proxy_loop_step contacted_def)
  next
    case 2
    let ?p = "\<lparr>proxy_type = proxy_type priv, proxy = Some c0, proxy_cpu = Some cpu\<rparr>"
    from Cons.IH[of ?p r "log @ [(cpu, out)]"] pre 2 show ?thesis
      by (auto simp: proxy_loop_step contacted_def)
  qed
qed


text \<open>C31: A connection with a listening thread is torn down once, whichever side goes first: when the
  thread ends before the client disconnects, and when the client disconnects from within an event
  callback before the thread ends, the transport, the listening and the accepted socket are each
  closed exactly once, and the client is released exactly once, after all of them.\<close>

theorem proxy_teardown:
  assumes "media_proxy_connect z local_cpu True sock conct cpu = (Some c0, [])" "c1 = c0\<lparr>client_release_cb := Some f\<rparr>"
    and "media_proxy_set_event_cb alloc z local_cpu lsock bnd lst key 0 tid (Some c1) cpu (Some cb) cookie sevs
      = Some (0, Some c, sent, [])"
    and "listen_loop alloc evs [] = Some (ps, rest)" "0 < acceptfd" "0 < tid"
  shows "\<exists>c' c''.
      media_proxy_listen_thread alloc acceptfd c evs = Some (ps, Some c', [Close_fd acceptfd, Close_fd (client_listenfd c)])
    \<and> media_proxy_disconnect 0 (Some c') = (0, None, [Close_fd (client_fd c0), Release f 0, Free_client])
    \<and> media_proxy_disconnect EDEADLK (Some c) = (0, Some c'', [Detach tid, Close_fd (client_fd c0)])
    \<and> media_proxy_listen_thread alloc acceptfd c'' evs
        = Some (ps, None, [Close_fd acceptfd, Close_fd (client_listenfd c), Release f 0, Free_client])"
proof -
  have c0: "0 < client_fd c0" "client_refs c0 = 1" "client_thread c0 = 0" "client_release_cookie c0 = 0"
    using assms(1) by (auto simp: media_proxy_connect_def Let_def split: if_splits)
  have lf: "media_proxy_create_listenfd alloc z local_cpu lsock bnd lst key x cpu sevs = Some (r, x', o', e)
      \<Longrightarrow> \<exists>l. x' = x\<lparr>client_listenfd := l\<rparr>" for x r x' o' e
    unfolding media_proxy_create_listenfd_def
    by (auto simp: bind_Some_iff Let_def split: if_splits)
  obtain l where c: "c = c1\<lparr>client_event_cb := Some cb, client_event_cookie := cookie, client_listenfd := l,
      client_refs := 2, client_thread := tid\<rparr>"
    using assms(2,3) c0 by (auto simp: media_proxy_set_event_cb_def bind_Some_iff Let_def media_proxy_ref_def
        dest!: lf split: if_splits prod.splits)
  show ?thesis
    using assms(2,4,5) c c0
    by (simp add: media_proxy_listen_thread_def media_proxy_disconnect_def media_proxy_unref_def)
qed

text \<open>An interrupted receive loses data: when a signal interrupts the listening thread after part
  of a header has arrived, it starts over on a fresh parcel, and the part received is dropped, so
  the rest of the notification is read as the beginning of the next.\<close>

theorem proxy_interrupt_desync:
  assumes "bs \<noteq> []" "length bs < 8"
  shows "listen_loop alloc (Received bs # Recv_error EINTR # evs) acc = listen_loop alloc evs acc"
proof -
  obtain q where q: "media_parcel_init stack_parcel = Some q" "fresh_parcel q" using stack_init by blast
  note f = fresh_facts[OF q(2)]
  have l: "length (chunk q) = 264" using f(1,5) by (simp add: parcel_wf_def parcel_shape_def)
  obtain c where c: "write_at 0 bs (chunk q) = Some c" using l assms(2) by (simp add: write_at_Some)
  have "recv_loop alloc q 0 8 (Received bs # Recv_error EINTR # evs) = Some (-EINTR, set_chunk c q, length bs, evs)"
    using assms c by (simp add: recv_loop.simps[of alloc q] recv_loop.simps[of alloc "set_chunk c q"]
        parcel_consts Let_def u32_def)
  then show ?thesis
    using q(1) f(4) by (simp add: listen_loop.simps[of alloc "Received bs # Recv_error EINTR # evs"]
        media_parcel_recv_def parcel_consts)
qed



definition teardown_client :: media_client_priv where
  "teardown_client = connected_client\<lparr>client_release_cb := Some 1, client_event_cb := Some 2, client_event_cookie := 3,
     client_listenfd := 7, client_refs := 2, client_thread := 4\<rparr>"

lemma proxy_teardown_witness:
  "\<exists>c' e1. media_proxy_listen_thread zero_alloc 8 teardown_client [] = Some ([], Some c', e1)
    \<and> media_proxy_disconnect 0 (Some c') = (0, None, [Close_fd 9, Release 1 0, Free_client])"
proof -
  let ?z = "\<lparr>unix_path_max = 108, rpmsg_name_size = 32, rpmsg_cpu_size = 16\<rparr>"
  have "media_proxy_connect ?z [97] True (\<lambda>_. 9) (\<lambda>_. 0) [97] = (Some connected_client, [])"
    by (simp add: media_proxy_connect_def connected_client_def)
  moreover have "media_proxy_set_event_cb zero_alloc ?z [97] (\<lambda>_. 7) (\<lambda>_. 0) (\<lambda>_. 0) [109, 100] 0 4
      (Some (connected_client\<lparr>client_release_cb := Some 1\<rparr>)) [97] (Some 2) 3 (replicate 2000 (Sent 1))
      = Some (0, Some teardown_client, parcel_wire MEDIA_PARCEL_CREATE_NOTIFY (strlcpy_bytes 32 [109, 100] @ [0] @ [97] @ [0]), [])"
    using create_listenfd_sends[OF zero_alloc_total, of "[97]" "\<lambda>_. 7" _ "\<lambda>_. 0" "\<lambda>_. 0" ?z "[97]" "[109, 100]"
        "replicate 2000 (Sent 1)"]
    by (auto simp: media_proxy_set_event_cb_def media_proxy_ref_def teardown_client_def connected_client_def)
  moreover have "listen_loop zero_alloc [] [] = Some ([], [])" by (rule listen_waits[OF zero_alloc_total])
  ultimately show ?thesis
    using proxy_teardown[of ?z "[97]" "\<lambda>_. 9" "\<lambda>_. 0" "[97]" connected_client
        "connected_client\<lparr>client_release_cb := Some 1\<rparr>" 1 zero_alloc "\<lambda>_. 7" "\<lambda>_. 0" "\<lambda>_. 0" "[109, 100]" 4 2 3
        "replicate 2000 (Sent 1)" teardown_client _ "[]" "[]" "[]" 8]
    by (auto simp: teardown_client_def connected_client_def)
qed

lemma proxy_interrupt_desync_witness:
  "listen_loop zero_alloc [Received [5, 0, 0], Recv_error EINTR] [] = Some ([], [])"
  using proxy_interrupt_desync[of "[5, 0, 0]" zero_alloc "[]" "[]"] listen_waits[OF zero_alloc_total] by simp

text \<open>Two processors, of which the first is down and the second serves the ping.\<close>

definition two_cpus :: "bytes \<Rightarrow> cpu_env" where
  "two_cpus cpu = \<lparr>env_mem = True, env_sock = 9, env_connect = (if cpu = c_bytes ''ap'' then -EPERM else 0),
     env_sevs = replicate 20 (Sent 7), env_revs = [Received [3, 0, 0, 0, 5, 0, 0, 0, 7, 0, 0, 0, 0]]\<rparr>"


end
