(* ===== verification/Media_Metadata.thy ===== *)
theory Media_Metadata
  imports C_Lib
begin

text \<open>
  The metadata of a media session and its text form, \<open>utils/media_metadata.c\<close>, with the
  parts of \<open>sscanf\<close> and \<open>snprintf\<close> it and its callers use, and the names of events and modules,
  \<open>utils/media_utils.c\<close>.

  \<open>int\<close> and \<open>unsigned\<close> fields are an \<open>int\<close> and a \<open>nat\<close> in the range of 32 bits; a conversion
  whose value is out of range, and a word longer than the array it is scanned into, are undefined
  behaviour and give \<open>None\<close>. What \<open>%s\<close> prints for NULL is a parameter.
\<close>

section \<open>Scanning and printing\<close>

datatype scan_spec = Scan_d | Scan_u | Scan_s nat | Scan_char char | Scan_space
datatype scanned = Int_value int | Uns_value nat | Str_value string

definition read_number :: "string \<Rightarrow> (int \<times> string) option" where
  \<comment> \<open>white space, an optional sign and digits\<close>
  "read_number s =
     (let s1 = dropWhile isspace s;
          neg = (s1 \<noteq> [] \<and> hd s1 = CHR ''-'');
          s2 = (if s1 \<noteq> [] \<and> hd s1 \<in> {CHR ''-'', CHR ''+''} then tl s1 else s1);
          ds = takeWhile isdigit s2
      in if ds = [] then None
         else Some (if neg then - int (digits_val 0 ds) else int (digits_val 0 ds), drop (length ds) s2))"

fun sscanf_values :: "scan_spec list \<Rightarrow> string \<Rightarrow> scanned list option" where
  \<comment> \<open>the values stored, in order; the first directive that does not match ends the scan\<close>
  "sscanf_values [] s = Some []"
| "sscanf_values (Scan_char c # fs) s = (case s of [] \<Rightarrow> Some [] | x # r \<Rightarrow> if x = c then sscanf_values fs r else Some [])"
| "sscanf_values (Scan_space # fs) s = sscanf_values fs (dropWhile isspace s)"
| "sscanf_values (Scan_d # fs) s = (case read_number s of None \<Rightarrow> Some []
     | Some (v, r) \<Rightarrow> if -2147483648 \<le> v \<and> v < 2147483648
         then map_option (\<lambda>vs. Int_value v # vs) (sscanf_values fs r) else None)"
| "sscanf_values (Scan_u # fs) s = (case read_number s of None \<Rightarrow> Some []
     | Some (v, r) \<Rightarrow> if \<bar>v\<bar> < 4294967296
         then map_option (\<lambda>vs. Uns_value (nat (v mod 4294967296)) # vs) (sscanf_values fs r) else None)"
| "sscanf_values (Scan_s n # fs) s =
     (let s1 = dropWhile isspace s; tok = takeWhile (\<lambda>c. \<not> isspace c) s1 in
      if tok = [] then Some []
      else if length tok < n then map_option (\<lambda>vs. Str_value tok # vs) (sscanf_values fs (drop (length tok) s1))
      else None)"

definition sscanf_result :: "string \<Rightarrow> scanned list \<Rightarrow> int" where
  \<comment> \<open>the number of values, or \<open>EOF\<close> when the input ends before the first\<close>
  "sscanf_result s vs = (if vs = [] \<and> (\<forall>c\<in>set s. isspace c) then -1 else int (length vs))"

definition snprintf_put :: "string option \<Rightarrow> nat \<Rightarrow> string \<Rightarrow> (int \<times> string option) option" where
  \<comment> \<open>\<open>snprintf(base, len, ...)\<close> of a text: the length it needs, and the buffer\<close>
  "snprintf_put base len str =
     (if len = 0 then Some (int (length str), base)
      else do {
        buf \<leftarrow> base;
        new \<leftarrow> mem_put 0 (take (len - 1) str @ [NUL]) buf;
        Some (int (length str), Some new)
      })"

section \<open>Metadata\<close>

definition MEDIA_METAFLAG_STATE :: int where "MEDIA_METAFLAG_STATE = 1"
definition MEDIA_METAFLAG_VOLUME :: int where "MEDIA_METAFLAG_VOLUME = 2"
definition MEDIA_METAFLAG_POSITION :: int where "MEDIA_METAFLAG_POSITION = 4"
definition MEDIA_METAFLAG_DURATION :: int where "MEDIA_METAFLAG_DURATION = 8"
definition MEDIA_METAFLAG_TITLE :: int where "MEDIA_METAFLAG_TITLE = 16"
definition MEDIA_METAFLAG_ARTIST :: int where "MEDIA_METAFLAG_ARTIST = 32"

lemmas metaflags = MEDIA_METAFLAG_STATE_def MEDIA_METAFLAG_VOLUME_def MEDIA_METAFLAG_POSITION_def
  MEDIA_METAFLAG_DURATION_def MEDIA_METAFLAG_TITLE_def MEDIA_METAFLAG_ARTIST_def

record media_metadata =
  meta_flags :: int
  meta_state :: int
  meta_volume :: int
  meta_position :: nat
  meta_duration :: nat
  meta_title :: "string option"
  meta_artist :: "string option"

unbundle bit_operations_syntax

definition has_flag :: "int \<Rightarrow> int \<Rightarrow> bool" where
  "has_flag flags f \<longleftrightarrow> flags AND f \<noteq> 0"

definition media_metadata_init :: media_metadata where
  "media_metadata_init = \<lparr>meta_flags = 0, meta_state = 0, meta_volume = 0, meta_position = 0, meta_duration = 0,
     meta_title = None, meta_artist = None\<rparr>"

definition media_metadata_deinit :: "media_metadata \<Rightarrow> media_metadata" where
  "media_metadata_deinit d = d\<lparr>meta_title := None, meta_artist := None\<rparr>"

definition media_metadata_reinit :: "media_metadata \<Rightarrow> media_metadata" where
  "media_metadata_reinit d = (let d1 = media_metadata_deinit d in media_metadata_init)"

definition media_metadata_update :: "media_metadata \<Rightarrow> media_metadata \<Rightarrow> media_metadata \<times> media_metadata" where
  \<comment> \<open>the strings move from \<open>diff\<close> to \<open>data\<close>\<close>
  "media_metadata_update d diff =
    (let fl = has_flag (meta_flags diff);
         d0 = d\<lparr>meta_flags := meta_flags d OR meta_flags diff\<rparr>;
         d1 = (if fl MEDIA_METAFLAG_STATE then d0\<lparr>meta_state := meta_state diff\<rparr> else d0);
         d2 = (if fl MEDIA_METAFLAG_VOLUME then d1\<lparr>meta_volume := meta_volume diff\<rparr> else d1);
         d3 = (if fl MEDIA_METAFLAG_POSITION then d2\<lparr>meta_position := meta_position diff\<rparr> else d2);
         d4 = (if fl MEDIA_METAFLAG_DURATION then d3\<lparr>meta_duration := meta_duration diff\<rparr> else d3);
         (d5, diff1) = (if fl MEDIA_METAFLAG_TITLE
            then (d4\<lparr>meta_title := meta_title diff\<rparr>, diff\<lparr>meta_title := None\<rparr>) else (d4, diff));
         (d6, diff2) = (if fl MEDIA_METAFLAG_ARTIST
            then (d5\<lparr>meta_artist := meta_artist diff1\<rparr>, diff1\<lparr>meta_artist := None\<rparr>) else (d5, diff1))
     in (d6, diff2))"

definition metadata_text :: "string \<Rightarrow> media_metadata \<Rightarrow> string" where
  \<comment> \<open>\<open>"%d:%d:%d:%u:%u:%s\t%s"\<close>; \<open>null\<close> is what \<open>%s\<close> prints for NULL\<close>
  "metadata_text null d =
     int_digits (meta_flags d) @ '':'' @ int_digits (meta_state d) @ '':'' @ int_digits (meta_volume d) @ '':''
     @ nat_digits (meta_position d) @ '':'' @ nat_digits (meta_duration d) @ '':''
     @ (case meta_title d of None \<Rightarrow> null | Some t \<Rightarrow> t) @ [CHR 0x09]
     @ (case meta_artist d of None \<Rightarrow> null | Some t \<Rightarrow> t)"

definition media_metadata_serialize :: "string \<Rightarrow> media_metadata \<Rightarrow> string option \<Rightarrow> nat \<Rightarrow> (int \<times> string option) option" where
  "media_metadata_serialize null d base len = snprintf_put base len (metadata_text null d)"

definition metadata_format :: "scan_spec list" where
  "metadata_format = [Scan_d, Scan_char CHR '':'', Scan_d, Scan_char CHR '':'', Scan_d, Scan_char CHR '':'',
     Scan_u, Scan_char CHR '':'', Scan_u, Scan_char CHR '':'', Scan_s 128, Scan_space, Scan_s 128]"

fun store_scanned :: "nat \<Rightarrow> scanned list \<Rightarrow> media_metadata \<Rightarrow> media_metadata" where
  \<comment> \<open>the fields the first five values go to\<close>
  "store_scanned i [] d = d"
| "store_scanned i (v # vs) d = store_scanned (i + 1) vs (case v of
     Int_value n \<Rightarrow> (if i = 0 then d\<lparr>meta_flags := n\<rparr> else if i = 1 then d\<lparr>meta_state := n\<rparr> else d\<lparr>meta_volume := n\<rparr>)
   | Uns_value n \<Rightarrow> (if i = 3 then d\<lparr>meta_position := n\<rparr> else d\<lparr>meta_duration := n\<rparr>)
   | Str_value s \<Rightarrow> d)"

definition scanned_word :: "scanned list \<Rightarrow> nat \<Rightarrow> string option" where
  \<comment> \<open>the contents of an array the scan stored into, \<open>None\<close> when it is still uninitialised\<close>
  "scanned_word vs i = (if i < length vs then (case vs ! i of Str_value s \<Rightarrow> Some s | _ \<Rightarrow> None) else None)"

definition media_metadata_unserialize :: "(string \<Rightarrow> string option) \<Rightarrow> media_metadata \<Rightarrow> string option
    \<Rightarrow> (int \<times> media_metadata) option" where
  \<comment> \<open>\<open>dup\<close> is \<open>strdup\<close>; testing an uninitialised array is undefined behaviour\<close>
  "media_metadata_unserialize dup d str = (case str of
     None \<Rightarrow> Some (-EINVAL, d)
   | Some s \<Rightarrow> do {
       vs \<leftarrow> sscanf_values metadata_format s;
       let d1 = store_scanned 0 vs d;
       d2 \<leftarrow> (if has_flag (meta_flags d1) MEDIA_METAFLAG_TITLE
          then do { t \<leftarrow> scanned_word vs 5; Some (if t \<noteq> [] then d1\<lparr>meta_title := dup t\<rparr> else d1) } else Some d1);
       d3 \<leftarrow> (if has_flag (meta_flags d2) MEDIA_METAFLAG_ARTIST
          then do { a \<leftarrow> scanned_word vs 6; Some (if a \<noteq> [] then d2\<lparr>meta_artist := dup a\<rparr> else d2) } else Some d2);
       Some (sscanf_result s vs, d3)
     })"

section \<open>Names\<close>

definition MEDIA_EVENT_CHANGED :: int where "MEDIA_EVENT_CHANGED = 101"
definition MEDIA_EVENT_UPDATED :: int where "MEDIA_EVENT_UPDATED = 102"
definition MEDIA_EVENT_START :: int where "MEDIA_EVENT_START = 103"
definition MEDIA_EVENT_PAUSE :: int where "MEDIA_EVENT_PAUSE = 104"
definition MEDIA_EVENT_STOP :: int where "MEDIA_EVENT_STOP = 105"
definition MEDIA_EVENT_PREV_SONG :: int where "MEDIA_EVENT_PREV_SONG = 106"
definition MEDIA_EVENT_NEXT_SONG :: int where "MEDIA_EVENT_NEXT_SONG = 107"
definition MEDIA_EVENT_INCREASE_VOLUME :: int where "MEDIA_EVENT_INCREASE_VOLUME = 108"
definition MEDIA_EVENT_DECREASE_VOLUME :: int where "MEDIA_EVENT_DECREASE_VOLUME = 109"

lemmas media_events = MEDIA_EVENT_CHANGED_def MEDIA_EVENT_UPDATED_def MEDIA_EVENT_START_def MEDIA_EVENT_PAUSE_def
  MEDIA_EVENT_STOP_def MEDIA_EVENT_PREV_SONG_def MEDIA_EVENT_NEXT_SONG_def MEDIA_EVENT_INCREASE_VOLUME_def
  MEDIA_EVENT_DECREASE_VOLUME_def

definition media_event_get_name :: "int \<Rightarrow> string" where
  "media_event_get_name event =
    (if event = 0 then ''NOP'' else if event = 1 then ''PREPARED'' else if event = 2 then ''STARTED''
     else if event = 3 then ''PAUSED'' else if event = 4 then ''STOPPED'' else if event = 5 then ''SEEKED''
     else if event = 6 then ''COMPLETED''
     else if event = MEDIA_EVENT_CHANGED then ''CHANGED'' else if event = MEDIA_EVENT_UPDATED then ''UPDATED''
     else if event = MEDIA_EVENT_START then ''START'' else if event = MEDIA_EVENT_PAUSE then ''START''
     else if event = MEDIA_EVENT_STOP then ''STOP'' else if event = MEDIA_EVENT_PREV_SONG then ''PREV_SONG''
     else if event = MEDIA_EVENT_NEXT_SONG then ''NEXT_SONG''
     else if event = MEDIA_EVENT_INCREASE_VOLUME then ''INCREASE_VOLUME''
     else if event = MEDIA_EVENT_DECREASE_VOLUME then ''DECREASE_VOLUME'' else ''UNKOWN'')"

definition media_id_get_name :: "int \<Rightarrow> string" where
  "media_id_get_name ident =
    (if ident = 1 then ''graph'' else if ident = 2 then ''policy'' else if ident = 3 then ''player''
     else if ident = 4 then ''recorder'' else if ident = 5 then ''session'' else if ident = 6 then ''focus''
     else ''none'')"

definition media_get_cpuname :: "string option \<Rightarrow> (string \<Rightarrow> string \<Rightarrow> string) \<Rightarrow> string \<Rightarrow> string \<times> string" where
  \<comment> \<open>the configured name, or the property, which is read once; the second result is the cache\<close>
  "media_get_cpuname config property_get cached = (case config of
     Some name \<Rightarrow> (name, cached)
   | None \<Rightarrow> let c = (if cached = [] then property_get ''vendor.audio.server.cpuname'' ''audio'' else cached) in (c, c))"

section \<open>Reading back what was printed\<close>

named_theorems scan_simps \<open>reading back printed text\<close>

lemma take_digits:
  "\<forall>c\<in>set ds. isdigit c \<Longrightarrow> r = [] \<or> \<not> isdigit (hd r) \<Longrightarrow> takeWhile isdigit (ds @ r) = ds"
  by (induction ds) (auto simp: takeWhile_eq_Nil_iff)

lemma digit_not_space: "isdigit c \<Longrightarrow> \<not> isspace c \<and> c \<noteq> CHR ''-'' \<and> c \<noteq> CHR ''+''"
  by (auto simp: isdigit_def isspace_def)

lemma read_number_int [scan_simps]:
  assumes "r = [] \<or> \<not> isdigit (hd r)"
  shows "read_number (int_digits v @ r) = Some (v, r)"
proof -
  have n: "read_number (nat_digits n @ r) = Some (int n, r)" for n
  proof -
    obtain c cs where c: "nat_digits n = c # cs" using nat_digits_nonempty[of n] by (cases "nat_digits n") auto
    then have dc: "isdigit c" using nat_digits_digits[of n] by simp
    have dw: "dropWhile isspace (nat_digits n @ r) = nat_digits n @ r" using c digit_not_space[OF dc] by simp
    have tk: "takeWhile isdigit (nat_digits n @ r) = nat_digits n"
      by (rule take_digits[OF nat_digits_digits assms])
    have hd: "hd (nat_digits n @ r) \<notin> {CHR ''-'', CHR ''+''}" "hd (nat_digits n @ r) \<noteq> CHR ''-''"
      using digit_not_space[OF dc] c by auto
    show ?thesis
      using nat_digits_nonempty[of n] unfolding read_number_def Let_def dw
      by (simp only: hd if_False simp_thms tk digits_val_nat_digits append_eq_append_conv2) simp
  qed
  show ?thesis
  proof (cases "v < 0")
    case True
    have tk: "takeWhile isdigit (nat_digits (nat (- v)) @ r) = nat_digits (nat (- v))"
      by (rule take_digits[OF nat_digits_digits assms])
    have "\<not> isspace CHR ''-''" by (simp add: isspace_def)
    then show ?thesis
      using True nat_digits_nonempty by (simp add: int_digits_def read_number_def tk digits_val_nat_digits)
  next
    case False
    then show ?thesis using n[of "nat v"] by (simp add: int_digits_def)
  qed
qed

lemma read_number_nat [scan_simps]:
  "r = [] \<or> \<not> isdigit (hd r) \<Longrightarrow> read_number (nat_digits n @ r) = Some (int n, r)"
  using read_number_int[of r "int n"] by (simp add: int_digits_def)

text \<open>Words: what \<open>%s\<close> takes whole.\<close>

definition scan_word :: "nat \<Rightarrow> string \<Rightarrow> bool" where
  "scan_word n w \<longleftrightarrow> w \<noteq> [] \<and> (\<forall>c\<in>set w. \<not> isspace c \<and> c \<noteq> NUL) \<and> length w < n"

lemma take_word:
  "\<forall>c\<in>set w. \<not> isspace c \<Longrightarrow> r = [] \<or> isspace (hd r) \<Longrightarrow> takeWhile (\<lambda>c. \<not> isspace c) (w @ r) = w"
  by (induction w) (auto simp: takeWhile_eq_Nil_iff)

lemma scan_word_step [scan_simps]:
  assumes "scan_word n w" "r = [] \<or> isspace (hd r)"
  shows "sscanf_values (Scan_s n # fs) (w @ r) = map_option (\<lambda>vs. Str_value w # vs) (sscanf_values fs r)"
proof -
  have "dropWhile isspace (w @ r) = w @ r" using assms(1) by (cases w) (auto simp: scan_word_def)
  moreover have "takeWhile (\<lambda>c. \<not> isspace c) (w @ r) = w"
    by (rule take_word) (use assms in \<open>auto simp: scan_word_def\<close>)
  ultimately show ?thesis using assms(1) by (simp add: scan_word_def Let_def)
qed

lemma colon_no_digit [simp]: "\<not> isdigit CHR '':''" by (simp add: isdigit_def)
lemma space_chars [simp]: "isspace CHR 0x09" "isspace CHR '' ''" "\<not> isspace CHR '':''" by (simp_all add: isspace_def)

lemma take_until_NUL: "NUL \<notin> set s \<Longrightarrow> takeWhile (\<lambda>c. c \<noteq> NUL) (s @ NUL # r) = s"
  by (induction s) auto

definition shown :: "string \<Rightarrow> string option \<Rightarrow> string" where
  "shown null s = (case s of None \<Rightarrow> null | Some t \<Rightarrow> t)"

definition int32 :: "int \<Rightarrow> bool" where
  "int32 v \<longleftrightarrow> -2147483648 \<le> v \<and> v < 2147483648"

definition numbers_ok :: "media_metadata \<Rightarrow> bool" where
  "numbers_ok d \<longleftrightarrow> int32 (meta_flags d) \<and> int32 (meta_state d) \<and> int32 (meta_volume d)
     \<and> meta_position d < 4294967296 \<and> meta_duration d < 4294967296"

text \<open>After the numbers, the scan goes on with the two words.\<close>

lemma scan_numbers:
  assumes "numbers_ok d"
  shows "sscanf_values metadata_format (metadata_text null d) =
    map_option (\<lambda>vs. [Int_value (meta_flags d), Int_value (meta_state d), Int_value (meta_volume d),
        Uns_value (meta_position d), Uns_value (meta_duration d)] @ vs)
      (sscanf_values [Scan_s 128, Scan_space, Scan_s 128] (shown null (meta_title d) @ [CHR 0x09] @ shown null (meta_artist d)))"
  using assms by (simp add: metadata_format_def metadata_text_def scan_simps numbers_ok_def int32_def shown_def
      option.map_comp comp_def del: sscanf_values.simps(6))

lemma store_numbers:
  "store_scanned 0 ([Int_value f, Int_value s, Int_value v, Uns_value p, Uns_value u] @ vs) d
   = d\<lparr>meta_flags := f, meta_state := s, meta_volume := v, meta_position := p, meta_duration := u\<rparr>"
  if "\<forall>v\<in>set vs. \<exists>s. v = Str_value s"
proof -
  have "store_scanned i vs d = d" for i d
    using that by (induction vs arbitrary: i) auto
  then show ?thesis by simp
qed

lemma unserialize_words:
  assumes "numbers_ok d"
    and w: "sscanf_values [Scan_s 128, Scan_space, Scan_s 128] (shown null (meta_title d) @ [CHR 0x09] @ shown null (meta_artist d))
      = Some [Str_value t, Str_value a]" "t \<noteq> []" "a \<noteq> []"
  shows "media_metadata_unserialize dup media_metadata_init (Some (metadata_text null d))
    = Some (7, d\<lparr>meta_title := if has_flag (meta_flags d) MEDIA_METAFLAG_TITLE then dup t else None,
                 meta_artist := if has_flag (meta_flags d) MEDIA_METAFLAG_ARTIST then dup a else None\<rparr>)"
proof -
  let ?vs = "[Int_value (meta_flags d), Int_value (meta_state d), Int_value (meta_volume d),
      Uns_value (meta_position d), Uns_value (meta_duration d)] @ [Str_value t, Str_value a]"
  have s: "sscanf_values metadata_format (metadata_text null d) = Some ?vs"
    using scan_numbers[OF assms(1), of null] w(1) by simp
  have st: "store_scanned 0 ?vs media_metadata_init = media_metadata_init\<lparr>meta_flags := meta_flags d,
      meta_state := meta_state d, meta_volume := meta_volume d, meta_position := meta_position d,
      meta_duration := meta_duration d\<rparr>" by (rule store_numbers) simp
  have r: "sscanf_result (metadata_text null d) ?vs = 7" by (simp add: sscanf_result_def)
  have wd: "scanned_word ?vs 5 = Some t" "scanned_word ?vs 6 = Some a"
    by (simp_all add: scanned_word_def eval_nat_numeral)
  show ?thesis
    unfolding media_metadata_unserialize_def option.case s bind.bind_lunit Let_def st r wd
    using w(2,3) by (cases d) (auto simp: media_metadata_init_def)
qed

section \<open>Properties\<close>

text \<open>C38: Metadata survives the way from the server to a client: printed into a large enough buffer and
  scanned back from it, every number returns, and the title and the artist return when their flag
  is set, provided they are words: not empty, without white space, shorter than 128 characters.\<close>

theorem metadata_roundtrip:
  assumes "numbers_ok d" "scan_word 128 (shown null (meta_title d))" "scan_word 128 (shown null (meta_artist d))"
    and "length (metadata_text null d) < len" "len \<le> length buf" "NUL \<notin> set (metadata_text null d)"
  shows "\<exists>new str. media_metadata_serialize null d (Some buf) len = Some (int (length (metadata_text null d)), Some new)
    \<and> length new = length buf \<and> c_string_at new 0 = Some str
    \<and> media_metadata_unserialize Some media_metadata_init (Some str)
      = Some (7, d\<lparr>meta_title := if has_flag (meta_flags d) MEDIA_METAFLAG_TITLE then Some (shown null (meta_title d)) else None,
                   meta_artist := if has_flag (meta_flags d) MEDIA_METAFLAG_ARTIST then Some (shown null (meta_artist d)) else None\<rparr>)"
proof -
  let ?t = "metadata_text null d"
  have s: "sscanf_values [Scan_s 128, Scan_space, Scan_s 128] (shown null (meta_title d) @ [CHR 0x09] @ shown null (meta_artist d))
      = Some [Str_value (shown null (meta_title d)), Str_value (shown null (meta_artist d))]"
  proof -
    have d: "dropWhile isspace (shown null (meta_artist d)) = shown null (meta_artist d)"
      using assms(3) by (cases "shown null (meta_artist d)") (auto simp: scan_word_def)
    show ?thesis
      using scan_word_step[OF assms(2), of "[CHR 0x09] @ shown null (meta_artist d)" "[Scan_space, Scan_s 128]"]
        scan_word_step[OF assms(3), of "[]" "[]"] d
      by (simp del: sscanf_values.simps(6))
  qed
  have w: "shown null (meta_title d) \<noteq> []" "shown null (meta_artist d) \<noteq> []"
    using assms(2,3) by (auto simp: scan_word_def)
  have "c_string_at (?t @ NUL # drop (Suc (length ?t)) buf) 0 = Some ?t"
    using take_until_NUL[OF assms(6)] by (simp add: c_string_at_def)
  then show ?thesis
    using assms(4,5) unserialize_words[OF assms(1) s w, of Some]
    by (simp add: media_metadata_serialize_def snprintf_put_def mem_put_def)
qed

lemma digit_chars:
  "char_of (48::nat) = CHR ''0''" "char_of (49::nat) = CHR ''1''" "char_of (50::nat) = CHR ''2''"
  "char_of (51::nat) = CHR ''3''" "char_of (53::nat) = CHR ''5''" "char_of (55::nat) = CHR ''7''"
  by code_simp+

lemma example_text:
  "metadata_text ''(null)'' \<lparr>meta_flags = 17, meta_state = -5, meta_volume = 3, meta_position = 12, meta_duration = 0,
     meta_title = Some ''ab'', meta_artist = None\<rparr> = ''17:-5:3:12:0:ab'' @ [CHR 0x09] @ ''(null)''"
  by (simp add: metadata_text_def int_digits_def nat_digits.simps digit_chars)

lemma metadata_roundtrip_witness:
  "media_metadata_unserialize Some media_metadata_init (Some (''17:-5:3:12:0:ab'' @ [CHR 0x09] @ ''(null)''))
    = Some (7, \<lparr>meta_flags = 17, meta_state = -5, meta_volume = 3, meta_position = 12, meta_duration = 0,
        meta_title = Some ''ab'', meta_artist = None\<rparr>)"
proof -
  let ?d = "\<lparr>meta_flags = 17, meta_state = -5, meta_volume = 3, meta_position = 12, meta_duration = 0,
     meta_title = Some ''ab'', meta_artist = None\<rparr>"
  let ?t = "''17:-5:3:12:0:ab'' @ [CHR 0x09] @ ''(null)''"
  have n: "numbers_ok ?d" by (simp add: numbers_ok_def int32_def)
  have w: "scan_word 128 (shown ''(null)'' (meta_title ?d))" "scan_word 128 (shown ''(null)'' (meta_artist ?d))"
    by (simp_all add: scan_word_def shown_def isspace_def NUL_def)
  have l: "length (metadata_text ''(null)'' ?d) < 64" "64 \<le> length (replicate 64 NUL)" "NUL \<notin> set (metadata_text ''(null)'' ?d)"
    unfolding example_text by (simp_all add: NUL_def)
  from metadata_roundtrip[OF n w l] obtain new str where
    r: "media_metadata_serialize ''(null)'' ?d (Some (replicate 64 NUL)) 64 = Some (int (length ?t), Some new)"
    "c_string_at new 0 = Some str"
    "media_metadata_unserialize Some media_metadata_init (Some str)
      = Some (7, ?d\<lparr>meta_title := if has_flag 17 MEDIA_METAFLAG_TITLE then Some ''ab'' else None,
          meta_artist := if has_flag 17 MEDIA_METAFLAG_ARTIST then Some ''(null)'' else None\<rparr>)"
    unfolding example_text by (auto simp: shown_def)
  have "str = ?t"
    using r(1,2) unfolding media_metadata_serialize_def example_text
    by (simp add: snprintf_put_def mem_put_def c_string_at_def NUL_def) (auto simp: NUL_def)
  then show ?thesis using r(3) by (simp add: has_flag_def metaflags)
qed

text \<open>White space in a title is not preserved: what follows the first blank of the title comes
  back as the artist, and the artist is lost.\<close>

theorem metadata_title_split:
  assumes "numbers_ok d" "meta_title d = Some (a @ CHR '' '' # b)" "scan_word 128 a" "scan_word 128 b"
    and "has_flag (meta_flags d) MEDIA_METAFLAG_TITLE" "has_flag (meta_flags d) MEDIA_METAFLAG_ARTIST"
  shows "media_metadata_unserialize Some media_metadata_init (Some (metadata_text null d))
    = Some (7, d\<lparr>meta_title := Some a, meta_artist := Some b\<rparr>)"
proof -
  let ?r = "[CHR 0x09] @ shown null (meta_artist d)"
  have d: "dropWhile isspace (b @ ?r) = b @ ?r" using assms(4) by (cases b) (auto simp: scan_word_def)
  have "sscanf_values [Scan_s 128, Scan_space, Scan_s 128] (shown null (meta_title d) @ ?r)
      = Some [Str_value a, Str_value b]"
    using scan_word_step[OF assms(3), of "CHR '' '' # b @ ?r" "[Scan_space, Scan_s 128]"]
      scan_word_step[OF assms(4), of ?r "[]"] d assms(2)
    by (simp add: shown_def del: sscanf_values.simps(6))
  from unserialize_words[OF assms(1) this, of Some] assms(3-6) show ?thesis by (simp add: scan_word_def)
qed

lemma metadata_title_split_witness:
  "media_metadata_unserialize Some media_metadata_init (Some (metadata_text ''(null)''
      \<lparr>meta_flags = 48, meta_state = 0, meta_volume = 0, meta_position = 0, meta_duration = 0,
       meta_title = Some ''a b'', meta_artist = Some ''c''\<rparr>))
    = Some (7, \<lparr>meta_flags = 48, meta_state = 0, meta_volume = 0, meta_position = 0, meta_duration = 0,
       meta_title = Some ''a'', meta_artist = Some ''b''\<rparr>)"
  using metadata_title_split[of "\<lparr>meta_flags = 48, meta_state = 0, meta_volume = 0, meta_position = 0, meta_duration = 0,
       meta_title = Some ''a b'', meta_artist = Some ''c''\<rparr>" "''a''" "''b''" "''(null)''"]
  by (simp add: numbers_ok_def int32_def scan_word_def isspace_def NUL_def has_flag_def metaflags)

text \<open>The abstract contents: the fields whose flag is set.\<close>

datatype meta_value = Meta_int int | Meta_nat nat | Meta_string "string option"

definition meta_view :: "media_metadata \<Rightarrow> int \<rightharpoonup> meta_value" where
  "meta_view d f = (if \<not> has_flag (meta_flags d) f then None
     else if f = MEDIA_METAFLAG_STATE then Some (Meta_int (meta_state d))
     else if f = MEDIA_METAFLAG_VOLUME then Some (Meta_int (meta_volume d))
     else if f = MEDIA_METAFLAG_POSITION then Some (Meta_nat (meta_position d))
     else if f = MEDIA_METAFLAG_DURATION then Some (Meta_nat (meta_duration d))
     else if f = MEDIA_METAFLAG_TITLE then Some (Meta_string (meta_title d))
     else if f = MEDIA_METAFLAG_ARTIST then Some (Meta_string (meta_artist d))
     else None)"

lemma has_flag_or: "has_flag (a OR b) f \<longleftrightarrow> has_flag a f \<or> has_flag b f"
proof -
  have "(a OR b) AND f = (a AND f) OR (b AND f)" by (auto simp: bit_eq_iff bit_simps)
  then show ?thesis by (simp add: has_flag_def or_eq_0_iff)
qed

lemma update_fields:
  "meta_flags (fst (media_metadata_update d diff)) = meta_flags d OR meta_flags diff"
  "meta_state (fst (media_metadata_update d diff)) =
    (if has_flag (meta_flags diff) MEDIA_METAFLAG_STATE then meta_state diff else meta_state d)"
  "meta_volume (fst (media_metadata_update d diff)) =
    (if has_flag (meta_flags diff) MEDIA_METAFLAG_VOLUME then meta_volume diff else meta_volume d)"
  "meta_position (fst (media_metadata_update d diff)) =
    (if has_flag (meta_flags diff) MEDIA_METAFLAG_POSITION then meta_position diff else meta_position d)"
  "meta_duration (fst (media_metadata_update d diff)) =
    (if has_flag (meta_flags diff) MEDIA_METAFLAG_DURATION then meta_duration diff else meta_duration d)"
  "meta_title (fst (media_metadata_update d diff)) =
    (if has_flag (meta_flags diff) MEDIA_METAFLAG_TITLE then meta_title diff else meta_title d)"
  "meta_artist (fst (media_metadata_update d diff)) =
    (if has_flag (meta_flags diff) MEDIA_METAFLAG_ARTIST then meta_artist diff else meta_artist d)"
  by (simp_all add: media_metadata_update_def Let_def)

text \<open>Applying an update overrides exactly the fields the update has and keeps all others: as
  partial maps from flags to values, the result is the old contents overridden by the update; and
  the strings are moved, not shared.\<close>

theorem metadata_update_refines:
  shows "meta_view (fst (media_metadata_update d diff)) = meta_view d ++ meta_view diff
    \<and> snd (media_metadata_update d diff)
      = diff\<lparr>meta_title := if has_flag (meta_flags diff) MEDIA_METAFLAG_TITLE then None else meta_title diff,
             meta_artist := if has_flag (meta_flags diff) MEDIA_METAFLAG_ARTIST then None else meta_artist diff\<rparr>"
proof -
  have "meta_view (fst (media_metadata_update d diff)) f = (meta_view d ++ meta_view diff) f" for f
    by (simp add: meta_view_def update_fields has_flag_or map_add_def metaflags)
  then have "meta_view (fst (media_metadata_update d diff)) = meta_view d ++ meta_view diff" by (rule ext)
  then show ?thesis by (simp add: media_metadata_update_def Let_def)
qed

end
