(* ===== verification/Media_Text.thy ===== *)
theory Media_Text
  imports Media_Stub Media_Metadata
begin

text \<open>
  The bridge between the bytes of requests and responses and the characters the text functions
  work on, and what the command handlers share: the effect of the server's slot operations and of
  printing on a response buffer.
\<close>

section \<open>Bytes and characters\<close>

definition b_str :: "bytes \<Rightarrow> string" where
  "b_str b = map (\<lambda>x. char_of (unat x)) b"

lemma unat_of_char: "unat (of_char c :: byte) = of_char c"
proof -
  have "unat (of_char c :: byte) = unat (of_nat (of_char c) :: byte)" by (simp only: of_nat_of_char)
  also have "\<dots> = of_char c" by (simp add: unat_of_nat)
  finally show ?thesis .
qed

lemma b_str_c_bytes [simp]: "b_str (c_bytes s) = s"
  by (simp add: b_str_def c_bytes_def unat_of_char comp_def)

lemma c_bytes_b_str [simp]: "c_bytes (b_str b) = b"
proof -
  have "(of_char (char_of (unat x)) :: byte) = x" for x :: byte
  proof -
    have "(of_char (char_of (unat x)) :: byte) = of_nat (of_char (char_of (unat x)))" by (simp only: of_nat_of_char)
    also have "\<dots> = of_nat (unat x mod 256)" by simp
    also have "\<dots> = x" using unsigned_less[of x, where ?'a = nat] by simp
    finally show ?thesis .
  qed
  then show ?thesis by (simp add: b_str_def c_bytes_def comp_def)
qed

lemma c_bytes_eq [simp]: "c_bytes s = c_bytes t \<longleftrightarrow> s = t"
  by (metis b_str_c_bytes)

section \<open>Response buffers\<close>

definition buffer_ok :: "bytes option \<Rightarrow> 32 word \<Rightarrow> bool" where
  \<comment> \<open>a buffer of the length given with a terminating zero, or NULL and length zero\<close>
  "buffer_ok res len \<longleftrightarrow> (res = None \<and> len = 0) \<or> (\<exists>b. res = Some b \<and> length b = unat len \<and> 0 \<in> set b)"

lemma unat_sint:
  assumes "0 \<le> sint (n :: 32 word)"
  shows "unat n = nat (sint n)"
proof -
  have "unat n = unat (word_of_int (sint n) :: 32 word)" by simp
  also have "\<dots> = nat (sint n mod 4294967296)" by (simp only: unat_eq_nat_uint uint_word_of_int) simp
  also have "\<dots> = nat (sint n)" using assms sint_lt[of n] by simp
  finally show ?thesis .
qed

lemma response_buffer_ok:
  assumes "alloc_total alloc" "0 \<le> sint n"
  shows "buffer_ok (response_buffer alloc n) n"
proof (cases "n = 0")
  case True
  then show ?thesis by (simp add: buffer_ok_def response_buffer_def)
next
  case False
  have u: "unat n = nat (sint n)" using unat_sint[OF assms(2)] .
  have "0 < sint n" using assms(2) False by (metis less_le signed_eq_0_iff)
  then show ?thesis using assms(1) u by (auto simp: buffer_ok_def response_buffer_def alloc_total_def)
qed

lemma buffer_ok_same: "buffer_ok res len \<Longrightarrow> response_ok res res"
  by (auto simp: buffer_ok_def response_ok_def)

lemma length_mem_put: "mem_put i s m = Some n \<Longrightarrow> length n = length m"
  by (auto simp: mem_put_def split: if_splits)

lemma of_char_NUL [simp]: "(of_char NUL :: byte) = 0"
  by (simp add: NUL_def)

lemma snprintf_ok:
  assumes "buffer_ok res len"
  shows "\<exists>buf. snprintf_put (map_option b_str res) (unat len) str = Some (int (length str), buf)
    \<and> response_ok res (map_option c_bytes buf)"
proof (cases res)
  case None
  with assms show ?thesis by (auto simp: buffer_ok_def snprintf_put_def response_ok_def)
next
  case (Some b)
  then have b: "length b = unat len" "b \<noteq> []" using assms by (auto simp: buffer_ok_def)
  then have n: "0 < unat len" by (cases b) auto
  let ?s = "take (unat len - 1) str @ [NUL]"
  have l: "length ?s \<le> length (b_str b)" using b n by (simp add: b_str_def)
  then have "mem_put 0 ?s (b_str b) = Some (?s @ drop (length ?s) (b_str b))" by (simp add: mem_put_def)
  then show ?thesis using Some b l n
    by (auto simp: snprintf_put_def response_ok_def c_bytes_def b_str_def)
qed

lemma of_char_zero: "(of_char c :: byte) = 0 \<longleftrightarrow> c = NUL"
proof
  assume "(of_char c :: byte) = 0"
  then have "unat (of_char c :: byte) = 0" by simp
  then have "of_char c = (of_char NUL :: nat)" by (simp only: unat_of_char) (simp add: NUL_def)
  then show "c = NUL" by simp
qed simp

lemma take_c_bytes: "NUL \<notin> set str \<Longrightarrow> takeWhile (\<lambda>c. c \<noteq> 0) (c_bytes str @ 0 # r) = c_bytes str"
  by (induction str) (auto simp: c_bytes_def of_char_zero)

lemma snprintf_text:
  assumes "length b = unat len" "length str < unat len" "NUL \<notin> set str"
  shows "\<exists>buf. snprintf_put (Some (b_str b)) (unat len) str = Some (int (length str), Some buf)
    \<and> c_str (Some (c_bytes buf)) = Some (Some (c_bytes str)) \<and> length buf = length b"
proof -
  let ?r = "drop (Suc (length str)) (b_str b)"
  have l: "length (b_str b) = unat len" using assms(1) by (simp add: b_str_def)
  have c: "c_bytes (str @ NUL # ?r) = c_bytes str @ 0 # c_bytes ?r" by (simp add: c_bytes_def)
  have "snprintf_put (Some (b_str b)) (unat len) str = Some (int (length str), Some (str @ NUL # ?r))"
    using assms(2) l by (simp add: snprintf_put_def mem_put_def)
  then show ?thesis
    using c take_c_bytes[OF assms(3)] assms(1,2) l
    by (intro exI[of _ "str @ NUL # ?r"]) (simp add: c_str_def)
qed

section \<open>Connection data\<close>

lemma conn_set_data: "conn (media_server_set_data (Some j) p s) i
    = (if i = j \<and> j < length (conns s) then (conn s j)\<lparr>data := p\<rparr> else conn s i)"
  by (simp add: media_server_set_data_def conn_simps)

lemma set_data_same [simp]: "same_requests s (media_server_set_data (Some j) p s)"
  "length (conns (media_server_set_data (Some j) p s)) = length (conns s)"
  by (auto simp: same_requests_def media_server_set_data_def conn_simps)

lemma conn_finalize: "0 < notify_fd (conn s j) \<Longrightarrow> conn (media_server_finalize s (Some j)) i
    = (if i = j \<and> j < length (conns s) then (conn s j)\<lparr>notify_fd := 0, data := 0, offset := 0\<rparr> else conn s i)"
  by (simp add: media_server_finalize_def conn_simps)

lemma finalize_same [simp]: "same_requests s (media_server_finalize s c)"
  "length (conns (media_server_finalize s c)) = length (conns s)" "sends (media_server_finalize s c) = sends s"
  by (auto simp: same_requests_def media_server_finalize_def conn_simps split: option.split)

section \<open>Numbers in text\<close>

definition atoi :: "string \<Rightarrow> int option" where
  \<comment> \<open>\<open>None\<close> for a number that is no \<open>int\<close>\<close>
  "atoi str = (case read_number str of None \<Rightarrow> Some 0 | Some (v, _) \<Rightarrow> if int32 v then Some v else None)"

section \<open>Plain events\<close>

lemma event_ok_plain: "event_ok (e, r, None)"
  by (simp add: event_ok_def c_arg_def event_bytes_def event_args_def conversions_def max_payload_def)

end
