(* ===== verification/Media_Session.thy ===== *)
theory Media_Session
  imports Media_Text
begin

text \<open>
  The media session, \<open>server/media_session.c\<close>: the list of controllers (system music bar, remote
  control) and of controllees (players), of which the first is the most active one. Control
  messages go forward to it, its events go back to all controllers that want them.

  A controller or controllee is an object in a heap, addressed by the number that is kept on its
  connection; an absent address is a freed block. Both kinds start with the list entry and the
  cookie, so the code may reach the cookie of either through either type; every other use of an
  object through the wrong type, or of a freed one, is undefined behaviour (\<open>None\<close>).
\<close>

section \<open>State\<close>

datatype session_obj = Controller "nat option" bool | Controllee "nat option" media_metadata

record media_session_priv =
  controllers :: "int list"
  controllees :: "int list"
  session_heap :: "int \<rightharpoonup> session_obj"

text \<open>What the code takes from outside: memory for parcels and objects, \<open>strdup\<close>, \<open>printf\<close> of NULL.\<close>

record session_env =
  ev_alloc :: allocator
  ev_narrow :: "64 word \<Rightarrow> 32 word"
  ev_zalloc :: "(int \<rightharpoonup> session_obj) \<Rightarrow> int option"
  ev_dup :: "string \<Rightarrow> string option"
  ev_null :: string

definition TAILQ_FIRST :: "int list \<Rightarrow> int" where
  "TAILQ_FIRST xs = (case xs of [] \<Rightarrow> 0 | x # _ \<Rightarrow> x)"

definition obj_cookie :: "session_obj \<Rightarrow> nat option" where
  "obj_cookie ob = (case ob of Controller c e \<Rightarrow> c | Controllee c d \<Rightarrow> c)"

definition set_obj_cookie :: "nat option \<Rightarrow> session_obj \<Rightarrow> session_obj" where
  "set_obj_cookie c ob = (case ob of Controller _ e \<Rightarrow> Controller c e | Controllee _ d \<Rightarrow> Controllee c d)"

section \<open>Operations\<close>

definition media_session_cmd2event :: "bytes \<Rightarrow> int" where
  "media_session_cmd2event cmd =
    (if cmd = c_bytes ''start'' then MEDIA_EVENT_START
     else if cmd = c_bytes ''pause'' then MEDIA_EVENT_PAUSE
     else if cmd = c_bytes ''stop'' then MEDIA_EVENT_STOP
     else if cmd = c_bytes ''prev'' then MEDIA_EVENT_PREV_SONG
     else if cmd = c_bytes ''next'' then MEDIA_EVENT_NEXT_SONG
     else if cmd = c_bytes ''volumeup'' then MEDIA_EVENT_INCREASE_VOLUME
     else if cmd = c_bytes ''volumedown'' then MEDIA_EVENT_DECREASE_VOLUME
     else -ENOSYS)"

definition media_session_controller_open :: "session_env \<Rightarrow> nat option \<Rightarrow> media_session_priv
    \<Rightarrow> int option \<times> media_session_priv" where
  "media_session_controller_open env cookie ses = (case ev_zalloc env (session_heap ses) of
     None \<Rightarrow> (None, ses)
   | Some a \<Rightarrow> (Some a, ses\<lparr>controllers := a # controllers ses,
                  session_heap := (session_heap ses)(a \<mapsto> Controller cookie False)\<rparr>))"

fun notify_controllers :: "session_env \<Rightarrow> (int \<rightharpoonup> session_obj) \<Rightarrow> int list \<Rightarrow> 32 word \<Rightarrow> 32 word \<Rightarrow> bytes option
    \<Rightarrow> media_server_priv \<Rightarrow> media_server_priv option" where
  "notify_controllers env h [] event result extra s = Some s"
| "notify_controllers env h (a # as) event result extra s = (case h a of
     Some (Controller cookie wants) \<Rightarrow> do {
       s1 \<leftarrow> (if wants then media_stub_notify_event (ev_alloc env) (ev_narrow env) s cookie event result extra else Some s);
       notify_controllers env h as event result extra s1
     }
   | _ \<Rightarrow> None)"

definition media_session_controllee_notify :: "session_env \<Rightarrow> media_session_priv \<Rightarrow> int \<Rightarrow> int \<Rightarrow> int \<Rightarrow> bytes option
    \<Rightarrow> media_server_priv \<Rightarrow> media_server_priv option" where
  \<comment> \<open>the controllee is an address, 0 for NULL\<close>
  "media_session_controllee_notify env ses controllee event result extra s =
     (if controllee = TAILQ_FIRST (controllees ses)
      then notify_controllers env (session_heap ses) (controllers ses) (word_of_int event) (word_of_int result) extra s
      else Some s)"

definition media_session_controller_transfer :: "session_env \<Rightarrow> media_session_priv \<Rightarrow> bytes \<Rightarrow> bytes option \<Rightarrow> bytes option
    \<Rightarrow> 32 word \<Rightarrow> media_server_priv \<Rightarrow> (int \<times> bytes option \<times> media_server_priv) option" where
  "media_session_controller_transfer env ses cmd arg res len s =
     (let controllee = TAILQ_FIRST (controllees ses) in
      if controllee = 0 then Some (-ENOENT, res, s)
      else (case session_heap ses controllee of
          Some (Controllee cookie meta) \<Rightarrow>
            if cmd = c_bytes ''query'' then do {
              (ret, buf) \<leftarrow> media_metadata_serialize (ev_null env) meta (map_option b_str res) (unat len);
              Some (ret, map_option c_bytes buf, s)
            }
            else let ret = media_session_cmd2event cmd in
              if ret > 0 then do {
                s1 \<leftarrow> media_stub_notify_event (ev_alloc env) (ev_narrow env) s cookie (word_of_int ret) 0 arg;
                Some (0, res, s1)
              }
              else Some (ret, res, s)
        | _ \<Rightarrow> None))"

definition media_session_controller_close :: "media_session_priv \<Rightarrow> int \<Rightarrow> media_session_priv option" where
  "media_session_controller_close ses controller =
     (case session_heap ses controller of
        Some (Controller _ _) \<Rightarrow>
          if controller \<in> set (controllers ses)
          then Some (ses\<lparr>controllers := remove1 controller (controllers ses),
                       session_heap := (session_heap ses)(controller := None)\<rparr>)
          else None
      | _ \<Rightarrow> None)"

definition media_session_controllee_register :: "session_env \<Rightarrow> nat option \<Rightarrow> media_session_priv \<Rightarrow> media_server_priv
    \<Rightarrow> (int option \<times> media_session_priv \<times> media_server_priv) option" where
  "media_session_controllee_register env cookie ses s = (case ev_zalloc env (session_heap ses) of
     None \<Rightarrow> Some (None, ses, s)
   | Some a \<Rightarrow> do {
       let ses1 = ses\<lparr>controllees := controllees ses @ [a],
                      session_heap := (session_heap ses)(a \<mapsto> Controllee cookie media_metadata_init)\<rparr>;
       s1 \<leftarrow> media_session_controllee_notify env ses1 a MEDIA_EVENT_CHANGED 0 None s;
       Some (Some a, ses1, s1)
     })"

definition media_session_controllee_update :: "session_env \<Rightarrow> media_session_priv \<Rightarrow> int \<Rightarrow> bytes option \<Rightarrow> media_server_priv
    \<Rightarrow> (media_session_priv \<times> media_server_priv) option" where
  "media_session_controllee_update env ses controllee arg s = (case session_heap ses controllee of
     Some (Controllee cookie meta) \<Rightarrow> do {
       (_, diff) \<leftarrow> media_metadata_unserialize (ev_dup env) media_metadata_init (map_option b_str arg);
       let diff_flags = meta_flags diff;
       let (data1, _) = media_metadata_update meta diff;
       let ses1 = ses\<lparr>session_heap := (session_heap ses)(controllee \<mapsto> Controllee cookie data1)\<rparr>;
       (if controllee = TAILQ_FIRST (controllees ses1) then do {
          s1 \<leftarrow> media_session_controllee_notify env ses1 controllee MEDIA_EVENT_UPDATED diff_flags None s;
          Some (ses1, s1)
        }
        else if has_flag (meta_flags data1) MEDIA_METAFLAG_STATE \<and> meta_state data1 > 0 then
          (if controllee \<in> set (controllees ses1) then do {
             let ses2 = ses1\<lparr>controllees := controllee # remove1 controllee (controllees ses1)\<rparr>;
             s1 \<leftarrow> media_session_controllee_notify env ses2 controllee MEDIA_EVENT_CHANGED diff_flags None s;
             Some (ses2, s1)
           } else None)
        else Some (ses1, s))
     }
   | _ \<Rightarrow> None)"

definition media_session_controllee_unregister :: "session_env \<Rightarrow> media_session_priv \<Rightarrow> int \<Rightarrow> media_server_priv
    \<Rightarrow> (media_session_priv \<times> media_server_priv) option" where
  "media_session_controllee_unregister env ses controllee s = (case session_heap ses controllee of
     Some (Controllee cookie meta) \<Rightarrow>
       if controllee \<in> set (controllees ses) then
         let changed = (controllee = TAILQ_FIRST (controllees ses));
             ses1 = ses\<lparr>controllees := remove1 controllee (controllees ses),
                       session_heap := (session_heap ses)(controllee := None)\<rparr>
         in if changed then
              (let first = TAILQ_FIRST (controllees ses1) in
               if first = 0 then do {
                 s1 \<leftarrow> media_session_controllee_notify env ses1 first MEDIA_EVENT_CHANGED 0 None s;
                 Some (ses1, s1)
               }
               else (case session_heap ses1 first of
                   Some (Controllee _ data1) \<Rightarrow> do {
                     s1 \<leftarrow> media_session_controllee_notify env ses1 first MEDIA_EVENT_CHANGED (meta_flags data1) None s;
                     Some (ses1, s1)
                   }
                 | _ \<Rightarrow> None))
            else Some (ses1, s)
       else None
   | _ \<Rightarrow> None)"

definition media_session_create :: "bool \<Rightarrow> media_session_priv option" where
  "media_session_create mem = (if \<not> mem then None
     else Some \<lparr>controllers = [], controllees = [], session_heap = Map.empty\<rparr>)"

definition media_session_destroy :: "media_session_priv \<Rightarrow> int \<times> media_session_priv option" where
  \<comment> \<open>frees the two list heads and not the objects that are still in the lists\<close>
  "media_session_destroy ses = (0, None)"

definition media_session_finalize :: "media_session_priv \<Rightarrow> int \<Rightarrow> media_server_priv
    \<Rightarrow> (media_session_priv \<times> media_server_priv) option" where
  \<comment> \<open>\<open>media_stub_notify_finalize(&controllee->cookie)\<close>, and the same for a controller\<close>
  "media_session_finalize ses a s = (case session_heap ses a of
     None \<Rightarrow> None
   | Some ob \<Rightarrow> Some (ses\<lparr>session_heap := (session_heap ses)(a \<mapsto> set_obj_cookie None ob)\<rparr>,
                   fst (media_stub_notify_finalize s (Some (obj_cookie ob)))))"

definition media_session_handler :: "session_env \<Rightarrow> nat option \<Rightarrow> bytes option \<Rightarrow> bytes option \<Rightarrow> bytes option
    \<Rightarrow> bytes option \<Rightarrow> 32 word \<Rightarrow> media_server_priv \<Rightarrow> media_session_priv
    \<Rightarrow> (int \<times> bytes option \<times> media_server_priv \<times> media_session_priv) option" where
  "media_session_handler env cookie target cmd0 arg res res_len s ses =
     (let handle = media_server_get_data s cookie in
      case cmd0 of
        None \<Rightarrow> None
      | Some cmd \<Rightarrow>
        if cmd = c_bytes ''ping'' then Some (0, res, s, ses)
        else if cmd = c_bytes ''register'' then do {
          (a, ses1, s1) \<leftarrow> media_session_controllee_register env cookie ses s;
          Some (case a of None \<Rightarrow> (-ENOMEM, res, s1, ses1) | Some p \<Rightarrow> (0, res, media_server_set_data cookie p s1, ses1))
        }
        else if handle \<noteq> 0 \<and> cmd = c_bytes ''unregister'' then do {
          (ses1, s1) \<leftarrow> media_session_finalize ses handle s;
          (ses2, s2) \<leftarrow> media_session_controllee_unregister env ses1 handle s1;
          Some (0, res, s2, ses2)
        }
        else if handle \<noteq> 0 \<and> cmd = c_bytes ''event'' then do {
          str \<leftarrow> arg;
          vs \<leftarrow> sscanf_values [Scan_d, Scan_char CHR '':'', Scan_d] (b_str str);
          (case vs of
             [Int_value event, Int_value result] \<Rightarrow> do {
               s1 \<leftarrow> media_session_controllee_notify env ses handle event result target s;
               Some (0, res, s1, ses)
             }
           | _ \<Rightarrow> None)
        }
        else if handle \<noteq> 0 \<and> cmd = c_bytes ''update'' then do {
          (ses1, s1) \<leftarrow> media_session_controllee_update env ses handle arg s;
          Some (0, res, s1, ses1)
        }
        else if cmd = c_bytes ''open'' then
          (case media_session_controller_open env cookie ses of
             (None, ses1) \<Rightarrow> Some (-ENOMEM, res, s, ses1)
           | (Some p, ses1) \<Rightarrow> Some (0, res, media_server_set_data cookie p s, ses1))
        else if handle \<noteq> 0 \<and> cmd = c_bytes ''close'' then do {
          (ses1, s1) \<leftarrow> media_session_finalize ses handle s;
          ses2 \<leftarrow> media_session_controller_close ses1 handle;
          Some (0, res, s1, ses2)
        }
        else if handle \<noteq> 0 \<and> cmd = c_bytes ''set_event'' then
          (case session_heap ses handle of
             Some (Controller c _) \<Rightarrow>
               Some (0, res, s, ses\<lparr>session_heap := (session_heap ses)(handle \<mapsto> Controller c True)\<rparr>)
           | _ \<Rightarrow> None)
        else if handle \<noteq> 0 then do {
          (ret, res1, s1) \<leftarrow> media_session_controller_transfer env ses cmd arg res res_len s;
          Some (ret, res1, s1, ses)
        }
        else Some (-EINVAL, res, s, ses))"

section \<open>Well-formed sessions\<close>

definition session_wf :: "media_session_priv \<Rightarrow> bool" where
  "session_wf ses \<longleftrightarrow> distinct (controllers ses @ controllees ses) \<and> 0 \<notin> set (controllers ses @ controllees ses)
     \<and> (\<forall>a\<in>set (controllers ses). \<exists>c e. session_heap ses a = Some (Controller c e))
     \<and> (\<forall>a\<in>set (controllees ses). \<exists>c m. session_heap ses a = Some (Controllee c m))
     \<and> dom (session_heap ses) = set (controllers ses @ controllees ses)"

text \<open>Objects know their connection, and the handle of a connection is an object of that connection.\<close>

definition session_linked :: "media_session_priv \<Rightarrow> media_server_priv \<Rightarrow> bool" where
  "session_linked ses s \<longleftrightarrow>
     (\<forall>a ob j. session_heap ses a = Some ob \<longrightarrow> obj_cookie ob = Some j \<longrightarrow> j < length (conns s))
     \<and> (\<forall>j<length (conns s). data (conn s j) \<noteq> 0 \<longrightarrow>
          (\<exists>ob. session_heap ses (data (conn s j)) = Some ob \<and> obj_cookie ob = Some j))"

definition env_ok :: "session_env \<Rightarrow> bool" where
  "env_ok env \<longleftrightarrow> alloc_total (ev_alloc env) \<and> (\<forall>h a. ev_zalloc env h = Some a \<longrightarrow> a \<noteq> 0 \<and> h a = None)"

lemma obj_cookie_simps [simp]:
  "obj_cookie (Controller c e) = c" "obj_cookie (Controllee c m) = c"
  "obj_cookie (set_obj_cookie c ob) = c"
  "set_obj_cookie c (Controller d e) = Controller c e" "set_obj_cookie c (Controllee d m) = Controllee c m"
  by (auto simp: obj_cookie_def set_obj_cookie_def split: session_obj.splits)

lemma TAILQ_FIRST_in: "TAILQ_FIRST xs \<noteq> 0 \<Longrightarrow> TAILQ_FIRST xs \<in> set xs"
  by (auto simp: TAILQ_FIRST_def split: list.splits)

lemma TAILQ_FIRST_Cons [simp]: "TAILQ_FIRST (a # xs) = a" "TAILQ_FIRST [] = 0"
  by (simp_all add: TAILQ_FIRST_def)

lemma wf_objects:
  assumes "session_wf ses" "session_heap ses a = Some ob"
  shows "a \<noteq> 0" "a \<in> set (controllers ses) \<longleftrightarrow> (\<exists>c e. ob = Controller c e)"
    "a \<in> set (controllees ses) \<longleftrightarrow> (\<exists>c m. ob = Controllee c m)"
proof -
  have d: "a \<in> set (controllers ses) \<or> a \<in> set (controllees ses)"
    using assms by (auto simp: session_wf_def dom_def)
  then show "a \<noteq> 0" using assms(1) by (auto simp: session_wf_def)
  have x: "a \<in> set (controllers ses) \<Longrightarrow> \<exists>c e. ob = Controller c e" "a \<in> set (controllees ses) \<Longrightarrow> \<exists>c m. ob = Controllee c m"
    using assms by (force simp: session_wf_def)+
  then show "a \<in> set (controllers ses) \<longleftrightarrow> (\<exists>c e. ob = Controller c e)"
    "a \<in> set (controllees ses) \<longleftrightarrow> (\<exists>c m. ob = Controllee c m)" using d by auto
qed

section \<open>Broadcasts\<close>

definition wants_events :: "(int \<rightharpoonup> session_obj) \<Rightarrow> int \<Rightarrow> bool" where
  "wants_events h a \<longleftrightarrow> (\<exists>c. h a = Some (Controller c True))"

definition cookie_of :: "(int \<rightharpoonup> session_obj) \<Rightarrow> int \<Rightarrow> nat option" where
  "cookie_of h a = (case h a of Some ob \<Rightarrow> obj_cookie ob | None \<Rightarrow> None)"

text \<open>The messages a broadcast puts on the wire: one per controller that wants events, in list order.\<close>

definition broadcast :: "media_server_priv \<Rightarrow> media_session_priv \<Rightarrow> int \<Rightarrow> int \<Rightarrow> bytes option \<Rightarrow> (int \<times> bytes) list" where
  "broadcast s ses event result extra =
     concat (map (\<lambda>a. posted s (cookie_of (session_heap ses) a) (word_of_int event, word_of_int result, extra))
       (filter (wants_events (session_heap ses)) (controllers ses)))"

lemma broadcast_cong:
  assumes "controllers ses' = controllers ses" "\<forall>a\<in>set (controllers ses). session_heap ses' a = session_heap ses a"
  shows "broadcast s ses' e r x = broadcast s ses e r x"
proof -
  have w: "wants_events (session_heap ses') a = wants_events (session_heap ses) a"
    "cookie_of (session_heap ses') a = cookie_of (session_heap ses) a" if "a \<in> set (controllers ses)" for a
    using assms(2) that by (simp_all add: wants_events_def cookie_of_def)
  have f: "filter (wants_events (session_heap ses')) (controllers ses) = filter (wants_events (session_heap ses)) (controllers ses)"
    by (rule filter_cong) (use w in simp_all)
  have m: "map (\<lambda>a. posted s (cookie_of (session_heap ses') a) (word_of_int e, word_of_int r, x))
      (filter (wants_events (session_heap ses)) (controllers ses))
    = map (\<lambda>a. posted s (cookie_of (session_heap ses) a) (word_of_int e, word_of_int r, x))
      (filter (wants_events (session_heap ses)) (controllers ses))"
    by (rule map_cong[OF refl]) (use w(2) in simp)
  show ?thesis unfolding broadcast_def assms(1) f m by (rule refl)
qed

lemma posted_wire [simp]: "posted (s\<lparr>wire := v\<rparr>) c e = posted s c e"
  by (simp add: posted_def conn_def split: option.split)

lemma notify_controllers_spec:
  assumes "alloc_total (ev_alloc env)" "event_ok (e, r, x)" "sends s = []"
    "\<forall>a\<in>set as. \<exists>c w. h a = Some (Controller c w)"
  shows "notify_controllers env h as e r x s = Some (s\<lparr>wire := wire s
    @ concat (map (\<lambda>a. posted s (cookie_of h a) (e, r, x)) (filter (wants_events h) as))\<rparr>)"
  using assms(3,4)
proof (induction as arbitrary: s)
  case (Cons a as)
  then obtain c w where a: "h a = Some (Controller c w)" by auto
  show ?case
    using Cons.prems Cons.IH[of s] Cons.IH[of "s\<lparr>wire := wire s @ posted s c (e, r, x)\<rparr>"]
      notify_event_posts[OF assms(1,2), of s "ev_narrow env" c] a
    by (auto simp: wants_events_def cookie_of_def)
qed simp

lemma controllee_notify_spec:
  assumes "env_ok env" "session_wf ses" "event_ok (word_of_int e, word_of_int r, x)" "sends s = []"
  shows "media_session_controllee_notify env ses a e r x s
    = Some (if a = TAILQ_FIRST (controllees ses) then s\<lparr>wire := wire s @ broadcast s ses e r x\<rparr> else s)"
proof -
  have "\<forall>a\<in>set (controllers ses). \<exists>c w. session_heap ses a = Some (Controller c w)"
    using assms(2) by (simp add: session_wf_def)
  from notify_controllers_spec[OF _ assms(3,4) this, of env] assms(1) show ?thesis
    by (simp add: media_session_controllee_notify_def broadcast_def env_ok_def)
qed

lemma same_requests_wire [simp]: "same_requests s (s\<lparr>wire := v\<rparr>)"
  by (rule same_requests_send)

lemma linked_wire [simp]: "session_linked ses (s\<lparr>wire := v\<rparr>) = session_linked ses s"
  by (simp add: session_linked_def conn_def)

section \<open>Operations keep sessions well-formed\<close>

lemma open_ok:
  assumes "env_ok env" "session_wf ses" "media_session_controller_open env c ses = (Some a, ses')"
  shows "session_wf ses'" "session_heap ses' = (session_heap ses)(a \<mapsto> Controller c False)" "session_heap ses a = None" "a \<noteq> 0"
    "controllees ses' = controllees ses" "controllers ses' = a # controllers ses"
proof -
  have z: "ev_zalloc env (session_heap ses) = Some a" and s': "ses' = ses\<lparr>controllers := a # controllers ses,
      session_heap := (session_heap ses)(a \<mapsto> Controller c False)\<rparr>"
    using assms(3) by (auto simp: media_session_controller_open_def split: option.splits)
  show f: "session_heap ses a = None" "a \<noteq> 0" using z assms(1) by (auto simp: env_ok_def)
  have "a \<notin> set (controllers ses @ controllees ses)"
    using f(1) assms(2) unfolding session_wf_def dom_def by blast
  then show "session_wf ses'" using assms(2) f s' by (auto simp: session_wf_def)
  show "session_heap ses' = (session_heap ses)(a \<mapsto> Controller c False)"
    "controllees ses' = controllees ses" "controllers ses' = a # controllers ses" using s' by simp_all
qed

lemma register_ok:
  assumes "env_ok env" "session_wf ses" "sends s = []"
  shows "media_session_controllee_register env c ses s = Some (None, ses, s) \<or>
    (\<exists>a ses'. media_session_controllee_register env c ses s = Some (Some a, ses',
        if controllees ses = [] then s\<lparr>wire := wire s @ broadcast s ses MEDIA_EVENT_CHANGED 0 None\<rparr> else s)
      \<and> session_wf ses' \<and> session_heap ses' = (session_heap ses)(a \<mapsto> Controllee c media_metadata_init)
      \<and> session_heap ses a = None \<and> a \<noteq> 0 \<and> controllees ses' = controllees ses @ [a] \<and> controllers ses' = controllers ses)"
proof (cases "ev_zalloc env (session_heap ses)")
  case (Some a)
  let ?ses = "ses\<lparr>controllees := controllees ses @ [a],
      session_heap := (session_heap ses)(a \<mapsto> Controllee c media_metadata_init)\<rparr>"
  have f: "session_heap ses a = None" "a \<noteq> 0" using Some assms(1) by (auto simp: env_ok_def)
  have n: "a \<notin> set (controllers ses @ controllees ses)"
    using f(1) assms(2) unfolding session_wf_def dom_def by blast
  then have wf: "session_wf ?ses" using assms(2) f by (auto simp: session_wf_def)
  have b: "broadcast s ?ses MEDIA_EVENT_CHANGED 0 None = broadcast s ses MEDIA_EVENT_CHANGED 0 None"
    by (rule broadcast_cong) (use n in auto)
  have e: "(a = TAILQ_FIRST (controllees ?ses)) = (controllees ses = [])"
    using n by (cases "controllees ses") auto
  have "media_session_controllee_notify env ?ses a MEDIA_EVENT_CHANGED 0 None s
      = Some (if controllees ses = [] then s\<lparr>wire := wire s @ broadcast s ses MEDIA_EVENT_CHANGED 0 None\<rparr> else s)"
    using controllee_notify_spec[OF assms(1) wf event_ok_plain assms(3), where e = MEDIA_EVENT_CHANGED and r = 0 and a = a]
    unfolding e b .
  then have "media_session_controllee_register env c ses s = Some (Some a, ?ses,
      if controllees ses = [] then s\<lparr>wire := wire s @ broadcast s ses MEDIA_EVENT_CHANGED 0 None\<rparr> else s)"
    using Some by (simp add: media_session_controllee_register_def)
  then show ?thesis using wf f by (intro disjI2 exI[of _ a] exI[of _ ?ses]) simp
qed (simp add: media_session_controllee_register_def)

lemma finalize_ok:
  assumes "session_wf ses" "session_heap ses a = Some ob"
  shows "\<exists>ses'. media_session_finalize ses a s = Some (ses', media_server_finalize s (obj_cookie ob))
    \<and> session_wf ses' \<and> session_heap ses' = (session_heap ses)(a \<mapsto> set_obj_cookie None ob)
    \<and> controllees ses' = controllees ses \<and> controllers ses' = controllers ses"
proof -
  have "session_wf (ses\<lparr>session_heap := (session_heap ses)(a \<mapsto> set_obj_cookie None ob)\<rparr>)"
    using assms wf_objects[OF assms] by (cases ob) (auto simp: session_wf_def)
  then show ?thesis using assms(2) by (simp add: media_session_finalize_def media_stub_notify_finalize_def)
qed

lemma wf_remove:
  assumes "session_wf ses"
  shows "session_wf (ses\<lparr>controllers := remove1 a (controllers ses), controllees := remove1 a (controllees ses),
    session_heap := (session_heap ses)(a := None)\<rparr>)"
  using assms by (auto simp: session_wf_def distinct_remove1 set_remove1_eq)

lemma remove1_other: "a \<notin> set xs \<Longrightarrow> remove1 a xs = xs"
  by (rule remove1_idem)

lemma close_ok:
  assumes "session_wf ses" "session_heap ses a = Some (Controller c e)"
  shows "\<exists>ses'. media_session_controller_close ses a = Some ses' \<and> session_wf ses'
    \<and> session_heap ses' = (session_heap ses)(a := None)
    \<and> controllees ses' = controllees ses \<and> controllers ses' = remove1 a (controllers ses)"
  using wf_remove[OF assms(1), of a] wf_objects[OF assms] assms(2) remove1_other[of a "controllees ses"]
  by (simp add: media_session_controller_close_def)

lemma unregister_ok:
  assumes "env_ok env" "session_wf ses" "session_heap ses a = Some (Controllee c m)" "sends s = []"
  shows "\<exists>ses' r. media_session_controllee_unregister env ses a s = Some (ses',
        if a = TAILQ_FIRST (controllees ses) then s\<lparr>wire := wire s @ broadcast s ses' MEDIA_EVENT_CHANGED r None\<rparr> else s)
    \<and> session_wf ses' \<and> session_heap ses' = (session_heap ses)(a := None)
    \<and> controllees ses' = remove1 a (controllees ses) \<and> controllers ses' = controllers ses"
proof -
  let ?ses = "ses\<lparr>controllees := remove1 a (controllees ses), session_heap := (session_heap ses)(a := None)\<rparr>"
  have a: "a \<in> set (controllees ses)" "a \<notin> set (controllers ses)"
    using wf_objects[OF assms(2,3)] by auto
  have wf: "session_wf ?ses" using wf_remove[OF assms(2), of a] a by (simp add: remove1_other)
  note n = controllee_notify_spec[OF assms(1) wf event_ok_plain assms(4)]
  obtain x xs where x: "controllees ses = x # xs" using a(1) by (cases "controllees ses") auto
  show ?thesis
  proof (cases "x = a")
    case False
    with a(1) wf x assms(3) show ?thesis
      by (intro exI[of _ ?ses] exI[of _ 0]) (simp add: media_session_controllee_unregister_def)
  next
    case True
    show ?thesis
    proof (cases xs)
      case Nil
      with True x n[where e = MEDIA_EVENT_CHANGED and r = 0 and a = 0] wf assms(3) show ?thesis
        by (intro exI[of _ ?ses] exI[of _ 0]) (simp add: media_session_controllee_unregister_def Let_def)
    next
      case (Cons y ys)
      then have y: "y \<in> set (controllees ?ses)" "y \<noteq> a" "y \<noteq> 0"
        using x True assms(2) by (auto simp: session_wf_def)
      have "\<exists>c m. session_heap ?ses y = Some (Controllee c m)" using wf y(1) unfolding session_wf_def by blast
      then obtain c' m' where h: "session_heap ses y = Some (Controllee c' m')" using y(2) by auto
      with True x Cons y n[where e = MEDIA_EVENT_CHANGED and r = "meta_flags m'" and a = y] wf assms(3) show ?thesis
        by (intro exI[of _ ?ses] exI[of _ "meta_flags m'"]) (simp add: media_session_controllee_unregister_def Let_def)
    qed
  qed
qed

lemma unregister_wire:
  assumes "env_ok env" "session_wf ses" "session_heap ses a = Some (Controllee c m)" "sends s = []"
  shows "\<exists>ses' v. media_session_controllee_unregister env ses a s = Some (ses', s\<lparr>wire := v\<rparr>)
    \<and> session_wf ses' \<and> session_heap ses' = (session_heap ses)(a := None)"
proof -
  from unregister_ok[OF assms] obtain ses' r where
    u: "media_session_controllee_unregister env ses a s = Some (ses',
        if a = TAILQ_FIRST (controllees ses) then s\<lparr>wire := wire s @ broadcast s ses' MEDIA_EVENT_CHANGED r None\<rparr> else s)"
      "session_wf ses'" "session_heap ses' = (session_heap ses)(a := None)" by blast
  obtain v where "(if a = TAILQ_FIRST (controllees ses) then s\<lparr>wire := wire s @ broadcast s ses' MEDIA_EVENT_CHANGED r None\<rparr> else s)
      = s\<lparr>wire := v\<rparr>"
  proof (cases "a = TAILQ_FIRST (controllees ses)")
    case False
    then show ?thesis using that[of "wire s"] by simp
  qed (use that in simp)
  with u show ?thesis by auto
qed

text \<open>What an update does to the order: the playing controllee comes first.\<close>

definition promoted :: "int \<Rightarrow> media_metadata \<Rightarrow> int list \<Rightarrow> int list" where
  "promoted a m xs = (if has_flag (meta_flags m) MEDIA_METAFLAG_STATE \<and> 0 < meta_state m then a # remove1 a xs else xs)"

lemma update_ok:
  assumes "env_ok env" "session_wf ses" "session_heap ses a = Some (Controllee c m)" "sends s = []"
    and u: "media_metadata_unserialize (ev_dup env) media_metadata_init (map_option b_str arg) = Some (ret, diff)"
  shows "\<exists>ses' m'. m' = fst (media_metadata_update m diff)
    \<and> media_session_controllee_update env ses a arg s = Some (ses', s\<lparr>wire := wire s @
        (if a = TAILQ_FIRST (controllees ses) then broadcast s ses MEDIA_EVENT_UPDATED (meta_flags diff) None
         else if controllees ses' \<noteq> controllees ses then broadcast s ses MEDIA_EVENT_CHANGED (meta_flags diff) None
         else [])\<rparr>)
    \<and> session_wf ses' \<and> session_heap ses' = (session_heap ses)(a \<mapsto> Controllee c m')
    \<and> controllees ses' = promoted a m' (controllees ses) \<and> controllers ses' = controllers ses"
proof -
  obtain m2 q where q: "media_metadata_update m diff = (m2, q)" by (cases "media_metadata_update m diff") auto
  let ?s1 = "ses\<lparr>session_heap := (session_heap ses)(a \<mapsto> Controllee c m2)\<rparr>"
  let ?s2 = "?s1\<lparr>controllees := a # remove1 a (controllees ses)\<rparr>"
  have a: "a \<in> set (controllees ses)" "a \<notin> set (controllers ses)" "a \<noteq> 0"
    using wf_objects[OF assms(2,3)] by auto
  have wf1: "session_wf ?s1" using assms(2,3) a by (auto simp: session_wf_def)
  then have wf2: "session_wf ?s2" using a by (auto simp: session_wf_def distinct_remove1 set_remove1_eq)
  have b: "broadcast s ?s1 e r None = broadcast s ses e r None" "broadcast s ?s2 e r None = broadcast s ses e r None" for e r
    by (rule broadcast_cong; use a(2) in auto)+
  note n1 = controllee_notify_spec[OF assms(1) wf1 event_ok_plain assms(4), where e = MEDIA_EVENT_UPDATED and r = "meta_flags diff" and a = a]
  note n2 = controllee_notify_spec[OF assms(1) wf2 event_ok_plain assms(4), where e = MEDIA_EVENT_CHANGED and r = "meta_flags diff" and a = a]
  obtain x xs where x: "controllees ses = x # xs" using a(1) by (cases "controllees ses") auto
  note unf = media_session_controllee_update_def promoted_def Let_def
  show ?thesis
  proof (cases "x = a")
    case True
    with x n1 u q assms(3) wf1 b show ?thesis
      by (intro exI[of _ ?s1] exI[of _ m2]) (simp add: unf)
  next
    case False
    show ?thesis
    proof (cases "has_flag (meta_flags m2) MEDIA_METAFLAG_STATE \<and> 0 < meta_state m2")
      case True
      with False x n2 u q assms(3) wf2 b a(1) show ?thesis
        by (intro exI[of _ ?s2] exI[of _ m2]) (simp add: unf)
    next
      case play: False
      with False x u q assms(3) wf1 show ?thesis
        by (intro exI[of _ ?s1] exI[of _ m2]) (auto simp: unf)
    qed
  qed
qed

section \<open>The handles of the connections\<close>

lemma linked_new:
  assumes "session_linked ses s" "session_heap ses' = (session_heap ses)(a \<mapsto> ob)" "session_heap ses a = None"
    "obj_cookie ob = Some j" "j < length (conns s)" "data (conn s j) = 0"
  shows "session_linked ses' (media_server_set_data (Some j) a s)"
  using assms by (auto simp: session_linked_def conn_set_data)

lemma linked_change:
  assumes "session_linked ses s" "session_heap ses' = (session_heap ses)(a \<mapsto> ob')" "session_heap ses a = Some ob"
    "obj_cookie ob' = obj_cookie ob"
  shows "session_linked ses' s"
  using assms by (auto simp: session_linked_def split: if_splits)

lemma linked_end:
  assumes "session_linked ses s" "session_heap ses' = (session_heap ses)(a := None)" "session_heap ses a = Some ob"
    "data (conn s j) = a" "a \<noteq> 0" "j < length (conns s)" "0 < notify_fd (conn s j)"
  shows "session_linked ses' (media_server_finalize s (Some j))"
proof -
  have c: "obj_cookie ob = Some j" using assms by (auto simp: session_linked_def)
  have "data (conn s i) \<noteq> a" if "i < length (conns s)" "i \<noteq> j" for i
  proof
    assume "data (conn s i) = a"
    then have "obj_cookie ob = Some i" using assms(1,3,5) that(1) by (force simp: session_linked_def)
    with c that(2) show False by simp
  qed
  then show ?thesis
    using assms by (auto simp: session_linked_def conn_finalize)
qed

lemma cmd2event_range: "media_session_cmd2event cmd = -ENOSYS \<or> 0 < media_session_cmd2event cmd"
  by (simp add: media_session_cmd2event_def media_events)

lemma transfer_ok:
  assumes "env_ok env" "session_wf ses" "sends s = []" "\<And>e r. event_ok (e, r, arg)" "buffer_ok res len"
  shows "\<exists>ret res' s'. media_session_controller_transfer env ses cmd arg res len s = Some (ret, res', s')
    \<and> same_requests s s' \<and> session_linked ses s' = session_linked ses s \<and> response_ok res res'"
proof (cases "TAILQ_FIRST (controllees ses) = 0")
  case True
  then show ?thesis using buffer_ok_same[OF assms(5)] by (simp add: media_session_controller_transfer_def)
next
  case False
  then have "\<exists>c m. session_heap ses (TAILQ_FIRST (controllees ses)) = Some (Controllee c m)"
    using assms(2) TAILQ_FIRST_in[OF False] unfolding session_wf_def by blast
  then obtain c m where h: "session_heap ses (TAILQ_FIRST (controllees ses)) = Some (Controllee c m)" by blast
  show ?thesis
  proof (cases "cmd = c_bytes ''query''")
    case True
    obtain buf where "snprintf_put (map_option b_str res) (unat len) (metadata_text (ev_null env) m)
        = Some (int (length (metadata_text (ev_null env) m)), buf)" "response_ok res (map_option c_bytes buf)"
      using snprintf_ok[OF assms(5)] by blast
    with True False h show ?thesis by (simp add: media_session_controller_transfer_def media_metadata_serialize_def)
  next
    case q: False
    have al: "alloc_total (ev_alloc env)" using assms(1) by (simp add: env_ok_def)
    have "media_stub_notify_event (ev_alloc env) (ev_narrow env) s c e 0 arg
        = Some (s\<lparr>wire := wire s @ posted s c (e, 0, arg)\<rparr>)" for e
      by (rule notify_event_posts[OF al assms(4,3)])
    then show ?thesis
      using q False h cmd2event_range[of cmd] buffer_ok_same[OF assms(5)]
      by (auto simp: media_session_controller_transfer_def Let_def)
  qed
qed

section \<open>Properties\<close>

text \<open>
  The protocol the client library follows: a connection registers or opens once; a player's
  connection uses the player's commands and a controller's its own; a handle is given up only on a
  connection that has a notification socket; what a player sends is text the scans accept.
\<close>

definition session_request_ok :: "session_env \<Rightarrow> media_session_priv \<Rightarrow> media_server_priv \<Rightarrow> nat \<Rightarrow> bytes option \<Rightarrow> bytes
    \<Rightarrow> bytes option \<Rightarrow> bool" where
  "session_request_ok env ses s j target cmd arg \<longleftrightarrow>
    (let h = data (conn s j) in
       (cmd \<in> {c_bytes ''register'', c_bytes ''open''} \<longrightarrow> h = 0)
     \<and> (\<forall>c m. session_heap ses h = Some (Controllee c m) \<longrightarrow> cmd \<notin> {c_bytes ''close'', c_bytes ''set_event''})
     \<and> (\<forall>c e. session_heap ses h = Some (Controller c e) \<longrightarrow> cmd \<notin> {c_bytes ''unregister'', c_bytes ''update''})
     \<and> (cmd \<in> {c_bytes ''unregister'', c_bytes ''close''} \<longrightarrow> h \<noteq> 0 \<longrightarrow> 0 < notify_fd (conn s j))
     \<and> (cmd = c_bytes ''update'' \<longrightarrow> media_metadata_unserialize (ev_dup env) media_metadata_init (map_option b_str arg) \<noteq> None)
     \<and> (cmd = c_bytes ''event'' \<longrightarrow> (\<exists>a e r. arg = Some a
          \<and> sscanf_values [Scan_d, Scan_char CHR '':'', Scan_d] (b_str a) = Some [Int_value e, Int_value r]))
     \<and> (\<forall>e r. event_ok (e, r, target)) \<and> (\<forall>e r. event_ok (e, r, arg)))"


text \<open>C18: The player that reported playing last is the one controls reach: after a playing update
  from connection \<open>j\<close>, the next control command of any controller is posted, once and with its
  argument, to the notification socket of \<open>j\<close>, and to no other.\<close>

theorem session_control_reaches_playing:
  assumes env: "env_ok env" and wf: "session_wf ses" "session_linked ses s" and s: "j < length (conns s)" "sends s = []"
    and player: "data (conn s j) \<noteq> 0" "session_heap ses (data (conn s j)) = Some (Controllee (Some j) m)"
    and up: "media_metadata_unserialize (ev_dup env) media_metadata_init (map_option b_str arg) = Some (r, diff)"
      "has_flag (meta_flags diff) MEDIA_METAFLAG_STATE" "0 < meta_state diff"
    and ctl: "data (conn s i) \<noteq> 0" "0 < media_session_cmd2event cmd" "\<And>e r. event_ok (e, r, arg2)"
  shows "\<exists>v ses1. media_session_handler env (Some j) tgt (Some (c_bytes ''update'')) arg res len s ses
      = Some (0, res, s\<lparr>wire := v\<rparr>, ses1)
    \<and> media_session_handler env (Some i) tgt2 (Some cmd) arg2 res2 len2 (s\<lparr>wire := v\<rparr>) ses1
      = Some (0, res2, s\<lparr>wire := v @ posted s (Some j) (word_of_int (media_session_cmd2event cmd), 0, arg2)\<rparr>, ses1)"
proof -
  let ?a = "data (conn s j)"
  obtain ses1 v where u: "media_session_controllee_update env ses ?a arg s = Some (ses1, s\<lparr>wire := v\<rparr>)" "session_wf ses1"
      "session_heap ses1 = (session_heap ses)(?a \<mapsto> Controllee (Some j) (fst (media_metadata_update m diff)))"
      "controllees ses1 = promoted ?a (fst (media_metadata_update m diff)) (controllees ses)"
    using update_ok[OF env wf(1) player(2) s(2) up(1)] by blast
  have "controllees ses1 = ?a # remove1 ?a (controllees ses)"
    using u(4) up(2,3) by (simp add: promoted_def update_fields has_flag_or)
  then have f: "TAILQ_FIRST (controllees ses1) = ?a" by simp
  have al: "alloc_total (ev_alloc env)" using env by (simp add: env_ok_def)
  have cmd: "cmd \<notin> {c_bytes ''ping'', c_bytes ''register'', c_bytes ''unregister'', c_bytes ''event'', c_bytes ''update'',
      c_bytes ''open'', c_bytes ''close'', c_bytes ''set_event'', c_bytes ''query''}"
    using ctl(2) by (auto simp: media_session_cmd2event_def media_events)
  have ci: "conn (s\<lparr>wire := v\<rparr>) i = conn s i" for i by (simp add: conn_def)
  have sw: "sends (s\<lparr>wire := v\<rparr>) = []" using s(2) by simp
  have n: "media_stub_notify_event (ev_alloc env) (ev_narrow env) (s\<lparr>wire := v\<rparr>) (Some j)
      (word_of_int (media_session_cmd2event cmd)) 0 arg2
    = Some (s\<lparr>wire := v @ posted s (Some j) (word_of_int (media_session_cmd2event cmd), 0, arg2)\<rparr>)"
    using notify_event_posts[OF al ctl(3) sw, of "ev_narrow env" "Some j"] by simp
  have h1: "media_session_handler env (Some j) tgt (Some (c_bytes ''update'')) arg res len s ses = Some (0, res, s\<lparr>wire := v\<rparr>, ses1)"
    using player(1) u(1) by (simp add: media_session_handler_def media_server_get_data_def)
  have t: "media_session_controller_transfer env ses1 cmd arg2 res2 len2 (s\<lparr>wire := v\<rparr>)
      = Some (0, res2, s\<lparr>wire := v @ posted s (Some j) (word_of_int (media_session_cmd2event cmd), 0, arg2)\<rparr>)"
    using f player(1) u(3) cmd ctl(2) n by (simp add: media_session_controller_transfer_def Let_def)
  then have "media_session_handler env (Some i) tgt2 (Some cmd) arg2 res2 len2 (s\<lparr>wire := v\<rparr>) ses1
      = Some (0, res2, s\<lparr>wire := v @ posted s (Some j) (word_of_int (media_session_cmd2event cmd), 0, arg2)\<rparr>, ses1)"
    using cmd ctl(1) ci by (simp add: media_session_handler_def media_server_get_data_def)
  with h1 show ?thesis by blast
qed

text \<open>A controller that gives up its handle on a connection without a notification socket leaves
  the freed object on the connection: the next use of it is a use after free.\<close>

theorem session_stale_handle:
  assumes wf: "session_wf ses" "data (conn s j) \<noteq> 0" "session_heap ses (data (conn s j)) = Some (Controller (Some j) e)"
    and nf: "notify_fd (conn s j) \<le> 0"
  shows "\<exists>ses'. media_session_handler env (Some j) tgt (Some (c_bytes ''close'')) arg res len s ses = Some (0, res, s, ses')
    \<and> media_session_handler env (Some j) tgt (Some (c_bytes ''close'')) arg res len s ses' = None
    \<and> media_session_handler env (Some j) tgt (Some (c_bytes ''set_event'')) arg res len s ses' = None"
proof -
  let ?a = "data (conn s j)"
  have fin: "media_server_finalize s (Some j) = s" using nf by (simp add: media_server_finalize_def)
  obtain ses1 where f: "media_session_finalize ses ?a s = Some (ses1, s)"
    "session_wf ses1" "session_heap ses1 = (session_heap ses)(?a \<mapsto> Controller None e)"
    using finalize_ok[OF wf(1,3), of s] fin by auto
  have "session_heap ses1 ?a = Some (Controller None e)" using f(3) by simp
  from close_ok[OF f(2) this] obtain ses2 where c: "media_session_controller_close ses1 ?a = Some ses2"
    "session_heap ses2 = (session_heap ses1)(?a := None)" by blast
  have "session_heap ses2 ?a = None" using c(2) by simp
  then show ?thesis
    using f(1) c(1) wf(2) by (simp add: media_session_handler_def media_server_get_data_def media_session_finalize_def)
qed

text \<open>What a player's text holds: every flagged field, and no string that is not flagged.\<close>

definition metadata_plain :: "string \<Rightarrow> media_metadata \<Rightarrow> bool" where
  "metadata_plain null d \<longleftrightarrow> numbers_ok d \<and> scan_word 128 null
     \<and> (if has_flag (meta_flags d) MEDIA_METAFLAG_TITLE then \<exists>t. meta_title d = Some t \<and> scan_word 128 t else meta_title d = None)
     \<and> (if has_flag (meta_flags d) MEDIA_METAFLAG_ARTIST then \<exists>t. meta_artist d = Some t \<and> scan_word 128 t else meta_artist d = None)"

lemma scan_two_words:
  assumes "scan_word 128 t" "scan_word 128 a"
  shows "sscanf_values [Scan_s 128, Scan_space, Scan_s 128] (t @ [CHR 0x09] @ a) = Some [Str_value t, Str_value a]"
proof -
  have d: "dropWhile isspace a = a" using assms(2) by (cases a) (auto simp: scan_word_def)
  show ?thesis
    using scan_word_step[OF assms(1), of "[CHR 0x09] @ a" "[Scan_space, Scan_s 128]"]
      scan_word_step[OF assms(2), of "[]" "[]"] d by (simp del: sscanf_values.simps(6))
qed

lemma plain_unserialize:
  assumes "metadata_plain null d"
  shows "media_metadata_unserialize Some media_metadata_init (Some (metadata_text null d)) = Some (7, d)"
proof -
  have w: "scan_word 128 (shown null (meta_title d))" "scan_word 128 (shown null (meta_artist d))"
    using assms by (auto simp: metadata_plain_def shown_def split: if_splits)
  have n: "numbers_ok d" using assms by (simp add: metadata_plain_def)
  have ne: "shown null (meta_title d) \<noteq> []" "shown null (meta_artist d) \<noteq> []"
    using w by (simp_all add: scan_word_def)
  have e: "d\<lparr>meta_title := if has_flag (meta_flags d) MEDIA_METAFLAG_TITLE then Some (shown null (meta_title d)) else None,
      meta_artist := if has_flag (meta_flags d) MEDIA_METAFLAG_ARTIST then Some (shown null (meta_artist d)) else None\<rparr> = d"
    using assms by (cases d) (auto simp: metadata_plain_def shown_def split: if_splits)
  show ?thesis using unserialize_words[OF n scan_two_words[OF w] ne, of Some] unfolding e .
qed

lemma plain_update:
  assumes "metadata_plain null d"
  shows "metadata_plain null (fst (media_metadata_update media_metadata_init d))"
    "meta_view (fst (media_metadata_update media_metadata_init d)) = meta_view d"
proof -
  have i: "meta_flags media_metadata_init = 0" "meta_state media_metadata_init = 0" "meta_volume media_metadata_init = 0"
    "meta_position media_metadata_init = 0" "meta_duration media_metadata_init = 0" "meta_title media_metadata_init = None"
    "meta_artist media_metadata_init = None" by (simp_all add: media_metadata_init_def)
  show "metadata_plain null (fst (media_metadata_update media_metadata_init d))"
    using assms by (simp add: metadata_plain_def numbers_ok_def int32_def update_fields i)
  show "meta_view (fst (media_metadata_update media_metadata_init d)) = meta_view d"
    by (rule ext) (simp add: meta_view_def update_fields i metaflags)
qed

lemma digits_no_NUL: "NUL \<notin> set (nat_digits n)" "NUL \<notin> set (int_digits v)"
proof -
  show "NUL \<notin> set (nat_digits n)" for n using nat_digits_digits[of n] by (auto simp: isdigit_def NUL_def)
  then show "NUL \<notin> set (int_digits v)" by (simp add: int_digits_def) (simp add: NUL_def)
qed

lemma plain_text_NUL: "metadata_plain null d \<Longrightarrow> NUL \<notin> set (metadata_text null d)"
  using digits_no_NUL by (auto simp: metadata_text_def metadata_plain_def scan_word_def NUL_def split: if_splits option.splits)


text \<open>A session with one player on connection 0 and one controller on connection 1.\<close>

definition example_env :: session_env where
  "example_env = \<lparr>ev_alloc = zero_alloc, ev_narrow = (\<lambda>_. 0), ev_zalloc = (\<lambda>_. None), ev_dup = Some, ev_null = ''(null)''\<rparr>"

definition example_session :: media_session_priv where
  "example_session = \<lparr>controllers = [2], controllees = [1],
     session_heap = [1 \<mapsto> Controllee (Some 0) media_metadata_init, 2 \<mapsto> Controller (Some 1) False]\<rparr>"

definition example_server :: media_server_priv where
  "example_server = local_server\<lparr>conns := [zero_conn\<lparr>tran_fd := 5, notify_fd := 6, data := 1\<rparr>,
     zero_conn\<lparr>tran_fd := 7, data := 2\<rparr>]\<rparr>"

lemma example_facts:
  "env_ok example_env" "session_wf example_session" "session_linked example_session example_server"
  "sends example_server = []" "length (conns example_server) = 2" "data (conn example_server 0) = 1"
  "data (conn example_server 1) = 2" "notify_fd (conn example_server 0) = 6" "notify_fd (conn example_server 1) = 0"
  "wire example_server = []"
proof -
  show "env_ok example_env" using zero_alloc_total by (simp add: env_ok_def example_env_def)
  show "session_wf example_session" by (auto simp: session_wf_def example_session_def split: if_splits)
  show "session_linked example_session example_server"
    by (auto simp: session_linked_def example_session_def example_server_def conn_def less_Suc_eq split: if_splits)
  show "sends example_server = []" "length (conns example_server) = 2" "data (conn example_server 0) = 1"
    "data (conn example_server 1) = 2" "notify_fd (conn example_server 0) = 6" "notify_fd (conn example_server 1) = 0"
    "wire example_server = []"
    by (simp_all add: example_server_def conn_def zero_conn_def local_server_def)
qed


lemma playing_text:
  "metadata_plain ''(null)'' \<lparr>meta_flags = 1, meta_state = 3, meta_volume = 0, meta_position = 0, meta_duration = 0,
     meta_title = None, meta_artist = None\<rparr>"
  by (simp add: metadata_plain_def numbers_ok_def int32_def scan_word_def isspace_def NUL_def has_flag_def metaflags)

lemma session_control_reaches_playing_witness:
  "\<exists>v ses1. media_session_handler example_env (Some 1) None (Some (c_bytes ''stop'')) None None 0 (example_server\<lparr>wire := v\<rparr>) ses1
    = Some (0, None, example_server\<lparr>wire := v @ [(6, parcel_wire MEDIA_PARCEL_NOTIFY (event_bytes (105, 0, None)))]\<rparr>, ses1)"
proof -
  let ?d = "\<lparr>meta_flags = 1, meta_state = 3, meta_volume = 0, meta_position = 0, meta_duration = 0,
     meta_title = None, meta_artist = None\<rparr>"
  have u: "media_metadata_unserialize (ev_dup example_env) media_metadata_init
      (map_option b_str (Some (c_bytes (metadata_text ''(null)'' ?d)))) = Some (7, ?d)"
    using plain_unserialize[OF playing_text] by (simp add: example_env_def)
  have h: "session_heap example_session (data (conn example_server 0)) = Some (Controllee (Some 0) media_metadata_init)"
    by (simp add: example_facts example_session_def)
  have c: "media_session_cmd2event (c_bytes ''stop'') = 105" by (simp add: media_session_cmd2event_def media_events)
  have q: "0 < length (conns example_server)" "data (conn example_server 0) \<noteq> 0" "has_flag (meta_flags ?d) MEDIA_METAFLAG_STATE"
    "0 < meta_state ?d" "data (conn example_server 1) \<noteq> 0" "0 < media_session_cmd2event (c_bytes ''stop'')"
    "posted example_server (Some 0) (word_of_int (media_session_cmd2event (c_bytes ''stop'')), 0, None)
      = [(6, parcel_wire MEDIA_PARCEL_NOTIFY (event_bytes (105, 0, None)))]"
    by (simp_all only: example_facts c) (simp_all add: has_flag_def metaflags posted_def example_facts)
  show ?thesis
    using session_control_reaches_playing[OF example_facts(1-3) q(1) example_facts(4) q(2) h u q(3-6) event_ok_plain,
        of None None 0 None None 0]
    unfolding q(7) by blast
qed

lemma session_stale_handle_witness:
  "\<exists>ses'. media_session_handler example_env (Some 1) None (Some (c_bytes ''close'')) None None 0 example_server ses' = None"
  using session_stale_handle[OF example_facts(2), of example_server 1 False example_env None None None 0] example_facts
  by (auto simp: example_session_def)


end
