(* ===== verification/Media_Graph.thy ===== *)
theory Media_Graph
  imports Media_Text
begin

text \<open>
  The filter graph of the server, \<open>server/media_graph.c\<close>: loading, the queue of commands that wait
  for a change of state, players and recorders bound to a filter of the graph, and the events the
  filters report.

  A filter is its position in the graph. Contexts and queued commands are blocks of two heaps;
  \<open>None\<close> as the result of a function is undefined behaviour or a call that does not return. What
  avfilter does is a parameter on a state of its own, \<open>av\<close>: a call gives its result, the buffer, and
  the events it reported, which are delivered to the callback in order. \<open>av\<close> also holds what the
  other modules keep, so that a handler of the stub can call back into the graph.
\<close>

section \<open>State\<close>

record graph_filter =
  filter_name :: bytes
  filter_kind :: bytes
  filter_poll :: bool
  filter_opaque :: int

record media_command =
  cmd_filter :: nat
  cmd_name :: bytes
  cmd_arg :: "bytes option"
  cmd_flags :: int
  cmd_next :: int

record media_filter_priv =
  ctx_filter :: "nat option"
  ctx_cookie :: "nat option"
  ctx_event :: bool

record 'x media_graph_priv =
  graph_filters :: "graph_filter list"
  graph_fd :: int
  graph_count :: nat
  graph_tid :: int
  pollfts :: "nat list"
  cmdhead :: int
  cmdtail :: int
  cmd_store :: "int \<rightharpoonup> media_command"
  graph_heap :: "int \<rightharpoonup> media_filter_priv"
  av :: 'x

text \<open>The argument of a command is a text or the address of an event cookie; an event is the context
  it is for, its number, its result and a text.\<close>

datatype av_arg = Av_text "bytes option" | Av_event int

type_synonym av_event = "int \<times> 32 word \<times> 32 word \<times> bytes option"

record 'x graph_env =
  gv_alloc :: allocator
  gv_narrow :: "64 word \<Rightarrow> 32 word"
  gv_zalloc :: "(int \<rightharpoonup> media_filter_priv) \<Rightarrow> int option"
  gv_malloc :: "(int \<rightharpoonup> media_command) \<Rightarrow> int option"
  gv_strdup :: "bytes \<Rightarrow> bytes option"
  gv_name :: bytes
  gv_null :: string
  gv_local_cpu :: bytes
  gv_path_max :: nat
  gv_modules :: "'x media_graph_priv modules"
  gv_pending :: "'x \<Rightarrow> bool"
  gv_process :: "nat \<Rightarrow> bytes \<Rightarrow> av_arg \<Rightarrow> bytes option \<Rightarrow> 32 word \<Rightarrow> int \<Rightarrow> 'x
    \<Rightarrow> int \<times> bytes option \<times> av_event list \<times> 'x"
  gv_find_on_link :: "nat \<Rightarrow> bytes \<Rightarrow> bool \<Rightarrow> 'x \<Rightarrow> nat option"
  gv_run_all :: "'x \<Rightarrow> int \<times> av_event list \<times> 'x"
  gv_get_pollfd :: "nat \<Rightarrow> int \<Rightarrow> 'x \<Rightarrow> int \<times> int list \<times> 'x"
  gv_poll_available :: "nat \<Rightarrow> int \<Rightarrow> 'x \<Rightarrow> av_event list \<times> 'x"
  gv_set_loglevel :: "bytes \<Rightarrow> 'x \<Rightarrow> 'x"
  gv_started :: "32 word"
  gv_paused :: "32 word"
  gv_stopped :: "32 word"
  gv_completed :: "32 word"
  gv_closed :: "32 word"

type_synonym 'x graph_call = "media_server_priv \<Rightarrow> 'x media_graph_priv
  \<Rightarrow> (int \<times> bytes option \<times> media_server_priv \<times> 'x media_graph_priv) option"

definition AV_OPT_SEARCH_CHILDREN :: int where "AV_OPT_SEARCH_CHILDREN = 1"

definition filter_at :: "'x media_graph_priv \<Rightarrow> nat \<Rightarrow> graph_filter option" where
  "filter_at g i = (if i < length (graph_filters g) then Some (graph_filters g ! i) else None)"

definition set_opaque :: "nat \<Rightarrow> int \<Rightarrow> 'x media_graph_priv \<Rightarrow> 'x media_graph_priv option" where
  \<comment> \<open>\<open>filter->opaque = a\<close>\<close>
  "set_opaque i a g = (case filter_at g i of None \<Rightarrow> None
     | Some f \<Rightarrow> Some (g\<lparr>graph_filters := (graph_filters g)[i := f\<lparr>filter_opaque := a\<rparr>]\<rparr>))"

definition g_media_inputs :: "bytes list" where
  "g_media_inputs = [c_bytes ''amovie_async'', c_bytes ''movie_async'']"

definition g_media_outputs :: "bytes list" where
  "g_media_outputs = [c_bytes ''amoviesink_async'', c_bytes ''moviesink_async'']"

section \<open>Events\<close>

definition media_common_notify_cb :: "'x graph_env \<Rightarrow> av_event \<Rightarrow> media_server_priv \<Rightarrow> 'x media_graph_priv
    \<Rightarrow> (media_server_priv \<times> 'x media_graph_priv) option" where
  "media_common_notify_cb env = (\<lambda>(cookie, event, result, extra) s g. do {
     ctx \<leftarrow> graph_heap g cookie;
     (if ctx_event ctx then do {
        s1 \<leftarrow> media_stub_notify_event (gv_alloc env) (gv_narrow env) s (ctx_cookie ctx) event result extra;
        Some (s1, g)
      } else Some (s, g))
   })"

definition ctx_status :: "'x graph_env \<Rightarrow> int \<Rightarrow> bool \<Rightarrow> media_server_priv \<Rightarrow> 'x media_graph_priv
    \<Rightarrow> (media_server_priv \<times> 'x media_graph_priv) option" where
  \<comment> \<open>\<open>media_stub_set_stream_status(ctx->filter->name, active)\<close>\<close>
  "ctx_status env cookie active s g = do {
     ctx \<leftarrow> graph_heap g cookie;
     i \<leftarrow> ctx_filter ctx;
     f \<leftarrow> filter_at g i;
     (_, _, s1, g1) \<leftarrow> media_stub_set_stream_status (gv_modules env) (filter_name f) active s g;
     Some (s1, g1)
   }"

definition media_common_event_cb :: "'x graph_env \<Rightarrow> av_event \<Rightarrow> media_server_priv \<Rightarrow> 'x media_graph_priv
    \<Rightarrow> (media_server_priv \<times> 'x media_graph_priv) option" where
  "media_common_event_cb env ev s g = (case ev of (cookie, event, result, extra) \<Rightarrow>
     if event = gv_started env then do {
       (s1, g1) \<leftarrow> (if result = 0 then ctx_status env cookie True s g else Some (s, g));
       media_common_notify_cb env ev s1 g1
     }
     else if event \<in> {gv_paused env, gv_stopped env, gv_completed env} then do {
       (s1, g1) \<leftarrow> ctx_status env cookie False s g;
       media_common_notify_cb env ev s1 g1
     }
     else if event = gv_closed env then do {
       (s1, g1) \<leftarrow> ctx_status env cookie False s g;
       ctx \<leftarrow> graph_heap g1 cookie;
       let (s2, _) = media_stub_notify_finalize s1 (Some (ctx_cookie ctx));
       i \<leftarrow> ctx_filter ctx;
       g2 \<leftarrow> set_opaque i 0 g1;
       Some (s2, g2\<lparr>graph_heap := (graph_heap g2)(cookie := None)\<rparr>)
     }
     else media_common_notify_cb env ev s g)"

fun deliver_events :: "'x graph_env \<Rightarrow> av_event list \<Rightarrow> media_server_priv \<Rightarrow> 'x media_graph_priv
    \<Rightarrow> (media_server_priv \<times> 'x media_graph_priv) option" where
  "deliver_events env [] s g = Some (s, g)"
| "deliver_events env (e # es) s g = do { (s1, g1) \<leftarrow> media_common_event_cb env e s g; deliver_events env es s1 g1 }"

definition avfilter_process_command :: "'x graph_env \<Rightarrow> nat \<Rightarrow> bytes \<Rightarrow> av_arg \<Rightarrow> bytes option \<Rightarrow> 32 word \<Rightarrow> int
    \<Rightarrow> 'x graph_call" where
  \<comment> \<open>the call with the events it reports\<close>
  "avfilter_process_command env i cmd arg res len flags s g =
    (case gv_process env i cmd arg res len flags (av g) of (ret, res1, evs, x) \<Rightarrow> do {
       (s1, g1) \<leftarrow> deliver_events env evs s (g\<lparr>av := x\<rparr>);
       Some (ret, res1, s1, g1)
     })"

section \<open>The command queue\<close>

definition new_command :: "'x graph_env \<Rightarrow> nat \<Rightarrow> bytes \<Rightarrow> bytes option \<Rightarrow> int \<Rightarrow> 'x media_graph_priv
    \<Rightarrow> (int \<times> media_command) option" where
  \<comment> \<open>the block with its copies of the strings, \<open>None\<close> when memory is out, with what was allocated freed\<close>
  "new_command env i cmd arg flags g = do {
     a \<leftarrow> gv_malloc env (cmd_store g);
     c \<leftarrow> gv_strdup env cmd;
     d \<leftarrow> (case arg of None \<Rightarrow> Some None | Some b \<Rightarrow> map_option Some (gv_strdup env b));
     Some (a, \<lparr>cmd_filter = i, cmd_name = c, cmd_arg = d, cmd_flags = flags, cmd_next = 0\<rparr>)
   }"

definition link_command :: "int \<Rightarrow> media_command \<Rightarrow> 'x media_graph_priv \<Rightarrow> 'x media_graph_priv option" where
  "link_command a c g =
    (let g1 = g\<lparr>cmd_store := (cmd_store g)(a \<mapsto> c)\<rparr> in
     if cmdhead g1 = 0 then Some (g1\<lparr>cmdhead := a, cmdtail := a\<rparr>)
     else (case cmd_store g1 (cmdtail g1) of
         None \<Rightarrow> None
       | Some t \<Rightarrow> Some (g1\<lparr>cmd_store := (cmd_store g1)(cmdtail g1 \<mapsto> t\<lparr>cmd_next := a\<rparr>), cmdtail := a\<rparr>)))"

definition unlink_command :: "int \<Rightarrow> 'x media_graph_priv \<Rightarrow> 'x media_graph_priv option" where
  \<comment> \<open>the head becomes the successor of \<open>tmp\<close>, which is freed\<close>
  "unlink_command tmp g = do {
     c \<leftarrow> cmd_store g tmp;
     let g1 = g\<lparr>cmdhead := cmd_next c\<rparr>;
     let g2 = (if cmdhead g1 = 0 then g1\<lparr>cmdtail := 0\<rparr> else g1);
     Some (g2\<lparr>cmd_store := (cmd_store g2)(tmp := None)\<rparr>)
   }"

definition media_graph_queue_command :: "'x graph_env \<Rightarrow> nat \<Rightarrow> bytes \<Rightarrow> bytes option \<Rightarrow> bytes option \<Rightarrow> 32 word \<Rightarrow> int
    \<Rightarrow> 'x graph_call" where
  "media_graph_queue_command env i cmd arg res len flags s g =
    (if res \<noteq> None \<and> 0 < sint len then avfilter_process_command env i cmd (Av_text arg) res len flags s g
     else if cmdhead g = 0 \<and> \<not> gv_pending env (av g) then do {
       (ret, _, s1, g1) \<leftarrow> avfilter_process_command env i cmd (Av_text arg) None 0 flags s g;
       Some (ret, res, s1, g1)
     }
     else (case new_command env i cmd arg flags g of
         None \<Rightarrow> Some (-ENOMEM, res, s, g)
       | Some (a, c) \<Rightarrow> do { g1 \<leftarrow> link_command a c g; Some (0, res, s, g1) }))"

definition media_graph_dequeue_command :: "'x graph_env \<Rightarrow> bool \<Rightarrow> media_server_priv \<Rightarrow> 'x media_graph_priv
    \<Rightarrow> (int \<times> media_server_priv \<times> 'x media_graph_priv) option" where
  "media_graph_dequeue_command env run s g =
    (let tmp = cmdhead g in
     if tmp = 0 then Some (-EAGAIN, s, g)
     else if run \<and> gv_pending env (av g) then Some (-EAGAIN, s, g)
     else do {
       c \<leftarrow> cmd_store g tmp;
       (ret, s1, g1) \<leftarrow> (if run then do {
            (ret, _, s1, g1) \<leftarrow> avfilter_process_command env (cmd_filter c) (cmd_name c) (Av_text (cmd_arg c)) None 0
              (cmd_flags c) s g;
            Some (ret, s1, g1)
          } else Some (0, s, g));
       g2 \<leftarrow> unlink_command tmp g1;
       Some (ret, s1, g2)
     })"

partial_function (option) drain_commands :: "'x graph_env \<Rightarrow> bool \<Rightarrow> media_server_priv \<Rightarrow> 'x media_graph_priv
    \<Rightarrow> (int \<times> media_server_priv \<times> 'x media_graph_priv) option" where
  \<comment> \<open>\<open>do ret = media_graph_dequeue_command(priv, run); while (ret >= 0);\<close>\<close>
  "drain_commands env run s g = do {
     (ret, s1, g1) \<leftarrow> media_graph_dequeue_command env run s g;
     (if 0 \<le> ret then drain_commands env run s1 g1 else Some (ret, s1, g1))
   }"

definition media_graph_run_once :: "'x graph_env \<Rightarrow> media_server_priv \<Rightarrow> 'x media_graph_priv
    \<Rightarrow> (int \<times> media_server_priv \<times> 'x media_graph_priv) option" where
  "media_graph_run_once env s g = (case gv_run_all env (av g) of (ret, evs, x) \<Rightarrow> do {
     (s1, g1) \<leftarrow> deliver_events env evs s (g\<lparr>av := x\<rparr>);
     (if ret < 0 then Some (ret, s1, g1)
      else do {
        (ret1, s2, g2) \<leftarrow> drain_commands env True s1 g1;
        Some (if ret1 = -EAGAIN then 0 else ret1, s2, g2)
      })
   })"

section \<open>Players and recorders\<close>

fun first_filter :: "(graph_filter \<Rightarrow> bool option) \<Rightarrow> nat \<Rightarrow> graph_filter list \<Rightarrow> nat option option" where
  \<comment> \<open>the loop of \<open>media_find_filter\<close> from index \<open>i\<close> on\<close>
  "first_filter m i [] = Some None"
| "first_filter m i (f # fs) = (case m f of
     None \<Rightarrow> None
   | Some True \<Rightarrow> Some (Some i)
   | Some False \<Rightarrow> first_filter m (Suc i) fs)"

definition filter_matches :: "bool \<Rightarrow> bool \<Rightarrow> bytes option \<Rightarrow> int \<Rightarrow> bytes option \<Rightarrow> graph_filter \<Rightarrow> bool option" where
  \<comment> \<open>the tests on one filter; the mapped name is read when the policy gave one\<close>
  "filter_matches input available prefix ret name f =
    (if available \<and> filter_opaque f \<noteq> 0 then Some False
     else (case prefix of
         None \<Rightarrow> Some (filter_kind f \<in> set (if input then g_media_inputs else g_media_outputs))
       | Some p \<Rightarrow> do {
           q \<leftarrow> (if ret = 0 then (case c_str name of Some (Some q) \<Rightarrow> Some q | _ \<Rightarrow> None) else Some p);
           Some (take (length q) (filter_name f) = q)
         }))"

definition media_find_filter :: "'x graph_env \<Rightarrow> bytes option \<Rightarrow> bool \<Rightarrow> bool \<Rightarrow> media_server_priv \<Rightarrow> 'x media_graph_priv
    \<Rightarrow> (int \<times> nat option \<times> media_server_priv \<times> 'x media_graph_priv) option" where
  "media_find_filter env prefix input available s g = do {
     (ret, name, s1, g1) \<leftarrow> media_stub_get_stream_name (gv_modules env) prefix (Some (gv_name env)) 64 s g;
     found \<leftarrow> first_filter (filter_matches input available prefix ret name) 0 (graph_filters g1);
     Some (case found of
         Some i \<Rightarrow> (0, Some i, s1, g1)
       | None \<Rightarrow> (if ret = 0 then -EINVAL else -ENOTSUP, None, s1, g1))
   }"

definition free_ctx :: "int \<Rightarrow> 'x media_graph_priv \<Rightarrow> 'x media_graph_priv option" where
  "free_ctx a g = (if graph_heap g a = None then None else Some (g\<lparr>graph_heap := (graph_heap g)(a := None)\<rparr>))"

definition ctx_command :: "'x graph_env \<Rightarrow> int \<Rightarrow> string \<Rightarrow> av_arg \<Rightarrow> media_server_priv \<Rightarrow> 'x media_graph_priv
    \<Rightarrow> (int \<times> media_server_priv \<times> 'x media_graph_priv) option" where
  \<comment> \<open>\<open>avfilter_process_command(ctx->filter, cmd, arg, NULL, 0, 0)\<close>\<close>
  "ctx_command env a cmd arg s g = do {
     ctx \<leftarrow> graph_heap g a;
     i \<leftarrow> ctx_filter ctx;
     (ret, _, s1, g1) \<leftarrow> avfilter_process_command env i (c_bytes cmd) arg None 0 0 s g;
     Some (ret, s1, g1)
   }"

definition media_common_launch :: "'x graph_env \<Rightarrow> int \<Rightarrow> nat option \<Rightarrow> media_server_priv \<Rightarrow> 'x media_graph_priv
    \<Rightarrow> (int \<times> int \<times> media_server_priv \<times> 'x media_graph_priv) option" where
  \<comment> \<open>\<open>media_common_open\<close> from the launch of the filter's thread on, for the context \<open>a\<close>\<close>
  "media_common_launch env a cookie s g = do {
     (ret, s1, g1) \<leftarrow> ctx_command env a ''open'' (Av_text None) s g;
     (if ret < 0 then do { g2 \<leftarrow> free_ctx a g1; Some (ret, 0, s1, g2) }
      else do {
        (ret, s2, g2) \<leftarrow> ctx_command env a ''set_event'' (Av_event a) s1 g1;
        (if ret < 0 then do {
           (_, s3, g3) \<leftarrow> ctx_command env a ''close'' (Av_text None) s2 g2;
           g4 \<leftarrow> free_ctx a g3;
           Some (ret, 0, s3, g4)
         }
         else do {
           ctx \<leftarrow> graph_heap g2 a;
           let g3 = g2\<lparr>graph_heap := (graph_heap g2)(a \<mapsto> ctx\<lparr>ctx_cookie := cookie\<rparr>)\<rparr>;
           i \<leftarrow> ctx_filter ctx;
           g4 \<leftarrow> set_opaque i a g3;
           Some (0, a, s2, g4)
         })
      })
   }"

definition media_common_open :: "'x graph_env \<Rightarrow> bytes option \<Rightarrow> nat option \<Rightarrow> bool \<Rightarrow> media_server_priv \<Rightarrow> 'x media_graph_priv
    \<Rightarrow> (int \<times> int \<times> media_server_priv \<times> 'x media_graph_priv) option" where
  \<comment> \<open>the second result is what \<open>*pctx\<close> is set to\<close>
  "media_common_open env arg cookie player s g = (case gv_zalloc env (graph_heap g) of
     None \<Rightarrow> Some (-ENOMEM, 0, s, g)
   | Some a \<Rightarrow> do {
       let g0 = g\<lparr>graph_heap := (graph_heap g)(a \<mapsto> \<lparr>ctx_filter = None, ctx_cookie = None, ctx_event = False\<rparr>)\<rparr>;
       (ret, found, s1, g1) \<leftarrow> media_find_filter env arg player True s g0;
       ctx1 \<leftarrow> graph_heap g1 a;
       let g2 = g1\<lparr>graph_heap := (graph_heap g1)(a \<mapsto> ctx1\<lparr>ctx_filter := found\<rparr>)\<rparr>;
       (if ret < 0 then do { g3 \<leftarrow> free_ctx a g2; Some (ret, 0, s1, g3) }
        else media_common_launch env a cookie s1 g2)
     })"

definition buffer_url :: "'x graph_env \<Rightarrow> bytes \<Rightarrow> bytes option \<Rightarrow> bytes" where
  \<comment> \<open>the url of buffer mode in \<open>char url[PATH_MAX]\<close>\<close>
  "buffer_url env target arg =
    (let sock = (case arg of None \<Rightarrow> c_bytes (gv_null env) | Some b \<Rightarrow> b) in
     take (gv_path_max env - 1)
       (if target = gv_local_cpu env then c_bytes ''unix:'' @ sock @ c_bytes ''?listen=0''
        else c_bytes ''rpmsg:'' @ sock @ c_bytes '':'' @ target @ c_bytes ''?listen=0''))"

definition close_pending :: "bytes option \<Rightarrow> bool option" where
  \<comment> \<open>whether the argument of \<open>"close"\<close> asks to wait; a text that is no number leaves \<open>pending\<close> uninitialised\<close>
  "close_pending arg = (case arg of
     None \<Rightarrow> Some False
   | Some b \<Rightarrow> (case sscanf_values [Scan_d] (b_str b) of
       Some [Int_value v] \<Rightarrow> Some (v \<noteq> 0)
     | _ \<Rightarrow> None))"

definition media_common_handler :: "'x graph_env \<Rightarrow> nat option \<Rightarrow> bytes option \<Rightarrow> bytes option \<Rightarrow> bytes option
    \<Rightarrow> bytes option \<Rightarrow> 32 word \<Rightarrow> bool \<Rightarrow> 'x graph_call" where
  "media_common_handler env cookie target cmd arg res len player s g =
    (let a = media_server_get_data s cookie in
     case cmd of
       None \<Rightarrow> None
     | Some cmd \<Rightarrow>
       if cmd = c_bytes ''open'' then do {
         (ret, a1, s1, g1) \<leftarrow> media_common_open env arg cookie player s g;
         Some (if ret < 0 then (ret, res, s1, g1) else (0, res, media_server_set_data cookie a1 s1, g1))
       }
       else if a = 0 then Some (-EINVAL, res, s, g)
       else do {
         ctx \<leftarrow> graph_heap g a;
         (if cmd = c_bytes ''set_event''
          then Some (0, res, s, g\<lparr>graph_heap := (graph_heap g)(a \<mapsto> ctx\<lparr>ctx_event := True\<rparr>)\<rparr>)
          else do {
            (bad, filter, arg1, s1, g1) \<leftarrow>
              (if cmd = c_bytes ''prepare'' \<and> target \<noteq> None
               then Some (False, None, Some (buffer_url env (the target) arg), s, g)
               else if cmd = c_bytes ''close'' then do {
                 wait \<leftarrow> close_pending arg;
                 Some (if wait then (False, None, arg, s, g)
                   else (False, None, arg, fst (media_stub_notify_finalize s (Some (ctx_cookie ctx))),
                     g\<lparr>graph_heap := (graph_heap g)(a \<mapsto> ctx\<lparr>ctx_cookie := None\<rparr>)\<rparr>))
               }
               else (case target of
                   None \<Rightarrow> Some (False, None, arg, s, g)
                 | Some t \<Rightarrow> do {
                     i \<leftarrow> ctx_filter ctx;
                     (case gv_find_on_link env i t player (av g) of
                         None \<Rightarrow> Some (True, None, arg, s, g)
                       | Some k \<Rightarrow> Some (False, Some k, arg, s, g))
                   }));
            (if bad then Some (-EINVAL, res, s1, g1)
             else do {
               i \<leftarrow> (case filter of Some k \<Rightarrow> Some k | None \<Rightarrow> ctx_filter ctx);
               media_graph_queue_command env i cmd arg1 res len AV_OPT_SEARCH_CHILDREN s1 g1
             })
          })
       })"

definition media_player_handler :: "'x graph_env \<Rightarrow> nat option \<Rightarrow> bytes option \<Rightarrow> bytes option \<Rightarrow> bytes option
    \<Rightarrow> bytes option \<Rightarrow> 32 word \<Rightarrow> 'x graph_call" where
  "media_player_handler env cookie target cmd arg res len = media_common_handler env cookie target cmd arg res len True"

definition media_recorder_handler :: "'x graph_env \<Rightarrow> nat option \<Rightarrow> bytes option \<Rightarrow> bytes option \<Rightarrow> bytes option
    \<Rightarrow> bytes option \<Rightarrow> 32 word \<Rightarrow> 'x graph_call" where
  "media_recorder_handler env cookie target cmd arg res len = media_common_handler env cookie target cmd arg res len False"

section \<open>Commands to the graph\<close>

definition targets :: "bytes \<Rightarrow> bytes \<Rightarrow> bool" where
  \<comment> \<open>the filter's name, or the start of what follows its first \<open>@\<close>\<close>
  "targets target name \<longleftrightarrow> target = name
     \<or> (at_sign \<in> set name \<and> take (length target) (tl (dropWhile (\<lambda>c. c \<noteq> at_sign) name)) = target)"

primrec graph_handler_loop :: "'x graph_env \<Rightarrow> bytes \<Rightarrow> bytes \<Rightarrow> bytes option \<Rightarrow> bytes option \<Rightarrow> 32 word \<Rightarrow> nat list
    \<Rightarrow> 'x graph_call" where
  "graph_handler_loop env target cmd arg res len [] s g = Some (0, res, s, g)"
| "graph_handler_loop env target cmd arg res len (i # is) s g = do {
     f \<leftarrow> filter_at g i;
     (ret, res1, s1, g1) \<leftarrow> (if targets target (filter_name f)
        then media_graph_queue_command env i cmd arg res len 0 s g else Some (0, res, s, g));
     (if ret < 0 then Some (ret, res1, s1, g1) else graph_handler_loop env target cmd arg res1 len is s1 g1)
   }"

definition media_graph_handler :: "'x graph_env \<Rightarrow> bytes option \<Rightarrow> bytes option \<Rightarrow> bytes option \<Rightarrow> bytes option
    \<Rightarrow> 32 word \<Rightarrow> 'x graph_call" where
  \<comment> \<open>the text of \<open>"dump"\<close> only goes to the log\<close>
  "media_graph_handler env target cmd arg res len s g = (case cmd of
     None \<Rightarrow> None
   | Some cmd \<Rightarrow>
     if target = None \<and> cmd = c_bytes ''dump'' then Some (0, res, s, g)
     else if cmd = c_bytes ''loglevel'' then (case arg of
         None \<Rightarrow> Some (-EINVAL, res, s, g)
       | Some b \<Rightarrow> Some (0, res, s, g\<lparr>av := gv_set_loglevel env b (av g)\<rparr>))
     else (case target of
         None \<Rightarrow> Some (-EINVAL, res, s, g)
       | Some t \<Rightarrow> graph_handler_loop env t cmd arg res len [0..<length (graph_filters g)] s g))"

section \<open>Polling\<close>

definition media_graph_filter_ready :: "int \<Rightarrow> 'x media_graph_priv \<Rightarrow> 'x media_graph_priv" where
  \<comment> \<open>a filter made ready by another thread adds one to the event counter\<close>
  "media_graph_filter_ready tid g = (if graph_tid g \<noteq> tid then g\<lparr>graph_count := graph_count g + 1\<rparr> else g)"

fun take_pollfds :: "int \<Rightarrow> nat \<Rightarrow> nat \<Rightarrow> int list \<Rightarrow> (int \<times> nat option) list \<Rightarrow> (bool \<times> (int \<times> nat option) list) option" where
  \<comment> \<open>\<open>while (ret--)\<close>; \<open>None\<close> is a write past the arrays or an entry the filter did not fill\<close>
  "take_pollfds count i 0 ws acc = Some (True, acc)"
| "take_pollfds count i (Suc r) [] acc = None"
| "take_pollfds count i (Suc r) (w # ws) acc =
     (if int (length acc) < count
      then (let acc1 = acc @ [(w, Some i)] in
            if int (length acc1) > count then Some (False, acc1) else take_pollfds count i r ws acc1)
      else None)"

fun filter_pollfds :: "'x graph_env \<Rightarrow> int \<Rightarrow> nat list \<Rightarrow> (int \<times> nat option) list \<Rightarrow> 'x
    \<Rightarrow> (int \<times> (int \<times> nat option) list \<times> 'x) option" where
  "filter_pollfds env count [] acc x = Some (int (length acc), acc, x)"
| "filter_pollfds env count (i # is) acc x = (case gv_get_pollfd env i (count - int (length acc)) x of (ret, ws, x1) \<Rightarrow>
     if int (length ws) > count - int (length acc) then None
     else if ret < 0 then filter_pollfds env count is acc x1
     else do {
       (go, acc1) \<leftarrow> take_pollfds count i (nat ret) ws acc;
       (if go then filter_pollfds env count is acc1 x1 else Some (-EINVAL, acc1, x1))
     })"

definition media_graph_get_pollfds :: "'x graph_env \<Rightarrow> bool \<Rightarrow> int \<Rightarrow> 'x media_graph_priv
    \<Rightarrow> (int \<times> (int \<times> nat option) list \<times> 'x media_graph_priv) option" where
  \<comment> \<open>\<open>fds\<close> says whether there is an array; it and the array of cookies have \<open>count\<close> elements\<close>
  "media_graph_get_pollfds env fds count g =
    (if \<not> fds \<or> count < 2 then Some (-EINVAL, [], g)
     else do {
       (ret, acc, x) \<leftarrow> filter_pollfds env count (pollfts g) [(graph_fd g, None)] (av g);
       Some (ret, acc, g\<lparr>av := x\<rparr>)
     })"

definition media_graph_poll_available :: "'x graph_env \<Rightarrow> int option \<Rightarrow> nat option \<Rightarrow> media_server_priv \<Rightarrow> 'x media_graph_priv
    \<Rightarrow> (int \<times> media_server_priv \<times> 'x media_graph_priv) option" where
  \<comment> \<open>reading the event counter when it is zero does not return\<close>
  "media_graph_poll_available env fd cookie s g = (case fd of
     None \<Rightarrow> Some (-EINVAL, s, g)
   | Some d \<Rightarrow> (case cookie of
       Some i \<Rightarrow> (case gv_poll_available env i d (av g) of (evs, x) \<Rightarrow> do {
         (s1, g1) \<leftarrow> deliver_events env evs s (g\<lparr>av := x\<rparr>);
         Some (0, s1, g1)
       })
     | None \<Rightarrow> if graph_count g = 0 then None else Some (0, s, g\<lparr>graph_count := 0\<rparr>)))"

section \<open>Life cycle\<close>

definition MAX_GRAPH_SIZE :: nat where "MAX_GRAPH_SIZE = 4096"
definition MAX_POLL_FILTERS :: nat where "MAX_POLL_FILTERS = 16"

text \<open>What loading takes from outside: an error of \<open>open\<close>, an error of \<open>read\<close> or the file, and avfilter.\<close>

record graph_loader =
  ld_open :: "int option"
  ld_read :: "int + bytes"
  ld_alloc :: bool
  ld_parse :: "bytes \<Rightarrow> int"
  ld_config :: "bytes \<Rightarrow> int \<times> graph_filter list"

fun poll_filters :: "nat \<Rightarrow> graph_filter list \<Rightarrow> nat list \<Rightarrow> (bool \<times> nat list) option" where
  \<comment> \<open>the loop that fills \<open>pollfts\<close>; \<open>None\<close> is a write past its end\<close>
  "poll_filters i [] acc = Some (True, acc)"
| "poll_filters i (f # fs) acc =
     (if filter_poll f then
        (if length acc < MAX_POLL_FILTERS
         then (let acc1 = acc @ [i] in
               if length acc1 > MAX_POLL_FILTERS then Some (False, acc1) else poll_filters (Suc i) fs acc1)
         else None)
      else poll_filters (Suc i) fs acc)"

definition media_graph_load :: "graph_loader \<Rightarrow> (int \<times> (graph_filter list \<times> nat list) option) option" where
  \<comment> \<open>the result and, when it has been built and not freed, the graph with \<open>pollfts\<close>\<close>
  "media_graph_load ld = (case ld_open ld of
     Some e \<Rightarrow> Some (-e, None)
   | None \<Rightarrow> (case ld_read ld of
       Inl e \<Rightarrow> Some (-e, None)
     | Inr file \<Rightarrow>
         let buf = take MAX_GRAPH_SIZE file in
         if length buf = MAX_GRAPH_SIZE then Some (-EFBIG, None)
         else let desc = takeWhile (\<lambda>c. c \<noteq> 0) buf in
         if \<not> ld_alloc ld then Some (-ENOMEM, None)
         else if ld_parse ld desc < 0 then Some (ld_parse ld desc, None)
         else (case ld_config ld desc of (ret, fs) \<Rightarrow>
           if ret < 0 then Some (ret, None)
           else do {
             (ok, polls) \<leftarrow> poll_filters 0 fs [];
             Some (if ok then (0, Some (fs, polls)) else (ret, None))
           })))"

definition media_graph_create :: "bool \<Rightarrow> int \<Rightarrow> int \<Rightarrow> graph_loader \<Rightarrow> int \<Rightarrow> 'x
    \<Rightarrow> ('x media_graph_priv option \<times> int list) option" where
  \<comment> \<open>whether there is memory, the results of \<open>eventfd\<close> and \<open>fs_getfilep\<close>, the loader, the thread; the second
    result is the descriptors closed. A graph of NULL is a graph no operation can use.\<close>
  "media_graph_create mem efd filep ld tid x =
    (if \<not> mem then Some (None, [])
     else if efd < 0 then Some (None, [])
     else let fail = (None, if efd > 0 then [efd] else []) in
     if filep < 0 then Some fail
     else do {
       (ret, gr) \<leftarrow> media_graph_load ld;
       (if ret < 0 then Some fail
        else (case gr of
            None \<Rightarrow> None
          | Some (fs, polls) \<Rightarrow> Some (Some \<lparr>graph_filters = fs, graph_fd = efd, graph_count = 0, graph_tid = tid,
              pollfts = polls, cmdhead = 0, cmdtail = 0, cmd_store = Map.empty, graph_heap = Map.empty, av = x\<rparr>, [])))
     })"

definition media_graph_destroy :: "'x graph_env \<Rightarrow> media_server_priv \<Rightarrow> 'x media_graph_priv
    \<Rightarrow> (int \<times> 'x media_graph_priv) option" where
  \<comment> \<open>with what is left of the graph's own memory when it is freed\<close>
  "media_graph_destroy env s g = do { (_, _, g1) \<leftarrow> drain_commands env False s g; Some (0, g1) }"

end
