(* ===== verification/Graph_Facts.thy ===== *)
theory Graph_Facts
  imports Media_Graph "HOL-Library.Sublist"
begin

text \<open>
  What holds of the filter graph: the linked list of commands is a first-in first-out queue, events
  keep the binding of contexts to filters, commands are handed to avfilter in the order they were
  given, players get a filter of their own, and no request makes the handlers use a freed context.
\<close>

section \<open>The queue interface\<close>

locale fifo =
  fixes holds :: "'q \<Rightarrow> 'c list \<Rightarrow> bool" and admits :: "'q \<Rightarrow> 'b \<Rightarrow> bool" and view :: "'b \<Rightarrow> 'c"
    and put :: "'b \<Rightarrow> 'q \<Rightarrow> 'q option" and peek :: "'q \<Rightarrow> 'c option" and remove :: "'q \<Rightarrow> 'q option"
  assumes put_law: "holds q cs \<Longrightarrow> admits q b \<Longrightarrow> \<exists>q'. put b q = Some q' \<and> holds q' (cs @ [view b])"
    and peek_law: "holds q cs \<Longrightarrow> peek q = (case cs of [] \<Rightarrow> None | c # _ \<Rightarrow> Some c)"
    and remove_law: "holds q (c # cs) \<Longrightarrow> \<exists>q'. remove q = Some q' \<and> holds q' cs"
begin

lemma put_then_peek:
  assumes "holds q cs" "admits q b"
  shows "\<exists>q'. put b q = Some q' \<and> peek q' = Some (case cs of [] \<Rightarrow> view b | d # _ \<Rightarrow> d)"
  using put_law[OF assms] peek_law by (fastforce split: list.splits)

lemma remove_all:
  "holds q cs \<Longrightarrow> \<exists>q'. ((\<lambda>r. Option.bind r remove) ^^ length cs) (Some q) = Some q' \<and> holds q' []"
proof (induction cs arbitrary: q)
  case (Cons c cs)
  from remove_law[OF Cons.prems] obtain q1 where "remove q = Some q1" "holds q1 cs" by blast
  with Cons.IH[of q1] show ?case by (auto simp: funpow_Suc_right simp del: funpow.simps)
qed auto

end

section \<open>The linked list of commands\<close>

type_synonym command_view = "nat \<times> bytes \<times> av_arg \<times> int"

definition cmd_view :: "media_command \<Rightarrow> command_view" where
  "cmd_view c = (cmd_filter c, cmd_name c, Av_text (cmd_arg c), cmd_flags c)"

primrec cmd_path :: "(int \<rightharpoonup> media_command) \<Rightarrow> int \<Rightarrow> int list \<Rightarrow> bool" where
  "cmd_path st p [] \<longleftrightarrow> p = 0"
| "cmd_path st p (a # as) \<longleftrightarrow> p = a \<and> a \<noteq> 0 \<and> (\<exists>c. st a = Some c \<and> cmd_path st (cmd_next c) as)"

definition queue_holds :: "'x media_graph_priv \<Rightarrow> command_view list \<Rightarrow> bool" where
  "queue_holds g cs \<longleftrightarrow> (\<exists>as. cmd_path (cmd_store g) (cmdhead g) as \<and> distinct as \<and> dom (cmd_store g) = set as
     \<and> cmdtail g = (if as = [] then 0 else last as) \<and> map (\<lambda>a. cmd_view (the (cmd_store g a))) as = cs)"

lemma path_other: "a \<notin> set as \<Longrightarrow> cmd_path (st(a := v)) p as \<longleftrightarrow> cmd_path st p as"
  by (induction as arbitrary: p) auto

lemma path_snoc:
  assumes "cmd_path st p as" "as \<noteq> []" "distinct as" "a \<notin> set as" "a \<noteq> 0" "cmd_next c = 0" "st (last as) = Some t"
  shows "cmd_path (st(a \<mapsto> c, last as \<mapsto> t\<lparr>cmd_next := a\<rparr>)) p (as @ [a])"
  using assms
proof (induction as arbitrary: p)
  case (Cons b bs)
  show ?case
  proof (cases "bs = []")
    case True
    with Cons.prems show ?thesis by auto
  next
    case False
    obtain d where d: "st b = Some d" "cmd_path st (cmd_next d) bs" "p = b" "b \<noteq> 0" using Cons.prems(1) by auto
    have "last bs \<noteq> b" "b \<noteq> a" using Cons.prems(3,4) False by auto
    with Cons.IH[OF d(2) False] Cons.prems False d show ?thesis by simp
  qed
qed simp

lemma link_law:
  assumes "queue_holds g cs" "a \<noteq> 0" "cmd_store g a = None" "cmd_next c = 0"
  shows "\<exists>g'. link_command a c g = Some g' \<and> queue_holds g' (cs @ [cmd_view c])"
proof -
  obtain as where p: "cmd_path (cmd_store g) (cmdhead g) as" "distinct as" "dom (cmd_store g) = set as"
    "cmdtail g = (if as = [] then 0 else last as)" "map (\<lambda>a. cmd_view (the (cmd_store g a))) as = cs"
    using assms(1) by (auto simp: queue_holds_def)
  have a: "a \<notin> set as" using p(3) assms(3) by auto
  show ?thesis
  proof (cases "as = []")
    case True
    then have "cmdhead g = 0" using p(1) by simp
    with True p assms show ?thesis
      by (auto simp: link_command_def queue_holds_def Let_def intro!: exI[of _ "[a]"])
  next
    case False
    then have h: "cmdhead g \<noteq> 0" using p(1) by (cases as) auto
    have la: "last as \<in> set as" "last as \<noteq> a" using False a by auto
    then obtain t where t: "cmd_store g (last as) = Some t" using p(3) by blast
    have m: "map (\<lambda>b. cmd_view (the (((cmd_store g)(a \<mapsto> c, last as \<mapsto> t\<lparr>cmd_next := a\<rparr>)) b))) as = cs"
      unfolding p(5)[symmetric] using a t la by (auto simp: cmd_view_def)
    show ?thesis using h False p(4) t la path_snoc[OF p(1) False p(2) a assms(2,4) t] m a p(2,3)
      by (auto simp: link_command_def queue_holds_def Let_def intro!: exI[of _ "as @ [a]"])
  qed
qed

lemma head_law:
  assumes "queue_holds g cs"
  shows "(if cmdhead g = 0 then None else map_option cmd_view (cmd_store g (cmdhead g))) = (case cs of [] \<Rightarrow> None | c # _ \<Rightarrow> Some c)"
proof -
  obtain as where "cmd_path (cmd_store g) (cmdhead g) as" "map (\<lambda>a. cmd_view (the (cmd_store g a))) as = cs"
    using assms by (auto simp: queue_holds_def)
  then show ?thesis by (cases as) auto
qed

lemma unlink_law:
  assumes "queue_holds g (v # cs)"
  shows "\<exists>g'. unlink_command (cmdhead g) g = Some g' \<and> queue_holds g' cs"
proof -
  obtain bs where p: "cmd_path (cmd_store g) (cmdhead g) bs" "distinct bs" "dom (cmd_store g) = set bs"
    "cmdtail g = (if bs = [] then 0 else last bs)" "map (\<lambda>a. cmd_view (the (cmd_store g a))) bs = v # cs"
    using assms unfolding queue_holds_def by (elim exE conjE) (rule that)
  then obtain a as where b: "bs = a # as" by (cases bs) auto
  obtain c where c: "cmd_store g a = Some c" "cmd_path (cmd_store g) (cmd_next c) as" "cmdhead g = a" using p(1) b by auto
  let ?st = "(cmd_store g)(a := None)"
  have a: "a \<notin> set as" using p(2) b by simp
  have z: "as = [] \<longleftrightarrow> cmd_next c = 0" using c(2) by (cases as) auto
  have "map (\<lambda>b. cmd_view (the (cmd_store g b))) as = cs" using p(5) b by simp
  moreover have "map (\<lambda>b. cmd_view (the (?st b))) as = map (\<lambda>b. cmd_view (the (cmd_store g b))) as"
    using a by (intro map_cong) auto
  ultimately have m: "map (\<lambda>b. cmd_view (the (?st b))) as = cs" by simp
  have d: "dom ?st = set as" using p(3) a b by auto
  have q: "cmd_path ?st (cmd_next c) as" using path_other[OF a] c(2) by simp
  have l: "(if cmd_next c = 0 then 0 else cmdtail g) = (if as = [] then 0 else last as)" using z p(4) b by simp
  let ?g = "g\<lparr>cmdhead := cmd_next c, cmdtail := if cmd_next c = 0 then 0 else cmdtail g, cmd_store := ?st\<rparr>"
  have "unlink_command (cmdhead g) g = Some ?g" using c by (simp add: unlink_command_def)
  moreover have "queue_holds ?g cs"
    unfolding queue_holds_def by (rule exI[of _ as]) (use m d q l p(2) b in simp)
  ultimately show ?thesis by blast
qed

interpretation cmd_queue: fifo queue_holds
  "\<lambda>g (a, c). a \<noteq> 0 \<and> cmd_store g a = None \<and> cmd_next c = 0" "\<lambda>(a, c). cmd_view c"
  "\<lambda>(a, c). link_command a c"
  "\<lambda>g. if cmdhead g = 0 then None else map_option cmd_view (cmd_store g (cmdhead g))"
  "\<lambda>g. unlink_command (cmdhead g) g"
proof unfold_locales
  show "\<exists>g'. (case b of (a, c) \<Rightarrow> link_command a c) g = Some g' \<and> queue_holds g' (cs @ [case b of (a, c) \<Rightarrow> cmd_view c])"
    if "queue_holds g cs" "case b of (a, c) \<Rightarrow> a \<noteq> 0 \<and> cmd_store g a = None \<and> cmd_next c = 0"
    for g :: "'a media_graph_priv" and cs b
    using link_law[of g cs "fst b" "snd b"] that by (auto split: prod.splits)
qed (rule head_law unlink_law; assumption)+

section \<open>What avfilter and the policy promise\<close>

text \<open>
  Views of avfilter's state: the contexts registered for events, the commands it was given, and
  whether no filter is changing state. An event is for a registered context; one that reports the
  filter closed is the last for it.
\<close>

record 'x av_view =
  av_live :: "'x \<Rightarrow> int set"
  av_log :: "'x \<Rightarrow> command_view list"
  av_idle :: "'x \<Rightarrow> bool"

fun reported :: "'x graph_env \<Rightarrow> int set \<Rightarrow> av_event list \<Rightarrow> int set option" where
  \<comment> \<open>the contexts still registered after the events, \<open>None\<close> when one is for none\<close>
  "reported env L [] = Some L"
| "reported env L ((a, e, r, x) # es) =
     (if a \<in> L \<and> event_ok (e, r, x) then reported env (if e = gv_closed env then L - {a} else L) es else None)"

definition av_promise :: "'x graph_env \<Rightarrow> 'x av_view \<Rightarrow> bool" where
  "av_promise env V \<longleftrightarrow>
    (\<forall>i c arg res len fl x ret r evs x'. gv_process env i c arg res len fl x = (ret, r, evs, x') \<longrightarrow>
       reported env (av_live V x) evs \<noteq> None
       \<and> av_live V x' = the (reported env (av_live V x) evs) \<union> (case arg of Av_event a \<Rightarrow> if 0 \<le> ret then {a} else {} | _ \<Rightarrow> {})
       \<and> response_ok res r \<and> av_log V x' = av_log V x @ [(i, c, arg, fl)])
  \<and> (\<forall>x ret evs x'. gv_run_all env x = (ret, evs, x') \<longrightarrow>
       reported env (av_live V x) evs = Some (av_live V x') \<and> av_log V x' = av_log V x)"

text \<open>The policy answers calls of the graph, posts events, and changes nothing of the graph.\<close>

definition policy_promise :: "'x graph_env \<Rightarrow> 'x av_view \<Rightarrow> bool" where
  "policy_promise env V \<longleftrightarrow> (\<forall>f t c a n b l s g. policy_handler (gv_modules env) = Some f \<longrightarrow> sends s = [] \<longrightarrow>
     (\<exists>r b' s' x. f None t c a n b l s g = Some (r, b', s', g\<lparr>av := x\<rparr>) \<and> same_requests s s'
       \<and> (\<forall>i. data (conn s' i) = data (conn s i))
       \<and> (r = 0 \<longrightarrow> b \<noteq> None \<longrightarrow> (\<exists>d. b' = Some d \<and> 0 \<in> set d))
       \<and> av_live V x = av_live V (av g) \<and> av_log V x = av_log V (av g) \<and> (av_idle V (av g) \<longrightarrow> av_idle V x)))"

definition graph_env_ok :: "'x graph_env \<Rightarrow> 'x av_view \<Rightarrow> bool" where
  "graph_env_ok env V \<longleftrightarrow> av_promise env V \<and> policy_promise env V \<and> alloc_total (gv_alloc env)
     \<and> (\<forall>h a. gv_zalloc env h = Some a \<longrightarrow> a \<noteq> 0 \<and> h a = None)
     \<and> (\<forall>st a. gv_malloc env st = Some a \<longrightarrow> a \<noteq> 0 \<and> st a = None)
     \<and> (\<forall>b c. gv_strdup env b = Some c \<longrightarrow> c = b)
     \<and> gv_closed env \<notin> {gv_started env, gv_paused env, gv_stopped env, gv_completed env}"

section \<open>Contexts and filters\<close>

definition queue_part :: "'x media_graph_priv \<Rightarrow> int \<times> int \<times> (int \<rightharpoonup> media_command)" where
  "queue_part g = (cmdhead g, cmdtail g, cmd_store g)"

definition bound :: "'x media_graph_priv \<Rightarrow> int set \<Rightarrow> bool" where
  \<comment> \<open>the contexts \<open>L\<close> and the filters in use are one to one\<close>
  "bound g L \<longleftrightarrow> 0 \<notin> L
     \<and> (\<forall>f\<in>set (graph_filters g). at_sign \<in> set (filter_name f))
     \<and> (\<forall>i<length (graph_filters g). let a = filter_opaque (graph_filters g ! i) in
          a \<noteq> 0 \<longrightarrow> a \<in> L \<and> (\<exists>c. graph_heap g a = Some c \<and> ctx_filter c = Some i))
     \<and> (\<forall>a\<in>L. \<exists>c i. graph_heap g a = Some c \<and> ctx_filter c = Some i \<and> i < length (graph_filters g)
          \<and> filter_opaque (graph_filters g ! i) = a)"

definition release_filters :: "int set \<Rightarrow> graph_filter list \<Rightarrow> graph_filter list" where
  "release_filters D fs = map (\<lambda>f. if filter_opaque f \<in> D then f\<lparr>filter_opaque := 0\<rparr> else f) fs"

definition event_frame :: "'x av_view \<Rightarrow> int set \<Rightarrow> int set \<Rightarrow> 'x media_graph_priv \<Rightarrow> 'x media_graph_priv \<Rightarrow> bool" where
  \<comment> \<open>what events that closed \<open>L - L1\<close> leave\<close>
  "event_frame V L L1 g g1 \<longleftrightarrow> L1 \<subseteq> L \<and> graph_filters g1 = release_filters (L - L1) (graph_filters g)
     \<and> graph_heap g1 = graph_heap g |` (- (L - L1)) \<and> queue_part g1 = queue_part g
     \<and> av_live V (av g1) = av_live V (av g) \<and> av_log V (av g1) = av_log V (av g) \<and> (av_idle V (av g) \<longrightarrow> av_idle V (av g1))"

lemma release_trans: "0 \<notin> E \<Longrightarrow> release_filters E (release_filters D fs) = release_filters (D \<union> E) fs"
  by (simp add: release_filters_def comp_def)

lemma release_none [simp]: "release_filters {} fs = fs"
  by (simp add: release_filters_def)

lemma release_nth: "i < length fs \<Longrightarrow> release_filters D fs ! i
    = (if filter_opaque (fs ! i) \<in> D then (fs ! i)\<lparr>filter_opaque := 0\<rparr> else fs ! i)"
  by (simp add: release_filters_def)

lemma length_release [simp]: "length (release_filters D fs) = length fs"
  by (simp add: release_filters_def)

lemma restrict_UNIV [simp]: "m |` UNIV = m"
  by (rule ext) (simp add: restrict_map_def)

lemma frame_refl: "event_frame V L L g (g\<lparr>av := x\<rparr>)
    \<longleftrightarrow> av_live V x = av_live V (av g) \<and> av_log V x = av_log V (av g) \<and> (av_idle V (av g) \<longrightarrow> av_idle V x)"
  by (simp add: event_frame_def queue_part_def)

lemma frame_trans:
  assumes "event_frame V L L1 g g1" "event_frame V L1 L2 g1 g2" "0 \<notin> L"
  shows "event_frame V L L2 g g2"
proof -
  have s: "(L - L1) \<union> (L1 - L2) = L - L2" "0 \<notin> L1 - L2" using assms by (auto simp: event_frame_def)
  have "(graph_heap g |` (- (L - L1))) |` (- (L1 - L2)) = graph_heap g |` (- (L - L2))"
    unfolding s(1)[symmetric] by (simp add: Int_commute)
  then show ?thesis using assms(1,2) release_trans[OF s(2)] s(1) by (auto simp: event_frame_def)
qed

lemma frame_bound:
  assumes "event_frame V L L1 g g1" "bound g L"
  shows "bound g1 L1"
proof -
  have f: "graph_filters g1 = release_filters (L - L1) (graph_filters g)" "L1 \<subseteq> L"
    "graph_heap g1 = graph_heap g |` (- (L - L1))" using assms(1) by (auto simp: event_frame_def)
  have n: "\<forall>f\<in>set (graph_filters g1). at_sign \<in> set (filter_name f)"
    using assms(2) f(1) by (auto simp: bound_def release_filters_def)
  show ?thesis
    using assms(2) n f by (fastforce simp: bound_def Let_def release_nth restrict_map_def)
qed

section \<open>Events are delivered\<close>

lemma status_ok:
  assumes "graph_env_ok env V" "sends s = []" "bound g L" "a \<in> L"
  shows "\<exists>s1 x. ctx_status env a b s g = Some (s1, g\<lparr>av := x\<rparr>) \<and> same_requests s s1 \<and> event_frame V L L g (g\<lparr>av := x\<rparr>)"
proof -
  obtain c i where c: "graph_heap g a = Some c" "ctx_filter c = Some i" "i < length (graph_filters g)"
    "at_sign \<in> set (filter_name (graph_filters g ! i))"
    using assms(3,4) unfolding bound_def by (metis nth_mem)
  let ?n = "tl (dropWhile (\<lambda>c. c \<noteq> at_sign) (filter_name (graph_filters g ! i)))"
  have p: "policy_promise env V" using assms(1) by (simp add: graph_env_ok_def)
  show ?thesis
  proof (cases "policy_handler (gv_modules env)")
    case None
    then have "ctx_status env a b s g = Some (s, g\<lparr>av := av g\<rparr>)"
      using c by (simp add: ctx_status_def filter_at_def media_stub_set_stream_status_def)
    then show ?thesis by (metis frame_refl same_requests_refl)
  next
    case (Some f)
    obtain r b' s' x where r: "f None (Some (c_bytes ''ActiveStreams'')) (Some (c_bytes (if b then ''include'' else ''exclude'')))
        (Some ?n) 1 None 0 s g = Some (r, b', s', g\<lparr>av := x\<rparr>)" "same_requests s s'"
      "av_live V x = av_live V (av g)" "av_log V x = av_log V (av g)" "av_idle V (av g) \<longrightarrow> av_idle V x"
      using p Some assms(2) unfolding policy_promise_def by blast
    have "ctx_status env a b s g = Some (s', g\<lparr>av := x\<rparr>)"
      using c Some r(1) by (simp add: ctx_status_def filter_at_def media_stub_set_stream_status_def Let_def)
    then show ?thesis using r(2-5) by (metis frame_refl)
  qed
qed

lemma notify_ok:
  assumes "graph_env_ok env V" "sends s = []" "bound g L" "a \<in> L" "event_ok (e, r, x)"
  shows "\<exists>s1. media_common_notify_cb env (a, e, r, x) s g = Some (s1, g) \<and> same_requests s s1"
proof -
  obtain c where c: "graph_heap g a = Some c" using assms(3,4) by (auto simp: bound_def)
  have al: "alloc_total (gv_alloc env)" using assms(1) by (simp add: graph_env_ok_def)
  show ?thesis
    using c notify_event_posts[OF al assms(5,2), of "gv_narrow env" "ctx_cookie c"]
    by (simp add: media_common_notify_cb_def same_requests_send)
qed

lemma event_cb_ok:
  assumes env: "graph_env_ok env V" and s: "sends s = []" and g: "bound g L" "a \<in> L" and e: "event_ok (e, r, x)"
  shows "\<exists>s1 g1. media_common_event_cb env (a, e, r, x) s g = Some (s1, g1) \<and> same_requests s s1
    \<and> event_frame V L (if e = gv_closed env then L - {a} else L) g g1"
proof (cases "e = gv_closed env")
  case False
  have one: "\<exists>s1 g1. (\<lambda>f. Option.bind f (\<lambda>(s1, g1). media_common_notify_cb env (a, e, r, x) s1 g1)) st = Some (s1, g1)
      \<and> same_requests s s1 \<and> event_frame V L L g g1"
    if st: "st = Some (s', g\<lparr>av := y\<rparr>)" "same_requests s s'" "event_frame V L L g (g\<lparr>av := y\<rparr>)" for st s' y
  proof -
    have "bound (g\<lparr>av := y\<rparr>) L" "sends s' = []" using frame_bound[OF st(3) g(1)] st(2) s by (auto simp: same_requests_def)
    from notify_ok[OF env this(2,1) g(2) e] st same_requests_trans[OF st(2)] show ?thesis by fastforce
  qed
  have stat: "\<exists>s1 g1. (\<lambda>f. Option.bind f (\<lambda>(s1, g1). media_common_notify_cb env (a, e, r, x) s1 g1)) (ctx_status env a b s g)
      = Some (s1, g1) \<and> same_requests s s1 \<and> event_frame V L L g g1" for b
    using status_ok[OF env s g, of b] one by blast
  have skip: "\<exists>s1 g1. (\<lambda>f. Option.bind f (\<lambda>(s1, g1). media_common_notify_cb env (a, e, r, x) s1 g1)) (Some (s, g))
      = Some (s1, g1) \<and> same_requests s s1 \<and> event_frame V L L g g1"
    using one[of "Some (s, g)" s "av g"] by (simp add: event_frame_def)
  show ?thesis using False stat skip by (auto simp: media_common_event_cb_def)
next
  case True
  have ne: "gv_closed env \<notin> {gv_started env, gv_paused env, gv_stopped env, gv_completed env}"
    using env by (simp add: graph_env_ok_def)
  obtain s1 y where y: "ctx_status env a False s g = Some (s1, g\<lparr>av := y\<rparr>)" "same_requests s s1"
    "event_frame V L L g (g\<lparr>av := y\<rparr>)" using status_ok[OF env s g] by blast
  obtain c i where c: "graph_heap g a = Some c" "ctx_filter c = Some i" "i < length (graph_filters g)"
    "filter_opaque (graph_filters g ! i) = a" using g by (auto simp: bound_def)
  let ?g = "g\<lparr>av := y, graph_filters := (graph_filters g)[i := (graph_filters g ! i)\<lparr>filter_opaque := 0\<rparr>],
    graph_heap := (graph_heap g)(a := None)\<rparr>"
  have a0: "a \<noteq> 0" using g by (auto simp: bound_def)
  have only: "k = i" if "k < length (graph_filters g)" "filter_opaque (graph_filters g ! k) = a" for k
  proof -
    have "\<forall>i<length (graph_filters g). let a = filter_opaque (graph_filters g ! i) in
        a \<noteq> 0 \<longrightarrow> a \<in> L \<and> (\<exists>c. graph_heap g a = Some c \<and> ctx_filter c = Some i)" using g(1) by (simp add: bound_def)
    with that a0 have "\<exists>c. graph_heap g a = Some c \<and> ctx_filter c = Some k" by (auto simp: Let_def)
    then show ?thesis using c(1,2) by simp
  qed
  have "(graph_filters g)[i := (graph_filters g ! i)\<lparr>filter_opaque := 0\<rparr>] = release_filters {a} (graph_filters g)"
  proof (rule nth_equalityI)
    fix k assume "k < length ((graph_filters g)[i := (graph_filters g ! i)\<lparr>filter_opaque := 0\<rparr>])"
    then have k: "k < length (graph_filters g)" by simp
    have "filter_opaque (graph_filters g ! k) = a \<longleftrightarrow> k = i" using only[OF k] c(4) by blast
    then show "(graph_filters g)[i := (graph_filters g ! i)\<lparr>filter_opaque := 0\<rparr>] ! k = release_filters {a} (graph_filters g) ! k"
      using k by (simp add: release_nth nth_list_update)
  qed simp
  moreover have "L - (L - {a}) = {a}" using g(2) by auto
  moreover have "(graph_heap g)(a := None) = graph_heap g |` (- {a})" by (auto simp: restrict_map_def)
  ultimately have "event_frame V L (L - {a}) g ?g" using y(3) by (auto simp: event_frame_def queue_part_def)
  moreover have "media_common_event_cb env (a, e, r, x) s g = Some (media_server_finalize s1 (ctx_cookie c), ?g)"
    using True ne y(1) c by (simp add: media_common_event_cb_def media_stub_notify_finalize_def set_opaque_def filter_at_def)
  ultimately show ?thesis using True same_requests_trans[OF y(2) finalize_same(1)] by auto
qed

lemma deliver_ok:
  "graph_env_ok env V \<Longrightarrow> sends s = [] \<Longrightarrow> bound g L \<Longrightarrow> reported env L evs = Some L1 \<Longrightarrow>
   \<exists>s1 g1. deliver_events env evs s g = Some (s1, g1) \<and> same_requests s s1 \<and> event_frame V L L1 g g1"
proof (induction env L evs arbitrary: s g rule: reported.induct)
  case (1 env L)
  then show ?case by (auto simp: event_frame_def)
next
  case (2 env L a e r x es)
  from 2(5) have r: "a \<in> L" "event_ok (e, r, x)" "reported env (if e = gv_closed env then L - {a} else L) es = Some L1"
    by (auto split: if_split_asm)
  from event_cb_ok[OF 2(2-4) r(1,2)] obtain s1 g1 where s1: "media_common_event_cb env (a, e, r, x) s g = Some (s1, g1)"
    "same_requests s s1" "event_frame V L (if e = gv_closed env then L - {a} else L) g g1" by blast
  have sd: "sends s1 = []" using s1(2) 2(3) by (simp add: same_requests_def)
  have L: "0 \<notin> L" using 2(4) by (simp add: bound_def)
  from 2(1)[OF conjI[OF r(1,2)] 2(2) sd frame_bound[OF s1(3) 2(4)] r(3)] obtain s2 g2 where
    "deliver_events env es s1 g1 = Some (s2, g2)" "same_requests s1 s2"
    "event_frame V (if e = gv_closed env then L - {a} else L) L1 g1 g2" by blast
  then show ?case using s1 same_requests_trans[OF s1(2)] frame_trans[OF s1(3) _ L] by fastforce
qed

section \<open>Commands keep the graph\<close>

definition graph_inv :: "'x av_view \<Rightarrow> 'x media_graph_priv \<Rightarrow> bool" where
  \<comment> \<open>between two calls: every context is registered and bound to a filter of its own\<close>
  "graph_inv V g \<longleftrightarrow> bound g (av_live V (av g)) \<and> dom (graph_heap g) = av_live V (av g)"

definition names :: "'x media_graph_priv \<Rightarrow> (bytes \<times> bytes) list" where
  "names g = map (\<lambda>f. (filter_name f, filter_kind f)) (graph_filters g)"

lemma queue_holds_part: "queue_part g = queue_part h \<Longrightarrow> queue_holds g cs \<longleftrightarrow> queue_holds h cs"
  by (simp add: queue_holds_def queue_part_def)

lemma bound_av [simp]: "bound (g\<lparr>av := x\<rparr>) L \<longleftrightarrow> bound g L"
  by (simp add: bound_def)

lemma queue_part_av [simp]: "queue_part (g\<lparr>av := x\<rparr>) = queue_part g"
  by (simp add: queue_part_def)

lemma frame_names: "event_frame V L L1 g g1 \<Longrightarrow> names g1 = names g"
  by (auto simp: event_frame_def names_def release_filters_def)

text \<open>A call of avfilter, in general and for a text command between two calls.\<close>

lemma process_ok:
  assumes env: "graph_env_ok env V" and s: "sends s = []" and g: "bound g (av_live V (av g))"
    and p: "gv_process env i cmd arg res len fl (av g) = (ret, r, evs, x)"
  shows "\<exists>s1 g1 L1. avfilter_process_command env i cmd arg res len fl s g = Some (ret, r, s1, g1) \<and> same_requests s s1
    \<and> event_frame V (av_live V (av g)) L1 (g\<lparr>av := x\<rparr>) g1 \<and> response_ok res r
    \<and> av_log V (av g1) = av_log V (av g) @ [(i, cmd, arg, fl)]
    \<and> av_live V (av g1) = L1 \<union> (case arg of Av_event a \<Rightarrow> if 0 \<le> ret then {a} else {} | _ \<Rightarrow> {})"
proof -
  have a: "av_promise env V" using env by (simp add: graph_env_ok_def)
  then obtain L1 where L1: "reported env (av_live V (av g)) evs = Some L1" "response_ok res r"
    "av_live V x = L1 \<union> (case arg of Av_event a \<Rightarrow> if 0 \<le> ret then {a} else {} | _ \<Rightarrow> {})"
    "av_log V x = av_log V (av g) @ [(i, cmd, arg, fl)]"
    using p unfolding av_promise_def by (metis option.exhaust_sel)
  have "bound (g\<lparr>av := x\<rparr>) (av_live V (av g))" using g by simp
  from deliver_ok[OF env s this L1(1)] obtain s1 g1 where d: "deliver_events env evs s (g\<lparr>av := x\<rparr>) = Some (s1, g1)"
    "same_requests s s1" "event_frame V (av_live V (av g)) L1 (g\<lparr>av := x\<rparr>) g1" by blast
  moreover have "av_live V (av g1) = av_live V x" "av_log V (av g1) = av_log V x" using d(3) by (auto simp: event_frame_def)
  ultimately show ?thesis using p L1 by (auto simp: avfilter_process_command_def)
qed

lemma frame_inv:
  assumes "event_frame V (av_live V (av g)) L1 (g\<lparr>av := x\<rparr>) g1" "graph_inv V g" "av_live V (av g1) = L1"
  shows "graph_inv V g1" "queue_part g1 = queue_part g" "names g1 = names g"
proof -
  have b: "bound g1 L1" using frame_bound[OF assms(1)] assms(2) by (simp add: graph_inv_def)
  have "graph_heap g1 = graph_heap g |` (- (av_live V (av g) - L1))" "L1 \<subseteq> av_live V (av g)"
    using assms(1) by (auto simp: event_frame_def)
  then have "dom (graph_heap g1) = L1" using assms(2) by (auto simp: graph_inv_def)
  then show "graph_inv V g1" using b assms(3) by (simp add: graph_inv_def)
  show "queue_part g1 = queue_part g" using assms(1) by (simp add: event_frame_def)
  show "names g1 = names g" using frame_names[OF assms(1)] by (simp add: names_def)
qed

lemma command_ok:
  assumes env: "graph_env_ok env V" and s: "sends s = []" and g: "graph_inv V g"
    and p: "gv_process env i cmd (Av_text t) res len fl (av g) = (ret, r, evs, x)"
  shows "\<exists>s1 g1. avfilter_process_command env i cmd (Av_text t) res len fl s g = Some (ret, r, s1, g1)
    \<and> same_requests s s1 \<and> graph_inv V g1 \<and> response_ok res r \<and> queue_part g1 = queue_part g \<and> names g1 = names g
    \<and> av_log V (av g1) = av_log V (av g) @ [(i, cmd, Av_text t, fl)] \<and> (av_idle V x \<longrightarrow> av_idle V (av g1))"
proof -
  have b: "bound g (av_live V (av g))" using g by (simp add: graph_inv_def)
  from process_ok[OF env s b p] obtain s1 g1 L1 where d:
    "avfilter_process_command env i cmd (Av_text t) res len fl s g = Some (ret, r, s1, g1)" "same_requests s s1"
    "event_frame V (av_live V (av g)) L1 (g\<lparr>av := x\<rparr>) g1" "response_ok res r"
    "av_log V (av g1) = av_log V (av g) @ [(i, cmd, Av_text t, fl)]" "av_live V (av g1) = L1" by auto
  moreover have "av_idle V x \<longrightarrow> av_idle V (av g1)" using d(3) by (simp add: event_frame_def)
  ultimately show ?thesis using frame_inv[OF d(3) g d(6)] by blast
qed

definition memory :: "'x graph_env \<Rightarrow> bool" where
  "memory env \<longleftrightarrow> (\<forall>st. finite (dom st) \<longrightarrow> gv_malloc env st \<noteq> None) \<and> (\<forall>b. gv_strdup env b \<noteq> None)"

lemma new_command_ok:
  assumes "graph_env_ok env V" "queue_holds g q" "new_command env i cmd t fl g = Some (a, c)"
  shows "\<exists>g1. link_command a c g = Some g1 \<and> queue_holds g1 (q @ [(i, cmd, Av_text t, fl)])"
proof -
  have "a \<noteq> 0" "cmd_store g a = None" "cmd_next c = 0" "cmd_view c = (i, cmd, Av_text t, fl)"
    using assms(1,3) by (auto simp: graph_env_ok_def new_command_def bind_Some_iff cmd_view_def split: option.splits)
  then show ?thesis using link_law[OF assms(2)] by metis
qed

lemma link_frame:
  assumes "link_command a c g = Some g1" "graph_inv V g"
  shows "graph_inv V g1" "av g1 = av g" "names g1 = names g"
proof -
  have "graph_filters g1 = graph_filters g \<and> graph_heap g1 = graph_heap g \<and> av g1 = av g"
    using assms(1) by (auto simp: link_command_def Let_def split: if_splits option.splits)
  then show "graph_inv V g1" "av g1 = av g" "names g1 = names g"
    using assms(2) by (simp_all add: graph_inv_def bound_def names_def)
qed

lemma new_command_memory:
  assumes "memory env" "queue_holds g q"
  shows "new_command env i cmd t fl g \<noteq> None"
proof -
  have "finite (dom (cmd_store g))" using assms(2) by (auto simp: queue_holds_def)
  then show ?thesis using assms(1) by (auto simp: memory_def new_command_def bind_eq_None_conv split: option.split)
qed

lemma empty_queue: "queue_holds g q \<Longrightarrow> cmdhead g = 0 \<longleftrightarrow> q = []"
  using head_law[of g q] by (auto simp: queue_holds_def split: list.splits if_splits)

text \<open>A command without a response buffer is given to avfilter or appended to the queue.\<close>

lemma queue_command_ok:
  assumes env: "graph_env_ok env V" and s: "sends s = []" and g: "graph_inv V g" "queue_holds g q"
  shows "\<exists>ret r s1 g1 q1 more. media_graph_queue_command env i cmd t res len fl s g = Some (ret, r, s1, g1)
    \<and> same_requests s s1 \<and> graph_inv V g1 \<and> names g1 = names g \<and> queue_holds g1 q1 \<and> (r = res \<or> response_ok res r)
    \<and> (res = None \<longrightarrow> av_log V (av g1) @ q1 = av_log V (av g) @ q @ more)
    \<and> (more = [(i, cmd, Av_text t, fl)] \<or> \<not> memory env \<and> more = [] \<and> ret = -ENOMEM)"
proof -
  obtain ret r evs x where p: "gv_process env i cmd (Av_text t) res len fl (av g) = (ret, r, evs, x)"
    by (metis prod_cases4)
  obtain ret' r' evs' x' where p': "gv_process env i cmd (Av_text t) None 0 fl (av g) = (ret', r', evs', x')"
    by (metis prod_cases4)
  consider "res \<noteq> None \<and> 0 < sint len" | "\<not> (res \<noteq> None \<and> 0 < sint len)" "cmdhead g = 0 \<and> \<not> gv_pending env (av g)"
    | "\<not> (res \<noteq> None \<and> 0 < sint len)" "\<not> (cmdhead g = 0 \<and> \<not> gv_pending env (av g))" by blast
  then show ?thesis
  proof cases
    case 1
    from command_ok[OF env s g(1) p] queue_holds_part[of _ g q] g(2) 1 show ?thesis
      by (fastforce simp: media_graph_queue_command_def)
  next
    case 2
    then have q: "q = []" using empty_queue[OF g(2)] by simp
    have e: "media_graph_queue_command env i cmd t res len fl s g = do {
        (ret, _, s1, g1) \<leftarrow> avfilter_process_command env i cmd (Av_text t) None 0 fl s g; Some (ret, res, s1, g1) }"
      using 2 by (auto simp: media_graph_queue_command_def)
    from command_ok[OF env s g(1) p'] obtain s1 g1 where
      "avfilter_process_command env i cmd (Av_text t) None 0 fl s g = Some (ret', r', s1, g1)" "same_requests s s1"
      "graph_inv V g1" "queue_part g1 = queue_part g" "names g1 = names g"
      "av_log V (av g1) = av_log V (av g) @ [(i, cmd, Av_text t, fl)]" by blast
    then show ?thesis using e q g(2) queue_holds_part[of g1 g q]
      by (intro exI[of _ ret'] exI[of _ res] exI[of _ s1] exI[of _ g1] exI[of _ "[]"]
          exI[of _ "[(i, cmd, Av_text t, fl)]"]) simp
  next
    case 3
    then have e: "media_graph_queue_command env i cmd t res len fl s g = (case new_command env i cmd t fl g of
         None \<Rightarrow> Some (-ENOMEM, res, s, g)
       | Some (a, c) \<Rightarrow> do { g1 \<leftarrow> link_command a c g; Some (0, res, s, g1) })"
      by (auto simp: media_graph_queue_command_def)
    show ?thesis
    proof (cases "new_command env i cmd t fl g")
      case None
      then have "\<not> memory env" using new_command_memory g(2) by blast
      then show ?thesis using e None g by fastforce
    next
      case (Some ac)
      obtain a c where ac: "ac = (a, c)" by (cases ac)
      from new_command_ok[OF env g(2) Some[unfolded ac]] obtain g1 where
        "link_command a c g = Some g1" "queue_holds g1 (q @ [(i, cmd, Av_text t, fl)])" by blast
      moreover from link_frame[OF this(1) g(1)] have "graph_inv V g1" "av g1 = av g" "names g1 = names g" by auto
      ultimately show ?thesis using e Some ac by fastforce
    qed
  qed
qed

section \<open>Draining the queue\<close>

lemma dequeue_empty: "queue_holds g [] \<Longrightarrow> media_graph_dequeue_command env run s g = Some (-EAGAIN, s, g)"
  using empty_queue[of g "[]"] by (simp add: media_graph_dequeue_command_def)

lemma dequeue_pending:
  "gv_pending env (av g) \<Longrightarrow> media_graph_dequeue_command env True s g = Some (-EAGAIN, s, g)"
  by (simp add: media_graph_dequeue_command_def Let_def)

lemma head_command:
  assumes "queue_holds g ((i, n, a, fl) # q)"
  shows "cmdhead g \<noteq> 0" "\<exists>c t. cmd_store g (cmdhead g) = Some c \<and> cmd_filter c = i \<and> cmd_name c = n \<and> cmd_arg c = t
    \<and> a = Av_text t \<and> cmd_flags c = fl"
  using head_law[OF assms] by (auto simp: cmd_view_def split: if_splits)

lemma dequeue_ok:
  assumes env: "graph_env_ok env V" and s: "sends s = []" and g: "graph_inv V g" "queue_holds g ((i, n, a, fl) # q)"
    and run: "\<not> gv_pending env (av g)" and p: "gv_process env i n a None 0 fl (av g) = (ret, r, evs, x)"
  shows "\<exists>s1 g1. media_graph_dequeue_command env True s g = Some (ret, s1, g1) \<and> same_requests s s1 \<and> graph_inv V g1
    \<and> names g1 = names g \<and> queue_holds g1 q \<and> av_log V (av g1) = av_log V (av g) @ [(i, n, a, fl)]
    \<and> (av_idle V x \<longrightarrow> av_idle V (av g1))"
proof -
  obtain c t where c: "cmdhead g \<noteq> 0" "cmd_store g (cmdhead g) = Some c" "cmd_filter c = i" "cmd_name c = n"
    "cmd_arg c = t" "a = Av_text t" "cmd_flags c = fl" using head_command[OF g(2)] by blast
  from command_ok[OF env s g(1) p[unfolded c(6)]] obtain s1 g1 where d:
    "avfilter_process_command env i n (Av_text t) None 0 fl s g = Some (ret, r, s1, g1)" "same_requests s s1"
    "graph_inv V g1" "queue_part g1 = queue_part g" "names g1 = names g"
    "av_log V (av g1) = av_log V (av g) @ [(i, n, Av_text t, fl)]" "av_idle V x \<longrightarrow> av_idle V (av g1)" by blast
  have h: "cmdhead g1 = cmdhead g" "queue_holds g1 ((i, n, a, fl) # q)"
    using d(4) g(2) queue_holds_part[OF d(4)] by (simp_all add: queue_part_def)
  from unlink_law[OF h(2)] obtain g2 where u: "unlink_command (cmdhead g) g1 = Some g2" "queue_holds g2 q"
    unfolding h(1) by blast
  have f: "graph_filters g2 = graph_filters g1 \<and> graph_heap g2 = graph_heap g1 \<and> av g2 = av g1"
    using u(1) by (auto simp: unlink_command_def bind_Some_iff Let_def split: if_splits)
  have "media_graph_dequeue_command env True s g = Some (ret, s1, g2)"
    using c run d(1) u(1) by (simp add: media_graph_dequeue_command_def Let_def)
  moreover have "graph_inv V g2" "names g2 = names g"
    using f d(3,5) by (simp_all add: graph_inv_def bound_def names_def)
  ultimately show ?thesis using d u f c(6) by auto
qed

text \<open>A command given to filters at rest succeeds and leaves them at rest.\<close>

definition av_smooth :: "'x graph_env \<Rightarrow> 'x av_view \<Rightarrow> bool" where
  "av_smooth env V \<longleftrightarrow> (\<forall>x. av_idle V x \<longrightarrow> \<not> gv_pending env x
     \<and> (\<forall>i c t fl ret r evs x'. gv_process env i c (Av_text t) None 0 fl x = (ret, r, evs, x') \<longrightarrow> 0 \<le> ret \<and> av_idle V x'))"

lemma drain_ok:
  "graph_env_ok env V \<Longrightarrow> sends s = [] \<Longrightarrow> graph_inv V g \<Longrightarrow> queue_holds g q \<Longrightarrow>
   \<exists>ret s1 g1 k. drain_commands env True s g = Some (ret, s1, g1) \<and> ret < 0 \<and> same_requests s s1 \<and> graph_inv V g1
     \<and> names g1 = names g \<and> k \<le> length q \<and> queue_holds g1 (drop k q) \<and> av_log V (av g1) = av_log V (av g) @ take k q
     \<and> (av_idle V (av g) \<longrightarrow> av_smooth env V \<longrightarrow> ret = -EAGAIN \<and> k = length q)"
proof (induction q arbitrary: s g)
  case Nil
  then show ?case by (subst drain_commands.simps) (simp add: dequeue_empty)
next
  case (Cons v q)
  obtain i n a fl where v: "v = (i, n, a, fl)" by (metis prod_cases4)
  show ?case
  proof (cases "gv_pending env (av g)")
    case True
    then have "\<not> (av_idle V (av g) \<and> av_smooth env V)" by (auto simp: av_smooth_def)
    with True Cons.prems show ?thesis
      by (subst drain_commands.simps) (auto simp: dequeue_pending intro!: exI[of _ 0])
  next
    case False
    obtain ret r evs x where p: "gv_process env i n a None 0 fl (av g) = (ret, r, evs, x)" by (metis prod_cases4)
    obtain t where t: "a = Av_text t" using head_command(2)[OF Cons.prems(4)[unfolded v]] by blast
    from dequeue_ok[OF Cons.prems(1-3) Cons.prems(4)[unfolded v] False p] obtain s1 g1 where d:
      "media_graph_dequeue_command env True s g = Some (ret, s1, g1)" "same_requests s s1" "graph_inv V g1"
      "names g1 = names g" "queue_holds g1 q" "av_log V (av g1) = av_log V (av g) @ [v]" "av_idle V x \<longrightarrow> av_idle V (av g1)"
      unfolding v by blast
    have sm: "av_idle V (av g) \<and> av_smooth env V \<longrightarrow> 0 \<le> ret \<and> av_idle V (av g1)"
      using p t d(7) unfolding av_smooth_def by blast
    show ?thesis
    proof (cases "0 \<le> ret")
      case False
      then have "drain_commands env True s g = Some (ret, s1, g1)" using d(1) by (subst drain_commands.simps) simp
      then show ?thesis using d False sm by (intro exI[of _ ret] exI[of _ s1] exI[of _ g1] exI[of _ 1]) auto
    next
      case True
      have "sends s1 = []" using d(2) Cons.prems(2) by (simp add: same_requests_def)
      from Cons.IH[OF Cons.prems(1) this d(3,5)] obtain ret2 s2 g2 k where e:
        "drain_commands env True s1 g1 = Some (ret2, s2, g2)" "ret2 < 0" "same_requests s1 s2" "graph_inv V g2"
        "names g2 = names g1" "k \<le> length q" "queue_holds g2 (drop k q)" "av_log V (av g2) = av_log V (av g1) @ take k q"
        "av_idle V (av g1) \<longrightarrow> av_smooth env V \<longrightarrow> ret2 = -EAGAIN \<and> k = length q" by blast
      have "drain_commands env True s g = Some (ret2, s2, g2)" using d(1) e(1) True by (subst drain_commands.simps) simp
      then show ?thesis using d e sm same_requests_trans[OF d(2) e(3)]
        by (intro exI[of _ ret2] exI[of _ s2] exI[of _ g2] exI[of _ "Suc k"]) auto
    qed
  qed
qed

lemma run_once_ok:
  assumes env: "graph_env_ok env V" and s: "sends s = []" and g: "graph_inv V g" "queue_holds g q"
    and r: "gv_run_all env (av g) = (ret, evs, x)"
  shows "\<exists>ret1 s1 g1 k. media_graph_run_once env s g = Some (ret1, s1, g1) \<and> same_requests s s1 \<and> graph_inv V g1
     \<and> names g1 = names g \<and> k \<le> length q \<and> queue_holds g1 (drop k q) \<and> av_log V (av g1) = av_log V (av g) @ take k q
     \<and> (0 \<le> ret \<longrightarrow> av_idle V x \<longrightarrow> av_smooth env V \<longrightarrow> ret1 = 0 \<and> k = length q)"
proof -
  have "av_promise env V" using env by (simp add: graph_env_ok_def)
  then have a: "reported env (av_live V (av g)) evs = Some (av_live V x)" "av_log V x = av_log V (av g)"
    using r unfolding av_promise_def by blast+
  have "bound (g\<lparr>av := x\<rparr>) (av_live V (av g))" using g(1) by (simp add: graph_inv_def)
  from deliver_ok[OF env s this a(1)] obtain s1 g1 where d: "deliver_events env evs s (g\<lparr>av := x\<rparr>) = Some (s1, g1)"
    "same_requests s s1" "event_frame V (av_live V (av g)) (av_live V x) (g\<lparr>av := x\<rparr>) g1" by blast
  have e: "av_live V (av g1) = av_live V x" "av_log V (av g1) = av_log V (av g)" "av_idle V x \<longrightarrow> av_idle V (av g1)"
    using d(3) a(2) by (simp_all add: event_frame_def)
  note f = frame_inv[OF d(3) g(1) e(1)]
  have q: "queue_holds g1 q" using queue_holds_part[OF f(2)] g(2) by simp
  have sd: "sends s1 = []" using d(2) s by (simp add: same_requests_def)
  show ?thesis
  proof (cases "ret < 0")
    case True
    then show ?thesis using r d e f q
      by (intro exI[of _ ret] exI[of _ s1] exI[of _ g1] exI[of _ 0]) (simp add: media_graph_run_once_def)
  next
    case False
    from drain_ok[OF env sd f(1) q] obtain ret2 s2 g2 k where k:
      "drain_commands env True s1 g1 = Some (ret2, s2, g2)" "same_requests s1 s2" "graph_inv V g2" "names g2 = names g1"
      "k \<le> length q" "queue_holds g2 (drop k q)" "av_log V (av g2) = av_log V (av g1) @ take k q"
      "av_idle V (av g1) \<longrightarrow> av_smooth env V \<longrightarrow> ret2 = -EAGAIN \<and> k = length q" by blast
    have m: "media_graph_run_once env s g = Some (if ret2 = -EAGAIN then 0 else ret2, s2, g2)"
      using False r d(1) k(1) by (simp add: media_graph_run_once_def)
    show ?thesis
      by (intro exI[of _ "if ret2 = -EAGAIN then 0 else ret2"] exI[of _ s2] exI[of _ g2] exI[of _ k])
        (use m k e f same_requests_trans[OF d(2) k(2)] in auto)
  qed
qed

section \<open>Order and progress of commands\<close>

datatype graph_op = Issue nat bytes "bytes option" int | Run_once

fun graph_ops :: "'x graph_env \<Rightarrow> graph_op list \<Rightarrow> media_server_priv \<Rightarrow> 'x media_graph_priv
    \<Rightarrow> (media_server_priv \<times> 'x media_graph_priv) option" where
  "graph_ops env [] s g = Some (s, g)"
| "graph_ops env (Issue i cmd arg fl # ops) s g = do {
     (_, _, s1, g1) \<leftarrow> media_graph_queue_command env i cmd arg None 0 fl s g;
     graph_ops env ops s1 g1
   }"
| "graph_ops env (Run_once # ops) s g = do {
     (_, s1, g1) \<leftarrow> media_graph_run_once env s g;
     graph_ops env ops s1 g1
   }"

fun issued :: "graph_op list \<Rightarrow> command_view list" where
  "issued [] = []"
| "issued (Issue i cmd arg fl # ops) = (i, cmd, Av_text arg, fl) # issued ops"
| "issued (Run_once # ops) = issued ops"

text \<open>An avfilter that logs its commands and is busy until the graph runs.\<close>

record toy_av =
  toy_live :: "int set"
  toy_log :: "command_view list"
  toy_busy :: bool

definition toy_view :: "toy_av av_view" where
  "toy_view = \<lparr>av_live = toy_live, av_log = toy_log, av_idle = (\<lambda>x. \<not> toy_busy x)\<rparr>"

definition toy_env :: "toy_av graph_env" where
  "toy_env = \<lparr>gv_alloc = zero_alloc, gv_narrow = (\<lambda>_. 0), gv_zalloc = (\<lambda>h. if h 1 = None then Some 1 else None),
     gv_malloc = (\<lambda>st. if finite (dom st) then Some (1 + Max (insert 0 (dom st))) else None), gv_strdup = Some,
     gv_name = replicate 64 0, gv_null = ''(null)'', gv_local_cpu = c_bytes ''ap'', gv_path_max = 256,
     gv_modules = \<lparr>policy_handler = None, focus_handler = None, graph_handler = None, player_handler = None,
       recorder_handler = None, session_handler = None\<rparr>,
     gv_pending = toy_busy,
     gv_process = (\<lambda>i c arg res len fl x. (0, None, [], x\<lparr>toy_log := toy_log x @ [(i, c, arg, fl)],
       toy_live := toy_live x \<union> (case arg of Av_event a \<Rightarrow> {a} | _ \<Rightarrow> {})\<rparr>)),
     gv_find_on_link = (\<lambda>i t player x. Some i),
     gv_run_all = (\<lambda>x. (0, [], x\<lparr>toy_busy := False\<rparr>)),
     gv_get_pollfd = (\<lambda>i room x. if room < 1 then (-ENOMEM, [], x) else (1, [20 + int i], x)),
     gv_poll_available = (\<lambda>i fd x. ([], x)), gv_set_loglevel = (\<lambda>l x. x),
     gv_started = 1, gv_paused = 2, gv_stopped = 3, gv_completed = 6, gv_closed = 7\<rparr>"

definition toy_graph :: "bool \<Rightarrow> toy_av media_graph_priv" where
  "toy_graph busy = \<lparr>graph_filters = [
       \<lparr>filter_name = c_bytes ''amovie_async@Music'', filter_kind = c_bytes ''amovie_async'', filter_poll = True, filter_opaque = 0\<rparr>,
       \<lparr>filter_name = c_bytes ''amovie_async@Ring'', filter_kind = c_bytes ''amovie_async'', filter_poll = True, filter_opaque = 0\<rparr>],
     graph_fd = 9, graph_count = 0, graph_tid = 1, pollfts = [0, 1], cmdhead = 0, cmdtail = 0, cmd_store = Map.empty,
     graph_heap = Map.empty, av = \<lparr>toy_live = {}, toy_log = [], toy_busy = busy\<rparr>\<rparr>"

lemma toy_env_ok: "graph_env_ok toy_env toy_view"
proof -
  have "1 + Max (insert 0 S) \<notin> S" "1 + Max (insert 0 S) \<noteq> (0::int)" if "finite S" for S
  proof -
    have "x \<le> Max (insert 0 S)" if "x \<in> insert 0 S" for x using \<open>finite S\<close> that by simp
    from this[of 0] this[of "1 + Max (insert 0 S)"] show "1 + Max (insert 0 S) \<notin> S" "1 + Max (insert 0 S) \<noteq> (0::int)" by auto
  qed
  then have "\<forall>st a. gv_malloc toy_env st = Some a \<longrightarrow> a \<noteq> 0 \<and> st a = None" by (auto simp: toy_env_def split: if_splits)
  then show ?thesis
    using zero_alloc_total
    by (auto simp: graph_env_ok_def av_promise_def policy_promise_def toy_env_def toy_view_def response_ok_def
        split: av_arg.splits if_splits)
qed

lemma toy_graph_ok: "graph_inv toy_view (toy_graph b)" "queue_holds (toy_graph b) []"
proof -
  have "at_sign \<in> set (c_bytes ''amovie_async@Music'')" "at_sign \<in> set (c_bytes ''amovie_async@Ring'')"
    by (simp_all add: c_bytes_def at_sign_def)
  then show "graph_inv toy_view (toy_graph b)"
    by (simp add: graph_inv_def bound_def toy_graph_def toy_view_def less_Suc_eq)
qed (simp add: queue_holds_def toy_graph_def)


lemma toy_memory: "memory toy_env"
  by (simp add: memory_def toy_env_def)



definition toy_queued :: "toy_av media_graph_priv" where
  "toy_queued = (toy_graph True)\<lparr>cmdhead := 1, cmdtail := 2, cmd_store := [
     1 \<mapsto> \<lparr>cmd_filter = 0, cmd_name = c_bytes ''start'', cmd_arg = None, cmd_flags = 1, cmd_next = 2\<rparr>,
     2 \<mapsto> \<lparr>cmd_filter = 1, cmd_name = c_bytes ''stop'', cmd_arg = None, cmd_flags = 1, cmd_next = 0\<rparr>]\<rparr>"


section \<open>Finding a filter\<close>

definition wanted :: "bool \<Rightarrow> bytes option \<Rightarrow> graph_filter \<Rightarrow> bool" where
  "wanted input name f = (case name of
     None \<Rightarrow> filter_kind f \<in> set (if input then g_media_inputs else g_media_outputs)
   | Some q \<Rightarrow> prefix q (filter_name f))"

lemma take_prefix: "take (length q) n = q \<longleftrightarrow> prefix q n"
  by (metis append_take_drop_id prefix_def append_eq_conv_conj)

lemma first_filter_find:
  "\<forall>f\<in>set fs. m f = Some (P f) \<Longrightarrow> first_filter m i fs = Some (find (\<lambda>k. P (fs ! (k - i))) [i..<i + length fs])"
proof (induction fs arbitrary: i)
  case (Cons f fs)
  have u: "[i..<i + length (f # fs)] = i # [Suc i..<Suc i + length fs]" by (simp del: upt_Suc add: upt_conv_Cons)
  have "find (\<lambda>k. P ((f # fs) ! (k - i))) [Suc i..<Suc i + length fs] = find (\<lambda>k. P (fs ! (k - Suc i))) [Suc i..<Suc i + length fs]"
  proof (rule find_cong)
    fix k assume "k \<in> set [Suc i..<Suc i + length fs]"
    then have "k - i = Suc (k - Suc i)" by auto
    then show "P ((f # fs) ! (k - i)) = P (fs ! (k - Suc i))" by simp
  qed simp
  then show ?case using Cons unfolding u by simp
qed simp

lemma find_filter_find:
  assumes "media_stub_get_stream_name (gv_modules env) asked (Some (gv_name env)) 64 s g = Some (ret, name, s1, g1)"
    and "ret = 0 \<Longrightarrow> c_str name = Some (Some mapped)"
  shows "media_find_filter env asked input available s g =
    Some (case find (\<lambda>i. (available \<longrightarrow> filter_opaque (graph_filters g1 ! i) = 0)
                   \<and> wanted input (if ret = 0 then map_option (\<lambda>_. mapped) asked else asked) (graph_filters g1 ! i))
            [0..<length (graph_filters g1)] of
        Some i \<Rightarrow> (0, Some i, s1, g1)
      | None \<Rightarrow> (if ret = 0 then -EINVAL else -ENOTSUP, None, s1, g1))"
proof -
  let ?P = "\<lambda>f. (available \<longrightarrow> filter_opaque f = 0)
    \<and> wanted input (if ret = 0 then map_option (\<lambda>_. mapped) asked else asked) f"
  have "filter_matches input available asked ret name f = Some (?P f)" for f
    using assms(2) by (auto simp: filter_matches_def wanted_def take_prefix split: option.split)
  then have "first_filter (filter_matches input available asked ret name) 0 (graph_filters g1)
      = Some (find (\<lambda>k. ?P (graph_filters g1 ! (k - 0))) [0..<0 + length (graph_filters g1)])"
    by (intro first_filter_find) blast
  then show ?thesis using assms(1) by (simp add: media_find_filter_def split: option.split)
qed

text \<open>The search for a filter agrees with its specification: the name asked for is the policy's, when
  the policy maps it, and otherwise the client's; the filter found is the first of the graph that
  is free (when only free ones count) and whose instance name starts with that name, or, without a
  name, whose kind is one of the inputs or outputs; failing that the answer is \<open>-EINVAL\<close> for a name
  the policy maps and \<open>-ENOTSUP\<close> otherwise.\<close>

theorem graph_find_filter_first:
  assumes "media_stub_get_stream_name (gv_modules env) asked (Some (gv_name env)) 64 s g = Some (ret, name, s1, g1)"
    and "ret = 0 \<Longrightarrow> c_str name = Some (Some mapped)"
  shows "media_find_filter env asked input available s g =
    Some (case find (\<lambda>i. (available \<longrightarrow> filter_opaque (graph_filters g1 ! i) = 0)
                   \<and> wanted input (if ret = 0 then map_option (\<lambda>_. mapped) asked else asked) (graph_filters g1 ! i))
            [0..<length (graph_filters g1)] of
        Some i \<Rightarrow> (0, Some i, s1, g1)
      | None \<Rightarrow> (if ret = 0 then -EINVAL else -ENOTSUP, None, s1, g1))"
  using find_filter_find[OF assms] by blast

lemma graph_find_filter_first_witness:
  "media_find_filter toy_env (Some (c_bytes ''amovie_async@R'')) True True local_server (toy_graph True)
    = Some (0, Some 1, local_server, toy_graph True)
  \<and> media_find_filter toy_env (Some (c_bytes ''Nothing'')) True True local_server (toy_graph True)
    = Some (-ENOTSUP, None, local_server, toy_graph True)"
proof -
  have c: "media_stub_get_stream_name (gv_modules toy_env) n (Some (gv_name toy_env)) 64 local_server (toy_graph True)
      = Some (-ENOSYS, Some (gv_name toy_env), local_server, toy_graph True)" for n
    by (simp add: media_stub_get_stream_name_def toy_env_def)
  show ?thesis
    using graph_find_filter_first[OF c[of "Some (c_bytes ''amovie_async@R'')"], where mapped = "[]" and input = True and available = True]
      graph_find_filter_first[OF c[of "Some (c_bytes ''Nothing'')"], where mapped = "[]" and input = True and available = True]
    by (simp add: toy_graph_def wanted_def c_bytes_def upt_rec)
qed

section \<open>Opening and using a player\<close>

definition graph_mid :: "'x av_view \<Rightarrow> int \<Rightarrow> media_filter_priv \<Rightarrow> 'x media_graph_priv \<Rightarrow> bool" where
  \<comment> \<open>while a context is being opened: it is allocated and not registered yet\<close>
  "graph_mid V a c g \<longleftrightarrow> bound g (av_live V (av g)) \<and> a \<noteq> 0 \<and> a \<notin> av_live V (av g) \<and> graph_heap g a = Some c
     \<and> dom (graph_heap g) = insert a (av_live V (av g))"

lemma bound_heap_other:
  "a \<notin> L \<Longrightarrow> bound (g\<lparr>graph_heap := (graph_heap g)(a := v)\<rparr>) L \<longleftrightarrow> bound g L"
  by (auto simp: bound_def Let_def)

lemma mid_start:
  assumes "graph_inv V g" "a \<noteq> 0" "graph_heap g a = None"
  shows "graph_mid V a c (g\<lparr>graph_heap := (graph_heap g)(a \<mapsto> c)\<rparr>)"
proof -
  have "a \<notin> av_live V (av g)" using assms(1,3) by (auto simp: graph_inv_def)
  then show ?thesis using assms by (auto simp: graph_mid_def graph_inv_def bound_heap_other)
qed

lemma mid_set: "graph_mid V a c g \<Longrightarrow> graph_mid V a d (g\<lparr>graph_heap := (graph_heap g)(a \<mapsto> d)\<rparr>)"
  by (auto simp: graph_mid_def bound_heap_other)

lemma mid_av: "graph_mid V a c g \<Longrightarrow> av_live V x = av_live V (av g) \<Longrightarrow> graph_mid V a c (g\<lparr>av := x\<rparr>)"
  by (auto simp: graph_mid_def)

lemma mid_free:
  assumes "graph_mid V a c g"
  shows "\<exists>g1. free_ctx a g = Some g1 \<and> graph_inv V g1 \<and> queue_part g1 = queue_part g \<and> names g1 = names g"
proof -
  have "bound (g\<lparr>graph_heap := (graph_heap g)(a := None)\<rparr>) (av_live V (av g))"
    using assms by (simp add: graph_mid_def bound_heap_other)
  moreover have "dom ((graph_heap g)(a := None)) = av_live V (av g)" using assms by (auto simp: graph_mid_def)
  ultimately show ?thesis using assms
    by (auto simp: free_ctx_def graph_mid_def graph_inv_def queue_part_def names_def)
qed

lemma mid_command:
  assumes env: "graph_env_ok env V" and s: "sends s = []" and g: "graph_mid V a c g" "ctx_filter c = Some i"
    and arg: "\<And>b. arg = Av_event b \<Longrightarrow> b = a"
  shows "\<exists>ret s1 g1 D. ctx_command env a cmd arg s g = Some (ret, s1, g1) \<and> same_requests s s1
    \<and> graph_filters g1 = release_filters D (graph_filters g) \<and> queue_part g1 = queue_part g
    \<and> (if arg = Av_event a \<and> 0 \<le> ret then \<exists>L. a \<notin> L \<and> bound g1 L \<and> av_live V (av g1) = insert a L
          \<and> dom (graph_heap g1) = insert a L \<and> graph_heap g1 a = Some c
        else graph_mid V a c g1)"
proof -
  obtain ret r evs x where p: "gv_process env i (c_bytes cmd) arg None 0 0 (av g) = (ret, r, evs, x)" by (metis prod_cases4)
  let ?L = "av_live V (av g)"
  have b: "bound g ?L" using g by (simp add: graph_mid_def)
  from process_ok[OF env s b p] obtain s1 g1 L1 where d:
    "avfilter_process_command env i (c_bytes cmd) arg None 0 0 s g = Some (ret, r, s1, g1)" "same_requests s s1"
    "event_frame V ?L L1 (g\<lparr>av := x\<rparr>) g1"
    "av_live V (av g1) = L1 \<union> (case arg of Av_event a \<Rightarrow> if 0 \<le> ret then {a} else {} | _ \<Rightarrow> {})" by blast
  have b1: "bound g1 L1" using frame_bound[OF d(3)] b by simp
  have f: "L1 \<subseteq> ?L" "graph_filters g1 = release_filters (?L - L1) (graph_filters g)"
    "graph_heap g1 = graph_heap g |` (- (?L - L1))" "queue_part g1 = queue_part g"
    using d(3) by (auto simp: event_frame_def)
  have a: "a \<notin> ?L" "a \<notin> L1" "a \<noteq> 0" using g f(1) by (auto simp: graph_mid_def)
  have h: "graph_heap g1 a = Some c" using f(3) a g by (simp add: graph_mid_def restrict_map_def)
  have "dom (graph_heap g) = insert a ?L" using g by (simp add: graph_mid_def)
  then have dm: "dom (graph_heap g1) = insert a L1" using f(1,3) a by auto
  have m: "ctx_command env a cmd arg s g = Some (ret, s1, g1)" using g d(1) by (simp add: ctx_command_def graph_mid_def)
  have "if arg = Av_event a \<and> 0 \<le> ret then \<exists>L. a \<notin> L \<and> bound g1 L \<and> av_live V (av g1) = insert a L
      \<and> dom (graph_heap g1) = insert a L \<and> graph_heap g1 a = Some c else graph_mid V a c g1"
  proof (cases "arg = Av_event a \<and> 0 \<le> ret")
    case True
    then show ?thesis using a b1 d(4) dm h by auto
  next
    case False
    then have "av_live V (av g1) = L1" using d(4) arg by (auto split: av_arg.splits)
    then show ?thesis unfolding if_not_P[OF False] using a b1 dm h by (simp add: graph_mid_def)
  qed
  then show ?thesis using m d(2) f by blast
qed

lemma release_opaque: "i < length fs \<Longrightarrow> filter_opaque (fs ! i) = 0 \<Longrightarrow> filter_opaque (release_filters D fs ! i) = 0"
  by (simp add: release_nth)

lemma stream_name_ok:
  assumes "graph_env_ok env V" "sends s = []"
  shows "\<exists>ret name s1 x. media_stub_get_stream_name (gv_modules env) asked (Some (gv_name env)) 64 s g
      = Some (ret, name, s1, g\<lparr>av := x\<rparr>) \<and> same_requests s s1 \<and> av_live V x = av_live V (av g)
    \<and> (ret = 0 \<longrightarrow> (\<exists>m. c_str name = Some (Some m)))"
proof (cases "policy_handler (gv_modules env)")
  case None
  then have n: "media_stub_get_stream_name (gv_modules env) asked (Some (gv_name env)) 64 s g
      = Some (-ENOSYS, Some (gv_name env), s, g\<lparr>av := av g\<rparr>)" by (simp add: media_stub_get_stream_name_def)
  show ?thesis unfolding n
    by (intro exI[of _ "-ENOSYS"] exI[of _ "Some (gv_name env)"] exI[of _ s] exI[of _ "av g"] conjI refl same_requests_refl impI)
      (simp only: neg_equal_0_iff_equal zero_neq_numeral[symmetric])
next
  case (Some f)
  have p: "policy_promise env V" using assms(1) by (simp add: graph_env_ok_def)
  obtain r b' s' x where r: "f None asked (Some (c_bytes ''get_string'')) None 0 (Some (gv_name env)) 64 s g
      = Some (r, b', s', g\<lparr>av := x\<rparr>)" "same_requests s s'" "av_live V x = av_live V (av g)"
    "r = 0 \<longrightarrow> Some (gv_name env) \<noteq> None \<longrightarrow> (\<exists>d. b' = Some d \<and> 0 \<in> set d)"
    using p[unfolded policy_promise_def, rule_format, OF Some assms(2),
        of "asked" "Some (c_bytes ''get_string'')" None 0 "Some (gv_name env)" 64 g] by auto
  have n: "media_stub_get_stream_name (gv_modules env) asked (Some (gv_name env)) 64 s g = Some (r, b', s', g\<lparr>av := x\<rparr>)"
    unfolding media_stub_get_stream_name_def Some option.case by (rule r(1))
  have "\<exists>m. c_str b' = Some (Some m)" if "r = 0"
  proof -
    obtain d where "b' = Some d" "0 \<in> set d" using r(4) \<open>r = 0\<close> by auto
    then show ?thesis by (simp add: c_str_def)
  qed
  then show ?thesis using n r(2,3) by blast
qed

lemma find_free:
  assumes "graph_env_ok env V" "sends s = []"
  shows "\<exists>ret found s1 x. media_find_filter env asked input True s g = Some (ret, found, s1, g\<lparr>av := x\<rparr>)
    \<and> same_requests s s1 \<and> av_live V x = av_live V (av g)
    \<and> (case found of None \<Rightarrow> ret < 0
       | Some i \<Rightarrow> ret = 0 \<and> i < length (graph_filters g) \<and> filter_opaque (graph_filters g ! i) = 0)"
proof -
  obtain ret name s1 x where n: "media_stub_get_stream_name (gv_modules env) asked (Some (gv_name env)) 64 s g
      = Some (ret, name, s1, g\<lparr>av := x\<rparr>)" "same_requests s s1" "av_live V x = av_live V (av g)"
    "ret = 0 \<longrightarrow> (\<exists>m. c_str name = Some (Some m))" using stream_name_ok[OF assms] by blast
  obtain m where m: "ret = 0 \<Longrightarrow> c_str name = Some (Some m)" using n(4) by blast
  note f = find_filter_find[OF n(1) m, of input True]
  have P: "P i \<and> i < n" if "find P [0..<n] = Some i" for P and i n :: nat
    using that by (auto simp: find_Some_iff)
  show ?thesis
  proof (cases "fst (snd (the (media_find_filter env asked input True s g)))")
    case None
    with f n(2,3) show ?thesis by (auto split: option.splits)
  next
    case (Some i)
    from f[simplified option.case_eq_if] Some have e: "media_find_filter env asked input True s g = Some (0, Some i, s1, g\<lparr>av := x\<rparr>)"
      "filter_opaque (graph_filters g ! i) = 0 \<and> i < length (graph_filters g)"
      by (auto split: if_splits dest!: P)
    then show ?thesis using n(2,3)
      by (intro exI[of _ 0] exI[of _ "Some i"] exI[of _ s1] exI[of _ x]) simp
  qed
qed

lemma bound_add:
  assumes "bound g L" "a \<notin> L" "a \<noteq> 0" "i < length (graph_filters g)" "filter_opaque (graph_filters g ! i) = 0" "ctx_filter c = Some i"
  shows "bound (g\<lparr>graph_heap := (graph_heap g)(a \<mapsto> c),
    graph_filters := (graph_filters g)[i := (graph_filters g ! i)\<lparr>filter_opaque := a\<rparr>]\<rparr>) (insert a L)"
proof -
  let ?fs = "(graph_filters g)[i := (graph_filters g ! i)\<lparr>filter_opaque := a\<rparr>]"
  have o: "filter_opaque (?fs ! k) = (if k = i then a else filter_opaque (graph_filters g ! k))"
    if "k < length (graph_filters g)" for k using that by simp
  have n: "\<forall>f\<in>set ?fs. at_sign \<in> set (filter_name f)"
    using assms(1,4) by (auto simp: bound_def dest!: set_update_subset_insert[THEN subsetD])
  have ne: "x \<noteq> a" if "x \<in> L" for x using that assms(2) by blast
  have "\<exists>d k. ((graph_heap g)(a \<mapsto> c)) x = Some d \<and> ctx_filter d = Some k \<and> k < length ?fs \<and> filter_opaque (?fs ! k) = x"
    if x: "x \<in> L" for x
  proof -
    obtain d k where d: "graph_heap g x = Some d" "ctx_filter d = Some k" "k < length (graph_filters g)"
      "filter_opaque (graph_filters g ! k) = x" using assms(1) x by (auto simp: bound_def)
    have "k \<noteq> i" using d(4) assms(1,5) x by (auto simp: bound_def)
    then show ?thesis using d ne[OF x] by auto
  qed
  then show ?thesis using assms n o by (auto simp: bound_def Let_def)
qed

text \<open>What opening gives: a context on a filter that was free, or an error and nothing changed.\<close>

definition opened :: "nat option \<Rightarrow> 'x media_graph_priv \<Rightarrow> int \<Rightarrow> int \<Rightarrow> 'x media_graph_priv \<Rightarrow> bool" where
  "opened cookie g ret a g1 \<longleftrightarrow> ret = 0 \<and> a \<noteq> 0 \<and> graph_heap g a = None
     \<and> (\<exists>i<length (graph_filters g). filter_opaque (graph_filters g ! i) = 0 \<and> filter_opaque (graph_filters g1 ! i) = a
        \<and> graph_heap g1 a = Some \<lparr>ctx_filter = Some i, ctx_cookie = cookie, ctx_event = False\<rparr>)"

lemma inv_from_bound: "bound g L \<Longrightarrow> av_live V (av g) = L \<Longrightarrow> dom (graph_heap g) = L \<Longrightarrow> graph_inv V g"
  by (simp add: graph_inv_def)

lemma launch_ok:
  assumes env: "graph_env_ok env V" and s: "sends s = []" and g: "graph_mid V a c g" "c = \<lparr>ctx_filter = Some i, ctx_cookie = None, ctx_event = False\<rparr>"
    and i: "i < length (graph_filters g)" "filter_opaque (graph_filters g ! i) = 0"
  shows "\<exists>ret b s1 g1. media_common_launch env a cookie s g = Some (ret, b, s1, g1) \<and> same_requests s s1
    \<and> graph_inv V g1 \<and> queue_part g1 = queue_part g \<and> names g1 = names g
    \<and> (ret < 0 \<or> ret = 0 \<and> b = a \<and> filter_opaque (graph_filters g1 ! i) = a
        \<and> graph_heap g1 a = Some (c\<lparr>ctx_cookie := cookie\<rparr>))"
proof -
  have cf: "ctx_filter c = Some i" using g(2) by simp
  have nm: "names h = names k" if "graph_filters h = release_filters D (graph_filters k)" for h k :: "'a media_graph_priv" and D
    using that by (simp add: names_def release_filters_def)
  obtain r1 s1 g1 D1 where o: "ctx_command env a ''open'' (Av_text None) s g = Some (r1, s1, g1)" "same_requests s s1"
    "graph_filters g1 = release_filters D1 (graph_filters g)" "queue_part g1 = queue_part g" "graph_mid V a c g1"
    using mid_command[OF env s g(1) cf, of "Av_text None" "''open''"] by auto
  show ?thesis
  proof (cases "r1 < 0")
    case True
    with mid_free[OF o(5)] o(1,2,4) nm[OF o(3)] show ?thesis by (auto simp: media_common_launch_def)
  next
    case r1: False
    have s1: "sends s1 = []" using o(2) s by (simp add: same_requests_def)
    from mid_command[OF env s1 o(5) cf, of "Av_event a" "''set_event''"] obtain r2 s2 g2 D2 where
      e: "ctx_command env a ''set_event'' (Av_event a) s1 g1 = Some (r2, s2, g2)" "same_requests s1 s2"
      "graph_filters g2 = release_filters D2 (graph_filters g1)" "queue_part g2 = queue_part g1"
      "if Av_event a = Av_event a \<and> 0 \<le> r2 then \<exists>L. a \<notin> L \<and> bound g2 L \<and> av_live V (av g2) = insert a L
          \<and> dom (graph_heap g2) = insert a L \<and> graph_heap g2 a = Some c else graph_mid V a c g2" by auto
    have s2: "sends s2 = []" using e(2) s1 by (simp add: same_requests_def)
    show ?thesis
    proof (cases "r2 < 0")
      case True
      then have m: "graph_mid V a c g2" using e(5) by simp
      from mid_command[OF env s2 m cf, of "Av_text None" "''close''"] obtain r3 s3 g3 D3 where
        c: "ctx_command env a ''close'' (Av_text None) s2 g2 = Some (r3, s3, g3)" "same_requests s2 s3"
        "graph_filters g3 = release_filters D3 (graph_filters g2)" "queue_part g3 = queue_part g2" "graph_mid V a c g3" by auto
      have sr: "same_requests s s3" using same_requests_trans[OF o(2) same_requests_trans[OF e(2) c(2)]] .
      from mid_free[OF c(5)] obtain g4 where f: "free_ctx a g3 = Some g4" "graph_inv V g4" "queue_part g4 = queue_part g3"
        "names g4 = names g3" by blast
      have "media_common_launch env a cookie s g = Some (r2, 0, s3, g4)"
        using r1 True o(1) e(1) c(1) f(1) by (simp add: media_common_launch_def)
      then show ?thesis using True sr f(2-4) c(4) e(4) o(4) nm[OF o(3)] nm[OF e(3)] nm[OF c(3)] by simp
    next
      case r2: False
      with e(5) obtain L where L: "a \<notin> L" "bound g2 L" "av_live V (av g2) = insert a L" "dom (graph_heap g2) = insert a L"
        "graph_heap g2 a = Some c" by auto
      have i2: "i < length (graph_filters g2)" "filter_opaque (graph_filters g2 ! i) = 0"
        using i e(3) o(3) by (simp_all add: release_opaque)
      have a0: "a \<noteq> 0" using g(1) by (simp add: graph_mid_def)
      let ?h = "g2\<lparr>graph_heap := (graph_heap g2)(a \<mapsto> c\<lparr>ctx_cookie := cookie\<rparr>),
        graph_filters := (graph_filters g2)[i := (graph_filters g2 ! i)\<lparr>filter_opaque := a\<rparr>]\<rparr>"
      have "media_common_launch env a cookie s g = Some (0, a, s2, ?h)"
        using r1 r2 o(1) e(1) L(5) cf i2(1) by (simp add: media_common_launch_def set_opaque_def filter_at_def)
      moreover have "bound ?h (insert a L)" using bound_add[OF L(2,1) a0 i2, of "c\<lparr>ctx_cookie := cookie\<rparr>"] cf by simp
      then have "graph_inv V ?h" using L(3,4) by (intro inv_from_bound) auto
      moreover have "queue_part ?h = queue_part g" using e(4) o(4) by (simp add: queue_part_def)
      moreover have "names ?h = names g2" using i2(1) by (simp add: names_def map_update list_update_id[symmetric])
        (metis (no_types, lifting) list_update_id map_update nth_map)
      ultimately show ?thesis using same_requests_trans[OF o(2) e(2)] nm[OF o(3)] nm[OF e(3)] i2(1) by auto
    qed
  qed
qed

lemma player_open_ok:
  assumes env: "graph_env_ok env V" and s: "sends s = []" and g: "graph_inv V g"
  shows "\<exists>ret a s1 g1. media_common_open env arg cookie player s g = Some (ret, a, s1, g1) \<and> same_requests s s1
    \<and> graph_inv V g1 \<and> queue_part g1 = queue_part g \<and> names g1 = names g \<and> (ret < 0 \<or> opened cookie g ret a g1)"
proof (cases "gv_zalloc env (graph_heap g)")
  case None
  then show ?thesis using g by (simp add: media_common_open_def)
next
  case (Some a)
  have a: "a \<noteq> 0" "graph_heap g a = None" using env Some by (auto simp: graph_env_ok_def)
  let ?z = "\<lparr>ctx_filter = None, ctx_cookie = None, ctx_event = False\<rparr>"
  let ?g0 = "g\<lparr>graph_heap := (graph_heap g)(a \<mapsto> ?z)\<rparr>"
  obtain ret found s1 x where f: "media_find_filter env arg player True s ?g0 = Some (ret, found, s1, ?g0\<lparr>av := x\<rparr>)"
    "same_requests s s1" "av_live V x = av_live V (av ?g0)"
    "case found of None \<Rightarrow> ret < 0
     | Some i \<Rightarrow> ret = 0 \<and> i < length (graph_filters ?g0) \<and> filter_opaque (graph_filters ?g0 ! i) = 0"
    using find_free[OF env s] by blast
  let ?c = "?z\<lparr>ctx_filter := found\<rparr>"
  define g2 where "g2 = ?g0\<lparr>av := x, graph_heap := (graph_heap g)(a \<mapsto> ?c)\<rparr>"
  have m2: "graph_mid V a ?c g2" using mid_set[OF mid_av[OF mid_start[OF g a, of ?z] f(3)], of ?c] by (simp add: g2_def)
  have k2: "queue_part g2 = queue_part g" "names g2 = names g" "graph_filters g2 = graph_filters g"
    by (simp_all add: g2_def queue_part_def names_def)
  show ?thesis
  proof (cases found)
    case None
    with f(4) have r: "ret < 0" by simp
    from mid_free[OF m2] obtain g3 where "free_ctx a g2 = Some g3" "graph_inv V g3" "queue_part g3 = queue_part g2"
      "names g3 = names g2" by blast
    with Some f(1,2) r k2 None show ?thesis by (simp add: media_common_open_def Let_def g2_def)
  next
    case fd: (Some i)
    with f(4) have i: "ret = 0" "i < length (graph_filters g2)" "filter_opaque (graph_filters g2 ! i) = 0" by (simp_all add: g2_def)
    have sd: "sends s1 = []" using f(2) s by (simp add: same_requests_def)
    have e: "media_common_open env arg cookie player s g = media_common_launch env a cookie s1 g2"
      using Some f(1) i(1) by (simp add: media_common_open_def Let_def g2_def)
    from launch_ok[OF env sd m2 _ i(2,3), of cookie] fd obtain r b s3 g3 where l:
      "media_common_launch env a cookie s1 g2 = Some (r, b, s3, g3)" "same_requests s1 s3" "graph_inv V g3"
      "queue_part g3 = queue_part g2" "names g3 = names g2"
      "r < 0 \<or> r = 0 \<and> b = a \<and> filter_opaque (graph_filters g3 ! i) = a \<and> graph_heap g3 a = Some (?c\<lparr>ctx_cookie := cookie\<rparr>)" by auto
    have "r < 0 \<or> opened cookie g r b g3" using l(6) i(2,3) a k2(3) fd by (auto simp: opened_def)
    then show ?thesis using e l same_requests_trans[OF f(2) l(2)] k2 by auto
  qed
qed

lemma inv_ctx_update:
  assumes "graph_inv V g" "graph_heap g a = Some c" "ctx_filter d = ctx_filter c"
  shows "graph_inv V (g\<lparr>graph_heap := (graph_heap g)(a \<mapsto> d)\<rparr>)"
proof -
  let ?h = "g\<lparr>graph_heap := (graph_heap g)(a \<mapsto> d)\<rparr>"
  have f: "(\<exists>e. graph_heap ?h b = Some e \<and> ctx_filter e = Some k) \<longleftrightarrow> (\<exists>e. graph_heap g b = Some e \<and> ctx_filter e = Some k)" for b k
    using assms(2,3) by auto
  have "bound ?h L \<longleftrightarrow> bound g L" for L
  proof -
    have "(\<exists>e k. graph_heap ?h b = Some e \<and> ctx_filter e = Some k \<and> P k) \<longleftrightarrow> (\<exists>e k. graph_heap g b = Some e \<and> ctx_filter e = Some k \<and> P k)" for b P
      using f by metis
    then show ?thesis using f by (simp add: bound_def Let_def)
  qed
  moreover have "dom (graph_heap ?h) = dom (graph_heap g)" using assms(2) by auto
  ultimately show ?thesis using assms(1) by (simp add: graph_inv_def)
qed

lemma part_heap [simp]: "queue_part (g\<lparr>graph_heap := h\<rparr>) = queue_part g"
  by (simp add: queue_part_def)



section \<open>Polling and loading\<close>

text \<open>A filter asked for descriptors fills at most the entries it is given room for, and says how many.\<close>

definition pollfd_promise :: "'x graph_env \<Rightarrow> bool" where
  "pollfd_promise env \<longleftrightarrow> (\<forall>i room x ret ws x'. gv_get_pollfd env i room x = (ret, ws, x') \<longrightarrow> 0 \<le> room \<longrightarrow>
     int (length ws) \<le> room \<and> (0 \<le> ret \<longrightarrow> ret = int (length ws)))"

fun answered :: "'x graph_env \<Rightarrow> int \<Rightarrow> nat list \<Rightarrow> 'x \<Rightarrow> (int \<times> nat option) list" where
  \<comment> \<open>the descriptors the filters give, each asked with the room the ones before left\<close>
  "answered env room [] x = []"
| "answered env room (i # is) x = (case gv_get_pollfd env i room x of (ret, ws, x1) \<Rightarrow>
     let es = (if ret < 0 then [] else map (\<lambda>w. (w, Some i)) ws)
     in es @ answered env (room - int (length es)) is x1)"

lemma take_pollfds_ok:
  "int (length acc + length ws) \<le> count \<Longrightarrow> take_pollfds count i (length ws) ws acc = Some (True, acc @ map (\<lambda>w. (w, Some i)) ws)"
  by (induction ws arbitrary: acc) (auto simp: Let_def)

lemma filter_pollfds_ok:
  assumes "pollfd_promise env"
  shows "int (length acc) \<le> count \<Longrightarrow> \<exists>x1. filter_pollfds env count is acc x
    = Some (int (length (acc @ answered env (count - int (length acc)) is x)), acc @ answered env (count - int (length acc)) is x, x1)
      \<and> int (length (acc @ answered env (count - int (length acc)) is x)) \<le> count"
proof (induction "is" arbitrary: acc x)
  case (Cons i "is")
  obtain ret ws x1 where w: "gv_get_pollfd env i (count - int (length acc)) x = (ret, ws, x1)" by (metis prod_cases3)
  have l: "int (length ws) \<le> count - int (length acc)" "0 \<le> ret \<longrightarrow> ret = int (length ws)"
    using assms w Cons.prems unfolding pollfd_promise_def by fastforce+
  show ?case
  proof (cases "ret < 0")
    case True
    then show ?thesis using Cons.IH[OF Cons.prems, of x1] w l by simp
  next
    case False
    then have r: "nat ret = length ws" using l(2) by simp
    let ?acc = "acc @ map (\<lambda>w. (w, Some i)) ws"
    have "take_pollfds count i (length ws) ws acc = Some (True, ?acc)" using take_pollfds_ok[of acc ws count i] l(1) by simp
    moreover have "int (length ?acc) \<le> count" using l(1) by simp
    from Cons.IH[OF this, of x1] have "\<exists>x2. filter_pollfds env count is ?acc x1
      = Some (int (length (?acc @ answered env (count - int (length ?acc)) is x1)), ?acc @ answered env (count - int (length ?acc)) is x1, x2)
      \<and> int (length (?acc @ answered env (count - int (length ?acc)) is x1)) \<le> count" .
    moreover have "count - int (length ?acc) = count - int (length acc) - int (length (map (\<lambda>w. (w, Some i)) ws))" by simp
    ultimately show ?thesis using w l(1) r False by (simp add: Let_def diff_diff_add)
  qed
qed simp

text \<open>Polling the graph reports every descriptor of its filters: with filters that keep to the room
  they are given, the caller's arrays get the graph's own event descriptor and then, filter by
  filter, exactly the descriptors each answered with, every one with its filter as cookie; the result
  is their number, never more than \<open>count\<close>, and nothing is written past the arrays.\<close>

theorem graph_pollfds_exact:
  assumes "pollfd_promise env" "2 \<le> count"
  shows "\<exists>x. let fds = (graph_fd g, None) # answered env (count - 1) (pollfts g) (av g) in
    media_graph_get_pollfds env True count g = Some (int (length fds), fds, g\<lparr>av := x\<rparr>) \<and> int (length fds) \<le> count"
  using filter_pollfds_ok[OF assms(1), of "[(graph_fd g, None)]" count "pollfts g" "av g"] assms(2)
  by (auto simp: media_graph_get_pollfds_def Let_def)

lemma graph_pollfds_exact_witness:
  "\<exists>x. media_graph_get_pollfds toy_env True 8 (toy_graph False)
     = Some (3, [(9, None), (20, Some 0), (21, Some 1)], (toy_graph False)\<lparr>av := x\<rparr>)
   \<and> media_graph_get_pollfds toy_env True 2 (toy_graph False) = Some (2, [(9, None), (20, Some 0)], toy_graph False)"
proof -
  have p: "pollfd_promise toy_env" by (simp add: pollfd_promise_def toy_env_def)
  have "media_graph_get_pollfds toy_env True 2 (toy_graph False) = Some (2, [(9, None), (20, Some 0)], toy_graph False)"
    by (simp add: media_graph_get_pollfds_def toy_graph_def toy_env_def)
  then show ?thesis
    using graph_pollfds_exact[OF p, of 8 "toy_graph False"] by (simp add: toy_graph_def toy_env_def Let_def)
qed

lemma poll_filters_spec:
  "length acc \<le> MAX_POLL_FILTERS \<Longrightarrow> poll_filters i fs acc =
    (let polls = acc @ filter (\<lambda>k. filter_poll (fs ! (k - i))) [i..<i + length fs] in
     if length polls \<le> MAX_POLL_FILTERS then Some (True, polls) else None)"
proof (induction fs arbitrary: i acc)
  case (Cons f fs)
  have u: "[i..<i + length (f # fs)] = i # [Suc i..<Suc (i + length fs)]" by (simp del: upt_Suc add: upt_conv_Cons)
  have c: "filter (\<lambda>k. filter_poll ((f # fs) ! (k - i))) [Suc i..<Suc (i + length fs)]
      = filter (\<lambda>k. filter_poll (fs ! (k - Suc i))) [Suc i..<Suc (i + length fs)]"
  proof (rule filter_cong)
    fix k assume "k \<in> set [Suc i..<Suc (i + length fs)]"
    then have "k - i = Suc (k - Suc i)" by auto
    then show "filter_poll ((f # fs) ! (k - i)) = filter_poll (fs ! (k - Suc i))" by simp
  qed simp
  have "poll_filters (Suc i) fs (acc @ [i]) = (let polls = (acc @ [i]) @ filter (\<lambda>k. filter_poll (fs ! (k - Suc i))) [Suc i..<Suc (i + length fs)] in
      if length polls \<le> MAX_POLL_FILTERS then Some (True, polls) else None)" if "length acc < MAX_POLL_FILTERS"
    using Cons.IH[of "acc @ [i]" "Suc i"] that by simp
  note s = this
  consider "\<not> filter_poll f" | "filter_poll f" "length acc < MAX_POLL_FILTERS" | "filter_poll f" "length acc = MAX_POLL_FILTERS"
    using Cons.prems by linarith
  then show ?case
  proof cases
    case 1
    then show ?thesis using Cons.IH[OF Cons.prems, of "Suc i"] unfolding u by (simp del: upt_Suc add: Let_def c)
  next
    case 2
    then show ?thesis using s unfolding u by (simp del: upt_Suc add: Let_def c)
  next
    case 3
    then show ?thesis unfolding u by (simp del: upt_Suc add: Let_def c)
  qed
qed simp

text \<open>Loading records the filters that can be polled: for a graph file that avfilter accepts, the
  table of pollable filters is exactly the positions of the filters with the poll flag, in order,
  when there are at most 16; with 17 or more the table is written past its end before its bound is
  looked at.\<close>

theorem graph_load_polls:
  assumes "ld_open ld = None" "ld_read ld = Inr file" "length file < 4096" "ld_alloc ld"
    and "0 \<le> ld_parse ld (takeWhile (\<lambda>c. c \<noteq> 0) file)" "ld_config ld (takeWhile (\<lambda>c. c \<noteq> 0) file) = (ret, fs)" "0 \<le> ret"
  shows "media_graph_load ld = (let polls = filter (\<lambda>i. filter_poll (fs ! i)) [0..<length fs] in
    if length polls \<le> 16 then Some (0, Some (fs, polls)) else None)"
  using assms poll_filters_spec[of "[]" 0 fs] by (simp add: media_graph_load_def Let_def MAX_GRAPH_SIZE_def MAX_POLL_FILTERS_def)

definition poll_loader :: "nat \<Rightarrow> graph_loader" where
  "poll_loader n = \<lparr>ld_open = None, ld_read = Inr (c_bytes ''anull''), ld_alloc = True, ld_parse = (\<lambda>_. 0),
     ld_config = (\<lambda>_. (0, replicate n \<lparr>filter_name = c_bytes ''a@b'', filter_kind = c_bytes ''a'', filter_poll = True, filter_opaque = 0\<rparr>))\<rparr>"

lemma graph_load_polls_witness:
  "map_option fst (media_graph_load (poll_loader 2)) = Some 0 \<and> media_graph_load (poll_loader 17) = None"
  using graph_load_polls[of "poll_loader 2" "c_bytes ''anull''"] graph_load_polls[of "poll_loader 17" "c_bytes ''anull''"]
  by (simp add: poll_loader_def c_bytes_def)

end
