(* ===== verification/Media_Policy.thy ===== *)
theory Media_Policy
  imports Media_Text
begin

text \<open>
  The policy module of the server, \<open>server/media_policy.c\<close>: the commands on criteria, the plugins that
  turn a decision of the policy framework into graph commands and device parameters, and the
  criteria kept over a restart.

  The framework \<open>pfw\<close> is a parameter on a state of its own: a call gives its result and the callbacks
  it made, which are carried out in order when it returns. The devices are part of that state.
\<close>

section \<open>State\<close>

record 'y media_policy_priv =
  pol_key :: bytes
  pol_value :: int
  pol_pending :: bool
  pol_kvdb :: "bytes \<rightharpoonup> int"
  pfw :: 'y

text \<open>The callbacks: the two plugins, a criterion that changed, and an event for a subscriber.\<close>

datatype pfw_callback = Pfw_command bytes | Pfw_parameter bytes | Pfw_save bytes int
  | Pfw_notify "nat option" "32 word" "bytes option"

record 'y policy_env =
  pe_alloc :: allocator
  pe_narrow :: "64 word \<Rightarrow> 32 word"
  pe_strdup :: "string \<Rightarrow> string option"
  pe_modules :: "'y media_policy_priv modules"
  pe_open :: "string \<Rightarrow> 'y \<Rightarrow> int"
  pe_ioctl :: "string \<Rightarrow> string \<Rightarrow> 'y \<Rightarrow> int \<times> 'y"
  pfw_setint :: "bytes option \<Rightarrow> int \<Rightarrow> 'y \<Rightarrow> int \<times> pfw_callback list \<times> 'y"
  pfw_increase :: "bytes option \<Rightarrow> 'y \<Rightarrow> int \<times> pfw_callback list \<times> 'y"
  pfw_decrease :: "bytes option \<Rightarrow> 'y \<Rightarrow> int \<times> pfw_callback list \<times> 'y"
  pfw_setstring :: "bytes option \<Rightarrow> bytes option \<Rightarrow> 'y \<Rightarrow> int \<times> pfw_callback list \<times> 'y"
  pfw_include :: "bytes option \<Rightarrow> bytes option \<Rightarrow> 'y \<Rightarrow> int \<times> pfw_callback list \<times> 'y"
  pfw_exclude :: "bytes option \<Rightarrow> bytes option \<Rightarrow> 'y \<Rightarrow> int \<times> pfw_callback list \<times> 'y"
  pfw_contain :: "bytes option \<Rightarrow> bytes option \<Rightarrow> 'y \<Rightarrow> int \<times> int"
  pfw_getint :: "bytes option \<Rightarrow> 'y \<Rightarrow> int \<times> int"
  pfw_getstring :: "bytes option \<Rightarrow> bytes option \<Rightarrow> 32 word \<Rightarrow> 'y \<Rightarrow> int \<times> bytes option"
  pfw_getrange :: "bytes option \<Rightarrow> 'y \<Rightarrow> int \<times> int \<times> int"
  pfw_subscribe :: "bytes option \<Rightarrow> nat option \<Rightarrow> 'y \<Rightarrow> int \<times> 'y"
  pfw_unsubscribe :: "int \<Rightarrow> 'y \<Rightarrow> 'y"
  pfw_apply :: "'y \<Rightarrow> pfw_callback list \<times> 'y"
  pfw_create :: "bytes \<Rightarrow> bytes \<Rightarrow> ((bytes \<times> int) list \<times> (int list \<Rightarrow> 'y)) option"

type_synonym 'y policy_step = "media_server_priv \<Rightarrow> 'y media_policy_priv \<Rightarrow> (media_server_priv \<times> 'y media_policy_priv) option"

section \<open>Plugins\<close>

fun command_entries :: "'y policy_env \<Rightarrow> string list \<Rightarrow> 'y policy_step" where
  \<comment> \<open>the loop over the entries between semicolons; an entry without a command ends it\<close>
  "command_entries env [] s w = Some (s, w)"
| "command_entries env (e # es) s w = (case strtok_tokens CHR '','' e of
     target # cmd # r \<Rightarrow> do {
       (_, _, s1, w1) \<leftarrow> media_stub_process_command (pe_modules env) (Some (c_bytes target)) (Some (c_bytes cmd))
         (case r of [] \<Rightarrow> None | arg # _ \<Rightarrow> Some (c_bytes arg)) s w;
       command_entries env es s1 w1
     }
   | _ \<Rightarrow> Some (s, w))"

definition pfw_ffmpeg_command_callback :: "'y policy_env \<Rightarrow> bytes \<Rightarrow> 'y policy_step" where
  "pfw_ffmpeg_command_callback env params s w = (case pe_strdup env (b_str params) of
     None \<Rightarrow> Some (s, w)
   | Some str \<Rightarrow> command_entries env (strtok_tokens CHR '';'' str) s w)"

fun parameter_entries :: "'y policy_env \<Rightarrow> string list \<Rightarrow> 'y \<Rightarrow> 'y" where
  \<comment> \<open>the device is the first field of an entry and the rest is its argument\<close>
  "parameter_entries env [] y = y"
| "parameter_entries env (e # es) y =
    (let e1 = dropWhile (\<lambda>c. c = CHR '','') e; target = takeWhile (\<lambda>c. c \<noteq> CHR '','') e1;
         arg = drop (length target + 1) e1 in
     if target = [] then y
     else if pe_open env target y < 0 then y
     else (case pe_ioctl env target arg y of (ret, y1) \<Rightarrow> if ret < 0 then y1 else parameter_entries env es y1))"

definition pfw_set_parameter_callback :: "'y policy_env \<Rightarrow> bytes \<Rightarrow> 'y policy_step" where
  "pfw_set_parameter_callback env params s w = (case pe_strdup env (b_str params) of
     None \<Rightarrow> Some (s, w)
   | Some str \<Rightarrow> Some (s, w\<lparr>pfw := parameter_entries env (strtok_tokens CHR '';'' str) (pfw w)\<rparr>))"

section \<open>Criteria kept over a restart\<close>

definition MEDIA_PERSIST :: bytes where "MEDIA_PERSIST = c_bytes ''persist.media.''"

definition persistent :: "bytes \<Rightarrow> bool" where
  "persistent name \<longleftrightarrow> take (length MEDIA_PERSIST) name = MEDIA_PERSIST"

definition pfw_load_criterion_cb :: "(bytes \<rightharpoonup> int) \<Rightarrow> bytes \<Rightarrow> int \<Rightarrow> int" where
  "pfw_load_criterion_cb kvdb name state =
     (if persistent name then (case kvdb name of None \<Rightarrow> state | Some v \<Rightarrow> v) else state)"

definition pfw_save_criterion_cb :: "bytes \<Rightarrow> int \<Rightarrow> 'y media_policy_priv \<Rightarrow> 'y media_policy_priv" where
  \<comment> \<open>remembers the criterion and queues the work; queueing it again only delays it\<close>
  "pfw_save_criterion_cb name state w = (if persistent name
     then w\<lparr>pol_key := take 63 name, pol_value := state, pol_pending := True\<rparr> else w)"

definition pfw_save_criterion_work :: "'y media_policy_priv \<Rightarrow> 'y media_policy_priv" where
  "pfw_save_criterion_work w = w\<lparr>pol_kvdb := (pol_kvdb w)(pol_key w \<mapsto> pol_value w), pol_pending := False\<rparr>"

section \<open>Carrying out callbacks\<close>

definition media_policy_notify_cb :: "'y policy_env \<Rightarrow> nat option \<Rightarrow> 32 word \<Rightarrow> bytes option \<Rightarrow> 'y policy_step" where
  "media_policy_notify_cb env cookie number literal s w = do {
     s1 \<leftarrow> media_stub_notify_event (pe_alloc env) (pe_narrow env) s cookie 0 number literal;
     Some (s1, w)
   }"

fun run_pfw_callbacks :: "'y policy_env \<Rightarrow> pfw_callback list \<Rightarrow> 'y policy_step" where
  "run_pfw_callbacks env [] s w = Some (s, w)"
| "run_pfw_callbacks env (c # cs) s w = do {
     (s1, w1) \<leftarrow> (case c of
         Pfw_command params \<Rightarrow> pfw_ffmpeg_command_callback env params s w
       | Pfw_parameter params \<Rightarrow> pfw_set_parameter_callback env params s w
       | Pfw_save name state \<Rightarrow> Some (s, pfw_save_criterion_cb name state w)
       | Pfw_notify cookie number literal \<Rightarrow> media_policy_notify_cb env cookie number literal s w);
     run_pfw_callbacks env cs s1 w1
   }"

section \<open>Commands\<close>

definition pfw_changed :: "'y policy_env \<Rightarrow> ('y \<Rightarrow> int \<times> pfw_callback list \<times> 'y) \<Rightarrow> bool \<Rightarrow> bytes option
    \<Rightarrow> 'y media_policy_priv served_call" where
  \<comment> \<open>a call that changes a criterion and what follows it at the end of the handler\<close>
  "pfw_changed env call apply_it res s w = (case call (pfw w) of (ret, cbs, y) \<Rightarrow> do {
     (s1, w1) \<leftarrow> run_pfw_callbacks env cbs s (w\<lparr>pfw := y\<rparr>);
     (if ret < 0 then Some (ret, res, s1, w1)
      else if apply_it then (case pfw_apply env (pfw w1) of (cbs2, y2) \<Rightarrow> do {
        (s2, w2) \<leftarrow> run_pfw_callbacks env cbs2 s1 (w1\<lparr>pfw := y2\<rparr>);
        Some (0, res, s2, w2)
      })
      else Some (0, res, s1, w1))
   })"

definition pfw_answer :: "int \<Rightarrow> string \<Rightarrow> bytes option \<Rightarrow> 32 word \<Rightarrow> 'y media_policy_priv served_call" where
  \<comment> \<open>a query: the error of the framework, or the text printed into the buffer\<close>
  "pfw_answer ret str res len s w = (if ret < 0 then Some (ret, res, s, w)
     else do { (n, buf) \<leftarrow> snprintf_put (map_option b_str res) (unat len) str; Some (n, map_option c_bytes buf, s, w) })"

definition media_policy_handler :: "'y policy_env \<Rightarrow> nat option \<Rightarrow> bytes option \<Rightarrow> bytes option \<Rightarrow> bytes option
    \<Rightarrow> 32 word \<Rightarrow> bytes option \<Rightarrow> 32 word \<Rightarrow> 'y media_policy_priv served_call" where
  "media_policy_handler env cookie name cmd arg apply_it res len s w = (case cmd of
     None \<Rightarrow> Some (-EINVAL, res, s, w)
   | Some cmd \<Rightarrow>
     let change = (\<lambda>call. pfw_changed env call (apply_it \<noteq> 0) res s w) in
     if cmd = c_bytes ''ping'' then Some (0, res, s, w)
     else if cmd = c_bytes ''subscribe'' then (case pfw_subscribe env name cookie (pfw w) of (handle, y) \<Rightarrow>
       if handle = 0 then Some (-EINVAL, res, s, w\<lparr>pfw := y\<rparr>)
       else Some (0, res, media_server_set_data cookie handle s, w\<lparr>pfw := y\<rparr>))
     else if cmd = c_bytes ''unsubscribe'' then
       Some (0, res, fst (media_stub_notify_finalize s (Some cookie)),
         w\<lparr>pfw := pfw_unsubscribe env (media_server_get_data s cookie) (pfw w)\<rparr>)
     else if cmd = c_bytes ''set_int'' then do {
       v \<leftarrow> arg;
       n \<leftarrow> atoi (b_str v);
       change (pfw_setint env name n)
     }
     else if cmd = c_bytes ''increase'' then change (pfw_increase env name)
     else if cmd = c_bytes ''decrease'' then change (pfw_decrease env name)
     else if cmd = c_bytes ''set_string'' then change (pfw_setstring env name arg)
     else if cmd = c_bytes ''include'' then change (pfw_include env name arg)
     else if cmd = c_bytes ''exclude'' then change (pfw_exclude env name arg)
     else if cmd = c_bytes ''contain'' then
       (case pfw_contain env name arg (pfw w) of (ret, v) \<Rightarrow> pfw_answer ret (int_digits v) res len s w)
     else if cmd = c_bytes ''get_int'' then
       (case pfw_getint env name (pfw w) of (ret, v) \<Rightarrow> pfw_answer ret (int_digits v) res len s w)
     else if cmd = c_bytes ''get_string'' then
       (case pfw_getstring env name res len (pfw w) of (ret, b) \<Rightarrow> Some (if ret < 0 then ret else 0, b, s, w))
     else if cmd = c_bytes ''get_range'' then
       (case pfw_getrange env name (pfw w) of (ret, lo, hi) \<Rightarrow>
         pfw_answer ret (int_digits lo @ CHR '','' # int_digits hi) res len s w)
     else if cmd = c_bytes ''dump'' then Some (0, res, s, w)
     else Some (-ENOSYS, res, s, w))"

section \<open>Life cycle\<close>

definition media_policy_create :: "'y policy_env \<Rightarrow> (bytes \<times> bytes) option \<Rightarrow> bool \<Rightarrow> (bytes \<rightharpoonup> int) \<Rightarrow> media_server_priv
    \<Rightarrow> (media_server_priv \<times> 'y media_policy_priv) option option" where
  \<comment> \<open>the paths, whether there is memory, and the properties kept; \<open>Some None\<close> is NULL\<close>
  "media_policy_create env params mem kvdb s = (case params of
     None \<Rightarrow> Some None
   | Some (p0, p1) \<Rightarrow>
       if \<not> mem then Some None
       else (case pfw_create env p0 p1 of
           None \<Rightarrow> Some None
         | Some (criteria, start) \<Rightarrow>
             let y = start (map (\<lambda>(name, state). pfw_load_criterion_cb kvdb name state) criteria);
                 w = \<lparr>pol_key = [], pol_value = 0, pol_pending = False, pol_kvdb = kvdb, pfw = y\<rparr> in
             (case pfw_apply env y of (cbs, y1) \<Rightarrow> do {
                r \<leftarrow> run_pfw_callbacks env cbs s (w\<lparr>pfw := y1\<rparr>);
                Some (Some r)
              })))"

definition media_policy_destroy :: "'y media_policy_priv \<Rightarrow> int \<times> 'y media_policy_priv option" where
  \<comment> \<open>the work that may be queued is not cancelled\<close>
  "media_policy_destroy w = (0, None)"

section \<open>Commands in a plugin's parameter\<close>

type_synonym graph_command = "string \<times> string \<times> string option"

definition command_entry :: "graph_command \<Rightarrow> string" where
  "command_entry = (\<lambda>(t, c, a). t @ CHR '','' # c @ CHR '','' # (case a of None \<Rightarrow> [] | Some x \<Rightarrow> x))"

definition command_text :: "graph_command list \<Rightarrow> string" where
  \<comment> \<open>the documented form, \<open>{target,cmd,arg;}*\<close>, with nothing for a missing argument\<close>
  "command_text cs = concat (map (\<lambda>c. command_entry c @ '';'') cs)"

definition command_word :: "string \<Rightarrow> bool" where
  "command_word w \<longleftrightarrow> w \<noteq> [] \<and> CHR '','' \<notin> set w \<and> CHR '';'' \<notin> set w"

definition command_ok :: "graph_command \<Rightarrow> bool" where
  "command_ok = (\<lambda>(t, c, a). command_word t \<and> command_word c \<and> (\<forall>x. a = Some x \<longrightarrow> command_word x))"

fun issue_commands :: "'y policy_env \<Rightarrow> graph_command list \<Rightarrow> 'y policy_step" where
  "issue_commands env [] s w = Some (s, w)"
| "issue_commands env ((t, c, a) # cs) s w = do {
     (_, _, s1, w1) \<leftarrow> media_stub_process_command (pe_modules env) (Some (c_bytes t)) (Some (c_bytes c))
       (map_option c_bytes a) s w;
     issue_commands env cs s1 w1
   }"

lemma split_terminated:
  "\<forall>e\<in>set es. sep \<notin> set e \<Longrightarrow> split_at sep (concat (map (\<lambda>e. e @ [sep]) es)) = es @ [[]]"
  by (induction es) (auto simp: split_at_append)

lemma entry_tokens:
  assumes "command_ok (t, c, a)"
  shows "strtok_tokens CHR '','' (command_entry (t, c, a)) = t # c # (case a of None \<Rightarrow> [] | Some x \<Rightarrow> [x])"
    "CHR '';'' \<notin> set (command_entry (t, c, a))" "command_entry (t, c, a) \<noteq> []"
  using assms
  by (auto simp: command_ok_def command_word_def command_entry_def strtok_tokens_def split_at_append split_at_no_sep
      split: option.split)

lemma entries_issued:
  "\<forall>c\<in>set cs. command_ok c \<Longrightarrow> command_entries env (map command_entry cs) s w = issue_commands env cs s w"
proof (induction env cs s w rule: issue_commands.induct)
  case (2 env t c a cs s w)
  then have k: "strtok_tokens CHR '','' (command_entry (t, c, a)) = t # c # (case a of None \<Rightarrow> [] | Some x \<Rightarrow> [x])"
    by (intro entry_tokens) simp
  show ?case using 2 by (simp add: k split: option.split) (auto intro!: Option.bind_cong)
qed simp

text \<open>C29: What the policy writes is what the graph does: for any list of commands printed in the documented
  form \<open>{target,cmd,arg;}*\<close>, the plugin callback gives the graph exactly those commands, in order, each
  with its target, its name and its argument or none, and does nothing else.\<close>

theorem policy_command_roundtrip:
  assumes "\<forall>c\<in>set cs. command_ok c" "pe_strdup env (command_text cs) = Some (command_text cs)"
  shows "pfw_ffmpeg_command_callback env (c_bytes (command_text cs)) s w = issue_commands env cs s w"
proof -
  have "\<forall>e\<in>set (map command_entry cs). CHR '';'' \<notin> set e \<and> e \<noteq> []"
    using assms(1) entry_tokens(2,3) by fastforce
  then have "strtok_tokens CHR '';'' (command_text cs) = map command_entry cs"
    using split_terminated[of "map command_entry cs" "CHR '';''"]
    by (simp add: strtok_tokens_def command_text_def comp_def)
  then show ?thesis using assms(2) entries_issued[OF assms(1)] by (simp add: pfw_ffmpeg_command_callback_def)
qed

text \<open>A framework that records the commands the graph is given.\<close>

definition toy_policy :: "(bytes option \<times> bytes option \<times> bytes option) list policy_env" where
  "toy_policy = \<lparr>pe_alloc = zero_alloc, pe_narrow = (\<lambda>_. 0), pe_strdup = Some,
     pe_modules = \<lparr>policy_handler = None, focus_handler = None,
       graph_handler = Some (\<lambda>t c a b n s w. Some (0, b, s, w\<lparr>pfw := pfw w @ [(t, c, a)]\<rparr>)),
       player_handler = None, recorder_handler = None, session_handler = None\<rparr>,
     pe_open = (\<lambda>_ _. 3), pe_ioctl = (\<lambda>_ _ y. (0, y)),
     pfw_setint = (\<lambda>_ _ y. (0, [], y)), pfw_increase = (\<lambda>_ y. (0, [], y)), pfw_decrease = (\<lambda>_ y. (0, [], y)),
     pfw_setstring = (\<lambda>_ _ y. (0, [], y)), pfw_include = (\<lambda>_ _ y. (0, [], y)), pfw_exclude = (\<lambda>_ _ y. (0, [], y)),
     pfw_contain = (\<lambda>_ _ _. (0, 0)), pfw_getint = (\<lambda>_ _. (0, 5)), pfw_getstring = (\<lambda>_ b _ _. (0, b)),
     pfw_getrange = (\<lambda>_ _. (0, 0, 10)), pfw_subscribe = (\<lambda>_ _ y. (1, y)), pfw_unsubscribe = (\<lambda>_ y. y),
     pfw_apply = (\<lambda>y. ([], y)), pfw_create = (\<lambda>_ _. None)\<rparr>"

definition toy_policy_state :: "(bytes option \<times> bytes option \<times> bytes option) list media_policy_priv" where
  "toy_policy_state = \<lparr>pol_key = [], pol_value = 0, pol_pending = False, pol_kvdb = Map.empty, pfw = []\<rparr>"

lemma policy_command_roundtrip_witness:
  "pfw_ffmpeg_command_callback toy_policy (c_bytes ''sco,sample_rate,16000;sco,play,;'') local_server toy_policy_state
    = Some (local_server, toy_policy_state\<lparr>pfw := [
        (Some (c_bytes ''sco''), Some (c_bytes ''sample_rate''), Some (c_bytes ''16000'')),
        (Some (c_bytes ''sco''), Some (c_bytes ''play''), None)]\<rparr>)"
proof -
  let ?cs = "[(''sco'', ''sample_rate'', Some ''16000''), (''sco'', ''play'', None)]"
  have t: "command_text ?cs = ''sco,sample_rate,16000;sco,play,;''" by (simp add: command_text_def command_entry_def)
  have k: "\<forall>c\<in>set ?cs. command_ok c" by (simp add: command_ok_def command_word_def)
  show ?thesis
    using policy_command_roundtrip[OF k, of toy_policy local_server toy_policy_state] unfolding t
    by (simp add: toy_policy_def toy_policy_state_def media_stub_process_command_def)
qed

section \<open>Saved criteria\<close>

definition save_all :: "(bytes \<times> int) list \<Rightarrow> 'y media_policy_priv \<Rightarrow> 'y media_policy_priv" where
  "save_all saves w = fold (\<lambda>(name, state). pfw_save_criterion_cb name state) saves w"

lemma save_all_spec:
  "save_all saves w = (case rev (filter (\<lambda>(n, _). persistent n) saves) of
     [] \<Rightarrow> w | (n, v) # _ \<Rightarrow> w\<lparr>pol_key := take 63 n, pol_value := v, pol_pending := True\<rparr>)"
  by (induction saves rule: rev_induct)
    (auto simp: save_all_def pfw_save_criterion_cb_def split: list.splits)

text \<open>Of the criteria that change within the second before the delayed write, only the last persistent
  one is kept: the write stores exactly it, under its name, and loading it at the next start gives
  the value saved; every other criterion loads as it would have before, so an earlier change in the
  same second is lost, and criteria without the prefix are never stored.\<close>

theorem policy_save_keeps_last:
  assumes "filter (\<lambda>(n, _). persistent n) saves = earlier @ [(name, v)]" "length name \<le> 63"
  shows "let kept = pol_kvdb (pfw_save_criterion_work (save_all saves w)) in
    kept = (pol_kvdb w)(name \<mapsto> v)
    \<and> pfw_load_criterion_cb kept other d = (if other = name then v else pfw_load_criterion_cb (pol_kvdb w) other d)"
proof -
  have "(name, v) \<in> set (filter (\<lambda>(n, _). persistent n) saves)" unfolding assms(1) by simp
  then have p: "persistent name" by auto
  have k: "pol_kvdb (pfw_save_criterion_work (save_all saves w)) = (pol_kvdb w)(name \<mapsto> v)"
    using assms by (simp add: save_all_spec pfw_save_criterion_work_def)
  show ?thesis unfolding k Let_def using p by (simp add: pfw_load_criterion_cb_def)
qed

lemma policy_save_keeps_last_witness:
  "pfw_load_criterion_cb (pol_kvdb (pfw_save_criterion_work (save_all [(c_bytes ''persist.media.Music'', 3),
      (c_bytes ''persist.media.Ring'', 7)] toy_policy_state))) (c_bytes ''persist.media.Music'') 5 = 5"
proof -
  have p: "filter (\<lambda>(n, _). persistent n) [(c_bytes ''persist.media.Music'', 3), (c_bytes ''persist.media.Ring'', 7)]
      = [(c_bytes ''persist.media.Music'', 3)] @ [(c_bytes ''persist.media.Ring'', 7::int)]"
    by (simp add: persistent_def MEDIA_PERSIST_def c_bytes_def)
  have n: "c_bytes ''persist.media.Music'' \<noteq> c_bytes ''persist.media.Ring''" "length (c_bytes ''persist.media.Ring'') \<le> 63"
    by (simp, simp add: c_bytes_def)
  show ?thesis
    using policy_save_keeps_last[OF p n(2), of toy_policy_state "c_bytes ''persist.media.Music''" 5] n(1)
    by (simp add: Let_def pfw_load_criterion_cb_def toy_policy_state_def)
qed

end
