(* ===== verification/Focus_Server.thy ===== *)
theory Focus_Server
  imports Media_Focus Media_Text
begin

text \<open>
  The focus arbitration as a module of the server: the handler of \<open>server/media_focus.c\<close> called by
  the stub, with what it does to the connections carried out on the server's state.
\<close>

section \<open>The module\<close>

fun carry_out :: "allocator \<Rightarrow> (64 word \<Rightarrow> 32 word) \<Rightarrow> nat option \<Rightarrow> focus_effect list \<Rightarrow> media_server_priv
    \<Rightarrow> media_server_priv option" where
  \<comment> \<open>the calls of the server the focus makes, in order; \<open>cookie\<close> is the connection of the request\<close>
  "carry_out alloc narrow cookie [] s = Some s"
| "carry_out alloc narrow cookie (Focus_set_data h # es) s = carry_out alloc narrow cookie es (media_server_set_data cookie h s)"
| "carry_out alloc narrow cookie (Focus_notify_finalize # es) s =
     carry_out alloc narrow cookie es (fst (media_stub_notify_finalize s (Some cookie)))"
| "carry_out alloc narrow cookie (Focus_suggest p v # es) s = do {
     s1 \<leftarrow> media_stub_notify_event alloc narrow s p (word_of_int v) 0 None;
     carry_out alloc narrow cookie es s1
   }"

definition print_response :: "string \<Rightarrow> bytes option \<Rightarrow> 32 word \<Rightarrow> bytes option option" where
  \<comment> \<open>\<open>snprintf\<close> of a text that has been cut to the buffer; with no buffer the length must be zero\<close>
  "print_response out res len = (case res of
     None \<Rightarrow> if len = 0 then Some None else None
   | Some b \<Rightarrow> map_option (\<lambda>m. Some (c_bytes m)) (mem_put 0 (out @ [NUL]) (b_str b)))"

definition focus_module :: "allocator \<Rightarrow> (64 word \<Rightarrow> 32 word) \<Rightarrow> (nat \<Rightarrow> bool) \<Rightarrow> nat \<Rightarrow> nat \<Rightarrow> nat option \<Rightarrow> bytes option
    \<Rightarrow> bytes option \<Rightarrow> bytes option \<Rightarrow> 32 word \<Rightarrow> media_focus served_call" where
  \<comment> \<open>\<open>media_focus_handler(media_get_focus(), cookie, target, cmd, response, len)\<close>\<close>
  "focus_module alloc narrow live tid cb cookie name cmd res len s f = do {
     (r, out, es, f1) \<leftarrow> media_focus_handler (Some f) live tid (Some cb) f cookie (media_server_get_data s cookie)
       (map_option b_str name) (map_option b_str cmd) (unat len);
     s1 \<leftarrow> carry_out alloc narrow cookie es s;
     res1 \<leftarrow> (if cmd = Some (c_bytes ''peek'') \<and> 0 \<le> r then print_response out res len else Some res);
     Some (r, res1, s1, f1)
   }"

definition focus_modules :: "allocator \<Rightarrow> (64 word \<Rightarrow> 32 word) \<Rightarrow> (nat \<Rightarrow> bool) \<Rightarrow> nat \<Rightarrow> nat \<Rightarrow> media_focus modules" where
  \<comment> \<open>a build with the focus only\<close>
  "focus_modules alloc narrow live tid cb = \<lparr>policy_handler = None, focus_handler = Some (focus_module alloc narrow live tid cb),
     graph_handler = None, player_handler = None, recorder_handler = None, session_handler = None\<rparr>"

section \<open>The module keeps its promise\<close>

lemma carry_out_ok:
  "alloc_total alloc \<Longrightarrow> sends s = [] \<Longrightarrow> \<exists>s1. carry_out alloc narrow (Some j) es s = Some s1 \<and> same_requests s s1"
proof (induction es arbitrary: s)
  case (Cons e es)
  have step: "\<exists>s1. carry_out alloc narrow (Some j) es t = Some s1 \<and> same_requests s s1" if "same_requests s t" for t
  proof -
    have "sends t = []" using that Cons.prems(2) by (simp add: same_requests_def)
    then show ?thesis using Cons.IH[OF Cons.prems(1)] same_requests_trans[OF that] by blast
  qed
  show ?case
  proof (cases e)
    case (Focus_set_data h)
    then show ?thesis using step[OF set_data_same(1)] by simp
  next
    case Focus_notify_finalize
    then show ?thesis using step[OF finalize_same(1)] by (simp add: media_stub_notify_finalize_def)
  next
    case (Focus_suggest p v)
    then show ?thesis
      using step[OF same_requests_send(1)] notify_event_posts[OF Cons.prems(1) event_ok_plain Cons.prems(2), of narrow p "word_of_int v" 0]
      by simp
  qed
qed simp

lemma handler_output: "media_focus_handler ctx live tid cb f cookie d name cmd len = Some (r, out, es, f1) \<Longrightarrow> length out \<le> len - 1"
proof -
  assume h: "media_focus_handler ctx live tid cb f cookie d name cmd len = Some (r, out, es, f1)"
  then obtain c where c: "cmd = Some c" by (cases cmd) (auto simp: media_focus_handler_def)
  show "length out \<le> len - 1"
  proof (cases "c = ''peek''")
    case True
    then show ?thesis using h c
      by (fastforce simp: media_focus_handler_def bind_eq_Some_conv split: if_split_asm prod.split_asm)
  next
    case False
    then have "out = []" using h c
      by (auto simp: media_focus_handler_def bind_eq_Some_conv split: if_split_asm option.split_asm prod.split_asm)
    then show ?thesis by simp
  qed
qed

lemma print_response_ok:
  assumes "buffer_ok res len" "length out \<le> unat len - 1"
  shows "\<exists>r. print_response out res len = Some r \<and> response_ok res r"
proof (cases res)
  case None
  then show ?thesis using assms(1) by (simp add: buffer_ok_def print_response_def response_ok_def)
next
  case (Some b)
  then have b: "length b = unat len" "b \<noteq> []" using assms(1) by (auto simp: buffer_ok_def)
  then have "0 < unat len" by (cases b) auto
  then have l: "length out + 1 \<le> length (b_str b)" using assms(2) b(1) by (simp add: b_str_def)
  then show ?thesis using Some
    by (auto simp: print_response_def mem_put_def response_ok_def c_bytes_def b_str_def)
qed

text \<open>The clients' part: the response asked for has a size.\<close>

definition sized_request :: "request \<Rightarrow> bool" where
  "sized_request r \<longleftrightarrow> 0 \<le> sint (req_len r)"

lemma focus_modules_ok:
  assumes "alloc_total alloc"
  shows "served_ok focus_wf sized_request alloc (focus_modules alloc narrow live tid cb)"
  unfolding served_ok_def call_ok_def
proof (intro allI impI)
  fix j r and s :: media_server_priv and f
  assume r: "sized_request r" "norm (req_cmd r) \<noteq> None" and f: "focus_wf f" and s: "sends s = []"
  let ?b = "response_buffer alloc (req_len r)"
  have b: "buffer_ok ?b (req_len r)" using response_buffer_ok[OF assms] r(1) by (simp add: sized_request_def)
  obtain c where c: "norm (req_cmd r) = Some c" using r(2) by blast
  obtain q out es f1 where h: "media_focus_handler (Some f) live tid (Some cb) f (Some j) (media_server_get_data s (Some j))
      (map_option b_str (norm (req_target r))) (Some (b_str c)) (unat (req_len r)) = Some (q, out, es, f1)" "focus_wf f1"
    using focus_handler_total[OF f] by blast
  obtain s1 where s1: "carry_out alloc narrow (Some j) es s = Some s1" "same_requests s s1"
    using carry_out_ok[OF assms s] by blast
  obtain p where p: "print_response out ?b (req_len r) = Some p" "response_ok ?b p"
    using print_response_ok[OF b handler_output[OF h(1)]] by blast
  have "focus_module alloc narrow live tid cb (Some j) (norm (req_target r)) (Some c) ?b (req_len r) s f
    = Some (q, if c = c_bytes ''peek'' \<and> 0 \<le> q then p else ?b, s1, f1)"
    using h(1) s1(1) p(1) by (simp add: focus_module_def)
  moreover have "response_ok ?b None" by (simp add: response_ok_def)
  ultimately show "\<exists>ret resp s' w'. served_as alloc (focus_modules alloc narrow live tid cb) j r s f = Some (ret, resp, s', w')
      \<and> same_requests s s' \<and> focus_wf w' \<and> response_ok ?b resp"
    using c s1(2) h(2) f p(2) buffer_ok_same[OF b]
    by (auto simp: served_as_def focus_modules_def call_module_def Let_def)
qed


definition focus_ping :: request where
  "focus_ping = \<lparr>req_module = MEDIA_ID_FOCUS, req_target = None, req_cmd = Some (c_bytes ''ping''), req_arg = None,
     req_apply = 0, req_len = 4\<rparr>"

lemma focus_ping_ok:
  "request_safe focus_ping" "sized_request focus_ping" "2 * length (request_bytes narrow focus_ping) \<le> max_payload"
  by (simp_all add: request_safe_def request_wf_def focus_ping_def c_arg_def norm_def max_response_def sized_request_def
      c_bytes_def request_bytes_split request_fmt_def request_args_def media_ids conversions_def le_bytes_4 max_payload_def)


end
