(* ===== verification/Media_Client.thy ===== *)
theory Media_Client
  imports Media_Proxy Media_Text
begin

text \<open>
  The synchronous client libraries of the session, the focus and the policy:
  \<open>client/media_session.c\<close>, \<open>client/media_focus.c\<close>, \<open>client/media_policy.c\<close>.

  A handle is the record of its structure, \<open>None\<close> is NULL, and the result of a function that may
  change it holds it again. The network is a script: each transaction on a connection meets the next
  pair of send and receive events, each search for a server the next answer of every processor; what
  was sent and which descriptors and blocks were given up is logged.
\<close>

section \<open>The network and the environment\<close>

record client_net =
  net_script :: "(send_event list \<times> recv_event list) list"
  net_cpus :: "(bytes \<Rightarrow> cpu_env) list"
  net_sent :: "bytes list"
  net_effects :: "client_effect list"

record client_env =
  ce_alloc :: allocator
  ce_narrow :: "64 word \<Rightarrow> 32 word"
  ce_sizes :: addr_sizes
  ce_local_cpu :: bytes
  ce_cpuname :: bytes
  ce_mem :: bool
  ce_handle :: int
  ce_key :: bytes
  ce_sock :: "sock_addr \<Rightarrow> int"
  ce_bind :: "sock_addr \<Rightarrow> int"
  ce_listen :: "sock_addr \<Rightarrow> int"
  ce_created :: int
  ce_thread :: nat
  ce_join :: int
  ce_stack :: "nat \<Rightarrow> bytes"
  ce_strdup :: "string \<Rightarrow> string option"
  ce_null :: string
  ce_release_cb :: int
  ce_event_cb :: int

definition no_proxy :: media_proxy_priv where
  \<comment> \<open>the common fields after \<open>calloc\<close>\<close>
  "no_proxy = \<lparr>proxy_type = 0, proxy = None, proxy_cpu = None\<rparr>"

definition client_transact :: "client_env \<Rightarrow> media_proxy_priv option \<Rightarrow> bytes option \<Rightarrow> bytes option \<Rightarrow> bytes option
    \<Rightarrow> bytes option \<Rightarrow> 32 word \<Rightarrow> client_net \<Rightarrow> (int \<times> bytes option \<times> client_net) option" where
  \<comment> \<open>\<open>media_proxy_once(handle, target, cmd, arg, 0, res, len)\<close>\<close>
  "client_transact env handle target cmd arg res len k =
    (case (case net_script k of [] \<Rightarrow> ([], []) | e # _ \<Rightarrow> e) of (sevs, revs) \<Rightarrow> do {
       (ret, res1, sent, _) \<leftarrow> media_proxy_once (ce_alloc env) (ce_narrow env) handle target cmd arg 0 res len sevs revs;
       Some (ret, res1, k\<lparr>net_script := tl (net_script k), net_sent := net_sent k @ [sent]\<rparr>)
     })"

definition client_once :: "client_env \<Rightarrow> media_proxy_priv option \<Rightarrow> bytes option \<Rightarrow> string \<Rightarrow> bytes option \<Rightarrow> bytes option
    \<Rightarrow> 32 word \<Rightarrow> client_net \<Rightarrow> (int \<times> bytes option \<times> client_net) option" where
  \<comment> \<open>the same for a command known to the library\<close>
  "client_once env handle target cmd = client_transact env handle target (Some (c_bytes cmd))"

definition client_proxy :: "client_env \<Rightarrow> 32 word \<Rightarrow> media_proxy_priv option \<Rightarrow> bytes option \<Rightarrow> string \<Rightarrow> bytes option \<Rightarrow> 32 word
    \<Rightarrow> bytes option \<Rightarrow> 32 word \<Rightarrow> client_net \<Rightarrow> (int \<times> bytes option \<times> media_proxy_priv \<times> client_net) option" where
  \<comment> \<open>\<open>media_proxy(id, handle, target, cmd, arg, apply, res, len)\<close> for a handle with no connection yet, or none\<close>
  "client_proxy env ident handle target cmd arg apply_it res len k =
    (let none = (\<lambda>_. \<lparr>env_mem = False, env_sock = 0, env_connect = 0, env_sevs = [], env_revs = []\<rparr>);
         cpus = (case net_cpus k of [] \<Rightarrow> none | e # _ \<Rightarrow> e) in do {
       (ret, res1, priv, log) \<leftarrow> media_proxy (ce_alloc env) (ce_narrow env) (ce_sizes env) (ce_local_cpu env) (ce_cpuname env) cpus
         ident handle target (Some (c_bytes cmd)) arg apply_it res len [] [];
       Some (ret, res1, priv, k\<lparr>net_cpus := tl (net_cpus k), net_sent := net_sent k @ map snd log\<rparr>)
     })"

definition client_listen :: "client_env \<Rightarrow> media_proxy_priv \<Rightarrow> client_net \<Rightarrow> (int \<times> media_proxy_priv \<times> client_net) option" where
  \<comment> \<open>\<open>media_proxy_set_event_cb(priv->proxy, priv->cpu, cb, priv)\<close>\<close>
  "client_listen env priv k =
    (case (case net_script k of [] \<Rightarrow> ([], []) | e # _ \<Rightarrow> e) of (sevs, _) \<Rightarrow> do {
       cpu \<leftarrow> proxy_cpu priv;
       (ret, c, sent, eff) \<leftarrow> media_proxy_set_event_cb (ce_alloc env) (ce_sizes env) (ce_local_cpu env) (ce_sock env) (ce_bind env)
         (ce_listen env) (ce_key env) (ce_created env) (ce_thread env) (proxy priv) cpu (Some (ce_event_cb env)) (ce_handle env) sevs;
       Some (ret, priv\<lparr>proxy := c\<rparr>,
         k\<lparr>net_script := tl (net_script k), net_sent := net_sent k @ [sent], net_effects := net_effects k @ eff\<rparr>)
     })"

definition client_release :: "client_env \<Rightarrow> media_proxy_priv \<Rightarrow> media_proxy_priv" where
  \<comment> \<open>\<open>media_proxy_set_release_cb(priv->proxy, cb, priv)\<close>\<close>
  "client_release env priv =
     priv\<lparr>proxy := snd (media_proxy_set_release_cb (proxy priv) (Some (ce_release_cb env)) (ce_handle env))\<rparr>"

definition client_disconnect :: "client_env \<Rightarrow> media_proxy_priv \<Rightarrow> client_net \<Rightarrow> int \<times> media_proxy_priv option \<times> client_net" where
  \<comment> \<open>\<open>media_proxy_disconnect(priv->proxy)\<close>; when the last reference goes, the release callback frees the handle\<close>
  "client_disconnect env priv k = (case media_proxy_disconnect (ce_join env) (proxy priv) of (ret, c, eff) \<Rightarrow>
     (ret, (case c of None \<Rightarrow> None | Some c \<Rightarrow> Some (priv\<lparr>proxy := Some c\<rparr>)), k\<lparr>net_effects := net_effects k @ eff\<rparr>))"

text \<open>A handle's one command with no argument, the body of many functions.\<close>

definition client_command :: "client_env \<Rightarrow> media_proxy_priv option \<Rightarrow> string \<Rightarrow> bytes option \<Rightarrow> client_net \<Rightarrow> (int \<times> client_net) option" where
  "client_command env handle cmd arg k = do { (ret, _, k1) \<leftarrow> client_once env handle None cmd arg None 0 k; Some (ret, k1) }"

text \<open>The event a callback reads from a notification; variables it could not read are uninitialised.\<close>

definition read_event :: "media_parcel \<Rightarrow> (32 word \<times> 32 word \<times> bytes option) option" where
  "read_event msg = do {
     (_, vals, _) \<leftarrow> media_parcel_read_scanf msg ''%i%i%s'' [True, True, True];
     (case vals of
        [S32 event, S32 result, SString extra] \<Rightarrow> Some (event, result, extra)
      | _ \<Rightarrow> None)
   }"

section \<open>Session\<close>

record client_session =
  ses_proxy :: media_proxy_priv
  ses_cookie :: int
  ses_event :: "int option"
  ses_data :: media_metadata
  ses_need_query :: bool

type_synonym user_event = "int \<times> int \<times> 32 word \<times> 32 word \<times> bytes option"

definition session_event_cb :: "client_session \<Rightarrow> media_parcel \<Rightarrow> (client_session \<times> user_event list) option" where
  \<comment> \<open>the handle and the call of the user's callback, with its cookie\<close>
  "session_event_cb priv msg = do {
     (event, ret, extra) \<leftarrow> read_event msg;
     let priv1 = (if sint event = MEDIA_EVENT_CHANGED
          then priv\<lparr>ses_data := media_metadata_reinit (ses_data priv), ses_need_query := True\<rparr>
        else if sint event = MEDIA_EVENT_UPDATED then priv\<lparr>ses_need_query := True\<rparr> else priv);
     Some (priv1, (case ses_event priv1 of None \<Rightarrow> [] | Some f \<Rightarrow> [(f, ses_cookie priv1, event, ret, extra)]))
   }"

definition media_session_open :: "client_env \<Rightarrow> bytes option \<Rightarrow> client_net \<Rightarrow> (client_session option \<times> client_net) option" where
  "media_session_open env params k =
    (if \<not> ce_mem env then Some (None, k)
     else do {
       (ret, _, priv, k1) \<leftarrow> client_proxy env MEDIA_ID_SESSION (Some no_proxy) None ''open'' params 0 None 0 k;
       Some (if ret < 0 then None
         else Some \<lparr>ses_proxy = client_release env priv, ses_cookie = 0, ses_event = None, ses_data = media_metadata_init,
           ses_need_query = True\<rparr>, k1)
     })"

definition media_session_set_event_callback :: "client_env \<Rightarrow> client_session option \<Rightarrow> int \<Rightarrow> int option \<Rightarrow> client_net
    \<Rightarrow> (int \<times> client_session option \<times> client_net) option" where
  "media_session_set_event_callback env handle cookie event_cb k = (case handle of
     None \<Rightarrow> Some (-EINVAL, None, k)
   | Some priv \<Rightarrow> do {
       (ret, p, k1) \<leftarrow> client_listen env (ses_proxy priv) k;
       let priv1 = priv\<lparr>ses_proxy := p\<rparr>;
       (if ret < 0 then Some (ret, Some priv1, k1)
        else do {
          (ret, k2) \<leftarrow> client_command env (Some p) ''set_event'' None k1;
          Some (if ret < 0 then (ret, Some priv1, k2)
            else (ret, Some (priv1\<lparr>ses_event := event_cb, ses_cookie := cookie\<rparr>), k2))
        })
     })"

definition session_end :: "client_env \<Rightarrow> string \<Rightarrow> bool \<Rightarrow> client_session option \<Rightarrow> client_net
    \<Rightarrow> (int \<times> client_session option \<times> client_net) option" where
  \<comment> \<open>closing a controller, with its data dropped, and unregistering a player\<close>
  "session_end env cmd drop_data handle k = (case handle of
     None \<Rightarrow> Some (-EINVAL, None, k)
   | Some priv \<Rightarrow> do {
       (ret, k1) \<leftarrow> client_command env (Some (ses_proxy priv)) cmd None k;
       (if ret < 0 then Some (ret, Some priv, k1)
        else let priv1 = (if drop_data then priv\<lparr>ses_data := media_metadata_deinit (ses_data priv)\<rparr> else priv) in
          (case client_disconnect env (ses_proxy priv1) k1 of (ret, p, k2) \<Rightarrow>
             Some (ret, (case p of None \<Rightarrow> None | Some p \<Rightarrow> Some (priv1\<lparr>ses_proxy := p\<rparr>)), k2)))
     })"

definition media_session_close :: "client_env \<Rightarrow> client_session option \<Rightarrow> client_net
    \<Rightarrow> (int \<times> client_session option \<times> client_net) option" where
  "media_session_close env = session_end env ''close'' True"

definition media_session_unregister :: "client_env \<Rightarrow> client_session option \<Rightarrow> client_net
    \<Rightarrow> (int \<times> client_session option \<times> client_net) option" where
  "media_session_unregister env = session_end env ''unregister'' False"

definition session_control :: "client_env \<Rightarrow> client_session option \<Rightarrow> string \<Rightarrow> bytes option \<Rightarrow> client_net \<Rightarrow> (int \<times> client_net) option" where
  "session_control env handle cmd arg k = client_command env (map_option ses_proxy handle) cmd arg k"

definition media_session_start :: "client_env \<Rightarrow> client_session option \<Rightarrow> client_net \<Rightarrow> (int \<times> client_net) option" where
  "media_session_start env handle = session_control env handle ''start'' None"

definition media_session_pause :: "client_env \<Rightarrow> client_session option \<Rightarrow> client_net \<Rightarrow> (int \<times> client_net) option" where
  "media_session_pause env handle = session_control env handle ''pause'' None"

definition media_session_seek :: "client_env \<Rightarrow> client_session option \<Rightarrow> nat \<Rightarrow> client_net \<Rightarrow> (int \<times> client_net) option" where
  "media_session_seek env handle msec = session_control env handle ''seek'' (Some (c_bytes (nat_digits msec)))"

definition media_session_stop :: "client_env \<Rightarrow> client_session option \<Rightarrow> client_net \<Rightarrow> (int \<times> client_net) option" where
  "media_session_stop env handle = session_control env handle ''stop'' None"

definition media_session_increase_volume :: "client_env \<Rightarrow> client_session option \<Rightarrow> client_net \<Rightarrow> (int \<times> client_net) option" where
  "media_session_increase_volume env handle = session_control env handle ''volumeup'' None"

definition media_session_decrease_volume :: "client_env \<Rightarrow> client_session option \<Rightarrow> client_net \<Rightarrow> (int \<times> client_net) option" where
  "media_session_decrease_volume env handle = session_control env handle ''volumedown'' None"

definition media_session_next_song :: "client_env \<Rightarrow> client_session option \<Rightarrow> client_net \<Rightarrow> (int \<times> client_net) option" where
  "media_session_next_song env handle = session_control env handle ''next'' None"

definition media_session_prev_song :: "client_env \<Rightarrow> client_session option \<Rightarrow> client_net \<Rightarrow> (int \<times> client_net) option" where
  "media_session_prev_song env handle = session_control env handle ''prev'' None"

definition media_session_set_volume :: "client_session option \<Rightarrow> int \<Rightarrow> int" where
  "media_session_set_volume handle volume = -ENOSYS"

definition media_session_query :: "client_env \<Rightarrow> client_session option \<Rightarrow> client_net
    \<Rightarrow> (int \<times> client_session option \<times> client_net) option" where
  \<comment> \<open>the data pointed to is the handle's own\<close>
  "media_session_query env handle k = (case handle of
     None \<Rightarrow> Some (-EINVAL, None, k)
   | Some priv \<Rightarrow>
       if ses_need_query priv then do {
         (ret, tmp, k1) \<leftarrow> client_once env (Some (ses_proxy priv)) None ''query'' None (Some (ce_stack env 256)) 256 k;
         (if ret < 0 then Some (ret, Some priv, k1)
          else do {
            str \<leftarrow> c_str tmp;
            (ret, d) \<leftarrow> media_metadata_unserialize (ce_strdup env) (media_metadata_reinit (ses_data priv)) (map_option b_str str);
            (if ret < 0 then Some (ret, Some (priv\<lparr>ses_data := media_metadata_deinit d\<rparr>), k1)
             else Some (0, Some (priv\<lparr>ses_data := d, ses_need_query := (ses_event priv = None)\<rparr>), k1))
          })
       }
       else Some (0, Some priv, k))"

definition session_get :: "client_env \<Rightarrow> int \<Rightarrow> (media_metadata \<Rightarrow> 'v) \<Rightarrow> bool \<Rightarrow> client_session option \<Rightarrow> client_net
    \<Rightarrow> (int \<times> 'v option \<times> client_session option \<times> client_net) option" where
  \<comment> \<open>the body of the four getters; \<open>wanted\<close> says whether there is a place for the value\<close>
  "session_get env flag field wanted handle k =
    (if \<not> wanted then Some (-EINVAL, None, handle, k)
     else do {
       (ret, handle1, k1) \<leftarrow> media_session_query env handle k;
       (if ret < 0 then Some (ret, None, handle1, k1)
        else do {
          priv \<leftarrow> handle1;
          Some (if \<not> has_flag (meta_flags (ses_data priv)) flag then (-EAGAIN, None, handle1, k1)
            else (ret, Some (field (ses_data priv)), handle1, k1))
        })
     })"

definition media_session_get_state :: "client_env \<Rightarrow> bool \<Rightarrow> client_session option \<Rightarrow> client_net
    \<Rightarrow> (int \<times> int option \<times> client_session option \<times> client_net) option" where
  "media_session_get_state env = session_get env MEDIA_METAFLAG_STATE meta_state"

definition media_session_get_position :: "client_env \<Rightarrow> bool \<Rightarrow> client_session option \<Rightarrow> client_net
    \<Rightarrow> (int \<times> nat option \<times> client_session option \<times> client_net) option" where
  "media_session_get_position env = session_get env MEDIA_METAFLAG_POSITION meta_position"

definition media_session_get_duration :: "client_env \<Rightarrow> bool \<Rightarrow> client_session option \<Rightarrow> client_net
    \<Rightarrow> (int \<times> nat option \<times> client_session option \<times> client_net) option" where
  "media_session_get_duration env = session_get env MEDIA_METAFLAG_DURATION meta_duration"

definition media_session_get_volume :: "client_env \<Rightarrow> bool \<Rightarrow> client_session option \<Rightarrow> client_net
    \<Rightarrow> (int \<times> int option \<times> client_session option \<times> client_net) option" where
  "media_session_get_volume env = session_get env MEDIA_METAFLAG_VOLUME meta_volume"

definition media_session_register :: "client_env \<Rightarrow> int \<Rightarrow> int option \<Rightarrow> client_net \<Rightarrow> (client_session option \<times> client_net) option" where
  \<comment> \<open>on the last error the handle is freed and the connection, which it points to, is left as it is\<close>
  "media_session_register env cookie event_cb k =
    (if \<not> ce_mem env then Some (None, k)
     else do {
       (ret, _, priv, k1) \<leftarrow> client_proxy env MEDIA_ID_SESSION (Some no_proxy) None ''register'' None 0 None 0 k;
       (if ret < 0 then Some (None, k1)
        else do {
          (ret, p, k2) \<leftarrow> client_listen env priv k1;
          Some (if ret < 0 then None
            else Some \<lparr>ses_proxy = client_release env p, ses_cookie = cookie, ses_event = event_cb,
              ses_data = media_metadata_init, ses_need_query = False\<rparr>, k2)
        })
     })"

definition media_session_notify :: "client_env \<Rightarrow> client_session option \<Rightarrow> int \<Rightarrow> int \<Rightarrow> bytes option \<Rightarrow> client_net
    \<Rightarrow> (int \<times> client_net) option" where
  "media_session_notify env handle event result extra k = do {
     (ret, _, k1) \<leftarrow> client_once env (map_option ses_proxy handle) extra ''event''
       (Some (c_bytes (int_digits event @ CHR '':'' # int_digits result))) None 0 k;
     Some (ret, k1)
   }"

definition media_session_update :: "client_env \<Rightarrow> client_session option \<Rightarrow> media_metadata option \<Rightarrow> client_net
    \<Rightarrow> (int \<times> client_net) option" where
  "media_session_update env handle d k = (case (handle, d) of
     (Some priv, Some d) \<Rightarrow> do {
       (_, buf) \<leftarrow> media_metadata_serialize (ce_null env) d (Some (b_str (ce_stack env 256))) 256;
       str \<leftarrow> c_str (map_option c_bytes buf);
       client_command env (Some (ses_proxy priv)) ''update'' str k
     }
   | _ \<Rightarrow> Some (-EINVAL, k))"

section \<open>Focus\<close>

record client_focus =
  foc_proxy :: media_proxy_priv
  foc_cookie :: int
  foc_cb :: int

definition media_suggest_cb :: "client_focus \<Rightarrow> media_parcel \<Rightarrow> (int \<times> 32 word \<times> int) option" where
  \<comment> \<open>the user's callback, the suggestion and the cookie it is called with\<close>
  "media_suggest_cb priv msg = do { (event, _, _) \<leftarrow> read_event msg; Some (foc_cb priv, event, foc_cookie priv) }"

definition media_focus_abandon :: "client_env \<Rightarrow> client_focus option \<Rightarrow> client_net \<Rightarrow> (int \<times> client_focus option \<times> client_net) option" where
  \<comment> \<open>with NULL the transaction fails first\<close>
  "media_focus_abandon env handle k = do {
     (ret, k1) \<leftarrow> client_command env (map_option foc_proxy handle) ''abandon'' None k;
     (if ret < 0 \<and> ret \<noteq> -ENOENT then Some (ret, handle, k1)
      else do {
        priv \<leftarrow> handle;
        (case client_disconnect env (foc_proxy priv) k1 of (ret, p, k2) \<Rightarrow>
           Some (ret, (case p of None \<Rightarrow> None | Some p \<Rightarrow> Some (priv\<lparr>foc_proxy := p\<rparr>)), k2))
      })
   }"

definition media_focus_request :: "client_env \<Rightarrow> bool \<Rightarrow> bytes option \<Rightarrow> int \<Rightarrow> int \<Rightarrow> client_net
    \<Rightarrow> (client_focus option \<times> int option \<times> client_focus option \<times> client_net) option" where
  \<comment> \<open>the handle returned, the suggestion stored, and a handle that was not freed although NULL is returned\<close>
  "media_focus_request env wanted scenario cb cookie k =
    (if \<not> wanted \<or> scenario = None then Some (None, None, None, k)
     else if \<not> ce_mem env then Some (None, None, None, k)
     else do {
       (ret, _, p, k1) \<leftarrow> client_proxy env MEDIA_ID_FOCUS (Some no_proxy) None ''ping'' None 0 None 0 k;
       (if ret < 0 then Some (None, None, None, k1)
        else do {
          let priv = \<lparr>foc_proxy = client_release env p, foc_cookie = cookie, foc_cb = cb\<rparr>;
          (ret, p2, k2) \<leftarrow> client_listen env (foc_proxy priv) k1;
          let priv1 = priv\<lparr>foc_proxy := p2\<rparr>;
          (if ret < 0 then do {
             (_, left, k3) \<leftarrow> media_focus_abandon env (Some priv1) k2;
             Some (None, None, left, k3)
           }
           else do {
             (sugg, _, k3) \<leftarrow> client_once env (Some p2) scenario ''request'' None None 0 k2;
             (if sugg < 0 then do {
                (_, left, k4) \<leftarrow> media_focus_abandon env (Some priv1) k3;
                Some (None, Some sugg, left, k4)
              }
              else Some (Some priv1, Some sugg, None, k3))
           })
        })
     })"

definition media_focus_dump :: "client_env \<Rightarrow> bytes option \<Rightarrow> client_net \<Rightarrow> client_net option" where
  "media_focus_dump env options k = do {
     (_, _, _, k1) \<leftarrow> client_proxy env MEDIA_ID_FOCUS None None ''dump'' options 0 None 0 k;
     Some k1
   }"

section \<open>Policy\<close>

definition MEDIA_POLICY_APPLY :: "32 word" where "MEDIA_POLICY_APPLY = 1"
definition MEDIA_POLICY_NOT_APPLY :: "32 word" where "MEDIA_POLICY_NOT_APPLY = 0"

definition policy_call :: "client_env \<Rightarrow> bytes option \<Rightarrow> string \<Rightarrow> bytes option \<Rightarrow> 32 word \<Rightarrow> client_net \<Rightarrow> (int \<times> client_net) option" where
  "policy_call env name cmd arg apply_it k = do {
     (ret, _, _, k1) \<leftarrow> client_proxy env MEDIA_ID_POLICY None name cmd arg apply_it None 0 k;
     Some (ret, k1)
   }"

definition policy_number :: "client_env \<Rightarrow> bytes option \<Rightarrow> string \<Rightarrow> bytes option \<Rightarrow> bool \<Rightarrow> client_net
    \<Rightarrow> (int \<times> int option \<times> client_net) option" where
  \<comment> \<open>a query answered by a number in \<open>char tmp[32]\<close>; \<open>wanted\<close> says whether there is a place for it\<close>
  "policy_number env name cmd arg wanted k =
    (if \<not> wanted then Some (-EINVAL, None, k)
     else do {
       (ret, tmp, _, k1) \<leftarrow> client_proxy env MEDIA_ID_POLICY None name cmd arg 0 (Some (ce_stack env 32)) 32 k;
       (if 0 \<le> ret then do {
          str \<leftarrow> c_str tmp;
          b \<leftarrow> str;
          v \<leftarrow> atoi (b_str b);
          Some (0, Some v, k1)
        }
        else Some (ret, None, k1))
     })"

definition media_policy_set_int :: "client_env \<Rightarrow> bytes option \<Rightarrow> int \<Rightarrow> 32 word \<Rightarrow> client_net \<Rightarrow> (int \<times> client_net) option" where
  "media_policy_set_int env name v = policy_call env name ''set_int'' (Some (c_bytes (int_digits v)))"

definition media_policy_get_int :: "client_env \<Rightarrow> bytes option \<Rightarrow> bool \<Rightarrow> client_net \<Rightarrow> (int \<times> int option \<times> client_net) option" where
  "media_policy_get_int env name = policy_number env name ''get_int'' None"

definition media_policy_contain :: "client_env \<Rightarrow> bytes option \<Rightarrow> bytes option \<Rightarrow> bool \<Rightarrow> client_net
    \<Rightarrow> (int \<times> int option \<times> client_net) option" where
  "media_policy_contain env name values = policy_number env name ''contain'' values"

definition media_policy_get_range :: "client_env \<Rightarrow> bytes option \<Rightarrow> bool \<Rightarrow> client_net
    \<Rightarrow> (int \<times> int list \<times> client_net) option" where
  \<comment> \<open>the values stored, the minimum first; \<open>sscanf\<close> may store fewer than two\<close>
  "media_policy_get_range env name wanted k =
    (if \<not> wanted then Some (-EINVAL, [], k)
     else do {
       (ret, tmp, _, k1) \<leftarrow> client_proxy env MEDIA_ID_POLICY None name ''get_range'' None 0 (Some (ce_stack env 32)) 32 k;
       (if 0 \<le> ret then do {
          str \<leftarrow> c_str tmp;
          b \<leftarrow> str;
          vals \<leftarrow> sscanf_values [Scan_d, Scan_char CHR '','', Scan_d] (b_str b);
          Some (0, concat (map (\<lambda>v. case v of Int_value i \<Rightarrow> [i] | _ \<Rightarrow> []) vals), k1)
        }
        else Some (ret, [], k1))
     })"

definition media_policy_set_string :: "client_env \<Rightarrow> bytes option \<Rightarrow> bytes option \<Rightarrow> 32 word \<Rightarrow> client_net \<Rightarrow> (int \<times> client_net) option" where
  "media_policy_set_string env name v = policy_call env name ''set_string'' v"

definition media_policy_get_string :: "client_env \<Rightarrow> bytes option \<Rightarrow> bytes option \<Rightarrow> 32 word \<Rightarrow> client_net
    \<Rightarrow> (int \<times> bytes option \<times> client_net) option" where
  "media_policy_get_string env name buf len k = do {
     (ret, buf1, _, k1) \<leftarrow> client_proxy env MEDIA_ID_POLICY None name ''get_string'' None 0 buf len k;
     Some (ret, buf1, k1)
   }"

definition media_policy_include :: "client_env \<Rightarrow> bytes option \<Rightarrow> bytes option \<Rightarrow> 32 word \<Rightarrow> client_net \<Rightarrow> (int \<times> client_net) option" where
  "media_policy_include env name values = policy_call env name ''include'' values"

definition media_policy_exclude :: "client_env \<Rightarrow> bytes option \<Rightarrow> bytes option \<Rightarrow> 32 word \<Rightarrow> client_net \<Rightarrow> (int \<times> client_net) option" where
  "media_policy_exclude env name values = policy_call env name ''exclude'' values"

definition media_policy_increase :: "client_env \<Rightarrow> bytes option \<Rightarrow> 32 word \<Rightarrow> client_net \<Rightarrow> (int \<times> client_net) option" where
  "media_policy_increase env name = policy_call env name ''increase'' None"

definition media_policy_decrease :: "client_env \<Rightarrow> bytes option \<Rightarrow> 32 word \<Rightarrow> client_net \<Rightarrow> (int \<times> client_net) option" where
  "media_policy_decrease env name = policy_call env name ''decrease'' None"

definition media_policy_dump :: "client_env \<Rightarrow> bytes option \<Rightarrow> client_net \<Rightarrow> client_net option" where
  "media_policy_dump env options k = do { (_, k1) \<leftarrow> policy_call env None ''dump'' options 0 k; Some k1 }"

text \<open>The criteria with functions of their own.\<close>

definition criterion :: "string \<Rightarrow> bytes option" where
  "criterion name = Some (c_bytes name)"

definition MEDIA_POLICY_AUDIO_MODE :: "bytes option" where "MEDIA_POLICY_AUDIO_MODE = criterion ''AudioMode''"
definition MEDIA_POLICY_DEVICE_USE :: "bytes option" where "MEDIA_POLICY_DEVICE_USE = criterion ''UsingDevices''"
definition MEDIA_POLICY_DEVICE_AVAILABLE :: "bytes option" where "MEDIA_POLICY_DEVICE_AVAILABLE = criterion ''AvailableDevices''"
definition MEDIA_POLICY_MUTE_MODE :: "bytes option" where "MEDIA_POLICY_MUTE_MODE = criterion ''MuteMode''"
definition MEDIA_POLICY_MIC_MODE :: "bytes option" where "MEDIA_POLICY_MIC_MODE = criterion ''MicMode''"
definition MEDIA_POLICY_HFP_SAMPLERATE :: "bytes option" where "MEDIA_POLICY_HFP_SAMPLERATE = criterion ''HFPSampleRate''"
definition MEDIA_POLICY_VOLUME :: string where "MEDIA_POLICY_VOLUME = ''Volume''"

definition media_policy_set_audio_mode :: "client_env \<Rightarrow> bytes option \<Rightarrow> client_net \<Rightarrow> (int \<times> client_net) option" where
  "media_policy_set_audio_mode env mode = media_policy_set_string env MEDIA_POLICY_AUDIO_MODE mode MEDIA_POLICY_APPLY"

definition media_policy_get_audio_mode :: "client_env \<Rightarrow> bytes option \<Rightarrow> 32 word \<Rightarrow> client_net \<Rightarrow> (int \<times> bytes option \<times> client_net) option" where
  "media_policy_get_audio_mode env mode len = media_policy_get_string env MEDIA_POLICY_AUDIO_MODE mode len"

definition media_policy_set_devices_use :: "client_env \<Rightarrow> bytes option \<Rightarrow> client_net \<Rightarrow> (int \<times> client_net) option" where
  "media_policy_set_devices_use env devices = media_policy_include env MEDIA_POLICY_DEVICE_USE devices MEDIA_POLICY_APPLY"

definition media_policy_set_devices_unuse :: "client_env \<Rightarrow> bytes option \<Rightarrow> client_net \<Rightarrow> (int \<times> client_net) option" where
  "media_policy_set_devices_unuse env devices = media_policy_exclude env MEDIA_POLICY_DEVICE_USE devices MEDIA_POLICY_APPLY"

definition media_policy_is_devices_use :: "client_env \<Rightarrow> bytes option \<Rightarrow> bool \<Rightarrow> client_net \<Rightarrow> (int \<times> int option \<times> client_net) option" where
  "media_policy_is_devices_use env devices = media_policy_contain env MEDIA_POLICY_DEVICE_USE devices"

definition media_policy_get_devices_use :: "client_env \<Rightarrow> bytes option \<Rightarrow> 32 word \<Rightarrow> client_net \<Rightarrow> (int \<times> bytes option \<times> client_net) option" where
  "media_policy_get_devices_use env devices len = media_policy_get_string env MEDIA_POLICY_DEVICE_USE devices len"

definition media_policy_set_hfp_samplerate :: "client_env \<Rightarrow> int \<Rightarrow> client_net \<Rightarrow> (int \<times> client_net) option" where
  "media_policy_set_hfp_samplerate env rate = media_policy_set_int env MEDIA_POLICY_HFP_SAMPLERATE rate MEDIA_POLICY_NOT_APPLY"

definition media_policy_set_devices_available :: "client_env \<Rightarrow> bytes option \<Rightarrow> client_net \<Rightarrow> (int \<times> client_net) option" where
  "media_policy_set_devices_available env devices = media_policy_include env MEDIA_POLICY_DEVICE_AVAILABLE devices MEDIA_POLICY_APPLY"

definition media_policy_set_devices_unavailable :: "client_env \<Rightarrow> bytes option \<Rightarrow> client_net \<Rightarrow> (int \<times> client_net) option" where
  "media_policy_set_devices_unavailable env devices = media_policy_exclude env MEDIA_POLICY_DEVICE_AVAILABLE devices MEDIA_POLICY_APPLY"

definition media_policy_is_devices_available :: "client_env \<Rightarrow> bytes option \<Rightarrow> bool \<Rightarrow> client_net \<Rightarrow> (int \<times> int option \<times> client_net) option" where
  "media_policy_is_devices_available env devices = media_policy_contain env MEDIA_POLICY_DEVICE_AVAILABLE devices"

definition media_policy_get_devices_available :: "client_env \<Rightarrow> bytes option \<Rightarrow> 32 word \<Rightarrow> client_net \<Rightarrow> (int \<times> bytes option \<times> client_net) option" where
  "media_policy_get_devices_available env devices len = media_policy_get_string env MEDIA_POLICY_DEVICE_AVAILABLE devices len"

definition media_policy_set_mute_mode :: "client_env \<Rightarrow> int \<Rightarrow> client_net \<Rightarrow> (int \<times> client_net) option" where
  "media_policy_set_mute_mode env mute = media_policy_set_int env MEDIA_POLICY_MUTE_MODE mute MEDIA_POLICY_APPLY"

definition media_policy_get_mute_mode :: "client_env \<Rightarrow> bool \<Rightarrow> client_net \<Rightarrow> (int \<times> int option \<times> client_net) option" where
  "media_policy_get_mute_mode env = media_policy_get_int env MEDIA_POLICY_MUTE_MODE"

definition media_policy_set_mic_mute :: "client_env \<Rightarrow> int \<Rightarrow> client_net \<Rightarrow> (int \<times> client_net) option" where
  "media_policy_set_mic_mute env mute = media_policy_set_string env MEDIA_POLICY_MIC_MODE
     (Some (c_bytes (if mute \<noteq> 0 then ''off'' else ''on''))) MEDIA_POLICY_APPLY"

definition stream_criterion :: "client_env \<Rightarrow> bytes option \<Rightarrow> bytes option" where
  \<comment> \<open>the stream's volume criterion in \<open>char name[64]\<close>, \<open>None\<close> when it does not fit\<close>
  "stream_criterion env strm =
    (let name = (case strm of None \<Rightarrow> c_bytes (ce_null env) | Some b \<Rightarrow> b) @ c_bytes MEDIA_POLICY_VOLUME in
     if 64 \<le> length name then None else Some name)"

definition media_policy_set_stream_volume :: "client_env \<Rightarrow> bytes option \<Rightarrow> int \<Rightarrow> client_net \<Rightarrow> (int \<times> client_net) option" where
  "media_policy_set_stream_volume env strm volume k = (case stream_criterion env strm of
     None \<Rightarrow> Some (-ENAMETOOLONG, k)
   | Some name \<Rightarrow> media_policy_set_int env (Some name) volume MEDIA_POLICY_APPLY k)"

definition media_policy_get_stream_volume :: "client_env \<Rightarrow> bytes option \<Rightarrow> bool \<Rightarrow> client_net \<Rightarrow> (int \<times> int option \<times> client_net) option" where
  "media_policy_get_stream_volume env strm wanted k = (case stream_criterion env strm of
     None \<Rightarrow> Some (-ENAMETOOLONG, None, k)
   | Some name \<Rightarrow> media_policy_get_int env (Some name) wanted k)"

definition media_policy_increase_stream_volume :: "client_env \<Rightarrow> bytes option \<Rightarrow> client_net \<Rightarrow> (int \<times> client_net) option" where
  "media_policy_increase_stream_volume env strm k = (case stream_criterion env strm of
     None \<Rightarrow> Some (-ENAMETOOLONG, k)
   | Some name \<Rightarrow> media_policy_increase env (Some name) MEDIA_POLICY_APPLY k)"

definition media_policy_decrease_stream_volume :: "client_env \<Rightarrow> bytes option \<Rightarrow> client_net \<Rightarrow> (int \<times> client_net) option" where
  "media_policy_decrease_stream_volume env strm k = (case stream_criterion env strm of
     None \<Rightarrow> Some (-ENAMETOOLONG, k)
   | Some name \<Rightarrow> media_policy_decrease env (Some name) MEDIA_POLICY_APPLY k)"

text \<open>Subscribing to a criterion.\<close>

record client_policy =
  pcl_proxy :: media_proxy_priv
  pcl_cookie :: int
  pcl_cb :: int

definition media_policy_change_cb :: "client_policy \<Rightarrow> media_parcel \<Rightarrow> (int \<times> int \<times> 32 word \<times> bytes option) option" where
  \<comment> \<open>the user's callback, its cookie, the number and the literal; the event is skipped\<close>
  "media_policy_change_cb priv msg = do {
     (_, vals, _) \<leftarrow> media_parcel_read_scanf msg ''%i%i%s'' [False, True, True];
     (case vals of
        [S32 number, SString literal] \<Rightarrow> Some (pcl_cb priv, pcl_cookie priv, number, literal)
      | _ \<Rightarrow> None)
   }"

definition media_policy_unsubscribe :: "client_env \<Rightarrow> client_policy option \<Rightarrow> client_net \<Rightarrow> (int \<times> client_policy option \<times> client_net) option" where
  "media_policy_unsubscribe env handle k = (case handle of
     None \<Rightarrow> Some (-EINVAL, None, k)
   | Some priv \<Rightarrow> do {
       (ret, k1) \<leftarrow> client_command env (Some (pcl_proxy priv)) ''unsubscribe'' None k;
       (if ret < 0 then Some (ret, handle, k1)
        else (case client_disconnect env (pcl_proxy priv) k1 of (ret, p, k2) \<Rightarrow>
          Some (ret, (case p of None \<Rightarrow> None | Some p \<Rightarrow> Some (priv\<lparr>pcl_proxy := p\<rparr>)), k2)))
     })"

definition media_policy_subscribe :: "client_env \<Rightarrow> bytes option \<Rightarrow> int \<Rightarrow> int \<Rightarrow> client_net
    \<Rightarrow> (client_policy option \<times> client_net) option" where
  \<comment> \<open>the error branch passes the connection where a handle is expected, so a block of another type is
    read as the handle: undefined behaviour\<close>
  "media_policy_subscribe env name cb cookie k =
    (if \<not> ce_mem env then Some (None, k)
     else do {
       (ret, _, p, k1) \<leftarrow> client_proxy env MEDIA_ID_POLICY (Some no_proxy) None ''ping'' None 0 None 0 k;
       (if ret < 0 then Some (None, k1)
        else do {
          (ret, p2, k2) \<leftarrow> client_listen env (client_release env p) k1;
          (if ret < 0 then None
           else do {
             (ret, _, k3) \<leftarrow> client_once env (Some p2) name ''subscribe'' None None 0 k2;
             (if ret < 0 then None else Some (Some \<lparr>pcl_proxy = p2, pcl_cookie = cookie, pcl_cb = cb\<rparr>, k3))
           })
        })
     })"

end
