(* ===== verification/Media_Player.thy ===== *)
theory Media_Player
  imports Media_Client
begin

text \<open>
  The synchronous client library of players and recorders, \<open>client/media_graph.c\<close>: opening and closing,
  preparing with a url or with a data socket (buffer mode), moving data, control commands and queries,
  and taking pictures. The network and the handles are as in \<open>Media_Client\<close>; the results of the socket
  calls of buffer mode are parameters.
\<close>

section \<open>State\<close>

record media_io_priv =
  io_proxy :: media_proxy_priv
  io_cookie :: int
  io_event :: "int option"
  io_refs :: int
  io_socket_fd :: int
  io_socket :: int

text \<open>Buffer mode: the name \<open>med%p\<close> of the handle, the results of \<open>socket\<close>, \<open>bind\<close>, \<open>listen\<close> and \<open>accept4\<close>,
  a failure being the negated \<open>errno\<close>, after the \<open>close\<close> that follows it for \<open>bind\<close> and \<open>listen\<close>.\<close>

record io_net =
  in_name :: bytes
  in_socket :: int
  in_bind :: int
  in_listen :: int
  in_accept :: int

definition close_fds :: "int list \<Rightarrow> client_net \<Rightarrow> client_net" where
  "close_fds fds k = k\<lparr>net_effects := net_effects k @ map Close_fd fds\<rparr>"

section \<open>Opening, closing\<close>

definition media_release_cb :: "media_io_priv \<Rightarrow> media_io_priv option" where
  "media_release_cb priv = (if io_refs priv = 1 then None else Some (priv\<lparr>io_refs := io_refs priv - 1\<rparr>))"

definition media_open :: "client_env \<Rightarrow> 32 word \<Rightarrow> bytes option \<Rightarrow> client_net \<Rightarrow> (media_io_priv option \<times> client_net) option" where
  "media_open env control params k =
    (if \<not> ce_mem env then Some (None, k)
     else do {
       (ret, _, priv, k1) \<leftarrow> client_proxy env control (Some no_proxy) None ''open'' params 0 None 0 k;
       Some (if ret < 0 then None
         else Some \<lparr>io_proxy = client_release env priv, io_cookie = 0, io_event = None, io_refs = 1,
           io_socket_fd = 0, io_socket = 0\<rparr>, k1)
     })"

definition media_close_socket :: "media_io_priv \<Rightarrow> client_net \<Rightarrow> media_io_priv \<times> client_net" where
  "media_close_socket priv k =
    (if io_refs priv = 1 \<and> io_socket priv \<noteq> 0
     then (priv\<lparr>io_socket := 0\<rparr>, close_fds (io_socket priv # (if io_socket_fd priv > 0 then [io_socket_fd priv] else [])) k)
     else (priv, k))"

definition media_close :: "client_env \<Rightarrow> media_io_priv option \<Rightarrow> int \<Rightarrow> client_net
    \<Rightarrow> (int \<times> media_io_priv option \<times> client_net) option" where
  \<comment> \<open>with NULL the transaction fails first; the result is the transaction's\<close>
  "media_close env handle pending_stop k = do {
     (ret, k1) \<leftarrow> client_command env (map_option io_proxy handle) ''close'' (Some (c_bytes (int_digits pending_stop))) k;
     (if ret < 0 then Some (ret, handle, k1)
      else do {
        priv \<leftarrow> handle;
        let (priv1, k2) = media_close_socket priv k1;
        (case client_disconnect env (io_proxy priv1) k2 of (_, p, k3) \<Rightarrow>
           Some (ret, (case p of None \<Rightarrow> None | Some p \<Rightarrow> Some (priv1\<lparr>io_proxy := p\<rparr>)), k3))
      })
   }"

section \<open>Buffer mode\<close>

definition media_get_sockaddr :: "client_env \<Rightarrow> io_net \<Rightarrow> media_io_priv option \<Rightarrow> bool \<Rightarrow> (int \<times> sock_addr option) option" where
  \<comment> \<open>the flag says whether there is a place for the address\<close>
  "media_get_sockaddr env n handle wanted = (case handle of
     None \<Rightarrow> Some (-EINVAL, None)
   | Some priv \<Rightarrow>
       if \<not> wanted then Some (-EINVAL, None)
       else do {
         cpu \<leftarrow> proxy_cpu (io_proxy priv);
         Some (0, Some (media_proxy_get_sockaddr (ce_sizes env) (ce_local_cpu env) cpu (in_name n)))
       })"

definition media_bind_socket :: "client_env \<Rightarrow> io_net \<Rightarrow> media_io_priv option \<Rightarrow> client_net \<Rightarrow> (int \<times> client_net) option" where
  "media_bind_socket env n handle k = do {
     (ret, _) \<leftarrow> media_get_sockaddr env n handle True;
     Some (if ret < 0 then (ret, k)
       else if in_socket n < 0 then (in_socket n, k)
       else if in_bind n < 0 then (in_bind n, close_fds [in_socket n] k)
       else if in_listen n < 0 then (in_listen n, close_fds [in_socket n] k)
       else (in_socket n, k))
   }"

definition media_prepare :: "client_env \<Rightarrow> io_net \<Rightarrow> media_io_priv option \<Rightarrow> bytes option \<Rightarrow> bytes option \<Rightarrow> client_net
    \<Rightarrow> (int \<times> media_io_priv option \<times> client_net) option" where
  \<comment> \<open>on an error after \<open>media_bind_socket\<close> the listener is neither closed nor kept in the handle\<close>
  "media_prepare env n handle url options k = (case handle of
     None \<Rightarrow> Some (-EINVAL, None, k)
   | Some priv \<Rightarrow>
       if io_socket priv > 0 then Some (-EINVAL, handle, k)
       else do {
         let buffered = (url = None \<or> url = Some []);
         (fd, k1) \<leftarrow> (if buffered then media_bind_socket env n handle k else Some (0, k));
         (if fd < 0 then Some (fd, handle, k1)
          else do {
            let cpu = (if buffered then Some (ce_local_cpu env) else None);
            let url1 = (if buffered then Some (take 31 (in_name n)) else url);
            (ret, k2) \<leftarrow> (if options \<noteq> None \<and> options \<noteq> Some []
               then client_command env (Some (io_proxy priv)) ''set_options'' options k1 else Some (0, k1));
            (if ret < 0 then Some (ret, handle, k2)
             else do {
               (ret, _, k3) \<leftarrow> client_once env (Some (io_proxy priv)) cpu ''prepare'' url1 None 0 k2;
               Some (if ret < 0 \<or> fd \<le> 0 then (ret, handle, k3)
                 else if in_accept n < 0 then (in_accept n, Some (priv\<lparr>io_socket_fd := fd, io_socket := 0\<rparr>), k3)
                 else (ret, Some (priv\<lparr>io_socket_fd := fd, io_socket := in_accept n\<rparr>), k3))
             })
          })
       })"

definition media_process_data :: "media_io_priv option \<Rightarrow> bool \<Rightarrow> bool \<Rightarrow> nat \<Rightarrow> int \<Rightarrow> int \<Rightarrow> int \<Rightarrow> client_net
    \<Rightarrow> int \<times> media_io_priv option \<times> client_net" where
  \<comment> \<open>whether it is a player, whether there is a buffer, its length; the result of \<open>send\<close> or \<open>recv\<close>,
    the \<open>errno\<close> it leaves, and the \<open>errno\<close> after the descriptors are closed\<close>
  "media_process_data handle player buf len got err err2 k = (case handle of
     None \<Rightarrow> (-EINVAL, None, k)
   | Some priv \<Rightarrow>
       if \<not> buf \<or> len = 0 then (-EINVAL, handle, k)
       else
         let priv1 = priv\<lparr>io_refs := io_refs priv + 1\<rparr> in
         if io_socket priv1 \<le> 0 then (-EINVAL, media_release_cb priv1, k)
         else if (if player then got = int len else got > 0) then (got, media_release_cb priv1, k)
         else if got < 0 \<and> err = EINTR then (-err, media_release_cb priv1, k)
         else (-err2, media_release_cb (priv1\<lparr>io_socket := 0\<rparr>),
           close_fds (io_socket priv1 # (if io_socket_fd priv1 > 0 then [io_socket_fd priv1] else [])) k))"

definition media_get_socket :: "media_io_priv option \<Rightarrow> int" where
  "media_get_socket handle = (case handle of
     None \<Rightarrow> -EINVAL | Some priv \<Rightarrow> if io_socket priv \<le> 0 then -EINVAL else io_socket priv)"

section \<open>Events\<close>

definition io_event_cb :: "media_io_priv \<Rightarrow> media_parcel \<Rightarrow> user_event list option" where
  \<comment> \<open>\<open>media_event_cb\<close>; a notification is read only when there is a callback\<close>
  "io_event_cb priv msg = (case io_event priv of
     None \<Rightarrow> Some []
   | Some f \<Rightarrow> do { (event, ret, extra) \<leftarrow> read_event msg; Some [(f, io_cookie priv, event, ret, extra)] })"

definition media_set_event_cb :: "client_env \<Rightarrow> media_io_priv option \<Rightarrow> int \<Rightarrow> int option \<Rightarrow> client_net
    \<Rightarrow> (int \<times> media_io_priv option \<times> client_net) option" where
  "media_set_event_cb env handle cookie event_cb k = (case handle of
     None \<Rightarrow> Some (-EINVAL, None, k)
   | Some priv \<Rightarrow> do {
       (ret, p, k1) \<leftarrow> client_listen env (io_proxy priv) k;
       let priv1 = priv\<lparr>io_proxy := p\<rparr>;
       (if ret < 0 then Some (ret, Some priv1, k1)
        else do {
          (ret, k2) \<leftarrow> client_command env (Some p) ''set_event'' None k1;
          Some (if ret < 0 then (ret, Some priv1, k2)
            else (ret, Some (priv1\<lparr>io_event := event_cb, io_cookie := cookie\<rparr>), k2))
        })
     })"

section \<open>Control and queries\<close>

definition io_control :: "client_env \<Rightarrow> media_io_priv option \<Rightarrow> string \<Rightarrow> bytes option \<Rightarrow> client_net \<Rightarrow> (int \<times> client_net) option" where
  "io_control env handle cmd arg k = client_command env (map_option io_proxy handle) cmd arg k"

definition io_halt :: "client_env \<Rightarrow> string \<Rightarrow> media_io_priv option \<Rightarrow> client_net \<Rightarrow> (int \<times> media_io_priv option \<times> client_net) option" where
  \<comment> \<open>"stop" and "reset", which close the data socket first\<close>
  "io_halt env cmd handle k = (case handle of
     None \<Rightarrow> Some (-EINVAL, None, k)
   | Some priv \<Rightarrow> do {
       let (priv1, k1) = media_close_socket priv k;
       (ret, k2) \<leftarrow> client_command env (Some (io_proxy priv1)) cmd None k1;
       Some (ret, Some priv1, k2)
     })"

text \<open>\<open>strtoul\<close> with base 0: a prefix says octal or hexadecimal; it saturates at \<open>ULONG_MAX\<close>.\<close>

definition digit_value :: "char \<Rightarrow> nat" where
  "digit_value c = (if isdigit c then of_char c - 48 else if isupper c then of_char c - 55 else if islower c then of_char c - 87 else 99)"

definition based_value :: "nat \<Rightarrow> string \<Rightarrow> nat" where
  "based_value base str = min 4294967295 (foldl (\<lambda>a c. base * a + digit_value c) 0 (takeWhile (\<lambda>c. digit_value c < base) str))"

definition strtoul0 :: "string \<Rightarrow> nat" where
  "strtoul0 str =
    (let s1 = dropWhile isspace str;
         neg = (take 1 s1 = ''-'');
         s2 = (if take 1 s1 = ''-'' \<or> take 1 s1 = ''+'' then tl s1 else s1);
         v = (if (take 2 s2 = ''0x'' \<or> take 2 s2 = ''0X'') \<and> digit_value (hd (drop 2 s2 @ '' '')) < 16 then based_value 16 (drop 2 s2)
              else if take 1 s2 = ''0'' then based_value 8 s2 else based_value 10 s2) in
     if neg then (4294967296 - v) mod 4294967296 else v)"

definition io_number :: "client_env \<Rightarrow> string \<Rightarrow> bool \<Rightarrow> media_io_priv option \<Rightarrow> client_net
    \<Rightarrow> (int \<times> nat option \<times> client_net) option" where
  \<comment> \<open>the query of a number answered in \<open>char tmp[32]\<close>\<close>
  "io_number env cmd wanted handle k =
    (if \<not> wanted then Some (-EINVAL, None, k)
     else do {
       (ret, tmp, k1) \<leftarrow> client_once env (map_option io_proxy handle) None cmd None (Some (ce_stack env 32)) 32 k;
       (if 0 \<le> ret then do {
          str \<leftarrow> c_str tmp;
          b \<leftarrow> str;
          Some (ret, Some (strtoul0 (b_str b)), k1)
        }
        else Some (ret, None, k1))
     })"

definition io_get_property :: "client_env \<Rightarrow> media_io_priv option \<Rightarrow> bytes option \<Rightarrow> bytes option \<Rightarrow> bytes option \<Rightarrow> 32 word
    \<Rightarrow> client_net \<Rightarrow> (int \<times> bytes option \<times> client_net) option" where
  "io_get_property env handle target key buf len k = client_transact env (map_option io_proxy handle) target key None buf len k"

definition io_set_property :: "client_env \<Rightarrow> media_io_priv option \<Rightarrow> bytes option \<Rightarrow> bytes option \<Rightarrow> bytes option
    \<Rightarrow> client_net \<Rightarrow> (int \<times> client_net) option" where
  "io_set_property env handle target key v k = do {
     (ret, _, k1) \<leftarrow> client_transact env (map_option io_proxy handle) target key v None 0 k;
     Some (ret, k1)
   }"

section \<open>The public functions\<close>

definition media_process_command :: "client_env \<Rightarrow> bytes option \<Rightarrow> string \<Rightarrow> bytes option \<Rightarrow> bytes option \<Rightarrow> 32 word \<Rightarrow> client_net
    \<Rightarrow> (int \<times> bytes option \<times> client_net) option" where
  "media_process_command env target cmd arg res len k = do {
     (ret, res1, _, k1) \<leftarrow> client_proxy env MEDIA_ID_GRAPH None target cmd arg 0 res len k;
     Some (ret, res1, k1)
   }"

definition media_graph_dump :: "client_env \<Rightarrow> bytes option \<Rightarrow> client_net \<Rightarrow> client_net option" where
  "media_graph_dump env options k = do {
     (_, _, _, k1) \<leftarrow> client_proxy env MEDIA_ID_GRAPH None None ''dump'' options 0 None 0 k;
     Some k1
   }"

definition media_player_open :: "client_env \<Rightarrow> bytes option \<Rightarrow> client_net \<Rightarrow> (media_io_priv option \<times> client_net) option" where
  "media_player_open env = media_open env MEDIA_ID_PLAYER"

definition media_player_close :: "client_env \<Rightarrow> media_io_priv option \<Rightarrow> int \<Rightarrow> client_net
    \<Rightarrow> (int \<times> media_io_priv option \<times> client_net) option" where
  "media_player_close env handle pending_stop = media_close env handle pending_stop"

definition media_player_set_event_callback :: "client_env \<Rightarrow> media_io_priv option \<Rightarrow> int \<Rightarrow> int option \<Rightarrow> client_net
    \<Rightarrow> (int \<times> media_io_priv option \<times> client_net) option" where
  "media_player_set_event_callback env handle cookie event_cb = media_set_event_cb env handle cookie event_cb"

definition media_player_prepare :: "client_env \<Rightarrow> io_net \<Rightarrow> media_io_priv option \<Rightarrow> bytes option \<Rightarrow> bytes option \<Rightarrow> client_net
    \<Rightarrow> (int \<times> media_io_priv option \<times> client_net) option" where
  "media_player_prepare env n handle url options = media_prepare env n handle url options"

definition media_player_reset :: "client_env \<Rightarrow> media_io_priv option \<Rightarrow> client_net \<Rightarrow> (int \<times> media_io_priv option \<times> client_net) option" where
  "media_player_reset env = io_halt env ''reset''"

definition media_player_write_data :: "media_io_priv option \<Rightarrow> bool \<Rightarrow> nat \<Rightarrow> int \<Rightarrow> int \<Rightarrow> int \<Rightarrow> client_net
    \<Rightarrow> int \<times> media_io_priv option \<times> client_net" where
  "media_player_write_data handle = media_process_data handle True"

definition media_player_get_sockaddr :: "client_env \<Rightarrow> io_net \<Rightarrow> media_io_priv option \<Rightarrow> bool \<Rightarrow> (int \<times> sock_addr option) option" where
  "media_player_get_sockaddr env n handle wanted = media_get_sockaddr env n handle wanted"

definition media_player_close_socket :: "media_io_priv \<Rightarrow> client_net \<Rightarrow> media_io_priv \<times> client_net" where
  "media_player_close_socket handle = media_close_socket handle"

definition media_player_get_socket :: "media_io_priv option \<Rightarrow> int" where
  "media_player_get_socket handle = media_get_socket handle"

definition media_player_start :: "client_env \<Rightarrow> media_io_priv option \<Rightarrow> client_net \<Rightarrow> (int \<times> client_net) option" where
  "media_player_start env handle k = (if handle = None then Some (-EINVAL, k) else io_control env handle ''start'' None k)"

definition media_player_stop :: "client_env \<Rightarrow> media_io_priv option \<Rightarrow> client_net \<Rightarrow> (int \<times> media_io_priv option \<times> client_net) option" where
  "media_player_stop env = io_halt env ''stop''"

definition media_player_pause :: "client_env \<Rightarrow> media_io_priv option \<Rightarrow> client_net \<Rightarrow> (int \<times> client_net) option" where
  "media_player_pause env handle = io_control env handle ''pause'' None"

definition media_player_seek :: "client_env \<Rightarrow> media_io_priv option \<Rightarrow> 32 word \<Rightarrow> client_net \<Rightarrow> (int \<times> client_net) option" where
  "media_player_seek env handle msec = io_control env handle ''seek'' (Some (c_bytes (nat_digits (unat msec))))"

definition media_player_set_looping :: "client_env \<Rightarrow> media_io_priv option \<Rightarrow> int \<Rightarrow> client_net \<Rightarrow> (int \<times> client_net) option" where
  "media_player_set_looping env handle loop = io_control env handle ''set_loop'' (Some (c_bytes (int_digits loop)))"

definition media_player_is_playing :: "client_env \<Rightarrow> media_io_priv option \<Rightarrow> client_net \<Rightarrow> (int \<times> client_net) option" where
  "media_player_is_playing env handle k = do {
     (ret, tmp, k1) \<leftarrow> client_once env (map_option io_proxy handle) None ''get_playing'' None (Some (ce_stack env 32)) 32 k;
     (if ret < 0 then Some (ret, k1)
      else do {
        str \<leftarrow> c_str tmp;
        b \<leftarrow> str;
        v \<leftarrow> atoi (b_str b);
        Some (if v = 0 then 0 else 1, k1)
      })
   }"

definition media_player_get_position :: "client_env \<Rightarrow> bool \<Rightarrow> media_io_priv option \<Rightarrow> client_net \<Rightarrow> (int \<times> nat option \<times> client_net) option" where
  "media_player_get_position env = io_number env ''get_position''"

definition media_player_get_duration :: "client_env \<Rightarrow> bool \<Rightarrow> media_io_priv option \<Rightarrow> client_net \<Rightarrow> (int \<times> nat option \<times> client_net) option" where
  "media_player_get_duration env = io_number env ''get_duration''"

definition media_player_get_latency :: "client_env \<Rightarrow> bool \<Rightarrow> media_io_priv option \<Rightarrow> client_net \<Rightarrow> (int \<times> nat option \<times> client_net) option" where
  "media_player_get_latency env = io_number env ''get_latency''"

text \<open>A volume is a \<open>float\<close>: its \<open>%f\<close> text, cut to \<open>char tmp[32]\<close>, and what \<open>%f\<close> reads from a text are parameters.\<close>

definition media_player_set_volume :: "client_env \<Rightarrow> ('f \<Rightarrow> string) \<Rightarrow> media_io_priv option \<Rightarrow> 'f \<Rightarrow> client_net \<Rightarrow> (int \<times> client_net) option" where
  "media_player_set_volume env print_f handle volume = io_control env handle ''volume'' (Some (c_bytes (take 31 (print_f volume))))"

definition media_player_get_volume :: "client_env \<Rightarrow> (string \<Rightarrow> 'f option) \<Rightarrow> bool \<Rightarrow> media_io_priv option \<Rightarrow> client_net
    \<Rightarrow> (int \<times> 'f option \<times> client_net) option" where
  "media_player_get_volume env scan_f wanted handle k =
    (if \<not> wanted then Some (-EINVAL, None, k)
     else do {
       (ret, tmp, k1) \<leftarrow> client_once env (map_option io_proxy handle) None ''get_volume'' None (Some (ce_stack env 32)) 32 k;
       (if 0 \<le> ret then do {
          str \<leftarrow> c_str tmp;
          b \<leftarrow> str;
          Some (0, if take 4 (b_str b) = ''vol:'' then scan_f (drop 4 (b_str b)) else None, k1)
        }
        else Some (ret, None, k1))
     })"

definition media_player_set_property :: "client_env \<Rightarrow> media_io_priv option \<Rightarrow> bytes option \<Rightarrow> bytes option \<Rightarrow> bytes option
    \<Rightarrow> client_net \<Rightarrow> (int \<times> client_net) option" where
  "media_player_set_property env handle target key v = io_set_property env handle target key v"

definition media_player_get_property :: "client_env \<Rightarrow> media_io_priv option \<Rightarrow> bytes option \<Rightarrow> bytes option \<Rightarrow> bytes option \<Rightarrow> 32 word
    \<Rightarrow> client_net \<Rightarrow> (int \<times> bytes option \<times> client_net) option" where
  "media_player_get_property env handle target key buf len = io_get_property env handle target key buf len"

definition media_recorder_open :: "client_env \<Rightarrow> bytes option \<Rightarrow> client_net \<Rightarrow> (media_io_priv option \<times> client_net) option" where
  "media_recorder_open env = media_open env MEDIA_ID_RECORDER"

definition media_recorder_close :: "client_env \<Rightarrow> media_io_priv option \<Rightarrow> client_net
    \<Rightarrow> (int \<times> media_io_priv option \<times> client_net) option" where
  "media_recorder_close env handle = media_close env handle 0"

definition media_recorder_set_event_callback :: "client_env \<Rightarrow> media_io_priv option \<Rightarrow> int \<Rightarrow> int option \<Rightarrow> client_net
    \<Rightarrow> (int \<times> media_io_priv option \<times> client_net) option" where
  "media_recorder_set_event_callback env handle cookie event_cb = media_set_event_cb env handle cookie event_cb"

definition media_recorder_prepare :: "client_env \<Rightarrow> io_net \<Rightarrow> media_io_priv option \<Rightarrow> bytes option \<Rightarrow> bytes option \<Rightarrow> client_net
    \<Rightarrow> (int \<times> media_io_priv option \<times> client_net) option" where
  "media_recorder_prepare env n handle url options = media_prepare env n handle url options"

definition media_recorder_reset :: "client_env \<Rightarrow> media_io_priv option \<Rightarrow> client_net \<Rightarrow> (int \<times> media_io_priv option \<times> client_net) option" where
  "media_recorder_reset env = io_halt env ''reset''"

definition media_recorder_read_data :: "media_io_priv option \<Rightarrow> bool \<Rightarrow> nat \<Rightarrow> int \<Rightarrow> int \<Rightarrow> int \<Rightarrow> client_net
    \<Rightarrow> int \<times> media_io_priv option \<times> client_net" where
  "media_recorder_read_data handle = media_process_data handle False"

definition media_recorder_get_sockaddr :: "client_env \<Rightarrow> io_net \<Rightarrow> media_io_priv option \<Rightarrow> bool \<Rightarrow> (int \<times> sock_addr option) option" where
  "media_recorder_get_sockaddr env n handle wanted = media_get_sockaddr env n handle wanted"

definition media_recorder_get_socket :: "media_io_priv option \<Rightarrow> int" where
  "media_recorder_get_socket handle = media_get_socket handle"

definition media_recorder_close_socket :: "media_io_priv \<Rightarrow> client_net \<Rightarrow> media_io_priv \<times> client_net" where
  "media_recorder_close_socket handle = media_close_socket handle"

definition media_recorder_start :: "client_env \<Rightarrow> media_io_priv option \<Rightarrow> client_net \<Rightarrow> (int \<times> client_net) option" where
  "media_recorder_start env handle = io_control env handle ''start'' None"

definition media_recorder_pause :: "client_env \<Rightarrow> media_io_priv option \<Rightarrow> client_net \<Rightarrow> (int \<times> client_net) option" where
  "media_recorder_pause env handle = io_control env handle ''pause'' None"

definition media_recorder_stop :: "client_env \<Rightarrow> media_io_priv option \<Rightarrow> client_net \<Rightarrow> (int \<times> media_io_priv option \<times> client_net) option" where
  "media_recorder_stop env = io_halt env ''stop''"

definition media_recorder_set_property :: "client_env \<Rightarrow> media_io_priv option \<Rightarrow> bytes option \<Rightarrow> bytes option \<Rightarrow> bytes option
    \<Rightarrow> client_net \<Rightarrow> (int \<times> client_net) option" where
  "media_recorder_set_property env handle target key v = io_set_property env handle target key v"

definition media_recorder_get_property :: "client_env \<Rightarrow> media_io_priv option \<Rightarrow> bytes option \<Rightarrow> bytes option \<Rightarrow> bytes option \<Rightarrow> 32 word
    \<Rightarrow> client_net \<Rightarrow> (int \<times> bytes option \<times> client_net) option" where
  "media_recorder_get_property env handle target key buf len = io_get_property env handle target key buf len"

section \<open>Pictures\<close>

definition media_recorder_finish_picture :: "client_env \<Rightarrow> media_io_priv option \<Rightarrow> client_net
    \<Rightarrow> (int \<times> media_io_priv option \<times> client_net) option" where
  "media_recorder_finish_picture env handle = media_recorder_close env handle"

definition media_recorder_start_picture :: "client_env \<Rightarrow> io_net \<Rightarrow> bytes option \<Rightarrow> bytes option \<Rightarrow> nat \<Rightarrow> int option \<Rightarrow> int
    \<Rightarrow> client_net \<Rightarrow> (media_io_priv option \<times> client_net) option" where
  "media_recorder_start_picture env n params filename number event_cb cookie k =
    (let failed = (\<lambda>h k. do { (_, _, k1) \<leftarrow> media_recorder_close env h k; Some (None, k1) }) in
     if number = 0 \<or> 2147483647 < number then Some (None, k)
     else do {
       (handle, k1) \<leftarrow> media_recorder_open env params k;
       (if handle = None then Some (None, k1)
        else do {
          (ret, h2, k2) \<leftarrow> media_recorder_set_event_callback env handle cookie event_cb k1;
          (if ret < 0 then failed h2 k2
           else do {
             (ret, h3, k3) \<leftarrow> media_recorder_prepare env n h2 filename (Some (c_bytes (''total_number='' @ nat_digits number))) k2;
             (if ret < 0 then failed h3 k3
              else do {
                (ret, k4) \<leftarrow> media_recorder_start env h3 k3;
                (if ret < 0 then failed h3 k4 else Some (h3, k4))
              })
           })
        })
     })"

text \<open>A picture taken and waited for: the block that is the cookie of the recorder's callback, with its
  semaphore.\<close>

record picture =
  pic_recorder :: "media_io_priv option"
  pic_sem :: nat
  pic_result :: int

definition MEDIA_EVENT_COMPLETED :: int where "MEDIA_EVENT_COMPLETED = 6"

definition media_recorder_take_picture_cb :: "client_env \<Rightarrow> picture \<Rightarrow> int \<Rightarrow> int \<Rightarrow> client_net \<Rightarrow> (picture \<times> client_net) option" where
  "media_recorder_take_picture_cb env priv event result k =
    (let priv1 = priv\<lparr>pic_result := result\<rparr> in
     if result \<noteq> 0 then Some (priv1\<lparr>pic_sem := pic_sem priv1 + 1\<rparr>, k)
     else if event = MEDIA_EVENT_COMPLETED then do {
       (_, h, k1) \<leftarrow> media_recorder_finish_picture env (pic_recorder priv1) k;
       Some (priv1\<lparr>pic_recorder := h, pic_sem := pic_sem priv1 + 1\<rparr>, k1)
     }
     else Some (priv1, k))"

fun wait_picture :: "client_env \<Rightarrow> picture \<Rightarrow> (int \<times> int) list \<Rightarrow> client_net \<Rightarrow> (picture option \<times> client_net) option" where
  \<comment> \<open>\<open>sem_wait\<close> while the listener delivers the events; \<open>None\<close> inside when they end and it still waits\<close>
  "wait_picture env priv events k =
    (if 0 < pic_sem priv then Some (Some priv, k)
     else case events of
       [] \<Rightarrow> Some (None, k)
     | (event, result) # rest \<Rightarrow> do {
         (priv1, k1) \<leftarrow> media_recorder_take_picture_cb env priv event result k;
         wait_picture env priv1 rest k1
       })"

declare wait_picture.simps [simp del]

definition media_recorder_take_picture :: "client_env \<Rightarrow> io_net \<Rightarrow> bytes option \<Rightarrow> bytes option \<Rightarrow> nat \<Rightarrow> int \<Rightarrow> int
    \<Rightarrow> (int \<times> int) list \<Rightarrow> client_net \<Rightarrow> (int option \<times> media_io_priv option \<times> client_net) option" where
  \<comment> \<open>the result, if it returns, and the recorder that is left open; the events are those after
    \<open>media_recorder_start_picture\<close> has returned and its handle is stored\<close>
  "media_recorder_take_picture env n params filename number callback cookie events k =
    (if number = 0 \<or> 2147483647 < number then Some (Some (-EINVAL), None, k)
     else if \<not> ce_mem env then Some (Some (-ENOMEM), None, k)
     else do {
       (h, k1) \<leftarrow> media_recorder_start_picture env n params filename number (Some callback) cookie k;
       (if h = None then Some (Some (-EINVAL), None, k1)
        else do {
          (p, k2) \<leftarrow> wait_picture env \<lparr>pic_recorder = h, pic_sem = 0, pic_result = 0\<rparr> events k1;
          Some (case p of None \<Rightarrow> (None, h, k2) | Some p \<Rightarrow> (Some (pic_result p), pic_recorder p, k2))
        })
     })"

end
