(* ===== verification/Media_Uv.thy ===== *)
theory Media_Uv
  imports Media_Proxy
begin

text \<open>
  The asynchronous client connection, \<open>client/media_uv.c\<close>: a proxy with a command pipe and an event
  pipe on a libuv loop, the queues of writings not sent and not answered, connecting, reconnecting,
  listening, sending, disconnecting, and the reassembly of messages.

  Blocks of the heap are numbered: a map gives the live ones, and reaching for a freed one is
  undefined behaviour. The results of \<open>zalloc\<close> and of the libuv calls, in the order they are made, are
  a script. libuv itself is the caller of the functions that end in \<open>_cb\<close>. The user's callbacks are a
  parameter, \<open>user\<close>: what the callback does to the state, which may be any calls of the functions
  below; every call of one is logged first.
\<close>

section \<open>State\<close>

datatype uv_flag = CONNECTING | LISTENING | RECONNECT | DISCONNECT

datatype msg_flag = WRITTEN | RESPONSED

record uv_pipe =
  pipe_parcel :: media_parcel
  pipe_offset :: nat
  pipe_closing :: bool

record uv_writing =
  wr_parcel :: media_parcel
  wr_receive :: "int option"
  wr_cookies :: "int \<times> int"
  wr_flags :: "msg_flag set"

record uv_proxy =
  px_cpu :: "bytes option"
  px_cpus :: "bytes list"
  px_cpipe :: "nat option"
  px_epipe :: "nat option"
  px_on_release :: "int option"
  px_on_listen :: "int option"
  px_on_event :: "int option"
  px_pendq :: "nat list"
  px_sentq :: "nat list"
  px_nb_pendq :: int
  px_nb_sentq :: int
  px_nb_sent :: int
  px_nb_recv :: int
  px_flags :: "uv_flag set"

text \<open>The user's callbacks, and the libuv requests with a callback to come.\<close>

datatype uv_call =
    On_connect int
  | On_release int
  | On_listen int int
  | On_event int media_parcel
  | On_receive int int int "media_parcel option"

datatype uv_effect =
    Called uv_call
  | Connect_request nat bytes
  | Shutdown_request nat
  | Close_request nat
  | Write_request nat nat bytes
  | Listen_request nat
  | Accepted nat nat
  | Read_started nat

record uv_state =
  us_proxy :: "uv_proxy option"
  us_writings :: "nat \<Rightarrow> uv_writing option"
  us_pipes :: "nat \<Rightarrow> uv_pipe option"
  us_writes :: "nat list"
  us_next :: nat
  us_rets :: "int list"
  us_log :: "uv_effect list"

type_synonym 'a uv_user = "uv_call \<Rightarrow> 'a uv_state_scheme \<Rightarrow> 'a uv_state_scheme option"

record uv_env =
  ue_alloc :: allocator
  ue_narrow :: "64 word \<Rightarrow> 32 word"
  ue_local_cpu :: bytes
  ue_rpmsg :: bool
  ue_name :: bytes

definition uv_log :: "uv_effect list \<Rightarrow> 'a uv_state_scheme \<Rightarrow> 'a uv_state_scheme" where
  "uv_log es st = st\<lparr>us_log := us_log st @ es\<rparr>"

definition call_user :: "'a uv_user \<Rightarrow> uv_call \<Rightarrow> 'a uv_state_scheme \<Rightarrow> 'a uv_state_scheme option" where
  "call_user user c st = user c (uv_log [Called c] st)"

definition next_ret :: "'a uv_state_scheme \<Rightarrow> int \<times> 'a uv_state_scheme" where
  \<comment> \<open>the result of the next allocation (negative: NULL) or libuv call; 0 when the script is over\<close>
  "next_ret st = (case us_rets st of [] \<Rightarrow> (0, st) | r # rs \<Rightarrow> (r, st\<lparr>us_rets := rs\<rparr>))"

definition set_proxy :: "uv_proxy \<Rightarrow> 'a uv_state_scheme \<Rightarrow> 'a uv_state_scheme" where
  "set_proxy px st = st\<lparr>us_proxy := Some px\<rparr>"

definition set_writing :: "nat \<Rightarrow> uv_writing \<Rightarrow> 'a uv_state_scheme \<Rightarrow> 'a uv_state_scheme" where
  "set_writing w wr st = st\<lparr>us_writings := (us_writings st)(w \<mapsto> wr)\<rparr>"

definition set_pipe :: "nat \<Rightarrow> uv_pipe \<Rightarrow> 'a uv_state_scheme \<Rightarrow> 'a uv_state_scheme" where
  "set_pipe p pipe st = st\<lparr>us_pipes := (us_pipes st)(p \<mapsto> pipe)\<rparr>"

definition UV_EOF :: int where "UV_EOF = -4095"

section \<open>Allocating, freeing\<close>

definition media_uv_free_writing :: "nat \<Rightarrow> 'a uv_state_scheme \<Rightarrow> 'a uv_state_scheme option" where
  "media_uv_free_writing w st = do {
     wr \<leftarrow> us_writings st w;
     Some (if WRITTEN \<in> wr_flags wr \<and> RESPONSED \<in> wr_flags wr
       then st\<lparr>us_writings := (us_writings st)(w := None)\<rparr> else st)
   }"

definition writing_flag :: "msg_flag \<Rightarrow> nat \<Rightarrow> 'a uv_state_scheme \<Rightarrow> 'a uv_state_scheme option" where
  \<comment> \<open>\<open>writing->flags |= flag\<close>\<close>
  "writing_flag f w st = do {
     wr \<leftarrow> us_writings st w;
     Some (set_writing w (wr\<lparr>wr_flags := insert f (wr_flags wr)\<rparr>) st)
   }"

definition media_uv_alloc_writing :: "uv_env \<Rightarrow> nat \<Rightarrow> media_parcel option \<Rightarrow> 'a uv_state_scheme \<Rightarrow> (nat option \<times> 'a uv_state_scheme) option" where
  \<comment> \<open>the result of \<open>media_parcel_clone\<close> is not looked at\<close>
  "media_uv_alloc_writing env code parcel0 st =
    (case next_ret st of (r, st1) \<Rightarrow>
       if r < 0 then Some (None, st1)
       else do {
         p1 \<leftarrow> media_parcel_init zero_parcel;
         p2 \<leftarrow> (case parcel0 of
             None \<Rightarrow> Some p1
           | Some src \<Rightarrow> do { (_, d) \<leftarrow> media_parcel_clone (ue_alloc env) src; Some d });
         p3 \<leftarrow> set_code code p2;
         let w = us_next st1;
         Some (Some w, set_writing w \<lparr>wr_parcel = p3, wr_receive = None, wr_cookies = (0, 0), wr_flags = {}\<rparr>
           (st1\<lparr>us_next := w + 1\<rparr>))
       })"

definition media_uv_free_pipe :: "nat \<Rightarrow> 'a uv_state_scheme \<Rightarrow> 'a uv_state_scheme" where
  "media_uv_free_pipe p st = st\<lparr>us_pipes := (us_pipes st)(p := None)\<rparr>"

definition media_uv_alloc_pipe :: "'a uv_state_scheme \<Rightarrow> (nat option \<times> 'a uv_state_scheme) option" where
  \<comment> \<open>\<open>zalloc\<close>, then \<open>uv_pipe_init\<close>\<close>
  "media_uv_alloc_pipe st =
    (case next_ret st of (r1, st1) \<Rightarrow>
       if r1 < 0 then Some (None, st1)
       else case next_ret st1 of (r2, st2) \<Rightarrow>
         if r2 < 0 then Some (None, st2)
         else do {
           q \<leftarrow> media_parcel_init zero_parcel;
           let p = us_next st2;
           Some (Some p, set_pipe p \<lparr>pipe_parcel = q, pipe_offset = 0, pipe_closing = False\<rparr> (st2\<lparr>us_next := p + 1\<rparr>))
         })"

fun free_writings :: "nat list \<Rightarrow> 'a uv_state_scheme \<Rightarrow> 'a uv_state_scheme option" where
  "free_writings [] st = Some st"
| "free_writings (w # ws) st = do {
     wr \<leftarrow> us_writings st w;
     st1 \<leftarrow> media_uv_free_writing w (set_writing w (wr\<lparr>wr_flags := {WRITTEN, RESPONSED}\<rparr>) st);
     free_writings ws st1
   }"

definition media_uv_clear_queue :: "'a uv_state_scheme \<Rightarrow> 'a uv_state_scheme option" where
  "media_uv_clear_queue st = do {
     px \<leftarrow> us_proxy st;
     free_writings (px_sentq px @ px_pendq px) (set_proxy (px\<lparr>px_sentq := [], px_pendq := []\<rparr>) st)
   }"

definition media_uv_free_proxy :: "'a uv_user \<Rightarrow> 'a uv_state_scheme \<Rightarrow> 'a uv_state_scheme option" where
  "media_uv_free_proxy user st = do {
     px \<leftarrow> us_proxy st;
     (if px_cpipe px \<noteq> None \<or> px_epipe px \<noteq> None then Some st
      else if DISCONNECT \<in> px_flags px then do {
        st1 \<leftarrow> media_uv_clear_queue st;
        st2 \<leftarrow> (case px_on_release px of None \<Rightarrow> Some st1 | Some f \<Rightarrow> call_user user (On_release f) st1);
        Some (st2\<lparr>us_proxy := None\<rparr>)
      }
      else Some st)
   }"

section \<open>Closing\<close>

definition media_uv_close_cb :: "'a uv_user \<Rightarrow> nat \<Rightarrow> 'a uv_state_scheme \<Rightarrow> 'a uv_state_scheme option" where
  "media_uv_close_cb user p st = do {
     _ \<leftarrow> us_pipes st p;
     px \<leftarrow> us_proxy st;
     let px1 = (if px_cpipe px = Some p then px\<lparr>px_cpipe := None\<rparr>
       else if px_epipe px = Some p then px\<lparr>px_epipe := None\<rparr> else px);
     media_uv_free_proxy user (media_uv_free_pipe p (set_proxy px1 st))
   }"

definition media_uv_close :: "nat \<Rightarrow> 'a uv_state_scheme \<Rightarrow> 'a uv_state_scheme option" where
  "media_uv_close p st = do {
     pipe \<leftarrow> us_pipes st p;
     Some (if pipe_closing pipe then st
       else uv_log [Close_request p] (set_pipe p (pipe\<lparr>pipe_closing := True\<rparr>) st))
   }"

definition media_uv_shutdown_cb :: "nat \<Rightarrow> 'a uv_state_scheme \<Rightarrow> 'a uv_state_scheme option" where
  "media_uv_shutdown_cb p st = media_uv_close p st"

definition media_uv_shutdown :: "nat option \<Rightarrow> 'a uv_state_scheme \<Rightarrow> 'a uv_state_scheme option" where
  \<comment> \<open>with NULL it reaches for the fields of the pipe\<close>
  "media_uv_shutdown pipe st = do {
     p \<leftarrow> pipe;
     _ \<leftarrow> us_pipes st p;
     (case next_ret st of (r1, st1) \<Rightarrow>
        if r1 < 0 then Some st1
        else (case next_ret st1 of (r2, st2) \<Rightarrow>
          if r2 < 0 then media_uv_close p st2 else Some (uv_log [Shutdown_request p] st2)))
   }"

section \<open>Connecting\<close>

definition media_uv_connect_one :: "uv_env \<Rightarrow> 'a uv_state_scheme \<Rightarrow> (int \<times> 'a uv_state_scheme) option" where
  "media_uv_connect_one env st =
    (case next_ret st of (r, st1) \<Rightarrow>
       if r < 0 then Some (-ENOMEM, st1)
       else do {
         (pipe, st2) \<leftarrow> media_uv_alloc_pipe st1;
         px \<leftarrow> us_proxy st2;
         (case pipe of
            None \<Rightarrow> Some (-ENOMEM, set_proxy (px\<lparr>px_cpipe := None\<rparr>) st2)
          | Some p \<Rightarrow> do {
              cpu \<leftarrow> px_cpu px;
              let st3 = set_proxy (px\<lparr>px_cpipe := Some p, px_flags := insert CONNECTING (px_flags px)\<rparr>) st2;
              (if cpu = ue_local_cpu env \<or> ue_rpmsg env then Some (0, uv_log [Connect_request p cpu] st3)
               else do { st4 \<leftarrow> media_uv_close p st3; Some (-ENOSYS, st4) })
            })
       })"

definition media_uv_reconnect_one :: "uv_env \<Rightarrow> 'a uv_user \<Rightarrow> 'a uv_state_scheme \<Rightarrow> 'a uv_state_scheme option" where
  "media_uv_reconnect_one env user st = do {
     px \<leftarrow> us_proxy st;
     (case px_cpus px of
        [] \<Rightarrow> do {
          st1 \<leftarrow> media_uv_clear_queue (set_proxy (px\<lparr>px_cpu := None\<rparr>) st);
          call_user user (On_connect (-ENOENT)) st1
        }
      | cpu # rest \<Rightarrow> do {
          let st1 = set_proxy (px\<lparr>px_cpu := Some cpu, px_cpus := rest\<rparr>) st;
          st2 \<leftarrow> (case px_cpipe px of None \<Rightarrow> Some st1 | Some p \<Rightarrow> media_uv_close p st1);
          (ret, st3) \<leftarrow> media_uv_connect_one env st2;
          (if ret < 0 then call_user user (On_connect ret) st3 else Some st3)
        })
   }"

definition media_uv_connect_one_cb :: "'a uv_user \<Rightarrow> nat \<Rightarrow> int \<Rightarrow> 'a uv_state_scheme \<Rightarrow> 'a uv_state_scheme option" where
  "media_uv_connect_one_cb user p status st = do {
     pipe \<leftarrow> us_pipes st p;
     px \<leftarrow> us_proxy st;
     let status = (if 0 \<le> status \<and> DISCONNECT \<in> px_flags px then -ECANCELED else status);
     (if status < 0 then do {
        st1 \<leftarrow> call_user user (On_connect status) st;
        media_uv_close p st1
      }
      else do {
        q \<leftarrow> media_parcel_init (pipe_parcel pipe);
        let st1 = uv_log [Read_started p] (set_pipe p (pipe\<lparr>pipe_parcel := q\<rparr>) (set_proxy (px\<lparr>px_flags := {}\<rparr>) st));
        st2 \<leftarrow> call_user user (On_connect status) st1;
        px2 \<leftarrow> us_proxy st2;
        Some (set_proxy (px2\<lparr>px_flags := px_flags px2 \<union> px_flags px\<rparr>) st2)
      })
   }"

section \<open>Writing\<close>

definition is_acked :: "uv_writing \<Rightarrow> bool" where
  "is_acked wr \<longleftrightarrow> chunk_code (wr_parcel wr) = MEDIA_PARCEL_SEND_ACK"

definition call_receive :: "'a uv_user \<Rightarrow> uv_writing \<Rightarrow> media_parcel option \<Rightarrow> 'a uv_state_scheme \<Rightarrow> 'a uv_state_scheme option" where
  "call_receive user wr p st = do {
     f \<leftarrow> wr_receive wr;
     call_user user (On_receive f (fst (wr_cookies wr)) (snd (wr_cookies wr)) p) st
   }"

definition media_uv_write_cb :: "'a uv_user \<Rightarrow> nat \<Rightarrow> int \<Rightarrow> 'a uv_state_scheme \<Rightarrow> 'a uv_state_scheme option" where
  "media_uv_write_cb user w status st = do {
     wr \<leftarrow> us_writings st w;
     px \<leftarrow> us_proxy st;
     st1 \<leftarrow> (if status < 0
        then if is_acked wr
          then if w \<in> set (px_sentq px) then do {
              st1 \<leftarrow> call_receive user wr None (set_proxy (px\<lparr>px_sentq := remove1 w (px_sentq px)\<rparr>) st);
              writing_flag RESPONSED w st1
            }
            else None
          else Some st
        else Some (set_proxy (px\<lparr>px_nb_sent := px_nb_sent px + 1\<rparr>) st));
     st2 \<leftarrow> writing_flag WRITTEN w st1;
     media_uv_free_writing w st2
   }"

definition writing_bytes :: "uv_writing \<Rightarrow> bytes option" where
  \<comment> \<open>the header and the payload of the chunk\<close>
  "writing_bytes wr = read_at 0 (u32 (MEDIA_PARCEL_HEADER_LEN + chunk_len (wr_parcel wr))) (chunk (wr_parcel wr))"

definition media_uv_send_writing :: "'a uv_user \<Rightarrow> nat \<Rightarrow> 'a uv_state_scheme \<Rightarrow> (int \<times> 'a uv_state_scheme) option" where
  \<comment> \<open>\<open>uv_write\<close> on a NULL pipe is undefined\<close>
  "media_uv_send_writing user w st = do {
     wr \<leftarrow> us_writings st w;
     px \<leftarrow> us_proxy st;
     let st1 = (if is_acked wr
       then set_proxy (px\<lparr>px_sentq := px_sentq px @ [w], px_nb_sentq := px_nb_sentq px + 1\<rparr>) st
       else set_writing w (wr\<lparr>wr_flags := insert RESPONSED (wr_flags wr)\<rparr>) st);
     p \<leftarrow> px_cpipe px;
     _ \<leftarrow> us_pipes st p;
     buf \<leftarrow> writing_bytes wr;
     (case next_ret st1 of (ret, st2) \<Rightarrow>
        if ret < 0 then do { st3 \<leftarrow> media_uv_write_cb user w ret st2; Some (ret, st3) }
        else Some (ret, uv_log [Write_request p w buf] (st2\<lparr>us_writes := us_writes st2 @ [w]\<rparr>)))
   }"

definition media_uv_dequeue_writing :: "uv_proxy \<Rightarrow> nat option \<times> uv_proxy" where
  "media_uv_dequeue_writing px = (case px_sentq px of
     [] \<Rightarrow> (None, px)
   | w # ws \<Rightarrow> (Some w, px\<lparr>px_sentq := ws, px_nb_sentq := px_nb_sentq px - 1\<rparr>))"

definition list_next :: "'a \<Rightarrow> 'a list \<Rightarrow> 'a option" where
  \<comment> \<open>\<open>TAILQ_NEXT\<close>\<close>
  "list_next x xs = (case dropWhile (\<lambda>y. y \<noteq> x) xs of _ # y # _ \<Rightarrow> Some y | _ \<Rightarrow> None)"

partial_function (option) delivery_loop :: "'a uv_user \<Rightarrow> nat option \<Rightarrow> 'a uv_state_scheme \<Rightarrow> 'a uv_state_scheme option" where
  \<comment> \<open>\<open>TAILQ_FOREACH_SAFE\<close>: the next element is read before the body runs\<close>
  "delivery_loop user cursor st =
     (case cursor of
        None \<Rightarrow> Some st
      | Some w \<Rightarrow> (case us_proxy st of
          None \<Rightarrow> None
        | Some px \<Rightarrow>
            if w \<notin> set (px_pendq px) then None
            else case media_uv_send_writing user w
                   (set_proxy (px\<lparr>px_pendq := remove1 w (px_pendq px), px_nb_pendq := px_nb_pendq px - 1\<rparr>) st) of
                None \<Rightarrow> None
              | Some (_, st1) \<Rightarrow> delivery_loop user (list_next w (px_pendq px)) st1))"

definition media_uv_delivery_writing :: "'a uv_user \<Rightarrow> 'a uv_state_scheme \<Rightarrow> 'a uv_state_scheme option" where
  "media_uv_delivery_writing user st = do {
     px \<leftarrow> us_proxy st;
     delivery_loop user (case px_pendq px of [] \<Rightarrow> None | w # _ \<Rightarrow> Some w) st
   }"

definition media_uv_queue_writing :: "'a uv_user \<Rightarrow> nat \<Rightarrow> 'a uv_state_scheme \<Rightarrow> (int \<times> 'a uv_state_scheme) option" where
  "media_uv_queue_writing user w st = do {
     px \<leftarrow> us_proxy st;
     (if px_flags px = {} then media_uv_send_writing user w st
      else Some (0, set_proxy (px\<lparr>px_pendq := px_pendq px @ [w], px_nb_pendq := px_nb_pendq px + 1\<rparr>) st))
   }"

section \<open>Listening\<close>

definition media_uv_create_notify :: "uv_env \<Rightarrow> 'a uv_user \<Rightarrow> 'a uv_state_scheme \<Rightarrow> (int \<times> 'a uv_state_scheme) option" where
  "media_uv_create_notify env user st = do {
     (writing, st1) \<leftarrow> media_uv_alloc_writing env MEDIA_PARCEL_CREATE_NOTIFY None st;
     (case writing of
        None \<Rightarrow> Some (-ENOMEM, st1)
      | Some w \<Rightarrow> do {
          wr \<leftarrow> us_writings st1 w;
          (_, p) \<leftarrow> media_parcel_append_printf (ue_alloc env) (ue_narrow env) (wr_parcel wr) ''%s%s''
            [VString (Some (ue_name env)), VString (Some (ue_local_cpu env))];
          media_uv_send_writing user w (set_writing w (wr\<lparr>wr_parcel := p\<rparr>) st1)
        })
   }"

definition call_listen :: "'a uv_user \<Rightarrow> int \<Rightarrow> 'a uv_state_scheme \<Rightarrow> 'a uv_state_scheme option" where
  \<comment> \<open>\<open>if (proxy->on_listen) proxy->on_listen(proxy->cookie, ret)\<close>\<close>
  "call_listen user ret st = do {
     px \<leftarrow> us_proxy st;
     (case px_on_listen px of None \<Rightarrow> Some st | Some f \<Rightarrow> call_user user (On_listen f ret) st)
   }"

definition media_uv_listen_one_cb :: "'a uv_user \<Rightarrow> nat \<Rightarrow> int \<Rightarrow> 'a uv_state_scheme \<Rightarrow> 'a uv_state_scheme option" where
  "media_uv_listen_one_cb user server ret st = do {
     px0 \<leftarrow> us_proxy st;
     let px = px0\<lparr>px_flags := px_flags px0 - {LISTENING}\<rparr>;
     let err1 = (\<lambda>ret st. do { st1 \<leftarrow> media_uv_close server st; call_listen user ret st1 });
     let st1 = set_proxy px st;
     (if ret < 0 then err1 ret st1
      else if DISCONNECT \<in> px_flags px then err1 (-ECANCELED) st1
      else do {
        (pipe, st2) \<leftarrow> media_uv_alloc_pipe st1;
        let st3 = set_proxy (px\<lparr>px_epipe := pipe\<rparr>) st2;
        (case pipe of
           None \<Rightarrow> err1 ret st3
         | Some p \<Rightarrow> (case next_ret st3 of (ret, st4) \<Rightarrow>
             if ret < 0 then do { st5 \<leftarrow> media_uv_close p st4; err1 ret st5 }
             else do {
               st5 \<leftarrow> media_uv_close server (uv_log [Accepted server p] st4);
               st6 \<leftarrow> call_listen user ret st5;
               st7 \<leftarrow> media_uv_delivery_writing user st6;
               px7 \<leftarrow> us_proxy st7;
               e \<leftarrow> px_epipe px7;
               Some (uv_log [Read_started e] st7)
             }))
      })
   }"

definition media_uv_listen_one :: "uv_env \<Rightarrow> 'a uv_user \<Rightarrow> 'a uv_state_scheme \<Rightarrow> (int \<times> 'a uv_state_scheme) option" where
  "media_uv_listen_one env user st = do {
     (pipe, st1) \<leftarrow> media_uv_alloc_pipe st;
     px \<leftarrow> us_proxy st1;
     let st2 = set_proxy (px\<lparr>px_epipe := pipe\<rparr>) st1;
     let err1 = (\<lambda>ret st. do { st1 \<leftarrow> call_listen user ret st; Some (ret, st1) });
     (case pipe of
        None \<Rightarrow> err1 (-ENOMEM) st2
      | Some p \<Rightarrow> do {
          let err2 = (\<lambda>ret st. do { st1 \<leftarrow> media_uv_close p st; err1 ret st1 });
          cpu \<leftarrow> px_cpu px;
          let (ret, st3) = (if cpu = ue_local_cpu env \<or> ue_rpmsg env then next_ret st2 else (-ENOSYS, st2));
          (if ret < 0 then err2 ret st3
           else case next_ret st3 of (ret, st4) \<Rightarrow>
             if ret < 0 then err2 ret st4
             else do {
               (ret, st5) \<leftarrow> media_uv_create_notify env user (uv_log [Listen_request p] st4);
               (if ret < 0 then err2 ret st5
                else do {
                  px5 \<leftarrow> us_proxy st5;
                  Some (ret, set_proxy (px5\<lparr>px_flags := insert LISTENING (px_flags px5)\<rparr>) st5)
                })
             })
        })
   }"

section \<open>Reading\<close>

definition media_uv_alloc_cb :: "nat \<Rightarrow> 'a uv_state_scheme \<Rightarrow> (nat \<times> nat) option" where
  \<comment> \<open>where in the chunk the buffer starts, and its length\<close>
  "media_uv_alloc_cb p st = do {
     pipe \<leftarrow> us_pipes st p;
     Some (pipe_offset pipe, if pipe_offset pipe < MEDIA_PARCEL_HEADER_LEN then MEDIA_PARCEL_HEADER_LEN - pipe_offset pipe
       else u32 (4294967296 + MEDIA_PARCEL_HEADER_LEN + chunk_len (pipe_parcel pipe) - pipe_offset pipe))
   }"

definition first_response :: "uv_env \<Rightarrow> 'a uv_user \<Rightarrow> 'a uv_state_scheme \<Rightarrow> (int \<times> 'a uv_state_scheme) option" where
  \<comment> \<open>what \<open>media_uv_handle_parcel\<close> does about the flags after the first \<open>on_receive\<close>\<close>
  "first_response env user st = do {
     px0 \<leftarrow> us_proxy st;
     (if CONNECTING \<notin> px_flags px0 then Some (0, st)
      else do {
        let st1 = set_proxy (px0\<lparr>px_flags := px_flags px0 - {CONNECTING}\<rparr>) st;
        st2 \<leftarrow> (if px_flags px0 - {CONNECTING} = {LISTENING}
          then do { (_, st2) \<leftarrow> media_uv_listen_one env user st1; Some st2 } else Some st1);
        px2 \<leftarrow> us_proxy st2;
        st3 \<leftarrow> (if LISTENING \<notin> px_flags px2 \<and> RECONNECT \<notin> px_flags px2
          then media_uv_delivery_writing user st2 else Some st2);
        px3 \<leftarrow> us_proxy st3;
        (if DISCONNECT \<in> px_flags px3 then do {
           st4 \<leftarrow> media_uv_delivery_writing user st3;
           Some (UV_EOF, st4)
         }
         else if RECONNECT \<in> px_flags px3 then do {
           st4 \<leftarrow> media_uv_reconnect_one env user (set_proxy (px3\<lparr>px_flags := px_flags px3 - {RECONNECT}\<rparr>) st3);
           Some (UV_EOF, st4)
         }
         else Some (0, st3))
      })
   }"

definition media_uv_handle_parcel :: "uv_env \<Rightarrow> 'a uv_user \<Rightarrow> nat \<Rightarrow> 'a uv_state_scheme \<Rightarrow> (int \<times> 'a uv_state_scheme) option" where
  \<comment> \<open>an answer that nothing waits for fails the assertion\<close>
  "media_uv_handle_parcel env user p st = do {
     pipe \<leftarrow> us_pipes st p;
     px \<leftarrow> us_proxy st;
     (if px_epipe px = Some p then do {
        f \<leftarrow> px_on_event px;
        st1 \<leftarrow> call_user user (On_event f (pipe_parcel pipe)) st;
        Some (0, st1)
      }
      else case media_uv_dequeue_writing px of
        (None, _) \<Rightarrow> None
      | (Some w, px1) \<Rightarrow> do {
          wr \<leftarrow> us_writings st w;
          st1 \<leftarrow> call_receive user wr (Some (pipe_parcel pipe)) (set_proxy px1 st);
          st2 \<leftarrow> writing_flag RESPONSED w st1;
          st3 \<leftarrow> media_uv_free_writing w st2;
          px3 \<leftarrow> us_proxy st3;
          first_response env user (set_proxy (px3\<lparr>px_nb_recv := px_nb_recv px3 + 1\<rparr>) st3)
        })
   }"

definition media_uv_read_cb :: "uv_env \<Rightarrow> 'a uv_user \<Rightarrow> nat \<Rightarrow> int \<Rightarrow> 'a uv_state_scheme \<Rightarrow> 'a uv_state_scheme option" where
  \<comment> \<open>libuv has stored \<open>ret\<close> bytes in the buffer, or \<open>ret\<close> is an error\<close>
  "media_uv_read_cb env user p ret st = do {
     pipe \<leftarrow> us_pipes st p;
     (if ret = 0 then Some st
      else if ret < 0 then media_uv_close p st
      else do {
        let offset1 = u32 (pipe_offset pipe + nat ret);
        (ret, q) \<leftarrow> (if offset1 = MEDIA_PARCEL_HEADER_LEN
          then media_parcel_grow (ue_alloc env) (pipe_parcel pipe) 0 (chunk_len (pipe_parcel pipe))
          else Some (0, pipe_parcel pipe));
        let st1 = set_pipe p (pipe\<lparr>pipe_parcel := q, pipe_offset := offset1\<rparr>) st;
        (if ret < 0 then media_uv_close p st1
         else if u32 (MEDIA_PARCEL_HEADER_LEN + chunk_len q) = offset1 then do {
           (ret, st2) \<leftarrow> media_uv_handle_parcel env user p st1;
           (if ret < 0 then media_uv_close p st2
            else do {
              pipe2 \<leftarrow> us_pipes st2 p;
              q2 \<leftarrow> media_parcel_reinit (pipe_parcel pipe2);
              Some (set_pipe p (pipe2\<lparr>pipe_parcel := q2, pipe_offset := 0\<rparr>) st2)
            })
         }
         else Some st1)
      })
   }"

definition uv_receive :: "uv_env \<Rightarrow> 'a uv_user \<Rightarrow> nat \<Rightarrow> bytes \<Rightarrow> 'a uv_state_scheme \<Rightarrow> 'a uv_state_scheme option" where
  \<comment> \<open>libuv's side of a read: the bytes go to the buffer of \<open>media_uv_alloc_cb\<close>, then the callback\<close>
  "uv_receive env user p bs st = do {
     (off, len) \<leftarrow> media_uv_alloc_cb p st;
     pipe \<leftarrow> us_pipes st p;
     c \<leftarrow> (if length bs \<le> len then write_at off bs (chunk (pipe_parcel pipe)) else None);
     media_uv_read_cb env user p (int (length bs)) (set_pipe p (pipe\<lparr>pipe_parcel := set_chunk c (pipe_parcel pipe)\<rparr>) st)
   }"

section \<open>The interface\<close>

definition media_uv_connect :: "uv_env \<Rightarrow> bool \<Rightarrow> bytes option \<Rightarrow> bool \<Rightarrow> 'a uv_state_scheme \<Rightarrow> (bool \<times> 'a uv_state_scheme) option" where
  \<comment> \<open>whether there is a loop and a callback; whether a handle is returned. A proxy that is freed may
    leave a pipe that is closing\<close>
  "media_uv_connect env loop cpus on_connect st = (case cpus of
     None \<Rightarrow> Some (False, st)
   | Some cpus \<Rightarrow>
       if \<not> loop \<or> \<not> on_connect then Some (False, st)
       else case next_ret st of (r, st1) \<Rightarrow>
         if r < 0 then Some (False, st1)
         else (case strtok_r_tokens (c_bytes '' ,;'' @ [9, 10]) cpus [] of
             [] \<Rightarrow> Some (False, st1)
           | cpu # rest \<Rightarrow> do {
               (ret, st2) \<leftarrow> media_uv_connect_one env (set_proxy \<lparr>px_cpu = Some cpu, px_cpus = rest, px_cpipe = None,
                 px_epipe = None, px_on_release = None, px_on_listen = None, px_on_event = None, px_pendq = [], px_sentq = [],
                 px_nb_pendq = 0, px_nb_sentq = 0, px_nb_sent = 0, px_nb_recv = 0, px_flags = {}\<rparr> st1);
               Some (if ret < 0 then (False, st2\<lparr>us_proxy := None\<rparr>) else (True, st2))
             }))"

text \<open>\<open>handle\<close> says whether the handle is there or NULL.\<close>

definition media_uv_disconnect :: "'a uv_user \<Rightarrow> bool \<Rightarrow> int option \<Rightarrow> 'a uv_state_scheme \<Rightarrow> (int \<times> 'a uv_state_scheme) option" where
  "media_uv_disconnect user handle on_release st = (if \<not> handle then Some (-EINVAL, st) else do {
     px \<leftarrow> us_proxy st;
     (if DISCONNECT \<in> px_flags px then Some (-EINVAL, st)
      else do {
        let px1 = px\<lparr>px_on_release := on_release\<rparr>;
        st1 \<leftarrow> (if px_flags px1 = {} then media_uv_shutdown (px_cpipe px1) (set_proxy px1 st) else Some (set_proxy px1 st));
        st2 \<leftarrow> media_uv_free_proxy user (set_proxy (px1\<lparr>px_flags := insert DISCONNECT (px_flags px1)\<rparr>) st1);
        Some (0, st2)
      })
   })"

definition media_uv_reconnect :: "uv_env \<Rightarrow> 'a uv_user \<Rightarrow> bool \<Rightarrow> 'a uv_state_scheme \<Rightarrow> (int \<times> 'a uv_state_scheme) option" where
  "media_uv_reconnect env user handle st = (if \<not> handle then Some (-EINVAL, st) else do {
     px \<leftarrow> us_proxy st;
     (if px_epipe px \<noteq> None then Some (-EINVAL, st)
      else if px_flags px = {} then do { st1 \<leftarrow> media_uv_reconnect_one env user st; Some (0, st1) }
      else Some (0, set_proxy (px\<lparr>px_flags := insert RECONNECT (px_flags px)\<rparr>) st))
   })"

definition media_uv_listen :: "uv_env \<Rightarrow> 'a uv_user \<Rightarrow> bool \<Rightarrow> int option \<Rightarrow> int option \<Rightarrow> 'a uv_state_scheme \<Rightarrow> (int \<times> 'a uv_state_scheme) option" where
  "media_uv_listen env user handle on_listen on_event st = (if \<not> handle \<or> on_event = None then Some (-EINVAL, st) else do {
     px \<leftarrow> us_proxy st;
     (if LISTENING \<in> px_flags px \<or> px_epipe px \<noteq> None then Some (-EPERM, st)
      else let px1 = px\<lparr>px_on_listen := on_listen, px_on_event := on_event\<rparr> in
        if px_flags px1 = {} then media_uv_listen_one env user (set_proxy px1 st)
        else Some (0, set_proxy (px1\<lparr>px_flags := insert LISTENING (px_flags px1)\<rparr>) st))
   })"

definition media_uv_send :: "uv_env \<Rightarrow> 'a uv_user \<Rightarrow> bool \<Rightarrow> int option \<Rightarrow> int \<Rightarrow> int \<Rightarrow> media_parcel option \<Rightarrow> 'a uv_state_scheme
    \<Rightarrow> (int \<times> 'a uv_state_scheme) option" where
  \<comment> \<open>a cookie 0 is NULL\<close>
  "media_uv_send env user handle on_receive cookie0 cookie1 parcel0 st = (if \<not> handle then Some (-EINVAL, st) else do {
     px \<leftarrow> us_proxy st;
     (if px_cpu px = None then Some (-ECANCELED, st)
      else if DISCONNECT \<in> px_flags px then Some (-EPERM, st)
      else do {
        (writing, st1) \<leftarrow> media_uv_alloc_writing env
          (if on_receive = None \<or> cookie0 = 0 then MEDIA_PARCEL_SEND else MEDIA_PARCEL_SEND_ACK) parcel0 st;
        (case writing of
           None \<Rightarrow> Some (-ENOMEM, st1)
         | Some w \<Rightarrow> do {
             wr \<leftarrow> us_writings st1 w;
             media_uv_queue_writing user w (set_writing w (wr\<lparr>wr_receive := on_receive, wr_cookies := (cookie0, cookie1)\<rparr>) st1)
           })
      })
   })"

end
