(* ===== verification/Uv_Facts.thy ===== *)
theory Uv_Facts
  imports Media_Uv
begin

text \<open>
  Properties of the asynchronous client connection (\<open>Media_Uv\<close>): the life of a writing, whatever the
  user's callbacks do; the order of the answers; what happens to pending writings.
\<close>

section \<open>The life of a writing\<close>

definition sentq_of :: "'a uv_state_scheme \<Rightarrow> nat list" where
  "sentq_of st = (case us_proxy st of None \<Rightarrow> [] | Some px \<Rightarrow> px_sentq px)"

definition pendq_of :: "'a uv_state_scheme \<Rightarrow> nat list" where
  "pendq_of st = (case us_proxy st of None \<Rightarrow> [] | Some px \<Rightarrow> px_pendq px)"

text \<open>
  The writings that are live are those waiting for something: to be sent, to be written, to be answered.
  \<open>W\<close> and \<open>R\<close> are those whose flag a running function is about to set.
\<close>

definition uv_mem :: "nat set \<Rightarrow> nat set \<Rightarrow> 'a uv_state_scheme \<Rightarrow> bool" where
  "uv_mem W R st \<longleftrightarrow>
     distinct (us_writes st) \<and> distinct (sentq_of st) \<and> distinct (pendq_of st)
     \<and> set (pendq_of st) \<inter> (set (us_writes st) \<union> set (sentq_of st) \<union> W \<union> R) = {}
     \<and> W \<inter> set (us_writes st) = {} \<and> R \<inter> set (sentq_of st) = {}
     \<and> (\<forall>w. us_writings st w \<noteq> None \<longleftrightarrow> w \<in> set (us_writes st) \<union> set (sentq_of st) \<union> set (pendq_of st) \<union> W \<union> R)
     \<and> (\<forall>w wr. us_writings st w = Some wr \<longrightarrow>
          (WRITTEN \<in> wr_flags wr \<longleftrightarrow> w \<notin> set (us_writes st) \<union> set (pendq_of st) \<union> W)
          \<and> (RESPONSED \<in> wr_flags wr \<longleftrightarrow> w \<notin> set (sentq_of st) \<union> set (pendq_of st) \<union> R)
          \<and> w < us_next st)
     \<and> (case us_proxy st of None \<Rightarrow> us_writes st = []
        | Some px \<Rightarrow> (px_cpipe px = None \<longrightarrow> us_writes st = []) \<and> RECONNECT \<notin> px_flags px)"

text \<open>The states in which a callback of the user is called, but for the last, \<open>on_release\<close>.\<close>

definition uv_safe :: "nat set \<Rightarrow> nat set \<Rightarrow> 'a uv_state_scheme \<Rightarrow> bool" where
  "uv_safe W R st \<longleftrightarrow> uv_mem W R st \<and> W \<inter> set (sentq_of st) = {}"

lemma queues_set_proxy [simp]:
  "sentq_of (set_proxy px st) = px_sentq px" "pendq_of (set_proxy px st) = px_pendq px"
  "us_proxy (set_proxy px st) = Some px" "us_writings (set_proxy px st) = us_writings st"
  "us_writes (set_proxy px st) = us_writes st" "us_next (set_proxy px st) = us_next st"
  "us_pipes (set_proxy px st) = us_pipes st"
  by (simp_all add: sentq_of_def pendq_of_def set_proxy_def)

lemma queues_cong [simp]:
  "sentq_of (set_writing w wr st) = sentq_of st" "pendq_of (set_writing w wr st) = pendq_of st"
  "sentq_of (set_pipe p q st) = sentq_of st" "pendq_of (set_pipe p q st) = pendq_of st"
  "sentq_of (uv_log e st) = sentq_of st" "pendq_of (uv_log e st) = pendq_of st"
  "sentq_of (st\<lparr>us_writings := f\<rparr>) = sentq_of st" "pendq_of (st\<lparr>us_writings := f\<rparr>) = pendq_of st"
  "sentq_of (st\<lparr>us_writes := ws\<rparr>) = sentq_of st" "pendq_of (st\<lparr>us_writes := ws\<rparr>) = pendq_of st"
  "sentq_of (st\<lparr>us_pipes := ps\<rparr>) = sentq_of st" "pendq_of (st\<lparr>us_pipes := ps\<rparr>) = pendq_of st"
  "sentq_of (st\<lparr>us_next := n\<rparr>) = sentq_of st" "pendq_of (st\<lparr>us_next := n\<rparr>) = pendq_of st"
  by (simp_all add: sentq_of_def pendq_of_def set_writing_def set_pipe_def uv_log_def)

lemma fields_cong [simp]:
  "us_proxy (set_writing w wr st) = us_proxy st" "us_writes (set_writing w wr st) = us_writes st"
  "us_next (set_writing w wr st) = us_next st" "us_pipes (set_writing w wr st) = us_pipes st"
  "us_writings (set_writing w wr st) = (us_writings st)(w \<mapsto> wr)"
  "us_proxy (set_pipe p q st) = us_proxy st" "us_writes (set_pipe p q st) = us_writes st"
  "us_next (set_pipe p q st) = us_next st" "us_writings (set_pipe p q st) = us_writings st"
  "us_pipes (set_pipe p q st) = (us_pipes st)(p \<mapsto> q)"
  "us_proxy (uv_log e st) = us_proxy st" "us_writes (uv_log e st) = us_writes st"
  "us_next (uv_log e st) = us_next st" "us_writings (uv_log e st) = us_writings st"
  "us_pipes (uv_log e st) = us_pipes st" "us_log (uv_log e st) = us_log st @ e"
  "us_rets (uv_log e st) = us_rets st" "us_rets (set_proxy px st) = us_rets st"
  "us_rets (set_writing w wr st) = us_rets st" "us_rets (set_pipe p q st) = us_rets st"
  "us_log (set_writing w wr st) = us_log st" "us_log (set_pipe p q st) = us_log st" "us_log (set_proxy px st) = us_log st"
  by (simp_all add: set_writing_def set_pipe_def uv_log_def set_proxy_def)

text \<open>Most steps leave everything the invariant speaks of alone.\<close>

definition same_mem :: "'a uv_state_scheme \<Rightarrow> 'a uv_state_scheme \<Rightarrow> bool" where
  "same_mem st st' \<longleftrightarrow> us_writings st' = us_writings st \<and> us_writes st' = us_writes st \<and> us_next st \<le> us_next st'
     \<and> us_proxy st' = us_proxy st"

lemma same_mem_simps [simp]:
  "same_mem st st" "same_mem st (uv_log e st)" "same_mem st (set_pipe p q st)"
  "same_mem st (st\<lparr>us_pipes := ps\<rparr>)" "same_mem st (st\<lparr>us_rets := rs\<rparr>)" "same_mem st (st\<lparr>us_next := us_next st + 1\<rparr>)"
  by (simp_all add: same_mem_def)

lemma same_mem_trans: "same_mem a b \<Longrightarrow> same_mem b c \<Longrightarrow> same_mem a c"
  by (auto simp: same_mem_def)

lemma same_mem_queues: "same_mem st st' \<Longrightarrow> sentq_of st' = sentq_of st \<and> pendq_of st' = pendq_of st"
  by (simp add: same_mem_def sentq_of_def pendq_of_def)

lemma mem_same: "uv_mem W R st \<Longrightarrow> same_mem st st' \<Longrightarrow> uv_mem W R st'"
proof -
  assume m: "uv_mem W R st" and s: "same_mem st st'"
  note q = same_mem_queues[OF s]
  have e: "us_writings st' = us_writings st" "us_writes st' = us_writes st" "us_next st \<le> us_next st'"
    "us_proxy st' = us_proxy st" using s by (simp_all add: same_mem_def)
  have "\<forall>w wr. us_writings st w = Some wr \<longrightarrow> w < us_next st'" using m e(3) unfolding uv_mem_def by (meson order.strict_trans2)
  with m show ?thesis unfolding uv_mem_def e(1,2,4) q[THEN conjunct1] q[THEN conjunct2] by simp
qed

lemma safe_same: "uv_safe W R st \<Longrightarrow> same_mem st st' \<Longrightarrow> uv_safe W R st'"
  using mem_same same_mem_queues by (fastforce simp: uv_safe_def)

lemma mem_proxy:
  assumes "uv_mem W R st" "us_proxy st = Some px" "px_sentq px' = px_sentq px" "px_pendq px' = px_pendq px"
    "px_cpipe px' = None \<longrightarrow> us_writes st = []" "RECONNECT \<notin> px_flags px'"
  shows "uv_mem W R (set_proxy px' st)"
  using assms unfolding uv_mem_def by (simp add: sentq_of_def pendq_of_def)

lemma safe_proxy:
  assumes "uv_safe W R st" "us_proxy st = Some px" "px_sentq px' = px_sentq px" "px_pendq px' = px_pendq px"
    "px_cpipe px' = None \<longrightarrow> us_writes st = []" "RECONNECT \<notin> px_flags px'"
  shows "uv_safe W R (set_proxy px' st)"
  using assms mem_proxy[of W R st px px'] by (simp add: uv_safe_def sentq_of_def)

lemma mem_proxyD: "uv_mem W R st \<Longrightarrow> us_proxy st = Some px
    \<Longrightarrow> (px_cpipe px = None \<longrightarrow> us_writes st = []) \<and> RECONNECT \<notin> px_flags px"
  by (simp add: uv_mem_def)

lemma safe_proxyD: "uv_safe W R st \<Longrightarrow> us_proxy st = Some px
    \<Longrightarrow> (px_cpipe px = None \<longrightarrow> us_writes st = []) \<and> RECONNECT \<notin> px_flags px"
  by (simp add: uv_safe_def uv_mem_def)

lemma next_ret_same: "next_ret st = (r, st') \<Longrightarrow> same_mem st st'"
  by (auto simp: next_ret_def split: list.splits)

lemma close_same: "media_uv_close p st = Some st' \<Longrightarrow> same_mem st st'"
  by (auto simp: media_uv_close_def bind_Some_iff same_mem_def split: if_splits)

lemma alloc_pipe_same: "media_uv_alloc_pipe st = Some (q, st') \<Longrightarrow> same_mem st st'"
  by (auto simp: media_uv_alloc_pipe_def bind_Some_iff same_mem_def Let_def split: prod.splits if_splits
      dest!: next_ret_same)

lemma shutdown_same: "media_uv_shutdown p st = Some st' \<Longrightarrow> same_mem st st'"
proof -
  assume a: "media_uv_shutdown p st = Some st'"
  obtain r1 st1 where n1: "next_ret st = (r1, st1)" by (cases "next_ret st")
  obtain r2 st2 where n2: "next_ret st1 = (r2, st2)" by (cases "next_ret st1")
  have s2: "same_mem st st2" using same_mem_trans[OF next_ret_same[OF n1] next_ret_same[OF n2]] .
  show ?thesis
    using a n1 n2 next_ret_same[OF n1] s2 same_mem_trans[OF s2] close_same[of _ st2 st']
    by (auto simp: media_uv_shutdown_def bind_Some_iff split: if_splits)
qed

section \<open>Setting the flags\<close>

lemma settle_written:
  assumes "uv_mem (insert w W) R st" "w \<notin> W"
    "Option.bind (writing_flag WRITTEN w st) (media_uv_free_writing w) = Some st'"
  shows "uv_mem W R st'" "sentq_of st' = sentq_of st" "us_proxy st' = us_proxy st"
proof -
  obtain wr where wr: "us_writings st w = Some wr" using assms(3) by (auto simp: writing_flag_def bind_Some_iff)
  have st': "st' = (if RESPONSED \<in> wr_flags wr then (set_writing w (wr\<lparr>wr_flags := insert WRITTEN (wr_flags wr)\<rparr>) st)
      \<lparr>us_writings := (us_writings st)(w := None)\<rparr> else set_writing w (wr\<lparr>wr_flags := insert WRITTEN (wr_flags wr)\<rparr>) st)"
    using assms(3) wr by (auto simp: writing_flag_def media_uv_free_writing_def bind_Some_iff)
  show "sentq_of st' = sentq_of st" "us_proxy st' = us_proxy st" by (simp_all add: st')
  show "uv_mem W R st'" using assms(1,2) wr unfolding uv_mem_def st' by (auto split: option.splits)
qed

lemma settle_responsed:
  assumes "uv_mem W (insert w R) st" "w \<notin> R"
    "Option.bind (writing_flag RESPONSED w st) (media_uv_free_writing w) = Some st'"
  shows "uv_mem W R st'" "sentq_of st' = sentq_of st" "us_proxy st' = us_proxy st"
proof -
  obtain wr where wr: "us_writings st w = Some wr" using assms(3) by (auto simp: writing_flag_def bind_Some_iff)
  have st': "st' = (if WRITTEN \<in> wr_flags wr then (set_writing w (wr\<lparr>wr_flags := insert RESPONSED (wr_flags wr)\<rparr>) st)
      \<lparr>us_writings := (us_writings st)(w := None)\<rparr> else set_writing w (wr\<lparr>wr_flags := insert RESPONSED (wr_flags wr)\<rparr>) st)"
    using assms(3) wr by (auto simp: writing_flag_def media_uv_free_writing_def bind_Some_iff)
  show "sentq_of st' = sentq_of st" "us_proxy st' = us_proxy st" by (simp_all add: st')
  show "uv_mem W R st'" using assms(1,2) wr unfolding uv_mem_def st' by (auto split: option.splits)
qed

text \<open>The flag alone, while the writing still waits to be written.\<close>

lemma mark_responsed:
  assumes "uv_mem (insert w W) (insert w R) st" "w \<notin> R" "us_writings st w = Some wr"
  shows "uv_mem (insert w W) R (set_writing w (wr\<lparr>wr_flags := insert RESPONSED (wr_flags wr)\<rparr>) st)"
  using assms unfolding uv_mem_def by (auto split: option.splits)

section \<open>Moving a writing from one queue to another\<close>

lemma mem_unsent:
  assumes "uv_mem W R st" "us_proxy st = Some px" "w \<in> set (px_sentq px)"
    "px_sentq px' = remove1 w (px_sentq px)" "px_pendq px' = px_pendq px" "px_cpipe px' = px_cpipe px" "px_flags px' = px_flags px"
  shows "uv_mem W (insert w R) (set_proxy px' st)" "w \<notin> R" "w \<notin> set (px_sentq px')"
proof -
  have d: "distinct (px_sentq px)" using assms(1,2) by (simp add: uv_mem_def sentq_of_def)
  have s: "set (px_sentq px') = set (px_sentq px) - {w}" using d assms(4) by (simp add: set_remove1_eq)
  then show "w \<notin> set (px_sentq px')" by simp
  show "w \<notin> R" using assms(1-3) by (auto simp: uv_mem_def sentq_of_def)
  show "uv_mem W (insert w R) (set_proxy px' st)"
    using assms(1-3,5-7) distinct_remove1[OF d, of w, folded assms(4)] unfolding uv_mem_def
    by (auto simp: sentq_of_def pendq_of_def s)
qed

lemma mem_sent:
  assumes "uv_mem W (insert w R) st" "w \<notin> R" "us_proxy st = Some px"
    "px_sentq px' = px_sentq px @ [w]" "px_pendq px' = px_pendq px" "px_cpipe px' = px_cpipe px" "px_flags px' = px_flags px"
  shows "uv_mem W R (set_proxy px' st)"
  using assms unfolding uv_mem_def by (auto simp: sentq_of_def pendq_of_def)

lemma mem_pend:
  assumes "uv_mem (insert w W) (insert w R) st" "w \<notin> W" "w \<notin> R" "us_proxy st = Some px"
    "px_sentq px' = px_sentq px" "px_pendq px' = px_pendq px @ [w]" "px_cpipe px' = px_cpipe px" "px_flags px' = px_flags px"
  shows "uv_mem W R (set_proxy px' st)"
  using assms unfolding uv_mem_def by (auto simp: sentq_of_def pendq_of_def)

lemma mem_unpend:
  assumes "uv_mem W R st" "us_proxy st = Some px" "w \<in> set (px_pendq px)"
    "px_sentq px' = px_sentq px" "px_pendq px' = remove1 w (px_pendq px)" "px_cpipe px' = px_cpipe px" "px_flags px' = px_flags px"
  shows "uv_mem (insert w W) (insert w R) (set_proxy px' st)" "w \<notin> W" "w \<notin> R" "w \<notin> set (px_sentq px)"
proof -
  have d: "distinct (px_pendq px)" using assms(1,2) by (simp add: uv_mem_def pendq_of_def)
  have s: "set (px_pendq px') = set (px_pendq px) - {w}" using d assms(5) by (simp add: set_remove1_eq)
  show "w \<notin> W" "w \<notin> R" "w \<notin> set (px_sentq px)" using assms(1-3) by (auto simp: uv_mem_def sentq_of_def pendq_of_def)
  show "uv_mem (insert w W) (insert w R) (set_proxy px' st)"
    using assms(1-4,6-7) distinct_remove1[OF d, of w, folded assms(5)] unfolding uv_mem_def
    by (auto simp: sentq_of_def pendq_of_def s)
qed

lemma mem_write:
  assumes "uv_mem (insert w W) R st" "w \<notin> W" "us_proxy st = Some px" "px_cpipe px \<noteq> None"
  shows "uv_mem W R (st\<lparr>us_writes := us_writes st @ [w]\<rparr>)"
  using assms unfolding uv_mem_def by auto

lemma mem_written:
  assumes "uv_mem W R st" "w \<in> set (us_writes st)"
  shows "uv_mem (insert w W) R (st\<lparr>us_writes := remove1 w (us_writes st)\<rparr>)" "w \<notin> W"
proof -
  have d: "distinct (us_writes st)" using assms(1) by (simp add: uv_mem_def)
  have s: "set (remove1 w (us_writes st)) = set (us_writes st) - {w}" using d by (simp add: set_remove1_eq)
  show "w \<notin> W" using assms by (auto simp: uv_mem_def)
  show "uv_mem (insert w W) R (st\<lparr>us_writes := remove1 w (us_writes st)\<rparr>)"
    using assms distinct_remove1[OF d, of w] unfolding uv_mem_def by (auto simp: s split: option.splits)
qed

lemma mem_new:
  assumes "uv_mem W R st" "wr_flags wr = {}"
  shows "uv_mem (insert (us_next st) W) (insert (us_next st) R) (set_writing (us_next st) wr (st\<lparr>us_next := us_next st + 1\<rparr>))"
    "us_next st \<notin> W" "us_next st \<notin> R"
proof -
  have f: "us_writings st (us_next st) = None" using assms(1) unfolding uv_mem_def by (meson less_irrefl not_None_eq)
  then show n: "us_next st \<notin> W" "us_next st \<notin> R" using assms(1) unfolding uv_mem_def by blast+
  have "us_next st \<notin> set (us_writes st) \<union> set (sentq_of st) \<union> set (pendq_of st)"
    using assms(1) f unfolding uv_mem_def by blast
  then show "uv_mem (insert (us_next st) W) (insert (us_next st) R) (set_writing (us_next st) wr (st\<lparr>us_next := us_next st + 1\<rparr>))"
    using assms unfolding uv_mem_def by (auto simp: less_Suc_eq split: option.splits)
qed

lemma mem_fields: "uv_mem W R st \<Longrightarrow> us_writings st w = Some wr \<Longrightarrow> wr_flags wr' = wr_flags wr
    \<Longrightarrow> uv_mem W R (set_writing w wr' st)"
  unfolding uv_mem_def by (auto split: option.splits)

lemma free_writings_fields:
  "free_writings ws st = Some st' \<Longrightarrow> us_writings st' = (\<lambda>w. if w \<in> set ws then None else us_writings st w)
    \<and> us_writes st' = us_writes st \<and> us_next st' = us_next st \<and> us_proxy st' = us_proxy st"
  by (induction ws arbitrary: st) (auto simp: bind_Some_iff media_uv_free_writing_def)

lemma clear_queue_safe:
  assumes m: "uv_safe W R st" "us_writes st = []" and r: "media_uv_clear_queue st = Some st'"
  shows "uv_safe W R st'" "sentq_of st' = []" "pendq_of st' = []" "us_writes st' = []"
    "\<And>px. us_proxy st = Some px \<Longrightarrow> us_proxy st' = Some (px\<lparr>px_sentq := [], px_pendq := []\<rparr>)"
proof -
  obtain px where o: "us_proxy st = Some px" using r by (auto simp: media_uv_clear_queue_def bind_Some_iff)
  have f: "us_writings st' = (\<lambda>w. if w \<in> set (px_sentq px @ px_pendq px) then None else us_writings st w)"
    "us_writes st' = []" "us_next st' = us_next st" "us_proxy st' = Some (px\<lparr>px_sentq := [], px_pendq := []\<rparr>)"
    using free_writings_fields[of "px_sentq px @ px_pendq px" "set_proxy (px\<lparr>px_sentq := [], px_pendq := []\<rparr>) st" st'] r o m(2)
    by (simp_all add: media_uv_clear_queue_def cong: if_cong)
  show "sentq_of st' = []" "pendq_of st' = []" "us_writes st' = []"
    "\<And>px. us_proxy st = Some px \<Longrightarrow> us_proxy st' = Some (px\<lparr>px_sentq := [], px_pendq := []\<rparr>)"
    using f o by (simp_all add: sentq_of_def pendq_of_def)
  then show "uv_safe W R st'" using m o unfolding uv_safe_def uv_mem_def f
    by (auto simp: sentq_of_def pendq_of_def)
qed

section \<open>What is asked of the user's callbacks\<close>

text \<open>
  A callback may do what it likes to the connection as long as it keeps the memory safe, which the
  functions of the interface but for \<open>media_uv_reconnect\<close> do; \<open>on_release\<close> leaves it alone.
\<close>

locale uv_client =
  fixes user :: "'a uv_user"
  assumes user_safe: "uv_safe W R st \<Longrightarrow> \<forall>f. c \<noteq> On_release f \<Longrightarrow> user c st = Some st' \<Longrightarrow> uv_safe W R st'"
    and user_release: "user (On_release f) st = Some st' \<Longrightarrow> same_mem st st'"
begin

lemma call_safe:
  assumes "uv_safe W R st" "\<forall>f. c \<noteq> On_release f" "call_user user c st = Some st'"
  shows "uv_safe W R st'"
  using user_safe[OF safe_same[OF assms(1)] assms(2), of "uv_log [Called c] st" st'] assms(3) by (simp add: call_user_def)

lemma release_same:
  assumes "call_user user (On_release f) st = Some st'"
  shows "same_mem st st'"
  using same_mem_trans[OF same_mem_simps(2) user_release[OF assms[unfolded call_user_def]]] .

lemma receive_safe: "uv_safe W R st \<Longrightarrow> call_receive user wr p st = Some st' \<Longrightarrow> uv_safe W R st'"
  by (auto simp: call_receive_def bind_Some_iff intro: call_safe)

lemma listen_cb_safe: "uv_safe W R st \<Longrightarrow> call_listen user r st = Some st' \<Longrightarrow> uv_safe W R st'"
  by (auto simp: call_listen_def bind_Some_iff split: option.splits intro: call_safe)

lemma write_cb_safe:
  assumes m: "uv_mem (insert w W) R st" "w \<notin> W" "W \<inter> set (sentq_of st) = {}"
    and r: "media_uv_write_cb user w status st = Some st'"
  shows "uv_safe W R st'"
proof -
  obtain wr px where o: "us_writings st w = Some wr" "us_proxy st = Some px" using r by (auto simp: media_uv_write_cb_def bind_Some_iff)
  have fin: "uv_safe W R st'" if "uv_mem (insert w W) R st1" "W \<inter> set (sentq_of st1) = {}"
    "Option.bind (writing_flag WRITTEN w st1) (media_uv_free_writing w) = Some st'" for st1
    using settle_written[OF that(1) m(2) that(3)] that(2) by (simp add: uv_safe_def)
  show ?thesis
  proof (cases "status < 0 \<and> is_acked wr")
    case True
    then have w: "w \<in> set (px_sentq px)" using r o by (auto simp: media_uv_write_cb_def bind_Some_iff split: if_splits)
    let ?px = "px\<lparr>px_sentq := remove1 w (px_sentq px)\<rparr>"
    have u: "uv_mem (insert w W) (insert w R) (set_proxy ?px st)" "w \<notin> R" "w \<notin> set (px_sentq ?px)"
      using mem_unsent[OF m(1) o(2) w, of ?px] by simp_all
    have "set (px_sentq ?px) \<subseteq> set (px_sentq px)" using set_remove1_subset by force
    then have s: "uv_safe (insert w W) (insert w R) (set_proxy ?px st)"
      using u m(3) o(2) by (auto simp: uv_safe_def sentq_of_def)
    obtain st1 wr1 where c: "call_receive user wr None (set_proxy ?px st) = Some st1" "us_writings st1 w = Some wr1"
      "Option.bind (writing_flag WRITTEN w (set_writing w (wr1\<lparr>wr_flags := insert RESPONSED (wr_flags wr1)\<rparr>) st1))
        (media_uv_free_writing w) = Some st'"
      using r o True w by (auto simp: media_uv_write_cb_def writing_flag_def bind_Some_iff)
    from receive_safe[OF s c(1)] have s1: "uv_mem (insert w W) (insert w R) st1" "insert w W \<inter> set (sentq_of st1) = {}"
      by (simp_all add: uv_safe_def)
    from mark_responsed[OF s1(1) u(2) c(2)] s1(2) c(3) show ?thesis by (intro fin) auto
  next
    case False
    let ?px = "px\<lparr>px_nb_sent := px_nb_sent px + 1\<rparr>"
    have "uv_mem (insert w W) R (set_proxy ?px st)" using mem_proxy[OF m(1) o(2), of ?px] mem_proxyD[OF m(1) o(2)] by simp
    moreover have "Option.bind (writing_flag WRITTEN w (if status < 0 then st else set_proxy ?px st))
        (media_uv_free_writing w) = Some st'"
      using r o False by (auto simp: media_uv_write_cb_def bind_Some_iff split: if_splits)
    ultimately show ?thesis using m o(2) fin[of "if status < 0 then st else set_proxy ?px st"]
      by (auto simp: sentq_of_def split: if_splits)
  qed
qed

lemma send_writing_safe:
  assumes m: "uv_mem (insert w W) (insert w R) st" "w \<notin> W" "w \<notin> R" "W \<inter> set (sentq_of st) = {}"
    and r: "media_uv_send_writing user w st = Some (ret, st')"
  shows "uv_safe W R st'"
proof -
  obtain wr px p where o: "us_writings st w = Some wr" "us_proxy st = Some px" "px_cpipe px = Some p"
    using r by (auto simp: media_uv_send_writing_def bind_Some_iff)
  define st1 where "st1 = (if is_acked wr
     then set_proxy (px\<lparr>px_sentq := px_sentq px @ [w], px_nb_sentq := px_nb_sentq px + 1\<rparr>) st
     else set_writing w (wr\<lparr>wr_flags := insert RESPONSED (wr_flags wr)\<rparr>) st)"
  have s1: "uv_mem (insert w W) R st1 \<and> W \<inter> set (sentq_of st1) = {}"
    using mem_sent[OF m(1,3) o(2), of "px\<lparr>px_sentq := px_sentq px @ [w], px_nb_sentq := px_nb_sentq px + 1\<rparr>"]
      mark_responsed[OF m(1,3) o(1)] m(2,4) o(2) by (auto simp: st1_def sentq_of_def)
  have c1: "\<exists>px1. us_proxy st1 = Some px1 \<and> px_cpipe px1 \<noteq> None" using o by (simp add: st1_def)
  obtain ret2 st2 where n: "next_ret st1 = (ret2, st2)" by (cases "next_ret st1")
  note sm = next_ret_same[OF n]
  have s2: "uv_mem (insert w W) R st2" "W \<inter> set (sentq_of st2) = {}" "\<exists>px1. us_proxy st2 = Some px1 \<and> px_cpipe px1 \<noteq> None"
    using mem_same[OF conjunct1[OF s1] sm] same_mem_queues[OF sm] s1 c1 sm by (auto simp: same_mem_def)
  show ?thesis
  proof (cases "ret2 < 0")
    case True
    then have "media_uv_write_cb user w ret2 st2 = Some st'"
      using r o n by (auto simp: media_uv_send_writing_def bind_Some_iff Let_def simp flip: st1_def)
    from write_cb_safe[OF s2(1) m(2) s2(2) this] show ?thesis .
  next
    case False
    then obtain buf where "st' = uv_log [Write_request p w buf] (st2\<lparr>us_writes := us_writes st2 @ [w]\<rparr>)"
      using r o n by (auto simp: media_uv_send_writing_def bind_Some_iff Let_def simp flip: st1_def)
    moreover have "uv_safe W R (st2\<lparr>us_writes := us_writes st2 @ [w]\<rparr>)"
      using mem_write[OF s2(1) m(2)] s2 by (auto simp: uv_safe_def)
    ultimately show ?thesis using safe_same by (metis same_mem_simps(2))
  qed
qed

lemma delivery_loop_safe:
  "delivery_loop u cursor st = Some st' \<Longrightarrow> u = user \<Longrightarrow> uv_safe W R st \<Longrightarrow> uv_safe W R st'"
proof (induction rule: delivery_loop.raw_induct[rotated 1, consumes 1, case_names step])
  case (step loop u cursor st st')
  show ?case
  proof (cases cursor)
    case None
    with step show ?thesis by simp
  next
    case (Some w)
    then obtain px ret st1 where o: "us_proxy st = Some px" "w \<in> set (px_pendq px)"
      "media_uv_send_writing user w (set_proxy (px\<lparr>px_pendq := remove1 w (px_pendq px), px_nb_pendq := px_nb_pendq px - 1\<rparr>) st) = Some (ret, st1)"
      "loop user (list_next w (px_pendq px)) st1 = Some st'"
      using step(2,3) by (auto split: option.splits if_splits)
    have m: "uv_mem W R st" "W \<inter> set (px_sentq px) = {}" using step(4) o(1) by (simp_all add: uv_safe_def sentq_of_def)
    from mem_unpend[OF m(1) o(1,2), of "px\<lparr>px_pendq := remove1 w (px_pendq px), px_nb_pendq := px_nb_pendq px - 1\<rparr>"]
    have "uv_safe W R st1" using m(2) by (intro send_writing_safe[OF _ _ _ _ o(3)]) auto
    from step(1)[OF o(4) refl this] show ?thesis .
  qed
qed

lemma delivery_safe: "media_uv_delivery_writing user st = Some st' \<Longrightarrow> uv_safe W R st \<Longrightarrow> uv_safe W R st'"
  by (auto simp: media_uv_delivery_writing_def bind_Some_iff intro: delivery_loop_safe)

lemma free_proxy_safe:
  assumes m: "uv_safe W R st" and r: "media_uv_free_proxy user st = Some st'"
  shows "uv_safe W R st'"
proof -
  obtain px where o: "us_proxy st = Some px" using r by (auto simp: media_uv_free_proxy_def bind_Some_iff)
  show ?thesis
  proof (cases "px_cpipe px = None \<and> px_epipe px = None \<and> DISCONNECT \<in> px_flags px")
    case False
    with r o m show ?thesis by (auto simp: media_uv_free_proxy_def split: if_splits)
  next
    case True
    then obtain st1 st2 where s: "media_uv_clear_queue st = Some st1"
      "(case px_on_release px of None \<Rightarrow> Some st1 | Some f \<Rightarrow> call_user user (On_release f) st1) = Some st2"
      "st' = st2\<lparr>us_proxy := None\<rparr>" using r o by (auto simp: media_uv_free_proxy_def bind_Some_iff)
    have "us_writes st = []" using True safe_proxyD[OF m o] by simp
    note c = clear_queue_safe[OF m this s(1)]
    have sm: "same_mem st1 st2" using s(2) release_same by (auto split: option.splits)
    have "us_writes st2 = us_writes st1" using sm by (simp add: same_mem_def)
    then have "uv_safe W R st2" "sentq_of st2 = []" "pendq_of st2 = []" "us_writes st2 = []"
      using safe_same[OF c(1) sm] same_mem_queues[OF sm] c(2-4) by simp_all
    moreover have "sentq_of (st2\<lparr>us_proxy := None\<rparr>) = []" "pendq_of (st2\<lparr>us_proxy := None\<rparr>) = []"
      by (simp_all add: sentq_of_def pendq_of_def)
    ultimately show ?thesis unfolding s(3) uv_safe_def uv_mem_def by simp
  qed
qed

lemma close_cb_safe:
  assumes m: "uv_safe W R st" and r: "media_uv_close_cb user p st = Some st'"
    and g: "\<And>px. us_proxy st = Some px \<Longrightarrow> px_cpipe px = Some p \<Longrightarrow> us_writes st = []"
  shows "uv_safe W R st'"
proof -
  obtain px where o: "us_proxy st = Some px" using r by (auto simp: media_uv_close_cb_def bind_Some_iff)
  define px1 where "px1 = (if px_cpipe px = Some p then px\<lparr>px_cpipe := None\<rparr>
    else if px_epipe px = Some p then px\<lparr>px_epipe := None\<rparr> else px)"
  have "uv_safe W R (set_proxy px1 st)"
    using safe_proxy[OF m o, of px1] safe_proxyD[OF m o] g[OF o] by (simp add: px1_def)
  then have "uv_safe W R (media_uv_free_pipe p (set_proxy px1 st))" by (rule safe_same) (simp add: media_uv_free_pipe_def)
  moreover have "media_uv_free_proxy user (media_uv_free_pipe p (set_proxy px1 st)) = Some st'"
    using r o by (auto simp: media_uv_close_cb_def bind_Some_iff px1_def)
  ultimately show ?thesis by (rule free_proxy_safe)
qed

lemma disconnect_safe:
  assumes m: "uv_safe W R st" and r: "media_uv_disconnect user handle f st = Some (ret, st')"
  shows "uv_safe W R st'"
proof (cases "handle \<and> (\<exists>px. us_proxy st = Some px \<and> DISCONNECT \<notin> px_flags px)")
  case False
  then have "st' = st" using r by (cases handle; cases "us_proxy st") (simp_all add: media_uv_disconnect_def)
  with m show ?thesis by simp
next
  case True
  then obtain px where o: "us_proxy st = Some px" "DISCONNECT \<notin> px_flags px" by blast
  let ?px = "px\<lparr>px_on_release := f\<rparr>"
  obtain st1 where s: "(if px_flags px = {} then media_uv_shutdown (px_cpipe px) (set_proxy ?px st) else Some (set_proxy ?px st)) = Some st1"
    "media_uv_free_proxy user (set_proxy (?px\<lparr>px_flags := insert DISCONNECT (px_flags px)\<rparr>) st1) = Some st'"
    using r o True by (auto simp: media_uv_disconnect_def bind_Some_iff Let_def cong: if_cong)
  have m0: "uv_safe W R (set_proxy ?px st)" using safe_proxy[OF m o(1), of ?px] safe_proxyD[OF m o(1)] by simp
  have sm: "same_mem (set_proxy ?px st) st1" using s(1) shutdown_same by (auto split: if_splits)
  then have o1: "us_proxy st1 = Some ?px" by (simp add: same_mem_def)
  have m1: "uv_safe W R st1" using safe_same[OF m0 sm] .
  have "uv_safe W R (set_proxy (?px\<lparr>px_flags := insert DISCONNECT (px_flags px)\<rparr>) st1)"
    using safe_proxy[OF m1 o1] safe_proxyD[OF m1 o1] by simp
  from free_proxy_safe[OF this s(2)] show ?thesis .
qed

lemma queue_writing_safe:
  assumes m: "uv_mem (insert w W) (insert w R) st" "w \<notin> W" "w \<notin> R" "W \<inter> set (sentq_of st) = {}"
    and r: "media_uv_queue_writing user w st = Some (ret, st')"
  shows "uv_safe W R st'"
proof -
  obtain px where o: "us_proxy st = Some px" using r by (auto simp: media_uv_queue_writing_def bind_Some_iff)
  show ?thesis
  proof (cases "px_flags px = {}")
    case True
    then show ?thesis using r o send_writing_safe[OF m] by (simp add: media_uv_queue_writing_def)
  next
    case False
    with r o mem_pend[OF m(1-3) o, of "px\<lparr>px_pendq := px_pendq px @ [w], px_nb_pendq := px_nb_pendq px + 1\<rparr>"] m(4)
    show ?thesis by (auto simp: media_uv_queue_writing_def uv_safe_def sentq_of_def)
  qed
qed

lemma alloc_writing_mem:
  assumes m: "uv_safe W R st" and r: "media_uv_alloc_writing env code p0 st = Some (Some w, st1)"
  shows "uv_mem (insert w W) (insert w R) st1" "w \<notin> W" "w \<notin> R" "W \<inter> set (sentq_of st1) = {}"
proof -
  obtain r0 st0 where n: "next_ret st = (r0, st0)" by (cases "next_ret st")
  have m0: "uv_safe W R st0" using safe_same[OF m next_ret_same[OF n]] .
  obtain wr where w: "w = us_next st0" "st1 = set_writing (us_next st0) wr (st0\<lparr>us_next := us_next st0 + 1\<rparr>)" "wr_flags wr = {}"
    using r n by (auto simp: media_uv_alloc_writing_def bind_Some_iff Let_def split: if_splits)
  show "uv_mem (insert w W) (insert w R) st1" "w \<notin> W" "w \<notin> R" "W \<inter> set (sentq_of st1) = {}"
    using mem_new[OF _ w(3), of W R st0] m0 w(1,2) by (auto simp: uv_safe_def)
qed

lemma alloc_writing_failed: "media_uv_alloc_writing env code p0 st = Some (None, st1) \<Longrightarrow> same_mem st st1"
  by (auto simp: media_uv_alloc_writing_def bind_Some_iff Let_def split: if_splits prod.splits dest: next_ret_same)

lemma send_safe:
  assumes m: "uv_safe W R st" and r: "media_uv_send env user handle f c0 c1 p0 st = Some (ret, st')"
  shows "uv_safe W R st'"
proof (cases "handle \<and> (\<exists>px. us_proxy st = Some px \<and> px_cpu px \<noteq> None \<and> DISCONNECT \<notin> px_flags px)")
  case False
  then have "st' = st" using r by (cases handle; cases "us_proxy st") (auto simp: media_uv_send_def split: if_splits)
  with m show ?thesis by simp
next
  case True
  then obtain writing st1 where a: "media_uv_alloc_writing env
      (if f = None \<or> c0 = 0 then MEDIA_PARCEL_SEND else MEDIA_PARCEL_SEND_ACK) p0 st = Some (writing, st1)"
    "(case writing of None \<Rightarrow> Some (-ENOMEM, st1)
      | Some w \<Rightarrow> Option.bind (us_writings st1 w) (\<lambda>wr. media_uv_queue_writing user w
          (set_writing w (wr\<lparr>wr_receive := f, wr_cookies := (c0, c1)\<rparr>) st1))) = Some (ret, st')"
    using r by (auto simp: media_uv_send_def bind_Some_iff)
  show ?thesis
  proof (cases writing)
    case None
    with a safe_same[OF m alloc_writing_failed] show ?thesis by auto
  next
    case (Some w)
    note mw = alloc_writing_mem[OF m a(1)[unfolded Some]]
    from a(2) Some obtain wr where wr: "us_writings st1 w = Some wr"
      "media_uv_queue_writing user w (set_writing w (wr\<lparr>wr_receive := f, wr_cookies := (c0, c1)\<rparr>) st1) = Some (ret, st')"
      by (auto simp: bind_Some_iff)
    show ?thesis
      by (rule queue_writing_safe[OF mem_fields[OF mw(1) wr(1)] mw(2,3) _ wr(2)]) (use mw(4) in simp_all)
  qed
qed

lemma create_notify_safe:
  assumes m: "uv_safe W R st" and r: "media_uv_create_notify env user st = Some (ret, st')"
  shows "uv_safe W R st'"
proof -
  obtain writing st1 where a: "media_uv_alloc_writing env MEDIA_PARCEL_CREATE_NOTIFY None st = Some (writing, st1)"
    using r by (auto simp: media_uv_create_notify_def bind_Some_iff)
  show ?thesis
  proof (cases writing)
    case None
    with a r safe_same[OF m alloc_writing_failed] show ?thesis by (auto simp: media_uv_create_notify_def)
  next
    case (Some w)
    note mw = alloc_writing_mem[OF m a[unfolded Some]]
    from r a Some obtain wr p where wr: "us_writings st1 w = Some wr"
      "media_uv_send_writing user w (set_writing w (wr\<lparr>wr_parcel := p\<rparr>) st1) = Some (ret, st')"
      by (auto simp: media_uv_create_notify_def bind_Some_iff)
    show ?thesis
      by (rule send_writing_safe[OF mem_fields[OF mw(1) wr(1)] mw(2,3) _ wr(2)]) (use mw(4) in simp_all)
  qed
qed

lemma close_safe: "uv_safe W R st \<Longrightarrow> media_uv_close p st = Some st' \<Longrightarrow> uv_safe W R st'"
  using safe_same close_same by blast

lemma listen_one_safe:
  assumes m: "uv_safe W R st" and r: "media_uv_listen_one env user st = Some (ret, st')"
  shows "uv_safe W R st'"
proof -
  obtain pipe st1 px where a: "media_uv_alloc_pipe st = Some (pipe, st1)" "us_proxy st1 = Some px"
    using r by (auto simp: media_uv_listen_one_def bind_Some_iff)
  let ?st2 = "set_proxy (px\<lparr>px_epipe := pipe\<rparr>) st1"
  note m1 = safe_same[OF m alloc_pipe_same[OF a(1)]]
  have m2: "uv_safe W R ?st2" using safe_proxy[OF m1 a(2)] safe_proxyD[OF m1 a(2)] by simp
  show ?thesis
  proof (cases pipe)
    case None
    with r a m2 show ?thesis by (auto simp: media_uv_listen_one_def bind_Some_iff dest: listen_cb_safe)
  next
    case (Some p)
    define err where "err = (\<lambda>ret st. Option.bind (media_uv_close p st)
      (\<lambda>st1. Option.bind (call_listen user ret st1) (\<lambda>st1. Some (ret, st1))))"
    have err: "uv_safe W R st'" if "err e s = Some (ret, st')" "uv_safe W R s" for e s
    proof -
      from that(1) obtain s1 where c: "media_uv_close p s = Some s1" "call_listen user e s1 = Some st'"
        by (auto simp: err_def bind_Some_iff)
      show ?thesis using listen_cb_safe[OF close_safe[OF that(2) c(1)] c(2)] .
    qed
    obtain cpu where c: "px_cpu px = Some cpu"
      using r a Some by (cases "px_cpu px") (simp_all add: media_uv_listen_one_def Let_def)
    obtain r3 st3 where n3: "(if cpu = ue_local_cpu env \<or> ue_rpmsg env then next_ret ?st2 else (-ENOSYS, ?st2)) = (r3, st3)"
      by (metis surj_pair)
    obtain r4 st4 where n4: "next_ret st3 = (r4, st4)" by (cases "next_ret st3")
    have m3: "uv_safe W R st3" using m2 n3 safe_same next_ret_same by (fastforce split: if_splits)
    note m4 = safe_same[OF m3 next_ret_same[OF n4]]
    have u: "(if r3 < 0 then err r3 st3 else if r4 < 0 then err r4 st4
        else Option.bind (media_uv_create_notify env user (uv_log [Listen_request p] st4)) (\<lambda>(ret, st5).
          if ret < 0 then err ret st5
          else Option.bind (us_proxy st5) (\<lambda>px5. Some (ret, set_proxy (px5\<lparr>px_flags := insert LISTENING (px_flags px5)\<rparr>) st5))))
      = Some (ret, st')"
      using r by (simp add: media_uv_listen_one_def err_def Let_def a Some c n3[unfolded Some] n4 cong: if_cong split del: if_split)
    show ?thesis
    proof (cases "r3 < 0 \<or> r4 < 0")
      case True
      then show ?thesis using u err m3 m4 by (auto split: if_splits)
    next
      case False
      then obtain r5 st5 where n5: "media_uv_create_notify env user (uv_log [Listen_request p] st4) = Some (r5, st5)"
        using u by (auto simp: bind_Some_iff)
      have m5: "uv_safe W R st5" using create_notify_safe[OF safe_same[OF m4 same_mem_simps(2)] n5] .
      show ?thesis
      proof (cases "r5 < 0")
        case True
        with u False n5 err m5 show ?thesis by auto
      next
        case r5: False
        with u False n5 obtain px5 where "us_proxy st5 = Some px5"
          "st' = set_proxy (px5\<lparr>px_flags := insert LISTENING (px_flags px5)\<rparr>) st5" by (auto simp: bind_Some_iff)
        then show ?thesis using safe_proxy[OF m5] safe_proxyD[OF m5] by simp
      qed
    qed
  qed
qed

lemma listen_safe:
  assumes m: "uv_safe W R st" and r: "media_uv_listen env user handle f g st = Some (ret, st')"
  shows "uv_safe W R st'"
proof (cases "handle \<and> g \<noteq> None \<and> (\<exists>px. us_proxy st = Some px \<and> LISTENING \<notin> px_flags px \<and> px_epipe px = None)")
  case False
  then have "st' = st" using r by (cases "handle \<and> g \<noteq> None"; cases "us_proxy st") (auto simp: media_uv_listen_def split: if_splits)
  with m show ?thesis by simp
next
  case True
  then obtain px where o: "us_proxy st = Some px" by blast
  let ?px = "px\<lparr>px_on_listen := f, px_on_event := g\<rparr>"
  have "uv_safe W R (set_proxy ?px st)" "uv_safe W R (set_proxy (?px\<lparr>px_flags := insert LISTENING (px_flags px)\<rparr>) st)"
    using safe_proxy[OF m o, of ?px] safe_proxy[OF m o, of "?px\<lparr>px_flags := insert LISTENING (px_flags px)\<rparr>"] safe_proxyD[OF m o]
    by simp_all
  moreover have "media_uv_listen_one env user (set_proxy ?px st) = Some (ret, st')
      \<or> st' = set_proxy (?px\<lparr>px_flags := insert LISTENING (px_flags px)\<rparr>) st"
    using r True o by (simp add: media_uv_listen_def Let_def split: if_splits)
  ultimately show ?thesis using listen_one_safe by blast
qed

lemma listen_one_cb_safe:
  assumes m: "uv_safe W R st" and r: "media_uv_listen_one_cb user server ret st = Some st'"
  shows "uv_safe W R st'"
proof -
  obtain px0 where o: "us_proxy st = Some px0" using r by (auto simp: media_uv_listen_one_cb_def bind_Some_iff)
  let ?px = "px0\<lparr>px_flags := px_flags px0 - {LISTENING}\<rparr>"
  define err where "err = (\<lambda>ret st. Option.bind (media_uv_close server st) (call_listen user ret))"
  have err: "uv_safe W R st'" if "err e s = Some st'" "uv_safe W R s" for e s
  proof -
    from that(1) obtain s1 where c: "media_uv_close server s = Some s1" "call_listen user e s1 = Some st'"
      by (auto simp: err_def bind_Some_iff)
    show ?thesis using listen_cb_safe[OF close_safe[OF that(2) c(1)] c(2)] .
  qed
  have m1: "uv_safe W R (set_proxy ?px st)" using safe_proxy[OF m o, of ?px] safe_proxyD[OF m o] by simp
  show ?thesis
  proof (cases "ret < 0 \<or> DISCONNECT \<in> px_flags px0")
    case True
    with r o have "err (if ret < 0 then ret else -ECANCELED) (set_proxy ?px st) = Some st'"
      by (auto simp: media_uv_listen_one_cb_def err_def Let_def split: if_splits)
    with err m1 show ?thesis by blast
  next
    case False
    then obtain pipe st2 where a: "media_uv_alloc_pipe (set_proxy ?px st) = Some (pipe, st2)"
      using r o by (auto simp: media_uv_listen_one_cb_def bind_Some_iff Let_def)
    let ?st3 = "set_proxy (?px\<lparr>px_epipe := pipe\<rparr>) st2"
    note m2 = safe_same[OF m1 alloc_pipe_same[OF a]]
    have o2: "us_proxy st2 = Some ?px" using alloc_pipe_same[OF a] by (simp add: same_mem_def)
    have m3: "uv_safe W R ?st3" using safe_proxy[OF m2 o2] safe_proxyD[OF m2 o2] by simp
    show ?thesis
    proof (cases pipe)
      case None
      with False r o a have "err ret ?st3 = Some st'" by (auto simp: media_uv_listen_one_cb_def err_def Let_def)
      with err m3 show ?thesis by blast
    next
      case (Some p)
      obtain r4 st4 where n4: "next_ret ?st3 = (r4, st4)" by (cases "next_ret ?st3")
      note m4 = safe_same[OF m3 next_ret_same[OF n4]]
      show ?thesis
      proof (cases "r4 < 0")
        case True
        with False r o a Some n4 obtain st5 where "media_uv_close p st4 = Some st5" "err r4 st5 = Some st'"
          by (auto simp: media_uv_listen_one_cb_def err_def Let_def bind_Some_iff)
        with err close_safe[OF m4] show ?thesis by blast
      next
        case r4: False
        with False r o a Some n4 obtain st5 st6 st7 e where s: "media_uv_close server (uv_log [Accepted server p] st4) = Some st5"
          "call_listen user r4 st5 = Some st6" "media_uv_delivery_writing user st6 = Some st7" "st' = uv_log [Read_started e] st7"
          by (auto simp: media_uv_listen_one_cb_def Let_def bind_Some_iff)
        have "uv_safe W R st7"
          using delivery_safe[OF s(3) listen_cb_safe[OF close_safe[OF safe_same[OF m4 same_mem_simps(2)] s(1)] s(2)]] .
        then show ?thesis unfolding s(4) by (rule safe_same) simp
      qed
    qed
  qed
qed

lemma connect_one_cb_safe:
  assumes m: "uv_safe W R st" and r: "media_uv_connect_one_cb user p status st = Some st'"
  shows "uv_safe W R st'"
proof -
  obtain px pipe where o: "us_proxy st = Some px" "us_pipes st p = Some pipe"
    using r by (auto simp: media_uv_connect_one_cb_def bind_Some_iff)
  define s where "s = (if 0 \<le> status \<and> DISCONNECT \<in> px_flags px then -ECANCELED else status)"
  note r1 = r[unfolded media_uv_connect_one_cb_def o Option.bind.simps Let_def, folded s_def]
  show ?thesis
  proof (cases "s < 0")
    case True
    with r1 obtain st1 where "call_user user (On_connect s) st = Some st1" "media_uv_close p st1 = Some st'"
      by (auto simp: bind_Some_iff)
    then show ?thesis using call_safe[OF m] close_safe by blast
  next
    case False
    let ?px = "px\<lparr>px_flags := {}\<rparr>"
    from False r1 obtain q st2 px2 where s: "call_user user (On_connect s) (uv_log [Read_started p]
        (set_pipe p (pipe\<lparr>pipe_parcel := q\<rparr>) (set_proxy ?px st))) = Some st2"
      "us_proxy st2 = Some px2" "st' = set_proxy (px2\<lparr>px_flags := px_flags px2 \<union> px_flags px\<rparr>) st2"
      by (auto simp: bind_Some_iff)
    have "uv_safe W R (set_proxy ?px st)" using safe_proxy[OF m o(1), of ?px] safe_proxyD[OF m o(1)] by simp
    from safe_same[OF safe_same[OF this same_mem_simps(3)] same_mem_simps(2)] call_safe[OF _ _ s(1)]
    have m2: "uv_safe W R st2" by simp
    show ?thesis unfolding s(3) using safe_proxy[OF m2 s(2)] safe_proxyD[OF m2 s(2)] safe_proxyD[OF m o(1)] by simp
  qed
qed

lemma first_response_safe:
  assumes m: "uv_safe W R st" and r: "first_response env user st = Some (ret, st')"
  shows "uv_safe W R st'"
proof -
  obtain px0 where o: "us_proxy st = Some px0" using r by (auto simp: first_response_def bind_Some_iff)
  show ?thesis
  proof (cases "CONNECTING \<in> px_flags px0")
    case False
    with r o m show ?thesis by (simp add: first_response_def)
  next
    case True
    let ?st1 = "set_proxy (px0\<lparr>px_flags := px_flags px0 - {CONNECTING}\<rparr>) st"
    have m1: "uv_safe W R ?st1" using safe_proxy[OF m o, of "px0\<lparr>px_flags := px_flags px0 - {CONNECTING}\<rparr>"] safe_proxyD[OF m o] by simp
    from r o True obtain st2 px2 st3 px3 where s: "(if px_flags px0 - {CONNECTING} = {LISTENING}
        then Option.bind (media_uv_listen_one env user ?st1) (\<lambda>(_, st2). Some st2) else Some ?st1) = Some st2"
      "us_proxy st2 = Some px2"
      "(if LISTENING \<notin> px_flags px2 \<and> RECONNECT \<notin> px_flags px2
        then media_uv_delivery_writing user st2 else Some st2) = Some st3" "us_proxy st3 = Some px3"
      "(if DISCONNECT \<in> px_flags px3 then Option.bind (media_uv_delivery_writing user st3) (\<lambda>st4. Some (UV_EOF, st4))
        else if RECONNECT \<in> px_flags px3 then Option.bind (media_uv_reconnect_one env user (set_proxy (px3\<lparr>px_flags := px_flags px3 - {RECONNECT}\<rparr>) st3))
          (\<lambda>st4. Some (UV_EOF, st4)) else Some (0, st3)) = Some (ret, st')"
      unfolding first_response_def Let_def o Option.bind.simps if_not_P[OF not_not[THEN iffD2, OF True]] by (auto simp only: bind_Some_iff)
    have m2: "uv_safe W R st2" using s(1) m1 listen_one_safe[OF m1] by (auto simp: bind_Some_iff split: if_splits)
    have m3: "uv_safe W R st3" using s(3) m2 delivery_safe by (auto split: if_splits)
    have "RECONNECT \<notin> px_flags px3" using safe_proxyD[OF m3 s(4)] by simp
    then show ?thesis using s(5) m3 delivery_safe[OF _ m3] by (auto simp: bind_Some_iff split: if_splits)
  qed
qed

lemma handle_parcel_safe:
  assumes m: "uv_safe W R st" and r: "media_uv_handle_parcel env user p st = Some (ret, st')"
  shows "uv_safe W R st'"
proof -
  obtain px pipe where o: "us_proxy st = Some px" "us_pipes st p = Some pipe"
    using r by (auto simp: media_uv_handle_parcel_def bind_Some_iff)
  show ?thesis
  proof (cases "px_epipe px = Some p")
    case True
    with r o call_safe[OF m] show ?thesis by (auto simp: media_uv_handle_parcel_def bind_Some_iff)
  next
    case False
    with r o obtain w ws where q: "px_sentq px = w # ws"
      by (auto simp: media_uv_handle_parcel_def media_uv_dequeue_writing_def split: list.splits)
    let ?px = "px\<lparr>px_sentq := ws, px_nb_sentq := px_nb_sentq px - 1\<rparr>"
    from False r o q obtain wr st1 wr1 px3 st3 where s: "us_writings st w = Some wr"
      "call_receive user wr (Some (pipe_parcel pipe)) (set_proxy ?px st) = Some st1"
      "Option.bind (writing_flag RESPONSED w st1) (media_uv_free_writing w) = Some st3" "us_proxy st3 = Some px3"
      "first_response env user (set_proxy (px3\<lparr>px_nb_recv := px_nb_recv px3 + 1\<rparr>) st3) = Some (ret, st')"
      by (auto simp: media_uv_handle_parcel_def media_uv_dequeue_writing_def bind_Some_iff)
    have u: "uv_mem W (insert w R) (set_proxy ?px st)" "w \<notin> R"
      using mem_unsent[of W R st px w ?px] m o(1) q by (simp_all add: uv_safe_def)
    have "uv_safe W (insert w R) (set_proxy ?px st)" using u m o(1) q by (auto simp: uv_safe_def sentq_of_def)
    from receive_safe[OF this s(2)] have m1: "uv_mem W (insert w R) st1" "W \<inter> set (sentq_of st1) = {}"
      by (simp_all add: uv_safe_def)
    from settle_responsed[OF m1(1) u(2) s(3)] m1(2) have m3: "uv_safe W R st3" by (simp add: uv_safe_def)
    have "uv_safe W R (set_proxy (px3\<lparr>px_nb_recv := px_nb_recv px3 + 1\<rparr>) st3)"
      using safe_proxy[OF m3 s(4)] safe_proxyD[OF m3 s(4)] by simp
    from first_response_safe[OF this s(5)] show ?thesis .
  qed
qed

lemma read_cb_safe:
  assumes m: "uv_safe W R st" and r: "media_uv_read_cb env user p n st = Some st'"
  shows "uv_safe W R st'"
proof -
  obtain pipe where o: "us_pipes st p = Some pipe" using r by (auto simp: media_uv_read_cb_def bind_Some_iff)
  have c: "uv_safe W R (set_pipe p q st)" for q using safe_same[OF m same_mem_simps(3)] .
  show ?thesis
  proof (cases "n \<le> 0")
    case True
    with r o m close_safe[OF m] show ?thesis by (auto simp: media_uv_read_cb_def split: if_splits)
  next
    case False
    let ?off = "u32 (pipe_offset pipe + nat n)"
    obtain ret q where g: "(if ?off = MEDIA_PARCEL_HEADER_LEN
        then media_parcel_grow (ue_alloc env) (pipe_parcel pipe) 0 (chunk_len (pipe_parcel pipe))
        else Some (0, pipe_parcel pipe)) = Some (ret, q)"
      "Option.bind (if ?off = MEDIA_PARCEL_HEADER_LEN
        then media_parcel_grow (ue_alloc env) (pipe_parcel pipe) 0 (chunk_len (pipe_parcel pipe))
        else Some (0, pipe_parcel pipe)) (\<lambda>(ret, q). let st1 = set_pipe p (pipe\<lparr>pipe_parcel := q, pipe_offset := ?off\<rparr>) st in
          if ret < 0 then media_uv_close p st1
          else if u32 (MEDIA_PARCEL_HEADER_LEN + chunk_len q) = ?off then Option.bind (media_uv_handle_parcel env user p st1) (\<lambda>(ret, st2).
              if ret < 0 then media_uv_close p st2
              else Option.bind (us_pipes st2 p) (\<lambda>pipe2. Option.bind (media_parcel_reinit (pipe_parcel pipe2))
                (\<lambda>q2. Some (set_pipe p (pipe2\<lparr>pipe_parcel := q2, pipe_offset := 0\<rparr>) st2))))
          else Some st1) = Some st'"
      using r o False by (auto simp: media_uv_read_cb_def bind_Some_iff Let_def cong: if_cong)
    let ?st1 = "set_pipe p (pipe\<lparr>pipe_parcel := q, pipe_offset := ?off\<rparr>) st"
    have "(if ret < 0 then media_uv_close p ?st1
          else if u32 (MEDIA_PARCEL_HEADER_LEN + chunk_len q) = ?off then Option.bind (media_uv_handle_parcel env user p ?st1) (\<lambda>(ret, st2).
              if ret < 0 then media_uv_close p st2
              else Option.bind (us_pipes st2 p) (\<lambda>pipe2. Option.bind (media_parcel_reinit (pipe_parcel pipe2))
                (\<lambda>q2. Some (set_pipe p (pipe2\<lparr>pipe_parcel := q2, pipe_offset := 0\<rparr>) st2))))
          else Some ?st1) = Some st'"
      using g(2) unfolding g(1) by (simp add: Let_def)
    note b = this
    show ?thesis
    proof (cases "ret < 0 \<or> u32 (MEDIA_PARCEL_HEADER_LEN + chunk_len q) \<noteq> ?off")
      case True
      then have "media_uv_close p ?st1 = Some st' \<or> st' = ?st1" using b by (simp split: if_splits)
      then show ?thesis using c close_safe[OF c] by blast
    next
      case False
      then obtain r2 st2 where h: "media_uv_handle_parcel env user p ?st1 = Some (r2, st2)"
        using b by (cases "media_uv_handle_parcel env user p ?st1") auto
      note m2 = handle_parcel_safe[OF c h]
      have "media_uv_close p st2 = Some st' \<or> (\<exists>q2. st' = set_pipe p q2 st2)"
        using b False by (auto simp: h bind_Some_iff split: if_splits)
      then show ?thesis using close_safe[OF m2] safe_same[OF m2 same_mem_simps(3)] by blast
    qed
  qed
qed

lemma receive_bytes_safe:
  assumes "uv_safe W R st" "uv_receive env user p bs st = Some st'"
  shows "uv_safe W R st'"
proof -
  obtain q n where "media_uv_read_cb env user p n (set_pipe p q st) = Some st'"
    using assms(2) by (auto simp: uv_receive_def bind_Some_iff)
  from read_cb_safe[OF safe_same[OF assms(1) same_mem_simps(3)] this] show ?thesis .
qed

end

section \<open>An application\<close>

text \<open>
  What the callbacks of an application do is a list of calls, chosen from the call made to it and all that
  happened before; callbacks called meanwhile do the same, up to a depth. It does not reconnect, and its
  \<open>on_release\<close> calls nothing.
\<close>

datatype uv_op =
    Op_send "int option" int int "media_parcel option"
  | Op_listen "int option" "int option"
  | Op_disconnect "int option"

fun run_op :: "uv_env \<Rightarrow> 'a uv_user \<Rightarrow> uv_op \<Rightarrow> 'a uv_state_scheme \<Rightarrow> (int \<times> 'a uv_state_scheme) option" where
  "run_op env user (Op_send f c0 c1 p) st = media_uv_send env user True f c0 c1 p st"
| "run_op env user (Op_listen f g) st = media_uv_listen env user True f g st"
| "run_op env user (Op_disconnect f) st = media_uv_disconnect user True f st"

fun run_ops :: "uv_env \<Rightarrow> 'a uv_user \<Rightarrow> uv_op list \<Rightarrow> 'a uv_state_scheme \<Rightarrow> 'a uv_state_scheme option" where
  "run_ops env user [] st = Some st"
| "run_ops env user (op # ops) st = do { (_, st1) \<leftarrow> run_op env user op st; run_ops env user ops st1 }"

fun reaction :: "(uv_call \<Rightarrow> uv_effect list \<Rightarrow> uv_op list) \<Rightarrow> uv_call \<Rightarrow> 'a uv_state_scheme \<Rightarrow> uv_op list" where
  "reaction app (On_release f) st = []"
| "reaction app c st = app c (us_log st)"

fun reacting :: "uv_env \<Rightarrow> (uv_call \<Rightarrow> uv_effect list \<Rightarrow> uv_op list) \<Rightarrow> nat \<Rightarrow> 'a uv_user" where
  "reacting env app 0 c st = (if reaction app c st = [] then Some st else None)"
| "reacting env app (Suc n) c st = run_ops env (reacting env app n) (reaction app c st) st"

context uv_client begin

lemma run_op_safe: "uv_safe W R st \<Longrightarrow> run_op env user op st = Some (ret, st') \<Longrightarrow> uv_safe W R st'"
  by (cases op) (auto intro: send_safe listen_safe disconnect_safe)

lemma run_ops_safe: "uv_safe W R st \<Longrightarrow> run_ops env user ops st = Some st' \<Longrightarrow> uv_safe W R st'"
proof (induction ops arbitrary: st)
  case (Cons op ops)
  then obtain r st1 where "run_op env user op st = Some (r, st1)" "run_ops env user ops st1 = Some st'"
    by (auto simp: bind_Some_iff)
  with Cons.IH[OF run_op_safe[OF Cons.prems(1)]] show ?case by blast
qed simp

end

lemma reacting_release: "reacting env app n (On_release f) st = Some st' \<Longrightarrow> st' = st"
  by (cases n) auto

lemma reacting_uv_client: "uv_client (reacting env app n)"
proof (induction n)
  case 0
  show ?case by unfold_locales (auto split: if_splits)
next
  case (Suc n)
  show ?case
    by unfold_locales (auto intro: uv_client.run_ops_safe[OF Suc])
qed

interpretation app_client: uv_client "reacting env app n"
  by (rule reacting_uv_client)

section \<open>Reachable states\<close>

text \<open>
  What may happen to a connection: the application calls the interface, or libuv one of the callbacks, the
  close callback of the command pipe only after those of its writes.
\<close>

inductive uv_reach :: "uv_env \<Rightarrow> 'a uv_user \<Rightarrow> 'a uv_state_scheme \<Rightarrow> bool" for env user where
  connected: "media_uv_connect env True (Some cpus) True \<lparr>us_proxy = None, us_writings = Map.empty, us_pipes = Map.empty,
      us_writes = [], us_next = 0, us_rets = rets, us_log = [], \<dots> = rest\<rparr> = Some (True, st) \<Longrightarrow> uv_reach env user st"
| called: "uv_reach env user st \<Longrightarrow> run_op env user op st = Some (ret, st') \<Longrightarrow> uv_reach env user st'"
| connect_done: "uv_reach env user st \<Longrightarrow> media_uv_connect_one_cb user p status st = Some st' \<Longrightarrow> uv_reach env user st'"
| write_done: "uv_reach env user st \<Longrightarrow> w \<in> set (us_writes st)
    \<Longrightarrow> media_uv_write_cb user w status (st\<lparr>us_writes := remove1 w (us_writes st)\<rparr>) = Some st' \<Longrightarrow> uv_reach env user st'"
| read_done: "uv_reach env user st \<Longrightarrow> uv_receive env user p bs st = Some st' \<Longrightarrow> uv_reach env user st'"
| read_failed: "uv_reach env user st \<Longrightarrow> media_uv_read_cb env user p ret st = Some st' \<Longrightarrow> ret < 0 \<Longrightarrow> uv_reach env user st'"
| accept_done: "uv_reach env user st \<Longrightarrow> media_uv_listen_one_cb user p status st = Some st' \<Longrightarrow> uv_reach env user st'"
| shutdown_done: "uv_reach env user st \<Longrightarrow> media_uv_shutdown_cb p st = Some st' \<Longrightarrow> uv_reach env user st'"
| closed: "uv_reach env user st \<Longrightarrow> (\<And>px. us_proxy st = Some px \<Longrightarrow> px_cpipe px = Some p \<Longrightarrow> us_writes st = [])
    \<Longrightarrow> media_uv_close_cb user p st = Some st' \<Longrightarrow> uv_reach env user st'"

context uv_client begin

lemma reach_safe: "uv_reach env user st \<Longrightarrow> uv_safe {} {} st"
proof (induction rule: uv_reach.induct)
  case (connected cpus rets rest st)
  then show ?case
    by (auto simp: media_uv_connect_def media_uv_connect_one_def media_uv_alloc_pipe_def media_uv_close_def next_ret_def
        uv_safe_def uv_mem_def sentq_of_def pendq_of_def bind_Some_iff Let_def split: list.splits if_splits)
next
  case (write_done st w status st')
  from write_done.IH have m: "uv_mem {} {} st" by (simp add: uv_safe_def)
  show ?case by (rule write_cb_safe[OF mem_written[OF m write_done(2)] _ write_done(3)]) simp
next
  case (shutdown_done st p st')
  then show ?case using close_safe by (simp add: media_uv_shutdown_cb_def)
next
  case (called st op ret st')
  from run_op_safe[OF called.IH called.hyps(2)] show ?case .
next
  case (connect_done st p status st')
  from connect_one_cb_safe[OF connect_done.IH connect_done.hyps(2)] show ?case .
next
  case (read_done st p bs st')
  from receive_bytes_safe[OF read_done.IH read_done.hyps(2)] show ?case .
next
  case (read_failed st p ret st')
  from read_cb_safe[OF read_failed.IH read_failed.hyps(2)] show ?case .
next
  case (accept_done st p status st')
  from listen_one_cb_safe[OF accept_done.IH accept_done.hyps(2)] show ?case .
next
  case (closed st p st')
  from close_cb_safe[OF closed.IH closed.hyps(3) closed.hyps(2)] show ?case .
qed

end

lemma safe_release: "uv_safe {} {} st \<Longrightarrow> us_proxy st = None \<Longrightarrow> us_writings st w = None"
  unfolding uv_safe_def uv_mem_def by (cases "us_writings st w") (auto simp: sentq_of_def pendq_of_def)

lemma write_cb_total:
  assumes m: "uv_safe {} {} st" and w: "w \<in> set (us_writes st)" and s: "0 \<le> status"
  shows "media_uv_write_cb user w status (st\<lparr>us_writes := remove1 w (us_writes st)\<rparr>) \<noteq> None"
proof -
  obtain wr where wr: "us_writings st w = Some wr" using m w unfolding uv_safe_def uv_mem_def by blast
  have "us_proxy st \<noteq> None" using m w unfolding uv_safe_def uv_mem_def by (auto split: option.splits)
  then show ?thesis
    using s wr by (auto simp: media_uv_write_cb_def writing_flag_def media_uv_free_writing_def)
qed

text \<open>C5: Whatever an application does from its callbacks and between them, short of reconnecting, and
  whatever libuv and the server do: in every state reached, the writings that are allocated are exactly
  those that still wait to be sent, to be written or to be answered, each is in the queues at most once,
  the completion of every write in progress finds its writing and the connection alive, and when the
  connection has been released no writing is left.\<close>

theorem uv_writing_lifecycle:
  assumes "uv_reach env (reacting env app n) st"
  shows "dom (us_writings st) = set (us_writes st) \<union> set (sentq_of st) \<union> set (pendq_of st)
    \<and> distinct (us_writes st) \<and> distinct (sentq_of st @ pendq_of st)
    \<and> (\<forall>w\<in>set (us_writes st). \<forall>status\<ge>0.
        media_uv_write_cb (reacting env app n) w status (st\<lparr>us_writes := remove1 w (us_writes st)\<rparr>) \<noteq> None)
    \<and> (us_proxy st = None \<longrightarrow> us_writings st = Map.empty)"
proof -
  have s: "uv_safe {} {} st" using app_client.reach_safe[OF assms] .
  have m: "uv_mem {} {} st" using s by (simp add: uv_safe_def)
  have "dom (us_writings st) = set (us_writes st) \<union> set (sentq_of st) \<union> set (pendq_of st)"
    using m unfolding uv_mem_def by auto
  moreover have "distinct (us_writes st) \<and> distinct (sentq_of st @ pendq_of st)"
    using m unfolding uv_mem_def by auto
  ultimately show ?thesis using write_cb_total[OF s] safe_release[OF s] by (auto simp: fun_eq_iff)
qed

section \<open>A small application\<close>

definition demo_env :: uv_env where
  "demo_env = \<lparr>ue_alloc = zero_alloc, ue_narrow = (\<lambda>_. 0), ue_local_cpu = c_bytes ''ap'', ue_rpmsg = False, ue_name = c_bytes ''md_1''\<rparr>"

text \<open>Once connected it sends two requests.\<close>

definition demo_app :: "uv_call \<Rightarrow> uv_effect list \<Rightarrow> uv_op list" where
  "demo_app c log = (case c of On_connect r \<Rightarrow> [Op_send (Some 5) 1 0 (Some zero_parcel), Op_send (Some 5) 2 0 (Some zero_parcel)] | _ \<Rightarrow> [])"

lemma zero_init: "media_parcel_init zero_parcel = Some zero_parcel"
  using zero_parcel_fresh by (simp add: fresh_parcel_def)

lemma zero_clone: "media_parcel_clone alloc zero_parcel = Some (0, zero_parcel)"
  by (simp add: media_parcel_clone_def zero_parcel_def)

lemma zero_coded:
  assumes "v < 4294967296"
  shows "\<exists>q. set_code v zero_parcel = Some q \<and> chunk_code q = v \<and> chunk_len q = 0
    \<and> read_at 0 8 (chunk q) = Some (parcel_wire v [])"
proof -
  have "parcel_wf zero_parcel" "parcel_data zero_parcel = []" "chunk_len zero_parcel = 0" using fresh_facts[OF zero_parcel_fresh] by simp_all
  moreover have "8 \<le> length (chunk zero_parcel)" by (simp add: zero_parcel_def chunk_def)
  ultimately show ?thesis using wire_of_send[of zero_parcel v] set_code_chunk[of zero_parcel v] assms by auto
qed

lemma cpu_tokens: "strtok_r_tokens (c_bytes '' ,;'' @ [9, 10]) (c_bytes ''ap'') [] = [c_bytes ''ap'']"
  by (simp add: c_bytes_def)

lemma uv_writing_lifecycle_witness:
  "\<exists>st :: uv_state. uv_reach demo_env (reacting demo_env demo_app 1) st \<and> us_writes st = [1, 2] \<and> sentq_of st = [1, 2]
    \<and> dom (us_writings st) = {1, 2}"
proof -
  let ?user = "reacting demo_env demo_app 1 :: unit uv_user"
  obtain q where q: "set_code MEDIA_PARCEL_SEND_ACK zero_parcel = Some q" "chunk_code q = MEDIA_PARCEL_SEND_ACK"
    "chunk_len q = 0" "read_at 0 8 (chunk q) = Some (parcel_wire MEDIA_PARCEL_SEND_ACK [])"
    using zero_coded[of MEDIA_PARCEL_SEND_ACK] by (auto simp: code_defs)
  obtain st where st: "media_uv_connect demo_env True (Some (c_bytes ''ap'')) True \<lparr>us_proxy = None, us_writings = Map.empty,
      us_pipes = Map.empty, us_writes = [], us_next = 0, us_rets = [], us_log = []\<rparr> = Some (True, st)"
    "us_writes st = []" "us_next st = 1" "us_rets st = []" "us_writings st = Map.empty"
    "\<exists>px. us_proxy st = Some px \<and> px_cpu px \<noteq> None \<and> px_cpipe px = Some 0 \<and> px_sentq px = [] \<and> px_pendq px = [] \<and> px_flags px = {CONNECTING}"
    "\<exists>pipe. us_pipes st 0 = Some pipe \<and> pipe_parcel pipe = zero_parcel"
    unfolding media_uv_connect_def media_uv_connect_one_def media_uv_alloc_pipe_def next_ret_def cpu_tokens option.case if_True
    by (simp add: demo_env_def set_proxy_def set_pipe_def zero_init uv_log_def Let_def)
  from st(6,7) obtain px pipe where px: "us_proxy st = Some px" "px_cpu px \<noteq> None" "px_cpipe px = Some 0" "px_sentq px = []" "px_pendq px = []"
    "px_flags px = {CONNECTING}" "us_pipes st 0 = Some pipe" "pipe_parcel pipe = zero_parcel" by blast
  obtain c where c: "px_cpu px = Some c" using px(2) by blast
  have "\<exists>st'. media_uv_connect_one_cb ?user 0 0 st = Some st' \<and> us_writes st' = [1, 2]
      \<and> sentq_of st' = [1, 2] \<and> pendq_of st' = []"
    unfolding media_uv_connect_one_cb_def px(1,7) Option.bind.simps
    by (simp add: px c st q call_user_def demo_app_def media_uv_send_def media_uv_alloc_writing_def next_ret_def zero_init
        zero_clone demo_env_def media_uv_queue_writing_def media_uv_send_writing_def is_acked_def writing_bytes_def parcel_consts
        Let_def cong: if_cong)
  then obtain st' where "uv_reach demo_env ?user st'" "us_writes st' = [1, 2]" "sentq_of st' = [1, 2]" "pendq_of st' = []"
    using uv_reach.connect_done[OF uv_reach.connected[OF st(1)]] by blast
  with uv_writing_lifecycle[of demo_env demo_app 1 st'] show ?thesis by auto
qed

end
