(* ===== verification/Uv_Order.thy ===== *)
theory Uv_Order
  imports Uv_Facts
begin

text \<open>
  The order of the answers of the asynchronous client: requests go out in the order of the calls, and
  however the answers come in, each is handed whole to the callback of its request.
\<close>

section \<open>Reading\<close>

text \<open>libuv reads a stream of bytes: each time as many as there are, the buffer takes and the script says.\<close>

fun uv_feed :: "uv_env \<Rightarrow> 'a uv_user \<Rightarrow> nat \<Rightarrow> nat list \<Rightarrow> bytes \<Rightarrow> 'a uv_state_scheme \<Rightarrow> (bytes \<times> 'a uv_state_scheme) option" where
  "uv_feed env user p [] bs st = Some (bs, st)"
| "uv_feed env user p (n # ns) bs st =
     (if bs = [] then Some ([], st)
      else do {
        (_, len) \<leftarrow> media_uv_alloc_cb p st;
        let k = min (Suc n) (min len (length bs));
        st1 \<leftarrow> uv_receive env user p (take k bs) st;
        uv_feed env user p ns (drop k bs) st1
      })"

lemma set_pipe_twice [simp]: "set_pipe p a (set_pipe p b st) = set_pipe p a st"
  by (simp add: set_pipe_def)

definition buffer_room :: "bytes \<Rightarrow> nat \<Rightarrow> nat" where
  "buffer_room m off = (if off < 8 then 8 - off else length m - off)"

lemma chunk_len_received:
  assumes "wire_message m" "recv_inv m q off" "8 \<le> off"
  shows "chunk_len q = wire_len m"
proof -
  have "take 8 (take off (chunk q)) = take 8 (take off m)" using assms(2) by (simp add: recv_inv_def)
  then have "take 8 (chunk q) = take 8 m" using assms(3) by (simp add: min_def)
  then show ?thesis by (simp add: chunk_len_def wire_len_def take_drop)
qed

lemma room:
  assumes wm: "wire_message m" and inv: "recv_inv m q off"
  shows "(if off < MEDIA_PARCEL_HEADER_LEN then MEDIA_PARCEL_HEADER_LEN - off
    else u32 (4294967296 + MEDIA_PARCEL_HEADER_LEN + chunk_len q - off)) = buffer_room m off"
    "(if off < MEDIA_PARCEL_HEADER_LEN then MEDIA_PARCEL_HEADER_LEN - off
    else u32 (4294967296 + chunk_len q + MEDIA_PARCEL_HEADER_LEN - off)) = buffer_room m off"
proof -
  have lm: "length m = 8 + wire_len m" "length m < 4294967296" using wm by (auto simp: wire_message_def max_payload_def)
  have ol: "off \<le> length m" using inv by (simp add: recv_inv_def)
  have u: "u32 (4294967296 + (length m - off)) = length m - off" using lm by (simp add: u32_def)
  show "(if off < MEDIA_PARCEL_HEADER_LEN then MEDIA_PARCEL_HEADER_LEN - off
    else u32 (4294967296 + MEDIA_PARCEL_HEADER_LEN + chunk_len q - off)) = buffer_room m off"
    "(if off < MEDIA_PARCEL_HEADER_LEN then MEDIA_PARCEL_HEADER_LEN - off
    else u32 (4294967296 + chunk_len q + MEDIA_PARCEL_HEADER_LEN - off)) = buffer_room m off"
    using chunk_len_received[OF wm inv] u lm ol by (auto simp: buffer_room_def parcel_consts)
qed

lemma message_ends:
  assumes wm: "wire_message m" and inv: "recv_inv m q off"
  shows "u32 (MEDIA_PARCEL_HEADER_LEN + chunk_len q) = off \<longleftrightarrow> off = length m"
proof (cases "8 \<le> off")
  case True
  have "length m = 8 + wire_len m" "length m < 4294967296" using wm by (auto simp: wire_message_def max_payload_def)
  then show ?thesis using chunk_len_received[OF wm inv True] by (auto simp: parcel_consts)
next
  case False
  then have "chunk_len q < 16777216" using inv by (intro chunk_len_small) (auto simp: recv_inv_def parcel_shape_def)
  then show ?thesis using False wm by (auto simp: parcel_consts wire_message_def)
qed

lemma recvfrom_short:
  assumes "length bs \<le> room" "room = (if off < MEDIA_PARCEL_HEADER_LEN then MEDIA_PARCEL_HEADER_LEN - off
      else u32 (4294967296 + chunk_len q + MEDIA_PARCEL_HEADER_LEN - off))" "off + length bs < 4294967296" "off < 8 \<longrightarrow> off + length bs \<le> 8"
      "bs \<noteq> []"
    and r: "media_parcel_recvfrom alloc q off bs = Some (r, q', off')"
  shows "off' = off + length bs \<and> (\<exists>c. write_at off bs (chunk q) = Some c \<and>
    (if off' = 8 then \<exists>g. media_parcel_grow alloc (set_chunk c q) 0 (chunk_len (set_chunk c q)) = Some (g, q') \<and> (r < 0 \<longleftrightarrow> g < 0)
     else q' = set_chunk c q \<and> 0 \<le> r))"
proof (cases "room \<le> length bs")
  case True
  then have "length bs = room" "take room bs = bs" using assms(1) by auto
  then show ?thesis using r True assms(3-5) unfolding media_parcel_recvfrom_def Let_def assms(2)[symmetric]
    by (auto simp: bind_Some_iff parcel_consts split: if_splits)
next
  case False
  then have n8: "off + length bs \<noteq> 8" 
  proof (cases "off < 8")
    case True
    then show ?thesis using False assms(1,2,4) by (auto simp: parcel_consts)
  next
    case False
    then show ?thesis using assms(5) by (cases bs) auto
  qed
  then show ?thesis using r False assms(3,5) unfolding media_parcel_recvfrom_def Let_def assms(2)[symmetric]
    by (auto simp: bind_Some_iff)
qed

text \<open>One read of part of a message.\<close>

definition uv_delivered :: "uv_env \<Rightarrow> 'a uv_user \<Rightarrow> nat \<Rightarrow> 'a uv_state_scheme \<Rightarrow> 'a uv_state_scheme option" where
  \<comment> \<open>the end of \<open>media_uv_read_cb\<close>, once a message is whole\<close>
  "uv_delivered env user p st = do {
     (ret, st2) \<leftarrow> media_uv_handle_parcel env user p st;
     (if ret < 0 then media_uv_close p st2
      else do {
        pipe2 \<leftarrow> us_pipes st2 p;
        q2 \<leftarrow> media_parcel_reinit (pipe_parcel pipe2);
        Some (set_pipe p (pipe2\<lparr>pipe_parcel := q2, pipe_offset := 0\<rparr>) st2)
      })
   }"

lemma uv_read_step:
  assumes wm: "wire_message m" and al: "alloc_total (ue_alloc env)"
    and pipe: "us_pipes st p = Some pipe" "recv_inv m (pipe_parcel pipe) (pipe_offset pipe)" "pipe_offset pipe < length m"
    and bs: "bs \<noteq> []" "length bs \<le> buffer_room m (pipe_offset pipe)" "bs @ future = drop (pipe_offset pipe) m @ rest"
  shows "\<exists>q off'. off' = pipe_offset pipe + length bs \<and> off' \<le> length m \<and> recv_inv m q off' \<and> future = drop off' m @ rest
    \<and> uv_receive env user p bs st
      = (if off' = length m then uv_delivered env user p (set_pipe p (pipe\<lparr>pipe_parcel := q, pipe_offset := off'\<rparr>) st)
         else Some (set_pipe p (pipe\<lparr>pipe_parcel := q, pipe_offset := off'\<rparr>) st))"
proof -
  let ?off = "pipe_offset pipe" and ?q = "pipe_parcel pipe"
  have lm: "length m < 4294967296" "length m = 8 + wire_len m" using wm by (auto simp: wire_message_def max_payload_def)
  have bound: "?off + length bs \<le> length m" "?off < 8 \<longrightarrow> ?off + length bs \<le> 8"
    using bs(2) pipe(3) lm by (auto simp: buffer_room_def split: if_splits)
  have ok: "alloc_ok (ue_alloc env)" using al by (simp add: alloc_total_def)
  from recvfrom_inv[OF wm ok pipe(2) bs(3)] obtain r q' off' where
    rf: "media_parcel_recvfrom (ue_alloc env) ?q ?off bs = Some (r, q', off')"
      "r = -ENOMEM \<or> 0 \<le> r \<and> off' = ?off + nat r \<and> recv_inv m q' off'" by blast
  from recvfrom_short[OF bs(2) room(2)[OF wm pipe(2), symmetric] _ bound(2) bs(1) rf(1)] bound(1) lm obtain c where
    c: "off' = ?off + length bs" "write_at ?off bs (chunk ?q) = Some c"
    "if off' = 8 then \<exists>g. media_parcel_grow (ue_alloc env) (set_chunk c ?q) 0 (chunk_len (set_chunk c ?q)) = Some (g, q') \<and> (r < 0 \<longleftrightarrow> g < 0)
     else q' = set_chunk c ?q \<and> 0 \<le> r" by auto
  have "\<not> r < 0" 
  proof
    assume "r < 0"
    with c(3) obtain g where "media_parcel_grow (ue_alloc env) (set_chunk c ?q) 0 (chunk_len (set_chunk c ?q)) = Some (g, q')" "g < 0"
      by (auto split: if_splits)
    with grow_total[OF al] show False by fastforce
  qed
  then have inv: "recv_inv m q' off'" using rf(2) by auto
  have uo: "u32 (?off + length bs) = off'" using bound lm c(1) by simp
  have fut: "future = drop off' m @ rest"
    using take_prefix_eq[OF bs(3)] bound(1) c(1) pipe(3) by (auto simp: add.commute)
  have len: "0 < length bs" using bs(1) by simp
  obtain g where g: "(if off' = MEDIA_PARCEL_HEADER_LEN
      then media_parcel_grow (ue_alloc env) (set_chunk c ?q) 0 (chunk_len (set_chunk c ?q)) else Some (0, set_chunk c ?q)) = Some (g, q')" "\<not> g < 0"
    using c(3) \<open>\<not> r < 0\<close> by (auto simp: parcel_consts split: if_splits)
  have "uv_receive env user p bs st
      = media_uv_read_cb env user p (int (length bs)) (set_pipe p (pipe\<lparr>pipe_parcel := set_chunk c ?q\<rparr>) st)"
    using pipe(1) bs(2) room(1)[OF wm pipe(2)] c(2) by (simp add: uv_receive_def media_uv_alloc_cb_def)
  also have "\<dots> = (if off' = length m then uv_delivered env user p (set_pipe p (pipe\<lparr>pipe_parcel := q', pipe_offset := off'\<rparr>) st)
         else Some (set_pipe p (pipe\<lparr>pipe_parcel := q', pipe_offset := off'\<rparr>) st))"
    using len g message_ends[OF wm inv] unfolding media_uv_read_cb_def uv_delivered_def by (simp add: uo Let_def cong: if_cong)
  finally show ?thesis using c(1) bound(1) inv fut by blast
qed

section \<open>Answers\<close>

text \<open>An application that only looks on, and a connection that is ready.\<close>

definition onlooker :: "'a uv_user" where
  "onlooker c st = Some st"

definition uv_ready :: "nat \<Rightarrow> 'a uv_state_scheme \<Rightarrow> bool" where
  "uv_ready p st \<longleftrightarrow> (\<exists>px. us_proxy st = Some px \<and> px_flags px = {} \<and> px_cpipe px = Some p \<and> px_epipe px \<noteq> Some p
     \<and> distinct (px_sentq px) \<and> (\<forall>w\<in>set (px_sentq px). \<exists>wr. us_writings st w = Some wr \<and> wr_receive wr \<noteq> None))"

definition answered :: "'a uv_state_scheme \<Rightarrow> nat \<Rightarrow> media_parcel \<Rightarrow> uv_effect" where
  "answered st w q = (let wr = the (us_writings st w) in
     Called (On_receive (the (wr_receive wr)) (fst (wr_cookies wr)) (snd (wr_cookies wr)) (Some q)))"

lemma answered_set_pipe [simp]: "answered (set_pipe p x st) = answered st"
  by (simp add: answered_def fun_eq_iff)

lemma handle_answer:
  assumes r: "uv_ready p st" "sentq_of st = w # ws" "us_pipes st p = Some pipe"
  shows "\<exists>st'. media_uv_handle_parcel env onlooker p st = Some (0, st') \<and> uv_ready p st' \<and> sentq_of st' = ws
    \<and> us_log st' = us_log st @ [answered st w (pipe_parcel pipe)] \<and> us_pipes st' = us_pipes st
    \<and> (\<forall>v. v \<noteq> w \<longrightarrow> us_writings st' v = us_writings st v)"
proof -
  from r(1) obtain px where px: "us_proxy st = Some px" "px_flags px = {}" "px_cpipe px = Some p" "px_epipe px \<noteq> Some p"
    "distinct (px_sentq px)" "\<forall>w\<in>set (px_sentq px). \<exists>wr. us_writings st w = Some wr \<and> wr_receive wr \<noteq> None"
    by (auto simp: uv_ready_def)
  have q: "px_sentq px = w # ws" using r(2) px(1) by (simp add: sentq_of_def)
  with px(6) obtain wr f where wr: "us_writings st w = Some wr" "wr_receive wr = Some f" by auto
  have w: "w \<notin> set ws" "distinct ws" using px(5) q by auto
  have others: "\<forall>v\<in>set ws. v \<noteq> w \<and> (\<exists>wr. us_writings st v = Some wr \<and> (\<exists>f. wr_receive wr = Some f))" using px(6) q w by auto
  show ?thesis
    using px(1-4) q wr w others r(3)
    by (auto simp: media_uv_handle_parcel_def media_uv_dequeue_writing_def call_receive_def call_user_def onlooker_def
        writing_flag_def media_uv_free_writing_def first_response_def uv_ready_def answered_def)
qed

lemma deliver_answer:
  assumes r: "uv_ready p st" "sentq_of st = w # ws" "us_pipes st p = Some pipe" "parcel_shape (pipe_parcel pipe)"
  shows "\<exists>st' pipe'. uv_delivered env onlooker p st = Some st' \<and> uv_ready p st' \<and> sentq_of st' = ws
    \<and> us_log st' = us_log st @ [answered st w (pipe_parcel pipe)]
    \<and> us_pipes st' p = Some pipe' \<and> fresh_parcel (pipe_parcel pipe') \<and> pipe_offset pipe' = 0
    \<and> (\<forall>v. v \<noteq> w \<longrightarrow> us_writings st' v = us_writings st v)"
proof -
  from handle_answer[OF r(1-3)] obtain st2 where h: "media_uv_handle_parcel env onlooker p st = Some (0, st2)" "uv_ready p st2"
    "sentq_of st2 = ws" "us_log st2 = us_log st @ [answered st w (pipe_parcel pipe)]" "us_pipes st2 = us_pipes st"
    "\<forall>v. v \<noteq> w \<longrightarrow> us_writings st2 v = us_writings st v" by blast
  have l: "length (prealloc (pipe_parcel pipe)) = 264" using r(4) by (simp add: parcel_shape_def)
  then obtain q where q: "media_parcel_init (pipe_parcel pipe) = Some q" using parcel_init_wf by blast
  have "fresh_parcel q" using init_fresh[OF l q] .
  with h q r(3) show ?thesis
    by (auto simp: uv_delivered_def media_parcel_reinit_def media_parcel_deinit_def uv_ready_def)
qed

lemma feed_nil [simp]: "uv_feed env user p ns [] st = Some ([], st)"
  by (cases ns) auto

definition whole_answer :: "bytes \<Rightarrow> media_parcel \<Rightarrow> bool" where
  \<comment> \<open>the parcel a callback gets for a message, ready to be read\<close>
  "whole_answer m q \<longleftrightarrow> parcel_wf q \<and> chunk_code q = le_val (take 4 m) \<and> parcel_data q = drop 8 m \<and> next_pos q = 0"

lemma feed_answers:
  assumes al: "alloc_total (ue_alloc env)"
  shows "uv_ready p st \<Longrightarrow> us_pipes st p = Some pipe \<Longrightarrow> recv_inv m (pipe_parcel pipe) (pipe_offset pipe)
    \<Longrightarrow> pipe_offset pipe < length m \<Longrightarrow> \<forall>m\<in>set (m # ms). wire_message m \<Longrightarrow> length (m # ms) \<le> length (sentq_of st)
    \<Longrightarrow> bs = drop (pipe_offset pipe) m @ concat ms \<Longrightarrow> length bs \<le> length ns
    \<Longrightarrow> \<exists>st' qs pipe'. uv_feed env onlooker p ns bs st = Some ([], st') \<and> uv_ready p st'
      \<and> list_all2 whole_answer (m # ms) qs \<and> us_log st' = us_log st @ map2 (answered st) (sentq_of st) qs
      \<and> sentq_of st' = drop (length (m # ms)) (sentq_of st)
      \<and> us_pipes st' p = Some pipe' \<and> fresh_parcel (pipe_parcel pipe') \<and> pipe_offset pipe' = 0"
proof (induction ns arbitrary: st pipe m ms bs)
  case (Cons n ns)
  note wm = bspec[OF Cons.prems(5) list.set_intros(1)]
  let ?off = "pipe_offset pipe"
  define k where kd: "k = min (Suc n) (min (buffer_room m (pipe_offset pipe)) (length bs))"
  have bs: "bs \<noteq> []" using Cons.prems(4,7) by auto
  have lm: "length m = 8 + wire_len m" using wm by (simp add: wire_message_def)
  have rm: "0 < buffer_room m ?off" using Cons.prems(4) lm by (auto simp: buffer_room_def)
  have k: "0 < k" "k \<le> buffer_room m ?off" using rm bs by (auto simp: kd)
  have tk: "take k bs \<noteq> []" "length (take k bs) = k" using k bs by (auto simp: kd)
  have str: "take k bs @ drop k bs = drop ?off m @ concat ms" by (simp only: append_take_drop_id Cons.prems(7))
  from uv_read_step[OF wm al Cons.prems(2-4) tk(1) _ str, of onlooker, unfolded tk(2), OF k(2)] obtain q off' where
    o: "off' = ?off + k" "off' \<le> length m" "recv_inv m q off'" "drop k bs = drop off' m @ concat ms"
    and rd: "uv_receive env onlooker p (take k bs) st
      = (if off' = length m then uv_delivered env onlooker p (set_pipe p (pipe\<lparr>pipe_parcel := q, pipe_offset := off'\<rparr>) st)
         else Some (set_pipe p (pipe\<lparr>pipe_parcel := q, pipe_offset := off'\<rparr>) st))" by blast
  let ?st1 = "set_pipe p (pipe\<lparr>pipe_parcel := q, pipe_offset := off'\<rparr>) st"
  have ac: "media_uv_alloc_cb p st = Some (?off, buffer_room m ?off)"
    using Cons.prems(2) room(1)[OF wm Cons.prems(3)] by (simp add: media_uv_alloc_cb_def)
  have fd: "uv_feed env onlooker p (n # ns) bs st
    = Option.bind (uv_receive env onlooker p (take k bs) st) (uv_feed env onlooker p ns (drop k bs))"
    using bs ac by (simp add: Let_def kd)
  have ready1: "uv_ready p ?st1" using Cons.prems(1) by (simp add: uv_ready_def)
  have len: "length (drop k bs) \<le> length ns" using Cons.prems(8) k(1) by simp
  show ?case
  proof (cases "off' = length m")
    case False
    have "length (m # ms) \<le> length (sentq_of ?st1)" using Cons.prems(6) by simp
    from Cons.IH[OF ready1 _ _ _ Cons.prems(5) this _ len, of "pipe\<lparr>pipe_parcel := q, pipe_offset := off'\<rparr>"] o False
    have "\<exists>st' qs pipe'. uv_feed env onlooker p ns (drop k bs) ?st1 = Some ([], st') \<and> uv_ready p st'
      \<and> list_all2 whole_answer (m # ms) qs \<and> us_log st' = us_log st @ map2 (answered st) (sentq_of st) qs
      \<and> sentq_of st' = drop (length (m # ms)) (sentq_of st)
      \<and> us_pipes st' p = Some pipe' \<and> fresh_parcel (pipe_parcel pipe') \<and> pipe_offset pipe' = 0" by simp
    then show ?thesis using fd rd False by simp
  next
    case True
    from Cons.prems(6) obtain w ws where sq: "sentq_of st = w # ws" by (cases "sentq_of st") auto
    have wa: "whole_answer m q" "parcel_shape q"
      using received_parcel[OF wm o(3)[unfolded True]] o(3) by (simp_all add: whole_answer_def recv_inv_def)
    from deliver_answer[OF ready1, of w ws "pipe\<lparr>pipe_parcel := q, pipe_offset := off'\<rparr>" env] sq wa(2) obtain st2 pipe2 where
      d: "uv_delivered env onlooker p ?st1 = Some st2" "uv_ready p st2" "sentq_of st2 = ws"
      "us_log st2 = us_log st @ [answered st w q]" "us_pipes st2 p = Some pipe2" "fresh_parcel (pipe_parcel pipe2)"
      "pipe_offset pipe2 = 0" "\<forall>v. v \<noteq> w \<longrightarrow> us_writings st2 v = us_writings st v" by auto
    have dist: "distinct (w # ws)" using Cons.prems(1) sq by (auto simp: uv_ready_def sentq_of_def)
    have an2: "map2 (answered st2) ws qs = map2 (answered st) ws qs" for qs
      using d(8) dist by (intro map_cong) (auto simp: answered_def Let_def dest!: set_zip_leftD)
    have fd2: "uv_feed env onlooker p (n # ns) bs st = uv_feed env onlooker p ns (concat ms) st2"
      using fd rd True d(1) o(4) by simp
    show ?thesis
    proof (cases ms)
      case Nil
      then show ?thesis using fd2 d sq wa(1) by (intro exI[of _ st2] exI[of _ "[q]"] exI[of _ pipe2]) simp
    next
      case (Cons m1 ms1)
      have wms: "\<forall>m\<in>set (m1 # ms1). wire_message m" and l1: "length (m1 # ms1) \<le> length (sentq_of st2)"
        using Cons.prems(5,6) Cons sq d(3) by auto
      have "length m1 = 8 + wire_len m1" using wms by (simp add: wire_message_def)
      moreover have "length (concat ms) \<le> length ns" using len o(4) True by simp
      ultimately have "\<exists>st' qs pipe'. uv_feed env onlooker p ns (concat ms) st2 = Some ([], st') \<and> uv_ready p st'
        \<and> list_all2 whole_answer (m1 # ms1) qs \<and> us_log st' = us_log st2 @ map2 (answered st2) (sentq_of st2) qs
        \<and> sentq_of st' = drop (length (m1 # ms1)) (sentq_of st2)
        \<and> us_pipes st' p = Some pipe' \<and> fresh_parcel (pipe_parcel pipe') \<and> pipe_offset pipe' = 0"
        using Cons.IH[OF d(2,5) _ _ wms l1] fresh_recv_inv[OF d(6)] d(7) Cons by simp
      then obtain st' qs pipe' where i: "uv_feed env onlooker p ns (concat ms) st2 = Some ([], st')" "uv_ready p st'"
        "list_all2 whole_answer (m1 # ms1) qs" "us_log st' = us_log st2 @ map2 (answered st2) (sentq_of st2) qs"
        "sentq_of st' = drop (length (m1 # ms1)) (sentq_of st2)"
        "us_pipes st' p = Some pipe'" "fresh_parcel (pipe_parcel pipe')" "pipe_offset pipe' = 0" by blast
      show ?thesis
        using i fd2 d(3,4) sq wa(1) an2[of qs] Cons by (intro exI[of _ st'] exI[of _ "q # qs"] exI[of _ pipe']) simp
    qed
  qed
qed (use drop_eq_Nil in auto)

section \<open>Requests\<close>

type_synonym uv_request = "int \<times> int \<times> int \<times> media_parcel"

definition request_op :: "uv_request \<Rightarrow> uv_op" where
  "request_op = (\<lambda>(f, c0, c1, pc). Op_send (Some f) c0 c1 (Some pc))"

definition request_wire :: "nat \<Rightarrow> nat \<Rightarrow> uv_request \<Rightarrow> uv_effect" where
  "request_wire p w = (\<lambda>(f, c0, c1, pc). Write_request p w (parcel_wire MEDIA_PARCEL_SEND_ACK (parcel_data pc)))"

definition request_answer :: "uv_request \<Rightarrow> media_parcel \<Rightarrow> uv_effect" where
  "request_answer = (\<lambda>(f, c0, c1, pc) q. Called (On_receive f c0 c1 (Some q)))"

definition request_held :: "'a uv_state_scheme \<Rightarrow> nat \<Rightarrow> uv_request \<Rightarrow> bool" where
  "request_held st w = (\<lambda>(f, c0, c1, pc). \<exists>wr. us_writings st w = Some wr \<and> wr_receive wr = Some f \<and> wr_cookies wr = (c0, c1))"

text \<open>A connection that can be written to: libuv and the allocator do not fail.\<close>

definition uv_open :: "nat \<Rightarrow> 'a uv_state_scheme \<Rightarrow> bool" where
  "uv_open p st \<longleftrightarrow> uv_ready p st \<and> us_rets st = [] \<and> us_pipes st p \<noteq> None \<and> (\<exists>px. us_proxy st = Some px \<and> px_cpu px \<noteq> None)
     \<and> (\<forall>w. us_next st \<le> w \<longrightarrow> us_writings st w = None)"

lemma clone_total:
  assumes "alloc_total alloc" "parcel_wf pc"
  shows "\<exists>d. media_parcel_clone alloc pc = Some (0, d) \<and> parcel_wf d \<and> parcel_data d = parcel_data pc"
proof (cases "heap pc")
  case None
  then show ?thesis using assms(2) by (simp add: media_parcel_clone_def)
next
  case (Some h)
  have sh: "length h = 8 + cap pc" "cap pc + 8 < 2147483648" using assms(2) Some by (simp_all add: parcel_wf_def parcel_shape_def chunk_def)
  have u: "u32 (MEDIA_PARCEL_HEADER_LEN + cap pc) = 8 + cap pc" using sh by (simp add: parcel_consts)
  from assms(1) obtain fresh where f: "alloc (8 + cap pc) = Some fresh" "length fresh = 8 + cap pc"
    unfolding alloc_total_def alloc_ok_def by blast
  have "media_parcel_clone alloc pc = Some (0, pc\<lparr>heap := Some h\<rparr>)"
    using Some u f sh by (simp add: media_parcel_clone_def read_at_def write_at_Some)
  moreover have "pc\<lparr>heap := Some h\<rparr> = pc" using Some by (cases pc) simp
  ultimately show ?thesis using assms(2) by simp
qed

lemma send_request:
  assumes al: "alloc_total (ue_alloc env)" and o: "uv_open p st" and pc: "parcel_wf pc" and c0: "c0 \<noteq> 0"
  shows "\<exists>st'. run_op env onlooker (request_op (f, c0, c1, pc)) st = Some (0, st') \<and> uv_open p st'
    \<and> sentq_of st' = sentq_of st @ [us_next st] \<and> us_next st' = us_next st + 1 \<and> us_pipes st' = us_pipes st
    \<and> us_log st' = us_log st @ [request_wire p (us_next st) (f, c0, c1, pc)] \<and> request_held st' (us_next st) (f, c0, c1, pc)
    \<and> (\<forall>v < us_next st. us_writings st' v = us_writings st v)"
proof -
  let ?w = "us_next st"
  from o obtain px cpu pipe where px: "us_proxy st = Some px" "px_flags px = {}" "px_cpipe px = Some p" "px_epipe px \<noteq> Some p"
    "distinct (px_sentq px)" "\<forall>w\<in>set (px_sentq px). \<exists>wr. us_writings st w = Some wr \<and> wr_receive wr \<noteq> None"
    "px_cpu px = Some cpu" "us_pipes st p = Some pipe" "us_rets st = []" "\<forall>w. ?w \<le> w \<longrightarrow> us_writings st w = None"
    by (auto simp: uv_open_def uv_ready_def)
  have live: "w < ?w" if "w \<in> set (px_sentq px)" for w
  proof (rule ccontr)
    assume "\<not> w < ?w"
    then have "us_writings st w = None" using px(10) by simp
    with px(6) that show False by force
  qed
  obtain d where d: "media_parcel_clone (ue_alloc env) pc = Some (0, d)" "parcel_wf d" "parcel_data d = parcel_data pc"
    using clone_total[OF al pc] by blast
  obtain q where q: "set_code MEDIA_PARCEL_SEND_ACK d = Some q" "parcel_wf q" "parcel_data q = parcel_data pc"
    "read_at 0 (u32 (8 + chunk_len d)) (chunk q) = Some (parcel_wire MEDIA_PARCEL_SEND_ACK (parcel_data pc))"
    using wire_of_send[OF d(2), of MEDIA_PARCEL_SEND_ACK] d(3) by (auto simp: code_defs)
  have "8 \<le> length (chunk d)" using d(2) by (simp add: parcel_wf_def parcel_shape_def)
  then have q2: "chunk_code q = MEDIA_PARCEL_SEND_ACK" "chunk_len q = chunk_len d"
    using set_code_chunk[of d MEDIA_PARCEL_SEND_ACK] q(1) by (auto simp: code_defs)
  let ?wr = "\<lparr>wr_parcel = q, wr_receive = Some f, wr_cookies = (c0, c1), wr_flags = {}\<rparr>"
  let ?px = "px\<lparr>px_sentq := px_sentq px @ [?w], px_nb_sentq := px_nb_sentq px + 1\<rparr>"
  let ?st1 = "set_proxy ?px (set_writing ?w ?wr (st\<lparr>us_next := ?w + 1\<rparr>))"
  have "run_op env onlooker (request_op (f, c0, c1, pc)) st
    = Some (0, uv_log [request_wire p ?w (f, c0, c1, pc)] (?st1\<lparr>us_writes := us_writes st @ [?w]\<rparr>))"
    using px q q2 d c0 by (simp add: request_op_def request_wire_def media_uv_send_def media_uv_alloc_writing_def zero_init
        next_ret_def media_uv_queue_writing_def media_uv_send_writing_def is_acked_def writing_bytes_def parcel_consts
        set_writing_def Let_def)
  moreover have "uv_open p (uv_log [request_wire p ?w (f, c0, c1, pc)] (?st1\<lparr>us_writes := us_writes st @ [?w]\<rparr>))"
    using px live by (fastforce simp: uv_open_def uv_ready_def)
  ultimately show ?thesis using px(1)
    by (intro exI[of _ "uv_log [request_wire p ?w (f, c0, c1, pc)] (?st1\<lparr>us_writes := us_writes st @ [?w]\<rparr>)"])
      (simp add: request_held_def sentq_of_def)
qed

lemma send_requests:
  assumes al: "alloc_total (ue_alloc env)"
  shows "uv_open p st \<Longrightarrow> \<forall>(f, c0, c1, pc)\<in>set rs. parcel_wf pc \<and> c0 \<noteq> 0
    \<Longrightarrow> \<exists>st'. run_ops env onlooker (map request_op rs) st = Some st' \<and> uv_open p st'
      \<and> sentq_of st' = sentq_of st @ [us_next st..<us_next st + length rs] \<and> us_pipes st' = us_pipes st
      \<and> us_log st' = us_log st @ map2 (request_wire p) [us_next st..<us_next st + length rs] rs
      \<and> list_all2 (request_held st') [us_next st..<us_next st + length rs] rs
      \<and> (\<forall>v < us_next st. us_writings st' v = us_writings st v)"
proof (induction rs arbitrary: st)
  case (Cons r rs)
  obtain f c0 c1 pc where r: "r = (f, c0, c1, pc)" by (cases r)
  have ok: "parcel_wf pc" "c0 \<noteq> 0" "\<forall>(f, c0, c1, pc)\<in>set rs. parcel_wf pc \<and> c0 \<noteq> 0" using Cons.prems(2) r by auto
  from send_request[OF al Cons.prems(1) ok(1,2), of f c1, folded r] obtain st1 where
    s: "run_op env onlooker (request_op r) st = Some (0, st1)" "uv_open p st1" "sentq_of st1 = sentq_of st @ [us_next st]"
    "us_next st1 = us_next st + 1" "us_pipes st1 = us_pipes st" "us_log st1 = us_log st @ [request_wire p (us_next st) r]"
    "request_held st1 (us_next st) r" "\<forall>v < us_next st. us_writings st1 v = us_writings st v" by blast
  from Cons.IH[OF s(2) ok(3)] obtain st' where
    i: "run_ops env onlooker (map request_op rs) st1 = Some st'" "uv_open p st'"
    "sentq_of st' = sentq_of st1 @ [us_next st1..<us_next st1 + length rs]" "us_pipes st' = us_pipes st1"
    "us_log st' = us_log st1 @ map2 (request_wire p) [us_next st1..<us_next st1 + length rs] rs"
    "list_all2 (request_held st') [us_next st1..<us_next st1 + length rs] rs"
    "\<forall>v < us_next st1. us_writings st' v = us_writings st1 v" by blast
  have u: "[us_next st..<us_next st + length (r # rs)] = us_next st # [us_next st1..<us_next st1 + length rs]"
    using s(4) by (simp add: upt_rec)
  have "request_held st' (us_next st) r" using s(4,7) i(7) r by (simp add: request_held_def)
  then show ?case using i s unfolding u by (intro exI[of _ st']) simp
qed simp

lemma held_answers:
  "list_all2 (request_held st) ws rs \<Longrightarrow> map2 (answered st) ws qs = map2 request_answer rs qs"
proof (induction ws rs arbitrary: qs rule: list_all2_induct)
  case (Cons w ws r rs)
  then show ?case by (cases qs) (auto simp: request_held_def request_answer_def answered_def)
qed simp

text \<open>C6: Requests given to a connection that is ready go out on its command pipe at once, whole and in
  the order of the calls; and when their answers come in, however the bytes are cut, each answer is handed
  whole, once and in that order to the callback and with the cookies of its own request, until none is
  awaited.\<close>

theorem uv_answers_in_order:
  assumes al: "alloc_total (ue_alloc env)" and o: "uv_open p st" "sentq_of st = []"
    and pipe: "us_pipes st p = Some pipe" "fresh_parcel (pipe_parcel pipe)" "pipe_offset pipe = 0"
    and rs: "\<forall>(f, c0, c1, pc)\<in>set rs. parcel_wf pc \<and> c0 \<noteq> 0"
    and ms: "length ms = length rs" "\<forall>m\<in>set ms. wire_message m" "length (concat ms) \<le> length ns"
  shows "\<exists>st1 st2 qs. run_ops env onlooker (map request_op rs) st = Some st1
    \<and> us_log st1 = us_log st @ map2 (request_wire p) [us_next st..<us_next st + length rs] rs
    \<and> uv_feed env onlooker p ns (concat ms) st1 = Some ([], st2)
    \<and> list_all2 whole_answer ms qs
    \<and> us_log st2 = us_log st1 @ map2 request_answer rs qs \<and> sentq_of st2 = []"
proof -
  from send_requests[OF al o(1) rs] obtain st1 where
    s: "run_ops env onlooker (map request_op rs) st = Some st1" "uv_open p st1"
    "sentq_of st1 = [us_next st..<us_next st + length rs]" "us_pipes st1 = us_pipes st"
    "us_log st1 = us_log st @ map2 (request_wire p) [us_next st..<us_next st + length rs] rs"
    "list_all2 (request_held st1) [us_next st..<us_next st + length rs] rs" using o(2) by auto
  show ?thesis
  proof (cases ms)
    case Nil
    then show ?thesis using s ms(1) by (intro exI[of _ st1] exI[of _ "[]"]) simp
  next
    case (Cons m ms')
    have len: "length (m # ms') \<le> length (sentq_of st1)" using s(3) ms(1) Cons by simp
    have "uv_ready p st1" "us_pipes st1 p = Some pipe" using s(2,4) pipe(1) by (simp_all add: uv_open_def)
    moreover have "length m = 8 + wire_len m" using ms(2) Cons by (simp add: wire_message_def)
    ultimately obtain st2 qs where f: "uv_feed env onlooker p ns (concat ms) st1 = Some ([], st2)" "list_all2 whole_answer ms qs"
      "us_log st2 = us_log st1 @ map2 (answered st1) (sentq_of st1) qs" "sentq_of st2 = drop (length ms) (sentq_of st1)"
      using feed_answers[OF al, of p st1 pipe m ms' "concat ms" ns] len ms(2,3) fresh_recv_inv[OF pipe(2)] pipe(3) Cons by auto
    have "sentq_of st2 = []" using f(4) s(3) ms(1) by simp
    with s(1,5) f(1-3) held_answers[OF s(6), of qs] s(3) show ?thesis by auto
  qed
qed

definition demo_pipe :: uv_pipe where
  "demo_pipe = \<lparr>pipe_parcel = zero_parcel, pipe_offset = 0, pipe_closing = False\<rparr>"

definition demo_proxy :: uv_proxy where
  "demo_proxy = \<lparr>px_cpu = Some (c_bytes ''ap''), px_cpus = [], px_cpipe = Some 0, px_epipe = None, px_on_release = None,
     px_on_listen = None, px_on_event = None, px_pendq = [], px_sentq = [], px_nb_pendq = 0, px_nb_sentq = 0, px_nb_sent = 0,
     px_nb_recv = 0, px_flags = {}\<rparr>"

definition demo_open :: uv_state where
  "demo_open = \<lparr>us_proxy = Some demo_proxy, us_writings = Map.empty, us_pipes = [0 \<mapsto> demo_pipe], us_writes = [], us_next = 1,
     us_rets = [], us_log = []\<rparr>"

lemma demo_open_ok: "uv_open 0 demo_open" "sentq_of demo_open = []" "us_pipes demo_open 0 = Some demo_pipe"
    "us_next demo_open = 1" "us_log demo_open = []"
  by (simp_all add: uv_open_def uv_ready_def demo_open_def demo_proxy_def sentq_of_def)

lemma uv_answers_in_order_witness:
  "\<exists>st1 st2 q1 q2. run_ops demo_env onlooker (map request_op [(5, 1, 0, zero_parcel), (6, 2, 0, zero_parcel)]) demo_open = Some st1
    \<and> uv_feed demo_env onlooker 0 (replicate 18 2) (parcel_wire 4 [7] @ parcel_wire 4 [8]) st1 = Some ([], st2)
    \<and> us_log st2 = us_log st1 @ [Called (On_receive 5 1 0 (Some q1)), Called (On_receive 6 2 0 (Some q2))]
    \<and> parcel_data q1 = [7] \<and> parcel_data q2 = [8]"
proof -
  let ?rs = "[(5, 1, 0, zero_parcel), (6, 2, 0, zero_parcel)] :: uv_request list" and ?ms = "[parcel_wire 4 [7], parcel_wire 4 [8]]"
  have wf: "parcel_wf zero_parcel" using fresh_facts[OF zero_parcel_fresh] by simp
  have al: "alloc_total (ue_alloc demo_env)" using zero_alloc_total by (simp add: demo_env_def)
  have wm: "\<forall>m\<in>set ?ms. wire_message m" using wire_message_parcel[of _ 4] by (simp add: max_payload_def)
  have "\<exists>st1 st2 qs. run_ops demo_env onlooker (map request_op ?rs) demo_open = Some st1
    \<and> us_log st1 = us_log demo_open @ map2 (request_wire 0) [us_next demo_open..<us_next demo_open + length ?rs] ?rs
    \<and> uv_feed demo_env onlooker 0 (replicate 18 2) (concat ?ms) st1 = Some ([], st2)
    \<and> list_all2 whole_answer ?ms qs
    \<and> us_log st2 = us_log st1 @ map2 request_answer ?rs qs \<and> sentq_of st2 = []"
    by (rule uv_answers_in_order[OF al demo_open_ok(1,2,3) _ _ _ _ wm])
      (use wf zero_parcel_fresh in \<open>simp_all add: demo_pipe_def parcel_wire_def\<close>)
  then show ?thesis
    by (force simp: list_all2_Cons1 whole_answer_def request_answer_def parcel_wire_def)
qed

section \<open>Pending writings\<close>

text \<open>The writings that wait, and a pipe to write them to.\<close>

definition uv_pending :: "nat \<Rightarrow> 'a uv_state_scheme \<Rightarrow> bool" where
  "uv_pending p st \<longleftrightarrow> (\<exists>px. us_proxy st = Some px \<and> px_cpipe px = Some p \<and> us_pipes st p \<noteq> None \<and> distinct (px_pendq px)
     \<and> (\<forall>w\<in>set (px_pendq px). \<exists>wr. us_writings st w = Some wr \<and> writing_bytes wr \<noteq> None \<and> wr_receive wr \<noteq> None))"

lemma list_next_Cons: "list_next w (w # ws) = (case ws of [] \<Rightarrow> None | v # _ \<Rightarrow> Some v)"
  by (simp add: list_next_def split: list.split)

lemma is_acked_flags [simp]: "is_acked (wr\<lparr>wr_flags := f\<rparr>) = is_acked wr"
  by (simp add: is_acked_def)

lemma send_pending:
  assumes u: "uv_pending p st" "pendq_of st = w # ws"
  shows "\<exists>ret st' wr. media_uv_send_writing onlooker w
      (set_proxy ((the (us_proxy st))\<lparr>px_pendq := ws, px_nb_pendq := n\<rparr>) st) = Some (ret, st')
    \<and> uv_pending p st' \<and> pendq_of st' = ws \<and> us_writings st w = Some wr \<and> (\<forall>v. v \<noteq> w \<longrightarrow> us_writings st' v = us_writings st v)
    \<and> (us_rets st = [] \<longrightarrow> us_rets st' = [] \<and> us_log st' = us_log st @ [Write_request p w (the (writing_bytes wr))])"
proof -
  from u obtain px pipe where px: "us_proxy st = Some px" "px_cpipe px = Some p" "us_pipes st p = Some pipe" "px_pendq px = w # ws"
    "w \<notin> set ws" "distinct ws" "\<forall>v\<in>set ws. \<exists>wr. us_writings st v = Some wr \<and> writing_bytes wr \<noteq> None \<and> wr_receive wr \<noteq> None"
    and "\<exists>wr. us_writings st w = Some wr \<and> writing_bytes wr \<noteq> None \<and> wr_receive wr \<noteq> None"
    by (auto simp: uv_pending_def pendq_of_def)
  then obtain wr buf f where wr: "us_writings st w = Some wr" "writing_bytes wr = Some buf" "wr_receive wr = Some f" by auto
  have ws: "\<forall>v\<in>set ws. v \<noteq> w \<and> (\<exists>wr. us_writings st v = Some wr \<and> (\<exists>b. writing_bytes wr = Some b) \<and> (\<exists>f. wr_receive wr = Some f))"
    using px(5,7) by auto
  have p: "(\<exists>x. us_proxy s = Some x \<and> px_cpipe x = Some p \<and> px_pendq x = ws) \<Longrightarrow> us_pipes s p = Some pipe
      \<Longrightarrow> \<forall>v. v \<noteq> w \<longrightarrow> us_writings s v = us_writings st v \<Longrightarrow> uv_pending p s" for s
    using ws px(6) by (auto simp: uv_pending_def)
  show ?thesis
  proof (cases "us_rets st")
    case Nil
    then show ?thesis using px(1-3) wr
      by (auto simp: media_uv_send_writing_def next_ret_def Let_def intro!: p)
  next
    case (Cons r rs)
    then show ?thesis using px(1-3) wr
      by (cases "r < 0"; cases "is_acked wr")
        (auto simp: media_uv_send_writing_def next_ret_def Let_def media_uv_write_cb_def writing_flag_def media_uv_free_writing_def
          call_receive_def call_user_def onlooker_def set_proxy_def set_writing_def uv_log_def pendq_of_def intro!: p)
  qed
qed

lemma delivery_ends:
  "uv_pending p st \<Longrightarrow> pendq_of st = ws
    \<Longrightarrow> \<exists>st'. delivery_loop onlooker (case ws of [] \<Rightarrow> None | w # _ \<Rightarrow> Some w) st = Some st' \<and> pendq_of st' = []
      \<and> (us_rets st = [] \<longrightarrow> us_log st' = us_log st @ map (\<lambda>w. Write_request p w (the (writing_bytes (the (us_writings st w))))) ws)"
proof (induction ws arbitrary: st)
  case Nil
  then show ?case by (simp add: delivery_loop.simps)
next
  case (Cons w ws)
  then obtain px where px: "us_proxy st = Some px" "px_pendq px = w # ws" "w \<notin> set ws" by (auto simp: uv_pending_def pendq_of_def)
  from send_pending[OF Cons.prems, of "px_nb_pendq px - 1"] px(1) obtain ret st1 wr where
    s: "media_uv_send_writing onlooker w (set_proxy (px\<lparr>px_pendq := ws, px_nb_pendq := px_nb_pendq px - 1\<rparr>) st) = Some (ret, st1)"
    "uv_pending p st1" "pendq_of st1 = ws" "us_writings st w = Some wr" "\<forall>v. v \<noteq> w \<longrightarrow> us_writings st1 v = us_writings st v"
    "us_rets st = [] \<longrightarrow> us_rets st1 = [] \<and> us_log st1 = us_log st @ [Write_request p w (the (writing_bytes wr))]" by auto
  have m: "map (\<lambda>w. Write_request p w (the (writing_bytes (the (us_writings st1 w))))) ws
    = map (\<lambda>w. Write_request p w (the (writing_bytes (the (us_writings st w))))) ws"
    using s(5) px(3) by (intro map_cong) auto
  have "delivery_loop onlooker (Some w) st = delivery_loop onlooker (case ws of [] \<Rightarrow> None | v # _ \<Rightarrow> Some v) st1"
    using px s(1) by (subst delivery_loop.simps) (simp add: list_next_Cons)
  with Cons.IH[OF s(2,3)] s(4,6) m show ?case by auto
qed


definition demo_writing :: uv_writing where
  "demo_writing = \<lparr>wr_parcel = zero_parcel, wr_receive = Some 5, wr_cookies = (1, 0), wr_flags = {}\<rparr>"

lemma demo_writing_bytes: "writing_bytes demo_writing = Some (replicate 8 0)"
  using fresh_facts(4)[OF zero_parcel_fresh]
  by (simp add: writing_bytes_def demo_writing_def read_at_def parcel_consts) (simp add: zero_parcel_def chunk_def)


section \<open>Failures\<close>



text \<open>When the server's connection back cannot be accepted, the connection becomes ready again, but
  the writings that were queued meanwhile stay in the queue, and the next message sent is written before
  them.\<close>

theorem uv_accept_failure:
  assumes "us_proxy st = Some px" "px_flags px = {LISTENING}" "px_cpipe px = Some p" "us_pipes st p \<noteq> None"
    and "us_pipes st server \<noteq> None" "ret < 0" "us_rets st = []"
    and "us_writings st w = Some wr" "w \<notin> set (px_pendq px)" "writing_bytes wr = Some buf"
  shows "\<exists>st1 st2. media_uv_listen_one_cb onlooker server ret st = Some st1
    \<and> (\<exists>px1. us_proxy st1 = Some px1 \<and> px_flags px1 = {}) \<and> pendq_of st1 = px_pendq px
    \<and> media_uv_queue_writing onlooker w st1 = Some (0, st2)
    \<and> last (us_log st2) = Write_request p w buf \<and> pendq_of st2 = px_pendq px"
proof -
  obtain pipe0 where p0: "us_pipes st server = Some pipe0" using assms(5) by auto
  obtain pipe1 where p1: "us_pipes st p = Some pipe1" using assms(4) by auto
  show ?thesis
    using assms(1-3,6-10) p0 p1
    by (cases "px_on_listen px"; cases "pipe_closing pipe0"; cases "p = server"; cases "is_acked wr")
      (auto simp: media_uv_listen_one_cb_def media_uv_close_def call_listen_def call_user_def onlooker_def pendq_of_def
        media_uv_queue_writing_def media_uv_send_writing_def next_ret_def Let_def)
qed

lemma uv_accept_failure_witness:
  "\<exists>st1 st2. media_uv_listen_one_cb onlooker 1 (-EAGAIN)
      (demo_open\<lparr>us_proxy := Some (demo_proxy\<lparr>px_pendq := [1], px_epipe := Some 1, px_flags := {LISTENING}\<rparr>),
        us_pipes := [0 \<mapsto> demo_pipe, 1 \<mapsto> demo_pipe], us_writings := [1 \<mapsto> demo_writing, 2 \<mapsto> demo_writing]\<rparr>) = Some st1
    \<and> media_uv_queue_writing onlooker 2 st1 = Some (0, st2) \<and> last (us_log st2) = Write_request 0 2 (replicate 8 0)
    \<and> pendq_of st2 = [1]"
  using uv_accept_failure[where st = "demo_open\<lparr>us_proxy := Some (demo_proxy\<lparr>px_pendq := [1], px_epipe := Some 1, px_flags := {LISTENING}\<rparr>),
        us_pipes := [0 \<mapsto> demo_pipe, 1 \<mapsto> demo_pipe], us_writings := [1 \<mapsto> demo_writing, 2 \<mapsto> demo_writing]\<rparr>"
      and px = "demo_proxy\<lparr>px_pendq := [1], px_epipe := Some 1, px_flags := {LISTENING}\<rparr>" and p = 0 and server = 1 and ret = "-EAGAIN"
      and w = 2 and wr = demo_writing and buf = "replicate 8 0"] demo_writing_bytes
  by (auto simp: demo_open_def demo_proxy_def)

end
