(* ===== verification/Uv_Client.thy ===== *)
theory Uv_Client
  imports Media_Uv Media_Text Media_Metadata
begin

text \<open>
  What the asynchronous libraries of session, focus, policy, player and recorder share
  (\<open>client/media_uv_session.c\<close>, \<open>media_uv_focus.c\<close>, \<open>media_uv_policy.c\<close>, \<open>media_uv_graph.c\<close>): a connection
  extended with the library's own block, the calls of the application's callbacks, marshalling a command
  and reading an answer.

  Function pointers and cookies are numbers, 0 is NULL; the functions of a library that it passes to itself
  are negative. What the application's callback does is a parameter, \<open>app\<close>.
\<close>

section \<open>The application\<close>

datatype app_arg = No_arg | Int_arg int | Unsigned_arg nat | Text_arg "bytes option" | Data_arg "media_metadata option"
  | Pipe_arg "nat option"

datatype app_call =
    App_result int int int app_arg
  | App_event int int int int "bytes option"
  | App_suggestion int int int

record uv_library = uv_state +
  lib_calls :: "app_call list"
  lib_alive :: bool

type_synonym 'a uv_app = "app_call \<Rightarrow> 'a uv_library_scheme \<Rightarrow> 'a uv_library_scheme option"

definition call_app :: "'a uv_app \<Rightarrow> app_call \<Rightarrow> 'a uv_library_scheme \<Rightarrow> 'a uv_library_scheme option" where
  "call_app app c st = app c (st\<lparr>lib_calls := lib_calls st @ [c]\<rparr>)"

definition call_optional :: "'a uv_app \<Rightarrow> int option \<Rightarrow> int \<Rightarrow> int \<Rightarrow> 'a uv_library_scheme \<Rightarrow> 'a uv_library_scheme option" where
  \<comment> \<open>\<open>if (cb) cb(cookie, ret)\<close>\<close>
  "call_optional app cb cookie ret st = (case cb of None \<Rightarrow> Some st | Some f \<Rightarrow> call_app app (App_result f cookie ret No_arg) st)"

definition alive :: "'a uv_library_scheme \<Rightarrow> unit option" where
  \<comment> \<open>the library's block is not freed\<close>
  "alive st = (if lib_alive st then Some () else None)"

section \<open>Commands\<close>

definition uv_command :: "uv_env \<Rightarrow> 'a uv_user \<Rightarrow> bool \<Rightarrow> string \<Rightarrow> varg list \<Rightarrow> int option \<Rightarrow> int \<Rightarrow> int \<Rightarrow> 'a uv_state_scheme
    \<Rightarrow> (int \<times> 'a uv_state_scheme) option" where
  \<comment> \<open>the arguments are marshalled into a parcel on the stack, which \<open>media_uv_send\<close> copies; the flag is
    whether the library holds a connection\<close>
  "uv_command env user handle fmt args parser cb cookie st = do {
     p \<leftarrow> media_parcel_init stack_parcel;
     (ret, p1) \<leftarrow> media_parcel_append_printf (ue_alloc env) (ue_narrow env) p fmt args;
     (if ret < 0 then Some (ret, st) else media_uv_send env user handle parser cb cookie (Some p1) st)
   }"

section \<open>Answers\<close>

text \<open>Variables keep their initial value when the message ends before them.\<close>

definition scanned_int :: "int \<Rightarrow> nat \<Rightarrow> sval list \<Rightarrow> int" where
  "scanned_int initial i vals = (if i < length vals then (case vals ! i of S32 w \<Rightarrow> sint w | _ \<Rightarrow> initial) else initial)"

definition scanned_text :: "nat \<Rightarrow> sval list \<Rightarrow> bytes option" where
  "scanned_text i vals = (if i < length vals then (case vals ! i of SString s \<Rightarrow> s | _ \<Rightarrow> None) else None)"

definition answer_result :: "media_parcel option \<Rightarrow> int option" where
  \<comment> \<open>\<open>media_parcel_read_scanf(parcel, "%i%s", &result, NULL)\<close>\<close>
  "answer_result parcel0 = (case parcel0 of
     None \<Rightarrow> Some (-ECANCELED)
   | Some p \<Rightarrow> do {
       (_, vals, _) \<leftarrow> media_parcel_read_scanf p ''%i%s'' [True, False];
       Some (scanned_int (-ECANCELED) 0 vals)
     })"

definition answer_text :: "media_parcel option \<Rightarrow> (int \<times> bytes option) option" where
  \<comment> \<open>\<open>media_parcel_read_scanf(parcel, "%i%s", &result, &response)\<close>\<close>
  "answer_text parcel0 = (case parcel0 of
     None \<Rightarrow> Some (-ECANCELED, None)
   | Some p \<Rightarrow> do {
       (_, vals, _) \<leftarrow> media_parcel_read_scanf p ''%i%s'' [True, True];
       Some (scanned_int (-ECANCELED) 0 vals, scanned_text 1 vals)
     })"

definition answer_event :: "media_parcel \<Rightarrow> (int \<times> int \<times> bytes option) option" where
  \<comment> \<open>\<open>media_parcel_read_scanf(parcel, "%i%i%s", &event, &result, &response)\<close>\<close>
  "answer_event p = do {
     (_, vals, _) \<leftarrow> media_parcel_read_scanf p ''%i%i%s'' [True, True, True];
     Some (scanned_int 0 0 vals, scanned_int (-ECANCELED) 1 vals, scanned_text 2 vals)
   }"

definition answer_int32 :: "int \<Rightarrow> media_parcel option \<Rightarrow> int option" where
  \<comment> \<open>\<open>media_parcel_read_int32(parcel, &result)\<close>\<close>
  "answer_int32 initial parcel0 = (case parcel0 of
     None \<Rightarrow> Some initial
   | Some p \<Rightarrow> do {
       (_, vals, _) \<leftarrow> media_parcel_read_int32 p True;
       Some (scanned_int initial 0 vals)
     })"

end
