(* ===== verification/Uv_Session.thy ===== *)
theory Uv_Session
  imports Uv_Client
begin

text \<open>
  The asynchronous library of controllers and controllees, \<open>client/media_uv_session.c\<close>: the life of a
  session over one connection, its callbacks and its functions.
\<close>

section \<open>State\<close>

text \<open>\<open>ses_role\<close> is the callback given to \<open>media_uv_connect\<close>: that of a controller or of a controllee.\<close>

datatype uv_role = Controller | Controllee

record uv_session = uv_library +
  uvs_cookie :: int
  uvs_on_open :: "int option"
  uvs_on_close :: "int option"
  uvs_on_event :: "int option"
  uvs_data :: media_metadata
  uvs_need_query :: bool
  uvs_role :: uv_role

type_synonym session_user = "uv_call \<Rightarrow> uv_session \<Rightarrow> uv_session option"
type_synonym session_app = "app_call \<Rightarrow> uv_session \<Rightarrow> uv_session option"

text \<open>The library's functions that it passes as callbacks.\<close>

definition SESSION_RECEIVE :: int where "SESSION_RECEIVE = -1"
definition SESSION_RECEIVE_METADATA :: int where "SESSION_RECEIVE_METADATA = -2"
definition SESSION_OPEN_CB :: int where "SESSION_OPEN_CB = -3"
definition SESSION_CLOSE_CB :: int where "SESSION_CLOSE_CB = -4"
definition SESSION_REGISTER_CB :: int where "SESSION_REGISTER_CB = -5"
definition SESSION_PING_CB :: int where "SESSION_PING_CB = -6"
definition SESSION_LISTEN_CB :: int where "SESSION_LISTEN_CB = -7"
definition SESSION_EVENT_CB :: int where "SESSION_EVENT_CB = -8"
definition SESSION_DISCONNECT_CB :: int where "SESSION_DISCONNECT_CB = -9"

lemmas session_cbs = SESSION_RECEIVE_def SESSION_RECEIVE_METADATA_def SESSION_OPEN_CB_def SESSION_CLOSE_CB_def
  SESSION_REGISTER_CB_def SESSION_PING_CB_def SESSION_LISTEN_CB_def SESSION_EVENT_CB_def SESSION_DISCONNECT_CB_def

text \<open>The library's own block as a cookie.\<close>

definition THIS :: int where "THIS = 1"

section \<open>Private functions\<close>

definition media_uv_session_disconnect_cb :: "session_app \<Rightarrow> int \<Rightarrow> uv_session \<Rightarrow> uv_session option" where
  "media_uv_session_disconnect_cb app ret st = do {
     _ \<leftarrow> alive st;
     st1 \<leftarrow> call_optional app (uvs_on_close st) (uvs_cookie st) ret st;
     Some (st1\<lparr>uvs_data := media_metadata_deinit (uvs_data st1), lib_alive := False\<rparr>)
   }"

definition media_uv_session_close_cb :: "session_user \<Rightarrow> int \<Rightarrow> uv_session \<Rightarrow> uv_session option" where
  "media_uv_session_close_cb user ret st = do {
     _ \<leftarrow> alive st;
     (_, st1) \<leftarrow> media_uv_disconnect user True (Some SESSION_DISCONNECT_CB) st;
     Some st1
   }"

definition media_uv_session_event_cb :: "session_app \<Rightarrow> media_parcel \<Rightarrow> uv_session \<Rightarrow> uv_session option" where
  "media_uv_session_event_cb app p st = do {
     _ \<leftarrow> alive st;
     (event, result, response) \<leftarrow> answer_event p;
     let st1 = (if event = MEDIA_EVENT_CHANGED
          then st\<lparr>uvs_data := media_metadata_reinit (uvs_data st), uvs_need_query := True\<rparr>
        else if event = MEDIA_EVENT_UPDATED then st\<lparr>uvs_need_query := True\<rparr> else st);
     f \<leftarrow> uvs_on_event st1;
     call_app app (App_event f (uvs_cookie st1) event result response) st1
   }"

definition media_uv_session_send :: "uv_env \<Rightarrow> session_user \<Rightarrow> bytes option \<Rightarrow> string \<Rightarrow> bytes option \<Rightarrow> 32 word
    \<Rightarrow> int option \<Rightarrow> int \<Rightarrow> int \<Rightarrow> uv_session \<Rightarrow> (int \<times> uv_session) option" where
  "media_uv_session_send env user target cmd arg res_len parser cb cookie st = do {
     _ \<leftarrow> alive st;
     uv_command env user True ''%i%s%s%s%i''
       [VInt32 MEDIA_ID_SESSION, VString target, VString (Some (c_bytes cmd)), VString arg, VInt32 res_len] parser cb cookie st
   }"

definition media_uv_controller_receive_metadata_cb :: "(string \<Rightarrow> string option) \<Rightarrow> session_app \<Rightarrow> int \<Rightarrow> int
    \<Rightarrow> media_parcel option \<Rightarrow> uv_session \<Rightarrow> uv_session option" where
  \<comment> \<open>after a failure it goes on\<close>
  "media_uv_controller_receive_metadata_cb dup app cb cookie1 parcel0 st = do {
     (result, response) \<leftarrow> answer_text parcel0;
     st1 \<leftarrow> (if result < 0 then call_app app (App_result cb cookie1 result (Data_arg None)) st else Some st);
     (_, diff) \<leftarrow> media_metadata_unserialize dup media_metadata_init (map_option b_str response);
     _ \<leftarrow> alive st1;
     let st2 = st1\<lparr>uvs_data := fst (media_metadata_update (uvs_data st1) diff)\<rparr>;
     call_app app (App_result cb cookie1 0 (Data_arg (Some (uvs_data st2)))) st2
   }"

definition media_uv_controller_open_cb :: "uv_env \<Rightarrow> session_user \<Rightarrow> session_app \<Rightarrow> int \<Rightarrow> uv_session \<Rightarrow> uv_session option" where
  "media_uv_controller_open_cb env user app ret st = do {
     _ \<leftarrow> alive st;
     (if ret < 0 then do { (_, st1) \<leftarrow> media_uv_reconnect env user True st; Some st1 }
      else call_optional app (uvs_on_open st) (uvs_cookie st) ret st)
   }"

definition media_uv_controller_connect_cb :: "uv_env \<Rightarrow> session_user \<Rightarrow> session_app \<Rightarrow> int \<Rightarrow> uv_session \<Rightarrow> uv_session option" where
  "media_uv_controller_connect_cb env user app ret st = do {
     _ \<leftarrow> alive st;
     (ret, st1) \<leftarrow> (if 0 \<le> ret
        then media_uv_session_send env user None ''open'' None 0 (Some SESSION_RECEIVE) SESSION_OPEN_CB THIS st
        else Some (ret, st));
     (if ret < 0 then call_optional app (uvs_on_open st1) (uvs_cookie st1) ret st1 else Some st1)
   }"

definition media_uv_controllee_register_cb :: "session_app \<Rightarrow> int \<Rightarrow> uv_session \<Rightarrow> uv_session option" where
  "media_uv_controllee_register_cb app ret st = do {
     _ \<leftarrow> alive st;
     f \<leftarrow> uvs_on_event st;
     call_app app (App_event f (uvs_cookie st) 0 ret None) st
   }"

definition media_uv_controllee_listen_cb :: "uv_env \<Rightarrow> session_user \<Rightarrow> session_app \<Rightarrow> int \<Rightarrow> uv_session \<Rightarrow> uv_session option" where
  "media_uv_controllee_listen_cb env user app ret st = do {
     (ret, st1) \<leftarrow> (if 0 \<le> ret
        then media_uv_session_send env user None ''register'' None 0 (Some SESSION_RECEIVE) SESSION_REGISTER_CB THIS st
        else Some (ret, st));
     (if ret < 0 then media_uv_controllee_register_cb app ret st1 else Some st1)
   }"

definition media_uv_controllee_ping_cb :: "uv_env \<Rightarrow> session_user \<Rightarrow> int \<Rightarrow> uv_session \<Rightarrow> uv_session option" where
  "media_uv_controllee_ping_cb env user ret st = do {
     _ \<leftarrow> alive st;
     (_, st1) \<leftarrow> (if ret < 0 then media_uv_reconnect env user True st
       else media_uv_listen env user True (Some SESSION_LISTEN_CB) (Some SESSION_EVENT_CB) st);
     Some st1
   }"

definition media_uv_controllee_connect_cb :: "uv_env \<Rightarrow> session_user \<Rightarrow> session_app \<Rightarrow> int \<Rightarrow> uv_session \<Rightarrow> uv_session option" where
  "media_uv_controllee_connect_cb env user app ret st = do {
     (ret, st1) \<leftarrow> (if 0 \<le> ret
        then media_uv_session_send env user None ''ping'' None 0 (Some SESSION_RECEIVE) SESSION_PING_CB THIS st
        else Some (ret, st));
     (if ret < 0 then media_uv_controllee_register_cb app ret st1 else Some st1)
   }"

definition media_uv_session_receive_cb :: "uv_env \<Rightarrow> session_user \<Rightarrow> session_app \<Rightarrow> int \<Rightarrow> int \<Rightarrow> media_parcel option
    \<Rightarrow> uv_session \<Rightarrow> uv_session option" where
  \<comment> \<open>\<open>cb(cookie1, result)\<close>: a function of the library or of the application\<close>
  "media_uv_session_receive_cb env user app cb cookie1 parcel0 st = do {
     result \<leftarrow> answer_result parcel0;
     (if cb = SESSION_OPEN_CB then media_uv_controller_open_cb env user app result st
      else if cb = SESSION_CLOSE_CB then media_uv_session_close_cb user result st
      else if cb = SESSION_REGISTER_CB then media_uv_controllee_register_cb app result st
      else if cb = SESSION_PING_CB then media_uv_controllee_ping_cb env user result st
      else call_app app (App_result cb cookie1 result No_arg) st)
   }"

text \<open>
  The callbacks of the connection; callbacks that run inside callbacks do so up to a depth, beyond which
  nothing is said.
\<close>

fun session_user :: "uv_env \<Rightarrow> (string \<Rightarrow> string option) \<Rightarrow> (session_user \<Rightarrow> session_app) \<Rightarrow> nat \<Rightarrow> session_user" where
  "session_user env dup app 0 c st = None"
| "session_user env dup app (Suc n) c st = (let user = session_user env dup app n in case c of
     On_connect ret \<Rightarrow> (case uvs_role st of
        Controller \<Rightarrow> media_uv_controller_connect_cb env user (app user) ret st
      | Controllee \<Rightarrow> media_uv_controllee_connect_cb env user (app user) ret st)
   | On_release f \<Rightarrow> media_uv_session_disconnect_cb (app user) 0 st
   | On_listen f ret \<Rightarrow> media_uv_controllee_listen_cb env user (app user) ret st
   | On_event f p \<Rightarrow> media_uv_session_event_cb (app user) p st
   | On_receive f cb cookie1 p \<Rightarrow>
       if f = SESSION_RECEIVE_METADATA then media_uv_controller_receive_metadata_cb dup (app user) cb cookie1 p st
       else media_uv_session_receive_cb env user (app user) cb cookie1 p st)"

section \<open>Controllers\<close>

definition uvs_connect :: "uv_env \<Rightarrow> bool \<Rightarrow> bytes option \<Rightarrow> uv_session \<Rightarrow> (bool \<times> uv_session) option" where
  \<comment> \<open>\<open>media_uv_connect(loop, media_get_cpuname(), cb, priv)\<close>; the block is freed when it fails\<close>
  "uvs_connect env loop cpus st = do {
     (ok, st1) \<leftarrow> media_uv_connect env loop cpus True (st\<lparr>lib_alive := True\<rparr>);
     Some (ok, st1\<lparr>lib_alive := ok\<rparr>)
   }"

definition media_uv_session_open :: "uv_env \<Rightarrow> bool \<Rightarrow> bytes option \<Rightarrow> int option \<Rightarrow> int \<Rightarrow> uv_session \<Rightarrow> (bool \<times> uv_session) option" where
  "media_uv_session_open env loop cpus on_open cookie st =
    (case next_ret st of (r, st1) \<Rightarrow>
       if r < 0 then Some (False, st1)
       else uvs_connect env loop cpus (st1\<lparr>uvs_cookie := cookie, uvs_on_open := on_open, uvs_on_close := None, uvs_on_event := None,
         uvs_data := media_metadata_init, uvs_need_query := True, uvs_role := Controller\<rparr>))"

definition uvs_end :: "uv_env \<Rightarrow> session_user \<Rightarrow> string \<Rightarrow> bool \<Rightarrow> int option \<Rightarrow> uv_session \<Rightarrow> (int \<times> uv_session) option" where
  \<comment> \<open>the common body of closing and unregistering\<close>
  "uvs_end env user cmd handle on_close st =
    (if \<not> handle then Some (-EINVAL, st)
     else do {
       _ \<leftarrow> alive st;
       (ret, st1) \<leftarrow> media_uv_session_send env user None cmd None 0 (Some SESSION_RECEIVE) SESSION_CLOSE_CB THIS (st\<lparr>uvs_on_close := on_close\<rparr>);
       st2 \<leftarrow> (if ret < 0 then media_uv_session_close_cb user ret st1 else Some st1);
       Some (ret, st2)
     })"

definition media_uv_session_close :: "uv_env \<Rightarrow> session_user \<Rightarrow> bool \<Rightarrow> int option \<Rightarrow> uv_session \<Rightarrow> (int \<times> uv_session) option" where
  "media_uv_session_close env user = uvs_end env user ''close''"

definition media_uv_session_listen :: "uv_env \<Rightarrow> session_user \<Rightarrow> bool \<Rightarrow> int option \<Rightarrow> uv_session \<Rightarrow> (int \<times> uv_session) option" where
  "media_uv_session_listen env user handle on_event st =
    (if \<not> handle then Some (-EINVAL, st)
     else do {
       _ \<leftarrow> alive st;
       (ret, st1) \<leftarrow> media_uv_session_send env user None ''set_event'' None 0 None 0 0 (st\<lparr>uvs_on_event := on_event\<rparr>);
       (if ret < 0 then Some (ret, st1) else media_uv_listen env user True None (Some SESSION_EVENT_CB) st1)
     })"

definition uvs_control :: "uv_env \<Rightarrow> session_user \<Rightarrow> bool \<Rightarrow> bytes option \<Rightarrow> string \<Rightarrow> bytes option \<Rightarrow> int \<Rightarrow> int \<Rightarrow> uv_session
    \<Rightarrow> (int \<times> uv_session) option" where
  \<comment> \<open>the body of the functions that only send a command\<close>
  "uvs_control env user handle target cmd arg cb cookie st =
    (if \<not> handle then Some (-EINVAL, st)
     else media_uv_session_send env user target cmd arg 0 (Some SESSION_RECEIVE) cb cookie st)"

definition media_uv_session_start :: "uv_env \<Rightarrow> session_user \<Rightarrow> bool \<Rightarrow> int \<Rightarrow> int \<Rightarrow> uv_session \<Rightarrow> (int \<times> uv_session) option" where
  "media_uv_session_start env user handle = uvs_control env user handle None ''start'' None"

definition media_uv_session_pause :: "uv_env \<Rightarrow> session_user \<Rightarrow> bool \<Rightarrow> int \<Rightarrow> int \<Rightarrow> uv_session \<Rightarrow> (int \<times> uv_session) option" where
  "media_uv_session_pause env user handle = uvs_control env user handle None ''pause'' None"

definition media_uv_session_seek :: "uv_env \<Rightarrow> session_user \<Rightarrow> bool \<Rightarrow> 32 word \<Rightarrow> int \<Rightarrow> int \<Rightarrow> uv_session \<Rightarrow> (int \<times> uv_session) option" where
  "media_uv_session_seek env user handle msec = uvs_control env user handle None ''seek'' (Some (c_bytes (nat_digits (unat msec))))"

definition media_uv_session_stop :: "uv_env \<Rightarrow> session_user \<Rightarrow> bool \<Rightarrow> int \<Rightarrow> int \<Rightarrow> uv_session \<Rightarrow> (int \<times> uv_session) option" where
  "media_uv_session_stop env user handle = uvs_control env user handle None ''stop'' None"

definition media_uv_session_query :: "uv_env \<Rightarrow> session_user \<Rightarrow> session_app \<Rightarrow> bool \<Rightarrow> int \<Rightarrow> int \<Rightarrow> uv_session
    \<Rightarrow> (int \<times> uv_session) option" where
  \<comment> \<open>without a query the callback gets the cookie of the handle, not its own\<close>
  "media_uv_session_query env user app handle on_query cookie st =
    (if \<not> handle \<or> on_query = 0 then Some (-EINVAL, st)
     else do {
       _ \<leftarrow> alive st;
       (if \<not> uvs_need_query st then do {
          st1 \<leftarrow> call_app app (App_result on_query (uvs_cookie st) 0 (Data_arg (Some (uvs_data st)))) st;
          Some (0, st1)
        }
        else do {
          (ret, st1) \<leftarrow> media_uv_session_send env user None ''query'' None 256 (Some SESSION_RECEIVE_METADATA) on_query cookie st;
          Some (ret, if 0 \<le> ret \<and> uvs_on_event st1 \<noteq> None then st1\<lparr>uvs_need_query := False\<rparr> else st1)
        })
     })"

definition media_uv_session_get_state :: "bool \<Rightarrow> int \<Rightarrow> int \<Rightarrow> int" where
  "media_uv_session_get_state handle on_state cookie = -ENOSYS"

definition media_uv_session_get_position :: "bool \<Rightarrow> int \<Rightarrow> int \<Rightarrow> int" where
  "media_uv_session_get_position handle on_position cookie = -ENOSYS"

definition media_uv_session_get_duration :: "bool \<Rightarrow> int \<Rightarrow> int \<Rightarrow> int" where
  "media_uv_session_get_duration handle on_duration cookie = -ENOSYS"

definition media_uv_session_get_volume :: "bool \<Rightarrow> int \<Rightarrow> int \<Rightarrow> int" where
  "media_uv_session_get_volume handle on_volume cookie = -ENOSYS"

definition media_uv_session_set_volume :: "bool \<Rightarrow> int \<Rightarrow> int \<Rightarrow> int \<Rightarrow> int" where
  "media_uv_session_set_volume handle volume on_volume cookie = -ENOSYS"

definition media_uv_session_increase_volume :: "uv_env \<Rightarrow> session_user \<Rightarrow> bool \<Rightarrow> int \<Rightarrow> int \<Rightarrow> uv_session \<Rightarrow> (int \<times> uv_session) option" where
  "media_uv_session_increase_volume env user handle = uvs_control env user handle None ''volumeup'' None"

definition media_uv_session_decrease_volume :: "uv_env \<Rightarrow> session_user \<Rightarrow> bool \<Rightarrow> int \<Rightarrow> int \<Rightarrow> uv_session \<Rightarrow> (int \<times> uv_session) option" where
  "media_uv_session_decrease_volume env user handle = uvs_control env user handle None ''volumedown'' None"

definition media_uv_session_next_song :: "uv_env \<Rightarrow> session_user \<Rightarrow> bool \<Rightarrow> int \<Rightarrow> int \<Rightarrow> uv_session \<Rightarrow> (int \<times> uv_session) option" where
  "media_uv_session_next_song env user handle = uvs_control env user handle None ''next'' None"

definition media_uv_session_prev_song :: "uv_env \<Rightarrow> session_user \<Rightarrow> bool \<Rightarrow> int \<Rightarrow> int \<Rightarrow> uv_session \<Rightarrow> (int \<times> uv_session) option" where
  "media_uv_session_prev_song env user handle = uvs_control env user handle None ''prev'' None"

section \<open>Controllees\<close>

definition media_uv_session_register :: "uv_env \<Rightarrow> bool \<Rightarrow> bytes option \<Rightarrow> int option \<Rightarrow> int \<Rightarrow> uv_session \<Rightarrow> (bool \<times> uv_session) option" where
  "media_uv_session_register env loop cpus on_event cookie st =
    (if on_event = None then Some (False, st)
     else case next_ret st of (r, st1) \<Rightarrow>
       if r < 0 then Some (False, st1)
       else uvs_connect env loop cpus (st1\<lparr>uvs_cookie := cookie, uvs_on_open := None, uvs_on_close := None, uvs_on_event := on_event,
         uvs_data := media_metadata_init, uvs_need_query := False, uvs_role := Controllee\<rparr>))"

definition media_uv_session_unregister :: "uv_env \<Rightarrow> session_user \<Rightarrow> bool \<Rightarrow> int option \<Rightarrow> uv_session \<Rightarrow> (int \<times> uv_session) option" where
  "media_uv_session_unregister env user = uvs_end env user ''unregister''"

definition media_uv_session_notify :: "uv_env \<Rightarrow> session_user \<Rightarrow> bool \<Rightarrow> int \<Rightarrow> int \<Rightarrow> bytes option \<Rightarrow> int \<Rightarrow> int \<Rightarrow> uv_session
    \<Rightarrow> (int \<times> uv_session) option" where
  "media_uv_session_notify env user handle event result extra =
     uvs_control env user handle extra ''event'' (Some (c_bytes (int_digits event @ CHR '':'' # int_digits result)))"

definition media_uv_session_update :: "uv_env \<Rightarrow> session_user \<Rightarrow> string \<Rightarrow> bool \<Rightarrow> media_metadata option \<Rightarrow> int \<Rightarrow> int \<Rightarrow> uv_session
    \<Rightarrow> (int \<times> uv_session) option" where
  \<comment> \<open>\<open>null\<close> is what \<open>%s\<close> prints for NULL\<close>
  "media_uv_session_update env user null handle d cb cookie st = (case d of
     None \<Rightarrow> Some (-EINVAL, st)
   | Some d \<Rightarrow>
       if \<not> handle then Some (-EINVAL, st)
       else do {
         (_, buf) \<leftarrow> media_metadata_serialize null d (Some (replicate 256 NUL)) 256;
         str \<leftarrow> c_str (map_option c_bytes buf);
         media_uv_session_send env user None ''update'' str 0 (Some SESSION_RECEIVE) cb cookie st
       })"

end
