(* ===== verification/Uv_Focus.thy ===== *)
theory Uv_Focus
  imports Uv_Client
begin

text \<open>
  The asynchronous focus library, \<open>client/media_uv_focus.c\<close>: a request is made in steps, each from the
  callback of the one before - connect, ping, listen, request - and given back by an abandon.
\<close>

section \<open>State\<close>

record uv_focus = uv_library +
  uvf_proxy :: bool
  uvf_name :: bytes
  uvf_on_suggest :: int
  uvf_on_abandon :: "int option"
  uvf_cookie :: int

type_synonym focus_user = "uv_call \<Rightarrow> uv_focus \<Rightarrow> uv_focus option"
type_synonym focus_app = "app_call \<Rightarrow> uv_focus \<Rightarrow> uv_focus option"

definition FOCUS_RECEIVE :: int where "FOCUS_RECEIVE = -1"
definition FOCUS_PING_CB :: int where "FOCUS_PING_CB = -2"
definition FOCUS_REQUEST_CB :: int where "FOCUS_REQUEST_CB = -3"
definition FOCUS_ABANDON_CB :: int where "FOCUS_ABANDON_CB = -4"
definition FOCUS_LISTEN_CB :: int where "FOCUS_LISTEN_CB = -5"
definition FOCUS_EVENT_CB :: int where "FOCUS_EVENT_CB = -6"
definition FOCUS_RELEASE_CB :: int where "FOCUS_RELEASE_CB = -7"

lemmas focus_cbs = FOCUS_RECEIVE_def FOCUS_PING_CB_def FOCUS_REQUEST_CB_def FOCUS_ABANDON_CB_def FOCUS_LISTEN_CB_def
  FOCUS_EVENT_CB_def FOCUS_RELEASE_CB_def

definition suggest_stop :: int where
  \<comment> \<open>\<open>MEDIA_FOCUS_STOP\<close>\<close>
  "suggest_stop = 1"

text \<open>\<open>uvf_proxy\<close> is whether \<open>media_uv_connect\<close> returned a connection.\<close>

section \<open>Private functions\<close>

definition focus_suggests :: "focus_app \<Rightarrow> int \<Rightarrow> uv_focus \<Rightarrow> uv_focus option" where
  \<comment> \<open>\<open>priv->on_suggest(suggest, priv->cookie)\<close>\<close>
  "focus_suggests app suggest st = do {
     _ \<leftarrow> alive st;
     call_app app (App_suggestion (uvf_on_suggest st) suggest (uvf_cookie st)) st
   }"

definition media_uv_focus_send :: "uv_env \<Rightarrow> focus_user \<Rightarrow> bytes option \<Rightarrow> string \<Rightarrow> int \<Rightarrow> uv_focus \<Rightarrow> (int \<times> uv_focus) option" where
  \<comment> \<open>the cookie of the callback is the library's block\<close>
  "media_uv_focus_send env user target cmd cb st = do {
     _ \<leftarrow> alive st;
     uv_command env user (uvf_proxy st) ''%i%s%s%i'' [VInt32 MEDIA_ID_FOCUS, VString target, VString (Some (c_bytes cmd)), VInt32 0]
       (if cb = 0 then None else Some FOCUS_RECEIVE) cb 1 st
   }"

definition media_uv_focus_event_cb :: "focus_app \<Rightarrow> media_parcel option \<Rightarrow> uv_focus \<Rightarrow> uv_focus option" where
  "media_uv_focus_event_cb app parcel0 st = do { suggest \<leftarrow> answer_int32 suggest_stop parcel0; focus_suggests app suggest st }"

definition media_uv_focus_connect_cb :: "uv_env \<Rightarrow> focus_user \<Rightarrow> focus_app \<Rightarrow> int \<Rightarrow> uv_focus \<Rightarrow> uv_focus option" where
  "media_uv_focus_connect_cb env user app ret st =
    (if ret < 0 then focus_suggests app ret st
     else do { (_, st1) \<leftarrow> media_uv_focus_send env user None ''ping'' FOCUS_PING_CB st; Some st1 })"

definition media_uv_focus_ping_cb :: "uv_env \<Rightarrow> focus_user \<Rightarrow> int \<Rightarrow> uv_focus \<Rightarrow> uv_focus option" where
  "media_uv_focus_ping_cb env user ret st = do {
     _ \<leftarrow> alive st;
     (_, st1) \<leftarrow> (if ret < 0 then media_uv_reconnect env user (uvf_proxy st) st
       else media_uv_listen env user (uvf_proxy st) (Some FOCUS_LISTEN_CB) (Some FOCUS_EVENT_CB) st);
     Some st1
   }"

definition media_uv_focus_listen_cb :: "uv_env \<Rightarrow> focus_user \<Rightarrow> focus_app \<Rightarrow> int \<Rightarrow> uv_focus \<Rightarrow> uv_focus option" where
  "media_uv_focus_listen_cb env user app ret st =
    (if ret < 0 then focus_suggests app ret st
     else do { (_, st1) \<leftarrow> media_uv_focus_send env user (Some (uvf_name st)) ''request'' FOCUS_REQUEST_CB st; Some st1 })"

definition media_uv_focus_request_cb :: "focus_app \<Rightarrow> int \<Rightarrow> uv_focus \<Rightarrow> uv_focus option" where
  "media_uv_focus_request_cb app ret st = focus_suggests app ret st"

definition media_uv_focus_abandon_cb :: "focus_user \<Rightarrow> int \<Rightarrow> uv_focus \<Rightarrow> uv_focus option" where
  "media_uv_focus_abandon_cb user ret st = do {
     _ \<leftarrow> alive st;
     (_, st1) \<leftarrow> media_uv_disconnect user (uvf_proxy st) (Some FOCUS_RELEASE_CB) st;
     Some st1
   }"

definition media_uv_focus_release_cb :: "focus_app \<Rightarrow> int \<Rightarrow> uv_focus \<Rightarrow> uv_focus option" where
  "media_uv_focus_release_cb app ret st = do {
     _ \<leftarrow> alive st;
     st1 \<leftarrow> call_optional app (uvf_on_abandon st) (uvf_cookie st) ret st;
     Some (st1\<lparr>lib_alive := False\<rparr>)
   }"

definition media_uv_focus_receive_cb :: "uv_env \<Rightarrow> focus_user \<Rightarrow> focus_app \<Rightarrow> int \<Rightarrow> media_parcel option \<Rightarrow> uv_focus
    \<Rightarrow> uv_focus option" where
  "media_uv_focus_receive_cb env user app cb parcel0 st = do {
     result \<leftarrow> answer_int32 (-ECANCELED) parcel0;
     (if cb = FOCUS_PING_CB then media_uv_focus_ping_cb env user result st
      else if cb = FOCUS_REQUEST_CB then media_uv_focus_request_cb app result st
      else if cb = FOCUS_ABANDON_CB then media_uv_focus_abandon_cb user result st
      else None)
   }"

fun focus_user :: "uv_env \<Rightarrow> (focus_user \<Rightarrow> focus_app) \<Rightarrow> nat \<Rightarrow> focus_user" where
  "focus_user env app 0 c st = None"
| "focus_user env app (Suc n) c st = (let user = focus_user env app n in case c of
     On_connect ret \<Rightarrow> media_uv_focus_connect_cb env user (app user) ret st
   | On_release f \<Rightarrow> media_uv_focus_release_cb (app user) 0 st
   | On_listen f ret \<Rightarrow> media_uv_focus_listen_cb env user (app user) ret st
   | On_event f p \<Rightarrow> media_uv_focus_event_cb (app user) (Some p) st
   | On_receive f cb cookie1 p \<Rightarrow> media_uv_focus_receive_cb env user (app user) cb p st)"

section \<open>The interface\<close>

definition media_uv_focus_request :: "uv_env \<Rightarrow> focus_app \<Rightarrow> bool \<Rightarrow> bytes option \<Rightarrow> bytes option \<Rightarrow> int \<Rightarrow> int \<Rightarrow> uv_focus
    \<Rightarrow> (bool \<times> uv_focus) option" where
  \<comment> \<open>the result of \<open>media_uv_connect\<close> is not looked at, the cookie is\<close>
  "media_uv_focus_request env app loop cpus name on_suggest cookie st =
    (if name = None \<or> name = Some [] \<or> on_suggest = 0 then Some (False, st)
     else case next_ret st of (r, st1) \<Rightarrow>
       if r < 0 then Some (False, st1)
       else do {
         (ok, st2) \<leftarrow> media_uv_connect env loop cpus True (st1\<lparr>uvf_name := the name, uvf_on_suggest := on_suggest,
           uvf_on_abandon := None, uvf_cookie := cookie, lib_alive := True\<rparr>);
         let st3 = st2\<lparr>uvf_proxy := ok\<rparr>;
         (if cookie = 0 then do { st4 \<leftarrow> media_uv_focus_release_cb app 0 st3; Some (False, st4) }
          else Some (True, st3))
       })"

definition media_uv_focus_abandon :: "uv_env \<Rightarrow> focus_user \<Rightarrow> bool \<Rightarrow> int option \<Rightarrow> uv_focus \<Rightarrow> (int \<times> uv_focus) option" where
  "media_uv_focus_abandon env user handle on_abandon st =
    (if \<not> handle then Some (-EINVAL, st)
     else do {
       _ \<leftarrow> alive st;
       media_uv_focus_send env user None ''abandon'' FOCUS_ABANDON_CB (st\<lparr>uvf_on_abandon := on_abandon\<rparr>)
     })"

end
