(* ===== verification/Uv_Policy.thy ===== *)
theory Uv_Policy
  imports Uv_Client Media_Player
begin

text \<open>
  The asynchronous policy library, \<open>client/media_uv_policy.c\<close>: every call makes a connection of its own,
  sends its one request from the connect callback, and disconnects when the answer is in.
\<close>

section \<open>State\<close>

record uv_policy = uv_library +
  uvp_parcel :: media_parcel
  uvp_parser :: int
  uvp_cb :: int
  uvp_cookie :: int

type_synonym policy_user = "uv_call \<Rightarrow> uv_policy \<Rightarrow> uv_policy option"
type_synonym policy_app = "app_call \<Rightarrow> uv_policy \<Rightarrow> uv_policy option"

definition POLICY_RECEIVE_DEFAULT :: int where "POLICY_RECEIVE_DEFAULT = -1"
definition POLICY_RECEIVE :: int where "POLICY_RECEIVE = -2"
definition POLICY_RECEIVE_INT :: int where "POLICY_RECEIVE_INT = -3"
definition POLICY_RECEIVE_STRING :: int where "POLICY_RECEIVE_STRING = -4"
definition POLICY_RELEASE_CB :: int where "POLICY_RELEASE_CB = -5"

lemmas policy_cbs = POLICY_RECEIVE_DEFAULT_def POLICY_RECEIVE_def POLICY_RECEIVE_INT_def POLICY_RECEIVE_STRING_def
  POLICY_RELEASE_CB_def

section \<open>Private functions\<close>

definition media_uv_policy_free :: "uv_policy \<Rightarrow> uv_policy" where
  "media_uv_policy_free st = st\<lparr>lib_alive := False\<rparr>"

definition media_uv_policy_alloc :: "uv_env \<Rightarrow> bytes option \<Rightarrow> string \<Rightarrow> bytes option \<Rightarrow> 32 word \<Rightarrow> 32 word \<Rightarrow> int \<Rightarrow> int \<Rightarrow> int
    \<Rightarrow> uv_policy \<Rightarrow> (bool \<times> uv_policy) option" where
  \<comment> \<open>without a callback the block itself is the callback's cookie, 1\<close>
  "media_uv_policy_alloc env name cmd v apply_it len parser cb cookie st =
    (case next_ret st of (r, st1) \<Rightarrow>
       if r < 0 then Some (False, st1)
       else do {
         p \<leftarrow> media_parcel_init zero_parcel;
         (ret, p1) \<leftarrow> media_parcel_append_printf (ue_alloc env) (ue_narrow env) p ''%i%s%s%s%i%i''
           [VInt32 MEDIA_ID_POLICY, VString name, VString (Some (c_bytes cmd)), VString v, VInt32 apply_it, VInt32 len];
         Some (if ret < 0 then (False, media_uv_policy_free st1)
           else (True, st1\<lparr>lib_alive := True, uvp_parcel := p1, uvp_parser := (if cb = 0 then POLICY_RECEIVE_DEFAULT else parser),
             uvp_cb := (if cb = 0 then 1 else cb), uvp_cookie := cookie\<rparr>))
       })"

definition media_uv_policy_release_cb :: "int \<Rightarrow> uv_policy \<Rightarrow> uv_policy option" where
  "media_uv_policy_release_cb ret st = do { _ \<leftarrow> alive st; Some (media_uv_policy_free st) }"

definition media_uv_policy_connect_cb :: "uv_env \<Rightarrow> policy_user \<Rightarrow> int \<Rightarrow> uv_policy \<Rightarrow> uv_policy option" where
  "media_uv_policy_connect_cb env user ret st = do {
     _ \<leftarrow> alive st;
     st1 \<leftarrow> (if ret = -ENOENT then do { (_, st1) \<leftarrow> media_uv_disconnect user True (Some POLICY_RELEASE_CB) st; Some st1 } else Some st);
     _ \<leftarrow> alive st1;
     (ret, st2) \<leftarrow> (if 0 \<le> ret
        then media_uv_send env user True (Some (uvp_parser st1)) (uvp_cb st1) (uvp_cookie st1) (Some (uvp_parcel st1)) st1
        else Some (ret, st1));
     (if ret < 0 then do { _ \<leftarrow> alive st2; (_, st3) \<leftarrow> media_uv_reconnect env user True st2; Some st3 } else Some st2)
   }"

definition policy_done :: "policy_user \<Rightarrow> uv_policy \<Rightarrow> uv_policy option" where
  \<comment> \<open>the end of the receive callbacks\<close>
  "policy_done user st = do {
     _ \<leftarrow> alive st;
     (_, st1) \<leftarrow> media_uv_disconnect user True (Some POLICY_RELEASE_CB) st;
     Some st1
   }"

definition media_uv_policy_receive_default_cb :: "policy_user \<Rightarrow> uv_policy \<Rightarrow> uv_policy option" where
  "media_uv_policy_receive_default_cb user st = policy_done user st"

definition media_uv_policy_receive_cb :: "policy_user \<Rightarrow> policy_app \<Rightarrow> int \<Rightarrow> int \<Rightarrow> media_parcel option \<Rightarrow> uv_policy \<Rightarrow> uv_policy option" where
  "media_uv_policy_receive_cb user app cb cookie1 parcel0 st = do {
     st1 \<leftarrow> (if cb = 0 then Some st else do {
        result \<leftarrow> answer_result parcel0;
        call_app app (App_result cb cookie1 result No_arg) st
      });
     policy_done user st1
   }"

text \<open>\<open>strtol\<close> with base 0, saturating at the 32 bits of a \<open>long\<close>.\<close>

definition strtol0 :: "string \<Rightarrow> int" where
  "strtol0 str =
    (let s1 = dropWhile isspace str;
         neg = (take 1 s1 = ''-'');
         s2 = (if take 1 s1 = ''-'' \<or> take 1 s1 = ''+'' then tl s1 else s1);
         v = int (if (take 2 s2 = ''0x'' \<or> take 2 s2 = ''0X'') \<and> digit_value (hd (drop 2 s2 @ '' '')) < 16 then based_value 16 (drop 2 s2)
              else if take 1 s2 = ''0'' then based_value 8 s2 else based_value 10 s2) in
     if neg then max (-2147483648) (- v) else min 2147483647 v)"

definition media_uv_policy_receive_int_cb :: "policy_user \<Rightarrow> policy_app \<Rightarrow> int \<Rightarrow> int \<Rightarrow> media_parcel option \<Rightarrow> uv_policy
    \<Rightarrow> uv_policy option" where
  "media_uv_policy_receive_int_cb user app cb cookie1 parcel0 st = do {
     st1 \<leftarrow> (if cb = 0 then Some st else do {
        (result, response) \<leftarrow> answer_text parcel0;
        let v = (case response of None \<Rightarrow> 0 | Some b \<Rightarrow> strtol0 (b_str b));
        call_app app (App_result cb cookie1 result (Int_arg v)) st
      });
     policy_done user st1
   }"

definition media_uv_policy_receive_string_cb :: "policy_user \<Rightarrow> policy_app \<Rightarrow> int \<Rightarrow> int \<Rightarrow> media_parcel option \<Rightarrow> uv_policy
    \<Rightarrow> uv_policy option" where
  "media_uv_policy_receive_string_cb user app cb cookie1 parcel0 st = do {
     st1 \<leftarrow> (if cb = 0 then Some st else do {
        (result, response) \<leftarrow> answer_text parcel0;
        call_app app (App_result cb cookie1 result (Text_arg response)) st
      });
     policy_done user st1
   }"

fun policy_user :: "uv_env \<Rightarrow> (policy_user \<Rightarrow> policy_app) \<Rightarrow> nat \<Rightarrow> policy_user" where
  "policy_user env app 0 c st = None"
| "policy_user env app (Suc n) c st = (let user = policy_user env app n in case c of
     On_connect ret \<Rightarrow> media_uv_policy_connect_cb env user ret st
   | On_release f \<Rightarrow> media_uv_policy_release_cb 0 st
   | On_receive f cb cookie1 p \<Rightarrow>
       if f = POLICY_RECEIVE_DEFAULT then media_uv_policy_receive_default_cb user st
       else if f = POLICY_RECEIVE then media_uv_policy_receive_cb user (app user) cb cookie1 p st
       else if f = POLICY_RECEIVE_INT then media_uv_policy_receive_int_cb user (app user) cb cookie1 p st
       else media_uv_policy_receive_string_cb user (app user) cb cookie1 p st
   | _ \<Rightarrow> None)"

section \<open>The interface\<close>

definition uvp_call :: "uv_env \<Rightarrow> bool \<Rightarrow> bytes option \<Rightarrow> bytes option \<Rightarrow> string \<Rightarrow> bytes option \<Rightarrow> 32 word \<Rightarrow> 32 word \<Rightarrow> int
    \<Rightarrow> int \<Rightarrow> int \<Rightarrow> uv_policy \<Rightarrow> (int \<times> uv_policy) option" where
  \<comment> \<open>the body of the basic functions\<close>
  "uvp_call env loop cpus name cmd v apply_it len parser cb cookie st = do {
     (priv, st1) \<leftarrow> media_uv_policy_alloc env name cmd v apply_it len parser cb cookie st;
     (if \<not> priv then Some (-ENOMEM, st1)
      else do {
        (ok, st2) \<leftarrow> media_uv_connect env loop cpus True st1;
        Some (if \<not> ok then (-ENOMEM, media_uv_policy_free st2) else (0, st2))
      })
   }"

type_synonym policy_call = "int \<Rightarrow> int \<Rightarrow> uv_policy \<Rightarrow> (int \<times> uv_policy) option"

definition media_uv_policy_set_string :: "uv_env \<Rightarrow> bool \<Rightarrow> bytes option \<Rightarrow> bytes option \<Rightarrow> bytes option \<Rightarrow> 32 word \<Rightarrow> policy_call" where
  "media_uv_policy_set_string env loop cpus name v apply_it = uvp_call env loop cpus name ''set_string'' v apply_it 0 POLICY_RECEIVE"

definition media_uv_policy_get_string :: "uv_env \<Rightarrow> bool \<Rightarrow> bytes option \<Rightarrow> bytes option \<Rightarrow> policy_call" where
  "media_uv_policy_get_string env loop cpus name = uvp_call env loop cpus name ''get_string'' None 0 128 POLICY_RECEIVE_STRING"

definition media_uv_policy_set_int :: "uv_env \<Rightarrow> bool \<Rightarrow> bytes option \<Rightarrow> bytes option \<Rightarrow> int \<Rightarrow> 32 word \<Rightarrow> policy_call" where
  "media_uv_policy_set_int env loop cpus name v apply_it =
     uvp_call env loop cpus name ''set_int'' (Some (c_bytes (int_digits v))) apply_it 0 POLICY_RECEIVE"

definition media_uv_policy_get_int :: "uv_env \<Rightarrow> bool \<Rightarrow> bytes option \<Rightarrow> bytes option \<Rightarrow> policy_call" where
  "media_uv_policy_get_int env loop cpus name = uvp_call env loop cpus name ''get_int'' None 0 128 POLICY_RECEIVE_INT"

definition media_uv_policy_increase :: "uv_env \<Rightarrow> bool \<Rightarrow> bytes option \<Rightarrow> bytes option \<Rightarrow> 32 word \<Rightarrow> policy_call" where
  "media_uv_policy_increase env loop cpus name apply_it = uvp_call env loop cpus name ''increase'' None apply_it 0 POLICY_RECEIVE"

definition media_uv_policy_decrease :: "uv_env \<Rightarrow> bool \<Rightarrow> bytes option \<Rightarrow> bytes option \<Rightarrow> 32 word \<Rightarrow> policy_call" where
  "media_uv_policy_decrease env loop cpus name apply_it = uvp_call env loop cpus name ''decrease'' None apply_it 0 POLICY_RECEIVE"

definition media_uv_policy_include :: "uv_env \<Rightarrow> bool \<Rightarrow> bytes option \<Rightarrow> bytes option \<Rightarrow> bytes option \<Rightarrow> 32 word \<Rightarrow> policy_call" where
  "media_uv_policy_include env loop cpus name v apply_it = uvp_call env loop cpus name ''include'' v apply_it 0 POLICY_RECEIVE"

definition media_uv_policy_exclude :: "uv_env \<Rightarrow> bool \<Rightarrow> bytes option \<Rightarrow> bytes option \<Rightarrow> bytes option \<Rightarrow> 32 word \<Rightarrow> policy_call" where
  "media_uv_policy_exclude env loop cpus name v apply_it = uvp_call env loop cpus name ''exclude'' v apply_it 0 POLICY_RECEIVE"

definition media_uv_policy_contain :: "uv_env \<Rightarrow> bool \<Rightarrow> bytes option \<Rightarrow> bytes option \<Rightarrow> bytes option \<Rightarrow> policy_call" where
  "media_uv_policy_contain env loop cpus name v = uvp_call env loop cpus name ''contain'' v 0 128 POLICY_RECEIVE_INT"

definition uvp_stream :: "client_env \<Rightarrow> bytes option \<Rightarrow> (bytes option \<Rightarrow> policy_call) \<Rightarrow> policy_call" where
  \<comment> \<open>the criterion of a stream's volume\<close>
  "uvp_stream cenv strm call cb cookie st = (case stream_criterion cenv strm of
     None \<Rightarrow> Some (-ENAMETOOLONG, st)
   | Some name \<Rightarrow> call (Some name) cb cookie st)"

definition media_uv_policy_set_stream_volume :: "uv_env \<Rightarrow> client_env \<Rightarrow> bool \<Rightarrow> bytes option \<Rightarrow> bytes option \<Rightarrow> int \<Rightarrow> policy_call" where
  "media_uv_policy_set_stream_volume env cenv loop cpus strm volume =
     uvp_stream cenv strm (\<lambda>name. media_uv_policy_set_int env loop cpus name volume MEDIA_POLICY_APPLY)"

definition media_uv_policy_get_stream_volume :: "uv_env \<Rightarrow> client_env \<Rightarrow> bool \<Rightarrow> bytes option \<Rightarrow> bytes option \<Rightarrow> policy_call" where
  "media_uv_policy_get_stream_volume env cenv loop cpus strm = uvp_stream cenv strm (media_uv_policy_get_int env loop cpus)"

definition media_uv_policy_increase_stream_volume :: "uv_env \<Rightarrow> client_env \<Rightarrow> bool \<Rightarrow> bytes option \<Rightarrow> bytes option \<Rightarrow> policy_call" where
  "media_uv_policy_increase_stream_volume env cenv loop cpus strm =
     uvp_stream cenv strm (\<lambda>name. media_uv_policy_increase env loop cpus name MEDIA_POLICY_APPLY)"

definition media_uv_policy_decrease_stream_volume :: "uv_env \<Rightarrow> client_env \<Rightarrow> bool \<Rightarrow> bytes option \<Rightarrow> bytes option \<Rightarrow> policy_call" where
  "media_uv_policy_decrease_stream_volume env cenv loop cpus strm =
     uvp_stream cenv strm (\<lambda>name. media_uv_policy_decrease env loop cpus name MEDIA_POLICY_APPLY)"

definition media_uv_policy_set_audio_mode :: "uv_env \<Rightarrow> bool \<Rightarrow> bytes option \<Rightarrow> bytes option \<Rightarrow> policy_call" where
  "media_uv_policy_set_audio_mode env loop cpus mode = media_uv_policy_set_string env loop cpus MEDIA_POLICY_AUDIO_MODE mode MEDIA_POLICY_APPLY"

definition media_uv_policy_get_audio_mode :: "uv_env \<Rightarrow> bool \<Rightarrow> bytes option \<Rightarrow> policy_call" where
  "media_uv_policy_get_audio_mode env loop cpus = media_uv_policy_get_string env loop cpus MEDIA_POLICY_AUDIO_MODE"

definition uvp_devices :: "uv_env \<Rightarrow> bool \<Rightarrow> bytes option \<Rightarrow> bytes option \<Rightarrow> bytes option \<Rightarrow> bool \<Rightarrow> policy_call" where
  "uvp_devices env loop cpus name devices wanted = (if wanted then media_uv_policy_include env loop cpus name devices MEDIA_POLICY_APPLY
     else media_uv_policy_exclude env loop cpus name devices MEDIA_POLICY_APPLY)"

definition media_uv_policy_set_devices_use :: "uv_env \<Rightarrow> bool \<Rightarrow> bytes option \<Rightarrow> bytes option \<Rightarrow> bool \<Rightarrow> policy_call" where
  "media_uv_policy_set_devices_use env loop cpus = uvp_devices env loop cpus MEDIA_POLICY_DEVICE_USE"

definition media_uv_policy_get_devices_use :: "uv_env \<Rightarrow> bool \<Rightarrow> bytes option \<Rightarrow> policy_call" where
  "media_uv_policy_get_devices_use env loop cpus = media_uv_policy_get_string env loop cpus MEDIA_POLICY_DEVICE_USE"

definition media_uv_policy_is_devices_use :: "uv_env \<Rightarrow> bool \<Rightarrow> bytes option \<Rightarrow> bytes option \<Rightarrow> policy_call" where
  "media_uv_policy_is_devices_use env loop cpus devices = media_uv_policy_contain env loop cpus MEDIA_POLICY_DEVICE_USE devices"

definition media_uv_policy_set_hfp_samplerate :: "uv_env \<Rightarrow> bool \<Rightarrow> bytes option \<Rightarrow> int \<Rightarrow> policy_call" where
  "media_uv_policy_set_hfp_samplerate env loop cpus rate = media_uv_policy_set_int env loop cpus MEDIA_POLICY_HFP_SAMPLERATE rate MEDIA_POLICY_NOT_APPLY"

definition media_uv_policy_set_devices_available :: "uv_env \<Rightarrow> bool \<Rightarrow> bytes option \<Rightarrow> bytes option \<Rightarrow> bool \<Rightarrow> policy_call" where
  "media_uv_policy_set_devices_available env loop cpus = uvp_devices env loop cpus MEDIA_POLICY_DEVICE_AVAILABLE"

definition media_uv_policy_get_devices_available :: "uv_env \<Rightarrow> bool \<Rightarrow> bytes option \<Rightarrow> policy_call" where
  "media_uv_policy_get_devices_available env loop cpus = media_uv_policy_get_string env loop cpus MEDIA_POLICY_DEVICE_AVAILABLE"

definition media_uv_policy_is_devices_available :: "uv_env \<Rightarrow> bool \<Rightarrow> bytes option \<Rightarrow> bytes option \<Rightarrow> policy_call" where
  "media_uv_policy_is_devices_available env loop cpus devices = media_uv_policy_contain env loop cpus MEDIA_POLICY_DEVICE_AVAILABLE devices"

definition media_uv_policy_set_mute_mode :: "uv_env \<Rightarrow> bool \<Rightarrow> bytes option \<Rightarrow> int \<Rightarrow> policy_call" where
  "media_uv_policy_set_mute_mode env loop cpus mute = media_uv_policy_set_int env loop cpus MEDIA_POLICY_MUTE_MODE mute MEDIA_POLICY_APPLY"

definition media_uv_policy_get_mute_mode :: "uv_env \<Rightarrow> bool \<Rightarrow> bytes option \<Rightarrow> policy_call" where
  "media_uv_policy_get_mute_mode env loop cpus = media_uv_policy_get_int env loop cpus MEDIA_POLICY_MUTE_MODE"

definition media_uv_policy_set_mic_mute :: "uv_env \<Rightarrow> bool \<Rightarrow> bytes option \<Rightarrow> int \<Rightarrow> policy_call" where
  "media_uv_policy_set_mic_mute env loop cpus mute = media_uv_policy_set_string env loop cpus MEDIA_POLICY_MIC_MODE
     (Some (c_bytes (if mute \<noteq> 0 then ''off'' else ''on''))) MEDIA_POLICY_APPLY"

end
