(* ===== verification/Uv_Stream.thy ===== *)
theory Uv_Stream
  imports Uv_Policy Media_Focus
begin

text \<open>
  The asynchronous library of players and recorders, \<open>client/media_uv_graph.c\<close>: the life of a stream over
  its connection, automatic focus, the answers it gets, gathering the metadata of a player from several
  queries, and the callbacks of a picture. The listeners of buffer mode and the public functions are in
  \<open>Uv_Player\<close>.

  The stream's connection is that of \<open>Media_Uv\<close>. A focus handle and a policy query have connections of
  their own: the calls that make and end them are logged, their results taken from the script, and their
  callbacks are entry points here.
\<close>

section \<open>State\<close>

record focus_context =
  fx_stream :: bool
  fx_on_play :: "int option"
  fx_cookie :: int

record query_context =
  qx_expected :: int
  qx_cookie :: int
  qx_on_query :: int
  qx_diff :: media_metadata

record picture_context =
  px_on_complete :: "int option"
  px_pic_cookie :: int
  px_err_code :: int

datatype stream_effect =
    Focus_requested nat bytes
  | Focus_abandoned nat
  | Volume_queried
  | Listener_bound nat bytes bytes
  | Listener_closed nat
  | Pipe_accepted nat nat
  | Pipe_closed nat
  | Pipe_freed nat

record uv_stream = uv_library +
  ust_id :: "32 word"
  ust_name :: "bytes option"
  ust_proxy :: bool
  ust_cookie :: int
  ust_on_open :: "int option"
  ust_on_close :: "int option"
  ust_on_event :: "int option"
  ust_pipe :: "nat option"
  ust_listeners :: "nat list"
  ust_closing :: "nat set"
  ust_on_connection :: "int option"
  ust_focus :: "nat option"
  ust_foci :: "nat \<Rightarrow> focus_context option"
  ust_query :: "query_context option"
  ust_data :: media_metadata
  ust_picture :: "picture_context option"
  ust_effects :: "stream_effect list"

type_synonym stream_user = "uv_call \<Rightarrow> uv_stream \<Rightarrow> uv_stream option"
type_synonym stream_app = "app_call \<Rightarrow> uv_stream \<Rightarrow> uv_stream option"

definition STREAM_RECEIVE :: int where "STREAM_RECEIVE = -1"
definition STREAM_RECEIVE_INT :: int where "STREAM_RECEIVE_INT = -2"
definition STREAM_RECEIVE_UNSIGNED :: int where "STREAM_RECEIVE_UNSIGNED = -3"
definition STREAM_RECEIVE_VOLUME :: int where "STREAM_RECEIVE_VOLUME = -4"
definition STREAM_RECEIVE_STRING :: int where "STREAM_RECEIVE_STRING = -5"
definition STREAM_OPEN_CB :: int where "STREAM_OPEN_CB = -6"
definition STREAM_CLOSE_CB :: int where "STREAM_CLOSE_CB = -7"
definition STREAM_EVENT_CB :: int where "STREAM_EVENT_CB = -8"
definition STREAM_DISCONNECT_CB :: int where "STREAM_DISCONNECT_CB = -9"
definition QUERY_STATE_CB :: int where "QUERY_STATE_CB = -10"
definition QUERY_DURATION_CB :: int where "QUERY_DURATION_CB = -11"
definition QUERY_POSITION_CB :: int where "QUERY_POSITION_CB = -12"
definition PICTURE_OPEN_CB :: int where "PICTURE_OPEN_CB = -13"
definition PICTURE_EVENT_CB :: int where "PICTURE_EVENT_CB = -14"
definition PICTURE_CLOSE_CB :: int where "PICTURE_CLOSE_CB = -15"

lemmas stream_cbs = STREAM_RECEIVE_def STREAM_RECEIVE_INT_def STREAM_RECEIVE_UNSIGNED_def STREAM_RECEIVE_VOLUME_def
  STREAM_RECEIVE_STRING_def STREAM_OPEN_CB_def STREAM_CLOSE_CB_def STREAM_EVENT_CB_def STREAM_DISCONNECT_CB_def
  QUERY_STATE_CB_def QUERY_DURATION_CB_def QUERY_POSITION_CB_def PICTURE_OPEN_CB_def PICTURE_EVENT_CB_def PICTURE_CLOSE_CB_def

definition MEDIA_EVENT_STOPPED :: int where "MEDIA_EVENT_STOPPED = 4"

definition stream_effect :: "stream_effect \<Rightarrow> uv_stream \<Rightarrow> uv_stream" where
  "stream_effect e st = st\<lparr>ust_effects := ust_effects st @ [e]\<rparr>"

section \<open>Sending, and the callbacks of a picture\<close>

definition media_uv_stream_send :: "uv_env \<Rightarrow> stream_user \<Rightarrow> bytes option \<Rightarrow> bytes option \<Rightarrow> bytes option \<Rightarrow> 32 word
    \<Rightarrow> int option \<Rightarrow> int \<Rightarrow> int \<Rightarrow> uv_stream \<Rightarrow> (int \<times> uv_stream) option" where
  "media_uv_stream_send env user target cmd arg res_len parser cb cookie st = do {
     _ \<leftarrow> alive st;
     uv_command env user (ust_proxy st) ''%i%s%s%s%i''
       [VInt32 (ust_id st), VString target, VString cmd, VString arg, VInt32 res_len] parser cb cookie st
   }"

definition stream_command :: "uv_env \<Rightarrow> stream_user \<Rightarrow> string \<Rightarrow> bytes option \<Rightarrow> 32 word \<Rightarrow> int option \<Rightarrow> int \<Rightarrow> int \<Rightarrow> uv_stream
    \<Rightarrow> (int \<times> uv_stream) option" where
  \<comment> \<open>the same for a command of the library without a target\<close>
  "stream_command env user cmd arg res_len parser cb cookie = media_uv_stream_send env user None (Some (c_bytes cmd)) arg res_len parser cb cookie"

definition media_uv_recorder_take_picture_close :: "uv_env \<Rightarrow> stream_user \<Rightarrow> bool \<Rightarrow> uv_stream \<Rightarrow> (int \<times> uv_stream) option" where
  \<comment> \<open>the handle is not NULL where it is called\<close>
  "media_uv_recorder_take_picture_close env user send_close st = do {
     _ \<leftarrow> alive st;
     let st0 = st\<lparr>ust_on_close := Some PICTURE_CLOSE_CB\<rparr>;
     (ret, st1) \<leftarrow> (if send_close then stream_command env user ''close'' (Some (c_bytes ''1'')) 0 None 0 0 st0 else Some (0, st0));
     (if 0 \<le> ret then media_uv_disconnect user (ust_proxy st1) (Some STREAM_DISCONNECT_CB) st1 else Some (ret, st1))
   }"

definition picture_fails :: "uv_env \<Rightarrow> stream_user \<Rightarrow> bool \<Rightarrow> int \<Rightarrow> uv_stream \<Rightarrow> uv_stream option" where
  \<comment> \<open>the first error is kept and closes the recorder\<close>
  "picture_fails env user send_close ret st = do {
     pc \<leftarrow> ust_picture st;
     (if px_err_code pc \<noteq> 0 then Some st
      else do {
        (_, st1) \<leftarrow> media_uv_recorder_take_picture_close env user send_close (st\<lparr>ust_picture := Some (pc\<lparr>px_err_code := ret\<rparr>)\<rparr>);
        Some st1
      })
   }"

definition media_uv_recorder_take_picture_on_event :: "uv_env \<Rightarrow> stream_user \<Rightarrow> int \<Rightarrow> int \<Rightarrow> uv_stream \<Rightarrow> uv_stream option" where
  "media_uv_recorder_take_picture_on_event env user event ret st =
    (if ret < 0 \<or> event = MEDIA_EVENT_STOPPED then picture_fails env user True ret st else Some st)"

definition media_uv_recorder_take_picture_on_open :: "uv_env \<Rightarrow> stream_user \<Rightarrow> int \<Rightarrow> uv_stream \<Rightarrow> uv_stream option" where
  "media_uv_recorder_take_picture_on_open env user ret st = (if ret < 0 then picture_fails env user False ret st else Some st)"

definition media_uv_recorder_take_picture_close_cb :: "stream_app \<Rightarrow> uv_stream \<Rightarrow> uv_stream option" where
  "media_uv_recorder_take_picture_close_cb app st = do {
     pc \<leftarrow> ust_picture st;
     st1 \<leftarrow> call_optional app (px_on_complete pc) (px_pic_cookie pc) (px_err_code pc) st;
     Some (st1\<lparr>ust_picture := None\<rparr>)
   }"

text \<open>Calling \<open>on_open\<close> and \<open>on_event\<close>, which are the application's or those of a picture.\<close>

definition stream_on_open :: "uv_env \<Rightarrow> stream_user \<Rightarrow> stream_app \<Rightarrow> int \<Rightarrow> uv_stream \<Rightarrow> uv_stream option" where
  "stream_on_open env user app ret st =
    (if ust_on_open st = Some PICTURE_OPEN_CB then media_uv_recorder_take_picture_on_open env user ret st
     else call_optional app (ust_on_open st) (ust_cookie st) ret st)"

definition stream_on_event :: "uv_env \<Rightarrow> stream_user \<Rightarrow> stream_app \<Rightarrow> int \<Rightarrow> int \<Rightarrow> bytes option \<Rightarrow> uv_stream \<Rightarrow> uv_stream option" where
  "stream_on_event env user app event result response st = do {
     f \<leftarrow> ust_on_event st;
     (if f = PICTURE_EVENT_CB then media_uv_recorder_take_picture_on_event env user event result st
      else call_app app (App_event f (ust_cookie st) event result response) st)
   }"

section \<open>Opening and closing\<close>

definition media_uv_stream_release :: "stream_app \<Rightarrow> uv_stream \<Rightarrow> uv_stream option" where
  "media_uv_stream_release app st = do {
     _ \<leftarrow> alive st;
     (if \<not> ust_proxy st \<and> ust_listeners st = [] \<and> (case ust_query st of None \<Rightarrow> True | Some q \<Rightarrow> qx_expected q = 0)
      then do {
        st1 \<leftarrow> (if ust_on_close st = Some PICTURE_CLOSE_CB then media_uv_recorder_take_picture_close_cb app st
          else call_optional app (ust_on_close st) (ust_cookie st) 0 st);
        Some (st1\<lparr>ust_query := None, lib_alive := False\<rparr>)
      }
      else Some st)
   }"

definition media_uv_stream_disconnect_cb :: "stream_app \<Rightarrow> uv_stream \<Rightarrow> uv_stream option" where
  "media_uv_stream_disconnect_cb app st = do {
     _ \<leftarrow> alive st;
     media_uv_stream_release app (st\<lparr>ust_proxy := False\<rparr>)
   }"

definition media_uv_stream_close_cb :: "stream_user \<Rightarrow> int \<Rightarrow> uv_stream \<Rightarrow> uv_stream option" where
  "media_uv_stream_close_cb user ret st = do {
     _ \<leftarrow> alive st;
     (_, st1) \<leftarrow> media_uv_disconnect user (ust_proxy st) (Some STREAM_DISCONNECT_CB) st;
     Some st1
   }"

definition media_uv_stream_open_cb :: "uv_env \<Rightarrow> stream_user \<Rightarrow> stream_app \<Rightarrow> int \<Rightarrow> uv_stream \<Rightarrow> uv_stream option" where
  "media_uv_stream_open_cb env user app ret st = do {
     _ \<leftarrow> alive st;
     (if ret < 0 then do { (_, st1) \<leftarrow> media_uv_reconnect env user (ust_proxy st) st; Some st1 }
      else stream_on_open env user app ret st)
   }"

definition media_uv_stream_connect_cb :: "uv_env \<Rightarrow> stream_user \<Rightarrow> stream_app \<Rightarrow> int \<Rightarrow> uv_stream \<Rightarrow> uv_stream option" where
  "media_uv_stream_connect_cb env user app ret st = do {
     _ \<leftarrow> alive st;
     (ret, st1) \<leftarrow> (if 0 \<le> ret then stream_command env user ''open'' (ust_name st) 0 (Some STREAM_RECEIVE) STREAM_OPEN_CB 1 st
        else Some (ret, st));
     (if ret < 0 then stream_on_open env user app ret st1 else Some st1)
   }"

section \<open>Focus\<close>

definition media_uv_stream_abandon_focus_cb :: "nat \<Rightarrow> uv_stream \<Rightarrow> uv_stream" where
  "media_uv_stream_abandon_focus_cb fx st = st\<lparr>ust_foci := (ust_foci st)(fx := None)\<rparr>"

definition media_uv_stream_abandon_focus :: "uv_stream \<Rightarrow> uv_stream option" where
  "media_uv_stream_abandon_focus st = do {
     _ \<leftarrow> alive st;
     (case ust_focus st of
        None \<Rightarrow> Some st
      | Some fx \<Rightarrow> do {
          ctx \<leftarrow> ust_foci st fx;
          (case next_ret st of (ret, st1) \<Rightarrow>
             Some (if 0 \<le> ret
               then stream_effect (Focus_abandoned fx) (st1\<lparr>ust_foci := (ust_foci st1)(fx \<mapsto> ctx\<lparr>fx_stream := False\<rparr>), ust_focus := None\<rparr>)
               else st1))
        })
   }"

definition media_uv_stream_request_focus :: "bytes \<Rightarrow> int \<Rightarrow> int \<Rightarrow> uv_stream \<Rightarrow> (int \<times> uv_stream) option" where
  \<comment> \<open>\<open>zalloc\<close>, then \<open>media_uv_focus_request\<close>; contexts are numbered like the other blocks\<close>
  "media_uv_stream_request_focus scenario on_play cookie st = do {
     _ \<leftarrow> alive st;
     (case next_ret st of (r1, st1) \<Rightarrow>
        if r1 < 0 then Some (-ENOMEM, st1)
        else (case next_ret st1 of (r2, st2) \<Rightarrow>
          if r2 < 0 then Some (-ENOMEM, st2)
          else let fx = us_next st2 in
            Some (0, stream_effect (Focus_requested fx scenario) (st2\<lparr>us_next := fx + 1,
              ust_foci := (ust_foci st2)(fx \<mapsto> \<lparr>fx_stream = True, fx_on_play = (if on_play = 0 then None else Some on_play), fx_cookie = cookie\<rparr>),
              ust_focus := Some fx\<rparr>))))
   }"

section \<open>Events and answers\<close>

definition media_uv_stream_event_cb :: "uv_env \<Rightarrow> stream_user \<Rightarrow> stream_app \<Rightarrow> media_parcel \<Rightarrow> uv_stream \<Rightarrow> uv_stream option" where
  "media_uv_stream_event_cb env user app p st = do {
     _ \<leftarrow> alive st;
     (event, result, response) \<leftarrow> answer_event p;
     st1 \<leftarrow> (if event = MEDIA_EVENT_COMPLETED then media_uv_stream_abandon_focus st else Some st);
     (if ust_focus st1 \<noteq> None \<and> result = -EPERM then Some st1
      else stream_on_event env user app event result response st1)
   }"

text \<open>Gathering the metadata of a player.\<close>

definition clear_flag :: "int \<Rightarrow> int \<Rightarrow> int" where
  "clear_flag e f = e AND NOT f"

definition media_uv_player_query_complete :: "stream_app \<Rightarrow> uv_stream \<Rightarrow> uv_stream option" where
  "media_uv_player_query_complete app st = do {
     q \<leftarrow> ust_query st;
     st1 \<leftarrow> (if qx_expected q = 0 then
         (case media_metadata_update (ust_data st) (qx_diff q) of (d, diff) \<Rightarrow>
            call_app app (App_result (qx_on_query q) (qx_cookie q) (meta_flags (qx_diff q)) (Data_arg (Some d)))
              (st\<lparr>ust_data := d, ust_query := Some (q\<lparr>qx_diff := diff\<rparr>)\<rparr>))
       else Some st);
     media_uv_stream_release app st1
   }"

definition query_answer :: "stream_app \<Rightarrow> int \<Rightarrow> (media_metadata \<Rightarrow> media_metadata) \<Rightarrow> int \<Rightarrow> uv_stream \<Rightarrow> uv_stream option" where
  \<comment> \<open>the body of the four query callbacks\<close>
  "query_answer app flag store ret st = do {
     _ \<leftarrow> alive st;
     q \<leftarrow> ust_query st;
     let q1 = q\<lparr>qx_expected := clear_flag (qx_expected q) flag\<rparr>;
     let q2 = (if 0 \<le> ret then q1\<lparr>qx_diff := store ((qx_diff q1)\<lparr>meta_flags := meta_flags (qx_diff q1) OR flag\<rparr>)\<rparr> else q1);
     media_uv_player_query_complete app (st\<lparr>ust_query := Some q2\<rparr>)
   }"

definition media_uv_player_query_state_cb :: "stream_app \<Rightarrow> int \<Rightarrow> int \<Rightarrow> uv_stream \<Rightarrow> uv_stream option" where
  "media_uv_player_query_state_cb app ret v = query_answer app MEDIA_METAFLAG_STATE (\<lambda>d. d\<lparr>meta_state := v\<rparr>) ret"

definition media_uv_player_query_volume_cb :: "stream_app \<Rightarrow> int \<Rightarrow> int \<Rightarrow> uv_stream \<Rightarrow> uv_stream option" where
  "media_uv_player_query_volume_cb app ret v = query_answer app MEDIA_METAFLAG_VOLUME (\<lambda>d. d\<lparr>meta_volume := v\<rparr>) ret"

definition media_uv_player_query_position_cb :: "stream_app \<Rightarrow> int \<Rightarrow> nat \<Rightarrow> uv_stream \<Rightarrow> uv_stream option" where
  "media_uv_player_query_position_cb app ret v = query_answer app MEDIA_METAFLAG_POSITION (\<lambda>d. d\<lparr>meta_position := v\<rparr>) ret"

definition media_uv_player_query_duration_cb :: "stream_app \<Rightarrow> int \<Rightarrow> nat \<Rightarrow> uv_stream \<Rightarrow> uv_stream option" where
  "media_uv_player_query_duration_cb app ret v = query_answer app MEDIA_METAFLAG_DURATION (\<lambda>d. d\<lparr>meta_duration := v\<rparr>) ret"

definition media_uv_stream_receive_cb :: "uv_env \<Rightarrow> stream_user \<Rightarrow> stream_app \<Rightarrow> int \<Rightarrow> int \<Rightarrow> media_parcel option
    \<Rightarrow> uv_stream \<Rightarrow> uv_stream option" where
  "media_uv_stream_receive_cb env user app cb cookie1 parcel0 st = do {
     result \<leftarrow> answer_result parcel0;
     (if cb = STREAM_OPEN_CB then media_uv_stream_open_cb env user app result st
      else if cb = STREAM_CLOSE_CB then media_uv_stream_close_cb user result st
      else call_app app (App_result cb cookie1 result No_arg) st)
   }"

definition media_uv_stream_receive_int_cb :: "stream_app \<Rightarrow> int \<Rightarrow> int \<Rightarrow> media_parcel option \<Rightarrow> uv_stream \<Rightarrow> uv_stream option" where
  "media_uv_stream_receive_int_cb app cb cookie1 parcel0 st = do {
     (result, response) \<leftarrow> answer_text parcel0;
     let v = (case response of None \<Rightarrow> 0 | Some b \<Rightarrow> strtol0 (b_str b));
     (if cb = QUERY_STATE_CB then media_uv_player_query_state_cb app result v st
      else call_app app (App_result cb cookie1 result (Int_arg v)) st)
   }"

definition media_uv_stream_receive_unsigned_cb :: "stream_app \<Rightarrow> int \<Rightarrow> int \<Rightarrow> media_parcel option \<Rightarrow> uv_stream \<Rightarrow> uv_stream option" where
  "media_uv_stream_receive_unsigned_cb app cb cookie1 parcel0 st = do {
     (result, response) \<leftarrow> answer_text parcel0;
     let v = (case response of None \<Rightarrow> 0 | Some b \<Rightarrow> strtoul0 (b_str b));
     (if cb = QUERY_DURATION_CB then media_uv_player_query_duration_cb app result v st
      else if cb = QUERY_POSITION_CB then media_uv_player_query_position_cb app result v st
      else call_app app (App_result cb cookie1 result (Unsigned_arg v)) st)
   }"

definition media_uv_stream_receive_volume_cb :: "stream_app \<Rightarrow> int \<Rightarrow> int \<Rightarrow> media_parcel option \<Rightarrow> uv_stream \<Rightarrow> uv_stream option" where
  \<comment> \<open>the text \<open>%f\<close> reads, the volume, is 0 without one\<close>
  "media_uv_stream_receive_volume_cb app cb cookie1 parcel0 st = do {
     (result, response) \<leftarrow> answer_text parcel0;
     let v = (case response of None \<Rightarrow> None | Some b \<Rightarrow> if take 4 (b_str b) = ''vol:'' then Some (drop 4 b) else None);
     call_app app (App_result cb cookie1 result (Text_arg v)) st
   }"

definition media_uv_stream_receive_string_cb :: "stream_app \<Rightarrow> int \<Rightarrow> int \<Rightarrow> media_parcel option \<Rightarrow> uv_stream \<Rightarrow> uv_stream option" where
  "media_uv_stream_receive_string_cb app cb cookie1 parcel0 st = do {
     (result, response) \<leftarrow> answer_text parcel0;
     call_app app (App_result cb cookie1 result (Text_arg response)) st
   }"

fun stream_user :: "uv_env \<Rightarrow> (stream_user \<Rightarrow> stream_app) \<Rightarrow> nat \<Rightarrow> stream_user" where
  "stream_user env app 0 c st = None"
| "stream_user env app (Suc n) c st = (let user = stream_user env app n in case c of
     On_connect ret \<Rightarrow> media_uv_stream_connect_cb env user (app user) ret st
   | On_release f \<Rightarrow> media_uv_stream_disconnect_cb (app user) st
   | On_listen f ret \<Rightarrow> None
   | On_event f p \<Rightarrow> media_uv_stream_event_cb env user (app user) p st
   | On_receive f cb cookie1 p \<Rightarrow>
       if f = STREAM_RECEIVE then media_uv_stream_receive_cb env user (app user) cb cookie1 p st
       else if f = STREAM_RECEIVE_INT then media_uv_stream_receive_int_cb (app user) cb cookie1 p st
       else if f = STREAM_RECEIVE_UNSIGNED then media_uv_stream_receive_unsigned_cb (app user) cb cookie1 p st
       else if f = STREAM_RECEIVE_VOLUME then media_uv_stream_receive_volume_cb (app user) cb cookie1 p st
       else media_uv_stream_receive_string_cb (app user) cb cookie1 p st)"

end
