(* ===== verification/Uv_Player.thy ===== *)
theory Uv_Player
  imports Uv_Stream
begin

text \<open>
  The rest of \<open>client/media_uv_graph.c\<close>: the listeners and the pipe of buffer mode, the suggestions of the
  focus, and the public functions of players and recorders.

  A listener that is being closed stays in the list until its close callback. The address of the data pipe,
  made of the handle's own address, and the text of a \<open>float\<close> are parameters.
\<close>

section \<open>Listeners of buffer mode\<close>

definition media_uv_stream_listen_close_cb :: "stream_app \<Rightarrow> nat \<Rightarrow> uv_stream \<Rightarrow> uv_stream option" where
  "media_uv_stream_listen_close_cb app l st = do {
     _ \<leftarrow> alive st;
     (if l \<in> set (ust_listeners st)
      then media_uv_stream_release app (st\<lparr>ust_listeners := remove1 l (ust_listeners st), ust_closing := ust_closing st - {l}\<rparr>)
      else None)
   }"

definition media_uv_stream_listen_remove :: "nat \<Rightarrow> uv_stream \<Rightarrow> uv_stream" where
  "media_uv_stream_listen_remove l st = (if l \<in> ust_closing st then st
     else stream_effect (Listener_closed l) (st\<lparr>ust_closing := insert l (ust_closing st)\<rparr>))"

definition media_uv_stream_listen_add :: "uv_stream \<Rightarrow> nat option \<times> uv_stream" where
  "media_uv_stream_listen_add st =
    (case next_ret st of (r1, st1) \<Rightarrow>
       if r1 < 0 then (None, st1)
       else (case next_ret st1 of (r2, st2) \<Rightarrow>
         if r2 < 0 then (None, st2)
         else let l = us_next st2 in (Some l, st2\<lparr>us_next := l + 1, ust_listeners := l # ust_listeners st2\<rparr>)))"

definition media_uv_stream_listen_clear :: "nat option \<Rightarrow> uv_stream \<Rightarrow> uv_stream" where
  "media_uv_stream_listen_clear available st =
     fold (\<lambda>l st. if Some l \<noteq> available then media_uv_stream_listen_remove l st else st) (ust_listeners st) st"

definition media_uv_stream_close_pipe_cb :: "nat \<Rightarrow> uv_stream \<Rightarrow> uv_stream" where
  "media_uv_stream_close_pipe_cb p = stream_effect (Pipe_freed p)"

definition media_uv_stream_close_pipe :: "stream_app \<Rightarrow> uv_stream \<Rightarrow> uv_stream option" where
  "media_uv_stream_close_pipe app st = do {
     _ \<leftarrow> alive st;
     let st1 = (case ust_pipe st of None \<Rightarrow> st | Some p \<Rightarrow> stream_effect (Pipe_closed p) (st\<lparr>ust_pipe := None\<rparr>));
     (case ust_on_connection st1 of
        None \<Rightarrow> Some st1
      | Some f \<Rightarrow> do {
          st2 \<leftarrow> call_app app (App_result f (ust_cookie st1) (-ECANCELED) (Pipe_arg None)) st1;
          _ \<leftarrow> alive st2;
          Some (st2\<lparr>ust_on_connection := None\<rparr>)
        })
   }"

definition media_uv_stream_listen_connection_cb :: "stream_app \<Rightarrow> nat \<Rightarrow> int \<Rightarrow> uv_stream \<Rightarrow> uv_stream option" where
  "media_uv_stream_listen_connection_cb app l ret st = do {
     _ \<leftarrow> alive st;
     (if ret < 0 \<or> ust_pipe st \<noteq> None then Some (media_uv_stream_listen_remove l st)
      else case next_ret st of (r1, st1) \<Rightarrow>
        if r1 < 0 then Some (media_uv_stream_listen_clear None st1)
        else (case next_ret st1 of (r2, st2) \<Rightarrow>
          if r2 < 0 then Some (media_uv_stream_listen_clear None st2)
          else let p = us_next st2; st3 = st2\<lparr>us_next := p + 1, ust_pipe := Some p\<rparr> in
            case next_ret st3 of (r3, st4) \<Rightarrow>
              if r3 < 0 then do {
                st5 \<leftarrow> media_uv_stream_close_pipe app st4;
                _ \<leftarrow> alive st5;
                Some (media_uv_stream_listen_clear None st5)
              }
              else let st5 = media_uv_stream_listen_clear (Some l) (stream_effect (Pipe_accepted l p) st4) in
                case ust_on_connection st5 of
                  None \<Rightarrow> media_uv_stream_close_pipe app st5
                | Some f \<Rightarrow> do {
                    st6 \<leftarrow> call_app app (App_result f (ust_cookie st5) 0 (Pipe_arg (Some p))) st5;
                    _ \<leftarrow> alive st6;
                    Some (st6\<lparr>ust_on_connection := None\<rparr>)
                  }))
   }"

fun listen_init_loop :: "uv_env \<Rightarrow> bytes \<Rightarrow> bytes list \<Rightarrow> int \<Rightarrow> uv_stream \<Rightarrow> int \<times> uv_stream" where
  \<comment> \<open>\<open>uv_pipe_bind\<close> or \<open>uv_pipe_rpmsg_bind\<close>, then \<open>uv_listen\<close>\<close>
  "listen_init_loop env addr [] ret st = (if ust_listeners st = [] then ret else 0, st)"
| "listen_init_loop env addr (cpu # cpus) ret st =
    (case media_uv_stream_listen_add st of
       (None, st1) \<Rightarrow> (-ENOMEM, st1)
     | (Some l, st1) \<Rightarrow>
         if cpu \<noteq> ue_local_cpu env \<and> \<not> ue_rpmsg env
         then listen_init_loop env addr cpus (-ENOSYS) (media_uv_stream_listen_remove l st1)
         else (case next_ret st1 of (ret, st2) \<Rightarrow>
           if ret < 0 then (ret, media_uv_stream_listen_clear None st2)
           else (case next_ret (stream_effect (Listener_bound l addr cpu) st2) of (ret, st3) \<Rightarrow>
             if ret < 0 then (ret, media_uv_stream_listen_clear None st3)
             else listen_init_loop env addr cpus ret st3)))"

definition media_uv_stream_listen_init :: "uv_env \<Rightarrow> bytes option \<Rightarrow> bytes \<Rightarrow> uv_stream \<Rightarrow> (int \<times> uv_stream) option" where
  \<comment> \<open>\<open>cpuname\<close> is what \<open>media_get_cpuname\<close> returns, cut to \<open>char tmp[128]\<close>\<close>
  "media_uv_stream_listen_init env cpuname addr st =
    (if ust_listeners st \<noteq> [] then Some (0, st)
     else do {
       name \<leftarrow> cpuname;
       Some (listen_init_loop env addr (strtok_r_tokens (c_bytes '' ,;|'') (take 127 name) []) (-ENOENT) st)
     })"

section \<open>Functions of players and recorders alike\<close>

definition media_uv_stream_pause :: "uv_env \<Rightarrow> stream_user \<Rightarrow> int \<Rightarrow> int \<Rightarrow> uv_stream \<Rightarrow> (int \<times> uv_stream) option" where
  "media_uv_stream_pause env user cb cookie = stream_command env user ''pause'' None 0 (Some STREAM_RECEIVE) cb cookie"

text \<open>\<open>handle\<close> says whether the handle is there or NULL.\<close>

type_synonym stream_op = "int \<Rightarrow> int \<Rightarrow> uv_stream \<Rightarrow> (int \<times> uv_stream) option"

definition stream_control :: "uv_env \<Rightarrow> stream_user \<Rightarrow> bool \<Rightarrow> string \<Rightarrow> bytes option \<Rightarrow> 32 word \<Rightarrow> int \<Rightarrow> stream_op" where
  \<comment> \<open>the body of the functions that only send a command\<close>
  "stream_control env user handle cmd arg len parser cb cookie st =
    (if \<not> handle then Some (-EINVAL, st) else stream_command env user cmd arg len (Some parser) cb cookie st)"

definition stream_property :: "uv_env \<Rightarrow> stream_user \<Rightarrow> bool \<Rightarrow> bytes option \<Rightarrow> bytes option \<Rightarrow> bytes option \<Rightarrow> 32 word \<Rightarrow> int \<Rightarrow> stream_op" where
  "stream_property env user handle target key v len parser cb cookie st =
    (if \<not> handle then Some (-EINVAL, st) else media_uv_stream_send env user target key v len (Some parser) cb cookie st)"

definition stream_start :: "uv_env \<Rightarrow> stream_user \<Rightarrow> bool \<Rightarrow> stream_op" where
  "stream_start env user handle = stream_control env user handle ''start'' None 0 STREAM_RECEIVE"

definition stream_halt :: "uv_env \<Rightarrow> stream_user \<Rightarrow> stream_app \<Rightarrow> string \<Rightarrow> bool \<Rightarrow> stream_op" where
  \<comment> \<open>"stop" and "reset"\<close>
  "stream_halt env user app cmd handle cb cookie st =
    (if \<not> handle then Some (-EINVAL, st)
     else do {
       st1 \<leftarrow> media_uv_stream_close_pipe app st;
       st2 \<leftarrow> media_uv_stream_abandon_focus st1;
       stream_command env user cmd None 0 (Some STREAM_RECEIVE) cb cookie st2
     })"

definition stream_pause :: "uv_env \<Rightarrow> stream_user \<Rightarrow> bool \<Rightarrow> stream_op" where
  "stream_pause env user handle cb cookie st =
    (if \<not> handle then Some (-EINVAL, st)
     else do {
       st1 \<leftarrow> media_uv_stream_abandon_focus st;
       media_uv_stream_pause env user cb cookie st1
     })"

definition stream_listen :: "uv_env \<Rightarrow> stream_user \<Rightarrow> bool \<Rightarrow> int option \<Rightarrow> uv_stream \<Rightarrow> (int \<times> uv_stream) option" where
  "stream_listen env user handle on_event st =
    (if \<not> handle \<or> on_event = None then Some (-EINVAL, st)
     else do {
       (ret, st1) \<leftarrow> stream_command env user ''set_event'' None 0 None 0 0 (st\<lparr>ust_on_event := on_event\<rparr>);
       _ \<leftarrow> alive st1;
       (if ret < 0 then Some (ret, st1) else media_uv_listen env user (ust_proxy st1) None (Some STREAM_EVENT_CB) st1)
     })"

definition stream_prepare :: "uv_env \<Rightarrow> stream_user \<Rightarrow> bytes option \<Rightarrow> bytes \<Rightarrow> bool \<Rightarrow> bytes option \<Rightarrow> bytes option \<Rightarrow> int option
    \<Rightarrow> stream_op" where
  \<comment> \<open>without a url, \<open>addr\<close> is that of the data pipe, cut to \<open>char addr[32]\<close>\<close>
  "stream_prepare env user cpuname addr handle url options on_connection on_prepare cookie st =
    (if \<not> handle then Some (-EINVAL, st)
     else do {
       _ \<leftarrow> alive st;
       let own = (url = None \<or> url = Some []);
       (if own \<and> on_connection = None then Some (-EINVAL, st)
        else if own \<and> ust_on_connection st \<noteq> None then Some (-EPERM, st)
        else do {
          (ret, st1) \<leftarrow> (if own then media_uv_stream_listen_init env cpuname addr st else Some (0, st));
          (if ret < 0 then Some (ret, st1)
           else do {
             let st2 = (if own then st1\<lparr>ust_on_connection := on_connection\<rparr> else st1);
             (ret, st3) \<leftarrow> (if options \<noteq> None \<and> options \<noteq> Some []
               then stream_command env user ''set_options'' options 0 None 0 0 st2 else Some (0, st2));
             (if 0 \<le> ret
              then media_uv_stream_send env user (if own then Some (ue_local_cpu env) else None) (Some (c_bytes ''prepare''))
                (if own then Some addr else url) 0 (Some STREAM_RECEIVE) on_prepare cookie st3
              else Some (ret, st3))
           })
        })
     })"

definition stream_open :: "uv_env \<Rightarrow> 32 word \<Rightarrow> bool \<Rightarrow> bytes option \<Rightarrow> bytes option \<Rightarrow> int option \<Rightarrow> int \<Rightarrow> uv_stream \<Rightarrow> (bool \<times> uv_stream) option" where
  \<comment> \<open>a failed connection frees the block: \<open>on_close\<close>, the listeners and the query are still NULL\<close>
  "stream_open env oid loop cpus name on_open cookie st =
    (case next_ret st of (r, st1) \<Rightarrow>
       if r < 0 then Some (False, st1)
       else do {
         (ok, st2) \<leftarrow> media_uv_connect env loop cpus True (st1\<lparr>ust_id := oid, ust_name := (if name = Some [] then None else name),
           ust_proxy := False, ust_cookie := cookie, ust_on_open := on_open, ust_on_close := None, ust_on_event := None,
           ust_pipe := None, ust_listeners := [], ust_closing := {}, ust_on_connection := None, ust_focus := None,
           ust_query := None, ust_data := media_metadata_init, lib_alive := True\<rparr>);
         (if ok then Some (True, st2\<lparr>ust_proxy := True\<rparr>)
          else do { st3 \<leftarrow> media_uv_stream_disconnect_cb (\<lambda>_ s. Some s) st2; Some (False, st3) })
       })"

definition stream_close :: "uv_env \<Rightarrow> stream_user \<Rightarrow> stream_app \<Rightarrow> bool \<Rightarrow> string \<Rightarrow> int option \<Rightarrow> uv_stream \<Rightarrow> (int \<times> uv_stream) option" where
  "stream_close env user app handle arg on_close st =
    (if \<not> handle then Some (-EINVAL, st)
     else do {
       (ret, st1) \<leftarrow> stream_command env user ''close'' (Some (c_bytes arg)) 0 (Some STREAM_RECEIVE) STREAM_CLOSE_CB 1 (st\<lparr>ust_on_close := on_close\<rparr>);
       st2 \<leftarrow> (if ret < 0 then media_uv_stream_close_cb user ret st1 else Some st1);
       st3 \<leftarrow> media_uv_stream_close_pipe app st2;
       _ \<leftarrow> alive st3;
       st4 \<leftarrow> media_uv_stream_abandon_focus (media_uv_stream_listen_clear None st3);
       Some (ret, st4)
     })"

definition stream_start_auto :: "uv_env \<Rightarrow> stream_user \<Rightarrow> bool \<Rightarrow> bytes option \<Rightarrow> stream_op" where
  "stream_start_auto env user handle scenario cb cookie st =
    (if \<not> handle \<or> scenario = None \<or> scenario = Some [] then Some (-EINVAL, st)
     else do {
       _ \<leftarrow> alive st;
       (if ust_focus st \<noteq> None then stream_start env user True cb cookie st
        else media_uv_stream_request_focus (the scenario) cb cookie st)
     })"

section \<open>Suggestions of the focus\<close>

definition suggest_out :: "stream_app \<Rightarrow> nat \<Rightarrow> bool \<Rightarrow> uv_stream \<Rightarrow> uv_stream option" where
  \<comment> \<open>the label \<open>out\<close>\<close>
  "suggest_out app fx active st = do {
     ctx \<leftarrow> ust_foci st fx;
     (case fx_on_play ctx of
        None \<Rightarrow> Some st
      | Some f \<Rightarrow> do {
          st1 \<leftarrow> (if \<not> active then call_app app (App_result f (fx_cookie ctx) (-EPERM) No_arg) st else Some st);
          ctx1 \<leftarrow> ust_foci st1 fx;
          Some (st1\<lparr>ust_foci := (ust_foci st1)(fx \<mapsto> ctx1\<lparr>fx_on_play := None, fx_cookie := 0\<rparr>)\<rparr>)
        })
   }"

definition play_callback :: "focus_context \<Rightarrow> int" where
  "play_callback ctx = (case fx_on_play ctx of None \<Rightarrow> 0 | Some f \<Rightarrow> f)"

definition media_uv_player_set_volume :: "uv_env \<Rightarrow> stream_user \<Rightarrow> ('f \<Rightarrow> string) \<Rightarrow> bool \<Rightarrow> 'f \<Rightarrow> stream_op" where
  "media_uv_player_set_volume env user print_f handle volume =
     stream_control env user handle ''volume'' (Some (c_bytes (take 31 (print_f volume)))) 0 STREAM_RECEIVE"

definition play_at :: "uv_env \<Rightarrow> stream_user \<Rightarrow> string \<Rightarrow> int \<Rightarrow> int \<Rightarrow> uv_stream \<Rightarrow> uv_stream option" where
  \<comment> \<open>a volume, given by the text of its constant, then "start"\<close>
  "play_at env user volume cb cookie st = do {
     (_, st1) \<leftarrow> media_uv_player_set_volume env user id True volume 0 0 st;
     (_, st2) \<leftarrow> stream_start env user True cb cookie st1;
     Some st2
   }"

definition media_uv_player_suggest_cb :: "uv_env \<Rightarrow> stream_user \<Rightarrow> stream_app \<Rightarrow> int \<Rightarrow> nat \<Rightarrow> uv_stream \<Rightarrow> uv_stream option" where
  "media_uv_player_suggest_cb env user app suggest fx st = do {
     ctx \<leftarrow> ust_foci st fx;
     (if \<not> fx_stream ctx then suggest_out app fx False st
      else if suggest = MEDIA_FOCUS_PLAY then do {
        st1 \<leftarrow> play_at env user ''1.000000'' (play_callback ctx) (fx_cookie ctx) st;
        suggest_out app fx True st1
      }
      else if suggest = MEDIA_FOCUS_STOP then do {
        (_, st1) \<leftarrow> stream_halt env user app ''stop'' True 0 0 st;
        suggest_out app fx False st1
      }
      else if suggest = MEDIA_FOCUS_PAUSE then do {
        (_, st1) \<leftarrow> media_uv_stream_pause env user 0 0 st;
        suggest_out app fx False st1
      }
      else if suggest = MEDIA_FOCUS_PLAY_BUT_SILENT then do {
        st1 \<leftarrow> play_at env user ''0.000000'' 0 0 st;
        suggest_out app fx True st1
      }
      else if suggest = MEDIA_FOCUS_PLAY_WITH_DUCK then do {
        st1 \<leftarrow> play_at env user ''0.100000'' 0 0 st;
        suggest_out app fx True st1
      }
      else suggest_out app fx False st)
   }"

definition media_uv_recorder_suggest_cb :: "uv_env \<Rightarrow> stream_user \<Rightarrow> stream_app \<Rightarrow> int \<Rightarrow> nat \<Rightarrow> uv_stream \<Rightarrow> uv_stream option" where
  "media_uv_recorder_suggest_cb env user app suggest fx st = do {
     ctx \<leftarrow> ust_foci st fx;
     (if \<not> fx_stream ctx then suggest_out app fx False st
      else if suggest \<in> {MEDIA_FOCUS_PLAY, MEDIA_FOCUS_PLAY_BUT_SILENT, MEDIA_FOCUS_PLAY_WITH_DUCK} then do {
        (_, st1) \<leftarrow> stream_start env user True (play_callback ctx) (fx_cookie ctx) st;
        suggest_out app fx True st1
      }
      else if suggest = MEDIA_FOCUS_STOP then do {
        (_, st1) \<leftarrow> stream_halt env user app ''stop'' True 0 0 st;
        suggest_out app fx False st1
      }
      else if suggest = MEDIA_FOCUS_PAUSE then do {
        (_, st1) \<leftarrow> media_uv_stream_pause env user 0 0 st;
        suggest_out app fx False st1
      }
      else suggest_out app fx False st)
   }"

section \<open>Players\<close>

definition media_uv_player_open :: "uv_env \<Rightarrow> bool \<Rightarrow> bytes option \<Rightarrow> bytes option \<Rightarrow> int option \<Rightarrow> int \<Rightarrow> uv_stream
    \<Rightarrow> (bool \<times> uv_stream) option" where
  "media_uv_player_open env = stream_open env MEDIA_ID_PLAYER"

definition media_uv_player_close :: "uv_env \<Rightarrow> stream_user \<Rightarrow> stream_app \<Rightarrow> bool \<Rightarrow> int \<Rightarrow> int option \<Rightarrow> uv_stream
    \<Rightarrow> (int \<times> uv_stream) option" where
  "media_uv_player_close env user app handle pending = stream_close env user app handle (int_digits pending)"

definition media_uv_player_listen :: "uv_env \<Rightarrow> stream_user \<Rightarrow> bool \<Rightarrow> int option \<Rightarrow> uv_stream \<Rightarrow> (int \<times> uv_stream) option" where
  "media_uv_player_listen env user = stream_listen env user"

definition media_uv_player_prepare :: "uv_env \<Rightarrow> stream_user \<Rightarrow> bytes option \<Rightarrow> bytes \<Rightarrow> bool \<Rightarrow> bytes option \<Rightarrow> bytes option \<Rightarrow> int option
    \<Rightarrow> stream_op" where
  "media_uv_player_prepare env user cpuname addr = stream_prepare env user cpuname addr"

definition media_uv_player_reset :: "uv_env \<Rightarrow> stream_user \<Rightarrow> stream_app \<Rightarrow> bool \<Rightarrow> stream_op" where
  "media_uv_player_reset env user app = stream_halt env user app ''reset''"

definition media_uv_player_start :: "uv_env \<Rightarrow> stream_user \<Rightarrow> bool \<Rightarrow> stream_op" where
  "media_uv_player_start env user = stream_start env user"

definition media_uv_player_start_auto :: "uv_env \<Rightarrow> stream_user \<Rightarrow> bool \<Rightarrow> bytes option \<Rightarrow> stream_op" where
  \<comment> \<open>the suggestions go to \<open>media_uv_player_suggest_cb\<close>\<close>
  "media_uv_player_start_auto env user = stream_start_auto env user"

definition media_uv_player_pause :: "uv_env \<Rightarrow> stream_user \<Rightarrow> bool \<Rightarrow> stream_op" where
  "media_uv_player_pause env user = stream_pause env user"

definition media_uv_player_stop :: "uv_env \<Rightarrow> stream_user \<Rightarrow> stream_app \<Rightarrow> bool \<Rightarrow> stream_op" where
  "media_uv_player_stop env user app = stream_halt env user app ''stop''"

definition media_uv_player_get_volume :: "uv_env \<Rightarrow> stream_user \<Rightarrow> bool \<Rightarrow> stream_op" where
  "media_uv_player_get_volume env user handle = stream_control env user handle ''get_volume'' None 32 STREAM_RECEIVE_VOLUME"

definition media_uv_player_get_playing :: "uv_env \<Rightarrow> stream_user \<Rightarrow> bool \<Rightarrow> stream_op" where
  "media_uv_player_get_playing env user handle = stream_control env user handle ''get_playing'' None 32 STREAM_RECEIVE_INT"

definition media_uv_player_get_position :: "uv_env \<Rightarrow> stream_user \<Rightarrow> bool \<Rightarrow> stream_op" where
  "media_uv_player_get_position env user handle = stream_control env user handle ''get_position'' None 32 STREAM_RECEIVE_UNSIGNED"

definition media_uv_player_get_duration :: "uv_env \<Rightarrow> stream_user \<Rightarrow> bool \<Rightarrow> stream_op" where
  "media_uv_player_get_duration env user handle = stream_control env user handle ''get_duration'' None 32 STREAM_RECEIVE_UNSIGNED"

definition media_uv_player_get_latency :: "uv_env \<Rightarrow> stream_user \<Rightarrow> bool \<Rightarrow> stream_op" where
  "media_uv_player_get_latency env user handle = stream_control env user handle ''get_latency'' None 32 STREAM_RECEIVE_UNSIGNED"

definition media_uv_player_set_looping :: "uv_env \<Rightarrow> stream_user \<Rightarrow> bool \<Rightarrow> int \<Rightarrow> stream_op" where
  "media_uv_player_set_looping env user handle loop = stream_control env user handle ''set_loop'' (Some (c_bytes (int_digits loop))) 0 STREAM_RECEIVE"

definition media_uv_player_seek :: "uv_env \<Rightarrow> stream_user \<Rightarrow> bool \<Rightarrow> 32 word \<Rightarrow> stream_op" where
  "media_uv_player_seek env user handle msec =
     stream_control env user handle ''seek'' (Some (c_bytes (nat_digits (unat msec)))) 0 STREAM_RECEIVE"

definition media_uv_player_set_property :: "uv_env \<Rightarrow> stream_user \<Rightarrow> bool \<Rightarrow> bytes option \<Rightarrow> bytes option \<Rightarrow> bytes option \<Rightarrow> stream_op" where
  "media_uv_player_set_property env user handle target key v = stream_property env user handle target key v 0 STREAM_RECEIVE"

definition media_uv_player_get_property :: "uv_env \<Rightarrow> stream_user \<Rightarrow> bool \<Rightarrow> bytes option \<Rightarrow> bytes option \<Rightarrow> stream_op" where
  "media_uv_player_get_property env user handle target key = stream_property env user handle target key None 32 STREAM_RECEIVE_STRING"

definition query_expects :: "int \<Rightarrow> int \<Rightarrow> uv_stream \<Rightarrow> uv_stream option" where
  \<comment> \<open>\<open>if (...) >= 0) priv->query->expected |= flag\<close>\<close>
  "query_expects flag ret st = (if ret < 0 then Some st else do {
     _ \<leftarrow> alive st;
     q \<leftarrow> ust_query st;
     Some (st\<lparr>ust_query := Some (q\<lparr>qx_expected := qx_expected q OR flag\<rparr>)\<rparr>)
   })"

definition query_volume :: "client_env \<Rightarrow> uv_stream \<Rightarrow> int \<times> uv_stream" where
  \<comment> \<open>\<open>media_uv_policy_get_stream_volume\<close>, on a connection of its own: the name of the criterion, then an
    allocation and a connection\<close>
  "query_volume cenv st = (case stream_criterion cenv (ust_name st) of
     None \<Rightarrow> (-ENAMETOOLONG, st)
   | Some name \<Rightarrow> (case next_ret st of (r, st1) \<Rightarrow> if r < 0 then (-ENOMEM, st1) else (0, stream_effect Volume_queried st1)))"

definition media_uv_player_query :: "uv_env \<Rightarrow> client_env \<Rightarrow> stream_user \<Rightarrow> bool \<Rightarrow> stream_op" where
  "media_uv_player_query env cenv user handle cb cookie st =
    (if \<not> handle \<or> cb = 0 then Some (-EINVAL, st)
     else do {
       _ \<leftarrow> alive st;
       (case (if ust_query st = None then next_ret st else (0, st)) of (r, st0) \<Rightarrow>
          if r < 0 then Some (-ENOMEM, st0)
          else do {
            let st1 = st0\<lparr>ust_query := Some \<lparr>qx_expected = 0, qx_cookie = cookie, qx_on_query = cb, qx_diff = media_metadata_init\<rparr>\<rparr>;
            (r1, st2) \<leftarrow> media_uv_player_get_playing env user True QUERY_STATE_CB 1 st1;
            st3 \<leftarrow> query_expects MEDIA_METAFLAG_STATE r1 st2;
            (r2, st4) \<leftarrow> Some (query_volume cenv st3);
            st5 \<leftarrow> query_expects MEDIA_METAFLAG_VOLUME r2 st4;
            (r3, st6) \<leftarrow> media_uv_player_get_duration env user True QUERY_DURATION_CB 1 st5;
            st7 \<leftarrow> query_expects MEDIA_METAFLAG_DURATION r3 st6;
            (r4, st8) \<leftarrow> media_uv_player_get_position env user True QUERY_POSITION_CB 1 st7;
            st9 \<leftarrow> query_expects MEDIA_METAFLAG_POSITION r4 st8;
            _ \<leftarrow> alive st9;
            q \<leftarrow> ust_query st9;
            Some (if qx_expected q = 0 then -EINVAL else 0, st9)
          })
     })"

section \<open>Recorders\<close>

definition media_uv_recorder_open :: "uv_env \<Rightarrow> bool \<Rightarrow> bytes option \<Rightarrow> bytes option \<Rightarrow> int option \<Rightarrow> int \<Rightarrow> uv_stream
    \<Rightarrow> (bool \<times> uv_stream) option" where
  "media_uv_recorder_open env = stream_open env MEDIA_ID_RECORDER"

definition media_uv_recorder_close :: "uv_env \<Rightarrow> stream_user \<Rightarrow> stream_app \<Rightarrow> bool \<Rightarrow> int option \<Rightarrow> uv_stream
    \<Rightarrow> (int \<times> uv_stream) option" where
  "media_uv_recorder_close env user app handle = stream_close env user app handle ''0''"

definition media_uv_recorder_listen :: "uv_env \<Rightarrow> stream_user \<Rightarrow> bool \<Rightarrow> int option \<Rightarrow> uv_stream \<Rightarrow> (int \<times> uv_stream) option" where
  "media_uv_recorder_listen env user = stream_listen env user"

definition media_uv_recorder_prepare :: "uv_env \<Rightarrow> stream_user \<Rightarrow> bytes option \<Rightarrow> bytes \<Rightarrow> bool \<Rightarrow> bytes option \<Rightarrow> bytes option \<Rightarrow> int option
    \<Rightarrow> stream_op" where
  "media_uv_recorder_prepare env user cpuname addr = stream_prepare env user cpuname addr"

definition media_uv_recorder_start_auto :: "uv_env \<Rightarrow> stream_user \<Rightarrow> bool \<Rightarrow> bytes option \<Rightarrow> stream_op" where
  "media_uv_recorder_start_auto env user = stream_start_auto env user"

definition media_uv_recorder_start :: "uv_env \<Rightarrow> stream_user \<Rightarrow> bool \<Rightarrow> stream_op" where
  "media_uv_recorder_start env user = stream_start env user"

definition media_uv_recorder_pause :: "uv_env \<Rightarrow> stream_user \<Rightarrow> bool \<Rightarrow> stream_op" where
  "media_uv_recorder_pause env user = stream_pause env user"

definition media_uv_recorder_stop :: "uv_env \<Rightarrow> stream_user \<Rightarrow> stream_app \<Rightarrow> bool \<Rightarrow> stream_op" where
  "media_uv_recorder_stop env user app = stream_halt env user app ''stop''"

definition media_uv_recorder_set_property :: "uv_env \<Rightarrow> stream_user \<Rightarrow> bool \<Rightarrow> bytes option \<Rightarrow> bytes option \<Rightarrow> bytes option \<Rightarrow> stream_op" where
  "media_uv_recorder_set_property env user handle target key v = stream_property env user handle target key v 0 STREAM_RECEIVE"

definition media_uv_recorder_get_property :: "uv_env \<Rightarrow> stream_user \<Rightarrow> bool \<Rightarrow> bytes option \<Rightarrow> bytes option \<Rightarrow> stream_op" where
  "media_uv_recorder_get_property env user handle target key = stream_property env user handle target key None 32 STREAM_RECEIVE_STRING"

definition media_uv_recorder_reset :: "uv_env \<Rightarrow> stream_user \<Rightarrow> stream_app \<Rightarrow> bool \<Rightarrow> stream_op" where
  "media_uv_recorder_reset env user app = stream_halt env user app ''reset''"

section \<open>Taking pictures\<close>

definition INT_MAX :: nat where "INT_MAX = 2147483647"

definition media_uv_recorder_take_picture :: "uv_env \<Rightarrow> stream_user \<Rightarrow> bool \<Rightarrow> bytes option \<Rightarrow> bytes \<Rightarrow> bytes option \<Rightarrow> bytes option
    \<Rightarrow> nat \<Rightarrow> int option \<Rightarrow> int \<Rightarrow> uv_stream \<Rightarrow> (int \<times> uv_stream) option" where
  \<comment> \<open>the recorder's cookie is the picture's block, 1\<close>
  "media_uv_recorder_take_picture env user loop cpus addr params filename number on_complete cookie st =
    (if number = 0 \<or> INT_MAX < number then Some (-EINVAL, st)
     else case next_ret st of (r, st0) \<Rightarrow>
       if r < 0 then Some (-ENOMEM, st0)
       else do {
         (ok, st1) \<leftarrow> media_uv_recorder_open env loop cpus params (Some PICTURE_OPEN_CB) 1
           (st0\<lparr>ust_picture := Some \<lparr>px_on_complete = on_complete, px_pic_cookie = cookie, px_err_code = 0\<rparr>\<rparr>);
         (if \<not> ok then Some (-EINVAL, st1\<lparr>ust_picture := None\<rparr>)
          else do {
            (r1, st2) \<leftarrow> media_uv_recorder_listen env user True (Some PICTURE_EVENT_CB) st1;
            (r2, st3) \<leftarrow> (if r1 < 0 then Some (r1, st2)
              else media_uv_recorder_prepare env user cpus addr True filename
                (Some (c_bytes (take 31 (''total_number='' @ nat_digits number)))) None 0 0 st2);
            (r3, st4) \<leftarrow> (if r2 < 0 then Some (r2, st3) else media_uv_recorder_start env user True 0 0 st3);
            (if 0 \<le> r3 then Some (r3, st4)
             else do {
               pc \<leftarrow> ust_picture st4;
               (_, st5) \<leftarrow> media_uv_recorder_take_picture_close env user False (st4\<lparr>ust_picture := Some (pc\<lparr>px_err_code := r3\<rparr>)\<rparr>);
               Some (0, st5)
             })
          })
       })"

end
