(* ===== verification/Media_Dtmf.thy ===== *)
theory Media_Dtmf
  imports Media_Prelude "HOL-Library.Word"
begin

text \<open>
  DTMF tones, \<open>client/media_dtmf.c\<close>: the fixed-point oscillators and the filling of the caller's buffer.

  A buffer is the list of the 16-bit samples it has room for; writing past its end is undefined behaviour.
  Signed shifts are arithmetic, as on the compilers the project is built with.
\<close>

unbundle bit_operations_syntax

section \<open>The oscillators\<close>

definition FRAME_SIZE :: nat where "FRAME_SIZE = 1200"
definition INITIAL_STATE :: "32 word" where "INITIAL_STATE = 31000"

definition media_dtmf_calculate_product :: "16 word \<Rightarrow> 32 word \<Rightarrow> 32 word" where
  \<comment> \<open>neither product overflows an \<open>int\<close>\<close>
  "media_dtmf_calculate_product integer_one integer_two =
    (let temp0 = word_of_int ((uint (ucast integer_two :: 16 word) * sint integer_one + 16384) div 2 ^ 15) :: 16 word;
         temp1 = word_of_int (sint (ucast (drop_bit 16 integer_two) :: 16 word) * sint integer_one) :: 32 word in
     push_bit 1 temp1 + ucast temp0)"

record dtmf_state =
  low_one :: "32 word"
  high_one :: "32 word"
  low_two :: "32 word"
  high_two :: "32 word"

primrec oscillate :: "16 word \<Rightarrow> 16 word \<Rightarrow> nat \<Rightarrow> nat \<Rightarrow> dtmf_state \<Rightarrow> 16 word list \<Rightarrow> (dtmf_state \<times> 16 word list) option" where
  \<comment> \<open>the loop, with the number of samples to go and the place of the next\<close>
  "oscillate low high 0 pos s buf = Some (s, buf)"
| "oscillate low high (Suc n) pos s buf =
    (let temp0 = media_dtmf_calculate_product low (push_bit 1 (low_one s)) - low_two s;
         temp1 = media_dtmf_calculate_product high (push_bit 1 (high_one s)) - high_two s;
         s1 = \<lparr>low_one = temp0, high_one = temp1, low_two = low_one s, high_two = high_one s\<rparr>;
         subject = word_of_int (sint low * sint high) :: 32 word;
         sum = temp0 + temp1;
         sample = (if subject \<noteq> 0 then drop_bit 1 sum else sum) in
     if pos < length buf then oscillate low high n (Suc pos) s1 (buf[pos := ucast sample]) else None)"

definition media_dtmf_frequency_oscillator :: "16 word \<Rightarrow> 16 word \<Rightarrow> nat \<Rightarrow> nat \<Rightarrow> dtmf_state \<Rightarrow> 16 word list
    \<Rightarrow> (dtmf_state \<times> 16 word list) option" where
  \<comment> \<open>\<open>pos\<close> is where \<open>buffer\<close> points to; with a count beyond an \<open>unsigned short\<close> the loop never ends\<close>
  "media_dtmf_frequency_oscillator low high pos count s buf =
    (if count < 2 ^ 16 then oscillate low high count pos s buf else None)"

section \<open>Buttons\<close>

definition freq_coeff :: "nat \<Rightarrow> 16 word" where
  "freq_coeff i = [27980, 26956, 25701, 24218, 19073, 16325, 13085, 9315] ! i"

definition button :: "char \<Rightarrow> (nat \<times> nat) option" where
  \<comment> \<open>the cases of the switch: the indices of the two coefficients\<close>
  "button c =
    (if c = CHR ''0'' then Some (3, 5) else if c = CHR ''1'' then Some (0, 4) else if c = CHR ''2'' then Some (0, 5)
     else if c = CHR ''3'' then Some (0, 6) else if c = CHR ''4'' then Some (1, 4) else if c = CHR ''5'' then Some (1, 5)
     else if c = CHR ''6'' then Some (1, 6) else if c = CHR ''7'' then Some (2, 4) else if c = CHR ''8'' then Some (2, 5)
     else if c = CHR ''9'' then Some (2, 6) else if c = CHR ''*'' then Some (3, 4) else if c = CHR ''#'' then Some (3, 6)
     else if c = CHR ''A'' then Some (0, 7) else if c = CHR ''B'' then Some (1, 7) else if c = CHR ''C'' then Some (2, 7)
     else if c = CHR ''D'' then Some (3, 7) else None)"

definition media_dtmf_generating :: "char \<Rightarrow> nat \<Rightarrow> 16 word list \<Rightarrow> 16 word list option" where
  "media_dtmf_generating c pos buf = do {
     (_, buf1) \<leftarrow> (case button c of
        Some (i, j) \<Rightarrow> media_dtmf_frequency_oscillator (freq_coeff i) (freq_coeff j) pos FRAME_SIZE
          \<lparr>low_one = scast (freq_coeff i), high_one = scast (freq_coeff j), low_two = INITIAL_STATE, high_two = INITIAL_STATE\<rparr> buf
      | None \<Rightarrow> media_dtmf_frequency_oscillator 0 0 pos FRAME_SIZE
          \<lparr>low_one = 0, high_one = 0, low_two = 0, high_two = 0\<rparr> buf);
     Some buf1
   }"

fun generate_loop :: "string \<Rightarrow> nat \<Rightarrow> 16 word list \<Rightarrow> 16 word list option" where
  "generate_loop [] i buf = Some buf"
| "generate_loop (c # cs) i buf = do {
     buf1 \<leftarrow> media_dtmf_generating c (i * FRAME_SIZE) buf;
     generate_loop cs (Suc i) buf1
   }"

definition media_dtmf_generate :: "string option \<Rightarrow> 16 word list option \<Rightarrow> (int \<times> 16 word list option) option" where
  \<comment> \<open>the characters before the NUL; NULL is None\<close>
  "media_dtmf_generate numbers buffer = (case (numbers, buffer) of
     (Some (c # cs), Some buf) \<Rightarrow> do { buf1 \<leftarrow> generate_loop (c # cs) 0 buf; Some (0, Some buf1) }
   | _ \<Rightarrow> Some (-EINVAL, buffer))"

definition media_dtmf_get_buffer_size :: "string option \<Rightarrow> int" where
  "media_dtmf_get_buffer_size numbers = (case numbers of
     Some (c # cs) \<Rightarrow> sint (of_nat (FRAME_SIZE * 2 * length (c # cs)) :: 32 word)
   | _ \<Rightarrow> -EINVAL)"

section \<open>Reference\<close>

text \<open>A product with a coefficient of 15 fractional bits, rounded to the nearest.\<close>

definition q15_product :: "int \<Rightarrow> int \<Rightarrow> int" where
  "q15_product c x = (c * x + 2 ^ 14) div 2 ^ 15"

text \<open>
  The digital resonator \<open>y(k+2) = 2 c y(k+1) - y(k)\<close>, in 32 bits, started like the code does; and the frame of a
  button, the mean of its two tones cut to 16 bits.
\<close>

fun tone :: "int \<Rightarrow> nat \<Rightarrow> 32 word" where
  "tone c 0 = INITIAL_STATE"
| "tone c (Suc 0) = word_of_int c"
| "tone c (Suc (Suc k)) = word_of_int (q15_product c (sint (2 * tone c (Suc k)))) - tone c k"

definition frame :: "char \<Rightarrow> 16 word list" where
  "frame c = (case button c of
     None \<Rightarrow> replicate FRAME_SIZE 0
   | Some (i, j) \<Rightarrow> map (\<lambda>k. ucast (drop_bit 1 (tone (sint (freq_coeff i)) k + tone (sint (freq_coeff j)) k))) [2..<FRAME_SIZE + 2])"

lemma low_product_range:
  fixes lo a :: int
  assumes "0 \<le> lo" "lo < 65536" "0 \<le> a" "a < 32768"
  shows "0 \<le> (lo * a + 16384) div 32768" "(lo * a + 16384) div 32768 < 65536"
proof -
  have "lo * a \<le> 65535 * 32767" using assms by (intro mult_mono) auto
  then have "lo * a + 16384 < 65536 * 32768" by simp
  then show "(lo * a + 16384) div 32768 < 65536" by linarith
  have "0 \<le> lo * a" using assms by simp
  then show "0 \<le> (lo * a + 16384) div 32768" by simp
qed

lemma signed_take_bit_high:
  fixes u :: int
  assumes "2 ^ n \<le> u" "u < 2 ^ Suc n"
  shows "signed_take_bit n u = u - 2 ^ Suc n"
proof -
  have "u div 2 ^ n = 1" using assms by (intro int_div_pos_eq[of _ _ _ "u - 2 ^ n"]) auto
  then have "bit u n" by (simp add: bit_iff_odd)
  moreover have "take_bit (Suc n) u = u"
    using assms by (intro take_bit_int_eq_self) (auto intro: order_trans[OF _ assms(1)])
  ultimately show ?thesis by (simp add: signed_take_bit_eq_take_bit_minus)
qed

lemma signed_take_bit_low:
  fixes u :: int
  assumes "0 \<le> u" "u < 2 ^ n"
  shows "signed_take_bit n u = u"
  using assms by (intro signed_take_bit_int_eq_self) (auto intro: order_trans[of _ 0])

lemma signed_split:
  fixes u :: int
  assumes "0 \<le> u" "u < 2 ^ 32"
  shows "signed_take_bit 31 u = signed_take_bit 15 (u div 65536) * 65536 + u mod 65536"
proof (cases "u < 2147483648")
  case True
  then have "signed_take_bit 31 u = u" "signed_take_bit 15 (u div 65536) = u div 65536"
    using assms by (auto intro!: signed_take_bit_low)
  then show ?thesis by simp
next
  case False
  then have "signed_take_bit 31 u = u - 4294967296" "signed_take_bit 15 (u div 65536) = u div 65536 - 65536"
    using assms signed_take_bit_high[of 31 u] signed_take_bit_high[of 15 "u div 65536"] by auto
  then show ?thesis using div_mult_mod_eq[of u 65536] by linarith
qed

lemma sint_split:
  "sint (b :: 32 word) = sint (ucast (drop_bit 16 b) :: 16 word) * 65536 + uint (ucast b :: 16 word)"
proof -
  have 1: "uint (ucast b :: 16 word) = uint b mod 65536" by (simp add: unsigned_ucast_eq take_bit_eq_mod)
  have d: "uint (drop_bit 16 b) = uint b div 65536" by (simp add: drop_bit_eq_div uint_div)
  have 2: "sint (ucast (drop_bit 16 b) :: 16 word) = signed_take_bit 15 (uint b div 65536)"
    by (simp add: sint_uint unsigned_ucast_eq d signed_take_bit_take_bit)
  have 3: "sint b = signed_take_bit 31 (uint b)" by (simp add: sint_uint)
  show ?thesis unfolding 1 2 3 using uint_lt2p[of b] by (intro signed_split) auto
qed

lemma product_rounds:
  assumes "0 \<le> sint a"
  shows "media_dtmf_calculate_product a b = word_of_int (q15_product (sint a) (sint b))"
proof -
  let ?hi = "sint (ucast (drop_bit 16 b) :: 16 word)" and ?lo = "uint (ucast b :: 16 word)" and ?a = "sint a"
  have a: "?a < 32768" using sint_lt[of a] by simp
  have lo: "0 \<le> ?lo" "?lo < 65536" using uint_lt2p[of "ucast b :: 16 word"] by auto
  let ?q = "(?lo * ?a + 16384) div 32768"
  have q: "0 \<le> ?q" "?q < 65536" using low_product_range[OF lo assms a] by auto
  have "q15_product ?a (sint b) = 2 * (?hi * ?a) + ?q"
    unfolding q15_product_def sint_split[of b] by (simp add: algebra_simps)
  moreover have "ucast (word_of_int ?q :: 16 word) = (word_of_int ?q :: 32 word)"
    using q by (simp add: unsigned_of_int take_bit_int_eq_self)
  ultimately show ?thesis
    by (simp add: media_dtmf_calculate_product_def Let_def push_bit_eq_mult)
qed

section \<open>Frames\<close>

definition sample :: "int \<Rightarrow> int \<Rightarrow> nat \<Rightarrow> 16 word" where
  "sample c d k = ucast (drop_bit 1 (tone c k + tone d k))"

lemma tone_step:
  assumes "0 \<le> sint a"
  shows "media_dtmf_calculate_product a (push_bit 1 (tone (sint a) (Suc k))) - tone (sint a) k = tone (sint a) (Suc (Suc k))"
  by (simp add: product_rounds[OF assms] push_bit_eq_mult mult.commute)

lemma write_one:
  "pos < length buf \<Longrightarrow> take (Suc pos) (buf[pos := x]) = take pos buf @ [x]"
  "drop (Suc pos + n) (buf[pos := x]) = drop (Suc pos + n) buf"
  by (simp_all add: take_Suc_conv_app_nth)

lemma oscillate_tones:
  assumes "0 \<le> sint a" "0 \<le> sint b" "(word_of_int (sint a * sint b) :: 32 word) \<noteq> 0" "pos + n \<le> length buf"
  shows "\<exists>s'. oscillate a b n pos \<lparr>low_one = tone (sint a) (Suc k), high_one = tone (sint b) (Suc k),
      low_two = tone (sint a) k, high_two = tone (sint b) k\<rparr> buf
    = Some (s', take pos buf @ map (sample (sint a) (sint b)) [k + 2..<k + 2 + n] @ drop (pos + n) buf)"
  using assms(4)
proof (induction n arbitrary: pos k buf)
  case (Suc n)
  let ?v = "sample (sint a) (sint b) (Suc (Suc k))"
  have up: "[k + 2..<k + 2 + Suc n] = Suc (Suc k) # [Suc k + 2..<Suc k + 2 + n]" by (subst upt_conv_Cons) (simp_all del: upt_Suc)
  from Suc.prems have pos: "pos < length buf" "Suc pos + n \<le> length (buf[pos := ?v])" by simp_all
  show ?case
    using Suc.IH[OF pos(2), of "Suc k"] pos(1) assms(3)
    unfolding oscillate.simps Let_def tone_step[OF assms(1)] tone_step[OF assms(2)] dtmf_state.simps up write_one(1)[OF pos(1)] write_one(2)
    by (simp add: sample_def del: upt_Suc tone.simps)
qed simp

lemma oscillate_silence:
  assumes "pos + n \<le> length buf"
  shows "oscillate 0 0 n pos \<lparr>low_one = 0, high_one = 0, low_two = 0, high_two = 0\<rparr> buf
    = Some (\<lparr>low_one = 0, high_one = 0, low_two = 0, high_two = 0\<rparr>, take pos buf @ replicate n 0 @ drop (pos + n) buf)"
  using assms
proof (induction n arbitrary: pos buf)
  case (Suc n)
  have z: "media_dtmf_calculate_product 0 (push_bit 1 0) - 0 = 0"
    by (simp add: product_rounds q15_product_def)
  from Suc.prems have pos: "pos < length buf" "Suc pos + n \<le> length (buf[pos := 0])" by simp_all
  show ?case using Suc.IH[OF pos(2)] pos(1) unfolding oscillate.simps Let_def dtmf_state.simps z write_one(1)[OF pos(1)] write_one(2)
    by simp
qed simp

lemma button_coeffs:
  "button c = Some (i, j) \<Longrightarrow> 0 \<le> sint (freq_coeff i) \<and> 0 \<le> sint (freq_coeff j)
    \<and> (word_of_int (sint (freq_coeff i) * sint (freq_coeff j)) :: 32 word) \<noteq> 0"
  by (auto simp: button_def freq_coeff_def split: if_splits)

lemma length_frame [simp]: "length (frame c) = FRAME_SIZE"
  by (auto simp: frame_def simp del: upt_Suc split: option.split)

lemma FRAME_SIZE_short: "FRAME_SIZE < 65536"
  by (simp add: FRAME_SIZE_def)

lemma generating_frame:
  assumes "pos + FRAME_SIZE \<le> length buf"
  shows "media_dtmf_generating c pos buf = Some (take pos buf @ frame c @ drop (pos + FRAME_SIZE) buf)"
proof (cases "button c")
  case None
  then show ?thesis
    by (simp add: media_dtmf_generating_def media_dtmf_frequency_oscillator_def oscillate_silence[OF assms] frame_def FRAME_SIZE_short)
next
  case (Some ij)
  obtain i j where ij: "button c = Some (i, j)" using Some by (cases ij) auto
  note co = button_coeffs[OF ij]
  have st: "\<lparr>low_one = scast (freq_coeff i), high_one = scast (freq_coeff j), low_two = INITIAL_STATE, high_two = INITIAL_STATE\<rparr>
      = \<lparr>low_one = tone (sint (freq_coeff i)) (Suc 0), high_one = tone (sint (freq_coeff j)) (Suc 0),
         low_two = tone (sint (freq_coeff i)) 0, high_two = tone (sint (freq_coeff j)) 0\<rparr>" by simp
  have s: "map (sample (sint (freq_coeff i)) (sint (freq_coeff j))) [0 + 2..<0 + 2 + FRAME_SIZE] = frame c"
    by (simp add: frame_def ij sample_def[abs_def] add.commute[of FRAME_SIZE] numeral_2_eq_2 del: upt_Suc)
  show ?thesis
    using oscillate_tones[OF conjunct1[OF co] conjunct1[OF conjunct2[OF co]] conjunct2[OF conjunct2[OF co]] assms, of 0] unfolding s
    unfolding media_dtmf_generating_def media_dtmf_frequency_oscillator_def ij st by (auto simp: FRAME_SIZE_short)
qed

lemma generate_frames:
  assumes "(i + length cs) * FRAME_SIZE \<le> length buf"
  shows "generate_loop cs i buf
    = Some (take (i * FRAME_SIZE) buf @ concat (map frame cs) @ drop ((i + length cs) * FRAME_SIZE) buf)"
  using assms
proof (induction cs arbitrary: i buf)
  case (Cons c cs)
  have l: "i * FRAME_SIZE + FRAME_SIZE \<le> length buf" "(Suc i + length cs) * FRAME_SIZE \<le> length buf"
    using Cons.prems by (simp_all add: algebra_simps)
  let ?b = "take (i * FRAME_SIZE) buf @ frame c @ drop (i * FRAME_SIZE + FRAME_SIZE) buf"
  have lb: "(Suc i + length cs) * FRAME_SIZE \<le> length ?b" using l by simp
  have tk: "take (Suc i * FRAME_SIZE) ?b = take (i * FRAME_SIZE) buf @ frame c" using l(1) by simp
  have dr: "drop ((Suc i + length cs) * FRAME_SIZE) ?b = drop ((i + length (c # cs)) * FRAME_SIZE) buf"
    using l(1) by (simp add: algebra_simps)
  show ?case unfolding generate_loop.simps generating_frame[OF l(1)] using Cons.IH[OF lb] unfolding tk dr by simp
qed simp

lemma small_sint: "n < 2 ^ 31 \<Longrightarrow> sint (of_nat n :: 32 word) = int n"
  by (simp add: signed_of_nat signed_take_bit_int_eq_self)

text \<open>C33: Generating the tones of a dial string fills the caller's buffer with one frame per character and leaves the
  rest of it alone: each frame holds the mean of the two resonators of the button, computed with products rounded
  to the nearest as the reference does, and silence for a character that is no button. A buffer of the size
  \<open>media_dtmf_get_buffer_size\<close> returns (no more than an \<open>int\<close> can count) is enough.\<close>

theorem dtmf_generate_exact:
  assumes "numbers \<noteq> []" "FRAME_SIZE * 2 * length numbers < 2 ^ 31" "media_dtmf_get_buffer_size (Some numbers) \<le> int (2 * length buf)"
  shows "media_dtmf_generate (Some numbers) (Some buf)
    = Some (0, Some (concat (map frame numbers) @ drop (length numbers * FRAME_SIZE) buf))"
proof -
  obtain c cs where n: "numbers = c # cs" using assms(1) by (cases numbers) auto
  have "media_dtmf_get_buffer_size (Some numbers) = int (FRAME_SIZE * 2 * length numbers)"
    using small_sint[OF assms(2)] unfolding n media_dtmf_get_buffer_size_def by simp
  then have "int (FRAME_SIZE * 2 * length numbers) \<le> int (2 * length buf)" using assms(3) by argo
  then have "(0 + length numbers) * FRAME_SIZE \<le> length buf" unfolding of_nat_le_iff by (simp add: mult.commute)
  from generate_frames[OF this] show ?thesis by (simp add: media_dtmf_generate_def n)
qed

theorem dtmf_generate_exact_witness:
  "\<exists>out. media_dtmf_generate (Some ''5#'') (Some (replicate 2401 7)) = Some (0, Some (frame CHR ''5'' @ frame CHR ''#'' @ [out]))"
  using dtmf_generate_exact[of "''5#''" "replicate 2401 7"]
  by (simp add: media_dtmf_get_buffer_size_def FRAME_SIZE_def drop_replicate)

end
