(* ===== verification/Media_Daemon.thy ===== *)
theory Media_Daemon
  imports Media_Stub Media_Graph
begin

text \<open>
  The daemon, \<open>server/media_daemon.c\<close>: the table of the modules, their creation, and the main loop, which
  gathers the descriptors of the graph and of the server, polls them, hands every event to the module it
  came from, and runs the graph once.

  The modules' state is \<open>'w\<close>: the graph and the rest. What \<open>poll\<close> finds, and the socket operations of an
  event that is handled, are an input of each round. A failed assertion, which aborts the daemon, is
  \<open>Some None\<close>; \<open>None\<close> is undefined behaviour.
\<close>

section \<open>The table of modules\<close>

record poll_result =
  pr_revents :: revents
  pr_accept :: int
  pr_received :: "recv_event list"

type_synonym pollfd_entry = "int \<times> nat option"

record 'w media_poll =
  poll_name :: string
  poll_handle :: "nat option"
  poll_get :: "(media_server_priv \<Rightarrow> 'w \<Rightarrow> int \<Rightarrow> (int \<times> pollfd_entry list \<times> 'w) option) option"
  poll_available :: "(int \<Rightarrow> nat option \<Rightarrow> poll_result \<Rightarrow> media_server_priv \<Rightarrow> 'w \<Rightarrow> (int \<times> media_server_priv \<times> 'w) option) option"
  poll_run_once :: "(media_server_priv \<Rightarrow> 'w \<Rightarrow> (int \<times> media_server_priv \<times> 'w) option) option"

type_synonym ('x, 'r) media_world = "'x media_graph_priv \<times> 'r"

record ('x, 'r) daemon_env =
  de_alloc :: allocator
  de_narrow :: "64 word \<Rightarrow> 32 word"
  de_net :: "sock_addr \<Rightarrow> int"
  de_cpu :: bytes
  de_modules :: "('x, 'r) media_world modules"
  de_graph :: "'x graph_env"
  de_config :: "bool \<times> bool \<times> bool"

definition passive_row :: "string \<Rightarrow> 'w media_poll" where
  \<comment> \<open>a module that is only created and destroyed\<close>
  "passive_row name = \<lparr>poll_name = name, poll_handle = None, poll_get = None, poll_available = None, poll_run_once = None\<rparr>"

definition graph_row :: "('x, 'r) daemon_env \<Rightarrow> ('x, 'r) media_world media_poll" where
  "graph_row env = \<lparr>poll_name = ''media_graph'', poll_handle = None,
     poll_get = Some (\<lambda>s (g, w) count. do {
       (ret, fds, g1) \<leftarrow> media_graph_get_pollfds (de_graph env) True count g;
       Some (ret, fds, (g1, w))
     }),
     poll_available = Some (\<lambda>fd cookie r s (g, w). do {
       (ret, s1, g1) \<leftarrow> media_graph_poll_available (de_graph env) (Some fd) cookie s g;
       Some (ret, s1, (g1, w))
     }),
     poll_run_once = Some (\<lambda>s (g, w). do {
       (ret, s1, g1) \<leftarrow> media_graph_run_once (de_graph env) s g;
       Some (ret, s1, (g1, w))
     })\<rparr>"

definition server_row :: "('x, 'r) daemon_env \<Rightarrow> ('x, 'r) media_world media_poll" where
  "server_row env = \<lparr>poll_name = ''media_server'', poll_handle = None,
     poll_get = Some (\<lambda>s w count. do { (ret, fds) \<leftarrow> media_server_get_pollfds (Some s) count; Some (ret, fds, w) }),
     poll_available = Some (\<lambda>fd cookie r s w. media_server_poll_available (de_alloc env) (de_net env) (de_cpu env)
       (media_stub_onreceive (de_alloc env) (de_narrow env) (de_modules env)) fd (pr_revents r) (pr_accept r) cookie s w (pr_received r)),
     poll_run_once = None\<rparr>"

definition g_media :: "('x, 'r) daemon_env \<Rightarrow> ('x, 'r) media_world media_poll list" where
  \<comment> \<open>the configurations: focus, ffmpeg, the parameter framework\<close>
  "g_media env = (case de_config env of (focus, ffmpeg, pfw) \<Rightarrow>
     (if focus then [passive_row ''media_focus''] else [])
     @ (if ffmpeg then [graph_row env, passive_row ''media_session''] else [])
     @ (if pfw then [passive_row ''media_policy''] else [])
     @ [server_row env])"

definition media_get_handle :: "'w media_poll list \<Rightarrow> string \<Rightarrow> nat option" where
  "media_get_handle rows name = (case filter (\<lambda>r. poll_name r = name) rows of [] \<Rightarrow> None | r # _ \<Rightarrow> poll_handle r)"

definition media_get_focus :: "'w media_poll list \<Rightarrow> nat option" where
  "media_get_focus rows = media_get_handle rows ''media_focus''"

definition media_get_graph :: "'w media_poll list \<Rightarrow> nat option" where
  "media_get_graph rows = media_get_handle rows ''media_graph''"

definition media_get_policy :: "'w media_poll list \<Rightarrow> nat option" where
  "media_get_policy rows = media_get_handle rows ''media_policy''"

definition media_get_session :: "'w media_poll list \<Rightarrow> nat option" where
  "media_get_session rows = media_get_handle rows ''media_session''"

definition media_get_server :: "'w media_poll list \<Rightarrow> nat option" where
  "media_get_server rows = media_get_handle rows ''media_server''"

fun create_modules :: "(string \<Rightarrow> nat option) \<Rightarrow> 'w media_poll list \<Rightarrow> 'w media_poll list \<times> bool" where
  \<comment> \<open>\<open>create\<close> gives the result of a module's function by its name; the rest is not created after a failure\<close>
  "create_modules create [] = ([], True)"
| "create_modules create (r # rs) =
     (let r1 = r\<lparr>poll_handle := create (poll_name r)\<rparr> in
      if poll_handle r1 = None then (r1 # rs, False)
      else let (rs1, ok) = create_modules create rs in (r1 # rs1, ok))"

section \<open>One round of the main loop\<close>

fun gather_pollfds :: "int \<Rightarrow> nat \<Rightarrow> 'w media_poll list \<Rightarrow> (nat \<times> pollfd_entry) list \<Rightarrow> media_server_priv \<Rightarrow> 'w
    \<Rightarrow> ((nat \<times> pollfd_entry) list \<times> 'w) option" where
  \<comment> \<open>the entries are those of \<open>idx\<close>, \<open>fds\<close> and \<open>ctx\<close>, \<open>i\<close> the index of the row\<close>
  "gather_pollfds lim i [] acc s w = Some (acc, w)"
| "gather_pollfds lim i (r # rs) acc s w = (case poll_get r of
     None \<Rightarrow> gather_pollfds lim (Suc i) rs acc s w
   | Some get \<Rightarrow> do {
       (ret, fds, w1) \<leftarrow> get s w (lim - int (length acc));
       (if ret < 0 then gather_pollfds lim (Suc i) rs acc s w1
        else if nat ret \<le> length fds then gather_pollfds lim (Suc i) rs (acc @ map (Pair i) (take (nat ret) fds)) s w1
        else None)
     })"

definition no_revents :: "revents \<Rightarrow> bool" where
  "no_revents v \<longleftrightarrow> \<not> pollin v \<and> \<not> pollerr v \<and> \<not> pollhup v"

fun dispatch_events :: "'w media_poll list \<Rightarrow> (nat \<Rightarrow> poll_result) \<Rightarrow> nat \<Rightarrow> (nat \<times> pollfd_entry) list
    \<Rightarrow> media_server_priv \<Rightarrow> 'w \<Rightarrow> (media_server_priv \<times> 'w) option" where
  \<comment> \<open>\<open>k\<close> is the index of the entry, by which \<open>res\<close> gives what \<open>poll\<close> found\<close>
  "dispatch_events rows res k [] s w = Some (s, w)"
| "dispatch_events rows res k ((i, fd, ctx) # es) s w =
     (if no_revents (pr_revents (res k)) then dispatch_events rows res (Suc k) es s w
      else do {
        f \<leftarrow> (if i < length rows then poll_available (rows ! i) else None);
        (_, s1, w1) \<leftarrow> f fd ctx (res k) s w;
        dispatch_events rows res (Suc k) es s1 w1
      })"

fun run_modules :: "'w media_poll list \<Rightarrow> media_server_priv \<Rightarrow> 'w \<Rightarrow> (media_server_priv \<times> 'w) option" where
  "run_modules [] s w = Some (s, w)"
| "run_modules (r # rs) s w = (case poll_run_once r of
     None \<Rightarrow> run_modules rs s w
   | Some f \<Rightarrow> do { (_, s1, w1) \<leftarrow> f s w; run_modules rs s1 w1 })"

definition daemon_round :: "int \<Rightarrow> 'w media_poll list \<Rightarrow> (nat \<Rightarrow> poll_result) \<Rightarrow> media_server_priv \<Rightarrow> 'w
    \<Rightarrow> (media_server_priv \<times> 'w) option option" where
  "daemon_round lim rows res s w = do {
     (entries, w1) \<leftarrow> gather_pollfds lim 0 rows [] s w;
     (if 0 < length entries \<and> int (length entries) < lim
      then do {
        (s2, w2) \<leftarrow> dispatch_events rows res 0 entries s w1;
        (s3, w3) \<leftarrow> run_modules rows s2 w2;
        Some (Some (s3, w3))
      }
      else Some None)
   }"

fun daemon_rounds :: "int \<Rightarrow> 'w media_poll list \<Rightarrow> (nat \<Rightarrow> poll_result) list \<Rightarrow> media_server_priv \<Rightarrow> 'w
    \<Rightarrow> (media_server_priv \<times> 'w) option option" where
  \<comment> \<open>the endless loop, as far as \<open>poll\<close> has returned\<close>
  "daemon_rounds lim rows [] s w = Some (Some (s, w))"
| "daemon_rounds lim rows (res # rest) s w = do {
     out \<leftarrow> daemon_round lim rows res s w;
     (case out of None \<Rightarrow> Some None | Some (s1, w1) \<Rightarrow> daemon_rounds lim rows rest s1 w1)
   }"

definition main :: "('x, 'r) daemon_env \<Rightarrow> int \<Rightarrow> bool \<Rightarrow> (string \<Rightarrow> nat option) \<Rightarrow> (nat \<Rightarrow> poll_result) list
    \<Rightarrow> media_server_priv \<Rightarrow> ('x, 'r) media_world \<Rightarrow> (int + (media_server_priv \<times> ('x, 'r) media_world) option) option" where
  \<comment> \<open>whether there is memory, the modules created; the exit status or the state while the loop runs\<close>
  "main env lim mem create results s w =
    (if \<not> mem then Some (Inl (-ENOMEM))
     else case create_modules create (g_media env) of (rows, ok) \<Rightarrow>
       if \<not> ok then Some (Inl (-EINVAL))
       else map_option Inr (daemon_rounds lim rows results s w))"

end
