(* ===== verification/Daemon_Facts.thy ===== *)
theory Daemon_Facts
  imports Media_Daemon Graph_Facts
begin

text \<open>
  What a round of the daemon's main loop does: every event goes to the connection whose descriptor was
  polled, and the arrays given to \<open>poll\<close> hold what the modules report, without overflow.
\<close>

section \<open>Who changes the transport sockets\<close>

definition transports :: "media_server_priv \<Rightarrow> int list" where
  "transports s = map tran_fd (conns s)"

definition call_keeps :: "'w served_call \<Rightarrow> bool" where
  "call_keeps f \<longleftrightarrow> (\<forall>s w r b s1 w1. f s w = Some (r, b, s1, w1) \<longrightarrow> transports s1 = transports s)"

text \<open>The promise of the modules: a handler leaves the transport sockets alone.\<close>

definition modules_keep :: "'w modules \<Rightarrow> bool" where
  "modules_keep h \<longleftrightarrow>
     (\<forall>f c t m a p b n. policy_handler h = Some f \<longrightarrow> call_keeps (f c t m a p b n))
   \<and> (\<forall>f c t m b n. focus_handler h = Some f \<longrightarrow> call_keeps (f c t m b n))
   \<and> (\<forall>f t m a b n. graph_handler h = Some f \<longrightarrow> call_keeps (f t m a b n))
   \<and> (\<forall>f c t m a b n. player_handler h = Some f \<longrightarrow> call_keeps (f c t m a b n))
   \<and> (\<forall>f c t m a b n. recorder_handler h = Some f \<longrightarrow> call_keeps (f c t m a b n))
   \<and> (\<forall>f c t m a b n. session_handler h = Some f \<longrightarrow> call_keeps (f c t m a b n))"

lemma call_keepsD: "call_keeps f \<Longrightarrow> f s w = Some (r, b, s1, w1) \<Longrightarrow> transports s1 = transports s"
  unfolding call_keeps_def by blast

lemma modules_keepD:
  "modules_keep h \<Longrightarrow> policy_handler h = Some f1 \<Longrightarrow> f1 c t m a p b n s w = Some (r, x, s1, w1) \<Longrightarrow> transports s1 = transports s"
  "modules_keep h \<Longrightarrow> focus_handler h = Some f2 \<Longrightarrow> f2 c t m b n s w = Some (r, x, s1, w1) \<Longrightarrow> transports s1 = transports s"
  "modules_keep h \<Longrightarrow> graph_handler h = Some f3 \<Longrightarrow> f3 t m a b n s w = Some (r, x, s1, w1) \<Longrightarrow> transports s1 = transports s"
  "modules_keep h \<Longrightarrow> player_handler h = Some f4 \<Longrightarrow> f4 c t m a b n s w = Some (r, x, s1, w1) \<Longrightarrow> transports s1 = transports s"
  "modules_keep h \<Longrightarrow> recorder_handler h = Some f4 \<Longrightarrow> f4 c t m a b n s w = Some (r, x, s1, w1) \<Longrightarrow> transports s1 = transports s"
  "modules_keep h \<Longrightarrow> session_handler h = Some f4 \<Longrightarrow> f4 c t m a b n s w = Some (r, x, s1, w1) \<Longrightarrow> transports s1 = transports s"
  unfolding modules_keep_def call_keeps_def by metis+

lemma transports_length: "transports s1 = transports s \<Longrightarrow> length (conns s1) = length (conns s)"
  unfolding transports_def by (metis length_map)

lemma transports_conn: "transports s1 = transports s \<Longrightarrow> j < length (conns s) \<Longrightarrow> tran_fd (conn s1 j) = tran_fd (conn s j)"
  unfolding transports_def conn_def by (metis length_map nth_map)

lemma transports_set_conn: "tran_fd c = tran_fd (conn s j) \<Longrightarrow> transports (set_conn j c s) = transports s"
  by (cases "j < length (conns s)") (simp_all add: transports_def set_conn_def conn_def map_update list_update_same_conv list_update_beyond)

lemma transports_other: "i \<noteq> j \<Longrightarrow> tran_fd (conn (set_conn j c s) i) = tran_fd (conn s i)"
  by (simp add: conn_def set_conn_def)

lemma transports_send: "net_send fd code p s = Some (r, s1) \<Longrightarrow> transports s1 = transports s"
  by (auto simp: net_send_def transports_def Let_def bind_eq_Some_conv split: prod.splits list.splits)

lemma transports_fields [simp]: "transports (s\<lparr>wire := v\<rparr>) = transports s" "transports (s\<lparr>sends := e\<rparr>) = transports s"
  by (simp_all add: transports_def)

lemma finalize_keeps: "transports (fst (media_stub_notify_finalize s c)) = transports s"
  by (auto simp: media_stub_notify_finalize_def media_server_finalize_def transports_set_conn split: option.split)

lemma finalize_keeps_eq: "media_stub_notify_finalize s c = (s1, d) \<Longrightarrow> transports s1 = transports s"
  using finalize_keeps[of s c] by simp

lemma notify_keeps: "media_stub_notify_event alloc narrow s c e r x = Some s1 \<Longrightarrow> transports s1 = transports s"
  by (auto simp: media_stub_notify_event_def media_server_notify_def bind_eq_Some_conv split: option.splits if_splits
      dest: transports_send)

lemma stub_keeps:
  assumes "modules_keep h" "media_stub_onreceive alloc narrow h j p out s w = Some (a, s1, w1)"
  shows "transports s1 = transports s"
proof -
  from assms(2) obtain v q ret resp where "stub_switch alloc h j v q s w = Some (ret, resp, s1, w1)"
    by (auto simp: media_stub_onreceive_def bind_eq_Some_conv split: option.splits)
  with assms(1) show ?thesis unfolding stub_switch_def
    by (auto simp: Let_def bind_eq_Some_conv split: if_splits option.splits dest: modules_keepD)
qed

lemma ctx_status_keeps:
  "modules_keep (gv_modules env) \<Longrightarrow> ctx_status env cookie active s g = Some (s1, g1) \<Longrightarrow> transports s1 = transports s"
  by (auto simp: ctx_status_def media_stub_set_stream_status_def bind_eq_Some_conv split: option.splits if_splits dest: modules_keepD)

lemma common_notify_keeps: "media_common_notify_cb env ev s g = Some (s1, g1) \<Longrightarrow> transports s1 = transports s"
  by (auto simp: media_common_notify_cb_def bind_eq_Some_conv split: prod.splits if_splits dest: notify_keeps)

lemma event_keeps:
  assumes "modules_keep (gv_modules env)" "media_common_event_cb env ev s g = Some (s1, g1)"
  shows "transports s1 = transports s"
proof -
  obtain cookie event result extra where ev: "ev = (cookie, event, result, extra)" by (metis prod_cases4)
  show ?thesis using assms(2) unfolding media_common_event_cb_def ev
    by (auto simp: bind_eq_Some_conv Let_def split: if_split_asm prod.split_asm dest!: common_notify_keeps ctx_status_keeps[OF assms(1)])
      (metis finalize_keeps_eq surj_pair)
qed

lemma deliver_keeps:
  "modules_keep (gv_modules env) \<Longrightarrow> deliver_events env es s g = Some (s1, g1) \<Longrightarrow> transports s1 = transports s"
proof (induction es arbitrary: s g)
  case (Cons e es)
  then show ?case by (auto simp: bind_eq_Some_conv dest!: event_keeps)
qed simp

lemma graph_poll_keeps:
  "modules_keep (gv_modules env) \<Longrightarrow> media_graph_poll_available env fd c s g = Some (r, s1, g1) \<Longrightarrow> transports s1 = transports s"
  by (auto simp: media_graph_poll_available_def bind_eq_Some_conv split: option.splits prod.splits if_splits dest: deliver_keeps)

section \<open>The server's side of an event\<close>

text \<open>Receiving on a connection may close it, and leaves the others' transports alone.\<close>

lemma dispatch_keeps:
  assumes "modules_keep h" "server_dispatch net cpu (media_stub_onreceive alloc narrow h) j s w = Some (s1, w1)"
  shows "transports s1 = transports s"
  using assms(2) unfolding server_dispatch_def
  by (auto simp: Let_def bind_eq_Some_conv transports_set_conn split: if_splits dest!: stub_keeps[OF assms(1)] transports_send)

lemma receive_loop_keeps:
  assumes "modules_keep h"
    "receive_loop alloc net cpu (media_stub_onreceive alloc narrow h) j s w evs = Some (r, s1, w1, evs1)"
  shows "transports s1 = transports s"
proof -
  have "out = (r, s1, w1, evs1) \<Longrightarrow> on = media_stub_onreceive alloc0 narrow h \<Longrightarrow> transports s1 = transports s"
    if "receive_loop alloc net cpu on j s w evs = Some out" for alloc net cpu on s w evs out alloc0 r s1 w1 evs1
    using that
  proof (induction arbitrary: r s1 w1 evs1 rule: receive_loop.raw_induct[rotated 1, consumes 1, case_names step])
    case (step rec alloc net cpu on j s w evs out)
    obtain ret p off evs2 where p: "media_parcel_recv alloc (parcel (conn s j)) (Some (offset (conn s j))) evs = Some (ret, p, off, evs2)"
      using step(2) by (auto split: option.splits)
    let ?s = "set_conn j ((conn s j)\<lparr>parcel := p, offset := off\<rparr>) s"
    have s: "transports ?s = transports s" by (simp add: transports_set_conn)
    show ?case
    proof (cases "ret < 0")
      case True
      then show ?thesis using step(2,3) p s by simp
    next
      case False
      then obtain s2 w2 p3 where d: "server_dispatch net cpu on j ?s w = Some (s2, w2)"
        "rec alloc net cpu on j (set_conn j ((conn s2 j)\<lparr>parcel := p3, offset := 0\<rparr>) s2) w2 evs2 = Some out"
        using step(2) p by (auto simp: Let_def split: option.splits)
      have "transports s2 = transports s" using dispatch_keeps[OF assms(1)] d(1) step(4) s by simp
      then show ?thesis using step(1)[OF d(2) step(3,4)] by (simp add: transports_set_conn)
    qed
  qed
  then show ?thesis using assms(2) by blast
qed

lemma conn_close_other: "i \<noteq> j \<Longrightarrow> tran_fd (conn (media_server_conn_close j s) i) = tran_fd (conn s i)"
  by (simp add: media_server_conn_close_def transports_other)

lemma receive_keeps:
  assumes "modules_keep h" "media_server_receive alloc net cpu (media_stub_onreceive alloc narrow h) fd revs j s w evs = Some (r, s1, w1)"
  shows "length (conns s1) = length (conns s) \<and> (\<forall>i<length (conns s). i \<noteq> j \<longrightarrow> tran_fd (conn s1 i) = tran_fd (conn s i))"
proof -
  have close: "length (conns (media_server_conn_close j t)) = length (conns t)" for t
    by (simp add: media_server_conn_close_def set_conn_def)
  have loop: "length (conns t) = length (conns s) \<and> (\<forall>i<length (conns s). tran_fd (conn t i) = tran_fd (conn s i))"
    if "receive_loop alloc net cpu (media_stub_onreceive alloc narrow h) j s w evs = Some (ret, t, v, rest)" for ret t v rest
    using receive_loop_keeps[OF assms(1) that] transports_length transports_conn by metis
  show ?thesis using assms(2) unfolding media_server_receive_def
    by (auto simp: bind_eq_Some_conv close conn_close_other split: if_split_asm dest!: loop)
qed

text \<open>Accepting takes a slot that has no transport.\<close>

lemma accept_loop_keeps:
  "accept_loop cs fd = Some (ok, cs1) \<Longrightarrow> length cs1 = length cs \<and> (\<forall>i<length cs. 0 < tran_fd (cs ! i) \<longrightarrow> tran_fd (cs1 ! i) = tran_fd (cs ! i))"
proof (induction cs arbitrary: ok cs1)
  case (Cons c cs)
  then show ?case
    by (fastforce simp: bind_eq_Some_conv media_server_conn_init_def Let_def nth_Cons' split: if_split_asm)
qed simp

lemma accept_keeps:
  assumes "media_server_accept fd any new_fd s = Some (r, s1)"
  shows "length (conns s1) = length (conns s) \<and> (\<forall>i<length (conns s). 0 < tran_fd (conn s i) \<longrightarrow> tran_fd (conn s1 i) = tran_fd (conn s i))"
  using assms unfolding media_server_accept_def conn_def
  by (auto simp: bind_eq_Some_conv split: if_split_asm dest!: accept_loop_keeps)

section \<open>A round delivers every event to its connection\<close>

text \<open>The reference: an event is refused when the connection it was polled for has another transport by now.\<close>

definition current :: "'w media_poll list \<Rightarrow> nat \<Rightarrow> int \<Rightarrow> nat option \<Rightarrow> media_server_priv \<Rightarrow> bool" where
  "current rows i fd ctx s \<longleftrightarrow> (case ctx of
     None \<Rightarrow> True
   | Some j \<Rightarrow> poll_name (rows ! i) = ''media_server'' \<longrightarrow> j < length (conns s) \<and> 0 < fd \<and> tran_fd (conn s j) = fd)"

fun dispatch_current :: "'w media_poll list \<Rightarrow> (nat \<Rightarrow> poll_result) \<Rightarrow> nat \<Rightarrow> (nat \<times> pollfd_entry) list
    \<Rightarrow> media_server_priv \<Rightarrow> 'w \<Rightarrow> (media_server_priv \<times> 'w) option" where
  "dispatch_current rows res k [] s w = Some (s, w)"
| "dispatch_current rows res k ((i, fd, ctx) # es) s w =
     (if no_revents (pr_revents (res k)) then dispatch_current rows res (Suc k) es s w
      else if \<not> current rows i fd ctx s then None
      else do {
        f \<leftarrow> (if i < length rows then poll_available (rows ! i) else None);
        (_, s1, w1) \<leftarrow> f fd ctx (res k) s w;
        dispatch_current rows res (Suc k) es s1 w1
      })"

text \<open>The entries to come are those of open connections, each one once.\<close>

definition pending_ok :: "'w media_poll list \<Rightarrow> (nat \<times> pollfd_entry) list \<Rightarrow> media_server_priv \<Rightarrow> bool" where
  "pending_ok rows es s \<longleftrightarrow> (\<forall>(i, fd, ctx)\<in>set es. current rows i fd ctx s)
     \<and> distinct (map (\<lambda>(i, fd, ctx). ctx) (filter (\<lambda>(i, fd, ctx). poll_name (rows ! i) = ''media_server'' \<and> ctx \<noteq> None) es))"

text \<open>What an event of a row may do: that of the server's connection \<open>j\<close> touches its transport only, any other none that is open.\<close>

definition row_keeps :: "'w media_poll \<Rightarrow> bool" where
  "row_keeps r \<longleftrightarrow> (\<forall>f fd ctx q s w x s1 w1. poll_available r = Some f \<longrightarrow> f fd ctx q s w = Some (x, s1, w1) \<longrightarrow>
     length (conns s1) = length (conns s) \<and> (\<forall>i<length (conns s). 0 < tran_fd (conn s i) \<longrightarrow>
       (poll_name r = ''media_server'' \<longrightarrow> ctx \<noteq> Some i) \<longrightarrow> tran_fd (conn s1 i) = tran_fd (conn s i)))"

lemma dispatch_delivers:
  assumes "\<forall>r\<in>set rows. row_keeps r" "pending_ok rows es s"
  shows "dispatch_events rows res k es s w = dispatch_current rows res k es s w"
  using assms(2)
proof (induction es arbitrary: k s w)
  case (Cons e es)
  obtain i fd ctx where e: "e = (i, fd, ctx)" by (metis prod_cases3)
  have tl: "pending_ok rows es s" and cur: "current rows i fd ctx s" using Cons.prems by (auto simp: pending_ok_def e split: if_splits)
  have next_ok: "pending_ok rows es s1"
    if i: "i < length rows" and f: "poll_available (rows ! i) = Some f" and r: "f fd ctx (res k) s w = Some (x, s1, w1)" for f x s1 w1
  proof -
    have "row_keeps (rows ! i)" using assms(1) i by simp
    from this[unfolded row_keeps_def, rule_format, OF f r] have k: "length (conns s1) = length (conns s)"
      "\<And>j. j < length (conns s) \<Longrightarrow> 0 < tran_fd (conn s j) \<Longrightarrow> (poll_name (rows ! i) = ''media_server'' \<longrightarrow> ctx \<noteq> Some j)
        \<Longrightarrow> tran_fd (conn s1 j) = tran_fd (conn s j)" by blast+
    have "current rows i' fd' ctx' s1" if m: "(i', fd', ctx') \<in> set es" for i' fd' ctx'
    proof (cases ctx')
      case None
      then show ?thesis by (simp add: current_def)
    next
      case (Some j)
      have old: "current rows i' fd' ctx' s" using tl m by (auto simp: pending_ok_def)
      show ?thesis
      proof (cases "poll_name (rows ! i') = ''media_server''")
        case True
        have "poll_name (rows ! i) = ''media_server'' \<longrightarrow> ctx \<noteq> Some j"
          using Cons.prems m True Some by (force simp: pending_ok_def e)
        then show ?thesis using old k True Some by (simp add: current_def)
      qed (simp add: current_def Some)
    qed
    then show ?thesis using tl by (auto simp: pending_ok_def)
  qed
  show ?case
    using Cons.IH[OF tl] Cons.IH[OF next_ok] cur
    by (cases "i < length rows"; cases "poll_available (rows ! i)") (auto simp: e intro!: bind_option_cong)
qed simp

section \<open>The rows of the table\<close>

lemma server_row_keeps:
  assumes "modules_keep (de_modules env)"
  shows "row_keeps (server_row env)"
  unfolding row_keeps_def server_row_def media_server_poll_available_def
  by (auto simp: bind_eq_Some_conv split: option.split_asm dest!: receive_keeps[OF assms] accept_keeps)

lemma graph_row_keeps: "modules_keep (gv_modules (de_graph env)) \<Longrightarrow> row_keeps (graph_row env)"
  unfolding row_keeps_def graph_row_def
  by (auto simp: bind_eq_Some_conv dest!: graph_poll_keeps dest: transports_length transports_conn)

lemma passive_row_keeps: "row_keeps (passive_row name)"
  by (simp add: row_keeps_def passive_row_def)

lemma g_media_keeps:
  "modules_keep (de_modules env) \<Longrightarrow> modules_keep (gv_modules (de_graph env)) \<Longrightarrow> \<forall>r\<in>set (g_media env). row_keeps r"
  by (auto simp: g_media_def server_row_keeps graph_row_keeps passive_row_keeps split: prod.split)

lemma row_keeps_handle: "row_keeps (r\<lparr>poll_handle := h\<rparr>) = row_keeps r"
  by (simp add: row_keeps_def)

text \<open>Creation changes nothing but the handles.\<close>

lemma create_modules_rows:
  "create_modules create rows = (rows1, ok) \<Longrightarrow> map (\<lambda>r. r\<lparr>poll_handle := None\<rparr>) rows1 = map (\<lambda>r. r\<lparr>poll_handle := None\<rparr>) rows"
  by (induction rows arbitrary: rows1) (auto simp: Let_def split: if_split_asm prod.split_asm)

lemma gather_handles:
  "map (\<lambda>r. r\<lparr>poll_handle := None\<rparr>) rows1 = map (\<lambda>r. r\<lparr>poll_handle := None\<rparr>) rows
    \<Longrightarrow> gather_pollfds lim i rows1 acc s w = gather_pollfds lim i rows acc s w"
proof (induction rows arbitrary: rows1 i acc w)
  case (Cons r rows)
  then obtain r1 rest where r: "rows1 = r1 # rest" "map (\<lambda>r. r\<lparr>poll_handle := None\<rparr>) rest = map (\<lambda>r. r\<lparr>poll_handle := None\<rparr>) rows"
    "poll_get r1 = poll_get r" by (cases rows1) (auto dest: arg_cong[of _ _ poll_get])
  then show ?case using Cons.IH[OF r(2)] by (auto split: option.split intro!: bind_option_cong)
qed simp

section \<open>The arrays given to poll\<close>

text \<open>What the server reports: the sockets it listens on, then the connections in the order of their slots.\<close>

definition server_fds :: "media_server_priv \<Rightarrow> pollfd_entry list" where
  "server_fds s = listen_fds s @ conn_fds 0 (conns s)"

definition passive_rows :: "'w media_poll list \<Rightarrow> bool" where
  "passive_rows rows \<longleftrightarrow> (\<forall>r\<in>set rows. poll_get r = None)"

lemma gather_append:
  "passive_rows rows \<Longrightarrow> gather_pollfds lim i (rows @ rest) acc s w = gather_pollfds lim (i + length rows) rest acc s w"
  by (induction rows arbitrary: i) (auto simp: passive_rows_def)

lemma gather_server:
  assumes "2 < lim - int (length acc)"
  shows "gather_pollfds lim i [server_row env] acc s w =
    (if int (length acc + length (server_fds s)) \<le> lim then Some (acc @ map (Pair i) (server_fds s), w) else None)"
  using pollfds_spec[OF assms, of s] by (auto simp: server_row_def server_fds_def Let_def)

lemma gather_graph:
  assumes "pollfd_promise (de_graph env)" "2 \<le> lim"
  shows "\<exists>x. gather_pollfds lim i (graph_row env # rest) [] s (g, w)
    = gather_pollfds lim (Suc i) rest (map (Pair i) ((graph_fd g, None) # answered (de_graph env) (lim - 1) (pollfts g) (av g)))
        s (g\<lparr>av := x\<rparr>, w)"
  using filter_pollfds_ok[OF assms(1), of "[(graph_fd g, None)]" lim "pollfts g" "av g"] assms(2)
  by (auto simp: graph_row_def media_graph_get_pollfds_def)

definition graph_fds :: "('x, 'r) daemon_env \<Rightarrow> int \<Rightarrow> 'x media_graph_priv \<Rightarrow> pollfd_entry list" where
  \<comment> \<open>what the graph reports, in a build that has one\<close>
  "graph_fds env lim g = (if fst (snd (de_config env))
     then (graph_fd g, None) # answered (de_graph env) (lim - 1) (pollfts g) (av g) else [])"

lemma gather_g_media:
  fixes env :: "('x, 'r) daemon_env"
  assumes "pollfd_promise (de_graph env)" "2 < lim - int (length (graph_fds env lim g))"
  shows "\<exists>x gi si. gather_pollfds lim 0 (g_media env) [] s (g, w) =
      (if int (length (graph_fds env lim g) + length (server_fds s)) \<le> lim
       then Some (map (Pair gi) (graph_fds env lim g) @ map (Pair si) (server_fds s), (g\<lparr>av := x\<rparr>, w)) else None)
    \<and> si < length (g_media env) \<and> poll_name (g_media env ! si) = ''media_server''
    \<and> (graph_fds env lim g \<noteq> [] \<longrightarrow> gi < length (g_media env) \<and> poll_name (g_media env ! gi) = ''media_graph'')"
proof -
  obtain focus ffmpeg pfw where cfg: "de_config env = (focus, ffmpeg, pfw)" by (metis prod_cases3)
  let ?F = "if focus then [passive_row ''media_focus''] else [] :: ('x, 'r) media_world media_poll list"
  let ?P = "if pfw then [passive_row ''media_policy''] else [] :: ('x, 'r) media_world media_poll list"
  have F: "passive_rows ?F" and P: "passive_rows ?P" by (auto simp: passive_rows_def passive_row_def)
  show ?thesis
  proof (cases ffmpeg)
    case False
    then have gm: "g_media env = (?F @ ?P) @ [server_row env]" and gf: "graph_fds env lim g = []" by (simp_all add: g_media_def graph_fds_def cfg)
    have p: "passive_rows (?F @ ?P)" by (auto simp: passive_rows_def passive_row_def)
    define si where "si = length (?F @ ?P)"
    have 1: "gather_pollfds lim 0 (g_media env) [] s (g, w) = (if int (length (server_fds s)) \<le> lim
        then Some (map (Pair si) (server_fds s), (g\<lparr>av := av g\<rparr>, w)) else None)"
      unfolding gm gather_append[OF p] si_def using gather_server[of lim "[]" _ env s] assms(2) gf by (simp del: gather_pollfds.simps)
    have 2: "poll_name (g_media env ! si) = ''media_server''" unfolding gm si_def nth_append_length by (simp add: server_row_def)
    have 3: "si < length (g_media env)" by (simp add: gm si_def)
    from 1 2 3 show ?thesis unfolding gf by (intro exI[of _ "av g"] exI[of _ 0] exI[of _ si]) simp
  next
    case True
    let ?G = "passive_row ''media_session'' # ?P"
    have gm: "g_media env = ?F @ graph_row env # ?G @ [server_row env]" using True by (simp add: g_media_def cfg)
    have gm2: "g_media env = (?F @ graph_row env # ?G) @ [server_row env]" unfolding gm by simp
    have p: "passive_rows ?G" using P by (simp add: passive_rows_def passive_row_def)
    define gi where "gi = length ?F"
    define si where "si = Suc gi + length ?G"
    have gf: "graph_fds env lim g = (graph_fd g, None) # answered (de_graph env) (lim - 1) (pollfts g) (av g)"
      using True by (simp add: graph_fds_def cfg)
    from gather_graph[OF assms(1), where lim = lim and i = gi and rest = "?G @ [server_row env]" and s = s and g = g and w = w] assms(2)
    obtain x where x: "gather_pollfds lim gi (graph_row env # ?G @ [server_row env]) [] s (g, w)
        = gather_pollfds lim (Suc gi) (?G @ [server_row env]) (map (Pair gi) (graph_fds env lim g)) s (g\<lparr>av := x\<rparr>, w)"
      unfolding gf by (auto simp del: gather_pollfds.simps)
    have 1: "gather_pollfds lim 0 (g_media env) [] s (g, w) = gather_pollfds lim gi (graph_row env # ?G @ [server_row env]) [] s (g, w)"
      unfolding gm gi_def by (rule gather_append[OF F, where i = 0, unfolded add_0])
    have 2: "gather_pollfds lim gi (graph_row env # ?G @ [server_row env]) [] s (g, w)
        = gather_pollfds lim si [server_row env] (map (Pair gi) (graph_fds env lim g)) s (g\<lparr>av := x\<rparr>, w)"
      unfolding x si_def by (rule gather_append[OF p])
    have "2 < lim - int (length (map (Pair gi) (graph_fds env lim g)))" using assms(2) by simp
    note 3 = gather_server[OF this, of si env s "(g\<lparr>av := x\<rparr>, w)", unfolded length_map]
    have "gather_pollfds lim 0 (g_media env) [] s (g, w) =
      (if int (length (graph_fds env lim g) + length (server_fds s)) \<le> lim
       then Some (map (Pair gi) (graph_fds env lim g) @ map (Pair si) (server_fds s), (g\<lparr>av := x\<rparr>, w)) else None)"
      unfolding 1 2 3 ..
    moreover have "poll_name (g_media env ! si) = ''media_server''"
    proof -
      have "si = length (?F @ graph_row env # ?G)" by (simp add: si_def gi_def)
      then show ?thesis unfolding gm2 by (simp only: nth_append_length) (simp add: server_row_def)
    qed
    moreover have "poll_name (g_media env ! gi) = ''media_graph''"
      unfolding gm gi_def nth_append_length by (simp add: graph_row_def)
    moreover have "si < length (g_media env)" "gi < length (g_media env)" by (simp_all add: gm si_def gi_def)
    ultimately show ?thesis by blast
  qed
qed

lemma created_rows:
  assumes "create_modules create (g_media env) = (rows, ok)"
  shows "length rows = length (g_media env)" "i < length rows \<Longrightarrow> poll_name (rows ! i) = poll_name (g_media env ! i)"
    "gather_pollfds lim k rows acc s w = gather_pollfds lim k (g_media env) acc s w"
    "modules_keep (de_modules env) \<Longrightarrow> modules_keep (gv_modules (de_graph env)) \<Longrightarrow> \<forall>r\<in>set rows. row_keeps r"
proof -
  note eq = create_modules_rows[OF assms]
  show l: "length rows = length (g_media env)" using arg_cong[OF eq, of length] by simp
  show n: "poll_name (rows ! i) = poll_name (g_media env ! i)" if "i < length rows" for i
    using arg_cong[OF eq, of "\<lambda>xs. poll_name (xs ! i)"] that l by simp
  show "gather_pollfds lim k rows acc s w = gather_pollfds lim k (g_media env) acc s w" by (rule gather_handles[OF eq])
  assume k: "modules_keep (de_modules env)" "modules_keep (gv_modules (de_graph env))"
  have "row_keeps r" if "r \<in> set rows" for r
  proof -
    have "r\<lparr>poll_handle := None\<rparr> \<in> (\<lambda>r. r\<lparr>poll_handle := None\<rparr>) ` set (g_media env)"
      using that arg_cong[OF eq, of set] by auto
    then show ?thesis using g_media_keeps[OF k] row_keeps_handle by (metis imageE)
  qed
  then show "\<forall>r\<in>set rows. row_keeps r" by blast
qed

lemma server_fds_pending:
  "(fd, Some j) \<in> set (server_fds s) \<Longrightarrow> j < length (conns s) \<and> 0 < fd \<and> tran_fd (conn s j) = fd"
  by (auto simp: server_fds_def listen_fds_def conn_fds_def conn_def in_set_zip)

lemma server_fds_distinct: "distinct (map snd (filter (\<lambda>(fd, ctx). ctx \<noteq> None) (server_fds s)))"
proof -
  let ?is = "map fst (filter (\<lambda>(i, c). 0 < tran_fd c) (zip [0..<length (conns s)] (conns s)))"
  have "filter (\<lambda>(fd, ctx). ctx \<noteq> None) (server_fds s) = conn_fds 0 (conns s)"
    by (auto simp: server_fds_def listen_fds_def conn_fds_def filter_empty_conv intro!: filter_True)
  moreover have "map snd (conn_fds 0 (conns s)) = map Some ?is"
    by (simp add: conn_fds_def case_prod_beta comp_def)
  moreover have "distinct ?is" by (rule distinct_map_filter) simp
  then have "distinct (map Some ?is)" unfolding distinct_map[of Some] by simp
  ultimately show ?thesis by metis
qed

lemma entries_pending:
  assumes "poll_name (rows ! si) = ''media_server''" "gfds \<noteq> [] \<longrightarrow> poll_name (rows ! gi) = ''media_graph''"
  shows "pending_ok rows (map (Pair gi) gfds @ map (Pair si) (server_fds s)) s"
proof -
  have g: "filter (\<lambda>(i, fd, ctx). poll_name (rows ! i) = ''media_server'' \<and> ctx \<noteq> None) (map (Pair gi) gfds) = []"
    using assms(2) by (auto simp: filter_empty_conv)
  have m: "map (\<lambda>(i, fd, ctx). ctx) (filter (\<lambda>(i, fd, ctx). poll_name (rows ! i) = ''media_server'' \<and> ctx \<noteq> None) (map (Pair si) es))
      = map snd (filter (\<lambda>(fd, ctx). ctx \<noteq> None) es)" for es
    using assms(1) by (induction es) auto
  show ?thesis unfolding pending_ok_def filter_append map_append g m
    using assms server_fds_distinct[of s] by (auto simp: current_def dest: server_fds_pending split: option.split option.split_asm)
qed

text \<open>C19: In a round of the daemon every event goes to the connection it was polled for: although events handled
  earlier in the round accept clients, close connections and change the server, no event reaches a slot that has
  been closed or given to another client since the call of \<open>poll\<close>. Dispatching does exactly what a dispatcher does
  that refuses such stale events, for whatever events, provided the modules' handlers leave the transport sockets
  alone.\<close>

theorem daemon_round_delivers:
  assumes "create_modules create (g_media env) = (rows, True)" "pollfd_promise (de_graph env)"
    and "2 < lim - int (length (graph_fds env lim g))"
    and "modules_keep (de_modules env)" "modules_keep (gv_modules (de_graph env))"
    and "gather_pollfds lim 0 rows [] s (g, w) = Some (entries, w1)"
  shows "dispatch_events rows res 0 entries s w1 = dispatch_current rows res 0 entries s w1"
proof -
  note c = created_rows[OF assms(1)]
  from gather_g_media[OF assms(2,3), of s w] assms(6)[unfolded c(3)] obtain gi si where
    "entries = map (Pair gi) (graph_fds env lim g) @ map (Pair si) (server_fds s)"
    "si < length (g_media env)" "poll_name (g_media env ! si) = ''media_server''"
    "graph_fds env lim g \<noteq> [] \<longrightarrow> gi < length (g_media env) \<and> poll_name (g_media env ! gi) = ''media_graph''"
    by (metis (no_types, lifting) option.distinct(1) option.inject prod.inject)
  then have "pending_ok rows entries s" using entries_pending[of rows si "graph_fds env lim g" gi s] c(1,2) by auto
  then show ?thesis by (rule dispatch_delivers[OF c(4)[OF assms(4,5)]])
qed


definition demo_daemon :: "(toy_av, unit) daemon_env" where
  "demo_daemon = \<lparr>de_alloc = zero_alloc, de_narrow = (\<lambda>_. 0), de_net = (\<lambda>_. -EPERM), de_cpu = [],
     de_modules = \<lparr>policy_handler = None, focus_handler = None, graph_handler = None, player_handler = None,
       recorder_handler = None, session_handler = None\<rparr>, de_graph = toy_env, de_config = (True, True, True)\<rparr>"

definition demo_server :: media_server_priv where
  "demo_server = local_server\<lparr>conns := [zero_conn\<lparr>tran_fd := 5\<rparr>, zero_conn, zero_conn\<lparr>tran_fd := 6\<rparr>]\<rparr>"

lemma demo_daemon_ok:
  "pollfd_promise (de_graph demo_daemon)" "modules_keep (de_modules demo_daemon)" "modules_keep (gv_modules (de_graph demo_daemon))"
  "graph_fds demo_daemon 8 (toy_graph False) = [(9, None), (20, Some 0), (21, Some 1)]"
  "server_fds demo_server = [(3, None), (5, Some 0), (6, Some 2)]"
  by (simp_all add: demo_daemon_def pollfd_promise_def toy_env_def modules_keep_def graph_fds_def toy_graph_def server_fds_def
      demo_server_def local_server_def listen_fds_def conn_fds_def zero_conn_def upt_rec)

lemma demo_created: "\<exists>rows. create_modules (\<lambda>_. Some 1) (g_media demo_daemon) = (rows, True)"
  by (simp add: g_media_def demo_daemon_def)


lemma daemon_round_delivers_witness:
  "\<exists>rows entries w1. create_modules (\<lambda>_. Some 1) (g_media demo_daemon) = (rows, True) \<and> entries \<noteq> []
     \<and> (\<forall>res. dispatch_events rows res 0 entries demo_server w1 = dispatch_current rows res 0 entries demo_server w1)"
proof -
  obtain rows where r: "create_modules (\<lambda>_. Some 1) (g_media demo_daemon) = (rows, True)" using demo_created by blast
  obtain es w1 where g: "gather_pollfds 8 0 rows [] demo_server (toy_graph False, ()) = Some (es, w1)" "es \<noteq> []"
    using gather_g_media[OF demo_daemon_ok(1), of 8 "toy_graph False" demo_server "()"] created_rows(3)[OF r]
    by (fastforce simp: demo_daemon_ok)
  have "dispatch_events rows res 0 es demo_server w1 = dispatch_current rows res 0 es demo_server w1" for res
    using daemon_round_delivers[OF r demo_daemon_ok(1) _ demo_daemon_ok(2,3) g(1)] by (simp add: demo_daemon_ok)
  with r g(2) show ?thesis by blast
qed

end
