(* ===== verification/Uv_Rpc.thy ===== *)
theory Uv_Rpc
  imports Uv_Order Uv_Player
begin

text \<open>
  The asynchronous client and the server together: a command of an asynchronous library, the handler of the
  server it reaches, and the callback that gets the answer.
\<close>

lemma command_request:
  assumes al: "alloc_total (ue_alloc env)" and o: "uv_open p st"
    and r: "request_wf r" "2 * length (request_bytes (ue_narrow env) r) \<le> max_payload" and cb: "cb \<noteq> 0"
  shows "\<exists>pc st'. uv_command env onlooker True (''%i'' @ request_fmt (req_module r)) (VInt32 (req_module r) # request_args r)
      (Some f) cb cookie st = Some (0, st')
    \<and> parcel_wf pc \<and> parcel_data pc = request_bytes (ue_narrow env) r
    \<and> run_ops env onlooker (map request_op [(f, cb, cookie, pc)]) st = Some st'"
proof -
  obtain q where q: "media_parcel_init stack_parcel = Some q" "fresh_parcel q" using stack_init by blast
  have "length (fmt_bytes (ue_narrow env) (''%i'' @ request_fmt (req_module r)) (VInt32 (req_module r) # request_args r)) \<le> max_payload"
    using r(2) unfolding request_bytes_def by linarith
  from print_total[OF al q(2) request_match(2)[OF r(1)] this] obtain pc where
    pc: "media_parcel_append_printf (ue_alloc env) (ue_narrow env) q (''%i'' @ request_fmt (req_module r))
        (VInt32 (req_module r) # request_args r) = Some (0, pc)"
      "parcel_wf pc" "parcel_data pc = request_bytes (ue_narrow env) r" unfolding request_bytes_def by blast
  from send_request[OF al o pc(2) cb, of f cookie] obtain st' where
    s: "media_uv_send env onlooker True (Some f) cb cookie (Some pc) st = Some (0, st')"
    by (auto simp: request_op_def)
  then show ?thesis using q(1) pc
    by (intro exI[of _ pc] exI[of _ st']) (simp add: uv_command_def request_op_def)
qed

lemma answer_reply:
  assumes q: "parcel_wf q" "next_pos q = 0" "parcel_data q = reply_bytes ret resp"
  shows "answer_text (Some q) = Some (sint (word_of_int ret :: 32 word), norm (Some (reply_text resp)))"
proof -
  let ?a = "[VInt32 (word_of_int ret), VString (Some (reply_text resp))]"
  have m: "fmt_match ''%i%s'' ?a"
    by (auto simp: conversions_def reply_text_def split: option.splits dest: set_takeWhileD)
  have "parcel_rest q = fmt_bytes (\<lambda>_. 0) ''%i%s'' ?a @ []"
    using q(2,3) by (simp add: parcel_rest_def reply_bytes_text conversions_def)
  from pb.scan_law[OF q(1) m this] obtain q' where
    "media_parcel_read_scanf q ''%i%s'' [True, True] = Some (0, [S32 (word_of_int ret), SString (norm (Some (reply_text resp)))], q')"
    by (auto simp: conversions_def norm_def numeral_2_eq_2)
  then show ?thesis by (simp add: answer_text_def Uv_Client.scanned_int_def Uv_Client.scanned_text_def)
qed



end
