(* ===== verification/Uv_Gather.thy ===== *)
theory Uv_Gather
  imports Uv_Player "HOL-Library.Multiset"
begin

text \<open>
  Gathering the metadata of a player: the answers of the queries \<open>media_uv_player_query\<close> makes come in on two
  connections, in any order, and together make one call of \<open>on_query\<close>.
\<close>

unbundle bit_operations_syntax

section \<open>Answers\<close>

datatype query_reply = Reply_state int int | Reply_volume int int | Reply_position int nat | Reply_duration int nat

fun reply_bit :: "query_reply \<Rightarrow> nat" where
  "reply_bit (Reply_state r v) = 0"
| "reply_bit (Reply_volume r v) = 1"
| "reply_bit (Reply_position r v) = 2"
| "reply_bit (Reply_duration r v) = 3"

fun reply_ret :: "query_reply \<Rightarrow> int" where
  "reply_ret (Reply_state r v) = r"
| "reply_ret (Reply_volume r v) = r"
| "reply_ret (Reply_position r v) = r"
| "reply_ret (Reply_duration r v) = r"

fun reply_store :: "query_reply \<Rightarrow> media_metadata \<Rightarrow> media_metadata" where
  "reply_store (Reply_state r v) d = d\<lparr>meta_state := v\<rparr>"
| "reply_store (Reply_volume r v) d = d\<lparr>meta_volume := v\<rparr>"
| "reply_store (Reply_position r v) d = d\<lparr>meta_position := v\<rparr>"
| "reply_store (Reply_duration r v) d = d\<lparr>meta_duration := v\<rparr>"

text \<open>The callback of each.\<close>

fun take_reply :: "stream_app \<Rightarrow> query_reply \<Rightarrow> uv_stream \<Rightarrow> uv_stream option" where
  "take_reply app (Reply_state r v) st = media_uv_player_query_state_cb app r v st"
| "take_reply app (Reply_volume r v) st = media_uv_player_query_volume_cb app r v st"
| "take_reply app (Reply_position r v) st = media_uv_player_query_position_cb app r v st"
| "take_reply app (Reply_duration r v) st = media_uv_player_query_duration_cb app r v st"

fun take_replies :: "stream_app \<Rightarrow> query_reply list \<Rightarrow> uv_stream \<Rightarrow> uv_stream option" where
  "take_replies app [] st = Some st"
| "take_replies app (a # as) st = do { st1 \<leftarrow> take_reply app a st; take_replies app as st1 }"

definition reply_flag :: "query_reply \<Rightarrow> int" where
  "reply_flag a = 2 ^ reply_bit a"

lemma query_flags: "MEDIA_METAFLAG_STATE = 2 ^ 0" "MEDIA_METAFLAG_VOLUME = 2 ^ 1" "MEDIA_METAFLAG_POSITION = 2 ^ 2"
    "MEDIA_METAFLAG_DURATION = 2 ^ 3"
  by (simp_all add: MEDIA_METAFLAG_STATE_def MEDIA_METAFLAG_VOLUME_def MEDIA_METAFLAG_POSITION_def MEDIA_METAFLAG_DURATION_def)

lemma reply_store_fun:
  "reply_store (Reply_state r v) = (\<lambda>d. d\<lparr>meta_state := v\<rparr>)" "reply_store (Reply_volume r v) = (\<lambda>d. d\<lparr>meta_volume := v\<rparr>)"
  "reply_store (Reply_position r n) = (\<lambda>d. d\<lparr>meta_position := n\<rparr>)" "reply_store (Reply_duration r n) = (\<lambda>d. d\<lparr>meta_duration := n\<rparr>)"
  by (simp_all add: fun_eq_iff)

lemma take_reply_answer: "take_reply app a st = query_answer app (reply_flag a) (reply_store a) (reply_ret a) st"
  by (cases a) (simp_all add: media_uv_player_query_state_cb_def media_uv_player_query_volume_cb_def
      media_uv_player_query_position_cb_def media_uv_player_query_duration_cb_def reply_flag_def query_flags reply_store_fun)

section \<open>Flags\<close>

definition all_flags :: "query_reply list \<Rightarrow> int" where
  "all_flags as = fold (\<lambda>a e. e OR reply_flag a) as 0"

lemma bit_fold_flags: "bit (fold (\<lambda>a e. e OR reply_flag a) as e) n \<longleftrightarrow> bit e n \<or> n \<in> reply_bit ` set as"
  by (induction as arbitrary: e) (auto simp: bit_or_iff reply_flag_def bit_exp_iff)

lemma bit_all_flags: "bit (all_flags as) n \<longleftrightarrow> n \<in> reply_bit ` set as"
  by (simp add: all_flags_def bit_fold_flags)

lemma all_flags_zero: "all_flags as = 0 \<longleftrightarrow> as = []"
proof
  assume "all_flags as = 0"
  then have "\<not> bit (all_flags as) n" for n by simp
  then show "as = []" by (cases as) (auto simp: bit_all_flags)
qed (simp add: all_flags_def)

lemma clear_head:
  assumes "distinct (map reply_bit (a # as))"
  shows "clear_flag (all_flags (a # as)) (reply_flag a) = all_flags as"
  by (rule bit_eqI) (use assms in \<open>auto simp: image_iff clear_flag_def bit_and_iff bit_not_iff bit_all_flags reply_flag_def bit_exp_iff\<close>)

section \<open>Gathering\<close>

text \<open>What the answers that succeed add up to.\<close>

definition gather_reply :: "query_reply \<Rightarrow> media_metadata \<Rightarrow> media_metadata" where
  "gather_reply a d = (if 0 \<le> reply_ret a then reply_store a (d\<lparr>meta_flags := meta_flags d OR reply_flag a\<rparr>) else d)"

definition app_looks :: stream_app where
  "app_looks c st = Some st"

lemma call_app_looks: "call_app app_looks c st = Some (st\<lparr>lib_calls := lib_calls st @ [c]\<rparr>)"
  by (simp add: call_app_def app_looks_def)

lemma take_replies_gather:
  assumes "as \<noteq> []" "distinct (map reply_bit as)" "lib_alive st" "ust_proxy st"
    and "ust_query st = Some q" "qx_expected q = all_flags as"
  shows "\<exists>st' q'. let d = fold gather_reply as (qx_diff q); u = media_metadata_update (ust_data st) d in
      take_replies app_looks as st = Some st'
    \<and> st' = st\<lparr>ust_data := fst u, ust_query := Some q',
        lib_calls := lib_calls st @ [App_result (qx_on_query q) (qx_cookie q) (meta_flags d) (Data_arg (Some (fst u)))]\<rparr>
    \<and> qx_expected q' = 0"
  using assms
proof (induction as arbitrary: st q)
  case (Cons a as)
  let ?q1 = "q\<lparr>qx_expected := all_flags as\<rparr>" and ?d = "gather_reply a (qx_diff q)"
  let ?q2 = "?q1\<lparr>qx_diff := ?d\<rparr>"
  have step: "take_reply app_looks a st = media_uv_player_query_complete app_looks (st\<lparr>ust_query := Some ?q2\<rparr>)"
    using Cons.prems clear_head[OF Cons.prems(2)]
    by (simp add: take_reply_answer query_answer_def alive_def gather_reply_def Let_def)
  show ?case
  proof (cases "as = []")
    case True
    then have z: "all_flags as = 0" by (simp add: all_flags_zero)
    let ?u = "media_metadata_update (ust_data st) ?d"
    let ?st' = "st\<lparr>ust_data := fst ?u, ust_query := Some (?q2\<lparr>qx_diff := snd ?u\<rparr>),
        lib_calls := lib_calls st @ [App_result (qx_on_query q) (qx_cookie q) (meta_flags ?d) (Data_arg (Some (fst ?u)))]\<rparr>"
    have "take_reply app_looks a st = Some ?st'"
      unfolding step using Cons.prems(3,4) z
      by (simp add: media_uv_player_query_complete_def call_app_looks media_uv_stream_release_def alive_def Let_def case_prod_beta)
    then show ?thesis using True z
      by (intro exI[of _ "?st'"] exI[of _ "?q2\<lparr>qx_diff := snd ?u\<rparr>"]) (simp add: Let_def)
  next
    case False
    then have nz: "all_flags as \<noteq> 0" by (simp add: all_flags_zero)
    let ?st = "st\<lparr>ust_query := Some ?q2\<rparr>"
    have "take_reply app_looks a st = Some ?st"
      using Cons.prems(3,4) nz by (simp add: step media_uv_player_query_complete_def media_uv_stream_release_def alive_def)
    moreover from Cons.IH[OF False, of ?st ?q2] Cons.prems obtain st' q' where
      "take_replies app_looks as ?st = Some st'" "st' = ?st\<lparr>ust_data := fst (media_metadata_update (ust_data st) (fold gather_reply as ?d)),
         ust_query := Some q', lib_calls := lib_calls st @ [App_result (qx_on_query q) (qx_cookie q)
           (meta_flags (fold gather_reply as ?d)) (Data_arg (Some (fst (media_metadata_update (ust_data st) (fold gather_reply as ?d)))))]\<rparr>"
      "qx_expected q' = 0" by (auto simp: Let_def)
    ultimately show ?thesis by (intro exI[of _ st'] exI[of _ q']) (simp add: Let_def)
  qed
qed simp

text \<open>The answers of different queries may come in any order.\<close>

lemma gather_swap:
  assumes "reply_bit a \<noteq> reply_bit b"
  shows "gather_reply a (gather_reply b d) = gather_reply b (gather_reply a d)"
  using assms by (cases a; cases b) (auto simp: gather_reply_def or.assoc or.commute or.left_commute)

lemma gather_order:
  assumes "mset as = mset bs" "distinct (map reply_bit as)"
  shows "fold gather_reply as = fold gather_reply bs"
proof (rule fold_multiset_equiv[OF _ assms(1)])
  fix x y assume xy: "x \<in> set as" "y \<in> set as"
  show "gather_reply x \<circ> gather_reply y = gather_reply y \<circ> gather_reply x"
  proof (cases "reply_bit x = reply_bit y")
    case True
    then have "x = y" using xy assms(2) by (simp add: distinct_map inj_on_def)
    then show ?thesis by simp
  qed (simp add: fun_eq_iff gather_swap)
qed

lemma all_flags_order: "mset as = mset bs \<Longrightarrow> all_flags as = all_flags bs"
  using mset_eq_setD[of as bs] by (intro bit_eqI) (simp add: bit_all_flags)

text \<open>C30: The metadata of a player is delivered once, when the last of the queries made for it has been answered, in
  whatever order the answers come on the two connections: each answer takes its field out of the set awaited and, if
  it is no error, adds its value; none but the last calls the application, which then gets the flags of the
  queries that succeeded and the player's metadata updated with exactly their values.\<close>

theorem uv_query_gathers:
  assumes "as \<noteq> []" "distinct (map reply_bit as)" "mset bs = mset as" "lib_alive st" "ust_proxy st"
    and "ust_query st = Some q" "qx_expected q = all_flags as"
  shows "\<exists>st'. let d = fold gather_reply as (qx_diff q) in
      take_replies app_looks bs st = Some st'
    \<and> ust_data st' = fst (media_metadata_update (ust_data st) d) \<and> map_option qx_expected (ust_query st') = Some 0
    \<and> lib_calls st' = lib_calls st @ [App_result (qx_on_query q) (qx_cookie q) (meta_flags d) (Data_arg (Some (ust_data st')))]"
proof -
  have "mset (map reply_bit bs) = mset (map reply_bit as)" using assms(3) by simp
  from mset_eq_imp_distinct_iff[OF this] have bs: "bs \<noteq> []" "distinct (map reply_bit bs)" "qx_expected q = all_flags bs"
    using assms(1-3,7) all_flags_order[OF assms(3)] by auto
  have "fold gather_reply bs = fold gather_reply as" by (rule gather_order[OF assms(3) bs(2)])
  then show ?thesis using take_replies_gather[OF bs(1,2) assms(4-6) bs(3)] by (fastforce simp: Let_def)
qed

definition demo_stream :: uv_stream where
  "demo_stream = \<lparr>us_proxy = None, us_writings = Map.empty, us_pipes = Map.empty, us_writes = [], us_next = 1, us_rets = [],
     us_log = [], lib_calls = [], lib_alive = True, ust_id = MEDIA_ID_PLAYER, ust_name = None, ust_proxy = True, ust_cookie = 0,
     ust_on_open = None, ust_on_close = None, ust_on_event = None, ust_pipe = None, ust_listeners = [], ust_closing = {},
     ust_on_connection = None, ust_focus = None, ust_foci = Map.empty,
     ust_query = Some \<lparr>qx_expected = 7, qx_cookie = 8, qx_on_query = 9, qx_diff = media_metadata_init\<rparr>,
     ust_data = media_metadata_init, ust_picture = None, ust_effects = []\<rparr>"

lemma uv_query_gathers_witness:
  "\<exists>st'. take_replies app_looks [Reply_position 0 4000, Reply_state 0 1, Reply_volume (-EINVAL) 0] demo_stream = Some st'
     \<and> meta_state (ust_data st') = 1 \<and> meta_position (ust_data st') = 4000
     \<and> lib_calls st' = [App_result 9 8 5 (Data_arg (Some (ust_data st')))]"
proof -
  let ?as = "[Reply_state 0 1, Reply_volume (-EINVAL) 0, Reply_position 0 4000]"
  have f: "all_flags ?as = 7" by (simp add: all_flags_def reply_flag_def)
  show ?thesis
    using uv_query_gathers[of ?as "[Reply_position 0 4000, Reply_state 0 1, Reply_volume (-EINVAL) 0]" demo_stream] f
    by (auto simp: demo_stream_def Let_def gather_reply_def reply_flag_def media_metadata_init_def media_metadata_update_def has_flag_def
        Media_Metadata.metaflags)
qed

end
