(* ===== verification/Uv_Refused.thy ===== *)
theory Uv_Refused
  imports Uv_Policy Uv_Order
begin

text \<open>
  What becomes of a policy call whose first processor refuses the connection.
\<close>

text \<open>A call that succeeds leaves one connection request.\<close>

lemma policy_call_connects:
  assumes "uvp_call env loop cpus name cmd v apply_it len parser cb cookie st = Some (0, st1)"
  shows "\<exists>px p pipe cpu. us_proxy st1 = Some px \<and> px_cpipe px = Some p \<and> px_epipe px = None \<and> px_flags px = {CONNECTING}
    \<and> us_pipes st1 p = Some pipe \<and> \<not> pipe_closing pipe \<and> lib_alive st1
    \<and> px_cpu px = Some cpu \<and> last (us_log st1) = Connect_request p cpu"
proof -
  from assms obtain st0 where st0: "media_uv_policy_alloc env name cmd v apply_it len parser cb cookie st = Some (True, st0)"
    "media_uv_connect env loop cpus True st0 = Some (True, st1)"
    by (auto simp: uvp_call_def bind_Some_iff split: if_split_asm)
  have al: "lib_alive st0" using st0(1)
    by (auto simp: media_uv_policy_alloc_def bind_Some_iff split: if_split_asm prod.split_asm)
  from st0(2) obtain r sta cpu rest ret px0 where c: "next_ret st0 = (r, sta)"
    "media_uv_connect_one env (set_proxy px0 sta) = Some (ret, st1)" "0 \<le> ret"
    "px0 = \<lparr>px_cpu = Some cpu, px_cpus = rest, px_cpipe = None, px_epipe = None, px_on_release = None, px_on_listen = None,
       px_on_event = None, px_pendq = [], px_sentq = [], px_nb_pendq = 0, px_nb_sentq = 0, px_nb_sent = 0, px_nb_recv = 0, px_flags = {}\<rparr>"
    by (auto simp: media_uv_connect_def bind_Some_iff split: option.split_asm if_split_asm prod.split_asm list.split_asm)
  have al1: "lib_alive sta" using c(1) al by (auto simp: next_ret_def split: list.split_asm)
  have nr: "lib_alive t' = lib_alive t \<and> us_proxy t' = us_proxy t" if "next_ret t = (q, t')" for t t' :: uv_policy and q
    using that by (auto simp: next_ret_def split: list.split_asm)
  obtain r1 t1 where t1: "next_ret (set_proxy px0 sta) = (r1, t1)" by (metis surj_pair)
  then have t1p: "us_proxy t1 = Some px0" "lib_alive t1" using nr[OF t1] al1 by (simp_all add: set_proxy_def)
  from c(2,3) t1 obtain pp t2 where t2: "media_uv_alloc_pipe t1 = Some (pp, t2)"
    by (auto simp: media_uv_connect_one_def bind_Some_iff split: if_split_asm)
  from t2 t1p have t2p: "us_proxy t2 = Some px0" "lib_alive t2"
    "\<And>p. pp = Some p \<Longrightarrow> \<exists>pipe. us_pipes t2 p = Some pipe \<and> \<not> pipe_closing pipe"
    by (auto simp: media_uv_alloc_pipe_def next_ret_def bind_Some_iff set_pipe_def Let_def split: if_split_asm prod.split_asm list.split_asm)
  from c(2,3,4) t1 t2 t2p(1) obtain p where p: "pp = Some p"
    "st1 = uv_log [Connect_request p cpu] (set_proxy (px0\<lparr>px_cpipe := Some p, px_flags := {CONNECTING}\<rparr>) t2)"
    by (auto simp: media_uv_connect_one_def bind_Some_iff Let_def split: if_split_asm option.split_asm)
  then show ?thesis using t2p c(4) by (auto simp: uv_log_def set_proxy_def)
qed


definition demo_policy :: uv_policy where
  "demo_policy = \<lparr>us_proxy = None, us_writings = Map.empty, us_pipes = Map.empty, us_writes = [], us_next = 1, us_rets = [],
     us_log = [], lib_calls = [], lib_alive = False, uvp_parcel = zero_parcel, uvp_parser = 0, uvp_cb = 0, uvp_cookie = 0\<rparr>"

text \<open>A call with memory, a list of processors that starts with the local one, and a libuv that does not fail.\<close>

lemma policy_call_succeeds:
  assumes al: "alloc_total (ue_alloc env)" and st: "us_rets st = []"
    and r: "c_arg name" "c_arg v" "2 * length (request_bytes (ue_narrow env) \<lparr>req_module = MEDIA_ID_POLICY, req_target = name,
      req_cmd = Some (c_bytes cmd), req_arg = v, req_apply = apply_it, req_len = len\<rparr>) \<le> max_payload" "0 \<notin> set (c_bytes cmd)"
    and cpus: "strtok_r_tokens (c_bytes '' ,;'' @ [9, 10]) cpus [] = ue_local_cpu env # rest"
  shows "\<exists>st1. uvp_call env True (Some cpus) name cmd v apply_it len parser cb cookie st = Some (0, st1)"
proof -
  let ?r = "\<lparr>req_module = MEDIA_ID_POLICY, req_target = name, req_cmd = Some (c_bytes cmd), req_arg = v, req_apply = apply_it, req_len = len\<rparr>"
  obtain q where q: "media_parcel_init zero_parcel = Some q" "fresh_parcel q"
    using zero_init zero_parcel_fresh by blast
  have w: "request_wf ?r" using r(1,2,4) by (simp add: request_wf_def c_arg_def)
  have fmt: "''%i'' @ request_fmt (req_module ?r) = ''%i%s%s%s%i%i''"
    "VInt32 (req_module ?r) # request_args ?r
      = [VInt32 MEDIA_ID_POLICY, VString name, VString (Some (c_bytes cmd)), VString v, VInt32 apply_it, VInt32 len]"
    by (simp_all add: request_fmt_def request_args_def)
  have "length (fmt_bytes (ue_narrow env) (''%i'' @ request_fmt (req_module ?r)) (VInt32 (req_module ?r) # request_args ?r)) \<le> max_payload"
    using r(3) unfolding request_bytes_def by linarith
  from print_total[OF al q(2) request_match(2)[OF w] this] obtain pc where
    "media_parcel_append_printf (ue_alloc env) (ue_narrow env) q ''%i%s%s%s%i%i''
      [VInt32 MEDIA_ID_POLICY, VString name, VString (Some (c_bytes cmd)), VString v, VInt32 apply_it, VInt32 len] = Some (0, pc)"
    unfolding fmt by blast
  then show ?thesis using q(1) st cpus zero_init
    by (simp add: uvp_call_def media_uv_policy_alloc_def next_ret_def media_uv_connect_def media_uv_connect_one_def media_uv_alloc_pipe_def
        set_proxy_def set_pipe_def Let_def uv_log_def)
qed


end
