(* ===== verification/Media_Tool.thy ===== *)
theory Media_Tool
  imports Uv_Player
begin

text \<open>
  The interactive shell over the client libraries, \<open>media_tool.c\<close>: sixteen slots that hold what was
  opened, a table of commands that act on a slot or call the policy, the threads and callbacks that carry
  the data of buffer mode, and the loop over the lines of the console.

  The libraries and the operating system are one parameter, \<open>api\<close>: called by name with its arguments it
  gives a result, the value of an output parameter (\<open>errno\<close> for the calls that set it), and the world
  after the call. Pointers are integers, 0 is NULL. Every call is recorded with its result. A run is
  \<open>None\<close> when an assertion fails or NULL is given to \<open>strdup\<close>. Printing and sleeping are left out.
\<close>

section \<open>State\<close>

definition MEDIATOOL_MAX_CHAIN :: nat where "MEDIATOOL_MAX_CHAIN = 16"
definition MEDIATOOL_MAX_ARGC :: nat where "MEDIATOOL_MAX_ARGC = 16"
definition MEDIATOOL_MAX_SIZE :: int where "MEDIATOOL_MAX_SIZE = 2048"
definition MEDIATOOL_PLAYER :: int where "MEDIATOOL_PLAYER = 1"
definition MEDIATOOL_RECORDER :: int where "MEDIATOOL_RECORDER = 2"
definition MEDIATOOL_CONTROLLER :: int where "MEDIATOOL_CONTROLLER = 3"
definition MEDIATOOL_CONTROLLEE :: int where "MEDIATOOL_CONTROLLEE = 4"
definition MEDIATOOL_FOCUS :: int where "MEDIATOOL_FOCUS = 5"
definition MEDIATOOL_UVPLAYER :: int where "MEDIATOOL_UVPLAYER = 6"
definition MEDIATOOL_UVRECORDER :: int where "MEDIATOOL_UVRECORDER = 7"
definition MEDIATOOL_UVFOCUS :: int where "MEDIATOOL_UVFOCUS = 8"
definition MEDIATOOL_UVCONTROLLER :: int where "MEDIATOOL_UVCONTROLLER = 9"
definition MEDIATOOL_UVCONTROLLEE :: int where "MEDIATOOL_UVCONTROLLEE = 10"
definition MEDIATOOL_POLICY :: int where "MEDIATOOL_POLICY = 11"

lemmas tool_types = MEDIATOOL_PLAYER_def MEDIATOOL_RECORDER_def MEDIATOOL_CONTROLLER_def MEDIATOOL_CONTROLLEE_def
  MEDIATOOL_FOCUS_def MEDIATOOL_UVPLAYER_def MEDIATOOL_UVRECORDER_def MEDIATOOL_UVFOCUS_def
  MEDIATOOL_UVCONTROLLER_def MEDIATOOL_UVCONTROLLEE_def MEDIATOOL_POLICY_def

definition MEDIA_EVENT_STARTED :: int where "MEDIA_EVENT_STARTED = 2"
definition MEDIA_EVENT_PAUSED :: int where "MEDIA_EVENT_PAUSED = 3"
definition MEDIA_STREAM_MUSIC :: string where "MEDIA_STREAM_MUSIC = ''Music''"

record mediatool_chain =
  ch_id :: int
  ch_type :: int
  ch_handle :: int
  ch_extra :: int
  ch_thread :: int
  ch_fd :: int
  ch_start :: bool
  ch_loop :: bool
  ch_direct :: bool
  ch_direct_connect :: bool
  ch_buf :: int
  ch_size :: int
  ch_pipe :: int

text \<open>
  Arguments: a handle of a library, a number, a string or NULL, a volume read from a text with \<open>strtof\<close>
  as it is or in decibels, the address of a slot, a function or a constant by name, the loop, the address
  of metadata, an output parameter, and memory with an offset.
\<close>

datatype tool_arg = Ptr int | Val int | Str "string option" | Vol string | Vol_db string | Chain nat | Sym string
  | Loop | Meta int int int int int "string option" "string option" | Out | Mem int nat

type_synonym 'w tool_api = "string \<Rightarrow> tool_arg list \<Rightarrow> 'w \<Rightarrow> int \<times> int \<times> 'w"

record 'w mediatool =
  tl_chain :: "mediatool_chain list"
  tl_world :: 'w
  tl_calls :: "(string \<times> tool_arg list \<times> int) list"

type_synonym 'w tool_cmd = "'w mediatool \<Rightarrow> (int \<times> 'w mediatool) option"

definition call_out :: "'w tool_api \<Rightarrow> string \<Rightarrow> tool_arg list \<Rightarrow> 'w mediatool \<Rightarrow> int \<times> int \<times> 'w mediatool" where
  "call_out api f args st = (case api f args (tl_world st) of (ret, out, w) \<Rightarrow>
     (ret, out, st\<lparr>tl_world := w, tl_calls := tl_calls st @ [(f, args, ret)]\<rparr>))"

definition call_api :: "'w tool_api \<Rightarrow> string \<Rightarrow> tool_arg list \<Rightarrow> 'w mediatool \<Rightarrow> int \<times> 'w mediatool" where
  "call_api api f args st = (case call_out api f args st of (ret, _, st1) \<Rightarrow> (ret, st1))"

definition call_void :: "'w tool_api \<Rightarrow> string \<Rightarrow> tool_arg list \<Rightarrow> 'w mediatool \<Rightarrow> 'w mediatool" where
  "call_void api f args st = snd (call_api api f args st)"

definition slot :: "nat \<Rightarrow> 'w mediatool \<Rightarrow> mediatool_chain" where "slot i st = tl_chain st ! i"

definition set_slot :: "nat \<Rightarrow> (mediatool_chain \<Rightarrow> mediatool_chain) \<Rightarrow> 'w mediatool \<Rightarrow> 'w mediatool" where
  "set_slot i f st = st\<lparr>tl_chain := (tl_chain st)[i := f (slot i st)]\<rparr>"

definition zero_chain :: mediatool_chain where
  "zero_chain = \<lparr>ch_id = 0, ch_type = 0, ch_handle = 0, ch_extra = 0, ch_thread = 0, ch_fd = 0, ch_start = False,
     ch_loop = False, ch_direct = False, ch_direct_connect = False, ch_buf = 0, ch_size = 0, ch_pipe = 0\<rparr>"

definition zero_tool :: "'w \<Rightarrow> 'w mediatool" where
  \<comment> \<open>after the \<open>memset\<close> of \<open>main\<close>\<close>
  "zero_tool w = \<lparr>tl_chain = replicate MEDIATOOL_MAX_CHAIN zero_chain, tl_world = w, tl_calls = []\<rparr>"

section \<open>Arguments and slots\<close>

definition get_int_arg :: "string \<Rightarrow> int" where "get_int_arg arg = strtol0 arg"

definition get_string_t_arg :: "string \<Rightarrow> string option" where
  "get_string_t_arg arg = (if arg = [] then None else Some arg)"

definition int_arg :: "nat \<Rightarrow> string list \<Rightarrow> int" where
  \<comment> \<open>\<open>(argc > n) ? GET_ARG(int, argv[n]) : 0\<close>\<close>
  "int_arg n argv = (if n < length argv then get_int_arg (argv ! n) else 0)"

definition str_arg :: "nat \<Rightarrow> string list \<Rightarrow> string option" where
  "str_arg n argv = (if n < length argv then get_string_t_arg (argv ! n) else None)"

fun free_index :: "mediatool_chain list \<Rightarrow> nat" where
  "free_index [] = 0"
| "free_index (c # cs) = (if ch_handle c = 0 then 0 else Suc (free_index cs))"

definition take_slot :: "'w mediatool \<Rightarrow> (nat \<times> 'w mediatool) option" where
  \<comment> \<open>the first slot without a handle, given its number; none of the array is left at the end\<close>
  "take_slot st = (let i = free_index (tl_chain st) in
     if i = MEDIATOOL_MAX_CHAIN then None else Some (i, set_slot i (ch_id_update (\<lambda>_. int i)) st))"

definition live :: "int \<Rightarrow> 'w mediatool \<Rightarrow> bool" where
  \<comment> \<open>the guard of the commands on a slot\<close>
  "live ident st \<longleftrightarrow> \<not> (ident < 0 \<or> int MEDIATOOL_MAX_CHAIN \<le> ident \<or> ch_handle (slot (nat ident) st) = 0)"

definition kind :: "int \<Rightarrow> 'w mediatool \<Rightarrow> int" where "kind ident st = ch_type (slot (nat ident) st)"
definition hnd :: "int \<Rightarrow> 'w mediatool \<Rightarrow> tool_arg" where "hnd ident st = Ptr (ch_handle (slot (nat ident) st))"
definition cookie_of :: "int \<Rightarrow> tool_arg" where "cookie_of ident = Chain (nat ident)"

section \<open>Stopping\<close>

definition mediatool_common_stop_thread :: "'w tool_api \<Rightarrow> nat \<Rightarrow> 'w mediatool \<Rightarrow> 'w mediatool" where
  "mediatool_common_stop_thread api i st =
    (let st1 = (if ch_thread (slot i st) \<noteq> 0
        then let s = call_void api ''pthread_join'' [Val (ch_thread (slot i st))] st;
                 s = call_void api ''free'' [Mem (ch_buf (slot i s)) 0] s in
             set_slot i (\<lambda>c. c\<lparr>ch_thread := 0, ch_buf := 0\<rparr>) s
        else st) in
     if 0 < ch_fd (slot i st1)
     then set_slot i (ch_fd_update (\<lambda>_. -1)) (call_void api ''close'' [Val (ch_fd (slot i st1))] st1)
     else st1)"

definition mediatool_common_stop_inner :: "'w tool_api \<Rightarrow> nat \<Rightarrow> 'w mediatool \<Rightarrow> int \<times> 'w mediatool" where
  "mediatool_common_stop_inner api i st =
    (let t = ch_type (slot i st); h = Ptr (ch_handle (slot i st));
         (ret, st1) =
           (if t = MEDIATOOL_PLAYER then call_api api ''media_player_stop'' [h] st
            else if t = MEDIATOOL_RECORDER then
              (let s = (if ch_direct (slot i st)
                   then call_void api ''pthread_join'' [Val (ch_thread (slot i st))]
                     (set_slot i (ch_direct_connect_update (\<lambda>_. False)) st)
                   else st) in
               call_api api ''media_recorder_stop'' [h] s)
            else if t = MEDIATOOL_UVPLAYER then
              call_api api ''media_uv_player_stop'' [h, Sym ''mediatool_uv_common_stop_cb'', Chain i] st
            else if t = MEDIATOOL_UVRECORDER then
              call_api api ''media_uv_recorder_stop'' [h, Sym ''mediatool_uv_common_stop_cb'', Chain i] st
            else if t = MEDIATOOL_UVCONTROLLER then
              call_api api ''media_uv_session_stop'' [h, Sym ''mediatool_uv_common_stop_cb'', Chain i] st
            else (0, st)) in
     (ret, mediatool_common_stop_thread api i st1))"

section \<open>Opening\<close>

definition mediatool_cmd_player_open :: "'w tool_api \<Rightarrow> string option \<Rightarrow> 'w tool_cmd" where
  "mediatool_cmd_player_open api stream_type st =
    (case take_slot st of None \<Rightarrow> Some (-ENOMEM, st)
     | Some (i, st0) \<Rightarrow>
       (case call_api api ''media_player_open'' [Str stream_type] st0 of (h, st1) \<Rightarrow>
        let st2 = set_slot i (ch_handle_update (\<lambda>_. h)) st1 in
        if h = 0 then Some (-EINVAL, st2)
        else (case call_api api ''media_player_set_event_callback''
            [Ptr h, Chain i, Sym ''mediatool_event_callback''] st2 of (ret, st3) \<Rightarrow>
          if ret \<noteq> 0 then None
          else let st4 = (if stream_type = Some MEDIA_STREAM_MUSIC
                then (case call_api api ''media_session_register''
                    [Chain i, Sym ''mediatool_controllee_music_callback''] st3 of (e, s) \<Rightarrow>
                  set_slot i (ch_extra_update (\<lambda>_. e)) s)
                else st3) in
            Some (0, set_slot i (ch_type_update (\<lambda>_. MEDIATOOL_PLAYER)) st4))))"

definition mediatool_cmd_recorder_open :: "'w tool_api \<Rightarrow> string option \<Rightarrow> 'w tool_cmd" where
  "mediatool_cmd_recorder_open api stream_type st =
    (case take_slot st of None \<Rightarrow> Some (-ENOMEM, st)
     | Some (i, st0) \<Rightarrow>
       (case call_api api ''media_recorder_open'' [Str stream_type] st0 of (h, st1) \<Rightarrow>
        let st2 = set_slot i (ch_handle_update (\<lambda>_. h)) st1 in
        if h = 0 then Some (-EINVAL, st2)
        else (case call_api api ''media_recorder_set_event_callback''
            [Ptr h, Chain i, Sym ''mediatool_event_callback''] st2 of (ret, st3) \<Rightarrow>
          if ret \<noteq> 0 then None
          else Some (0, set_slot i (ch_type_update (\<lambda>_. MEDIATOOL_RECORDER)) st3))))"

definition mediatool_cmd_session_open :: "'w tool_api \<Rightarrow> string option \<Rightarrow> 'w tool_cmd" where
  "mediatool_cmd_session_open api stream_type st =
    (case take_slot st of None \<Rightarrow> Some (-ENOMEM, st)
     | Some (i, st0) \<Rightarrow>
       (case call_api api ''media_session_open'' [Str stream_type] st0 of (h, st1) \<Rightarrow>
        let st2 = set_slot i (ch_handle_update (\<lambda>_. h)) st1 in
        if h = 0 then Some (-EINVAL, st2)
        else (case call_api api ''media_session_set_event_callback''
            [Ptr h, Chain i, Sym ''mediatool_controller_callback''] st2 of (ret, st3) \<Rightarrow>
          if ret \<noteq> 0 then None
          else Some (0, set_slot i (ch_type_update (\<lambda>_. MEDIATOOL_CONTROLLER)) st3))))"

definition mediatool_cmd_session_register :: "'w tool_api \<Rightarrow> string option \<Rightarrow> 'w tool_cmd" where
  "mediatool_cmd_session_register api param st =
    (case take_slot st of None \<Rightarrow> Some (-ENOMEM, st)
     | Some (i, st0) \<Rightarrow>
       (case call_api api ''media_session_register'' [Chain i, Sym ''mediatool_controllee_callback''] st0 of (h, st1) \<Rightarrow>
        let st2 = set_slot i (ch_handle_update (\<lambda>_. h)) st1 in
        if h = 0 then Some (-EINVAL, st2)
        else Some (0, set_slot i (ch_type_update (\<lambda>_. MEDIATOOL_CONTROLLEE)) st2)))"

definition close_handle :: "'w tool_api \<Rightarrow> int \<Rightarrow> int \<Rightarrow> 'w mediatool \<Rightarrow> int \<times> 'w mediatool" where
  \<comment> \<open>the \<open>switch\<close> on the type of the slot\<close>
  "close_handle api ident pending_stop st =
    (let i = nat ident; t = kind ident st; h = hnd ident st; cb = Sym ''mediatool_uv_common_close_cb'';
         stopped = snd (mediatool_common_stop_inner api i st);
         pending = (if pending_stop = 0 then stopped else st) in
     if t = MEDIATOOL_PLAYER then
       (case call_api api ''media_player_close'' [h, Val pending_stop] pending of (ret, s) \<Rightarrow>
          if 0 \<le> ret \<and> ch_extra (slot i s) \<noteq> 0
          then call_api api ''media_session_unregister'' [Ptr (ch_extra (slot i s))] s else (ret, s))
     else if t = MEDIATOOL_RECORDER then call_api api ''media_recorder_close'' [h] stopped
     else if t = MEDIATOOL_CONTROLLER then call_api api ''media_session_close'' [h] st
     else if t = MEDIATOOL_CONTROLLEE then call_api api ''media_session_unregister'' [h] st
     else if t = MEDIATOOL_FOCUS then call_api api ''media_focus_abandon'' [h] st
     else if t = MEDIATOOL_POLICY then call_api api ''media_policy_unsubscribe'' [h] st
     else if t = MEDIATOOL_UVPLAYER then call_api api ''media_uv_player_close'' [h, Val pending_stop, cb] pending
     else if t = MEDIATOOL_UVRECORDER then call_api api ''media_uv_recorder_close'' [h, cb] stopped
     else if t = MEDIATOOL_UVFOCUS then call_api api ''media_uv_focus_abandon'' [h, cb] st
     else if t = MEDIATOOL_UVCONTROLLER then call_api api ''media_uv_session_close'' [h, cb] st
     else if t = MEDIATOOL_UVCONTROLLEE then call_api api ''media_uv_session_unregister'' [h, cb] st
     else (-EINVAL, st))"

definition mediatool_cmd_close :: "'w tool_api \<Rightarrow> int \<Rightarrow> int \<Rightarrow> 'w tool_cmd" where
  "mediatool_cmd_close api ident pending_stop st =
    (if \<not> live ident st then Some (-EINVAL, st)
     else case close_handle api ident pending_stop st of (ret, st1) \<Rightarrow>
       Some (ret, set_slot (nat ident) (\<lambda>c. c\<lparr>ch_handle := 0, ch_extra := 0\<rparr>) st1))"

section \<open>Metadata\<close>

definition mediatool_cmd_query :: "'w tool_api \<Rightarrow> int \<Rightarrow> 'w tool_cmd" where
  \<comment> \<open>the metadata a controller gets is printed\<close>
  "mediatool_cmd_query api ident st =
    (if \<not> live ident st then Some (-EINVAL, st)
     else let t = kind ident st; h = hnd ident st in
       Some (if t = MEDIATOOL_CONTROLLER then call_api api ''media_session_query'' [h, Out] st
         else if t = MEDIATOOL_UVCONTROLLER then
           call_api api ''media_uv_session_query'' [h, Sym ''mediatool_uv_common_query_cb'', cookie_of ident] st
         else if t = MEDIATOOL_UVPLAYER then
           call_api api ''media_uv_player_query'' [h, Sym ''mediatool_uv_common_query_cb'', cookie_of ident] st
         else (-EINVAL, st)))"

definition mediatool_cmd_update :: "'w tool_api \<Rightarrow> int \<Rightarrow> int \<Rightarrow> int \<Rightarrow> int \<Rightarrow> int \<Rightarrow> int \<Rightarrow> string option \<Rightarrow> string option
    \<Rightarrow> 'w tool_cmd" where
  "mediatool_cmd_update api ident flags state volume position duration title artist st =
    (let data = Meta flags state volume position duration title artist in
     if \<not> live ident st then Some (-EINVAL, st)
     else let t = kind ident st; h = hnd ident st in
       Some (if t = MEDIATOOL_CONTROLLEE then call_api api ''media_session_update'' [h, data] st
         else if t = MEDIATOOL_UVCONTROLLEE then
           call_api api ''media_uv_session_update'' [h, data, Sym ''mediatool_uv_session_update_cb'', cookie_of ident] st
         else (-EINVAL, st)))"

section \<open>Control\<close>

definition mediatool_cmd_reset :: "'w tool_api \<Rightarrow> int \<Rightarrow> 'w tool_cmd" where
  "mediatool_cmd_reset api ident st =
    (if \<not> live ident st then Some (-EINVAL, st)
     else let t = kind ident st; h = hnd ident st; stopped = (\<lambda>(ret, s). Some (ret, mediatool_common_stop_thread api (nat ident) s)) in
       if t = MEDIATOOL_PLAYER then stopped (call_api api ''media_player_reset'' [h] st)
       else if t = MEDIATOOL_RECORDER then stopped (call_api api ''media_recorder_reset'' [h] st)
       else if t = MEDIATOOL_UVPLAYER then
         stopped (call_api api ''media_uv_player_reset'' [h, Sym ''mediatool_uv_player_reset_cb'', cookie_of ident] st)
       else if t = MEDIATOOL_UVRECORDER then
         stopped (call_api api ''media_uv_recorder_reset'' [h, Sym ''mediatool_uv_recorder_reset_cb'', cookie_of ident] st)
       else Some (0, st))"

definition mediatool_cmd_start :: "'w tool_api \<Rightarrow> int \<Rightarrow> string option \<Rightarrow> 'w tool_cmd" where
  "mediatool_cmd_start api ident scenario st =
    (if \<not> live ident st then Some (-EINVAL, st)
     else let t = kind ident st; h = hnd ident st; cb = [Sym ''mediatool_uv_common_start_cb'', cookie_of ident] in
       Some (if t = MEDIATOOL_PLAYER then call_api api ''media_player_start'' [h] st
         else if t = MEDIATOOL_RECORDER then call_api api ''media_recorder_start'' [h] st
         else if t = MEDIATOOL_CONTROLLER then call_api api ''media_session_start'' [h] st
         else if t = MEDIATOOL_UVPLAYER then
           (if scenario \<noteq> None then call_api api ''media_uv_player_start_auto'' (h # Str scenario # cb) st
            else call_api api ''media_uv_player_start'' (h # cb) st)
         else if t = MEDIATOOL_UVRECORDER then
           (if scenario \<noteq> None then call_api api ''media_uv_recorder_start_auto'' (h # Str scenario # cb) st
            else call_api api ''media_uv_recorder_start'' (h # cb) st)
         else if t = MEDIATOOL_UVCONTROLLER then call_api api ''media_uv_session_start'' (h # cb) st
         else (-EINVAL, st)))"

definition mediatool_cmd_stop :: "'w tool_api \<Rightarrow> int \<Rightarrow> 'w tool_cmd" where
  "mediatool_cmd_stop api ident st =
    (if \<not> live ident st then Some (-EINVAL, st) else Some (mediatool_common_stop_inner api (nat ident) st))"

definition mediatool_cmd_pause :: "'w tool_api \<Rightarrow> int \<Rightarrow> 'w tool_cmd" where
  "mediatool_cmd_pause api ident st =
    (if \<not> live ident st then Some (-EINVAL, st)
     else let t = kind ident st; h = hnd ident st; cb = [Sym ''mediatool_uv_common_pause_cb'', cookie_of ident] in
       Some (if t = MEDIATOOL_PLAYER then call_api api ''media_player_pause'' [h] st
         else if t = MEDIATOOL_RECORDER then call_api api ''media_recorder_pause'' [h] st
         else if t = MEDIATOOL_CONTROLLER then call_api api ''media_session_pause'' [h] st
         else if t = MEDIATOOL_UVPLAYER then call_api api ''media_uv_player_pause'' (h # cb) st
         else if t = MEDIATOOL_UVRECORDER then call_api api ''media_uv_recorder_pause'' (h # cb) st
         else if t = MEDIATOOL_UVCONTROLLER then call_api api ''media_uv_session_pause'' (h # cb) st
         else (0, st)))"

definition lower :: "char \<Rightarrow> char" where
  "lower c = (if isupper c then char_of ((of_char c :: nat) + 32) else c)"

fun has_prefix_nocase :: "string \<Rightarrow> string \<Rightarrow> bool" where
  "has_prefix_nocase [] s = True"
| "has_prefix_nocase (p # ps) [] = False"
| "has_prefix_nocase (p # ps) (c # cs) = (lower p = lower c \<and> has_prefix_nocase ps cs)"

fun strcasestr :: "string \<Rightarrow> string \<Rightarrow> bool" where
  \<comment> \<open>whether the text is found\<close>
  "strcasestr [] pat = (pat = [])"
| "strcasestr (c # cs) pat = (has_prefix_nocase pat (c # cs) \<or> strcasestr cs pat)"

definition strtol10 :: "string \<Rightarrow> int" where
  "strtol10 str =
    (let s1 = dropWhile isspace str;
         neg = (take 1 s1 = ''-'');
         s2 = (if take 1 s1 = ''-'' \<or> take 1 s1 = ''+'' then tl s1 else s1);
         v = int (based_value 10 s2) in
     if neg then max (-2147483648) (- v) else min 2147483647 v)"

definition volume_arg :: "string \<Rightarrow> tool_arg" where
  "volume_arg s = (if strcasestr s ''db'' then Vol_db s else Vol s)"

definition mediatool_cmd_volume :: "'w tool_api \<Rightarrow> int \<Rightarrow> string option \<Rightarrow> 'w tool_cmd" where
  \<comment> \<open>the case of an asynchronous controller has no \<open>break\<close> and goes on into \<open>return 0\<close>\<close>
  "mediatool_cmd_volume api ident volume_cmd st =
    (if \<not> live ident st then Some (-EINVAL, st)
     else case volume_cmd of None \<Rightarrow> Some (-EINVAL, st)
     | Some v \<Rightarrow> let t = kind ident st; h = hnd ident st; has = (\<lambda>c. strchr_index c v \<noteq> None) in
       Some (if t = MEDIATOOL_PLAYER then
           (if has (CHR ''?'') then call_api api ''media_player_get_volume'' [h, Out] st
            else call_api api ''media_player_set_volume'' [h, volume_arg v] st)
         else if t = MEDIATOOL_CONTROLLER then
           (if has (CHR ''?'') then call_api api ''media_session_get_volume'' [h, Out] st
            else if has (CHR ''+'') then
              call_api api ''media_session_increase_volume'' [h] (call_void api ''media_session_get_volume'' [h, Out] st)
            else if has (CHR ''-'') then
              call_api api ''media_session_decrease_volume'' [h] (call_void api ''media_session_get_volume'' [h, Out] st)
            else call_api api ''media_session_set_volume'' [h, Val (strtol10 v)] st)
         else if t = MEDIATOOL_UVPLAYER then
           (if has (CHR ''?'') then
              call_api api ''media_uv_player_get_volume'' [h, Sym ''mediatool_uv_common_get_volume_cb'', cookie_of ident] st
            else call_api api ''media_uv_player_set_volume''
              [h, volume_arg v, Sym ''mediatool_uv_common_set_volume_cb'', cookie_of ident] st)
         else if t = MEDIATOOL_UVCONTROLLER then
           (0, if has (CHR ''?'') then st
             else if has (CHR ''+'') then call_void api ''media_uv_session_increase_volume''
               [h, Sym ''mediatool_uv_common_increase_volume_cb'', cookie_of ident] st
             else if has (CHR ''-'') then call_void api ''media_uv_session_decrease_volume''
               [h, Sym ''mediatool_uv_common_decrease_volume_cb'', cookie_of ident] st
             else st)
         else (0, st)))"

definition mediatool_cmd_loop :: "'w tool_api \<Rightarrow> int \<Rightarrow> int \<Rightarrow> 'w tool_cmd" where
  "mediatool_cmd_loop api ident isloop st =
    (if \<not> live ident st then Some (-EINVAL, st)
     else let t = kind ident st; h = hnd ident st in
       Some (if t = MEDIATOOL_PLAYER then call_api api ''media_player_set_looping'' [h, Val isloop] st
         else if t = MEDIATOOL_UVPLAYER then call_api api ''media_uv_player_set_looping''
           [h, Val isloop, Sym ''mediatool_uv_player_set_looping_cb'', cookie_of ident] st
         else (-EINVAL, st)))"

definition mediatool_cmd_seek :: "'w tool_api \<Rightarrow> int \<Rightarrow> int \<Rightarrow> 'w tool_cmd" where
  "mediatool_cmd_seek api ident msec st =
    (if \<not> live ident st then Some (-EINVAL, st)
     else let t = kind ident st; h = hnd ident st; cb = [Sym ''mediatool_uv_common_seek_cb'', cookie_of ident] in
       Some (if t = MEDIATOOL_PLAYER then call_api api ''media_player_seek'' [h, Val msec] st
         else if t = MEDIATOOL_UVPLAYER then call_api api ''media_uv_player_seek'' (h # Val msec # cb) st
         else if t = MEDIATOOL_UVCONTROLLER then call_api api ''media_uv_session_seek'' (h # Val msec # cb) st
         else (-EINVAL, st)))"

definition mediatool_cmd_prevsong :: "'w tool_api \<Rightarrow> int \<Rightarrow> 'w tool_cmd" where
  "mediatool_cmd_prevsong api ident st =
    (if \<not> live ident st then Some (-EINVAL, st)
     else let t = kind ident st; h = hnd ident st in
       Some (if t = MEDIATOOL_CONTROLLER then call_api api ''media_session_prev_song'' [h] st
         else if t = MEDIATOOL_UVCONTROLLER then call_api api ''media_uv_session_prev_song''
           [h, Sym ''media_uv_session_prev_song_cb'', cookie_of ident] st
         else (-EINVAL, st)))"

definition mediatool_cmd_nextsong :: "'w tool_api \<Rightarrow> int \<Rightarrow> 'w tool_cmd" where
  "mediatool_cmd_nextsong api ident st =
    (if \<not> live ident st then Some (-EINVAL, st)
     else let t = kind ident st; h = hnd ident st in
       Some (if t = MEDIATOOL_CONTROLLER then call_api api ''media_session_next_song'' [h] st
         else if t = MEDIATOOL_UVCONTROLLER then call_api api ''media_uv_session_next_song''
           [h, Sym ''media_uv_session_next_song_cb'', cookie_of ident] st
         else (-EINVAL, st)))"

section \<open>Queries\<close>

definition shown :: "int \<times> 'w mediatool \<Rightarrow> int \<times> 'w mediatool" where
  \<comment> \<open>an error is returned, a value is printed\<close>
  "shown r = (if fst r < 0 then r else (0, snd r))"

definition mediatool_cmd_position :: "'w tool_api \<Rightarrow> int \<Rightarrow> 'w tool_cmd" where
  "mediatool_cmd_position api ident st =
    (if \<not> live ident st then Some (-EINVAL, st)
     else let t = kind ident st; h = hnd ident st in
       Some (if t = MEDIATOOL_PLAYER then shown (call_api api ''media_player_get_position'' [h, Out] st)
         else if t = MEDIATOOL_CONTROLLER then shown (call_api api ''media_session_get_position'' [h, Out] st)
         else if t = MEDIATOOL_UVPLAYER then
           call_api api ''media_uv_player_get_position'' [h, Sym ''mediatool_uv_common_get_position_cb'', cookie_of ident] st
         else (0, st)))"

definition mediatool_cmd_duration :: "'w tool_api \<Rightarrow> int \<Rightarrow> 'w tool_cmd" where
  "mediatool_cmd_duration api ident st =
    (if \<not> live ident st then Some (-EINVAL, st)
     else let t = kind ident st; h = hnd ident st in
       Some (if t = MEDIATOOL_PLAYER then shown (call_api api ''media_player_get_duration'' [h, Out] st)
         else if t = MEDIATOOL_CONTROLLER then shown (call_api api ''media_session_get_duration'' [h, Out] st)
         else if t = MEDIATOOL_UVPLAYER then
           call_api api ''media_uv_player_get_duration'' [h, Sym ''mediatool_uv_common_get_duration_cb'', cookie_of ident] st
         else (0, st)))"

definition mediatool_cmd_latency :: "'w tool_api \<Rightarrow> int \<Rightarrow> 'w tool_cmd" where
  "mediatool_cmd_latency api ident st =
    (if \<not> live ident st then Some (-EINVAL, st)
     else let t = kind ident st; h = hnd ident st in
       Some (if t = MEDIATOOL_PLAYER then shown (call_api api ''media_player_get_latency'' [h, Out] st)
         else if t = MEDIATOOL_UVPLAYER then
           call_api api ''media_uv_player_get_latency'' [h, Sym ''mediatool_uv_common_get_latency_cb'', cookie_of ident] st
         else (0, st)))"

definition mediatool_cmd_isplaying :: "'w tool_api \<Rightarrow> int \<Rightarrow> 'w tool_cmd" where
  "mediatool_cmd_isplaying api ident st =
    (if \<not> live ident st then Some (-EINVAL, st)
     else let t = kind ident st; h = hnd ident st in
       Some (if t = MEDIATOOL_PLAYER then shown (call_api api ''media_player_is_playing'' [h] st)
         else if t = MEDIATOOL_UVPLAYER then
           call_api api ''media_uv_player_get_playing'' [h, Sym ''mediatool_uv_common_get_playing_cb'', cookie_of ident] st
         else (0, st)))"

end
