(* ===== verification/Tool_Data.thy ===== *)
theory Tool_Data
  imports Media_Tool
begin

text \<open>
  Buffer mode and callbacks of \<open>media_tool.c\<close>: the thread that moves data between a file and a player or
  recorder, the commands that start it, the chain of libuv callbacks that does the same for the
  asynchronous libraries, and what the tool does when a library reports an event.

  The thread runs until the file or the socket ends; here for \<open>n\<close> calls of each of its loops, and the first
  component of the result is whether it has returned by then.
\<close>

section \<open>Events\<close>

definition mediatool_controllee_callback :: "'w tool_api \<Rightarrow> nat \<Rightarrow> int \<Rightarrow> 'w mediatool \<Rightarrow> 'w mediatool" where
  "mediatool_controllee_callback api i event st =
     call_void api ''media_session_notify'' [Ptr (ch_handle (slot i st)), Val event, Val 0, Str (Some ''fake'')] st"

definition mediatool_controllee_music_callback :: "'w tool_api \<Rightarrow> nat \<Rightarrow> int \<Rightarrow> 'w mediatool \<Rightarrow> 'w mediatool" where
  "mediatool_controllee_music_callback api i event st =
    (let h = Ptr (ch_handle (slot i st)); music = Str (Some MEDIA_STREAM_MUSIC);
         (ret, st1) =
           (if event = MEDIA_EVENT_START then call_api api ''media_player_start'' [h] st
            else if event = MEDIA_EVENT_PAUSE then call_api api ''media_player_pause'' [h] st
            else if event = MEDIA_EVENT_STOP then call_api api ''media_player_stop'' [h] st
            else if event = MEDIA_EVENT_INCREASE_VOLUME then call_api api ''media_policy_decrease_stream_volume'' [music] st
            else if event = MEDIA_EVENT_DECREASE_VOLUME then call_api api ''media_policy_increase_stream_volume'' [music] st
            else (-ENOSYS, st)) in
     call_void api ''media_session_notify'' [h, Val event, Val ret, Str None] st1)"

definition MEDIA_METAFLAG_STATE :: int where "MEDIA_METAFLAG_STATE = 1"

definition mediatool_event_callback :: "'w tool_api \<Rightarrow> nat \<Rightarrow> int \<Rightarrow> 'w mediatool \<Rightarrow> 'w mediatool" where
  "mediatool_event_callback api i event st =
    (let update = (\<lambda>state. call_void api ''media_session_update''
           [Ptr (ch_extra (slot i st)), Meta MEDIA_METAFLAG_STATE state 0 0 0 None None] st) in
     if event = MEDIA_EVENT_STARTED then update 1
     else if event = MEDIA_EVENT_STOPPED \<or> event = MEDIA_EVENT_PAUSED \<or> event = MEDIA_EVENT_COMPLETED then update 0
     else st)"

definition mediatool_takepic_callback :: "'w tool_api \<Rightarrow> nat \<Rightarrow> int \<Rightarrow> 'w mediatool \<Rightarrow> 'w mediatool" where
  "mediatool_takepic_callback api i event st =
    (if event = MEDIA_EVENT_COMPLETED
     then set_slot i (\<lambda>c. c\<lparr>ch_handle := 0, ch_extra := 0\<rparr>)
       (call_void api ''media_recorder_finish_picture'' [Ptr (ch_handle (slot i st))] st)
     else st)"

definition mediatool_uv_common_close_cb :: "nat \<Rightarrow> 'w mediatool \<Rightarrow> 'w mediatool" where
  "mediatool_uv_common_close_cb i st = set_slot i (\<lambda>c. c\<lparr>ch_handle := 0, ch_id := 0\<rparr>) st"

definition mediatool_uv_common_stop_cb :: "'w tool_api \<Rightarrow> nat \<Rightarrow> 'w mediatool \<Rightarrow> 'w mediatool" where
  "mediatool_uv_common_stop_cb api i st =
     set_slot i (ch_buf_update (\<lambda>_. 0)) (call_void api ''free'' [Mem (ch_buf (slot i st)) 0] st)"

definition mediatool_uv_controllee_callback :: "'w tool_api \<Rightarrow> nat \<Rightarrow> int \<Rightarrow> 'w mediatool \<Rightarrow> 'w mediatool" where
  "mediatool_uv_controllee_callback api i event st =
     call_void api ''media_uv_session_notify''
       [Ptr (ch_handle (slot i st)), Val event, Val 0, Str (Some ''fake''), Val 0, Val 0] st"

section \<open>The data of the asynchronous recorder\<close>

definition UV_ENOBUFS :: int where "UV_ENOBUFS = -105"

definition free_buf :: "'w tool_api \<Rightarrow> nat \<Rightarrow> 'w mediatool \<Rightarrow> 'w mediatool" where
  "free_buf api i st = set_slot i (ch_buf_update (\<lambda>_. 0)) (call_void api ''free'' [Mem (ch_buf (slot i st)) 0] st)"

definition mediatool_uv_recorder_alloc_cb :: "'w tool_api \<Rightarrow> nat \<Rightarrow> 'w mediatool \<Rightarrow> ((int \<times> int) \<times> 'w mediatool) option" where
  \<comment> \<open>the buffer and its length\<close>
  "mediatool_uv_recorder_alloc_cb api i st =
    (if ch_buf (slot i st) \<noteq> 0 then Some ((0, 0), st)
     else case call_api api ''malloc'' [Val MEDIATOOL_MAX_SIZE] st of (base, st1) \<Rightarrow>
       if base = 0 then None else Some ((base, MEDIATOOL_MAX_SIZE), st1))"

definition mediatool_uv_recorder_write_cb :: "'w tool_api \<Rightarrow> nat \<Rightarrow> int \<Rightarrow> 'w mediatool \<Rightarrow> 'w mediatool" where
  "mediatool_uv_recorder_write_cb api i result st =
    (if result < 0 then free_buf api i st else call_void api ''uv_fs_req_cleanup'' [] (free_buf api i st))"

definition mediatool_uv_recorder_read_cb :: "'w tool_api \<Rightarrow> nat \<Rightarrow> int \<Rightarrow> int \<Rightarrow> 'w mediatool \<Rightarrow> 'w mediatool option" where
  "mediatool_uv_recorder_read_cb api i nread base st =
    (if nread = UV_ENOBUFS then Some st
     else if MEDIATOOL_MAX_SIZE < nread then None
     else let st1 = set_slot i (ch_buf_update (\<lambda>_. base)) st in
       Some (if nread < 0 then free_buf api i (call_void api ''uv_fs_close'' [Loop, Val (ch_fd (slot i st1))] st1)
         else call_void api ''uv_fs_write'' [Loop, Val (ch_fd (slot i st1)), Mem base 0, Val nread,
           Sym ''mediatool_uv_recorder_write_cb''] st1))"

definition mediatool_uv_recorder_connection_cb :: "'w tool_api \<Rightarrow> nat \<Rightarrow> int \<Rightarrow> 'w mediatool \<Rightarrow> 'w mediatool" where
  "mediatool_uv_recorder_connection_cb api i obj st =
    (if obj = 0 then st
     else call_void api ''uv_read_start'' [Val obj, Sym ''mediatool_uv_recorder_alloc_cb'', Sym ''mediatool_uv_recorder_read_cb'']
       (call_void api ''uv_handle_set_data'' [Val obj, Chain i] st))"

section \<open>The data of the asynchronous player\<close>

definition fs_read :: "'w tool_api \<Rightarrow> nat \<Rightarrow> 'w mediatool \<Rightarrow> 'w mediatool" where
  \<comment> \<open>the next block of the file, into the whole buffer\<close>
  "fs_read api i st = call_void api ''uv_fs_read'' [Loop, Val (ch_fd (slot i st)), Mem (ch_buf (slot i st)) 0,
     Val (ch_size (slot i st)), Sym ''mediatool_uv_player_read_cb''] st"

definition mediatool_uv_player_write_cb :: "'w tool_api \<Rightarrow> nat \<Rightarrow> int \<Rightarrow> 'w mediatool \<Rightarrow> 'w mediatool" where
  "mediatool_uv_player_write_cb api i status st = (if status < 0 then free_buf api i st else fs_read api i st)"

definition mediatool_uv_player_read_cb :: "'w tool_api \<Rightarrow> nat \<Rightarrow> int \<Rightarrow> 'w mediatool \<Rightarrow> 'w mediatool" where
  "mediatool_uv_player_read_cb api i result st =
    (if result < 0 then free_buf api i st
     else if result = 0 then call_void api ''uv_fs_close'' [Loop, Val (ch_fd (slot i st))] st
     else call_void api ''uv_write'' [Val (ch_pipe (slot i st)), Mem (ch_buf (slot i st)) 0, Val result,
       Sym ''mediatool_uv_player_write_cb''] st)"

definition mediatool_uv_player_connection_cb :: "'w tool_api \<Rightarrow> nat \<Rightarrow> int \<Rightarrow> 'w mediatool \<Rightarrow> 'w mediatool option" where
  "mediatool_uv_player_connection_cb api i obj st =
    (case call_api api ''malloc'' [Val MEDIATOOL_MAX_SIZE] st of (b, st1) \<Rightarrow>
       if b = 0 then None
       else Some (fs_read api i (set_slot i (\<lambda>c. c\<lparr>ch_size := MEDIATOOL_MAX_SIZE, ch_buf := b, ch_pipe := obj\<rparr>) st1)))"

section \<open>The thread of the synchronous libraries\<close>

definition mediatool_process_data :: "'w tool_api \<Rightarrow> int \<Rightarrow> bool \<Rightarrow> tool_arg \<Rightarrow> int \<Rightarrow> 'w mediatool \<Rightarrow> int \<times> int \<times> 'w mediatool" where
  \<comment> \<open>the result and \<open>errno\<close>\<close>
  "mediatool_process_data api fd player mem len st =
    (case call_out api ''poll'' [Val fd, Sym (if player then ''POLLOUT'' else ''POLLIN''), Val (-1)] st of (ret, errno, st1) \<Rightarrow>
       if ret < 0 then (- errno, errno, st1)
       else if player then call_out api ''send'' [Val fd, mem, Val len, Val 0] st1
       else call_out api ''recv'' [Val fd, mem, Val len, Val 0] st1)"

datatype block_end = Block_done | Thread_out | Still_running

fun player_write :: "'w tool_api \<Rightarrow> nat \<Rightarrow> nat \<Rightarrow> int \<Rightarrow> nat \<Rightarrow> int \<Rightarrow> 'w mediatool \<Rightarrow> block_end \<times> 'w mediatool" where
  \<comment> \<open>the loop over the \<open>act\<close> bytes that were read, \<open>off\<close> bytes into the buffer\<close>
  "player_write api i 0 fd off act st = (if act \<le> 0 then Block_done else Still_running, st)"
| "player_write api i (Suc n) fd off act st =
    (if act \<le> 0 then (Block_done, st)
     else let c = slot i st; tmp = Mem (ch_buf c) off in
       case (if ch_direct c then mediatool_process_data api fd True tmp act st
         else call_out api ''media_player_write_data'' [Ptr (ch_handle c), tmp, Val act] st) of (ret, errno, st1) \<Rightarrow>
       if ret = 0 then (Block_done, st1)
       else if ret < 0 \<and> errno = EAGAIN then player_write api i n fd off act st1
       else if ret < 0 then (Thread_out, st1)
       else player_write api i n fd (off + nat ret) (act - ret) st1)"

fun player_thread :: "'w tool_api \<Rightarrow> nat \<Rightarrow> nat \<Rightarrow> nat \<Rightarrow> int \<Rightarrow> 'w mediatool \<Rightarrow> (bool \<times> 'w mediatool) option" where
  "player_thread api i m 0 fd st = Some (False, st)"
| "player_thread api i m (Suc n) fd st =
    (case call_api api ''read'' [Val (ch_fd (slot i st)), Mem (ch_buf (slot i st)) 0, Val (ch_size (slot i st))] st of (act, st1) \<Rightarrow>
       if act < 0 then None
       else if act = 0 then Some (True, call_void api ''media_player_close_socket'' [Ptr (ch_handle (slot i st1))] st1)
       else case player_write api i m fd 0 act st1 of
         (Block_done, st2) \<Rightarrow> player_thread api i m n fd st2
       | (Thread_out, st2) \<Rightarrow> Some (True, st2)
       | (Still_running, st2) \<Rightarrow> Some (False, st2))"

fun recorder_thread :: "'w tool_api \<Rightarrow> nat \<Rightarrow> nat \<Rightarrow> int \<Rightarrow> 'w mediatool \<Rightarrow> (bool \<times> 'w mediatool) option" where
  "recorder_thread api i 0 fd st = Some (False, st)"
| "recorder_thread api i (Suc n) fd st =
    (let c = slot i st; buf = Mem (ch_buf c) 0 in
     if ch_direct c \<and> \<not> ch_direct_connect c then Some (True, st)
     else case (if ch_direct c then mediatool_process_data api fd False buf (ch_size c) st
         else call_out api ''media_recorder_read_data'' [Ptr (ch_handle c), buf, Val (ch_size c)] st) of (ret, errno, st1) \<Rightarrow>
       if ret = 0 then Some (True, call_void api ''media_recorder_close_socket'' [Ptr (ch_handle (slot i st1))] st1)
       else if ret < 0 \<and> errno = EAGAIN then recorder_thread api i n fd st1
       else if ret \<le> 0 then Some (True, st1)
       else case call_api api ''write'' [Val (ch_fd (slot i st1)), buf, Val ret] st1 of (act, st2) \<Rightarrow>
         if act \<noteq> ret then None else recorder_thread api i n fd st2)"

definition nonblocking :: "'w tool_api \<Rightarrow> int \<Rightarrow> 'w mediatool \<Rightarrow> bool \<times> 'w mediatool" where
  \<comment> \<open>\<open>fcntl(fd, F_SETFL, fcntl(fd, F_GETFL, 0) | O_NONBLOCK) >= 0\<close>\<close>
  "nonblocking api fd st =
    (case call_api api ''fcntl'' [Val fd, Sym ''F_GETFL'', Val 0] st of (flags, st1) \<Rightarrow>
     case call_api api ''fcntl'' [Val fd, Sym ''F_SETFL'', Val flags, Sym ''O_NONBLOCK''] st1 of (ret, st2) \<Rightarrow> (0 \<le> ret, st2))"

definition mediatool_buffer_thread :: "'w tool_api \<Rightarrow> nat \<Rightarrow> nat \<Rightarrow> nat \<Rightarrow> 'w mediatool \<Rightarrow> (bool \<times> 'w mediatool) option" where
  "mediatool_buffer_thread api m n i st =
    (let c = slot i st; loops = (\<lambda>fd st. if ch_type (slot i st) = MEDIATOOL_PLAYER then player_thread api i m n fd st
           else recorder_thread api i n fd st) in
     if ch_direct c
     then (case call_api api (if ch_type c = MEDIATOOL_PLAYER then ''media_player_get_socket'' else ''media_recorder_get_socket'')
         [Ptr (ch_handle c)] st of (fd, st1) \<Rightarrow>
       if fd < 0 then Some (True, st1)
       else case nonblocking api fd st1 of (ok, st2) \<Rightarrow> if ok then loops fd st2 else Some (True, st2))
     else loops 0 st)"

section \<open>Preparing\<close>

definition prepare_open :: "'w tool_api \<Rightarrow> int \<Rightarrow> string \<Rightarrow> 'w mediatool \<Rightarrow> 'w mediatool" where
  \<comment> \<open>the file of buffer mode\<close>
  "prepare_open api ident path st =
    (let i = nat ident; t = kind ident st;
         st1 = (if t = MEDIATOOL_RECORDER then call_void api ''unlink'' [Str (Some path)] st else st);
         opened = (\<lambda>flags. case call_api api ''open'' [Str (Some path), Sym flags, Val 438] st1 of (fd, s) \<Rightarrow>
           set_slot i (ch_fd_update (\<lambda>_. fd)) s) in
     if t = MEDIATOOL_RECORDER \<or> t = MEDIATOOL_UVRECORDER then opened ''O_CREAT | O_RDWR | O_CLOEXEC | O_TRUNC''
     else if t = MEDIATOOL_PLAYER \<or> t = MEDIATOOL_UVPLAYER then opened ''O_RDONLY | O_CLOEXEC''
     else st1)"

definition prepare_handle :: "'w tool_api \<Rightarrow> int \<Rightarrow> tool_arg \<Rightarrow> string option \<Rightarrow> 'w mediatool \<Rightarrow> int \<times> 'w mediatool" where
  "prepare_handle api ident url options st =
    (let t = kind ident st; h = hnd ident st; opts = Str options in
     if t = MEDIATOOL_PLAYER then call_api api ''media_player_prepare'' [h, url, opts] st
     else if t = MEDIATOOL_RECORDER then call_api api ''media_recorder_prepare'' [h, url, opts] st
     else if t = MEDIATOOL_UVPLAYER then call_api api ''media_uv_player_prepare'' [h, url, opts,
       Sym ''mediatool_uv_player_connection_cb'', Sym ''mediatool_uv_common_prepare_cb'', cookie_of ident] st
     else if t = MEDIATOOL_UVRECORDER then call_api api ''media_uv_recorder_prepare'' [h, url, opts,
       Sym ''mediatool_uv_recorder_connection_cb'', Sym ''mediatool_uv_common_prepare_cb'', cookie_of ident] st
     else (-EINVAL, st))"

definition prepare_thread :: "'w tool_api \<Rightarrow> int \<Rightarrow> bool \<Rightarrow> 'w tool_cmd" where
  \<comment> \<open>the result of \<open>pthread_create\<close>, asserted to be 0, is returned\<close>
  "prepare_thread api ident direct st =
    (let i = nat ident in
     case call_api api ''malloc'' [Val 512] (set_slot i (\<lambda>c. c\<lparr>ch_direct := direct, ch_size := 512\<rparr>) st) of (b, st1) \<Rightarrow>
     if b = 0 then None
     else let st2 = set_slot i (\<lambda>c. c\<lparr>ch_buf := b, ch_direct_connect := (direct \<or> ch_direct_connect c)\<rparr>) st1 in
       case call_out api ''pthread_create'' [Sym ''mediatool_buffer_thread'', Chain i] st2 of (ret, thread, st3) \<Rightarrow>
       if ret \<noteq> 0 then None else Some (ret, set_slot i (ch_thread_update (\<lambda>_. thread)) st3))"

definition mediatool_cmd_prepare :: "'w tool_api \<Rightarrow> int \<Rightarrow> string option \<Rightarrow> string option \<Rightarrow> string option \<Rightarrow> 'w tool_cmd" where
  "mediatool_cmd_prepare api ident mode path options st =
    (if \<not> live ident st then Some (-EINVAL, st)
     else case (mode, path) of
       (Some m, Some p) \<Rightarrow>
        (let url_mode = (m = ''url''); direct = (\<not> url_mode \<and> m = ''direct'') in
         if \<not> url_mode \<and> ch_thread (slot (nat ident) st) \<noteq> 0 then Some (-EPERM, st)
         else let st1 = (if url_mode then st else prepare_open api ident p st) in
           if \<not> url_mode \<and> ch_fd (slot (nat ident) st1) < 0 then Some (-EINVAL, st1)
           else case prepare_handle api ident (Str (if url_mode then Some p else None)) options st1 of (ret, st2) \<Rightarrow>
             let fd = ch_fd (slot (nat ident) st2);
                 async_mode = (kind ident st1 = MEDIATOOL_UVPLAYER \<or> kind ident st1 = MEDIATOOL_UVRECORDER) in
             if ret < 0 then
               Some (ret, if \<not> url_mode \<and> 0 \<le> fd
                 then set_slot (nat ident) (ch_fd_update (\<lambda>_. -1)) (call_void api ''close'' [Val fd] st2) else st2)
             else if \<not> async_mode \<and> \<not> url_mode then prepare_thread api ident direct st2
             else Some (ret, st2))
     | _ \<Rightarrow> Some (-EINVAL, st))"

definition MEDIA_TONE_DTMF_FORMAT :: string where
  "MEDIA_TONE_DTMF_FORMAT = ''format=s16le:sample_rate=8000:ch_layout=mono''"

definition mediatool_cmd_playdtmf :: "'w tool_api \<Rightarrow> int \<Rightarrow> string option \<Rightarrow> string option \<Rightarrow> 'w tool_cmd" where
  "mediatool_cmd_playdtmf api ident mode dial_number st =
    (if \<not> live ident st then Some (-EINVAL, st)
     else case (mode, dial_number) of
       (Some m, Some d) \<Rightarrow>
        (if m = [] \<or> d = [] then Some (-EINVAL, st)
         else let h = hnd ident st; direct = (m = ''direct'') in
           case call_api api ''media_dtmf_get_buffer_size'' [Str (Some d)] st of (buffer_size, st1) \<Rightarrow>
           case call_api api ''malloc'' [Val buffer_size] st1 of (buffer, st2) \<Rightarrow>
           if buffer = 0 then None
           else let out = (\<lambda>(ret, s). Some (ret, call_void api ''free'' [Mem buffer 0] s));
               sent = (\<lambda>(ret, s). if ret = buffer_size then out (0, call_void api ''media_player_close_socket'' [h] s) else out (ret, s)) in
             case call_api api ''media_dtmf_generate'' [Str (Some d), Mem buffer 0] st2 of (ret, st3) \<Rightarrow>
             if ret < 0 then out (ret, st3)
             else case call_api api ''media_player_prepare'' [h, Str None, Str (Some MEDIA_TONE_DTMF_FORMAT)] st3 of (ret, st4) \<Rightarrow>
               if ret < 0 then out (ret, st4)
               else if direct then
                 (case call_api api ''media_player_get_socket'' [h] st4 of (fd, st5) \<Rightarrow>
                  if fd < 0 then out (ret, st5)
                  else case nonblocking api fd st5 of (ok, st6) \<Rightarrow>
                    if \<not> ok then out (ret, st6)
                    else case mediatool_process_data api fd True (Mem buffer 0) buffer_size st6 of (ret, _, st7) \<Rightarrow> sent (ret, st7))
               else sent (call_api api ''media_player_write_data'' [h, Mem buffer 0, Val buffer_size] st4))
     | _ \<Rightarrow> Some (-EINVAL, st))"

end
