(* ===== verification/Tool_Shell.thy ===== *)
theory Tool_Shell
  imports Tool_Data
begin

text \<open>
  The rest of \<open>media_tool.c\<close>: pictures, the policy, focus, the asynchronous openings, the table of the
  commands, the execution of a line, and the loop over the lines of the console. The table is that of a build
  with \<open>CONFIG_LIBUV_EXTENSION\<close>; without it the commands of \<open>uv_cmds\<close> are missing.
\<close>

section \<open>Pictures, policy, focus\<close>

definition mediatool_cmd_take_picture :: "'w tool_api \<Rightarrow> string option \<Rightarrow> string option \<Rightarrow> int \<Rightarrow> 'w tool_cmd" where
  "mediatool_cmd_take_picture api filtername filename number st =
     Some (call_api api ''media_recorder_take_picture'' [Str filtername, Str filename, Val number] st)"

definition mediatool_cmd_take_picture_async :: "'w tool_api \<Rightarrow> string option \<Rightarrow> string option \<Rightarrow> int \<Rightarrow> 'w tool_cmd" where
  \<comment> \<open>the cookie is the address of the array, that is of slot 0; the type of the slot stays\<close>
  "mediatool_cmd_take_picture_async api filtername filename number st =
    (case take_slot st of None \<Rightarrow> Some (-ENOMEM, st)
     | Some (i, st0) \<Rightarrow>
       (case call_api api ''media_recorder_start_picture''
           [Str filtername, Str filename, Val number, Sym ''mediatool_takepic_callback'', Chain 0] st0 of (h, st1) \<Rightarrow>
        let st2 = set_slot i (ch_handle_update (\<lambda>_. h)) st1 in
        Some (if h = 0 then -EINVAL else 0, st2)))"

definition strlcat :: "nat \<Rightarrow> string \<Rightarrow> string \<Rightarrow> string" where
  \<comment> \<open>onto a string within \<open>n\<close> characters, its zero included\<close>
  "strlcat n dst src = dst @ take (n - 1 - length dst) src"

fun send_arg :: "string \<Rightarrow> string list \<Rightarrow> string" where
  "send_arg arg [] = arg"
| "send_arg arg [a] = strlcat 64 arg a"
| "send_arg arg (a # b # as) = send_arg (strlcat 64 (strlcat 64 arg a) '' '') (b # as)"

definition mediatool_cmd_send :: "'w tool_api \<Rightarrow> string list \<Rightarrow> 'w tool_cmd" where
  "mediatool_cmd_send api argv st =
    (let at = (\<lambda>n. if n < length argv then Some (argv ! n) else None) in
     Some (call_api api ''media_process_command'' [Str (at 1), Str (at 2), Str (Some (send_arg [] (drop 3 argv))), Val 0, Val 0] st))"

definition mediatool_cmd_dump :: "'w tool_api \<Rightarrow> string option \<Rightarrow> 'w tool_cmd" where
  "mediatool_cmd_dump api options st =
    (let st1 = call_void api ''media_policy_dump'' [Str options] st;
         st2 = call_void api ''media_graph_dump'' [Str options] st1 in
     Some (0, call_void api ''media_focus_dump'' [Str options] st2))"

definition mediatool_cmd_setint :: "'w tool_api \<Rightarrow> string option \<Rightarrow> int \<Rightarrow> int \<Rightarrow> 'w tool_cmd" where
  "mediatool_cmd_setint api name value apply_it st =
     Some (call_api api ''media_policy_set_int'' [Str name, Val value, Val apply_it] st)"

definition printed :: "int \<times> 'w mediatool \<Rightarrow> int \<times> 'w mediatool" where
  \<comment> \<open>any error becomes \<open>-EINVAL\<close>\<close>
  "printed r = (if fst r < 0 then (-EINVAL, snd r) else (0, snd r))"

definition mediatool_cmd_getint :: "'w tool_api \<Rightarrow> string option \<Rightarrow> 'w tool_cmd" where
  "mediatool_cmd_getint api name st = Some (printed (call_api api ''media_policy_get_int'' [Str name, Out] st))"

definition mediatool_cmd_getrange :: "'w tool_api \<Rightarrow> string option \<Rightarrow> 'w tool_cmd" where
  "mediatool_cmd_getrange api name st = Some (printed (call_api api ''media_policy_get_range'' [Str name, Out, Out] st))"

definition mediatool_cmd_setstring :: "'w tool_api \<Rightarrow> string option \<Rightarrow> string option \<Rightarrow> int \<Rightarrow> 'w tool_cmd" where
  "mediatool_cmd_setstring api name value apply_it st =
     Some (call_api api ''media_policy_set_string'' [Str name, Str value, Val apply_it] st)"

definition mediatool_cmd_getstring :: "'w tool_api \<Rightarrow> string option \<Rightarrow> 'w tool_cmd" where
  "mediatool_cmd_getstring api name st = Some (printed (call_api api ''media_policy_get_string'' [Str name, Out, Val 64] st))"

definition mediatool_cmd_include :: "'w tool_api \<Rightarrow> string option \<Rightarrow> string option \<Rightarrow> int \<Rightarrow> 'w tool_cmd" where
  "mediatool_cmd_include api name value apply_it st =
     Some (call_api api ''media_policy_include'' [Str name, Str value, Val apply_it] st)"

definition mediatool_cmd_exclude :: "'w tool_api \<Rightarrow> string option \<Rightarrow> string option \<Rightarrow> int \<Rightarrow> 'w tool_cmd" where
  "mediatool_cmd_exclude api name value apply_it st =
     Some (call_api api ''media_policy_exclude'' [Str name, Str value, Val apply_it] st)"

definition mediatool_cmd_contain :: "'w tool_api \<Rightarrow> string option \<Rightarrow> string option \<Rightarrow> 'w tool_cmd" where
  "mediatool_cmd_contain api name value st =
     Some (printed (call_api api ''media_policy_contain'' [Str name, Str value, Out] st))"

definition mediatool_cmd_increase :: "'w tool_api \<Rightarrow> string option \<Rightarrow> int \<Rightarrow> 'w tool_cmd" where
  "mediatool_cmd_increase api name apply_it st = Some (call_api api ''media_policy_increase'' [Str name, Val apply_it] st)"

definition mediatool_cmd_decrease :: "'w tool_api \<Rightarrow> string option \<Rightarrow> int \<Rightarrow> 'w tool_cmd" where
  "mediatool_cmd_decrease api name apply_it st = Some (call_api api ''media_policy_decrease'' [Str name, Val apply_it] st)"

definition mediatool_cmd_subscribe :: "'w tool_api \<Rightarrow> string option \<Rightarrow> 'w tool_cmd" where
  "mediatool_cmd_subscribe api name st =
    (case take_slot st of None \<Rightarrow> Some (-ENOMEM, st)
     | Some (i, st0) \<Rightarrow>
       (case call_api api ''media_policy_subscribe'' [Str name, Sym ''mediatool_policy_callback'', Chain i] st0 of (h, st1) \<Rightarrow>
        let st2 = set_slot i (ch_handle_update (\<lambda>_. h)) st1 in
        Some (0, if h = 0 then st2 else set_slot i (ch_type_update (\<lambda>_. MEDIATOOL_POLICY)) st2)))"

definition mediatool_cmd_focus_request :: "'w tool_api \<Rightarrow> string option \<Rightarrow> 'w tool_cmd" where
  "mediatool_cmd_focus_request api name st =
    (case take_slot st of None \<Rightarrow> Some (-ENOMEM, st)
     | Some (i, st0) \<Rightarrow>
       (case call_api api ''media_focus_request'' [Out, Str name, Sym ''mediatool_focus_callback'', Chain i] st0 of (h, st1) \<Rightarrow>
        let st2 = set_slot i (ch_handle_update (\<lambda>_. h)) st1 in
        Some (0, if h = 0 then st2 else set_slot i (ch_type_update (\<lambda>_. MEDIATOOL_FOCUS)) st2)))"

fun close_slots :: "'w tool_api \<Rightarrow> int list \<Rightarrow> 'w mediatool \<Rightarrow> 'w mediatool option" where
  "close_slots api [] st = Some st"
| "close_slots api (i # is) st = do {
     st1 \<leftarrow> (if ch_handle (slot (nat i) st) \<noteq> 0 then do { (_, s) \<leftarrow> mediatool_cmd_close api i 0 st; Some s } else Some st);
     close_slots api is st1
   }"

definition mediatool_cmd_quit :: "'w tool_api \<Rightarrow> 'w tool_cmd" where
  "mediatool_cmd_quit api st = do { st1 \<leftarrow> close_slots api [0..int MEDIATOOL_MAX_CHAIN - 1] st; Some (0, st1) }"

section \<open>Asynchronous commands\<close>

definition mediatool_cmd_uv_player_open :: "'w tool_api \<Rightarrow> string option \<Rightarrow> 'w tool_cmd" where
  "mediatool_cmd_uv_player_open api stream_type st =
    (case take_slot st of None \<Rightarrow> Some (-ENOMEM, st)
     | Some (i, st0) \<Rightarrow>
       (case call_api api ''media_uv_player_open'' [Loop, Str stream_type, Sym ''mediatool_uv_common_open_cb'', Chain i] st0 of (h, st1) \<Rightarrow>
        let st2 = set_slot i (ch_handle_update (\<lambda>_. h)) st1 in
        if h = 0 then Some (-EINVAL, st2)
        else (case call_api api ''media_uv_player_listen'' [Ptr h, Sym ''mediatool_event_callback''] st2 of (ret, st3) \<Rightarrow>
          if ret < 0 then Some (-EINVAL, st3)
          else Some (0, set_slot i (ch_type_update (\<lambda>_. MEDIATOOL_UVPLAYER)) st3))))"

definition mediatool_cmd_uv_recorder_open :: "'w tool_api \<Rightarrow> string option \<Rightarrow> 'w tool_cmd" where
  "mediatool_cmd_uv_recorder_open api stream_type st =
    (case take_slot st of None \<Rightarrow> Some (-ENOMEM, st)
     | Some (i, st0) \<Rightarrow>
       (case call_api api ''media_uv_recorder_open'' [Loop, Str stream_type, Sym ''mediatool_uv_common_open_cb'', Chain i] st0 of (h, st1) \<Rightarrow>
        let st2 = set_slot i (ch_handle_update (\<lambda>_. h)) st1 in
        if h = 0 then Some (-EINVAL, st2)
        else (case call_api api ''media_uv_recorder_listen'' [Ptr h, Sym ''mediatool_event_callback''] st2 of (ret, st3) \<Rightarrow>
          if ret < 0 then Some (-EINVAL, st3)
          else Some (0, set_slot i (ch_type_update (\<lambda>_. MEDIATOOL_UVRECORDER)) st3))))"

definition mediatool_cmd_uv_session_open :: "'w tool_api \<Rightarrow> string option \<Rightarrow> 'w tool_cmd" where
  "mediatool_cmd_uv_session_open api param st =
    (case take_slot st of None \<Rightarrow> Some (-ENOMEM, st)
     | Some (i, st0) \<Rightarrow>
       (case call_api api ''media_uv_session_open'' [Loop, Str param, Sym ''mediatool_uv_session_open_cb'', Chain i] st0 of (h, st1) \<Rightarrow>
        let st2 = set_slot i (ch_handle_update (\<lambda>_. h)) st1 in
        if h = 0 then Some (-EINVAL, st2)
        else (case call_api api ''media_uv_session_listen'' [Ptr h, Sym ''mediatool_controller_callback''] st2 of (ret, st3) \<Rightarrow>
          if ret < 0 then Some (-EINVAL, st3)
          else Some (0, set_slot i (ch_type_update (\<lambda>_. MEDIATOOL_UVCONTROLLER)) st3))))"

definition mediatool_cmd_uv_session_register :: "'w tool_api \<Rightarrow> string option \<Rightarrow> 'w tool_cmd" where
  "mediatool_cmd_uv_session_register api param st =
    (case take_slot st of None \<Rightarrow> Some (-ENOMEM, st)
     | Some (i, st0) \<Rightarrow>
       (case call_api api ''media_uv_session_register''
           [Loop, Str param, Sym ''mediatool_uv_controllee_callback'', Chain i] st0 of (h, st1) \<Rightarrow>
        let st2 = set_slot i (ch_handle_update (\<lambda>_. h)) st1 in
        if h = 0 then Some (-EINVAL, st2)
        else Some (0, set_slot i (ch_type_update (\<lambda>_. MEDIATOOL_UVCONTROLLEE)) st2)))"

definition uv_named :: "'w tool_api \<Rightarrow> string \<Rightarrow> string option \<Rightarrow> tool_arg list \<Rightarrow> string \<Rightarrow> 'w tool_cmd" where
  \<comment> \<open>the cookie is a copy of the name\<close>
  "uv_named api f name args cb st =
    (if name = None then None
     else case call_api api ''strdup'' [Str name] st of (p, st1) \<Rightarrow>
       Some (call_api api f ([Loop, Str name] @ args @ [Sym cb, Mem p 0]) st1))"

definition mediatool_cmd_uv_policy_set_int :: "'w tool_api \<Rightarrow> string option \<Rightarrow> int \<Rightarrow> int \<Rightarrow> 'w tool_cmd" where
  "mediatool_cmd_uv_policy_set_int api name value apply_it st =
     uv_named api ''media_uv_policy_set_int'' name [Val value, Val apply_it] ''mediatool_cmd_uv_policy_set_int_cb'' st"

definition mediatool_cmd_uv_policy_get_int :: "'w tool_api \<Rightarrow> string option \<Rightarrow> 'w tool_cmd" where
  "mediatool_cmd_uv_policy_get_int api name st =
     uv_named api ''media_uv_policy_get_int'' name [] ''mediatool_cmd_uv_policy_get_int_cb'' st"

definition mediatool_cmd_uv_policy_set_string :: "'w tool_api \<Rightarrow> string option \<Rightarrow> string option \<Rightarrow> int \<Rightarrow> 'w tool_cmd" where
  "mediatool_cmd_uv_policy_set_string api name value apply_it st =
     uv_named api ''media_uv_policy_set_string'' name [Str value, Val apply_it] ''mediatool_cmd_uv_policy_set_string_cb'' st"

definition mediatool_cmd_uv_policy_get_string :: "'w tool_api \<Rightarrow> string option \<Rightarrow> 'w tool_cmd" where
  "mediatool_cmd_uv_policy_get_string api name st =
     uv_named api ''media_uv_policy_get_string'' name [] ''mediatool_cmd_uv_policy_get_string_cb'' st"

definition mediatool_cmd_uv_policy_increase :: "'w tool_api \<Rightarrow> string option \<Rightarrow> int \<Rightarrow> 'w tool_cmd" where
  "mediatool_cmd_uv_policy_increase api name apply_it st =
     uv_named api ''media_uv_policy_increase'' name [Val apply_it] ''mediatool_cmd_uv_policy_increase_cb'' st"

definition mediatool_cmd_uv_policy_decrease :: "'w tool_api \<Rightarrow> string option \<Rightarrow> int \<Rightarrow> 'w tool_cmd" where
  "mediatool_cmd_uv_policy_decrease api name apply_it st =
     uv_named api ''media_uv_policy_decrease'' name [Val apply_it] ''mediatool_cmd_uv_policy_decrease_cb'' st"

definition mediatool_cmd_uv_policy_include :: "'w tool_api \<Rightarrow> string option \<Rightarrow> string option \<Rightarrow> int \<Rightarrow> 'w tool_cmd" where
  "mediatool_cmd_uv_policy_include api name value apply_it st =
     uv_named api ''media_uv_policy_include'' name [Str value, Val apply_it] ''mediatool_cmd_uv_policy_include_cb'' st"

definition mediatool_cmd_uv_policy_exclude :: "'w tool_api \<Rightarrow> string option \<Rightarrow> string option \<Rightarrow> int \<Rightarrow> 'w tool_cmd" where
  "mediatool_cmd_uv_policy_exclude api name value apply_it st =
     uv_named api ''media_uv_policy_exclude'' name [Str value, Val apply_it] ''mediatool_cmd_uv_policy_exclude_cb'' st"

definition mediatool_cmd_uv_policy_contain :: "'w tool_api \<Rightarrow> string option \<Rightarrow> string option \<Rightarrow> 'w tool_cmd" where
  "mediatool_cmd_uv_policy_contain api name value st =
     uv_named api ''media_uv_policy_contain'' name [Str value] ''mediatool_cmd_uv_policy_contain_cb'' st"

definition mediatool_cmd_uv_policy_done_cb :: "'w tool_api \<Rightarrow> int \<Rightarrow> 'w mediatool \<Rightarrow> 'w mediatool" where
  \<comment> \<open>the callbacks of the policy print the name and free it\<close>
  "mediatool_cmd_uv_policy_done_cb api cookie st = call_void api ''free'' [Mem cookie 0] st"

definition mediatool_cmd_uv_focus_request :: "'w tool_api \<Rightarrow> string option \<Rightarrow> 'w tool_cmd" where
  "mediatool_cmd_uv_focus_request api name st =
    (case take_slot st of None \<Rightarrow> Some (-ENOMEM, st)
     | Some (i, st0) \<Rightarrow>
       (case call_api api ''media_uv_focus_request'' [Loop, Str name, Sym ''mediatool_focus_suggest_cb'', Chain i] st0 of (h, st1) \<Rightarrow>
        let st2 = set_slot i (ch_handle_update (\<lambda>_. h)) st1 in
        Some (0, if h = 0 then st2 else set_slot i (ch_type_update (\<lambda>_. MEDIATOOL_UVFOCUS)) st2)))"

definition mediatool_cmd_uv_take_picture :: "'w tool_api \<Rightarrow> string option \<Rightarrow> string option \<Rightarrow> int \<Rightarrow> 'w tool_cmd" where
  "mediatool_cmd_uv_take_picture api filtername filename number st =
     Some (call_api api ''media_uv_recorder_take_picture''
       [Loop, Str filtername, Str filename, Val number, Sym ''mediatool_uv_take_picture_complete_cb'', Val 0] st)"

section \<open>The table\<close>

type_synonym 'w tool_func = "string list \<Rightarrow> 'w tool_cmd"

definition tool_cmd1 :: "(string option \<Rightarrow> 'w tool_cmd) \<Rightarrow> 'w tool_func" where
  "tool_cmd1 f argv = f (str_arg 1 argv)"

definition tool_cmd_id :: "(int \<Rightarrow> 'w tool_cmd) \<Rightarrow> 'w tool_func" where
  "tool_cmd_id f argv = f (int_arg 1 argv)"

definition tool_cmd_id_int :: "(int \<Rightarrow> int \<Rightarrow> 'w tool_cmd) \<Rightarrow> 'w tool_func" where
  "tool_cmd_id_int f argv = f (int_arg 1 argv) (int_arg 2 argv)"

definition tool_cmd_id_str :: "(int \<Rightarrow> string option \<Rightarrow> 'w tool_cmd) \<Rightarrow> 'w tool_func" where
  "tool_cmd_id_str f argv = f (int_arg 1 argv) (str_arg 2 argv)"

definition tool_cmd_str_int :: "(string option \<Rightarrow> int \<Rightarrow> 'w tool_cmd) \<Rightarrow> 'w tool_func" where
  "tool_cmd_str_int f argv = f (str_arg 1 argv) (int_arg 2 argv)"

definition tool_cmd_str_str :: "(string option \<Rightarrow> string option \<Rightarrow> 'w tool_cmd) \<Rightarrow> 'w tool_func" where
  "tool_cmd_str_str f argv = f (str_arg 1 argv) (str_arg 2 argv)"

definition tool_cmd_id_str_str :: "(int \<Rightarrow> string option \<Rightarrow> string option \<Rightarrow> 'w tool_cmd) \<Rightarrow> 'w tool_func" where
  "tool_cmd_id_str_str f argv = f (int_arg 1 argv) (str_arg 2 argv) (str_arg 3 argv)"

definition tool_cmd_str_int_int :: "(string option \<Rightarrow> int \<Rightarrow> int \<Rightarrow> 'w tool_cmd) \<Rightarrow> 'w tool_func" where
  "tool_cmd_str_int_int f argv = f (str_arg 1 argv) (int_arg 2 argv) (int_arg 3 argv)"

definition tool_cmd_str_str_int :: "(string option \<Rightarrow> string option \<Rightarrow> int \<Rightarrow> 'w tool_cmd) \<Rightarrow> 'w tool_func" where
  "tool_cmd_str_str_int f argv = f (str_arg 1 argv) (str_arg 2 argv) (int_arg 3 argv)"

definition tool_cmd4 :: "(int \<Rightarrow> string option \<Rightarrow> string option \<Rightarrow> string option \<Rightarrow> 'w tool_cmd) \<Rightarrow> 'w tool_func" where
  "tool_cmd4 f argv = f (int_arg 1 argv) (str_arg 2 argv) (str_arg 3 argv) (str_arg 4 argv)"

definition tool_cmd8 :: "(int \<Rightarrow> int \<Rightarrow> int \<Rightarrow> int \<Rightarrow> int \<Rightarrow> int \<Rightarrow> string option \<Rightarrow> string option \<Rightarrow> 'w tool_cmd) \<Rightarrow> 'w tool_func" where
  "tool_cmd8 f argv = f (int_arg 1 argv) (int_arg 2 argv) (int_arg 3 argv) (int_arg 4 argv) (int_arg 5 argv) (int_arg 6 argv)
     (str_arg 7 argv) (str_arg 8 argv)"

lemmas tool_cmds = tool_cmd1_def tool_cmd_id_def tool_cmd_id_int_def tool_cmd_id_str_def tool_cmd_str_int_def
  tool_cmd_str_str_def tool_cmd_id_str_str_def tool_cmd_str_int_int_def tool_cmd_str_str_int_def tool_cmd4_def tool_cmd8_def

definition sync_cmds :: "'w tool_api \<Rightarrow> (string \<times> 'w tool_func) list" where
  "sync_cmds api =
    [(''open'', tool_cmd1 (mediatool_cmd_player_open api)),
     (''copen'', tool_cmd1 (mediatool_cmd_recorder_open api)),
     (''sopen'', tool_cmd1 (mediatool_cmd_session_open api)),
     (''close'', tool_cmd_id_int (mediatool_cmd_close api)),
     (''sregister'', tool_cmd1 (mediatool_cmd_session_register api)),
     (''sunregister'', tool_cmd_id_int (mediatool_cmd_close api)),
     (''query'', tool_cmd_id (mediatool_cmd_query api)),
     (''update'', tool_cmd8 (mediatool_cmd_update api)),
     (''reset'', tool_cmd_id (mediatool_cmd_reset api)),
     (''prepare'', tool_cmd4 (mediatool_cmd_prepare api)),
     (''start'', tool_cmd_id_str (mediatool_cmd_start api)),
     (''stop'', tool_cmd_id (mediatool_cmd_stop api)),
     (''pause'', tool_cmd_id (mediatool_cmd_pause api)),
     (''volume'', tool_cmd_id_str (mediatool_cmd_volume api)),
     (''loop'', tool_cmd_id_int (mediatool_cmd_loop api)),
     (''seek'', tool_cmd_id_int (mediatool_cmd_seek api)),
     (''position'', tool_cmd_id (mediatool_cmd_position api)),
     (''duration'', tool_cmd_id (mediatool_cmd_duration api)),
     (''latency'', tool_cmd_id (mediatool_cmd_latency api)),
     (''isplay'', tool_cmd_id (mediatool_cmd_isplaying api)),
     (''playdtmf'', tool_cmd_id_str_str (mediatool_cmd_playdtmf api)),
     (''prev'', tool_cmd_id (mediatool_cmd_prevsong api)),
     (''next'', tool_cmd_id (mediatool_cmd_nextsong api)),
     (''takepic'', tool_cmd_str_str_int (mediatool_cmd_take_picture api)),
     (''takepic_async'', tool_cmd_str_str_int (mediatool_cmd_take_picture_async api)),
     (''send'', mediatool_cmd_send api),
     (''dump'', tool_cmd1 (mediatool_cmd_dump api)),
     (''setint'', tool_cmd_str_int_int (mediatool_cmd_setint api)),
     (''getint'', tool_cmd1 (mediatool_cmd_getint api)),
     (''getrange'', tool_cmd1 (mediatool_cmd_getrange api)),
     (''setstring'', tool_cmd_str_str_int (mediatool_cmd_setstring api)),
     (''getstring'', tool_cmd1 (mediatool_cmd_getstring api)),
     (''include'', tool_cmd_str_str_int (mediatool_cmd_include api)),
     (''exclude'', tool_cmd_str_str_int (mediatool_cmd_exclude api)),
     (''contain'', tool_cmd_str_str (mediatool_cmd_contain api)),
     (''increase'', tool_cmd_str_int (mediatool_cmd_increase api)),
     (''decrease'', tool_cmd_str_int (mediatool_cmd_decrease api)),
     (''subscribe'', tool_cmd1 (mediatool_cmd_subscribe api)),
     (''unsubscribe'', tool_cmd_id_int (mediatool_cmd_close api)),
     (''request'', tool_cmd1 (mediatool_cmd_focus_request api)),
     (''abandon'', tool_cmd_id_int (mediatool_cmd_close api))]"

definition uv_cmds :: "'w tool_api \<Rightarrow> (string \<times> 'w tool_func) list" where
  "uv_cmds api =
    [(''uv_open'', tool_cmd1 (mediatool_cmd_uv_player_open api)),
     (''uv_copen'', tool_cmd1 (mediatool_cmd_uv_recorder_open api)),
     (''uv_sopen'', tool_cmd1 (mediatool_cmd_uv_session_open api)),
     (''uv_sregister'', tool_cmd1 (mediatool_cmd_uv_session_register api)),
     (''uv_sunregister'', tool_cmd_id_int (mediatool_cmd_close api)),
     (''uv_setint'', tool_cmd_str_int_int (mediatool_cmd_uv_policy_set_int api)),
     (''uv_getint'', tool_cmd1 (mediatool_cmd_uv_policy_get_int api)),
     (''uv_setstr'', tool_cmd_str_str_int (mediatool_cmd_uv_policy_set_string api)),
     (''uv_getstr'', tool_cmd1 (mediatool_cmd_uv_policy_get_string api)),
     (''uv_increase'', tool_cmd_str_int (mediatool_cmd_uv_policy_increase api)),
     (''uv_decrease'', tool_cmd_str_int (mediatool_cmd_uv_policy_decrease api)),
     (''uv_include'', tool_cmd_str_str_int (mediatool_cmd_uv_policy_include api)),
     (''uv_exclude'', tool_cmd_str_str_int (mediatool_cmd_uv_policy_exclude api)),
     (''uv_contain'', tool_cmd_str_str (mediatool_cmd_uv_policy_contain api)),
     (''uv_request'', tool_cmd1 (mediatool_cmd_uv_focus_request api)),
     (''uv_takepic'', tool_cmd_str_str_int (mediatool_cmd_uv_take_picture api))]"

definition g_mediatool_cmds :: "'w tool_api \<Rightarrow> (string \<times> 'w tool_func) list" where
  \<comment> \<open>the last entry, \<open>help\<close>, has no function and is compared for first\<close>
  "g_mediatool_cmds api = sync_cmds api @ uv_cmds api @ [(''q'', \<lambda>_. mediatool_cmd_quit api)]"

section \<open>Executing lines\<close>

definition tool_argv :: "string \<Rightarrow> string list" where
  \<comment> \<open>\<open>argc\<close> is the length\<close>
  "tool_argv buffer = take (MEDIATOOL_MAX_ARGC - 1) (strtok_tokens (CHR '' '') buffer)"

definition mediatool_execute :: "'w tool_api \<Rightarrow> string \<Rightarrow> 'w tool_cmd" where
  \<comment> \<open>\<open>q\<close> is the one entry with the function \<open>mediatool_cmd_quit\<close>\<close>
  "mediatool_execute api buffer st =
    (let argv = tool_argv buffer in
     if argv = [] then Some (0, st)
     else if hd argv = ''help'' then Some (0, st)
     else case map_of (g_mediatool_cmds api) (hd argv) of
       None \<Rightarrow> Some (0, st)
     | Some pfunc \<Rightarrow> do {
         (ret, st1) \<leftarrow> pfunc argv st;
         Some (if hd argv = ''q'' then -1 else if ret < 0 then 0 else ret, st1)
       })"

section \<open>The console\<close>

definition console_line :: "string \<Rightarrow> string option" where
  \<comment> \<open>what \<open>getline\<close> read, without its newline; \<open>None\<close> when it is skipped: an empty line, or a command for
    the system's shell\<close>
  "console_line buffer =
    (if buffer = [newline] then None
     else let line = takeWhile (\<lambda>c. c \<noteq> NUL) (if last buffer = newline then butlast buffer else buffer) in
       if take 1 line = ''!'' then None else Some line)"

fun console_sync :: "'w tool_api \<Rightarrow> string option list \<Rightarrow> 'w mediatool \<Rightarrow> (bool \<times> 'w mediatool) option" where
  \<comment> \<open>\<open>main\<close> without libuv, for these results of \<open>getline\<close>, \<open>None\<close> being -1; whether it has left the loop\<close>
  "console_sync api [] st = Some (False, st)"
| "console_sync api (None # ls) st = console_sync api ls st"
| "console_sync api (Some l # ls) st =
    (case console_line l of None \<Rightarrow> console_sync api ls st
     | Some line \<Rightarrow> do {
         (ret, st1) \<leftarrow> mediatool_execute api line st;
         if ret < 0 then Some (True, st1) else console_sync api ls st1
       })"

fun console_uv :: "string option list \<Rightarrow> string list" where
  \<comment> \<open>\<open>main\<close> with libuv: the lines it sends to the thread of the loop\<close>
  "console_uv [] = []"
| "console_uv (None # ls) = console_uv ls"
| "console_uv (Some l # ls) =
    (case console_line l of None \<Rightarrow> console_uv ls
     | Some line \<Rightarrow> if line = ''q'' then [line] else line # console_uv ls)"

definition mediatool_uvasyncq_cb :: "'w tool_api \<Rightarrow> string \<Rightarrow> 'w mediatool \<Rightarrow> (bool \<times> 'w mediatool) option" where
  \<comment> \<open>whether the queue is closed\<close>
  "mediatool_uvasyncq_cb api line st = do {
     (ret, st1) \<leftarrow> mediatool_execute api line st;
     let st2 = call_void api ''free'' [Str (Some line)] st1;
     Some (if ret < 0 then (True, call_void api ''uv_close'' [Sym ''mediatool_uvasyncq_close_cb''] st2) else (False, st2))
   }"

definition mediatool_uvasyncq_close_cb :: "'w tool_api \<Rightarrow> 'w mediatool \<Rightarrow> 'w mediatool" where
  "mediatool_uvasyncq_close_cb api st = call_void api ''uv_stop'' [Loop] st"

fun asyncq_run :: "'w tool_api \<Rightarrow> string list \<Rightarrow> 'w mediatool \<Rightarrow> (bool \<times> 'w mediatool) option" where
  \<comment> \<open>the lines the queue holds, until it is closed\<close>
  "asyncq_run api [] st = Some (False, st)"
| "asyncq_run api (l # ls) st = do {
     (closed, st1) \<leftarrow> mediatool_uvasyncq_cb api l st;
     if closed then Some (True, mediatool_uvasyncq_close_cb api st1) else asyncq_run api ls st1
   }"

fun uv_run_loop :: "'w tool_api \<Rightarrow> nat \<Rightarrow> 'w mediatool \<Rightarrow> bool \<times> 'w mediatool" where
  "uv_run_loop api 0 st = (False, st)"
| "uv_run_loop api (Suc n) st =
    (case call_api api ''uv_run'' [Loop, Sym ''UV_RUN_DEFAULT''] st of (ret, st1) \<Rightarrow>
       if ret = 0 then (True, st1) else uv_run_loop api n st1)"

definition mediatool_uvloop_thread :: "'w tool_api \<Rightarrow> nat \<Rightarrow> 'w mediatool \<Rightarrow> bool \<times> 'w mediatool" where
  \<comment> \<open>whether it has returned within \<open>n\<close> runs of the loop\<close>
  "mediatool_uvloop_thread api n st =
    (case call_api api ''uv_loop_init'' [Loop] st of (ret, st1) \<Rightarrow>
     if ret < 0 then (True, st1)
     else case call_api api ''uv_async_queue_init'' [Loop, Sym ''mediatool_uvasyncq_cb''] st1 of (ret, st2) \<Rightarrow>
       case (if ret < 0 then (True, st2) else uv_run_loop api n st2) of (ended, st3) \<Rightarrow>
         if ended then (True, call_void api ''uv_loop_close'' [Loop] st3) else (False, st3))"

end
