(* ===== verification/Tool_Facts.thy ===== *)
theory Tool_Facts
  imports Tool_Shell
begin

text \<open>
  What holds of the tool whatever the libraries answer: handles go to the library they came from, \<open>q\<close>
  closes every slot, and the thread of buffer mode hands a block over whole. At the end, runs that show
  where the tool does not do what it means to.
\<close>

section \<open>Handles and their libraries\<close>

definition opener :: "int \<Rightarrow> string" where
  \<comment> \<open>the function that makes the handles of a type of slot\<close>
  "opener t = (if t = MEDIATOOL_PLAYER then ''media_player_open'' else if t = MEDIATOOL_RECORDER then ''media_recorder_open''
     else if t = MEDIATOOL_CONTROLLER then ''media_session_open'' else if t = MEDIATOOL_CONTROLLEE then ''media_session_register''
     else if t = MEDIATOOL_FOCUS then ''media_focus_request'' else if t = MEDIATOOL_POLICY then ''media_policy_subscribe''
     else if t = MEDIATOOL_UVPLAYER then ''media_uv_player_open'' else if t = MEDIATOOL_UVRECORDER then ''media_uv_recorder_open''
     else if t = MEDIATOOL_UVFOCUS then ''media_uv_focus_request'' else if t = MEDIATOOL_UVCONTROLLER then ''media_uv_session_open''
     else if t = MEDIATOOL_UVCONTROLLEE then ''media_uv_session_register'' else [])"

fun starts :: "string \<Rightarrow> string \<Rightarrow> bool" where
  "starts [] s = True"
| "starts (p # ps) [] = False"
| "starts (p # ps) (c # cs) = (p = c \<and> starts ps cs)"

definition kind_of :: "string \<Rightarrow> int" where
  \<comment> \<open>the type of slot whose handles a function takes\<close>
  "kind_of f = (if starts ''media_player_'' f then MEDIATOOL_PLAYER else if starts ''media_recorder_'' f then MEDIATOOL_RECORDER
     else if f \<in> {''media_session_unregister'', ''media_session_update'', ''media_session_notify''} then MEDIATOOL_CONTROLLEE
     else if starts ''media_session_'' f then MEDIATOOL_CONTROLLER
     else if starts ''media_focus_'' f then MEDIATOOL_FOCUS else if starts ''media_policy_'' f then MEDIATOOL_POLICY
     else if starts ''media_uv_player_'' f then MEDIATOOL_UVPLAYER else if starts ''media_uv_recorder_'' f then MEDIATOOL_UVRECORDER
     else if starts ''media_uv_focus_'' f then MEDIATOOL_UVFOCUS
     else if f \<in> {''media_uv_session_unregister'', ''media_uv_session_update'', ''media_uv_session_notify''} then MEDIATOOL_UVCONTROLLEE
     else if starts ''media_uv_session_'' f then MEDIATOOL_UVCONTROLLER else 0)"

type_synonym tool_call = "string \<times> tool_arg list \<times> int"

definition opened_in :: "tool_call list \<Rightarrow> int \<Rightarrow> int \<Rightarrow> bool" where
  "opened_in cs t h \<longleftrightarrow> h \<noteq> 0 \<and> (\<exists>c\<in>set cs. fst c = opener t \<and> snd (snd c) = h)"

fun handle_ok :: "tool_call list \<Rightarrow> string \<Rightarrow> tool_arg list \<Rightarrow> bool" where
  \<comment> \<open>the handle a call is given was made, before, by the library that is called\<close>
  "handle_ok cs f (Ptr h # args) = opened_in cs (kind_of f) h"
| "handle_ok cs f args = True"

fun typed_calls :: "tool_call list \<Rightarrow> tool_call list \<Rightarrow> bool" where
  "typed_calls cs [] = True"
| "typed_calls cs (c # ds) = (handle_ok cs (fst c) (fst (snd c)) \<and> typed_calls (cs @ [c]) ds)"

lemma typed_calls_append: "typed_calls cs (xs @ ys) = (typed_calls cs xs \<and> typed_calls (cs @ xs) ys)"
  by (induction xs arbitrary: cs) auto

lemma opened_in_append: "opened_in cs t h \<Longrightarrow> opened_in (cs @ ds) t h"
  by (auto simp: opened_in_def)

definition opened :: "int \<Rightarrow> int \<Rightarrow> 'w mediatool \<Rightarrow> bool" where
  "opened t h st = opened_in (tl_calls st) t h"

definition tool_inv :: "nat set \<Rightarrow> 'w mediatool \<Rightarrow> bool" where
  \<comment> \<open>the handles in the slots, but for those being opened, are of the slots' types\<close>
  "tool_inv I st \<longleftrightarrow> length (tl_chain st) = MEDIATOOL_MAX_CHAIN \<and> typed_calls [] (tl_calls st)
   \<and> (\<forall>j<MEDIATOOL_MAX_CHAIN. (j \<notin> I \<longrightarrow> ch_handle (slot j st) \<noteq> 0 \<longrightarrow> opened (ch_type (slot j st)) (ch_handle (slot j st)) st)
       \<and> (ch_extra (slot j st) \<noteq> 0 \<longrightarrow> opened MEDIATOOL_CONTROLLEE (ch_extra (slot j st)) st))"

definition handles_typed :: "'w mediatool \<Rightarrow> bool" where "handles_typed st = typed_calls [] (tl_calls st)"

named_theorems tool_simps \<open>symbolic execution of the commands of the tool\<close>
named_theorems tool_rules \<open>what keeps the handles typed\<close>

lemma tl_call_out [tool_simps]:
  "tl_chain (snd (snd (call_out api f args st))) = tl_chain st"
  "tl_calls (snd (snd (call_out api f args st))) = tl_calls st @ [(f, args, fst (call_out api f args st))]"
  by (simp_all add: call_out_def split: prod.split)

lemma call_api_out: "call_api api f args st = (fst (call_out api f args st), snd (snd (call_out api f args st)))"
  by (simp add: call_api_def split: prod.split)

lemma tl_call_api [tool_simps]:
  "tl_chain (snd (call_api api f args st)) = tl_chain st"
  "tl_calls (snd (call_api api f args st)) = tl_calls st @ [(f, args, fst (call_api api f args st))]"
  by (simp_all add: call_api_out tool_simps)

lemma tl_call_void [tool_simps]:
  "tl_chain (call_void api f args st) = tl_chain st"
  "tl_calls (call_void api f args st) = tl_calls st @ [(f, args, fst (call_api api f args st))]"
  by (simp_all add: call_void_def tool_simps)

lemma slot_calls [tool_simps]:
  "slot i (snd (snd (call_out api f args st))) = slot i st"
  "slot i (snd (call_api api f args st)) = slot i st"
  "slot i (call_void api f args st) = slot i st"
  by (simp_all add: slot_def tool_simps)

lemma tl_set_slot [tool_simps]:
  "tl_calls (set_slot i f st) = tl_calls st"
  "length (tl_chain (set_slot i f st)) = length (tl_chain st)"
  "i < length (tl_chain st) \<Longrightarrow> slot i (set_slot i f st) = f (slot i st)"
  "j \<noteq> i \<Longrightarrow> slot j (set_slot i f st) = slot j st"
  by (simp_all add: set_slot_def slot_def)

lemma opened_step [tool_rules]:
  "opened t h st \<Longrightarrow> opened t h (snd (snd (call_out api f args st)))"
  "opened t h st \<Longrightarrow> opened t h (snd (call_api api f args st))"
  "opened t h st \<Longrightarrow> opened t h (call_void api f args st)"
  "opened t h st \<Longrightarrow> opened t h (set_slot i g st)"
  by (simp_all add: opened_def tool_simps opened_in_append)

lemma opened_result:
  "f = opener t \<Longrightarrow> h = fst (call_api api f args st) \<Longrightarrow> h \<noteq> 0 \<Longrightarrow> opened t h (snd (call_api api f args st))"
  by (simp add: opened_def opened_in_def tool_simps)

lemma inv_call_out:
  assumes "tool_inv I st" "handle_ok (tl_calls st) f args"
  shows "tool_inv I (snd (snd (call_out api f args st)))"
  using assms by (auto simp: tool_inv_def tool_simps typed_calls_append intro: tool_rules)

lemma inv_call_api:
  "tool_inv I st \<Longrightarrow> handle_ok (tl_calls st) f args \<Longrightarrow> tool_inv I (snd (call_api api f args st))"
  by (simp add: call_api_out inv_call_out)

lemma inv_call_void:
  "tool_inv I st \<Longrightarrow> handle_ok (tl_calls st) f args \<Longrightarrow> tool_inv I (call_void api f args st)"
  by (simp add: call_void_def inv_call_api)

lemmas inv_calls = inv_call_out inv_call_api inv_call_void

lemma inv_set_slot:
  assumes "tool_inv I st" "i < MEDIATOOL_MAX_CHAIN"
    and "i \<notin> J \<Longrightarrow> ch_handle (f (slot i st)) \<noteq> 0 \<Longrightarrow> opened (ch_type (f (slot i st))) (ch_handle (f (slot i st))) st"
    and "ch_extra (f (slot i st)) \<noteq> 0 \<Longrightarrow> opened MEDIATOOL_CONTROLLEE (ch_extra (f (slot i st))) st"
    and "I - {i} \<subseteq> J"
  shows "tool_inv J (set_slot i f st)"
  unfolding tool_inv_def
proof (intro conjI allI impI)
  show "length (tl_chain (set_slot i f st)) = MEDIATOOL_MAX_CHAIN" using assms(1) by (simp add: tool_inv_def tool_simps)
  show "typed_calls [] (tl_calls (set_slot i f st))" using assms(1) by (simp add: tool_inv_def tool_simps)
  fix j
  assume j: "j < MEDIATOOL_MAX_CHAIN"
  have len: "i < length (tl_chain st)" using assms(1,2) by (simp add: tool_inv_def)
  {
    assume "j \<notin> J" "ch_handle (slot j (set_slot i f st)) \<noteq> 0"
    then show "opened (ch_type (slot j (set_slot i f st))) (ch_handle (slot j (set_slot i f st))) (set_slot i f st)"
      using assms j len by (cases "j = i") (auto simp: tool_inv_def tool_simps intro: tool_rules)
  next
    assume "ch_extra (slot j (set_slot i f st)) \<noteq> 0"
    then show "opened MEDIATOOL_CONTROLLEE (ch_extra (slot j (set_slot i f st))) (set_slot i f st)"
      using assms j len by (cases "j = i") (auto simp: tool_inv_def tool_simps intro: tool_rules)
  }
qed

lemma kinds [tool_simps]:
  "kind_of ''media_focus_abandon'' = MEDIATOOL_FOCUS"
  "kind_of ''media_player_close'' = MEDIATOOL_PLAYER"
  "kind_of ''media_player_close_socket'' = MEDIATOOL_PLAYER"
  "kind_of ''media_player_get_duration'' = MEDIATOOL_PLAYER"
  "kind_of ''media_player_get_latency'' = MEDIATOOL_PLAYER"
  "kind_of ''media_player_get_position'' = MEDIATOOL_PLAYER"
  "kind_of ''media_player_get_socket'' = MEDIATOOL_PLAYER"
  "kind_of ''media_player_get_volume'' = MEDIATOOL_PLAYER"
  "kind_of ''media_player_is_playing'' = MEDIATOOL_PLAYER"
  "kind_of ''media_player_pause'' = MEDIATOOL_PLAYER"
  "kind_of ''media_player_prepare'' = MEDIATOOL_PLAYER"
  "kind_of ''media_player_reset'' = MEDIATOOL_PLAYER"
  "kind_of ''media_player_seek'' = MEDIATOOL_PLAYER"
  "kind_of ''media_player_set_event_callback'' = MEDIATOOL_PLAYER"
  "kind_of ''media_player_set_looping'' = MEDIATOOL_PLAYER"
  "kind_of ''media_player_set_volume'' = MEDIATOOL_PLAYER"
  "kind_of ''media_player_start'' = MEDIATOOL_PLAYER"
  "kind_of ''media_player_stop'' = MEDIATOOL_PLAYER"
  "kind_of ''media_player_write_data'' = MEDIATOOL_PLAYER"
  "kind_of ''media_policy_unsubscribe'' = MEDIATOOL_POLICY"
  "kind_of ''media_recorder_close'' = MEDIATOOL_RECORDER"
  "kind_of ''media_recorder_close_socket'' = MEDIATOOL_RECORDER"
  "kind_of ''media_recorder_finish_picture'' = MEDIATOOL_RECORDER"
  "kind_of ''media_recorder_get_socket'' = MEDIATOOL_RECORDER"
  "kind_of ''media_recorder_pause'' = MEDIATOOL_RECORDER"
  "kind_of ''media_recorder_prepare'' = MEDIATOOL_RECORDER"
  "kind_of ''media_recorder_read_data'' = MEDIATOOL_RECORDER"
  "kind_of ''media_recorder_reset'' = MEDIATOOL_RECORDER"
  "kind_of ''media_recorder_set_event_callback'' = MEDIATOOL_RECORDER"
  "kind_of ''media_recorder_start'' = MEDIATOOL_RECORDER"
  "kind_of ''media_recorder_stop'' = MEDIATOOL_RECORDER"
  "kind_of ''media_session_close'' = MEDIATOOL_CONTROLLER"
  "kind_of ''media_session_decrease_volume'' = MEDIATOOL_CONTROLLER"
  "kind_of ''media_session_get_duration'' = MEDIATOOL_CONTROLLER"
  "kind_of ''media_session_get_position'' = MEDIATOOL_CONTROLLER"
  "kind_of ''media_session_get_volume'' = MEDIATOOL_CONTROLLER"
  "kind_of ''media_session_increase_volume'' = MEDIATOOL_CONTROLLER"
  "kind_of ''media_session_next_song'' = MEDIATOOL_CONTROLLER"
  "kind_of ''media_session_notify'' = MEDIATOOL_CONTROLLEE"
  "kind_of ''media_session_pause'' = MEDIATOOL_CONTROLLER"
  "kind_of ''media_session_prev_song'' = MEDIATOOL_CONTROLLER"
  "kind_of ''media_session_query'' = MEDIATOOL_CONTROLLER"
  "kind_of ''media_session_set_event_callback'' = MEDIATOOL_CONTROLLER"
  "kind_of ''media_session_set_volume'' = MEDIATOOL_CONTROLLER"
  "kind_of ''media_session_start'' = MEDIATOOL_CONTROLLER"
  "kind_of ''media_session_unregister'' = MEDIATOOL_CONTROLLEE"
  "kind_of ''media_session_update'' = MEDIATOOL_CONTROLLEE"
  "kind_of ''media_uv_focus_abandon'' = MEDIATOOL_UVFOCUS"
  "kind_of ''media_uv_player_close'' = MEDIATOOL_UVPLAYER"
  "kind_of ''media_uv_player_get_duration'' = MEDIATOOL_UVPLAYER"
  "kind_of ''media_uv_player_get_latency'' = MEDIATOOL_UVPLAYER"
  "kind_of ''media_uv_player_get_playing'' = MEDIATOOL_UVPLAYER"
  "kind_of ''media_uv_player_get_position'' = MEDIATOOL_UVPLAYER"
  "kind_of ''media_uv_player_get_volume'' = MEDIATOOL_UVPLAYER"
  "kind_of ''media_uv_player_listen'' = MEDIATOOL_UVPLAYER"
  "kind_of ''media_uv_player_pause'' = MEDIATOOL_UVPLAYER"
  "kind_of ''media_uv_player_prepare'' = MEDIATOOL_UVPLAYER"
  "kind_of ''media_uv_player_query'' = MEDIATOOL_UVPLAYER"
  "kind_of ''media_uv_player_reset'' = MEDIATOOL_UVPLAYER"
  "kind_of ''media_uv_player_seek'' = MEDIATOOL_UVPLAYER"
  "kind_of ''media_uv_player_set_looping'' = MEDIATOOL_UVPLAYER"
  "kind_of ''media_uv_player_set_volume'' = MEDIATOOL_UVPLAYER"
  "kind_of ''media_uv_player_start'' = MEDIATOOL_UVPLAYER"
  "kind_of ''media_uv_player_start_auto'' = MEDIATOOL_UVPLAYER"
  "kind_of ''media_uv_player_stop'' = MEDIATOOL_UVPLAYER"
  "kind_of ''media_uv_recorder_close'' = MEDIATOOL_UVRECORDER"
  "kind_of ''media_uv_recorder_listen'' = MEDIATOOL_UVRECORDER"
  "kind_of ''media_uv_recorder_pause'' = MEDIATOOL_UVRECORDER"
  "kind_of ''media_uv_recorder_prepare'' = MEDIATOOL_UVRECORDER"
  "kind_of ''media_uv_recorder_reset'' = MEDIATOOL_UVRECORDER"
  "kind_of ''media_uv_recorder_start'' = MEDIATOOL_UVRECORDER"
  "kind_of ''media_uv_recorder_start_auto'' = MEDIATOOL_UVRECORDER"
  "kind_of ''media_uv_recorder_stop'' = MEDIATOOL_UVRECORDER"
  "kind_of ''media_uv_session_close'' = MEDIATOOL_UVCONTROLLER"
  "kind_of ''media_uv_session_decrease_volume'' = MEDIATOOL_UVCONTROLLER"
  "kind_of ''media_uv_session_increase_volume'' = MEDIATOOL_UVCONTROLLER"
  "kind_of ''media_uv_session_listen'' = MEDIATOOL_UVCONTROLLER"
  "kind_of ''media_uv_session_next_song'' = MEDIATOOL_UVCONTROLLER"
  "kind_of ''media_uv_session_notify'' = MEDIATOOL_UVCONTROLLEE"
  "kind_of ''media_uv_session_pause'' = MEDIATOOL_UVCONTROLLER"
  "kind_of ''media_uv_session_prev_song'' = MEDIATOOL_UVCONTROLLER"
  "kind_of ''media_uv_session_query'' = MEDIATOOL_UVCONTROLLER"
  "kind_of ''media_uv_session_seek'' = MEDIATOOL_UVCONTROLLER"
  "kind_of ''media_uv_session_start'' = MEDIATOOL_UVCONTROLLER"
  "kind_of ''media_uv_session_stop'' = MEDIATOOL_UVCONTROLLER"
  "kind_of ''media_uv_session_unregister'' = MEDIATOOL_UVCONTROLLEE"
  "kind_of ''media_uv_session_update'' = MEDIATOOL_UVCONTROLLEE"
  by code_simp+

lemma handle_ok_append: "handle_ok cs f args \<Longrightarrow> handle_ok (cs @ ds) f args"
  by (cases "(cs, f, args)" rule: handle_ok.cases) (auto intro: opened_in_append)

definition keeps :: "'w tool_cmd \<Rightarrow> bool" where
  \<comment> \<open>a command that leaves the handles typed\<close>
  "keeps c \<longleftrightarrow> (\<forall>st. tool_inv {} st \<longrightarrow> pred_option (\<lambda>r. tool_inv {} (snd r)) (c st))"

lemma live_handle:
  assumes "tool_inv {} st" "live ident st" "kind ident st = kind_of f"
  shows "handle_ok (tl_calls st) f (hnd ident st # args)"
proof -
  have "nat ident < MEDIATOOL_MAX_CHAIN" "ch_handle (slot (nat ident) st) \<noteq> 0" using assms(2) by (auto simp: live_def)
  then have "opened (kind ident st) (ch_handle (slot (nat ident) st)) st" using assms(1) by (simp add: tool_inv_def kind_def)
  then show ?thesis using assms(3) by (simp add: hnd_def opened_def)
qed

lemma live_index: "live ident st \<Longrightarrow> nat ident < MEDIATOOL_MAX_CHAIN"
  by (auto simp: live_def)

lemmas tool_step = pred_option_def Let_def shown_def printed_def

lemma control_keeps:
  "keeps (mediatool_cmd_query api ident)" "keeps (mediatool_cmd_update api ident fl s v p d ti ar)"
  "keeps (mediatool_cmd_start api ident sc)" "keeps (mediatool_cmd_pause api ident)"
  "keeps (mediatool_cmd_loop api ident k)" "keeps (mediatool_cmd_seek api ident k)"
  "keeps (mediatool_cmd_prevsong api ident)" "keeps (mediatool_cmd_nextsong api ident)"
  "keeps (mediatool_cmd_position api ident)" "keeps (mediatool_cmd_duration api ident)"
  "keeps (mediatool_cmd_latency api ident)" "keeps (mediatool_cmd_isplaying api ident)"
  unfolding keeps_def mediatool_cmd_query_def mediatool_cmd_update_def mediatool_cmd_start_def mediatool_cmd_pause_def
    mediatool_cmd_loop_def mediatool_cmd_seek_def mediatool_cmd_prevsong_def mediatool_cmd_nextsong_def
    mediatool_cmd_position_def mediatool_cmd_duration_def mediatool_cmd_latency_def mediatool_cmd_isplaying_def
  by (auto simp: tool_step tool_simps intro!: inv_call_api live_handle)

lemma volume_keeps: "keeps (mediatool_cmd_volume api ident v)"
  unfolding keeps_def mediatool_cmd_volume_def
  by (auto simp: tool_step tool_simps intro!: inv_calls live_handle handle_ok_append split: option.split)

lemma stop_thread_keeps:
  assumes "tool_inv I st" "i < MEDIATOOL_MAX_CHAIN"
  shows "tool_inv I (mediatool_common_stop_thread api i st)"
  using assms unfolding mediatool_common_stop_thread_def
  by (auto simp: tool_step tool_simps tool_inv_def[of I st] intro!: inv_calls inv_set_slot[of I] tool_rules)

lemma inv_fields:
  \<comment> \<open>a slot's update that leaves its handle, or clears it\<close>
  assumes "tool_inv I st" "i < MEDIATOOL_MAX_CHAIN"
    and "ch_type (f (slot i st)) = ch_type (slot i st)"
    and "ch_handle (f (slot i st)) = ch_handle (slot i st) \<or> ch_handle (f (slot i st)) = 0"
    and "ch_extra (f (slot i st)) = ch_extra (slot i st) \<or> ch_extra (f (slot i st)) = 0"
  shows "tool_inv I (set_slot i f st)"
  using assms by (intro inv_set_slot[of I]) (auto simp: tool_inv_def)

lemma live_handle_at:
  assumes "tool_inv {} st" "i < MEDIATOOL_MAX_CHAIN" "ch_handle (slot i st) \<noteq> 0" "ch_type (slot i st) = kind_of f"
    and "h = ch_handle (slot i st)"
  shows "handle_ok (tl_calls st) f (Ptr h # args)"
proof -
  have "opened (ch_type (slot i st)) (ch_handle (slot i st)) st" using assms(1-3) by (simp add: tool_inv_def)
  then show ?thesis using assms(4,5) by (simp add: opened_def)
qed

lemma slot_length: "tool_inv I st \<Longrightarrow> length (tl_chain st) = MEDIATOOL_MAX_CHAIN"
  by (simp add: tool_inv_def)

lemma stop_inner_keeps:
  assumes "tool_inv {} st" "i < MEDIATOOL_MAX_CHAIN" "ch_handle (slot i st) \<noteq> 0"
  shows "tool_inv {} (snd (mediatool_common_stop_inner api i st))"
  using assms unfolding mediatool_common_stop_inner_def
  by (auto simp: tool_step case_prod_beta tool_simps slot_length[OF assms(1)]
      intro!: stop_thread_keeps inv_calls inv_fields live_handle_at handle_ok_append)

lemma stop_keeps: "keeps (mediatool_cmd_stop api ident)"
  unfolding keeps_def mediatool_cmd_stop_def
  by (auto simp: tool_step live_index live_def intro!: stop_inner_keeps)

lemma reset_keeps: "keeps (mediatool_cmd_reset api ident)"
  unfolding keeps_def mediatool_cmd_reset_def
  by (auto simp: tool_step case_prod_beta tool_simps live_index intro!: stop_thread_keeps inv_call_api live_handle)

text \<open>Stopping leaves handle, type and extra of every slot.\<close>

lemma stop_inner_slot:
  assumes "length (tl_chain st) = MEDIATOOL_MAX_CHAIN" "i < MEDIATOOL_MAX_CHAIN"
  shows "ch_handle (slot j (snd (mediatool_common_stop_inner api i st))) = ch_handle (slot j st)"
    "ch_type (slot j (snd (mediatool_common_stop_inner api i st))) = ch_type (slot j st)"
    "ch_extra (slot j (snd (mediatool_common_stop_inner api i st))) = ch_extra (slot j st)"
    "length (tl_chain (snd (mediatool_common_stop_inner api i st))) = MEDIATOOL_MAX_CHAIN"
  using assms unfolding mediatool_common_stop_inner_def mediatool_common_stop_thread_def
  by (cases "j = i"; auto simp: tool_step case_prod_beta tool_simps)+

lemma extra_ok:
  assumes "tool_inv I st" "i < MEDIATOOL_MAX_CHAIN" "ch_extra (slot i st) \<noteq> 0" "kind_of f = MEDIATOOL_CONTROLLEE"
    and "h = ch_extra (slot i st)"
  shows "handle_ok (tl_calls st) f (Ptr h # args)"
proof -
  have "opened MEDIATOOL_CONTROLLEE (ch_extra (slot i st)) st" using assms(1-3) by (simp add: tool_inv_def)
  then show ?thesis using assms(4,5) by (simp add: opened_def)
qed

lemma slot_opened:
  assumes "tool_inv {} st" "i < MEDIATOOL_MAX_CHAIN"
  shows "ch_handle (slot i st) \<noteq> 0 \<Longrightarrow> opened_in (tl_calls st) (ch_type (slot i st)) (ch_handle (slot i st))"
    "ch_extra (slot i st) \<noteq> 0 \<Longrightarrow> opened_in (tl_calls st) MEDIATOOL_CONTROLLEE (ch_extra (slot i st))"
  using assms by (simp_all add: tool_inv_def opened_def)

lemma inv_if: "(b \<Longrightarrow> tool_inv I x) \<Longrightarrow> (\<not> b \<Longrightarrow> tool_inv I y) \<Longrightarrow> tool_inv I (if b then x else y)"
  by simp

lemma close_handle_keeps:
  assumes inv: "tool_inv {} st" and live: "live ident st"
  shows "tool_inv {} (snd (close_handle api ident ps st))"
proof -
  let ?i = "nat ident" and ?s = "snd (mediatool_common_stop_inner api (nat ident) st)"
  have i: "?i < MEDIATOOL_MAX_CHAIN" and h: "ch_handle (slot ?i st) \<noteq> 0" using live by (auto simp: live_def)
  have s: "tool_inv {} ?s" by (rule stop_inner_keeps[OF inv i h])
  note f = stop_inner_slot[OF slot_length[OF inv] i]
  have own: "opened_in (tl_calls st) t (ch_handle (slot ?i st))" if "ch_type (slot ?i st) = t" for t
    using slot_opened(1)[OF inv i h] that by simp
  have stopped: "opened_in (tl_calls ?s) t (ch_handle (slot ?i st))" if "ch_type (slot ?i st) = t" for t
    using slot_opened(1)[OF s i] h that f by simp
  note extra = slot_opened(2)[OF inv i] slot_opened(2)[OF s i, unfolded f]
  show ?thesis
    unfolding close_handle_def Let_def case_prod_beta if_distrib[where f = snd] snd_conv
    by (intro inv_if inv_call_api inv s)
      (auto simp add: tool_simps hnd_def kind_def own stopped f opened_in_append extra)
qed

lemma close_handle_slot:
  assumes "length (tl_chain st) = MEDIATOOL_MAX_CHAIN" "live ident st"
  shows "ch_handle (slot j (snd (close_handle api ident ps st))) = ch_handle (slot j st)"
    "ch_type (slot j (snd (close_handle api ident ps st))) = ch_type (slot j st)"
    "ch_extra (slot j (snd (close_handle api ident ps st))) = ch_extra (slot j st)"
    "length (tl_chain (snd (close_handle api ident ps st))) = MEDIATOOL_MAX_CHAIN"
  using stop_inner_slot[OF assms(1) live_index[OF assms(2)]] assms(1)
  by (simp_all add: close_handle_def Let_def case_prod_beta tool_simps)

lemma close_keeps: "keeps (mediatool_cmd_close api ident ps)"
  unfolding keeps_def mediatool_cmd_close_def pred_option_def
  by (auto simp: case_prod_beta live_index intro!: inv_fields close_handle_keeps)
lemma free_index_le: "free_index cs \<le> length cs"
  by (induction cs) auto

lemma free_index_zero: "free_index cs < length cs \<Longrightarrow> ch_handle (cs ! free_index cs) = 0"
  by (induction cs) auto

lemma inv_taken:
  assumes "tool_inv {} st" "take_slot st = Some (i, st0)"
  shows "i < MEDIATOOL_MAX_CHAIN" "tool_inv {} st0" "ch_handle (slot i st0) = 0"
proof -
  have i: "i = free_index (tl_chain st)" "i < MEDIATOOL_MAX_CHAIN" and st0: "st0 = set_slot i (ch_id_update (\<lambda>_. int i)) st"
    using assms(2) free_index_le[of "tl_chain st"] slot_length[OF assms(1)]
    by (auto simp: take_slot_def Let_def split: if_split_asm)
  show "i < MEDIATOOL_MAX_CHAIN" by (rule i(2))
  show "tool_inv {} st0" unfolding st0 using assms(1) i(2) by (rule inv_fields) simp_all
  show "ch_handle (slot i st0) = 0"
    unfolding st0 using i free_index_zero[of "tl_chain st"] slot_length[OF assms(1)]
    by (auto simp: set_slot_def slot_def)
qed

lemma inv_opening:
  assumes "tool_inv {} st" "i < MEDIATOOL_MAX_CHAIN" "handle_ok (tl_calls st) f args"
  shows "tool_inv {i} (set_slot i (ch_handle_update (\<lambda>_. h)) (snd (call_api api f args st)))"
    "tool_inv {} (set_slot i (ch_handle_update (\<lambda>_. 0)) (snd (call_api api f args st)))"
proof -
  have s: "tool_inv {} (snd (call_api api f args st))" by (rule inv_call_api[OF assms(1,3)])
  show "tool_inv {i} (set_slot i (ch_handle_update (\<lambda>_. h)) (snd (call_api api f args st)))"
    using s assms(2) by (intro inv_set_slot[of "{}"]) (auto simp: tool_inv_def)
  show "tool_inv {} (set_slot i (ch_handle_update (\<lambda>_. 0)) (snd (call_api api f args st)))"
    using s assms(2) by (intro inv_fields) auto
qed

lemma inv_typing:
  assumes "tool_inv {i} st" "i < MEDIATOOL_MAX_CHAIN" "opened t (ch_handle (slot i st)) st"
  shows "tool_inv {} (set_slot i (ch_type_update (\<lambda>_. t)) st)"
  using assms by (intro inv_set_slot[of "{i}"]) (auto simp: tool_inv_def)

lemma openers [tool_simps]:
  "opener MEDIATOOL_PLAYER = ''media_player_open''" "opener MEDIATOOL_RECORDER = ''media_recorder_open''"
  "opener MEDIATOOL_CONTROLLER = ''media_session_open''" "opener MEDIATOOL_CONTROLLEE = ''media_session_register''"
  "opener MEDIATOOL_FOCUS = ''media_focus_request''" "opener MEDIATOOL_POLICY = ''media_policy_subscribe''"
  "opener MEDIATOOL_UVPLAYER = ''media_uv_player_open''" "opener MEDIATOOL_UVRECORDER = ''media_uv_recorder_open''"
  "opener MEDIATOOL_UVFOCUS = ''media_uv_focus_request''" "opener MEDIATOOL_UVCONTROLLER = ''media_uv_session_open''"
  "opener MEDIATOOL_UVCONTROLLEE = ''media_uv_session_register''"
  by (simp_all add: opener_def tool_types)

lemma keepsI:
  assumes "\<And>st. tool_inv {} st \<Longrightarrow> pred_option (\<lambda>r. tool_inv {} (snd r)) (c st)"
  shows "keeps c"
  using assms by (simp add: keeps_def)

lemma take_cases:
  assumes "tool_inv {} st"
    and "\<And>i st0. i < MEDIATOOL_MAX_CHAIN \<Longrightarrow> tool_inv {} st0 \<Longrightarrow> pred_option (\<lambda>r. tool_inv {} (snd r)) (c i st0)"
  shows "pred_option (\<lambda>r. tool_inv {} (snd r))
    (case take_slot st of None \<Rightarrow> Some (e, st) | Some (i, st0) \<Rightarrow> c i st0)"
proof (cases "take_slot st")
  case (Some x)
  obtain i st0 where x: "x = (i, st0)" by (cases x) auto
  show ?thesis using assms(2)[OF inv_taken(1,2)[OF assms(1) Some[unfolded x]]] Some x by simp
qed (simp add: assms(1))

lemma inv_opened_slot:
  assumes "tool_inv {} st" "i < MEDIATOOL_MAX_CHAIN" "handle_ok (tl_calls st) f args"
    and "h = fst (call_api api f args st)" "h \<noteq> 0" "f = opener t"
  shows "tool_inv {} (set_slot i (ch_type_update (\<lambda>_. t)) (set_slot i (ch_handle_update (\<lambda>_. h)) (snd (call_api api f args st))))"
proof (rule inv_typing[OF inv_opening(1)[OF assms(1-3)] assms(2)])
  have "opened t h (snd (call_api api f args st))" by (rule opened_result[OF assms(6,4,5)])
  then show "opened t (ch_handle (slot i (set_slot i (ch_handle_update (\<lambda>_. h)) (snd (call_api api f args st)))))
      (set_slot i (ch_handle_update (\<lambda>_. h)) (snd (call_api api f args st)))"
    using assms(2) slot_length[OF assms(1)] by (simp add: tool_simps opened_step)
qed

lemma register_keeps: "keeps (mediatool_cmd_session_register api p)" "keeps (mediatool_cmd_uv_session_register api p)"
  unfolding mediatool_cmd_session_register_def mediatool_cmd_uv_session_register_def
  by (intro keepsI, erule take_cases;
    simp add: pred_option_def Let_def case_prod_beta inv_opening inv_opened_slot openers)+

lemma request_keeps: "keeps (mediatool_cmd_subscribe api p)" "keeps (mediatool_cmd_focus_request api p)"
  "keeps (mediatool_cmd_uv_focus_request api p)"
  unfolding mediatool_cmd_subscribe_def mediatool_cmd_focus_request_def mediatool_cmd_uv_focus_request_def
  by (intro keepsI, erule take_cases; simp add: pred_option_def Let_def case_prod_beta inv_opening inv_opened_slot openers)+

lemma inv_opened_with:
  \<comment> \<open>the handle is given to one more call before the slot gets its type\<close>
  fixes gargs :: "tool_arg list"
  assumes "tool_inv {} st" "i < MEDIATOOL_MAX_CHAIN" "handle_ok (tl_calls st) f args"
    and "h = fst (call_api api f args st)" "h \<noteq> 0" "f = opener t" "kind_of g = t"
  defines "s \<equiv> snd (call_api api g (Ptr h # gargs) (set_slot i (ch_handle_update (\<lambda>_. h)) (snd (call_api api f args st))))"
  shows "tool_inv {i} s" "opened t (ch_handle (slot i s)) s" "tool_inv {} (set_slot i (ch_type_update (\<lambda>_. t)) s)"
proof -
  have o: "opened t h (snd (call_api api f args st))" by (rule opened_result[OF assms(6,4,5)])
  have ok: "handle_ok (tl_calls (set_slot i (ch_handle_update (\<lambda>_. h)) (snd (call_api api f args st)))) g (Ptr h # gargs)"
    using o assms(7) by (simp add: tool_simps opened_def)
  show a: "tool_inv {i} s" unfolding s_def by (rule inv_call_api[OF inv_opening(1)[OF assms(1-3)] ok])
  show b: "opened t (ch_handle (slot i s)) s"
    unfolding s_def using o assms(2) slot_length[OF assms(1)] by (simp add: tool_simps opened_step)
  show "tool_inv {} (set_slot i (ch_type_update (\<lambda>_. t)) s)" by (rule inv_typing[OF a assms(2) b])
qed

lemma open_keeps: "keeps (mediatool_cmd_recorder_open api p)" "keeps (mediatool_cmd_session_open api p)"
  unfolding mediatool_cmd_recorder_open_def mediatool_cmd_session_open_def
  by (intro keepsI, erule take_cases;
    simp add: pred_option_def Let_def case_prod_beta inv_opening inv_opened_with tool_simps)+

definition listens :: "'w tool_api \<Rightarrow> bool" where
  \<comment> \<open>listening on a handle that was just opened succeeds\<close>
  "listens api \<longleftrightarrow> (\<forall>f args w. f \<in> {''media_uv_player_listen'', ''media_uv_recorder_listen'', ''media_uv_session_listen''}
     \<longrightarrow> 0 \<le> fst (api f args w))"

lemma listens_call: "listens api \<Longrightarrow> f \<in> {''media_uv_player_listen'', ''media_uv_recorder_listen'', ''media_uv_session_listen''}
    \<Longrightarrow> \<not> fst (call_api api f args st) < 0"
  by (auto simp: listens_def call_api_def call_out_def split: prod.split) (metis fst_conv not_le)+

lemma uv_open_keeps:
  assumes "listens api"
  shows "keeps (mediatool_cmd_uv_player_open api p)" "keeps (mediatool_cmd_uv_recorder_open api p)"
    "keeps (mediatool_cmd_uv_session_open api p)"
  unfolding mediatool_cmd_uv_player_open_def mediatool_cmd_uv_recorder_open_def mediatool_cmd_uv_session_open_def
  by (intro keepsI, erule take_cases; simp add: pred_option_def Let_def case_prod_beta inv_opening inv_opened_with listens_call[OF assms] tool_simps)+

lemma extra_keeps:
  assumes "tool_inv I st" "i < MEDIATOOL_MAX_CHAIN" "e = fst (call_api api ''media_session_register'' args st)"
    "handle_ok (tl_calls st) ''media_session_register'' args"
  shows "tool_inv I (set_slot i (ch_extra_update (\<lambda>_. e)) (snd (call_api api ''media_session_register'' args st)))"
proof (rule inv_set_slot[of I, OF inv_call_api[OF assms(1,4)] assms(2)])
  assume "ch_extra (ch_extra_update (\<lambda>_. e) (slot i (snd (call_api api ''media_session_register'' args st)))) \<noteq> 0"
  then show "opened MEDIATOOL_CONTROLLEE (ch_extra (ch_extra_update (\<lambda>_. e) (slot i (snd (call_api api ''media_session_register'' args st)))))
      (snd (call_api api ''media_session_register'' args st))"
    using assms(3) by (simp add: opened_result openers)
qed (use inv_call_api[OF assms(1,4), of api] assms(2) in \<open>auto simp: tool_inv_def\<close>)

lemma player_open_keeps: "keeps (mediatool_cmd_player_open api p)"
  unfolding mediatool_cmd_player_open_def
proof (intro keepsI, erule take_cases)
  fix st0 :: "'a mediatool" and i
  assume i: "i < MEDIATOOL_MAX_CHAIN" and inv: "tool_inv {} st0"
  let ?o = "call_api api ''media_player_open'' [Str p] st0"
  let ?s = "snd (call_api api ''media_player_set_event_callback'' [Ptr (fst ?o), Chain i, Sym ''mediatool_event_callback'']
    (set_slot i (ch_handle_update (\<lambda>_. fst ?o)) (snd ?o)))"
  let ?r = "call_api api ''media_session_register'' [Chain i, Sym ''mediatool_controllee_music_callback''] ?s"
  have *: "tool_inv {} (set_slot i (ch_type_update (\<lambda>_. MEDIATOOL_PLAYER)) ?s)"
    "tool_inv {} (set_slot i (ch_type_update (\<lambda>_. MEDIATOOL_PLAYER)) (set_slot i (ch_extra_update (\<lambda>_. fst ?r)) (snd ?r)))"
    if h: "fst ?o \<noteq> 0"
  proof -
    note w = inv_opened_with[where t = MEDIATOOL_PLAYER, OF inv i _ refl h]
    have s: "tool_inv {i} ?s" by (rule w(1)) (simp_all add: tool_simps)
    have s2: "opened MEDIATOOL_PLAYER (ch_handle (slot i ?s)) ?s" by (rule w(2)) (simp_all add: tool_simps)
    show "tool_inv {} (set_slot i (ch_type_update (\<lambda>_. MEDIATOOL_PLAYER)) ?s)" by (rule w(3)) (simp_all add: tool_simps)
    have "i < length (tl_chain (snd ?r))" using i slot_length[OF inv] by (simp add: tool_simps)
    then have "ch_handle (slot i (set_slot i (ch_extra_update (\<lambda>_. fst ?r)) (snd ?r))) = ch_handle (slot i ?s)"
      by (simp add: tool_simps)
    then show "tool_inv {} (set_slot i (ch_type_update (\<lambda>_. MEDIATOOL_PLAYER)) (set_slot i (ch_extra_update (\<lambda>_. fst ?r)) (snd ?r)))"
      using s2 by (intro inv_typing[OF extra_keeps[OF s i refl] i]) (simp_all add: opened_step)
  qed
  show "pred_option (\<lambda>r. tool_inv {} (snd r)) (case ?o of (h, st1) \<Rightarrow>
        let st2 = set_slot i (ch_handle_update (\<lambda>_. h)) st1 in
        if h = 0 then Some (-EINVAL, st2)
        else (case call_api api ''media_player_set_event_callback''
            [Ptr h, Chain i, Sym ''mediatool_event_callback''] st2 of (ret, st3) \<Rightarrow>
          if ret \<noteq> 0 then None
          else let st4 = (if p = Some MEDIA_STREAM_MUSIC
                then (case call_api api ''media_session_register''
                    [Chain i, Sym ''mediatool_controllee_music_callback''] st3 of (e, s) \<Rightarrow>
                  set_slot i (ch_extra_update (\<lambda>_. e)) s)
                else st3) in
            Some (0, set_slot i (ch_type_update (\<lambda>_. MEDIATOOL_PLAYER)) st4)))"
    using * i inv by (cases "p = Some MEDIA_STREAM_MUSIC") (simp_all add: pred_option_def Let_def case_prod_beta inv_opening)
qed

lemma plain_keeps:
  "keeps (mediatool_cmd_take_picture api a b n)" "keeps (mediatool_cmd_send api argv)" "keeps (mediatool_cmd_dump api a)"
  "keeps (mediatool_cmd_setint api a n k)" "keeps (mediatool_cmd_getint api a)" "keeps (mediatool_cmd_getrange api a)"
  "keeps (mediatool_cmd_setstring api a b n)" "keeps (mediatool_cmd_getstring api a)" "keeps (mediatool_cmd_include api a b n)"
  "keeps (mediatool_cmd_exclude api a b n)" "keeps (mediatool_cmd_contain api a b)" "keeps (mediatool_cmd_increase api a n)"
  "keeps (mediatool_cmd_decrease api a n)" "keeps (mediatool_cmd_uv_take_picture api a b n)"
  unfolding keeps_def mediatool_cmd_take_picture_def mediatool_cmd_send_def mediatool_cmd_dump_def mediatool_cmd_setint_def
    mediatool_cmd_getint_def mediatool_cmd_getrange_def mediatool_cmd_setstring_def mediatool_cmd_getstring_def
    mediatool_cmd_include_def mediatool_cmd_exclude_def mediatool_cmd_contain_def mediatool_cmd_increase_def
    mediatool_cmd_decrease_def mediatool_cmd_uv_take_picture_def
  by (simp_all add: tool_step inv_calls)

lemma uv_named_keeps: "keeps (uv_named api f name args cb)"
  by (simp add: keeps_def uv_named_def pred_option_def case_prod_beta inv_calls)

lemma uv_policy_keeps:
  "keeps (mediatool_cmd_uv_policy_set_int api a n k)" "keeps (mediatool_cmd_uv_policy_get_int api a)"
  "keeps (mediatool_cmd_uv_policy_set_string api a b n)" "keeps (mediatool_cmd_uv_policy_get_string api a)"
  "keeps (mediatool_cmd_uv_policy_increase api a n)" "keeps (mediatool_cmd_uv_policy_decrease api a n)"
  "keeps (mediatool_cmd_uv_policy_include api a b n)" "keeps (mediatool_cmd_uv_policy_exclude api a b n)"
  "keeps (mediatool_cmd_uv_policy_contain api a b)"
  using uv_named_keeps unfolding keeps_def mediatool_cmd_uv_policy_set_int_def mediatool_cmd_uv_policy_get_int_def
    mediatool_cmd_uv_policy_set_string_def mediatool_cmd_uv_policy_get_string_def mediatool_cmd_uv_policy_increase_def
    mediatool_cmd_uv_policy_decrease_def mediatool_cmd_uv_policy_include_def mediatool_cmd_uv_policy_exclude_def
    mediatool_cmd_uv_policy_contain_def by blast+

lemma close_slots_keeps:
  assumes "tool_inv {} st"
  shows "pred_option (tool_inv {}) (close_slots api is st)"
  using assms
proof (induction "is" arbitrary: st)
  case (Cons i "is")
  have "pred_option (\<lambda>r. tool_inv {} (snd r)) (mediatool_cmd_close api i 0 st)"
    using close_keeps[of api i 0] Cons.prems by (simp add: keeps_def)
  then show ?case using Cons by (auto simp: pred_option_def bind_eq_Some_conv split: if_split_asm)
qed (simp add: pred_option_def)

lemma quit_keeps: "keeps (mediatool_cmd_quit api)"
  using close_slots_keeps by (fastforce simp: keeps_def mediatool_cmd_quit_def pred_option_def bind_eq_Some_conv)
lemma prepare_open_keeps:
  assumes "tool_inv {} st" "nat ident < MEDIATOOL_MAX_CHAIN"
  shows "tool_inv {} (prepare_open api ident p st)"
    "ch_handle (slot (nat ident) (prepare_open api ident p st)) = ch_handle (slot (nat ident) st)"
    "ch_type (slot (nat ident) (prepare_open api ident p st)) = ch_type (slot (nat ident) st)"
  using assms slot_length[OF assms(1)] unfolding prepare_open_def
  by (auto simp: Let_def case_prod_beta tool_simps kind_def intro!: inv_fields inv_calls)

lemma prepare_handle_keeps:
  assumes "tool_inv {} st" "live ident st" "handle_ok (tl_calls st) [] [url]"
  shows "tool_inv {} (snd (prepare_handle api ident url options st))"
  using assms unfolding prepare_handle_def
  by (auto simp: Let_def tool_simps intro!: inv_calls live_handle)

lemma prepare_thread_keeps:
  assumes "tool_inv {} st" "nat ident < MEDIATOOL_MAX_CHAIN"
  shows "pred_option (\<lambda>r. tool_inv {} (snd r)) (prepare_thread api ident direct st)"
  using assms unfolding prepare_thread_def
  by (auto simp: tool_step case_prod_beta intro!: inv_fields inv_calls)

lemma prepare_keeps: "keeps (mediatool_cmd_prepare api ident mode path options)"
proof (rule keepsI)
  fix st :: "'a mediatool"
  assume inv: "tool_inv {} st"
  show "pred_option (\<lambda>r. tool_inv {} (snd r)) (mediatool_cmd_prepare api ident mode path options st)"
  proof (cases "live ident st \<and> mode \<noteq> None \<and> path \<noteq> None")
    case True
    then obtain m p where mp: "mode = Some m" "path = Some p" and live: "live ident st" by auto
    note i = live_index[OF live]
    let ?s = "\<lambda>u. if u then st else prepare_open api ident p st"
    have s: "tool_inv {} (?s u)" "live ident (?s u)" for u
      using inv live i prepare_open_keeps[OF inv i, of api p] by (auto simp: live_def)
    have h: "tool_inv {} (snd (prepare_handle api ident (Str url) options (?s u)))" for u url
      by (rule prepare_handle_keeps[OF s]) simp
    have t: "tool_inv {} b" if "prepare_thread api ident d (snd (prepare_handle api ident (Str url) options (?s False))) = Some (a, b)"
      for d url a b
      using prepare_thread_keeps[OF h[of url False] i, of api d] that by (simp add: pred_option_def)
    show ?thesis
      unfolding mediatool_cmd_prepare_def mp Let_def case_prod_beta option.case
      using live inv s(1)[of True] s(1)[of False] h[of _ True] h[of _ False] i
      by (auto simp: pred_option_def intro!: inv_fields inv_calls dest: t[simplified])
  qed (auto simp: mediatool_cmd_prepare_def pred_option_def inv split: option.split)
qed

lemmas cmd_keeps = control_keeps volume_keeps stop_keeps reset_keeps close_keeps register_keeps request_keeps open_keeps
  player_open_keeps plain_keeps uv_policy_keeps quit_keeps prepare_keeps

lemma cmds_keep:
  assumes "listens api" "(name, f) \<in> set (g_mediatool_cmds api)" "name \<notin> {''takepic_async'', ''playdtmf''}"
  shows "keeps (f argv)"
proof -
  let ?P = "\<lambda>(name, f). name \<notin> {''takepic_async'', ''playdtmf''} \<longrightarrow> (\<forall>argv. keeps (f argv))"
  have "list_all ?P (sync_cmds api)"
    unfolding sync_cmds_def
    by (simp only: list.pred_inject prod.case tool_cmds cmd_keeps simp_thms) simp
  moreover have "list_all ?P (uv_cmds api)"
    unfolding uv_cmds_def
    by (simp only: list.pred_inject prod.case tool_cmds cmd_keeps uv_open_keeps[OF assms(1)] simp_thms)
  ultimately have "list_all ?P (g_mediatool_cmds api)"
    by (simp add: g_mediatool_cmds_def cmd_keeps)
  then show ?thesis using assms(2,3) by (auto simp: list_all_iff)
qed

lemma execute_keeps:
  assumes "listens api" "take 1 (tool_argv line) \<notin> {[''takepic_async''], [''playdtmf'']}"
  shows "keeps (mediatool_execute api line)"
proof (rule keepsI)
  fix st :: "'a mediatool"
  assume inv: "tool_inv {} st"
  show "pred_option (\<lambda>r. tool_inv {} (snd r)) (mediatool_execute api line st)"
  proof (cases "tool_argv line")
    case (Cons name args)
    have "pred_option (\<lambda>r. tool_inv {} (snd r)) (f (tool_argv line) st)" if "map_of (g_mediatool_cmds api) name = Some f" for f
      using cmds_keep[OF assms(1) map_of_SomeD[OF that], of "tool_argv line"] assms(2) Cons inv by (auto simp: keeps_def)
    then show ?thesis using inv Cons
      by (auto simp: mediatool_execute_def Let_def pred_option_def bind_eq_Some_conv split: option.splits)
  qed (simp add: mediatool_execute_def inv pred_option_def)
qed

definition typed_input :: "string option list \<Rightarrow> bool" where
  \<comment> \<open>no line is one of the two commands that do not look at the type of the slot\<close>
  "typed_input ls \<longleftrightarrow> (\<forall>l line. Some l \<in> set ls \<longrightarrow> console_line l = Some line
     \<longrightarrow> take 1 (tool_argv line) \<notin> {[''takepic_async''], [''playdtmf'']})"

lemma console_keeps:
  "typed_input ls \<Longrightarrow> tool_inv {} st \<Longrightarrow> console_sync api ls st = Some (b, st1) \<Longrightarrow> listens api
    \<Longrightarrow> tool_inv {} st1"
proof (induction api ls st rule: console_sync.induct)
  case (3 api l ls st)
  show ?case
  proof (cases "console_line l")
    case None
    then show ?thesis using 3 by (simp add: typed_input_def)
  next
    case (Some line)
    from 3(5) Some obtain ret st2 where e: "mediatool_execute api line st = Some (ret, st2)"
      and r: "(if ret < 0 then Some (True, st2) else console_sync api ls st2) = Some (b, st1)"
      by (auto simp: bind_eq_Some_conv)
    have "tool_inv {} st2"
      using execute_keeps[OF 3(6), of line] 3(4) 3(3)[unfolded typed_input_def, rule_format, of l line] Some e
      by (auto simp: keeps_def pred_option_def)
    then show ?thesis using 3 Some e r by (auto simp: typed_input_def split: if_split_asm)
  qed
qed (auto simp: typed_input_def)

lemma tool_inv_zero: "tool_inv {} (zero_tool w)"
  by (simp add: tool_inv_def zero_tool_def slot_def zero_chain_def)


definition demo_api :: "int tool_api" where
  \<comment> \<open>opening gives numbers, everything else 0\<close>
  "demo_api f args w = (if f \<in> set [''media_player_open'', ''media_session_open'', ''media_session_register'']
     then (w, 0, w + 1) else (0, 0, w))"

lemma demo_listens: "listens demo_api"
  by (auto simp: listens_def demo_api_def)

definition demo_lines :: "string list \<Rightarrow> string option list" where
  "demo_lines ls = map (\<lambda>l. Some (l @ [newline])) ls"


section \<open>Leaving\<close>

definition closer :: "int \<Rightarrow> string" where
  \<comment> \<open>the function that ends the use of the handles of a type of slot\<close>
  "closer t = (if t = MEDIATOOL_PLAYER then ''media_player_close'' else if t = MEDIATOOL_RECORDER then ''media_recorder_close''
     else if t = MEDIATOOL_CONTROLLER then ''media_session_close'' else if t = MEDIATOOL_CONTROLLEE then ''media_session_unregister''
     else if t = MEDIATOOL_FOCUS then ''media_focus_abandon'' else if t = MEDIATOOL_POLICY then ''media_policy_unsubscribe''
     else if t = MEDIATOOL_UVPLAYER then ''media_uv_player_close'' else if t = MEDIATOOL_UVRECORDER then ''media_uv_recorder_close''
     else if t = MEDIATOOL_UVFOCUS then ''media_uv_focus_abandon'' else if t = MEDIATOOL_UVCONTROLLER then ''media_uv_session_close''
     else if t = MEDIATOOL_UVCONTROLLEE then ''media_uv_session_unregister'' else [])"

definition closed_in :: "tool_call list \<Rightarrow> mediatool_chain \<Rightarrow> bool" where
  "closed_in ds c \<longleftrightarrow> closer (ch_type c) = []
     \<or> (\<exists>d\<in>set ds. fst d = closer (ch_type c) \<and> take 1 (fst (snd d)) = [Ptr (ch_handle c)])"

lemma stop_inner_calls: "\<exists>ds. tl_calls (snd (mediatool_common_stop_inner api i st)) = tl_calls st @ ds"
  unfolding mediatool_common_stop_inner_def mediatool_common_stop_thread_def
  by (auto simp: Let_def case_prod_beta tool_simps)

definition closing :: "tool_call list \<Rightarrow> mediatool_chain \<Rightarrow> 'w mediatool \<Rightarrow> bool" where
  \<comment> \<open>the calls made since \<open>cs\<close> end the use of the handle of a slot\<close>
  "closing cs c st \<longleftrightarrow> (\<exists>ds. tl_calls st = cs @ ds \<and> closed_in ds c)"

lemma closing_rules:
  "(b \<Longrightarrow> closing cs c x) \<Longrightarrow> (\<not> b \<Longrightarrow> closing cs c y) \<Longrightarrow> closing cs c (if b then x else y)"
  by simp_all

lemma closing_after:
  assumes "closing cs c x"
  shows "closing cs c (snd (call_api api f args x))"
proof -
  from assms obtain ds where "tl_calls x = cs @ ds" "closed_in ds c" by (auto simp: closing_def)
  then show ?thesis
    unfolding closing_def
    by (intro exI[of _ "ds @ [(f, args, fst (call_api api f args x))]"]) (auto simp: tool_simps closed_in_def)
qed

lemma closing_call:
  assumes "\<exists>ds. tl_calls s = cs @ ds" "f = closer (ch_type c)" "h = Ptr (ch_handle c)"
  shows "closing cs c (snd (call_api api f (h # as) s))"
proof -
  from assms(1) obtain ds where "tl_calls s = cs @ ds" by blast
  then show ?thesis
    unfolding closing_def closed_in_def using assms(2,3)
    by (intro exI[of _ "ds @ [(f, h # as, fst (call_api api f (h # as) s))]"]) (simp add: tool_simps)
qed

lemma closers [tool_simps]:
  "closer MEDIATOOL_PLAYER = ''media_player_close''" "closer MEDIATOOL_RECORDER = ''media_recorder_close''"
  "closer MEDIATOOL_CONTROLLER = ''media_session_close''" "closer MEDIATOOL_CONTROLLEE = ''media_session_unregister''"
  "closer MEDIATOOL_FOCUS = ''media_focus_abandon''" "closer MEDIATOOL_POLICY = ''media_policy_unsubscribe''"
  "closer MEDIATOOL_UVPLAYER = ''media_uv_player_close''" "closer MEDIATOOL_UVRECORDER = ''media_uv_recorder_close''"
  "closer MEDIATOOL_UVFOCUS = ''media_uv_focus_abandon''" "closer MEDIATOOL_UVCONTROLLER = ''media_uv_session_close''"
  "closer MEDIATOOL_UVCONTROLLEE = ''media_uv_session_unregister''"
  by (simp_all add: closer_def tool_types)

lemma closing_untyped:
  "closing (tl_calls st) c st" if "ch_type c \<noteq> MEDIATOOL_PLAYER" "ch_type c \<noteq> MEDIATOOL_RECORDER"
    "ch_type c \<noteq> MEDIATOOL_CONTROLLER" "ch_type c \<noteq> MEDIATOOL_CONTROLLEE" "ch_type c \<noteq> MEDIATOOL_FOCUS"
    "ch_type c \<noteq> MEDIATOOL_POLICY" "ch_type c \<noteq> MEDIATOOL_UVPLAYER" "ch_type c \<noteq> MEDIATOOL_UVRECORDER"
    "ch_type c \<noteq> MEDIATOOL_UVFOCUS" "ch_type c \<noteq> MEDIATOOL_UVCONTROLLER" "ch_type c \<noteq> MEDIATOOL_UVCONTROLLEE"
  using that by (simp add: closing_def closed_in_def closer_def)

lemma close_handle_closing: "closing (tl_calls st) (slot (nat ident) st) (snd (close_handle api ident ps st))"
proof (cases "ch_type (slot (nat ident) st) = MEDIATOOL_PLAYER")
  case True
  let ?c = "call_api api ''media_player_close'' [hnd ident st, Val ps]
    (if ps = 0 then snd (mediatool_common_stop_inner api (nat ident) st) else st)"
  have "closing (tl_calls st) (slot (nat ident) st) (snd ?c)"
    by (rule closing_call) (simp_all add: hnd_def True closers stop_inner_calls)
  then show ?thesis
    using True by (cases "ps = 0") (simp_all add: close_handle_def Let_def case_prod_beta kind_def closing_after)
next
  case False
  show ?thesis
    unfolding close_handle_def Let_def case_prod_beta if_distrib[where f = snd] snd_conv hnd_def kind_def
    by (simp only: False if_False, intro closing_rules closing_call closing_untyped)
      (simp_all add: False closers stop_inner_calls)
qed

lemma close_slots_closes:
  assumes "length (tl_chain st) = MEDIATOOL_MAX_CHAIN" "distinct is" "\<forall>i\<in>set is. 0 \<le> i \<and> i < int MEDIATOOL_MAX_CHAIN"
  shows "\<exists>st1 ds. close_slots api is st = Some st1 \<and> length (tl_chain st1) = MEDIATOOL_MAX_CHAIN \<and> tl_calls st1 = tl_calls st @ ds
    \<and> (\<forall>j. ch_type (slot j st1) = ch_type (slot j st) \<and> ch_handle (slot j st1) = (if int j \<in> set is then 0 else ch_handle (slot j st)))
    \<and> (\<forall>i\<in>set is. ch_handle (slot (nat i) st) \<noteq> 0 \<longrightarrow> closed_in ds (slot (nat i) st))"
  using assms
proof (induction "is" arbitrary: st)
  case Nil
  then show ?case by simp
next
  case (Cons i "is")
  show ?case
  proof (cases "ch_handle (slot (nat i) st) = 0")
    case True
    from Cons.IH[of st] Cons.prems obtain st1 ds where *: "close_slots api is st = Some st1" "length (tl_chain st1) = MEDIATOOL_MAX_CHAIN"
      "tl_calls st1 = tl_calls st @ ds" "\<And>j. ch_type (slot j st1) = ch_type (slot j st)"
      "\<And>j. ch_handle (slot j st1) = (if int j \<in> set is then 0 else ch_handle (slot j st))"
      "\<And>i. i \<in> set is \<Longrightarrow> ch_handle (slot (nat i) st) \<noteq> 0 \<Longrightarrow> closed_in ds (slot (nat i) st)" by auto
    show ?thesis using * True Cons.prems by auto
  next
    case False
    have live: "live i st" using False Cons.prems(3) by (simp add: live_def)
    note i = live_index[OF live]
    define s1 where "s1 = snd (close_handle api i 0 st)"
    define s2 where "s2 = set_slot (nat i) (\<lambda>c. c\<lparr>ch_handle := 0, ch_extra := 0\<rparr>) s1"
    have c: "\<exists>r. mediatool_cmd_close api i 0 st = Some (r, s2)"
      using live by (simp add: mediatool_cmd_close_def case_prod_beta s2_def s1_def)
    note s1 = close_handle_slot[OF Cons.prems(1) live, where api = api and ps = 0, folded s1_def]
    have len: "length (tl_chain s2) = MEDIATOOL_MAX_CHAIN" by (simp add: s2_def tool_simps s1)
    have slots: "ch_type (slot j s2) = ch_type (slot j st)" "ch_handle (slot j s2) = (if j = nat i then 0 else ch_handle (slot j st))" for j
      using i by (cases "j = nat i"; simp add: s2_def tool_simps s1)+
    obtain d1 where d1: "tl_calls s2 = tl_calls st @ d1" "closed_in d1 (slot (nat i) st)"
      using close_handle_closing[of st i api "0"] by (auto simp: closing_def s1_def s2_def tool_simps)
    from Cons.IH[OF len] Cons.prems obtain st1 ds where *: "close_slots api is s2 = Some st1" "length (tl_chain st1) = MEDIATOOL_MAX_CHAIN"
      "tl_calls st1 = tl_calls s2 @ ds" "\<And>j. ch_type (slot j st1) = ch_type (slot j s2)"
      "\<And>j. ch_handle (slot j st1) = (if int j \<in> set is then 0 else ch_handle (slot j s2))"
      "\<And>i. i \<in> set is \<Longrightarrow> ch_handle (slot (nat i) s2) \<noteq> 0 \<Longrightarrow> closed_in ds (slot (nat i) s2)" by auto
    have "closed_in (d1 @ ds) (slot (nat i) st)" using d1(2) by (auto simp: closed_in_def)
    moreover have "closed_in (d1 @ ds) (slot (nat k) st)" if "k \<in> set is" "ch_handle (slot (nat k) st) \<noteq> 0" for k
    proof -
      have "k \<noteq> i" "0 \<le> k" "0 \<le> i" using that(1) Cons.prems(2,3) by auto
      then have "nat k \<noteq> nat i" by linarith
      then show ?thesis using *(6)[OF that(1)] that(2) slots by (auto simp: closed_in_def)
    qed
    moreover have "ch_handle (slot j st1) = (if int j \<in> set (i # is) then 0 else ch_handle (slot j st))" for j
      using *(5)[of j] slots(2)[of j] Cons.prems(3) by auto
    moreover have "close_slots api (i # is) st = Some st1" using c *(1) False by auto
    ultimately show ?thesis using * d1(1) slots(1)
      by (intro exI[of _ st1] exI[of _ "d1 @ ds"]) auto
  qed
qed

text \<open>C32: The command \<open>q\<close> always ends the tool, and leaves nothing open: every slot marked with a
  type whose handle is not NULL is closed with the function of that type, called with that handle, and every slot
  is empty afterwards.\<close>
theorem tool_quit_closes:
  assumes "length (tl_chain st) = MEDIATOOL_MAX_CHAIN"
  shows "\<exists>st1 ds. mediatool_execute api ''q'' st = Some (-1, st1) \<and> tl_calls st1 = tl_calls st @ ds
    \<and> (\<forall>j<MEDIATOOL_MAX_CHAIN. ch_handle (slot j st1) = 0 \<and>
         (ch_handle (slot j st) \<noteq> 0 \<longrightarrow> closed_in ds (slot j st)))"
proof -
  let ?is = "[0..int MEDIATOOL_MAX_CHAIN - 1]"
  from close_slots_closes[OF assms, of ?is api] obtain st1 ds where *: "close_slots api ?is st = Some st1"
    "tl_calls st1 = tl_calls st @ ds"
    "\<And>j. ch_handle (slot j st1) = (if int j \<in> set ?is then 0 else ch_handle (slot j st))"
    "\<And>i. i \<in> set ?is \<Longrightarrow> ch_handle (slot (nat i) st) \<noteq> 0 \<Longrightarrow> closed_in ds (slot (nat i) st)" by auto
  have "map_of (g_mediatool_cmds api) ''q'' = Some (\<lambda>_. mediatool_cmd_quit api)"
    by (simp add: g_mediatool_cmds_def sync_cmds_def uv_cmds_def)
  moreover have "tool_argv ''q'' = [''q'']" by code_simp
  ultimately have "mediatool_execute api ''q'' st = Some (-1, st1)"
    using *(1) by (simp add: mediatool_execute_def mediatool_cmd_quit_def)
  moreover have "closed_in ds (slot j st)" if "j < MEDIATOOL_MAX_CHAIN" "ch_handle (slot j st) \<noteq> 0" for j
    using *(4)[of "int j"] that by simp
  ultimately show ?thesis using *(2,3) by auto
qed

definition demo_tool :: "int mediatool" where
  "demo_tool = (zero_tool 1)\<lparr>tl_chain := (tl_chain (zero_tool (1::int)))
     [3 := zero_chain\<lparr>ch_handle := 7, ch_type := MEDIATOOL_FOCUS\<rparr>, 5 := zero_chain\<lparr>ch_handle := 9, ch_type := MEDIATOOL_UVPLAYER\<rparr>]\<rparr>"

lemma tool_quit_closes_witness:
  "ch_handle (slot 3 demo_tool) = 7 \<and>
   (\<exists>st1 ds. mediatool_execute demo_api ''q'' demo_tool = Some (-1, st1) \<and> tl_calls st1 = tl_calls demo_tool @ ds
    \<and> (\<forall>j<MEDIATOOL_MAX_CHAIN. ch_handle (slot j st1) = 0 \<and>
         (ch_handle (slot j demo_tool) \<noteq> 0 \<longrightarrow> closed_in ds (slot j demo_tool))))"
  using tool_quit_closes[of demo_tool demo_api]
  by (simp add: demo_tool_def zero_tool_def slot_def MEDIATOOL_MAX_CHAIN_def)

section \<open>Buffer mode\<close>

definition writes_ok :: "'w tool_api \<Rightarrow> bool" where
  \<comment> \<open>writing takes some of the bytes it is given, or asks to try again\<close>
  "writes_ok api \<longleftrightarrow> (\<forall>h m len w. 0 < len \<longrightarrow> (case api ''media_player_write_data'' [h, m, Val len] w of (ret, errno, _) \<Rightarrow>
     0 < ret \<and> ret \<le> len \<or> ret < 0 \<and> errno = EAGAIN))"

definition slice :: "'b list \<Rightarrow> tool_call \<Rightarrow> 'b list" where
  \<comment> \<open>what a call took from the buffer that holds \<open>block\<close>\<close>
  "slice block c = (case c of (f, [Ptr h, Mem b off, Val len], r) \<Rightarrow>
     if f = ''media_player_write_data'' then take (nat r) (drop off block) else [] | _ \<Rightarrow> [])"

definition taken :: "'b list \<Rightarrow> tool_call list \<Rightarrow> 'b list" where "taken block ds = concat (map (slice block) ds)"

definition retries :: "tool_call list \<Rightarrow> nat" where "retries ds = length (filter (\<lambda>d. snd (snd d) < 0) ds)"

definition handed :: "'b list \<Rightarrow> nat \<Rightarrow> nat \<Rightarrow> block_end \<Rightarrow> tool_call list \<Rightarrow> bool" where
  \<comment> \<open>the calls took the block from \<open>off\<close> on, all of it or as much as \<open>n\<close> calls allow\<close>
  "handed block off n e ds \<longleftrightarrow> e = Block_done \<and> taken block ds = drop off block
     \<or> e = Still_running \<and> n < retries ds + (length block - off)"

abbreviation (input) write_event :: "'w mediatool \<Rightarrow> nat \<Rightarrow> nat \<Rightarrow> int \<Rightarrow> int \<Rightarrow> tool_call" where
  "write_event st i off act ret \<equiv>
     (''media_player_write_data'', [Ptr (ch_handle (slot i st)), Mem (ch_buf (slot i st)) off, Val act], ret)"

lemma handed_more:
  assumes "handed block (off + nat ret) n e ds" "0 < ret" "off + nat ret \<le> length block"
  shows "handed block off (Suc n) e (write_event st i off act ret # ds)"
proof -
  have "take (nat ret) (drop off block) @ drop (off + nat ret) block = drop off block"
    using append_take_drop_id[of "nat ret" "drop off block"] by (simp add: add.commute)
  then show ?thesis using assms by (auto simp: handed_def taken_def slice_def retries_def)
qed

lemma handed_retry: "handed block off n e ds \<Longrightarrow> ret < 0 \<Longrightarrow> handed block off (Suc n) e (write_event st i off act ret # ds)"
  by (auto simp: handed_def taken_def slice_def retries_def)

lemma write_call:
  assumes "writes_ok api" "0 < act"
    "call_out api ''media_player_write_data'' [Ptr (ch_handle (slot i st)), Mem (ch_buf (slot i st)) off, Val act] st = (ret, errno, st2)"
  shows "0 < ret \<and> ret \<le> act \<or> ret < 0 \<and> errno = EAGAIN" "tl_calls st2 = tl_calls st @ [write_event st i off act ret]"
    "ch_direct (slot i st2) = ch_direct (slot i st)"
  using assms(1)[unfolded writes_ok_def, rule_format, OF assms(2), of "Ptr (ch_handle (slot i st))" "Mem (ch_buf (slot i st)) off" "tl_world st"]
    assms(3) by (auto simp: call_out_def slot_def split: prod.splits)

lemma player_write_handed:
  assumes "writes_ok api"
  shows "\<not> ch_direct (slot i st) \<Longrightarrow> off \<le> length block \<Longrightarrow> player_write api i n fd off (int (length block - off)) st = (e, st1)
    \<Longrightarrow> \<exists>ds. tl_calls st1 = tl_calls st @ ds \<and> handed block off n e ds"
proof (induction n arbitrary: off st)
  case 0
  then show ?case by (auto simp: handed_def taken_def retries_def split: if_split_asm)
next
  case (Suc n)
  let ?act = "int (length block - off)"
  show ?case
  proof (cases "off = length block")
    case True
    then show ?thesis using Suc.prems by (auto simp: handed_def taken_def)
  next
    case False
    then have act: "0 < ?act" using Suc.prems(2) by simp
    obtain ret errno st2 where c: "call_out api ''media_player_write_data''
        [Ptr (ch_handle (slot i st)), Mem (ch_buf (slot i st)) off, Val ?act] st = (ret, errno, st2)"
      using prod_cases3 by blast
    note w = write_call[OF assms act c]
    have dir: "\<not> ch_direct (slot i st2)" using w(3) Suc.prems(1) by simp
    from w(1) show ?thesis
    proof
      assume r: "0 < ret \<and> ret \<le> ?act"
      have len: "off + nat ret \<le> length block" "?act - ret = int (length block - (off + nat ret))"
        using r Suc.prems(2) by auto
      have "player_write api i n fd (off + nat ret) (int (length block - (off + nat ret))) st2 = (e, st1)"
        using Suc.prems(1,3) act r c len(2) by (simp add: Let_def)
      from Suc.IH[OF dir len(1) this] obtain ds where "tl_calls st1 = tl_calls st2 @ ds" "handed block (off + nat ret) n e ds" by blast
      then show ?thesis using handed_more[of block off ret n e ds] r len(1) w(2) by auto
    next
      assume r: "ret < 0 \<and> errno = EAGAIN"
      have "player_write api i n fd off ?act st2 = (e, st1)" using Suc.prems(1,3) act r c by (simp add: Let_def)
      from Suc.IH[OF dir Suc.prems(2) this] obtain ds where "tl_calls st1 = tl_calls st2 @ ds" "handed block off n e ds" by blast
      then show ?thesis using handed_retry[of block off n e ds ret] r w(2) by auto
    qed
  qed
qed

text \<open>C28: In buffer mode the thread hands a block it has read over to the player whole: however the library cuts the
  writes and however often it asks to try again, what the calls take, put together, is the block, from its first byte
  to its last; it is done as soon as it may make as many calls as there are bytes and retries.\<close>
theorem tool_block_written:
  assumes "writes_ok api" "\<not> ch_direct (slot i st)" "player_write api i n fd 0 (int (length block)) st = (e, st1)"
  shows "\<exists>ds. tl_calls st1 = tl_calls st @ ds \<and> (e = Block_done \<longrightarrow> taken block ds = block)
    \<and> (retries ds + length block \<le> n \<longrightarrow> e = Block_done)"
  using player_write_handed[OF assms(1,2), of 0 block n fd e st1] assms(3) by (auto simp: handed_def)

definition lazy_api :: "nat tool_api" where
  \<comment> \<open>writing takes two bytes at most, and every third time none\<close>
  "lazy_api f args w = (case args of [h, m, Val len] \<Rightarrow> if w mod 3 = 2 then (-1, EAGAIN, w + 1) else (min 2 len, 0, w + 1) | _ \<Rightarrow> (0, 0, w))"

lemma tool_block_written_witness:
  "\<exists>st1 ds. player_write lazy_api 0 20 0 0 (int (length [10, 11, 12, 13, 14, 15, 16 :: int])) (zero_tool 0) = (Block_done, st1)
    \<and> tl_calls st1 = tl_calls (zero_tool (0::nat)) @ ds \<and> taken [10, 11, 12, 13, 14, 15, 16 :: int] ds = [10, 11, 12, 13, 14, 15, 16]
    \<and> length ds = 5"
proof -
  let ?b = "[10, 11, 12, 13, 14, 15, 16 :: int]"
  have ok: "writes_ok lazy_api" by (auto simp: writes_ok_def lazy_api_def)
  have d: "\<not> ch_direct (slot 0 (zero_tool (0::nat)))" by (simp add: slot_def zero_tool_def zero_chain_def MEDIATOOL_MAX_CHAIN_def)
  have run: "case player_write lazy_api 0 20 0 0 7 (zero_tool 0) of (e, st1) \<Rightarrow> e = Block_done \<and> length (tl_calls st1) = 5"
    by code_simp
  obtain e st1 where r: "player_write lazy_api 0 20 0 0 (int (length ?b)) (zero_tool 0) = (e, st1)" by fastforce
  then have e: "e = Block_done" "length (tl_calls st1) = 5" using run by auto
  from tool_block_written[OF ok d r] obtain ds where "tl_calls st1 = tl_calls (zero_tool (0::nat)) @ ds" "taken ?b ds = ?b"
    using e(1) by auto
  then show ?thesis using r e by (auto simp: zero_tool_def)
qed

section \<open>What the tool does not mean to do\<close>

lemma tool_prepare_closes_descriptor:
  \<comment> \<open>preparing a session in buffer mode closes the descriptor the slot has not opened: 0, the standard input\<close>
  assumes "live ident st" "kind ident st = MEDIATOOL_CONTROLLER" "ch_thread (slot (nat ident) st) = 0"
    and "ch_fd (slot (nat ident) st) = 0" "m \<noteq> ''url''"
  shows "\<exists>st1 r. mediatool_cmd_prepare api ident (Some m) (Some p) opts st = Some (-EINVAL, st1)
    \<and> tl_calls st1 = tl_calls st @ [(''close'', [Val 0], r)]"
  using assms by (auto simp: mediatool_cmd_prepare_def prepare_open_def prepare_handle_def Let_def tool_types tool_simps)

lemma tool_close_callback_clears:
  \<comment> \<open>\<open>close\<close> frees a slot at once; the callback of its library, when it comes, empties it whatever it holds then\<close>
  assumes "i < length (tl_chain st)"
  shows "ch_handle (slot i (mediatool_uv_common_close_cb i st)) = 0"
    "tl_calls (mediatool_uv_common_close_cb i st) = tl_calls st"
  using assms by (simp_all add: mediatool_uv_common_close_cb_def tool_simps)

lemma tool_eof_closes_twice:
  \<comment> \<open>the end of the file closes the descriptor, and stopping closes it again\<close>
  assumes "i < length (tl_chain st)" "0 < ch_fd (slot i st)" "ch_thread (slot i st) = 0"
  shows "\<exists>r r2. tl_calls (mediatool_common_stop_thread api i (mediatool_uv_player_read_cb api i 0 st)) = tl_calls st
    @ [(''uv_fs_close'', [Loop, Val (ch_fd (slot i st))], r), (''close'', [Val (ch_fd (slot i st))], r2)]"
  using assms by (simp add: mediatool_common_stop_thread_def mediatool_uv_player_read_cb_def tool_simps)

lemma tool_music_notifies_player:
  \<comment> \<open>the result of a control is reported with the player's handle, not the session's\<close>
  "\<exists>r r2. tl_calls (mediatool_controllee_music_callback api i MEDIA_EVENT_START st) = tl_calls st
    @ [(''media_player_start'', [Ptr (ch_handle (slot i st))], r),
       (''media_session_notify'', [Ptr (ch_handle (slot i st)), Val MEDIA_EVENT_START, Val r, Str None], r2)]"
  by (simp add: mediatool_controllee_music_callback_def Let_def case_prod_beta tool_simps)

lemma tool_music_volume_swapped:
  "\<exists>r cs. tl_calls (mediatool_controllee_music_callback api i MEDIA_EVENT_INCREASE_VOLUME st) = tl_calls st
    @ (''media_policy_decrease_stream_volume'', [Str (Some MEDIA_STREAM_MUSIC)], r) # cs"
  by (simp add: mediatool_controllee_music_callback_def Let_def case_prod_beta tool_simps MEDIA_EVENT_START_def MEDIA_EVENT_PAUSE_def
      MEDIA_EVENT_STOP_def MEDIA_EVENT_INCREASE_VOLUME_def)

definition demo_thread_api :: "int tool_api" where
  "demo_thread_api f args w = (if f \<in> set [''media_player_open'', ''media_recorder_start_picture'', ''malloc'', ''open'']
     then (w, 0, w + 1) else (0, 9, w))"

lemma tool_pending_close_blocks:
  \<comment> \<open>closing with a pending stop leaves the thread in the slot, and its next player cannot be prepared\<close>
  "map_option fst (do {
     (_, s1) \<leftarrow> mediatool_cmd_player_open demo_thread_api None (zero_tool 1);
     (_, s2) \<leftarrow> mediatool_cmd_prepare demo_thread_api 0 (Some ''buffer'') (Some ''a'') None s1;
     (_, s3) \<leftarrow> mediatool_cmd_close demo_thread_api 0 1 s2;
     (_, s4) \<leftarrow> mediatool_cmd_player_open demo_thread_api None s3;
     mediatool_cmd_prepare demo_thread_api 0 (Some ''buffer'') (Some ''b'') None s4 }) = Some (-EPERM)"
  by code_simp

lemma tool_picture_confused:
  \<comment> \<open>a picture taken into the slot of a player that was closed is started as a player\<close>
  "map_option (\<lambda>r. (last (tl_calls (snd r)), typed_calls [] (tl_calls (snd r)))) (do {
     (_, s1) \<leftarrow> mediatool_cmd_player_open demo_thread_api None (zero_tool 1);
     (_, s2) \<leftarrow> mediatool_cmd_close demo_thread_api 0 0 s1;
     (_, s3) \<leftarrow> mediatool_cmd_take_picture_async demo_thread_api None None 1 s2;
     mediatool_cmd_start demo_thread_api 0 None s3 }) = Some ((''media_player_start'', [Ptr 2], 0), False)"
  by code_simp

end
