(* ===== verification/Media_Feature.thy ===== *)
theory Media_Feature
  imports Media_Tool
begin

text \<open>
  The bindings of the client libraries for scripts: \<open>feature/audio_impl.c\<close>, \<open>feature/session_impl.c\<close>,
  \<open>feature/volume_impl.c\<close>.

  The feature runtime, the interfaces generated for it and the client libraries are one parameter, as in
  \<open>Media_Tool\<close>: a function called by name gives a result and the world after the call, and is recorded. Floating
  point is a parameter too. \<open>None\<close> is undefined behaviour: a null pointer followed, or a string without its
  terminating zero. Logging is left out.
\<close>

section \<open>The runtime\<close>

datatype 'f feature_arg = Obj int | Num int | Text "string option" | Real 'f | Fn string | Ret 'f
  | State string string 'f bool bool 'f bool 'f

type_synonym ('w, 'f) feature_api = "string \<Rightarrow> 'f feature_arg list \<Rightarrow> 'w \<Rightarrow> int \<times> 'w"

record 'f float_ops =
  fl_of_int :: "int \<Rightarrow> 'f"
  fl_trunc :: "'f \<Rightarrow> int"
  fl_less :: "'f \<Rightarrow> 'f \<Rightarrow> bool"
  fl_times :: "'f \<Rightarrow> 'f \<Rightarrow> 'f"
  fl_div :: "'f \<Rightarrow> 'f \<Rightarrow> 'f"

definition fl_eq :: "'f float_ops \<Rightarrow> 'f \<Rightarrow> 'f \<Rightarrow> bool" where
  \<comment> \<open>\<open>==\<close>, for numbers\<close>
  "fl_eq fl a b \<longleftrightarrow> \<not> fl_less fl a b \<and> \<not> fl_less fl b a"

record ('w, 'f) feature =
  fe_world :: 'w
  fe_calls :: "(string \<times> 'f feature_arg list \<times> int) list"

definition fcall :: "('w, 'f) feature_api \<Rightarrow> string \<Rightarrow> 'f feature_arg list \<Rightarrow> ('w, 'f, 'm) feature_scheme
    \<Rightarrow> int \<times> ('w, 'f, 'm) feature_scheme" where
  "fcall api f args st = (case api f args (fe_world st) of (ret, w) \<Rightarrow>
     (ret, st\<lparr>fe_world := w, fe_calls := fe_calls st @ [(f, args, ret)]\<rparr>))"

definition fdo :: "('w, 'f) feature_api \<Rightarrow> string \<Rightarrow> 'f feature_arg list \<Rightarrow> ('w, 'f, 'm) feature_scheme
    \<Rightarrow> ('w, 'f, 'm) feature_scheme" where
  "fdo api f args st = snd (fcall api f args st)"

definition invoke :: "('w, 'f) feature_api \<Rightarrow> int \<Rightarrow> int \<Rightarrow> 'f feature_arg list \<Rightarrow> ('w, 'f, 'm) feature_scheme
    \<Rightarrow> ('w, 'f, 'm) feature_scheme" where
  \<comment> \<open>\<open>if (FeatureCheckCallbackId(f, id)) FeatureInvokeCallback(f, id, ...)\<close>\<close>
  "invoke api f cb args st = (case fcall api ''FeatureCheckCallbackId'' [Obj f, Num cb] st of (ok, st1) \<Rightarrow>
     if ok \<noteq> 0 then fdo api ''FeatureInvokeCallback'' ([Obj f, Num cb] @ args) st1 else st1)"

definition strncpy :: "nat \<Rightarrow> string \<Rightarrow> string" where
  \<comment> \<open>into an array of \<open>n\<close> characters: cut without a zero, or filled up with zeros\<close>
  "strncpy n s = take n s @ replicate (n - length s) NUL"

section \<open>Audio\<close>

definition MAX_URL_LEN :: nat where "MAX_URL_LEN = 128"
definition MAX_TITLE_LEN :: nat where "MAX_TITLE_LEN = 64"
definition MAX_ALBUM_LEN :: nat where "MAX_ALBUM_LEN = 64"
definition MAX_ARTIST_LEN :: nat where "MAX_ARTIST_LEN = 64"
definition MAX_STREAMTYPE_LEN :: nat where "MAX_STREAMTYPE_LEN = 10"
definition MEDIA_STATE_STARTED :: int where "MEDIA_STATE_STARTED = 0"
definition MEDIA_STATE_PAUSED :: int where "MEDIA_STATE_PAUSED = 1"
definition MEDIA_STATE_STOPPED :: int where "MEDIA_STATE_STOPPED = 2"
definition MEDIA_EVENT_PREPARED :: int where "MEDIA_EVENT_PREPARED = 1"

record audio_event =
  onplay :: int
  onpause :: int
  onstop :: int
  onloadeddata :: int
  onended :: int
  ondurationchange :: int
  ontimeupdate :: int
  onerror :: int

record meta_info =
  mi_title :: string
  mi_album :: string
  mi_artist :: string

record 'f audio_object =
  au_handle :: int
  au_feature :: int
  au_event :: audio_event
  au_src :: string
  au_meta :: meta_info
  au_streamType :: string
  au_state :: int
  au_currentTime :: 'f
  au_duration :: 'f
  au_volume :: 'f
  au_autoplay :: bool
  au_loop :: bool

text \<open>The data of the instance is its object, or NULL.\<close>

record ('w, 'f) audio = "('w, 'f) feature" +
  au_obj :: "'f audio_object option"

definition on_obj :: "('f audio_object \<Rightarrow> 'f audio_object) \<Rightarrow> ('w, 'f) audio \<Rightarrow> ('w, 'f) audio" where
  "on_obj f st = st\<lparr>au_obj := map_option f (au_obj st)\<rparr>"

definition init_audio_obj :: "'f float_ops \<Rightarrow> 'f audio_object \<Rightarrow> 'f audio_object" where
  "init_audio_obj fl obj = obj\<lparr>au_src := replicate MAX_URL_LEN NUL,
     au_meta := \<lparr>mi_title = replicate MAX_TITLE_LEN NUL, mi_album = replicate MAX_ALBUM_LEN NUL, mi_artist = replicate MAX_ARTIST_LEN NUL\<rparr>,
     au_streamType := strncpy MAX_STREAMTYPE_LEN MEDIA_STREAM_MUSIC, au_handle := 0, au_state := MEDIA_STATE_STOPPED,
     au_currentTime := fl_of_int fl 0, au_duration := fl_of_int fl (-1), au_volume := fl_of_int fl 1,
     au_autoplay := False, au_loop := False\<rparr>"

definition system_audio_onRequired :: "('w, 'f) feature_api \<Rightarrow> 'f float_ops \<Rightarrow> int \<Rightarrow> 'f audio_object \<Rightarrow> ('w, 'f) audio \<Rightarrow> ('w, 'f) audio" where
  \<comment> \<open>\<open>raw\<close> is what \<open>malloc\<close> leaves in the block\<close>
  "system_audio_onRequired api fl handle raw st =
    (case fcall api ''malloc'' [] st of (p, st1) \<Rightarrow>
       if p = 0 then st1\<lparr>au_obj := None\<rparr>
       else st1\<lparr>au_obj := Some ((init_audio_obj fl raw)\<lparr>au_feature := handle, au_event := \<lparr>onplay = 0, onpause = 0, onstop = 0,
         onloadeddata = 0, onended = 0, ondurationchange = 0, ontimeupdate = 0, onerror = 0\<rparr>\<rparr>)\<rparr>)"

definition system_audio_onDetached :: "('w, 'f) feature_api \<Rightarrow> ('w, 'f) audio \<Rightarrow> ('w, 'f) audio" where
  "system_audio_onDetached api st = (if au_obj st \<noteq> None then fdo api ''free'' [] st else st)\<lparr>au_obj := None\<rparr>"

definition get_state_string :: "int \<Rightarrow> string" where
  "get_state_string s = (if s = MEDIA_STATE_STARTED then ''play'' else if s = MEDIA_STATE_PAUSED then ''pause'' else ''stop'')"

definition timeupdate_timer_cb :: "('w, 'f) feature_api \<Rightarrow> ('w, 'f) audio \<Rightarrow> ('w, 'f) audio" where
  "timeupdate_timer_cb api st = (case au_obj st of None \<Rightarrow> st
     | Some obj \<Rightarrow>
       if au_state obj \<noteq> MEDIA_STATE_STARTED then fdo api ''uv_timer_stop'' [] st
       else fdo api ''media_uv_player_get_position'' [Obj (au_handle obj), Fn ''audio_uv_get_position_cb''] st)"

definition timeupdate_loop_timer :: "('w, 'f) feature_api \<Rightarrow> ('w, 'f) audio \<Rightarrow> ('w, 'f) audio" where
  "timeupdate_loop_timer api st = (case au_obj st of None \<Rightarrow> st
     | Some obj \<Rightarrow>
       (case fcall api ''FeatureGetManagerHandleFromInstance'' [Obj (au_feature obj)] st of (manager, st1) \<Rightarrow>
        case fcall api ''FeatureGetUVLoop'' [Obj manager] st1 of (loop, st2) \<Rightarrow>
        if loop = 0 then st2
        else fdo api ''uv_timer_start'' [Fn ''timeupdate_timer_cb'', Num 0, Num 250] (fdo api ''uv_timer_init'' [Obj loop] st2)))"

definition update_duration :: "('w, 'f) feature_api \<Rightarrow> ('w, 'f) audio \<Rightarrow> ('w, 'f) audio" where
  "update_duration api st = (case au_obj st of None \<Rightarrow> st
     | Some obj \<Rightarrow> if au_handle obj = 0 then st
       else fdo api ''media_uv_player_get_duration'' [Obj (au_handle obj), Fn ''audio_uv_get_duration_cb''] st)"

definition close_audio :: "('w, 'f) feature_api \<Rightarrow> 'f float_ops \<Rightarrow> 'f audio_object \<Rightarrow> ('w, 'f) audio \<Rightarrow> ('w, 'f) audio" where
  "close_audio api fl obj st = on_obj (init_audio_obj fl) (fdo api ''media_uv_player_close'' [Obj (au_handle obj), Num 0] st)"

definition system_audio_wrap_stop :: "('w, 'f) feature_api \<Rightarrow> 'f float_ops \<Rightarrow> ('w, 'f) audio \<Rightarrow> ('w, 'f) audio" where
  "system_audio_wrap_stop api fl st = (case au_obj st of None \<Rightarrow> st
     | Some obj \<Rightarrow> if au_handle obj = 0 then st
       else if au_state obj = MEDIA_STATE_STOPPED then st else close_audio api fl obj st)"

definition system_audio_event_callback :: "('w, 'f) feature_api \<Rightarrow> 'f float_ops \<Rightarrow> int \<Rightarrow> int \<Rightarrow> ('w, 'f) audio \<Rightarrow> ('w, 'f) audio" where
  "system_audio_event_callback api fl event ret st = (case au_obj st of None \<Rightarrow> st
     | Some obj \<Rightarrow>
       let to = (\<lambda>s f. invoke api (au_feature obj) (f (au_event obj)) [] (on_obj (au_state_update (\<lambda>_. s)) st)) in
       if ret < 0 then system_audio_wrap_stop api fl st
       else if event = MEDIA_EVENT_PREPARED then invoke api (au_feature obj) (onloadeddata (au_event obj)) [] st
       else if event = MEDIA_EVENT_STARTED then timeupdate_loop_timer api (update_duration api (to MEDIA_STATE_STARTED onplay))
       else if event = MEDIA_EVENT_PAUSED then to MEDIA_STATE_PAUSED onpause
       else if event = MEDIA_EVENT_STOPPED then to MEDIA_STATE_STOPPED onstop
       else if event = MEDIA_EVENT_COMPLETED then to MEDIA_STATE_STOPPED onended
       else st)"

definition audio_uv_prepare_cb :: "('w, 'f) feature_api \<Rightarrow> 'f float_ops \<Rightarrow> int \<Rightarrow> ('w, 'f) audio \<Rightarrow> ('w, 'f) audio" where
  "audio_uv_prepare_cb api fl ret st = (case au_obj st of None \<Rightarrow> st
     | Some obj \<Rightarrow>
       if au_handle obj = 0 then st
       else if ret < 0 then close_audio api fl obj st
       else (case fcall api ''media_uv_player_start'' [Obj (au_handle obj)] st of (ret, st1) \<Rightarrow>
         if ret < 0 then close_audio api fl obj st1 else st1))"

definition audio_uv_open_cb :: "('w, 'f) feature_api \<Rightarrow> 'f float_ops \<Rightarrow> int \<Rightarrow> ('w, 'f) audio \<Rightarrow> ('w, 'f) audio option" where
  "audio_uv_open_cb api fl ret st = (case au_obj st of None \<Rightarrow> Some st
     | Some obj \<Rightarrow>
       if au_handle obj = 0 then Some st
       else if ret < 0 then Some (close_audio api fl obj st)
       else (case fcall api ''media_uv_player_listen'' [Obj (au_handle obj), Fn ''system_audio_event_callback''] st of (ret, st1) \<Rightarrow>
         if ret < 0 then Some (close_audio api fl obj st1)
         else do {
           src \<leftarrow> c_string_at (au_src obj) 0;
           Some (case fcall api ''media_uv_player_prepare'' [Obj (au_handle obj), Text (Some src), Text None, Fn ''audio_uv_prepare_cb''] st1 of
             (ret, st2) \<Rightarrow> if ret < 0 then close_audio api fl obj st2 else st2)
         }))"

definition audio_uv_get_position_cb :: "('w, 'f) feature_api \<Rightarrow> 'f float_ops \<Rightarrow> int \<Rightarrow> int \<Rightarrow> ('w, 'f) audio \<Rightarrow> ('w, 'f) audio" where
  "audio_uv_get_position_cb api fl ret position st = (case au_obj st of None \<Rightarrow> st
     | Some obj \<Rightarrow> invoke api (au_feature obj) (ontimeupdate (au_event obj)) []
         (if 0 \<le> ret then on_obj (au_currentTime_update (\<lambda>_. fl_of_int fl (position div 1000))) st else st))"

definition audio_uv_get_duration_cb :: "('w, 'f) feature_api \<Rightarrow> 'f float_ops \<Rightarrow> int \<Rightarrow> int \<Rightarrow> ('w, 'f) audio \<Rightarrow> ('w, 'f) audio" where
  "audio_uv_get_duration_cb api fl ret duration st = (case au_obj st of None \<Rightarrow> st
     | Some obj \<Rightarrow> invoke api (au_feature obj) (ondurationchange (au_event obj)) []
         (if 0 \<le> ret then on_obj (au_duration_update (\<lambda>_. fl_of_int fl (duration div 1000))) st else st))"

definition system_audio_wrap_play :: "('w, 'f) feature_api \<Rightarrow> int \<Rightarrow> ('w, 'f) audio \<Rightarrow> ('w, 'f) audio" where
  "system_audio_wrap_play api feature st = (case au_obj st of None \<Rightarrow> st
     | Some obj \<Rightarrow>
       if au_state obj = MEDIA_STATE_STARTED then st
       else if au_state obj = MEDIA_STATE_PAUSED \<and> au_handle obj \<noteq> 0 then fdo api ''media_uv_player_start'' [Obj (au_handle obj)] st
       else (case fcall api ''FeatureGetManagerHandleFromInstance'' [Obj feature] st of (manager, st1) \<Rightarrow>
         case fcall api ''FeatureGetUVLoop'' [Obj manager] st1 of (loop, st2) \<Rightarrow>
         case fcall api ''media_uv_player_open'' [Obj loop, Text (Some MEDIA_STREAM_MUSIC), Fn ''audio_uv_open_cb''] st2 of (h, st3) \<Rightarrow>
         on_obj (au_handle_update (\<lambda>_. h)) st3))"

definition system_audio_wrap_pause :: "('w, 'f) feature_api \<Rightarrow> ('w, 'f) audio \<Rightarrow> ('w, 'f) audio" where
  "system_audio_wrap_pause api st = (case au_obj st of None \<Rightarrow> st
     | Some obj \<Rightarrow>
       if au_handle obj = 0 then st
       else if au_state obj \<noteq> MEDIA_STATE_STARTED then st
       else fdo api ''media_uv_player_pause'' [Obj (au_handle obj)] st)"

definition settle :: "('w, 'f) feature_api \<Rightarrow> int \<Rightarrow> int \<Rightarrow> 'f feature_arg list \<Rightarrow> ('w, 'f, 'm) feature_scheme
    \<Rightarrow> ('w, 'f, 'm) feature_scheme" where
  \<comment> \<open>a callback that is registered is invoked and removed\<close>
  "settle api f cb args st = (case fcall api ''FeatureCheckCallbackId'' [Obj f, Num cb] st of (ok, st1) \<Rightarrow>
     if ok \<noteq> 0 then fdo api ''FeatureRemoveCallback'' [Obj f, Num cb] (fdo api ''FeatureInvokeCallback'' ([Obj f, Num cb] @ args) st1)
     else st1)"

definition system_audio_wrap_getPlayState :: "('w, 'f) feature_api \<Rightarrow> 'f float_ops \<Rightarrow> int \<Rightarrow> int \<Rightarrow> int \<Rightarrow> int
    \<Rightarrow> ('w, 'f) audio \<Rightarrow> ('w, 'f) audio option" where
  "system_audio_wrap_getPlayState api fl feature success fail complete st = (case au_obj st of None \<Rightarrow> Some st
     | Some obj \<Rightarrow> do {
         src \<leftarrow> c_string_at (au_src obj) 0;
         let (p, st1) = fcall api ''system_audioMallocAudioState'' [] st;
         let audiostate = State (get_state_string (au_state obj)) src (au_currentTime obj) (au_autoplay obj) (au_loop obj) (au_volume obj)
           (fl_eq fl (au_volume obj) (fl_of_int fl 0)) (au_duration obj);
         let st2 = settle api feature success [audiostate] st1;
         let st3 = settle api feature complete [] st2;
         let (ok, st4) = fcall api ''FeatureCheckCallbackId'' [Obj feature, Num fail] st3;
         let st5 = (if ok \<noteq> 0 then fdo api ''FeatureRemoveCallback'' [Obj feature, Num fail] st4 else st4);
         Some (fdo api ''FeatureFreeValue'' [Obj p] st5)
       })"

text \<open>The properties of the script; strings are the arrays, with their zeros.\<close>

definition system_audio_get_src :: "('w, 'f) audio \<Rightarrow> string option" where
  "system_audio_get_src st = map_option au_src (au_obj st)"

definition system_audio_set_src :: "string \<Rightarrow> ('w, 'f) audio \<Rightarrow> ('w, 'f) audio" where
  "system_audio_set_src src st = on_obj (au_src_update (\<lambda>_. strncpy MAX_URL_LEN src)) st"

definition system_audio_set_meta :: "string \<Rightarrow> string \<Rightarrow> string \<Rightarrow> ('w, 'f) audio \<Rightarrow> ('w, 'f) audio" where
  "system_audio_set_meta title album artist st = on_obj (au_meta_update (\<lambda>_. \<lparr>mi_title = strncpy MAX_TITLE_LEN title,
     mi_album = strncpy MAX_ALBUM_LEN album, mi_artist = strncpy MAX_ARTIST_LEN artist\<rparr>)) st"

definition audio_get :: "('f audio_object \<Rightarrow> 'a) \<Rightarrow> 'a \<Rightarrow> ('w, 'f) audio \<Rightarrow> 'a" where
  \<comment> \<open>a field, or what is returned without an object\<close>
  "audio_get f d st = (case au_obj st of None \<Rightarrow> d | Some obj \<Rightarrow> f obj)"

definition audio_control :: "('w, 'f) feature_api \<Rightarrow> string \<Rightarrow> 'f feature_arg list \<Rightarrow> ('f audio_object \<Rightarrow> 'f audio_object)
    \<Rightarrow> ('w, 'f) audio \<Rightarrow> ('w, 'f) audio" where
  \<comment> \<open>with a handle, a command to the player, and the field set whatever it returns\<close>
  "audio_control api f args upd st = (case au_obj st of None \<Rightarrow> st
     | Some obj \<Rightarrow> if au_handle obj = 0 then st else on_obj upd (fdo api f (Obj (au_handle obj) # args) st))"

definition system_audio_get_currentTime :: "'f float_ops \<Rightarrow> ('w, 'f) audio \<Rightarrow> 'f" where
  "system_audio_get_currentTime fl st = audio_get au_currentTime (fl_of_int fl 0) st"

definition system_audio_set_currentTime :: "('w, 'f) feature_api \<Rightarrow> 'f float_ops \<Rightarrow> 'f \<Rightarrow> ('w, 'f) audio \<Rightarrow> ('w, 'f) audio" where
  "system_audio_set_currentTime api fl currentTime st =
     audio_control api ''media_uv_player_seek'' [Num (fl_trunc fl currentTime)] (au_currentTime_update (\<lambda>_. currentTime)) st"

definition system_audio_get_duration :: "'f float_ops \<Rightarrow> ('w, 'f) audio \<Rightarrow> 'f" where
  "system_audio_get_duration fl st = audio_get au_duration (fl_of_int fl (-1)) st"

definition system_audio_get_autoplay :: "('w, 'f) audio \<Rightarrow> bool" where
  "system_audio_get_autoplay st = audio_get au_autoplay False st"

definition system_audio_set_autoplay :: "bool \<Rightarrow> ('w, 'f) audio \<Rightarrow> ('w, 'f) audio" where
  "system_audio_set_autoplay autoplay st = on_obj (au_autoplay_update (\<lambda>_. autoplay)) st"

definition system_audio_get_loop :: "('w, 'f) audio \<Rightarrow> bool" where
  "system_audio_get_loop st = audio_get au_loop False st"

definition system_audio_set_loop :: "('w, 'f) feature_api \<Rightarrow> bool \<Rightarrow> ('w, 'f) audio \<Rightarrow> ('w, 'f) audio" where
  "system_audio_set_loop api loop st =
     audio_control api ''media_uv_player_set_looping'' [Num (if loop then -1 else 0)] (au_loop_update (\<lambda>_. loop)) st"

definition system_audio_get_volume :: "'f float_ops \<Rightarrow> ('w, 'f) audio \<Rightarrow> 'f" where
  "system_audio_get_volume fl st = audio_get au_volume (fl_of_int fl 0) st"

definition system_audio_set_volume :: "('w, 'f) feature_api \<Rightarrow> 'f \<Rightarrow> ('w, 'f) audio \<Rightarrow> ('w, 'f) audio" where
  "system_audio_set_volume api volume st =
     audio_control api ''media_uv_player_set_volume'' [Real volume] (au_volume_update (\<lambda>_. volume)) st"

definition system_audio_get_muted :: "'f float_ops \<Rightarrow> ('w, 'f) audio \<Rightarrow> bool" where
  "system_audio_get_muted fl st = fl_eq fl (system_audio_get_volume fl st) (fl_of_int fl 0)"

definition system_audio_set_muted :: "('w, 'f) feature_api \<Rightarrow> 'f float_ops \<Rightarrow> bool \<Rightarrow> ('w, 'f) audio \<Rightarrow> ('w, 'f) audio" where
  "system_audio_set_muted api fl muted st = system_audio_set_volume api (fl_of_int fl 0) st"

definition system_audio_get_streamType :: "('w, 'f) audio \<Rightarrow> string" where
  "system_audio_get_streamType st = audio_get au_streamType (MEDIA_STREAM_MUSIC @ [NUL]) st"

definition system_audio_set_onplay :: "int \<Rightarrow> ('w, 'f) audio \<Rightarrow> ('w, 'f) audio" where
  "system_audio_set_onplay cb st = on_obj (au_event_update (onplay_update (\<lambda>_. cb))) st"

definition system_audio_set_onpause :: "int \<Rightarrow> ('w, 'f) audio \<Rightarrow> ('w, 'f) audio" where
  "system_audio_set_onpause cb st = on_obj (au_event_update (onpause_update (\<lambda>_. cb))) st"

definition system_audio_set_onstop :: "int \<Rightarrow> ('w, 'f) audio \<Rightarrow> ('w, 'f) audio" where
  "system_audio_set_onstop cb st = on_obj (au_event_update (onstop_update (\<lambda>_. cb))) st"

definition system_audio_set_onloadeddata :: "int \<Rightarrow> ('w, 'f) audio \<Rightarrow> ('w, 'f) audio" where
  "system_audio_set_onloadeddata cb st = on_obj (au_event_update (onloadeddata_update (\<lambda>_. cb))) st"

definition system_audio_set_onended :: "int \<Rightarrow> ('w, 'f) audio \<Rightarrow> ('w, 'f) audio" where
  "system_audio_set_onended cb st = on_obj (au_event_update (onended_update (\<lambda>_. cb))) st"

definition system_audio_set_ondurationchange :: "int \<Rightarrow> ('w, 'f) audio \<Rightarrow> ('w, 'f) audio" where
  "system_audio_set_ondurationchange cb st = on_obj (au_event_update (ondurationchange_update (\<lambda>_. cb))) st"

definition system_audio_set_ontimeupdate :: "int \<Rightarrow> ('w, 'f) audio \<Rightarrow> ('w, 'f) audio" where
  "system_audio_set_ontimeupdate cb st = on_obj (au_event_update (ontimeupdate_update (\<lambda>_. cb))) st"

definition system_audio_set_onerror :: "int \<Rightarrow> ('w, 'f) audio \<Rightarrow> ('w, 'f) audio" where
  "system_audio_set_onerror cb st = on_obj (au_event_update (onerror_update (\<lambda>_. cb))) st"

section \<open>Session\<close>

record session_context =
  sx_instance :: int
  sx_interface :: int
  sx_onstatuschange :: int
  sx_event_type :: string
  sx_handle :: int

record ('w, 'f) session_feature = "('w, 'f) feature" +
  sx_obj :: "session_context option"

definition EVENT_TYPE :: "int \<Rightarrow> int \<Rightarrow> string" where
  "EVENT_TYPE event ret = ''{\"event\":\"'' @ int_digits event @ ''\",\"ret\":\"'' @ int_digits ret @ ''\"}''"

definition session_obj_get :: "('w, 'f) session_feature \<Rightarrow> session_context option" where
  "session_obj_get st = sx_obj st"

definition FEATURE_TASK_MODE_NORMAL :: string where "FEATURE_TASK_MODE_NORMAL = ''FEATURE_TASK_MODE_NORMAL''"
definition FEATURE_TASK_MODE_FREE :: string where "FEATURE_TASK_MODE_FREE = ''FEATURE_TASK_MODE_FREE''"

definition session_feature_post_cb :: "('w, 'f) feature_api \<Rightarrow> string \<Rightarrow> ('w, 'f) session_feature \<Rightarrow> ('w, 'f) session_feature option" where
  "session_feature_post_cb api mode st = do {
     session \<leftarrow> sx_obj st;
     let cb = [Obj (sx_interface session), Num (sx_onstatuschange session)];
     Some (if mode = FEATURE_TASK_MODE_FREE then fdo api ''FeatureRemoveCallback'' cb st
       else if mode = FEATURE_TASK_MODE_NORMAL then fdo api ''FeatureInvokeCallback'' (cb @ [Text (Some (sx_event_type session))]) st
       else st)
   }"

definition set_event_callback :: "('w, 'f) feature_api \<Rightarrow> bool \<Rightarrow> int \<Rightarrow> int \<Rightarrow> ('w, 'f) session_feature \<Rightarrow> ('w, 'f) session_feature option" where
  \<comment> \<open>\<open>own\<close> is whether the cookie is the context; the warnings do not end the function\<close>
  "set_event_callback api own event ret st =
    (if \<not> own then None
     else do {
       session \<leftarrow> sx_obj st;
       let st1 = fdo api ''FeatureInstanceIsDetached'' [Obj (sx_instance session)] st;
       let (ok, st2) = fcall api ''FeatureCheckCallbackId'' [Obj (sx_interface session), Num (sx_onstatuschange session)] st1;
       Some (if ok \<noteq> 0 then fdo api ''FeaturePost'' [Obj (sx_interface session), Fn ''session_feature_post_cb'']
           (st2\<lparr>sx_obj := Some (session\<lparr>sx_event_type := take 63 (EVENT_TYPE event ret)\<rparr>)\<rparr>)
         else st2)
     })"

definition system_media_session_wrap_createSession :: "('w, 'f) feature_api \<Rightarrow> int \<Rightarrow> string option \<Rightarrow> ('w, 'f) session_feature
    \<Rightarrow> (int \<times> ('w, 'f) session_feature) option" where
  \<comment> \<open>the callback gets the handle of the library as its cookie\<close>
  "system_media_session_wrap_createSession api feature params st =
    (case fcall api ''calloc'' [] st of (p, st1) \<Rightarrow>
     case fcall api ''system_media_session_createSession_instance'' [Obj feature] st1 of (handle, st2) \<Rightarrow>
     if p = 0 then None
     else case fcall api ''FeatureDupInstanceHandle'' [Obj feature] st2 of (inst, st3) \<Rightarrow>
     case fcall api ''media_session_open'' [Text params] st3 of (h, st4) \<Rightarrow>
     let st5 = st4\<lparr>sx_obj := Some \<lparr>sx_instance = inst, sx_interface = handle, sx_onstatuschange = 0, sx_event_type = [], sx_handle = h\<rparr>\<rparr> in
     if h = 0 then Some (0, st5)
     else Some (handle, fdo api ''media_session_set_event_callback'' [Obj h, Obj h, Fn ''set_event_callback''] st5))"

definition system_media_session_Session_interface_media_session_finalize :: "('w, 'f) feature_api \<Rightarrow> ('w, 'f) session_feature
    \<Rightarrow> ('w, 'f) session_feature" where
  "system_media_session_Session_interface_media_session_finalize api st = (case sx_obj st of None \<Rightarrow> st
     | Some session \<Rightarrow>
       (fdo api ''free'' [] (fdo api ''FeatureFreeInstanceHandle'' [Obj (sx_instance session)]
         (fdo api ''media_session_close'' [Obj (sx_handle session)] st)))\<lparr>sx_obj := None\<rparr>)"

record feedback =
  fb_success :: int
  fb_fail :: int
  fb_complete :: int

definition remove_all_callback :: "('w, 'f) feature_api \<Rightarrow> int \<Rightarrow> feedback \<Rightarrow> ('w, 'f, 'm) feature_scheme \<Rightarrow> ('w, 'f, 'm) feature_scheme" where
  "remove_all_callback api handle fb st = fdo api ''FeatureRemoveCallback'' [Obj handle, Num (fb_complete fb)]
     (fdo api ''FeatureRemoveCallback'' [Obj handle, Num (fb_fail fb)]
       (fdo api ''FeatureRemoveCallback'' [Obj handle, Num (fb_success fb)] st))"

definition invoke_fail_cb :: "('w, 'f) feature_api \<Rightarrow> int \<Rightarrow> int \<Rightarrow> string \<Rightarrow> int \<Rightarrow> ('w, 'f, 'm) feature_scheme \<Rightarrow> ('w, 'f, 'm) feature_scheme" where
  "invoke_fail_cb api handle cb msg code st =
    (if cb = 0 then st else fdo api ''FeatureInvokeCallback'' [Obj handle, Num cb, Text (Some msg), Num code] st)"

definition invoke_success_cb :: "('w, 'f) feature_api \<Rightarrow> int \<Rightarrow> int \<Rightarrow> string \<Rightarrow> ('w, 'f, 'm) feature_scheme \<Rightarrow> ('w, 'f, 'm) feature_scheme" where
  "invoke_success_cb api handle cb msg st =
    (if cb = 0 then st else fdo api ''FeatureInvokeCallback'' [Obj handle, Num cb, Text (Some msg)] st)"

definition session_command :: "('w, 'f) feature_api \<Rightarrow> int \<Rightarrow> string \<Rightarrow> string \<Rightarrow> string option \<Rightarrow> feedback \<Rightarrow> ('w, 'f) session_feature
    \<Rightarrow> ('w, 'f) session_feature option" where
  \<comment> \<open>the body of the controls, which differ in the function they call and in what they report\<close>
  "session_command api handle f msg success fb st = do {
     session \<leftarrow> sx_obj st;
     let st1 = (if sx_handle session = 0 then st
       else (case fcall api f [Obj (sx_handle session)] st of (ret, s) \<Rightarrow>
         if ret < 0 then invoke_fail_cb api handle (fb_fail fb) msg ret s
         else (case success of None \<Rightarrow> s | Some t \<Rightarrow> invoke_success_cb api handle (fb_success fb) t s)));
     Some (remove_all_callback api handle fb st1)
   }"

definition system_media_session_Session_interface_media_session_start :: "('w, 'f) feature_api \<Rightarrow> int \<Rightarrow> feedback
    \<Rightarrow> ('w, 'f) session_feature \<Rightarrow> ('w, 'f) session_feature option" where
  "system_media_session_Session_interface_media_session_start api handle fb st =
     session_command api handle ''media_session_start'' ''start session error'' (Some ''session start success'') fb st"

definition system_media_session_Session_interface_media_session_pause :: "('w, 'f) feature_api \<Rightarrow> int \<Rightarrow> feedback
    \<Rightarrow> ('w, 'f) session_feature \<Rightarrow> ('w, 'f) session_feature option" where
  "system_media_session_Session_interface_media_session_pause api handle fb st =
     session_command api handle ''media_session_pause'' ''pause session error'' None fb st"

definition system_media_session_Session_interface_media_session_stop :: "('w, 'f) feature_api \<Rightarrow> int \<Rightarrow> feedback
    \<Rightarrow> ('w, 'f) session_feature \<Rightarrow> ('w, 'f) session_feature option" where
  "system_media_session_Session_interface_media_session_stop api handle fb st =
     session_command api handle ''media_session_stop'' ''stop session error'' None fb st"

definition system_media_session_Session_interface_media_session_prev :: "('w, 'f) feature_api \<Rightarrow> int \<Rightarrow> feedback
    \<Rightarrow> ('w, 'f) session_feature \<Rightarrow> ('w, 'f) session_feature option" where
  "system_media_session_Session_interface_media_session_prev api handle fb st =
     session_command api handle ''media_session_prev_song'' ''prev session error'' None fb st"

definition system_media_session_Session_interface_media_session_next :: "('w, 'f) feature_api \<Rightarrow> int \<Rightarrow> feedback
    \<Rightarrow> ('w, 'f) session_feature \<Rightarrow> ('w, 'f) session_feature option" where
  "system_media_session_Session_interface_media_session_next api handle fb st =
     session_command api handle ''media_session_next_song'' ''next session error'' None fb st"

definition system_media_session_Session_interface_media_session_increaseVolume :: "('w, 'f) feature_api \<Rightarrow> int \<Rightarrow> feedback
    \<Rightarrow> ('w, 'f) session_feature \<Rightarrow> ('w, 'f) session_feature option" where
  "system_media_session_Session_interface_media_session_increaseVolume api handle fb st =
     session_command api handle ''media_session_increase_volume'' ''increase session error'' None fb st"

definition system_media_session_Session_interface_media_session_decreaseVolume :: "('w, 'f) feature_api \<Rightarrow> int \<Rightarrow> feedback
    \<Rightarrow> ('w, 'f) session_feature \<Rightarrow> ('w, 'f) session_feature option" where
  "system_media_session_Session_interface_media_session_decreaseVolume api handle fb st =
     session_command api handle ''media_session_decrease_volume'' ''decrease session error'' None fb st"

definition system_media_session_Session_interface_media_session_set_onEvent :: "int \<Rightarrow> ('w, 'f) session_feature \<Rightarrow> ('w, 'f) session_feature" where
  "system_media_session_Session_interface_media_session_set_onEvent cb st =
     st\<lparr>sx_obj := map_option (sx_onstatuschange_update (\<lambda>_. cb)) (sx_obj st)\<rparr>"

section \<open>Volume\<close>

definition ERROR_CODE :: int where "ERROR_CODE = 202"

datatype volume_op = VOLUME_OP_GET | VOLUME_OP_SET | VOLUME_OP_NONE

record 'f volume_handle =
  vh_feature :: int
  vh_op :: volume_op
  vh_success :: int
  vh_fail :: int
  vh_complete :: int
  vh_value :: 'f

definition volume_malloc :: "('w, 'f) feature_api \<Rightarrow> 'f float_ops \<Rightarrow> int \<Rightarrow> ('w, 'f) feature \<Rightarrow> ('f volume_handle \<times> ('w, 'f) feature) option" where
  \<comment> \<open>the block is written whether \<open>malloc\<close> returned one or not\<close>
  "volume_malloc api fl feature st = (case fcall api ''malloc'' [] st of (p, st1) \<Rightarrow>
     if p = 0 then None
     else Some (\<lparr>vh_feature = feature, vh_op = VOLUME_OP_NONE, vh_success = -1, vh_fail = -1, vh_complete = -1, vh_value = fl_of_int fl 0\<rparr>, st1))"

definition volume_free :: "('w, 'f) feature_api \<Rightarrow> ('w, 'f) feature \<Rightarrow> ('w, 'f) feature" where
  "volume_free api st = fdo api ''free'' [] st"

definition finish_callback :: "('w, 'f) feature_api \<Rightarrow> int \<Rightarrow> int \<Rightarrow> string \<Rightarrow> 'f option \<Rightarrow> 'f volume_handle \<Rightarrow> ('w, 'f) feature
    \<Rightarrow> ('w, 'f) feature" where
  \<comment> \<open>the id of \<open>success\<close> is looked up only for a status of 0\<close>
  "finish_callback api status feature msg volumeRet handle st =
    (let (ok, st1) = (if status = 0 then fcall api ''FeatureCheckCallbackId'' [Obj (vh_feature handle), Num (vh_success handle)] st else (0, st));
         st2 = (if ok \<noteq> 0
           then fdo api ''FeatureRemoveCallback'' [Obj feature, Num (vh_success handle)]
             (case volumeRet of
                None \<Rightarrow> fdo api ''FeatureInvokeCallback'' [Obj feature, Num (vh_success handle), Text (Some ''success'')] st1
              | Some v \<Rightarrow> fdo api ''FeatureInvokeCallback'' [Obj (vh_feature handle), Num (vh_success handle), Ret v] st1)
           else settle api feature (vh_fail handle) [Text (Some msg), Num status] st1);
         st3 = settle api (vh_feature handle) (vh_complete handle) [Text (Some (if status = 0 then ''success'' else ''fail''))] st2 in
     volume_free api st3)"

definition volume_set_cb :: "('w, 'f) feature_api \<Rightarrow> 'f volume_handle \<Rightarrow> int \<Rightarrow> ('w, 'f) feature \<Rightarrow> ('w, 'f) feature" where
  "volume_set_cb api handle ret st = finish_callback api ret (vh_feature handle) ''volume_set_cb failed'' None handle st"

definition volume_get_cb :: "('w, 'f) feature_api \<Rightarrow> 'f float_ops \<Rightarrow> 'f volume_handle \<Rightarrow> int \<Rightarrow> int \<Rightarrow> ('w, 'f) feature \<Rightarrow> ('w, 'f) feature" where
  "volume_get_cb api fl handle ret value st =
    (if 0 \<le> ret \<and> 0 \<le> value \<and> value \<le> 10
     then finish_callback api 0 (vh_feature handle) ''success'' (Some (fl_div fl (fl_of_int fl value) (fl_of_int fl 10))) handle
       (fdo api ''system_volumeMallocGetRet'' [] st)
     else finish_callback api (-1) (vh_feature handle) ''volume_get_cb volume invalid'' None handle st)"

definition system_volume_wrap_setMediaValue :: "('w, 'f) feature_api \<Rightarrow> 'f float_ops \<Rightarrow> int \<Rightarrow> feedback \<Rightarrow> 'f \<Rightarrow> ('w, 'f) feature
    \<Rightarrow> ('f volume_handle option \<times> ('w, 'f) feature) option" where
  \<comment> \<open>also the block that is left to \<open>volume_set_cb\<close>\<close>
  "system_volume_wrap_setMediaValue api fl feature info value st = do {
     (h0, st1) \<leftarrow> volume_malloc api fl feature st;
     let handle = h0\<lparr>vh_op := VOLUME_OP_SET, vh_value := value, vh_success := fb_success info, vh_fail := fb_fail info, vh_complete := fb_complete info\<rparr>;
     Some (if fl_less fl value (fl_of_int fl 0) \<or> fl_less fl (fl_of_int fl 1) value
       then (None, finish_callback api ERROR_CODE feature ''param is invalid'' None handle st1)
       else (case fcall api ''FeatureGetManagerHandleFromInstance'' [Obj feature] st1 of (manager, st2) \<Rightarrow>
         case fcall api ''FeatureGetUVLoop'' [Obj manager] st2 of (loop, st3) \<Rightarrow>
         case fcall api ''media_uv_policy_set_stream_volume'' [Obj loop, Text (Some MEDIA_STREAM_MUSIC),
             Num (fl_trunc fl (fl_times fl value (fl_of_int fl 10))), Fn ''volume_set_cb''] st3 of (status, st4) \<Rightarrow>
         if status \<noteq> 0 then (None, finish_callback api ERROR_CODE feature ''media_uv_policy_set_stream_volume fail'' None handle st4)
         else (Some handle, st4)))
   }"

definition system_volume_wrap_getMediaValue :: "('w, 'f) feature_api \<Rightarrow> 'f float_ops \<Rightarrow> int \<Rightarrow> feedback \<Rightarrow> ('w, 'f) feature
    \<Rightarrow> ('f volume_handle option \<times> ('w, 'f) feature) option" where
  "system_volume_wrap_getMediaValue api fl feature info st = do {
     (h0, st1) \<leftarrow> volume_malloc api fl feature st;
     let handle = h0\<lparr>vh_op := VOLUME_OP_GET, vh_success := fb_success info, vh_fail := fb_fail info, vh_complete := fb_complete info\<rparr>;
     Some (case fcall api ''FeatureGetManagerHandleFromInstance'' [Obj feature] st1 of (manager, st2) \<Rightarrow>
       case fcall api ''FeatureGetUVLoop'' [Obj manager] st2 of (loop, st3) \<Rightarrow>
       case fcall api ''media_uv_policy_get_stream_volume'' [Obj loop, Text (Some MEDIA_STREAM_MUSIC), Fn ''volume_get_cb''] st3 of (status, st4) \<Rightarrow>
       if status \<noteq> 0 then (None, finish_callback api ERROR_CODE feature ''media_uv_policy_get_stream_volume failed'' None handle st4)
       else (Some handle, st4))
   }"

end
