(* ===== verification/Feature_Facts.thy ===== *)
theory Feature_Facts
  imports Media_Feature
begin

text \<open>
  What holds of the bindings for scripts: a request for the volume is answered once, whatever the runtime and
  the library return; and runs that show where the player's binding goes wrong.
\<close>

section \<open>Volume\<close>

definition registered :: "('w, 'f) feature_api \<Rightarrow> bool" where
  \<comment> \<open>the callbacks of the script are known to the runtime\<close>
  "registered api \<longleftrightarrow> (\<forall>args w. fst (api ''FeatureCheckCallbackId'' args w) \<noteq> 0)"

type_synonym 'f feature_call = "string \<times> 'f feature_arg list \<times> int"

fun invokes :: "int \<Rightarrow> 'f feature_call \<Rightarrow> bool" where
  "invokes cb (f, args, ret) \<longleftrightarrow> f = ''FeatureInvokeCallback'' \<and> (\<exists>h rest. args = Obj h # Num cb # rest)"

definition invoked :: "int \<Rightarrow> 'f feature_call list \<Rightarrow> nat" where "invoked cb ds = length (filter (invokes cb) ds)"

definition freed :: "'f feature_call list \<Rightarrow> nat" where "freed ds = length (filter (\<lambda>d. fst d = ''free'') ds)"

lemma counts [simp]:
  "invoked cb [] = 0" "freed [] = 0" "invoked cb (ds @ es) = invoked cb ds + invoked cb es" "freed (ds @ es) = freed ds + freed es"
  "invoked cb (d # ds) = (if invokes cb d then 1 else 0) + invoked cb ds"
  "freed (d # ds) = (if fst d = ''free'' then 1 else 0) + freed ds"
  by (simp_all add: invoked_def freed_def)

lemma fdo_calls: "\<exists>ret. fe_calls (fdo api f args st) = fe_calls st @ [(f, args, ret)]"
  by (simp add: fdo_def fcall_def split: prod.split)

lemma fcall_cases:
  obtains ret st1 where "fcall api f args st = (ret, st1)" "fe_calls st1 = fe_calls st @ [(f, args, ret)]"
    "ret = fst (api f args (fe_world st))"
  by (cases "api f args (fe_world st)") (simp add: fcall_def)

lemma settle_once:
  assumes "registered api"
  shows "\<exists>ds. fe_calls (settle api f cb args st) = fe_calls st @ ds \<and> (\<forall>c. invoked c ds = (if c = cb then 1 else 0)) \<and> freed ds = 0"
proof -
  obtain ok st1 where c: "fcall api ''FeatureCheckCallbackId'' [Obj f, Num cb] st = (ok, st1)"
    "fe_calls st1 = fe_calls st @ [(''FeatureCheckCallbackId'', [Obj f, Num cb], ok)]"
    "ok = fst (api ''FeatureCheckCallbackId'' [Obj f, Num cb] (fe_world st))"
    by (rule fcall_cases)
  have ok: "ok \<noteq> 0" using assms c(3) by (simp add: registered_def)
  obtain r1 where i: "fe_calls (fdo api ''FeatureInvokeCallback'' ([Obj f, Num cb] @ args) st1)
      = fe_calls st1 @ [(''FeatureInvokeCallback'', [Obj f, Num cb] @ args, r1)]"
    using fdo_calls by blast
  obtain r2 where r: "fe_calls (fdo api ''FeatureRemoveCallback'' [Obj f, Num cb] (fdo api ''FeatureInvokeCallback'' ([Obj f, Num cb] @ args) st1))
      = fe_calls (fdo api ''FeatureInvokeCallback'' ([Obj f, Num cb] @ args) st1) @ [(''FeatureRemoveCallback'', [Obj f, Num cb], r2)]"
    using fdo_calls by blast
  show ?thesis unfolding settle_def using ok c i r by simp
qed

lemma finish_once:
  assumes "registered api" "vh_feature handle = feature"
  shows "\<exists>ds. fe_calls (finish_callback api status feature msg v handle st) = fe_calls st @ ds
    \<and> (\<forall>c. invoked c ds = (if c = (if status = 0 then vh_success handle else vh_fail handle) then 1 else 0)
        + (if c = vh_complete handle then 1 else 0)) \<and> freed ds = 1"
proof -
  define args where "args = (case v of None \<Rightarrow> Text (Some ''success'') | Some x \<Rightarrow> Ret x)"
  define cb where "cb = (if status = 0 then vh_success handle else vh_fail handle)"
  define st2 where "st2 = settle api feature cb (if status = 0 then [args] else [Text (Some msg), Num status]) st"
  define st3 where "st3 = settle api feature (vh_complete handle) [Text (Some (if status = 0 then ''success'' else ''fail''))] st2"
  have "fst (fcall api ''FeatureCheckCallbackId'' [Obj feature, Num (vh_success handle)] st) \<noteq> 0"
    using assms(1) by (simp add: registered_def fcall_def split: prod.split) (metis fst_conv)
  then have f: "finish_callback api status feature msg v handle st = fdo api ''free'' [] st3"
    unfolding finish_callback_def st3_def st2_def settle_def args_def cb_def volume_free_def assms(2)
    by (cases v) (auto simp: Let_def case_prod_beta)
  from settle_once[OF assms(1)] obtain d1 where "fe_calls st2 = fe_calls st @ d1"
    "\<forall>c. invoked c d1 = (if c = cb then 1 else 0)" "freed d1 = 0" unfolding st2_def by blast
  moreover from settle_once[OF assms(1)] obtain d2 where "fe_calls st3 = fe_calls st2 @ d2"
    "\<forall>c. invoked c d2 = (if c = vh_complete handle then 1 else 0)" "freed d2 = 0" unfolding st3_def by blast
  moreover obtain r where "fe_calls (fdo api ''free'' [] st3) = fe_calls st3 @ [(''free'', [], r)]" using fdo_calls by blast
  ultimately show ?thesis unfolding f cb_def by simp
qed


definition int_ops :: "int float_ops" where
  "int_ops = \<lparr>fl_of_int = id, fl_trunc = id, fl_less = (<), fl_times = (*), fl_div = (div)\<rparr>"

definition feature_demo :: "(int, int) feature_api" where
  \<comment> \<open>memory, and callbacks that are registered\<close>
  "feature_demo f args w = (if f = ''malloc'' \<or> f = ''FeatureCheckCallbackId'' then 1 else 0, w + 1)"


section \<open>Where the bindings go wrong\<close>

lemma audio_play_leaks:
  \<comment> \<open>a second \<open>play\<close> before the first has started opens another player over the handle\<close>
  assumes "au_obj st = Some obj" "au_state obj = MEDIA_STATE_STOPPED"
  shows "\<exists>ds h1 h2 obj2. fe_calls (system_audio_wrap_play api f (system_audio_wrap_play api f st)) = fe_calls st @ ds
    \<and> filter (\<lambda>d. fst d = ''media_uv_player_open'') ds = [(''media_uv_player_open'', h1), (''media_uv_player_open'', h2)]
    \<and> filter (\<lambda>d. fst d = ''media_uv_player_close'') ds = []
    \<and> au_obj (system_audio_wrap_play api f (system_audio_wrap_play api f st)) = Some obj2 \<and> au_handle obj2 = snd h2"
  using assms by (simp add: system_audio_wrap_play_def fcall_def on_obj_def MEDIA_STATE_STOPPED_def MEDIA_STATE_STARTED_def
      MEDIA_STATE_PAUSED_def split: prod.split)

lemma audio_src_unterminated:
  \<comment> \<open>a source of 128 characters leaves no zero in the array\<close>
  assumes "MAX_URL_LEN \<le> length src" "NUL \<notin> set src"
  shows "c_string_at (strncpy MAX_URL_LEN src) 0 = None"
  using assms set_take_subset[of MAX_URL_LEN src] by (auto simp: c_string_at_def strncpy_def)

lemma audio_unmute_silences:
  "system_audio_set_muted api fl False st = system_audio_set_muted api fl True st"
  by (simp add: system_audio_set_muted_def)

end
